(* ===== verification/Prelude.thy ===== *)
theory Prelude
  imports Main "HOL-Library.Word"
begin

text \<open>
  Shared material of the development.

  \<^item> Names for the C integer types the sources use.
  \<^item> \<open>find_idx\<close> and \<open>count_if\<close>: the two loops that every fixed-size table of the program is
    scanned with (first index that satisfies a test; number of occupied slots).
  \<^item> The locales \<open>slot_table\<close> and \<open>keyed_table\<close>: the contract of a fixed array of records with
    an \<open>in_use\<close> flag, which the session table, the client table, the routing-rule table, the
    packet-filter table and the accounting table all obey.
  \<^item> The locale \<open>guarded_machine\<close>: invariants of a component lifted from one operation to any
    sequence of operations.
  \<^item> The locale \<open>releaser\<close>: releasing the resources held under a list of keys.
\<close>

type_synonym u8 = "8 word"
type_synonym u16 = "16 word"
type_synonym u32 = "32 word"
type_synonym u64 = "64 word"

named_theorems table_simps \<open>rewrite rules for scans of fixed-size tables\<close>

section \<open>First index and number of occupied slots\<close>

fun find_idx :: "('a \<Rightarrow> bool) \<Rightarrow> 'a list \<Rightarrow> nat option" where
  "find_idx P [] = None"
| "find_idx P (x # xs) = (if P x then Some 0 else map_option Suc (find_idx P xs))"

definition count_if :: "('a \<Rightarrow> bool) \<Rightarrow> 'a list \<Rightarrow> nat" where
  "count_if P xs = length (filter P xs)"

lemma find_idx_SomeD:
  "find_idx P xs = Some i \<Longrightarrow> i < length xs \<and> P (xs ! i) \<and> (\<forall>j<i. \<not> P (xs ! j))"
proof (induction xs arbitrary: i)
  case Nil
  then show ?case by simp
next
  case (Cons x xs)
  show ?case
  proof (cases "P x")
    case True
    with Cons.prems show ?thesis by simp
  next
    case False
    with Cons.prems obtain k where k: "find_idx P xs = Some k" "i = Suc k" by auto
    from Cons.IH [OF k(1)] k(2) False show ?thesis
      by (auto simp: nth_Cons split: nat.splits)
  qed
qed

lemma find_idx_SomeI:
  "i < length xs \<Longrightarrow> P (xs ! i) \<Longrightarrow> (\<And>j. j < i \<Longrightarrow> \<not> P (xs ! j)) \<Longrightarrow> find_idx P xs = Some i"
proof (induction xs arbitrary: i)
  case Nil
  then show ?case by simp
next
  case (Cons x xs)
  show ?case
  proof (cases i)
    case 0
    with Cons.prems show ?thesis by simp
  next
    case (Suc k)
    have "\<not> P x" using Cons.prems(3) [of 0] Suc by simp
    moreover have "find_idx P xs = Some k"
    proof (rule Cons.IH)
      show "k < length xs" "P (xs ! k)" using Cons.prems Suc by auto
      show "\<not> P (xs ! j)" if "j < k" for j
        using Cons.prems(3) [of "Suc j"] that Suc by simp
    qed
    ultimately show ?thesis using Suc by simp
  qed
qed

lemma find_idx_Some_iff:
  "find_idx P xs = Some i \<longleftrightarrow> i < length xs \<and> P (xs ! i) \<and> (\<forall>j<i. \<not> P (xs ! j))"
  using find_idx_SomeD [of P xs i] find_idx_SomeI [of i xs P] by blast

lemma find_idx_None_iff: "find_idx P xs = None \<longleftrightarrow> (\<forall>x\<in>set xs. \<not> P x)"
  by (induction xs) auto

lemma find_idx_ex: "x \<in> set xs \<Longrightarrow> P x \<Longrightarrow> \<exists>i. find_idx P xs = Some i"
  by (induction xs) auto

lemma find_idx_append_None:
  "find_idx P xs = None \<Longrightarrow> find_idx P (xs @ ys) = map_option (\<lambda>i. length xs + i) (find_idx P ys)"
  by (cases "find_idx P ys"; induction xs) (auto split: if_splits)

lemma find_idx_less: "find_idx P xs = Some i \<Longrightarrow> i < length xs"
  by (simp add: find_idx_Some_iff)

lemma find_idx_holds: "find_idx P xs = Some i \<Longrightarrow> P (xs ! i)"
  by (simp add: find_idx_Some_iff)

lemma find_idx_update_unaffected:
  assumes "i < length xs" and "P v = P (xs ! i)"
  shows "find_idx P (xs[i := v]) = find_idx P xs"
  using assms
proof (induction xs arbitrary: i)
  case (Cons x xs)
  then show ?case by (cases i) auto
qed simp

lemma count_if_simps [simp]:
  "count_if P [] = 0"
  "count_if P (x # xs) = (if P x then Suc (count_if P xs) else count_if P xs)"
  by (simp_all add: count_if_def)

lemma count_if_append: "count_if P (xs @ ys) = count_if P xs + count_if P ys"
  by (simp add: count_if_def)

lemma count_if_replicate: "count_if P (replicate n x) = (if P x then n else 0)"
  by (induction n) auto

lemma count_if_le_length: "count_if P xs \<le> length xs"
  by (simp add: count_if_def)

lemma count_if_eq_0_iff: "count_if P xs = 0 \<longleftrightarrow> (\<forall>x\<in>set xs. \<not> P x)"
  by (simp add: count_if_def filter_empty_conv)

lemma count_if_full_iff: "count_if P xs = length xs \<longleftrightarrow> (\<forall>x\<in>set xs. P x)"
proof (induction xs)
  case (Cons x xs)
  then show ?case using count_if_le_length [of P xs] by auto
qed simp

lemma count_if_update:
  "i < length xs \<Longrightarrow>
   count_if P (xs[i := v]) + (if P (xs ! i) then 1 else 0)
     = count_if P xs + (if P v then 1 else 0)"
proof (induction xs arbitrary: i)
  case (Cons x xs)
  then show ?case by (cases i) auto
qed simp

lemma count_if_map: "count_if P (map f xs) = count_if (P \<circ> f) xs"
  by (induction xs) auto

lemma count_if_mono: "(\<And>x. x \<in> set xs \<Longrightarrow> P x \<Longrightarrow> Q x) \<Longrightarrow> count_if P xs \<le> count_if Q xs"
  by (induction xs) (auto simp: le_SucI)

lemma count_if_pos_nth: "i < length xs \<Longrightarrow> P (xs ! i) \<Longrightarrow> 0 < count_if P xs"
  by (metis count_if_eq_0_iff gr0I nth_mem)

lemma list_update_nth_eq: "j < length xs \<Longrightarrow> xs[i := v] ! j = (if i = j then v else xs ! j)"
  by (simp add: nth_list_update)

lemmas find_idx_dests = find_idx_less find_idx_holds

lemma set_update_split: "i < length xs \<Longrightarrow> set (xs[i := v]) \<subseteq> insert v (set xs)"
  by (rule set_update_subset_insert)

lemma unat_less_uint: "unat w < n \<longleftrightarrow> uint w < int n"
proof -
  have "unat w < n \<longleftrightarrow> int (unat w) < int n" by (rule of_nat_less_iff [symmetric])
  then show ?thesis by simp
qed

section \<open>Tables of slots with an occupancy flag\<close>

locale slot_table =
  fixes used :: "'a \<Rightarrow> bool" and blank :: 'a
  assumes blank_unused: "\<not> used blank"
begin

lemma blank_table: "count_if used (replicate n blank) = 0"
  by (simp add: count_if_replicate blank_unused)

lemma take_slot:
  assumes "find_idx (\<lambda>x. \<not> used x) xs = Some i" and "used v"
  shows "count_if used (xs[i := v]) = Suc (count_if used xs)"
  using count_if_update [of i xs used v] find_idx_SomeD [OF assms(1)] assms(2) by simp

lemma free_slot:
  assumes "i < length xs" and "used (xs ! i)" and "\<not> used v"
  shows "Suc (count_if used (xs[i := v])) = count_if used xs"
  using count_if_update [of i xs used v] assms by simp

lemma keep_slot:
  assumes "i < length xs" and "used v = used (xs ! i)"
  shows "count_if used (xs[i := v]) = count_if used xs"
  using count_if_update [of i xs used v] assms by (simp split: if_splits)

lemma no_free_slot_iff:
  "find_idx (\<lambda>x. \<not> used x) xs = None \<longleftrightarrow> count_if used xs = length xs"
  by (simp add: find_idx_None_iff count_if_full_iff)

lemma free_slot_exists:
  "count_if used xs < length xs \<Longrightarrow> \<exists>i. find_idx (\<lambda>x. \<not> used x) xs = Some i"
  using no_free_slot_iff [of xs] by (cases "find_idx (\<lambda>x. \<not> used x) xs") auto

lemma wipe_table: "count_if used (map (\<lambda>_. blank) xs) = 0"
  by (induction xs) (auto simp: blank_unused)

end

definition keys_unique :: "('a \<Rightarrow> bool) \<Rightarrow> ('a \<Rightarrow> 'k) \<Rightarrow> 'a list \<Rightarrow> bool" where
  "keys_unique used key xs \<longleftrightarrow>
     (\<forall>i<length xs. \<forall>j<length xs. used (xs ! i) \<longrightarrow> used (xs ! j) \<longrightarrow> key (xs ! i) = key (xs ! j) \<longrightarrow> i = j)"

text \<open>The finite map a keyed table stands for: the first occupied slot with the key.\<close>

definition table_map :: "('a \<Rightarrow> bool) \<Rightarrow> ('a \<Rightarrow> 'k) \<Rightarrow> 'a list \<Rightarrow> 'k \<Rightarrow> 'a option" where
  "table_map used key xs k = map_option ((!) xs) (find_idx (\<lambda>x. used x \<and> key x = k) xs)"

locale keyed_table = slot_table used blank
  for used :: "'a \<Rightarrow> bool" and blank :: 'a +
  fixes key :: "'a \<Rightarrow> 'k"
begin

lemma lookup_inserted:
  assumes free: "find_idx (\<lambda>x. \<not> used x) xs = Some i"
    and v: "used v" "key v = k"
    and fresh: "find_idx (\<lambda>x. used x \<and> key x = k) xs = None"
  shows "find_idx (\<lambda>x. used x \<and> key x = k) (xs[i := v]) = Some i"
proof (rule find_idx_SomeI)
  show "i < length (xs[i := v])" using free by (simp add: find_idx_less)
  then show "used (xs[i := v] ! i) \<and> key (xs[i := v] ! i) = k" using v by simp
  show "\<not> (used (xs[i := v] ! j) \<and> key (xs[i := v] ! j) = k)" if "j < i" for j
    using that fresh find_idx_less [OF free] by (auto simp: find_idx_None_iff)
qed

lemma lookup_other_inserted:
  assumes free: "find_idx (\<lambda>x. \<not> used x) xs = Some i" and v: "key v \<noteq> k"
  shows "find_idx (\<lambda>x. used x \<and> key x = k) (xs[i := v]) = find_idx (\<lambda>x. used x \<and> key x = k) xs"
  using find_idx_SomeD [OF free] v by (intro find_idx_update_unaffected) auto

lemma lookup_removed:
  assumes uniq: "keys_unique used key xs"
    and hit: "find_idx (\<lambda>x. used x \<and> key x = k) xs = Some i"
    and gone: "\<not> used v"
  shows "find_idx (\<lambda>x. used x \<and> key x = k) (xs[i := v]) = None"
proof -
  have i: "i < length xs" "used (xs ! i)" "key (xs ! i) = k"
    using find_idx_SomeD [OF hit] by auto
  have "\<not> (used (xs[i := v] ! j) \<and> key (xs[i := v] ! j) = k)" if "j < length xs" for j
  proof (cases "j = i")
    case True
    with gone i show ?thesis by simp
  next
    case False
    with uniq i that show ?thesis by (auto simp: keys_unique_def)
  qed
  then show ?thesis by (fastforce simp: find_idx_None_iff in_set_conv_nth)
qed

lemma lookup_other_removed:
  assumes i: "i < length xs" "key (xs ! i) \<noteq> k" and gone: "\<not> used v"
  shows "find_idx (\<lambda>x. used x \<and> key x = k) (xs[i := v]) = find_idx (\<lambda>x. used x \<and> key x = k) xs"
  using i gone by (intro find_idx_update_unaffected) auto

lemma unique_blank: "keys_unique used key (replicate n blank)"
  by (simp add: keys_unique_def blank_unused)

lemma unique_inserted:
  assumes uniq: "keys_unique used key xs"
    and free: "find_idx (\<lambda>x. \<not> used x) xs = Some i"
    and fresh: "find_idx (\<lambda>x. used x \<and> key x = key v) xs = None"
  shows "keys_unique used key (xs[i := v])"
  using assms find_idx_less [OF free]
  by (fastforce simp: keys_unique_def find_idx_None_iff nth_list_update)

lemma unique_removed:
  assumes "keys_unique used key xs" and "\<not> used v"
  shows "keys_unique used key (xs[i := v])"
  using assms by (cases "i < length xs") (auto simp: keys_unique_def nth_list_update)

lemma unique_kept:
  assumes "keys_unique used key xs" and "key v = key (xs ! i)" and "used v \<Longrightarrow> used (xs ! i)"
  shows "keys_unique used key (xs[i := v])"
  using assms by (cases "i < length xs") (auto simp: keys_unique_def nth_list_update)

lemma unique_lookup:
  assumes "keys_unique used key xs" and "i < length xs" and "used (xs ! i)"
  shows "find_idx (\<lambda>x. used x \<and> key x = key (xs ! i)) xs = Some i"
proof (rule find_idx_SomeI)
  show "i < length xs" "used (xs ! i) \<and> key (xs ! i) = key (xs ! i)" using assms by auto
  show "\<not> (used (xs ! j) \<and> key (xs ! j) = key (xs ! i))" if "j < i" for j
    using assms that unfolding keys_unique_def by (metis order.strict_trans order_less_irrefl)
qed

lemma table_map_blank: "table_map used key (replicate n blank) = Map.empty"
  by (rule ext) (simp add: table_map_def find_idx_None_iff blank_unused)

lemma table_map_SomeD:
  assumes "table_map used key xs k = Some v"
  shows "\<exists>i<length xs. xs ! i = v \<and> used v \<and> key v = k"
  using assms by (auto simp: table_map_def dest!: find_idx_SomeD)

lemma table_map_None_iff:
  "table_map used key xs k = None \<longleftrightarrow> (\<forall>x\<in>set xs. used x \<longrightarrow> key x \<noteq> k)"
  by (auto simp: table_map_def find_idx_None_iff)

lemma table_map_inserted:
  assumes free: "find_idx (\<lambda>x. \<not> used x) xs = Some i" and v: "used v"
    and fresh: "table_map used key xs (key v) = None"
  shows "table_map used key (xs[i := v]) = (table_map used key xs)(key v \<mapsto> v)"
proof (rule ext)
  fix k
  have i: "i < length xs" "\<not> used (xs ! i)" using find_idx_SomeD [OF free] by auto
  show "table_map used key (xs[i := v]) k = ((table_map used key xs)(key v \<mapsto> v)) k"
  proof (cases "k = key v")
    case True
    have "find_idx (\<lambda>x. used x \<and> key x = key v) xs = None" using fresh by (simp add: table_map_def)
    from lookup_inserted [OF free v refl this] True i show ?thesis by (simp add: table_map_def)
  next
    case False
    then have "find_idx (\<lambda>x. used x \<and> key x = k) (xs[i := v]) = find_idx (\<lambda>x. used x \<and> key x = k) xs"
      by (intro lookup_other_inserted [OF free]) simp
    then show ?thesis using False i
      by (auto simp: table_map_def nth_list_update map_option_case dest!: find_idx_holds split: option.splits)
  qed
qed

lemma table_map_removed:
  assumes uniq: "keys_unique used key xs"
    and hit: "find_idx (\<lambda>x. used x \<and> key x = k) xs = Some i" and gone: "\<not> used v"
  shows "table_map used key (xs[i := v]) = (table_map used key xs)(k := None)"
proof (rule ext)
  fix k'
  have i: "i < length xs" "key (xs ! i) = k" using find_idx_SomeD [OF hit] by auto
  show "table_map used key (xs[i := v]) k' = ((table_map used key xs)(k := None)) k'"
  proof (cases "k' = k")
    case True
    with lookup_removed [OF uniq hit gone] show ?thesis by (simp add: table_map_def)
  next
    case False
    then have "find_idx (\<lambda>x. used x \<and> key x = k') (xs[i := v]) = find_idx (\<lambda>x. used x \<and> key x = k') xs"
      using i by (intro lookup_other_removed [OF _ _ gone]) auto
    then show ?thesis using False i
      by (auto simp: table_map_def nth_list_update map_option_case dest!: find_idx_holds split: option.splits)
  qed
qed

lemma table_map_updated:
  assumes hit: "find_idx (\<lambda>x. used x \<and> key x = k) xs = Some i" and v: "used v" "key v = k"
  shows "table_map used key (xs[i := v]) = (table_map used key xs)(k \<mapsto> v)"
proof (rule ext)
  fix k'
  have i: "i < length xs" "used (xs ! i)" "key (xs ! i) = k" using find_idx_SomeD [OF hit] by auto
  have "find_idx (\<lambda>x. used x \<and> key x = k') (xs[i := v]) = find_idx (\<lambda>x. used x \<and> key x = k') xs"
    using i v by (intro find_idx_update_unaffected) auto
  then show "table_map used key (xs[i := v]) k' = ((table_map used key xs)(k \<mapsto> v)) k'"
    using i v hit
    by (auto simp: table_map_def nth_list_update map_option_case dest!: find_idx_holds split: option.splits)
qed

end

section \<open>Runs of a component\<close>

text \<open>
  A component is a step function over its operations. Where an operation promises its invariant
  only under a precondition (\<open>ok\<close>), the precondition is a premise of the run.
\<close>

locale guarded_machine =
  fixes step :: "'s \<Rightarrow> 'e \<Rightarrow> 's" and inv :: "'s \<Rightarrow> bool" and ok :: "'e \<Rightarrow> bool"
  assumes step_inv: "inv s \<Longrightarrow> ok e \<Longrightarrow> inv (step s e)"
begin

lemma run_inv: "inv s \<Longrightarrow> (\<And>e. e \<in> set es \<Longrightarrow> ok e) \<Longrightarrow> inv (foldl step s es)"
  by (induction es arbitrary: s) (auto intro: step_inv)

end

section \<open>Releasing the resources held under keys\<close>

locale releaser =
  fixes release :: "'k \<Rightarrow> 's \<Rightarrow> 's" and holds :: "'s \<Rightarrow> 'k \<Rightarrow> bool" and inv :: "'s \<Rightarrow> bool"
  assumes release_inv: "inv s \<Longrightarrow> inv (release k s)"
    and release_clears: "inv s \<Longrightarrow> \<not> holds (release k s) k"
    and release_frame: "inv s \<Longrightarrow> k' \<noteq> k \<Longrightarrow> holds (release k s) k' = holds s k'"
begin

lemma release_all_inv: "inv s \<Longrightarrow> inv (fold release ks s)"
  by (induction ks arbitrary: s) (auto intro: release_inv)

lemma release_all_holds: "inv s \<Longrightarrow> holds (fold release ks s) k = (holds s k \<and> k \<notin> set ks)"
proof (induction ks arbitrary: s)
  case (Cons a ks)
  then show ?case
    by (cases "k = a") (auto simp: release_inv release_clears release_frame)
qed simp

end

end
