(* ===== verification/CString.thy ===== *)
theory CString
  imports Prelude
begin

text \<open>
  The part of the C library the sources use on character strings.

  A C string is the list of its characters before the terminating zero byte. A buffer of
  \<open>n\<close> bytes holds a string of at most \<open>n - 1\<close> characters: \<open>strncpy_buf n\<close> is \<open>strncpy\<close>
  with bound \<open>n\<close> into a buffer of \<open>n + 1\<close> bytes whose last byte is zero, \<open>snprintf_buf n\<close> is
  the text that \<open>snprintf\<close> leaves in a buffer of \<open>n\<close> bytes. Equality of strings is
  \<open>strcmp(..) == 0\<close>, and \<open>s = []\<close> is \<open>s[0] == '\0'\<close>.
  The number readers follow the GNU C library where the standard leaves the result open:
  \<open>strtol\<close> and \<open>strtoul\<close> saturate, \<open>atoi\<close> and \<open>%d\<close> truncate the \<open>long\<close> they read.
\<close>

section \<open>Buffers\<close>

definition strncpy_buf :: "nat \<Rightarrow> string \<Rightarrow> string" where
  "strncpy_buf n s = take n s"

definition snprintf_buf :: "nat \<Rightarrow> string \<Rightarrow> string" where
  "snprintf_buf n s = take (n - 1) s"

lemma strncpy_buf_id [simp]: "length s \<le> n \<Longrightarrow> strncpy_buf n s = s"
  by (simp add: strncpy_buf_def)

lemma strncpy_buf_length: "length (strncpy_buf n s) \<le> n"
  by (simp add: strncpy_buf_def)

lemma strncpy_buf_Nil_iff [simp]: "strncpy_buf n s = [] \<longleftrightarrow> n = 0 \<or> s = []"
  by (simp add: strncpy_buf_def)

lemma strncpy_buf_truncates: "n < length s \<Longrightarrow> strncpy_buf n s \<noteq> s"
  using strncpy_buf_length [of n s] by (metis leD)

lemma strncpy_buf_idem [simp]: "strncpy_buf n (strncpy_buf n s) = strncpy_buf n s"
  by (simp add: strncpy_buf_def)

section \<open>Character classes\<close>

definition isdigit :: "char \<Rightarrow> bool" where
  "isdigit c \<longleftrightarrow> 48 \<le> (of_char c :: nat) \<and> (of_char c :: nat) \<le> 57"

definition isspace :: "char \<Rightarrow> bool" where
  "isspace c \<longleftrightarrow> (of_char c :: nat) = 32 \<or> (9 \<le> (of_char c :: nat) \<and> (of_char c :: nat) \<le> 13)"

definition tolower :: "char \<Rightarrow> char" where
  "tolower c = (if 65 \<le> (of_char c :: nat) \<and> (of_char c :: nat) \<le> 90
                then char_of ((of_char c :: nat) + 32) else c)"

definition digit_val :: "char \<Rightarrow> int" where
  "digit_val c = of_char c - 48"

definition digit_char :: "int \<Rightarrow> char" where
  "digit_char d = char_of (48 + d)"

definition strcasecmp_eq :: "string \<Rightarrow> string \<Rightarrow> bool" where
  "strcasecmp_eq a b \<longleftrightarrow> map tolower a = map tolower b"

lemma of_char_digit_char: "0 \<le> d \<Longrightarrow> d < 10 \<Longrightarrow> (of_char (digit_char d) :: int) = 48 + d"
  by (simp add: digit_char_def)

lemma isdigit_int: "isdigit c \<longleftrightarrow> 48 \<le> (of_char c :: int) \<and> (of_char c :: int) \<le> 57"
proof -
  have "(of_char c :: int) = int (of_char c)" by (simp add: of_nat_of_char)
  then show ?thesis by (auto simp: isdigit_def)
qed

lemma isdigit_digit_char: "0 \<le> d \<Longrightarrow> d < 10 \<Longrightarrow> isdigit (digit_char d)"
  by (simp add: isdigit_int of_char_digit_char)

lemma digit_val_digit_char: "0 \<le> d \<Longrightarrow> d < 10 \<Longrightarrow> digit_val (digit_char d) = d"
  by (simp add: digit_val_def of_char_digit_char)

lemma isdigit_not_isspace: "isdigit c \<Longrightarrow> \<not> isspace c"
  by (auto simp: isdigit_def isspace_def)

lemma isdigit_not_sign: "isdigit c \<Longrightarrow> c \<noteq> CHR ''-'' \<and> c \<noteq> CHR ''+''"
  by (auto simp: isdigit_def)

section \<open>Decimal numerals\<close>

text \<open>\<open>show_dec\<close> prints a non-negative number as \<open>%u\<close> and \<open>%lu\<close> do, \<open>show_int\<close> as \<open>%d\<close> and \<open>%ld\<close> do.\<close>

function show_dec :: "int \<Rightarrow> string" where
  "show_dec n = (if n < 10 then [digit_char n] else show_dec (n div 10) @ [digit_char (n mod 10)])"
  by pat_completeness auto
termination
  by (relation "measure nat") auto

declare show_dec.simps [simp del]

definition show_int :: "int \<Rightarrow> string" where
  "show_int i = (if i < 0 then CHR ''-'' # show_dec (- i) else show_dec i)"

definition show_word :: "'a::len word \<Rightarrow> string" where
  "show_word w = show_dec (uint w)"

text \<open>\<open>%x\<close> of a non-negative number.\<close>

function show_hex :: "int \<Rightarrow> string" where
  "show_hex n = (if n < 16 then [char_of (nat (if n < 10 then 48 + n else 87 + n))]
                 else show_hex (n div 16) @ [char_of (nat (if n mod 16 < 10 then 48 + n mod 16 else 87 + n mod 16))])"
  by pat_completeness auto
termination
  by (relation "measure nat") auto

declare show_hex.simps [simp del]

fun scan_digits :: "int \<Rightarrow> string \<Rightarrow> int \<times> string" where
  "scan_digits acc [] = (acc, [])"
| "scan_digits acc (c # cs) =
     (if isdigit c then scan_digits (acc * 10 + digit_val c) cs else (acc, c # cs))"

lemma show_dec_nonempty: "show_dec n \<noteq> []"
  by (subst show_dec.simps) simp

lemma show_dec_digits: "0 \<le> n \<Longrightarrow> c \<in> set (show_dec n) \<Longrightarrow> isdigit c"
proof (induction n rule: show_dec.induct)
  case (1 n)
  show ?case
  proof (cases "n < 10")
    case True
    with "1.prems" show ?thesis by (simp add: show_dec.simps [of n] isdigit_digit_char)
  next
    case False
    with "1" show ?thesis by (auto simp: show_dec.simps [of n] isdigit_digit_char)
  qed
qed

lemma scan_digits_append:
  "(\<forall>c\<in>set ds. isdigit c) \<Longrightarrow>
   scan_digits acc (ds @ rest) = scan_digits (fst (scan_digits acc ds)) rest"
  by (induction ds arbitrary: acc) auto

lemma scan_digits_show: "0 \<le> n \<Longrightarrow> fst (scan_digits 0 (show_dec n)) = n"
proof (induction n rule: show_dec.induct)
  case (1 n)
  show ?case
  proof (cases "n < 10")
    case True
    with "1.prems" show ?thesis
      by (simp add: show_dec.simps [of n] isdigit_digit_char digit_val_digit_char)
  next
    case False
    with "1.prems" have nn: "0 \<le> n div 10" by simp
    have "fst (scan_digits 0 (show_dec n)) =
        fst (scan_digits (fst (scan_digits 0 (show_dec (n div 10)))) [digit_char (n mod 10)])"
      using False nn show_dec_digits [OF nn]
      by (simp add: show_dec.simps [of n] scan_digits_append)
    also have "\<dots> = n div 10 * 10 + n mod 10"
      using "1.IH" [OF False nn] by (simp add: isdigit_digit_char digit_val_digit_char)
    finally show ?thesis by simp
  qed
qed

lemma scan_digits_show_rest:
  assumes "0 \<le> n" and "rest = [] \<or> \<not> isdigit (hd rest)"
  shows "scan_digits 0 (show_dec n @ rest) = (n, rest)"
proof -
  have "scan_digits 0 (show_dec n @ rest) = scan_digits n rest"
    using assms(1) by (simp add: scan_digits_append show_dec_digits scan_digits_show)
  also have "\<dots> = (n, rest)" using assms(2) by (cases rest) auto
  finally show ?thesis .
qed

lemma show_dec_inj: "0 \<le> a \<Longrightarrow> 0 \<le> b \<Longrightarrow> show_dec a = show_dec b \<Longrightarrow> a = b"
  by (metis scan_digits_show)

lemma scan_digits_nonneg: "0 \<le> acc \<Longrightarrow> 0 \<le> fst (scan_digits acc s)"
  by (induction acc s rule: scan_digits.induct) (auto simp: isdigit_int digit_val_def)

lemma show_dec_length: "0 \<le> n \<Longrightarrow> n < 10 ^ Suc k \<Longrightarrow> length (show_dec n) \<le> Suc k"
proof (induction k arbitrary: n)
  case 0
  then show ?case by (simp add: show_dec.simps [of n])
next
  case (Suc k)
  have "n div 10 < 10 ^ Suc k" using Suc.prems by (simp add: div_less_iff_less_mult)
  with Suc show ?case by (auto simp: show_dec.simps [of n])
qed

lemma show_word_length: "LENGTH('a) \<le> 64 \<Longrightarrow> length (show_word (w :: 'a::len word)) \<le> 20"
proof -
  assume l: "LENGTH('a) \<le> 64"
  have "uint w < 2 ^ LENGTH('a)" by simp
  also have "\<dots> \<le> 2 ^ 64" by (rule power_increasing [OF l]) simp
  also have "(2 :: int) ^ 64 \<le> 10 ^ Suc 19" by simp
  finally show ?thesis unfolding show_word_def using show_dec_length [of "uint w" 19] by simp
qed

lemma show_int_length: "- (2 ^ 63) \<le> i \<Longrightarrow> i < 2 ^ 63 \<Longrightarrow> length (show_int i) \<le> 20"
  using show_dec_length [of i 19] show_dec_length [of "- i" 18] by (simp add: show_int_def)

section \<open>Reading numbers\<close>

definition skip_space :: "string \<Rightarrow> string" where
  "skip_space s = dropWhile isspace s"

text \<open>Sign and digits of \<open>strtol\<close>/\<open>strtoul\<close> in base 10: sign, magnitude and the text after the number.\<close>

definition scan_signed :: "string \<Rightarrow> bool \<times> int \<times> string" where
  "scan_signed s =
     (case skip_space s of
        [] \<Rightarrow> (False, 0, [])
      | c # cs \<Rightarrow>
          if c = CHR ''-'' then (True, scan_digits 0 cs)
          else if c = CHR ''+'' then (False, scan_digits 0 cs)
          else (False, scan_digits 0 (c # cs)))"

definition clamp_long :: "int \<Rightarrow> int" where
  "clamp_long i = (if i > 2 ^ 63 - 1 then 2 ^ 63 - 1 else if i < - (2 ^ 63) then - (2 ^ 63) else i)"

definition strtol10 :: "string \<Rightarrow> int" where
  "strtol10 s = (case scan_signed s of (neg, n, _) \<Rightarrow> clamp_long (if neg then - n else n))"

definition strtoul10 :: "string \<Rightarrow> u64" where
  "strtoul10 s =
     (case scan_signed s of (neg, n, _) \<Rightarrow>
        if n > 2 ^ 64 - 1 then - 1 else if neg then - word_of_int n else word_of_int n)"

definition to_int32 :: "int \<Rightarrow> int" where
  "to_int32 i = signed_take_bit 31 i"

definition atoi :: "string \<Rightarrow> int" where
  "atoi s = to_int32 (strtol10 s)"

definition atol :: "string \<Rightarrow> int" where
  "atol s = strtol10 s"

text \<open>
  The conversion \<open>%d\<close> of \<open>sscanf\<close>: white space, an optional sign and at least one digit, and the text
  that follows; then the format \<open>%d.%d\<close> with both conversions made.
\<close>

definition scanf_d :: "string \<Rightarrow> (int \<times> string) option" where
  "scanf_d s =
     (let digits = (case skip_space s of
                      [] \<Rightarrow> []
                    | c # cs \<Rightarrow> if c = CHR ''-'' \<or> c = CHR ''+'' then cs else c # cs)
      in if digits \<noteq> [] \<and> isdigit (hd digits)
         then (case scan_signed s of (neg, n, rest) \<Rightarrow> Some (to_int32 (clamp_long (if neg then - n else n)), rest))
         else None)"

definition sscanf_d_dot_d :: "string \<Rightarrow> (int \<times> int) option" where
  "sscanf_d_dot_d s =
     (case scanf_d s of
        Some (a, c # rest) \<Rightarrow>
          if c = CHR ''.'' then map_option (\<lambda>(b, _). (a, b)) (scanf_d rest) else None
      | _ \<Rightarrow> None)"

lemma to_int32_id: "- (2 ^ 31) \<le> i \<Longrightarrow> i < 2 ^ 31 \<Longrightarrow> to_int32 i = i"
  by (simp add: to_int32_def signed_take_bit_int_eq_self)

lemma scan_signed_digits:
  assumes "0 \<le> n" and "rest = [] \<or> \<not> isdigit (hd rest)"
  shows "scan_signed (show_dec n @ rest) = (False, n, rest)"
proof -
  obtain c cs where s: "show_dec n = c # cs" using show_dec_nonempty [of n] by (cases "show_dec n") auto
  then have c: "isdigit c" using show_dec_digits [OF assms(1), of c] by simp
  have "skip_space (show_dec n @ rest) = show_dec n @ rest"
    using s c by (simp add: skip_space_def isdigit_not_isspace)
  then show ?thesis
    using s c scan_digits_show_rest [OF assms]
    by (auto simp: scan_signed_def dest: isdigit_not_sign)
qed

lemma scan_signed_negative:
  assumes "0 \<le> n" and "rest = [] \<or> \<not> isdigit (hd rest)"
  shows "scan_signed (CHR ''-'' # show_dec n @ rest) = (True, n, rest)"
  using scan_digits_show_rest [OF assms]
  by (simp add: scan_signed_def skip_space_def isspace_def)

lemma strtoul10_show:
  assumes "rest = [] \<or> \<not> isdigit (hd rest)" and "0 \<le> n" and "n < 2 ^ 64"
  shows "strtoul10 (show_dec n @ rest) = word_of_int n"
  using assms by (simp add: strtoul10_def scan_signed_digits)

lemma strtol10_show:
  assumes "rest = [] \<or> \<not> isdigit (hd rest)" and "- (2 ^ 63) \<le> i" and "i < 2 ^ 63"
  shows "strtol10 (show_int i @ rest) = i"
  using assms
  by (auto simp: strtol10_def show_int_def scan_signed_digits scan_signed_negative clamp_long_def)

section \<open>Searching and splitting\<close>

text \<open>\<open>strchr\<close> and \<open>strrchr\<close> with the pointer arithmetic that follows them: the parts before and after.\<close>

fun strchr_split :: "char \<Rightarrow> string \<Rightarrow> (string \<times> string) option" where
  "strchr_split d [] = None"
| "strchr_split d (c # cs) =
     (if c = d then Some ([], cs) else map_option (\<lambda>(a, b). (c # a, b)) (strchr_split d cs))"

definition strrchr_split :: "char \<Rightarrow> string \<Rightarrow> (string \<times> string) option" where
  "strrchr_split d s = map_option (\<lambda>(a, b). (rev b, rev a)) (strchr_split d (rev s))"

fun has_prefix :: "string \<Rightarrow> string \<Rightarrow> bool" where
  "has_prefix [] s = True"
| "has_prefix (p # ps) [] = False"
| "has_prefix (p # ps) (c # cs) = (p = c \<and> has_prefix ps cs)"

fun strstr :: "string \<Rightarrow> string \<Rightarrow> string option" where
  "strstr [] pat = (if pat = [] then Some [] else None)"
| "strstr (c # cs) pat = (if has_prefix pat (c # cs) then Some (c # cs) else strstr cs pat)"

fun split_max :: "nat \<Rightarrow> char \<Rightarrow> string \<Rightarrow> string list" where
  "split_max k d [] = [[]]"
| "split_max k d (c # cs) =
     (if c = d \<and> 0 < k then [] # split_max (k - 1) d cs
      else (case split_max k d cs of [] \<Rightarrow> [[c]] | t # ts \<Rightarrow> (c # t) # ts))"

definition split_on :: "char \<Rightarrow> string \<Rightarrow> string list" where
  "split_on d s = split_max (length s) d s"

text \<open>The tokens \<open>strtok\<close> yields: the maximal runs without the delimiter, empty ones skipped.\<close>

definition strtok_tokens :: "char \<Rightarrow> string \<Rightarrow> string list" where
  "strtok_tokens d s = filter (\<lambda>t. t \<noteq> []) (split_on d s)"

lemma strchr_split_Some:
  "strchr_split d s = Some (a, b) \<Longrightarrow> s = a @ d # b \<and> d \<notin> set a"
  by (induction s arbitrary: a) (auto split: if_splits)

lemma strchr_split_None: "strchr_split d s = None \<longleftrightarrow> d \<notin> set s"
  by (induction s) auto

lemma strrchr_split_Some:
  assumes "strrchr_split d s = Some (a, b)"
  shows "s = a @ d # b \<and> d \<notin> set b"
proof -
  from assms have "strchr_split d (rev s) = Some (rev b, rev a)"
    by (auto simp: strrchr_split_def)
  then have "rev s = rev b @ d # rev a \<and> d \<notin> set (rev b)"
    by (rule strchr_split_Some)
  then show ?thesis by (auto simp: rev_eq_append_conv)
qed

lemma strrchr_split_None: "strrchr_split d s = None \<longleftrightarrow> d \<notin> set s"
  by (simp add: strrchr_split_def strchr_split_None)

lemma has_prefix_iff: "has_prefix p s \<longleftrightarrow> (\<exists>r. s = p @ r)"
  by (induction p s rule: has_prefix.induct) auto

lemma split_max_nonempty: "split_max k d s \<noteq> []"
  by (induction k d s rule: split_max.induct) (auto split: list.splits)

lemma strtok_tokens_nonempty: "t \<in> set (strtok_tokens d s) \<Longrightarrow> t \<noteq> []"
  by (simp add: strtok_tokens_def)

section \<open>IPv4 addresses\<close>

text \<open>\<open>inet_pton(AF_INET, ..)\<close>: four decimal octets without leading zeros, in host byte order.\<close>

definition parse_octet :: "string \<Rightarrow> int option" where
  "parse_octet s =
     (if s \<noteq> [] \<and> list_all isdigit s \<and> (length s = 1 \<or> hd s \<noteq> CHR ''0'')
         \<and> fst (scan_digits 0 s) \<le> 255
      then Some (fst (scan_digits 0 s)) else None)"

definition inet_pton4 :: "string \<Rightarrow> u32 option" where
  "inet_pton4 s =
     (case map parse_octet (split_on (CHR ''.'') s) of
        [Some a, Some b, Some c, Some d] \<Rightarrow>
          Some (word_of_int (((a * 256 + b) * 256 + c) * 256 + d))
      | _ \<Rightarrow> None)"

lemma split_max_no_delim:
  "d \<notin> set s \<Longrightarrow> split_max k d s = [s]"
  by (induction k d s rule: split_max.induct) auto

lemma inet_pton4_no_dot: "CHR ''.'' \<notin> set s \<Longrightarrow> inet_pton4 s = None"
  by (simp add: inet_pton4_def split_on_def split_max_no_delim split: option.splits)

lemma strchr_split_append: "d \<notin> set a \<Longrightarrow> strchr_split d (a @ d # s) = Some (a, s)"
  by (induction a) auto

lemma split_max_append: "d \<notin> set a \<Longrightarrow> 0 < k \<Longrightarrow> split_max k d (a @ d # s) = a # split_max (k - 1) d s"
  by (induction a) auto

lemma show_dec_hd: "0 < n \<Longrightarrow> hd (show_dec n) \<noteq> CHR ''0''"
proof (induction n rule: show_dec.induct)
  case (1 n)
  show ?case
  proof (cases "n < 10")
    case True
    have "(of_char (digit_char n) :: int) \<noteq> of_char (CHR ''0'')"
      using True "1.prems" by (simp add: of_char_digit_char)
    then show ?thesis using True by (auto simp: show_dec.simps [of n])
  next
    case False
    with "1" show ?thesis by (simp add: show_dec.simps [of n] hd_append show_dec_nonempty)
  qed
qed

lemma show_dec_no: "0 \<le> n \<Longrightarrow> \<not> isdigit c \<Longrightarrow> c \<notin> set (show_dec n)"
  using show_dec_digits by blast

lemma parse_octet_show:
  assumes "0 \<le> n" and "n \<le> 255"
  shows "parse_octet (show_dec n) = Some n"
proof -
  have "length (show_dec n) = 1 \<or> hd (show_dec n) \<noteq> CHR ''0''"
    using show_dec_hd [of n] assms(1) by (cases "n = 0") (simp_all add: show_dec.simps [of 0])
  then show ?thesis
    using assms by (auto simp: parse_octet_def scan_digits_show show_dec_nonempty show_dec_digits list_all_iff)
qed

lemma scanf_d_show:
  assumes "rest = [] \<or> \<not> isdigit (hd rest)" and "0 \<le> n" and "n < 2 ^ 31"
  shows "scanf_d (show_dec n @ rest) = Some (n, rest)"
proof -
  obtain c cs where s: "show_dec n = c # cs" using show_dec_nonempty [of n] by (cases "show_dec n") auto
  then have c: "isdigit c" using show_dec_digits [OF assms(2), of c] by simp
  have "skip_space (show_dec n @ rest) = show_dec n @ rest"
    using s c by (simp add: skip_space_def isdigit_not_isspace)
  then show ?thesis
    using s c assms scan_signed_digits [OF assms(2,1)] isdigit_not_sign [OF c]
    by (simp add: scanf_d_def clamp_long_def to_int32_id)
qed

lemma sscanf_d_dot_d_show:
  assumes "0 \<le> a" "a < 2 ^ 31" "0 \<le> b" "b < 2 ^ 31"
  shows "sscanf_d_dot_d (show_dec a @ CHR ''.'' # show_dec b) = Some (a, b)"
  using scanf_d_show [of "CHR ''.'' # show_dec b" a] scanf_d_show [of "[]" b] assms
  by (simp add: sscanf_d_dot_d_def isdigit_def)

lemma atoi_show: "0 \<le> n \<Longrightarrow> n < 2 ^ 31 \<Longrightarrow> atoi (show_dec n) = n"
  using strtol10_show [of "[]" n] by (simp add: atoi_def show_int_def to_int32_id)

text \<open>The dotted decimal text of an address.\<close>

definition dotted_quad :: "u32 \<Rightarrow> string" where
  "dotted_quad w = show_dec (uint w div 2 ^ 24) @ ''.'' @ show_dec (uint w div 2 ^ 16 mod 256) @ ''.''
     @ show_dec (uint w div 2 ^ 8 mod 256) @ ''.'' @ show_dec (uint w mod 256)"

lemma quad_octets:
  "0 \<le> uint w div 2 ^ 24 \<and> uint (w :: u32) div 2 ^ 24 \<le> 255"
  using uint_lt2p [of w] uint_ge_0 [of w] by (auto simp: div_less_iff_less_mult intro: pos_imp_zdiv_nonneg_iff [THEN iffD2])

lemma inet_pton4_dotted_quad: "inet_pton4 (dotted_quad w) = Some w"
proof -
  let ?a = "uint w div 2 ^ 24" and ?b = "uint w div 2 ^ 16 mod 256" and ?c = "uint w div 2 ^ 8 mod 256" and ?d = "uint w mod 256"
  have nd: "CHR ''.'' \<notin> set (show_dec n)" if "0 \<le> n" for n using show_dec_no [OF that] by (simp add: isdigit_def)
  have o: "parse_octet (show_dec ?a) = Some ?a" "parse_octet (show_dec ?b) = Some ?b"
    "parse_octet (show_dec ?c) = Some ?c" "parse_octet (show_dec ?d) = Some ?d"
    using quad_octets [of w] by (simp_all add: parse_octet_show)
  have s: "split_on (CHR ''.'') (dotted_quad w) = [show_dec ?a, show_dec ?b, show_dec ?c, show_dec ?d]"
    using nd [of ?a] nd [of ?b] nd [of ?c] nd [of ?d] quad_octets [of w]
    by (simp add: split_on_def dotted_quad_def split_max_append split_max_no_delim)
  have "((?a * 256 + ?b) * 256 + ?c) * 256 + ?d = uint w"
  proof -
    have "uint w div 2 ^ 16 = ?a * 256 + ?b" "uint w div 2 ^ 8 = uint w div 2 ^ 16 * 256 + ?c"
      "uint w = uint w div 2 ^ 8 * 256 + ?d"
      using div_mult_mod_eq [of "uint w div 2 ^ 16" 256] div_mult_mod_eq [of "uint w div 2 ^ 8" 256]
        div_mult_mod_eq [of "uint w" 256] by (simp_all add: zdiv_zmult2_eq [symmetric])
    then show ?thesis by simp
  qed
  then show ?thesis unfolding inet_pton4_def s by (simp only: list.map o) simp
qed

end
