(* ===== verification/Dataplane.thy ===== *)
theory Dataplane
  imports CString
begin

text \<open>
  The data plane of the MAGIC server (\<open>src/app_magic/magic_dataplane.c\<close>): links with their
  routing tables, the per-session client routes and the per-session packet filters (TFT).

  The operating system is a parameter \<open>os\<close>: the status of \<open>system(3)\<close> for a command given the
  commands run before it, the index of a network interface and its address. The commands the code
  runs are part of the state (\<open>cmds\<close>, oldest first), so that what reaches the kernel is the subject
  of theorems; the text of every command is cut where the code's buffer cuts it. The clock is
  the argument \<open>now\<close>: one reading per operation. The mutex of the context is not modelled: every
  operation is one atomic step.
\<close>

section \<open>State\<close>

abbreviation MAX_DATAPLANE_LINKS :: nat where "MAX_DATAPLANE_LINKS \<equiv> 10"
abbreviation MAX_ROUTING_RULES :: nat where "MAX_ROUTING_RULES \<equiv> 256"
abbreviation MAX_TFT_RULES :: nat where "MAX_TFT_RULES \<equiv> 1024"

record LinkRouteConfig =
  lr_link_id :: string
  lr_interface_name :: string
  lr_gateway_ip :: string
  lr_route_table_id :: u32
  lr_fwmark :: u32
  lr_is_configured :: bool

record ClientRoutingRule =
  rr_in_use :: bool
  rr_client_ip :: string
  rr_session_id :: string
  rr_link_id :: string
  rr_rule_priority :: u32
  rr_route_table_id :: u32
  rr_fwmark :: u32
  rr_created_at :: int

record TftTuple =
  tt_src_ip :: string
  tt_dst_ip :: string
  tt_src_port :: u16
  tt_dst_port :: u16
  tt_protocol :: u8

record TftRule =
  tf_in_use :: bool
  tf_tuple :: TftTuple
  tf_session_id :: string
  tf_link_id :: string
  tf_fwmark :: u32
  tf_created_at :: int

record DataplaneContext =
  dp_ingress_interface :: string
  dp_ingress_ip :: string
  dp_links :: "LinkRouteConfig list"
  dp_num_links :: u32
  dp_rules :: "ClientRoutingRule list"
  dp_num_rules :: u32
  dp_next_priority :: u32
  dp_tft_rules :: "TftRule list"
  dp_num_tft_rules :: u32
  dp_is_initialized :: bool
  dp_enable_routing :: bool
  dp_fwmark_rules_installed :: bool

record dp_world =
  dp :: DataplaneContext
  cmds :: "string list"

record os_env =
  os_system :: "string list \<Rightarrow> string \<Rightarrow> int"
  os_if_index :: "string \<Rightarrow> nat"
  os_if_addr :: "string \<Rightarrow> string option"

text \<open>The values \<open>memset(.., 0, ..)\<close> leaves.\<close>

definition zero_link :: LinkRouteConfig where
  "zero_link = \<lparr>lr_link_id = [], lr_interface_name = [], lr_gateway_ip = [],
     lr_route_table_id = 0, lr_fwmark = 0, lr_is_configured = False\<rparr>"

definition zero_rule :: ClientRoutingRule where
  "zero_rule = \<lparr>rr_in_use = False, rr_client_ip = [], rr_session_id = [], rr_link_id = [],
     rr_rule_priority = 0, rr_route_table_id = 0, rr_fwmark = 0, rr_created_at = 0\<rparr>"

definition zero_tuple :: TftTuple where
  "zero_tuple = \<lparr>tt_src_ip = [], tt_dst_ip = [], tt_src_port = 0, tt_dst_port = 0, tt_protocol = 0\<rparr>"

definition zero_tft :: TftRule where
  "zero_tft = \<lparr>tf_in_use = False, tf_tuple = zero_tuple, tf_session_id = [], tf_link_id = [],
     tf_fwmark = 0, tf_created_at = 0\<rparr>"

definition zero_dp :: DataplaneContext where
  "zero_dp = \<lparr>dp_ingress_interface = [], dp_ingress_ip = [],
     dp_links = replicate MAX_DATAPLANE_LINKS zero_link, dp_num_links = 0,
     dp_rules = replicate MAX_ROUTING_RULES zero_rule, dp_num_rules = 0, dp_next_priority = 0,
     dp_tft_rules = replicate MAX_TFT_RULES zero_tft, dp_num_tft_rules = 0,
     dp_is_initialized = False, dp_enable_routing = False, dp_fwmark_rules_installed = False\<rparr>"

section \<open>Running commands\<close>

text \<open>\<open>raw_system\<close> is a bare call of \<open>system\<close>; \<open>exec_cmd\<close> turns its status into an exit code.\<close>

definition raw_system :: "os_env \<Rightarrow> string \<Rightarrow> dp_world \<Rightarrow> dp_world" where
  "raw_system os cmd w = w\<lparr>cmds := cmds w @ [cmd]\<rparr>"

definition magic_dataplane_exec_cmd :: "os_env \<Rightarrow> string \<Rightarrow> dp_world \<Rightarrow> int \<times> dp_world" where
  "magic_dataplane_exec_cmd os cmd w =
     (let ret = os_system os (cmds w) cmd; w' = w\<lparr>cmds := cmds w @ [cmd]\<rparr>
      in if ret = -1 then (-1, w') else (ret div 256 mod 256, w'))"

definition run_cmd :: "os_env \<Rightarrow> string \<Rightarrow> dp_world \<Rightarrow> dp_world" where
  "run_cmd os cmd w = snd (magic_dataplane_exec_cmd os cmd w)"

definition run_cmds :: "os_env \<Rightarrow> string list \<Rightarrow> dp_world \<Rightarrow> dp_world" where
  "run_cmds os cs w = fold (run_cmd os) cs w"

text \<open>The text a format leaves in a command buffer of \<open>MAX_CMD_LEN\<close> (512) bytes.\<close>

definition fmt :: "string list \<Rightarrow> string" where
  "fmt parts = snprintf_buf 512 (concat parts)"

abbreviation sq :: string where "sq \<equiv> [CHR 0x27]"
abbreviation bsl :: string where "bsl \<equiv> [CHR 0x5C]"

definition magic_dataplane_interface_exists :: "os_env \<Rightarrow> string option \<Rightarrow> bool" where
  "magic_dataplane_interface_exists os name =
     (case name of None \<Rightarrow> False | Some n \<Rightarrow> os_if_index os n \<noteq> 0)"

definition magic_dataplane_ipset_init :: "os_env \<Rightarrow> dp_world \<Rightarrow> int \<times> dp_world" where
  "magic_dataplane_ipset_init os w =
     (let w1 = run_cmds os [''ipset create magic_control hash:ip family inet -exist'',
                            ''ipset flush magic_control''] w;
          (r, w2) = magic_dataplane_exec_cmd os ''ipset create magic_data hash:ip family inet -exist'' w1
      in if r \<noteq> 0 then (-1, w2) else (0, run_cmd os ''ipset flush magic_data'' w2))"

definition magic_dataplane_ipset_destroy :: "os_env \<Rightarrow> dp_world \<Rightarrow> int \<times> dp_world" where
  "magic_dataplane_ipset_destroy os w =
     (0, run_cmds os [''ipset destroy magic_control 2>/dev/null'',
                      ''ipset destroy magic_data 2>/dev/null''] w)"

definition magic_dataplane_ipset_add_control ::
  "os_env \<Rightarrow> string option \<Rightarrow> dp_world \<Rightarrow> int \<times> dp_world" where
  "magic_dataplane_ipset_add_control os client_ip w =
     (case client_ip of None \<Rightarrow> (-1, w) | Some ip \<Rightarrow>
        let (r, w1) = magic_dataplane_exec_cmd os (fmt [''ipset add magic_control '', ip, '' -exist'']) w
        in if r \<noteq> 0 then (-1, w1) else (0, w1))"

definition magic_dataplane_ipset_add_data ::
  "os_env \<Rightarrow> string option \<Rightarrow> dp_world \<Rightarrow> int \<times> dp_world" where
  "magic_dataplane_ipset_add_data os client_ip w =
     (case client_ip of None \<Rightarrow> (-1, w) | Some ip \<Rightarrow>
        let (r, w1) = magic_dataplane_exec_cmd os (fmt [''ipset add magic_data '', ip, '' -exist'']) w
        in if r \<noteq> 0 then (-1, w1) else (0, w1))"

definition magic_dataplane_ipset_del :: "os_env \<Rightarrow> string option \<Rightarrow> dp_world \<Rightarrow> int \<times> dp_world" where
  "magic_dataplane_ipset_del os client_ip w =
     (case client_ip of None \<Rightarrow> (-1, w) | Some ip \<Rightarrow>
        (0, run_cmds os [fmt [''ipset del magic_control '', ip, '' 2>/dev/null''],
                         fmt [''ipset del magic_data '', ip, '' 2>/dev/null'']] w))"

section \<open>Lookups\<close>

text \<open>\<open>ioctl(SIOCGIFADDR)\<close> sees the interface name cut to \<open>IFNAMSIZ - 1\<close> bytes.\<close>

definition get_interface_ip :: "os_env \<Rightarrow> string \<Rightarrow> nat \<Rightarrow> string option" where
  "get_interface_ip os name buf_len =
     (if buf_len = 0 then None
      else map_option (strncpy_buf (buf_len - 1)) (os_if_addr os (strncpy_buf 15 name)))"

definition find_free_rule_slot :: "DataplaneContext \<Rightarrow> nat option" where
  "find_free_rule_slot c = find_idx (\<lambda>r. \<not> rr_in_use r) (dp_rules c)"

definition count_client_ip_sessions :: "DataplaneContext \<Rightarrow> string \<Rightarrow> string option \<Rightarrow> nat" where
  "count_client_ip_sessions c ip excl =
     count_if (\<lambda>r. rr_in_use r \<and> rr_client_ip r = ip \<and>
                 \<not> (case excl of None \<Rightarrow> False | Some e \<Rightarrow> rr_session_id r = e)) (dp_rules c)"

definition find_link_config :: "DataplaneContext \<Rightarrow> string \<Rightarrow> nat option" where
  "find_link_config c link_id =
     find_idx (\<lambda>l. lr_link_id l = link_id) (take (unat (dp_num_links c)) (dp_links c))"

definition magic_dataplane_find_rule :: "DataplaneContext \<Rightarrow> string option \<Rightarrow> nat option" where
  "magic_dataplane_find_rule c session_id =
     (case session_id of None \<Rightarrow> None
      | Some sid \<Rightarrow> find_idx (\<lambda>r. rr_in_use r \<and> rr_session_id r = sid) (dp_rules c))"

section \<open>Routing tables and policy rules\<close>

definition create_route_table ::
  "os_env \<Rightarrow> LinkRouteConfig \<Rightarrow> dp_world \<Rightarrow> int \<times> LinkRouteConfig \<times> dp_world" where
  "create_route_table os link w =
     (if lr_interface_name link = [] then (-1, link, w)
      else
        let ifn = lr_interface_name link; gw = lr_gateway_ip link;
            tab = show_word (lr_route_table_id link);
            w1 = run_cmds os [fmt [''ip link set '', ifn, '' up''],
                              fmt [''ip route flush table '', tab, '' 2>/dev/null'']] w;
            direct = (gw \<noteq> [] \<and> get_interface_ip os ifn 64 = Some gw);
            cmd = (if gw \<noteq> [] \<and> \<not> direct
                   then fmt [''ip route add default via '', gw, '' dev '', ifn, '' table '', tab, '' onlink'']
                   else fmt [''ip route add default dev '', ifn, '' table '', tab]);
            (r, w2) = magic_dataplane_exec_cmd os cmd w1
        in if r \<noteq> 0
           then (-1, link, run_cmd os (fmt [''ip link show '', ifn, '' 2>&1'']) w2)
           else (0, link\<lparr>lr_is_configured := True\<rparr>, w2))"

definition delete_route_table ::
  "os_env \<Rightarrow> LinkRouteConfig \<Rightarrow> dp_world \<Rightarrow> int \<times> LinkRouteConfig \<times> dp_world" where
  "delete_route_table os link w =
     (0, link\<lparr>lr_is_configured := False\<rparr>,
      run_cmd os (fmt [''ip route flush table '', show_word (lr_route_table_id link), '' 2>/dev/null'']) w)"

definition add_ip_rule :: "os_env \<Rightarrow> string \<Rightarrow> u32 \<Rightarrow> u32 \<Rightarrow> dp_world \<Rightarrow> int \<times> dp_world" where
  "add_ip_rule os ip table_id prio w =
     (let (r, w1) = magic_dataplane_exec_cmd os
            (fmt [''ip rule add from '', ip, '' lookup '', show_word table_id, '' priority '', show_word prio]) w
      in if r \<noteq> 0 then (-1, w1) else (0, w1))"

definition delete_ip_rule :: "os_env \<Rightarrow> string \<Rightarrow> u32 \<Rightarrow> dp_world \<Rightarrow> int \<times> dp_world" where
  "delete_ip_rule os ip table_id w =
     (let (r, w1) = magic_dataplane_exec_cmd os
            (fmt [''ip rule del from '', ip, '' lookup '', show_word table_id, '' 2>/dev/null'']) w
      in if r \<noteq> 0 then (-1, w1) else (0, w1))"

definition del_fwmark_cmds :: "string list" where
  "del_fwmark_cmds = map (\<lambda>m. fmt [''ip rule del fwmark '', show_dec m, '' 2>/dev/null'']) [99..199]"

definition init_fwmark_rules :: "os_env \<Rightarrow> dp_world \<Rightarrow> int \<times> dp_world" where
  "init_fwmark_rules os w =
     (let w1 = run_cmds os (del_fwmark_cmds @ [''ip route flush table 99 2>/dev/null'']) w;
          (r, w2) = magic_dataplane_exec_cmd os ''ip route add blackhole default table 99'' w1
      in if r \<noteq> 0 then (-1, w2)
         else let w3 = run_cmd os ''ip rule add fwmark 99 lookup 99 priority 50'' w2;
                  w4 = run_cmds os (map (\<lambda>m. fmt [''ip rule add fwmark '', show_dec m, '' lookup '',
                                       show_dec m, '' priority '', show_dec m]) [100..109]) w3
              in (0, w4\<lparr>dp := (dp w4)\<lparr>dp_fwmark_rules_installed := True\<rparr>\<rparr>))"

definition init_mark_based_nat :: "os_env \<Rightarrow> dp_world \<Rightarrow> int \<times> dp_world" where
  "init_mark_based_nat os w =
     (0, run_cmds os
           (map (\<lambda>m. fmt [''iptables -t nat -D POSTROUTING -m mark --mark '', show_dec m,
                          '' -j MASQUERADE 2>/dev/null'']) [100..109] @
            map (\<lambda>m. fmt [''iptables -t nat -A POSTROUTING -m mark --mark '', show_dec m,
                          '' -j MASQUERADE'']) [100..109]) w)"

section \<open>Client access rules\<close>

definition remove_client_iptables_rules :: "os_env \<Rightarrow> string \<Rightarrow> dp_world \<Rightarrow> int \<times> dp_world" where
  "remove_client_iptables_rules os ip w =
     (0, run_cmds os
        [fmt [''iptables-save | grep -v -- '', sq, ''-A OUTPUT.*-s '', ip, sq, '' | iptables-restore 2>/dev/null''],
         fmt [''iptables-save | grep -v -- '', sq, ''-A FORWARD.*-s '', ip, sq, '' | iptables-restore 2>/dev/null''],
         fmt [''iptables-save | grep -v -- '', sq, ''-A FORWARD.*-d '', ip, sq, '' | iptables-restore 2>/dev/null''],
         fmt [''iptables-save -t nat | grep -v -- '', sq, ''-A POSTROUTING.*-s '', ip, ''.*MASQUERADE'', sq,
              '' | iptables-restore 2>/dev/null'']] w)"

definition blackhole_del_cmd :: "string \<Rightarrow> string" where
  "blackhole_del_cmd ip = fmt [''ip rule del from '', ip, '' lookup 99 priority 50 2>/dev/null'']"

definition blackhole_add_cmd :: "string \<Rightarrow> string" where
  "blackhole_add_cmd ip = fmt [''ip rule add from '', ip, '' lookup 99 priority 50'']"

definition remove_blackhole_rule :: "os_env \<Rightarrow> string \<Rightarrow> dp_world \<Rightarrow> int \<times> dp_world" where
  "remove_blackhole_rule os ip w = (0, run_cmd os (blackhole_del_cmd ip) w)"

text \<open>
  The target of the access rule: the filter's destination, or the /24 network of the gateway
  (the text after the last dot replaced). \<open>None\<close> is the code's error return.
\<close>

definition access_target :: "string option \<Rightarrow> string option \<Rightarrow> string option" where
  "access_target gateway_ip dest_ip =
     (case dest_ip of
        Some (d # ds) \<Rightarrow> Some (strncpy_buf 63 (d # ds))
      | _ \<Rightarrow>
        (case gateway_ip of
           Some (g # gs) \<Rightarrow>
             (case strrchr_split (CHR ''.'') (strncpy_buf 63 (g # gs)) of
                Some (net, _) \<Rightarrow> Some (net @ ''.0/24'')
              | None \<Rightarrow> None)
         | _ \<Rightarrow> None))"

definition setup_client_link_access ::
  "os_env \<Rightarrow> string \<Rightarrow> string option \<Rightarrow> string option \<Rightarrow> bool \<Rightarrow> dp_world \<Rightarrow> int \<times> dp_world" where
  "setup_client_link_access os ip gateway_ip dest_ip skip_cleanup w =
     (let w1 = (if skip_cleanup then w else snd (remove_client_iptables_rules os ip w))
      in case access_target gateway_ip dest_ip of
           None \<Rightarrow> (-1, w1)
         | Some target \<Rightarrow>
             (0, run_cmds os
                [fmt [''iptables -I OUTPUT 1 -s '', ip, '' -d '', target, '' -j ACCEPT''],
                 fmt [''iptables -I FORWARD 1 -s '', target, '' -d '', ip, '' -j ACCEPT''],
                 fmt [''iptables -t nat -A POSTROUTING -s '', ip, '' -d '', target, '' -j MASQUERADE'']] w1))"

definition add_blackhole_rule :: "os_env \<Rightarrow> string \<Rightarrow> dp_world \<Rightarrow> int \<times> dp_world" where
  "add_blackhole_rule os ip w =
     (let w1 = snd (remove_blackhole_rule os ip w);
          (r, w2) = magic_dataplane_exec_cmd os (blackhole_add_cmd ip) w1
      in if r \<noteq> 0 then (-1, w2) else (0, w2))"

section \<open>Initialisation\<close>

definition client_net_purge_cmds :: "string list" where
  "client_net_purge_cmds =
     concat (map (\<lambda>i.
       let ip = ''192.168.126.'' @ show_dec i
       in [fmt [''ip rule del from '', ip, '' 2>/dev/null || true''],
           fmt [''ip rule del from '', ip, '' lookup 99 priority 50 2>/dev/null || true'']]) [5..254])"

definition gateway_guard_cmds :: "string \<Rightarrow> string list" where
  "gateway_guard_cmds proto =
     concat (map (\<lambda>gw.
       [''iptables -D INPUT -s 192.168.126.0/24 -d '' @ gw @ '' -p '' @ proto @ '' -j DROP 2>/dev/null'',
        ''iptables -I INPUT 1 -s 192.168.126.0/24 -d '' @ gw @ '' -p '' @ proto @ '' -j DROP''])
       [''10.1.1.1'', ''10.2.2.2'', ''10.3.3.3''])"

definition default_drop_cmds :: "string list" where
  "default_drop_cmds =
     [''iptables -D OUTPUT -s 192.168.126.0/24 -j DROP 2>/dev/null'',
      ''iptables -A OUTPUT -s 192.168.126.0/24 -j DROP'',
      ''iptables -D FORWARD -s 192.168.126.0/24 -j DROP 2>/dev/null'',
      ''iptables -A FORWARD -s 192.168.126.0/24 -j DROP'']"

definition server_whitelist_cmds :: "string \<Rightarrow> string list" where
  "server_whitelist_cmds ip =
     [fmt [''iptables -D OUTPUT -s '', ip, '' -j ACCEPT 2>/dev/null''],
      fmt [''iptables -I OUTPUT 1 -s '', ip, '' -j ACCEPT'']]"

text \<open>The filter rules \<open>magic_dataplane_init\<close> installs between the two fwmark set-ups.\<close>

definition init_filter_rules :: "os_env \<Rightarrow> string option \<Rightarrow> dp_world \<Rightarrow> dp_world" where
  "init_filter_rules os ingress_ip w =
     (let has_ip = (case ingress_ip of Some (_ # _) \<Rightarrow> True | _ \<Rightarrow> False);
          ip = (case ingress_ip of Some s \<Rightarrow> s | None \<Rightarrow> []);
          w1 = run_cmds os
            ([''iptables-save | grep -v '' @ sq @ ''192'' @ bsl @ ''.168'' @ bsl @ ''.126'' @ bsl @ ''.'' @ sq
                @ '' | iptables-restore 2>/dev/null || true'']
             @ client_net_purge_cmds
             @ [''conntrack -D -s 192.168.126.0/24 2>/dev/null || true'']
             @ default_drop_cmds
             @ gateway_guard_cmds ''icmp'' @ gateway_guard_cmds ''tcp'' @ gateway_guard_cmds ''udp''
             @ (if has_ip then server_whitelist_cmds ip else [])
             @ [''iptables -D FORWARD -m state --state ESTABLISHED,RELATED -j ACCEPT 2>/dev/null'',
                ''iptables -I FORWARD 1 -m state --state ESTABLISHED,RELATED -j ACCEPT'']) w;
          w2 = snd (magic_dataplane_ipset_init os w1)
      in run_cmds os
           [''iptables -D OUTPUT -m set --match-set magic_data src -j ACCEPT 2>/dev/null'',
            ''iptables -D OUTPUT -m set --match-set magic_control src -j ACCEPT 2>/dev/null'',
            if has_ip then ''iptables -I OUTPUT 2 -m set --match-set magic_control src -j ACCEPT''
            else ''iptables -I OUTPUT 1 -m set --match-set magic_control src -j ACCEPT''] w2)"

definition magic_dataplane_init ::
  "os_env \<Rightarrow> string option \<Rightarrow> string option \<Rightarrow> dp_world \<Rightarrow> int \<times> dp_world" where
  "magic_dataplane_init os ingress_if ingress_ip w =
     (let c = zero_dp
            \<lparr>dp_ingress_interface := (case ingress_if of Some s \<Rightarrow> strncpy_buf 15 s | None \<Rightarrow> []),
             dp_ingress_ip := (case ingress_ip of Some s \<Rightarrow> strncpy_buf 63 s | None \<Rightarrow> []),
             dp_next_priority := 1000, dp_is_initialized := True, dp_enable_routing := True\<rparr>;
          w1 = snd (init_fwmark_rules os (w\<lparr>dp := c\<rparr>));
          w2 = snd (init_mark_based_nat os w1);
          w3 = init_filter_rules os ingress_ip w2;
          w4 = snd (init_fwmark_rules os w3)
      in (0, snd (init_mark_based_nat os w4)))"

section \<open>Links\<close>

definition set_link :: "nat \<Rightarrow> LinkRouteConfig \<Rightarrow> dp_world \<Rightarrow> dp_world" where
  "set_link i l w = w\<lparr>dp := (dp w)\<lparr>dp_links := (dp_links (dp w))[i := l]\<rparr>\<rparr>"

definition magic_dataplane_register_link ::
  "os_env \<Rightarrow> string option \<Rightarrow> string option \<Rightarrow> string option \<Rightarrow> dp_world \<Rightarrow> int \<times> dp_world" where
  "magic_dataplane_register_link os link_id interface_name gateway_ip w =
     (let c = dp w in
      if \<not> dp_is_initialized c then (-1, w)
      else case (link_id, interface_name) of
        (Some lid, Some ifn) \<Rightarrow>
          (case find_link_config c lid of
             Some i \<Rightarrow> (to_int32 (uint (lr_route_table_id (dp_links c ! i))), w)
           | None \<Rightarrow>
               if dp_num_links c \<ge> 10 then (-1, w)
               else
                 let table_id = 100 + dp_num_links c; n = unat (dp_num_links c);
                     link = zero_link\<lparr>lr_link_id := strncpy_buf 63 lid,
                              lr_interface_name := strncpy_buf 15 ifn,
                              lr_gateway_ip := (case gateway_ip of Some g \<Rightarrow> strncpy_buf 63 g | None \<Rightarrow> []),
                              lr_route_table_id := table_id, lr_fwmark := table_id\<rparr>;
                     w1 = w\<lparr>dp := c\<lparr>dp_num_links := dp_num_links c + 1\<rparr>\<rparr>;
                     (r, link', w2) = create_route_table os link w1
                 in (to_int32 (uint table_id), set_link n link' w2))
      | _ \<Rightarrow> (-1, w))"

definition magic_dataplane_get_table_id :: "DataplaneContext \<Rightarrow> string option \<Rightarrow> u32" where
  "magic_dataplane_get_table_id c link_id =
     (case link_id of None \<Rightarrow> 0 | Some lid \<Rightarrow>
        (case find_link_config c lid of None \<Rightarrow> 0 | Some i \<Rightarrow> lr_route_table_id (dp_links c ! i)))"

definition magic_dataplane_get_fwmark :: "DataplaneContext \<Rightarrow> string option \<Rightarrow> u32" where
  "magic_dataplane_get_fwmark c link_id =
     (case link_id of None \<Rightarrow> 0 | Some lid \<Rightarrow>
        (case find_link_config c lid of None \<Rightarrow> 0 | Some i \<Rightarrow> lr_fwmark (dp_links c ! i)))"

text \<open>\<open>None\<close> is the return value -1.\<close>

definition magic_dataplane_get_link_gateway ::
  "DataplaneContext \<Rightarrow> string option \<Rightarrow> nat \<Rightarrow> string option" where
  "magic_dataplane_get_link_gateway c link_id ip_len =
     (case link_id of None \<Rightarrow> None | Some lid \<Rightarrow>
        if ip_len = 0 then None
        else (case find_link_config c lid of None \<Rightarrow> None
              | Some i \<Rightarrow> (let gw = lr_gateway_ip (dp_links c ! i)
                           in if gw = [] then None else Some (strncpy_buf (ip_len - 1) gw))))"

text \<open>The loop of \<open>magic_dataplane_unregister_link\<close> over the routing rules of a table.\<close>

fun drop_table_rules ::
  "os_env \<Rightarrow> u32 \<Rightarrow> ClientRoutingRule list \<Rightarrow> dp_world \<Rightarrow> ClientRoutingRule list \<times> dp_world" where
  "drop_table_rules os tab [] w = ([], w)"
| "drop_table_rules os tab (r # rs) w =
     (if rr_in_use r \<and> rr_route_table_id r = tab
      then let w1 = snd (delete_ip_rule os (rr_client_ip r) (rr_route_table_id r) w);
               w2 = w1\<lparr>dp := (dp w1)\<lparr>dp_num_rules := dp_num_rules (dp w1) - 1\<rparr>\<rparr>;
               (rs', w') = drop_table_rules os tab rs w2
           in (r\<lparr>rr_in_use := False\<rparr> # rs', w')
      else let (rs', w') = drop_table_rules os tab rs w in (r # rs', w'))"

definition magic_dataplane_unregister_link ::
  "os_env \<Rightarrow> string option \<Rightarrow> dp_world \<Rightarrow> int \<times> dp_world" where
  "magic_dataplane_unregister_link os link_id w =
     (let c = dp w in
      if \<not> dp_is_initialized c then (-1, w)
      else case link_id of None \<Rightarrow> (-1, w) | Some lid \<Rightarrow>
        (case find_link_config c lid of
           None \<Rightarrow> (-1, w)
         | Some i \<Rightarrow>
             let link = dp_links c ! i;
                 (rules', w1) = drop_table_rules os (lr_route_table_id link) (dp_rules c) w;
                 (link', w2) = (if lr_is_configured link
                                then (let (_, l, v) = delete_route_table os link w1 in (l, v))
                                else (link, w1));
                 n = unat (dp_num_links c);
                 links1 = (dp_links c)[i := link'];
                 links2 = (if i < n - 1 then links1[i := links1 ! (n - 1)] else links1)
             in (0, w2\<lparr>dp := (dp w2)\<lparr>dp_rules := rules', dp_links := links2,
                                    dp_num_links := dp_num_links c - 1\<rparr>\<rparr>)))"

definition magic_dataplane_update_link_gateway ::
  "os_env \<Rightarrow> string option \<Rightarrow> string option \<Rightarrow> dp_world \<Rightarrow> int \<times> dp_world" where
  "magic_dataplane_update_link_gateway os link_id gateway_ip w =
     (case link_id of None \<Rightarrow> (-1, w) | Some lid \<Rightarrow>
        (case find_link_config (dp w) lid of None \<Rightarrow> (-1, w)
         | Some i \<Rightarrow>
            (case gateway_ip of
               Some (g # gs) \<Rightarrow>
                 let link = dp_links (dp w) ! i;
                     (link1, w1) = (if lr_is_configured link
                                    then (let (_, l, v) = delete_route_table os link w in (l, v))
                                    else (link, w));
                     (r, link2, w2) = create_route_table os
                                        (link1\<lparr>lr_gateway_ip := strncpy_buf 63 (g # gs)\<rparr>) w1
                 in (0, set_link i link2 w2)
             | _ \<Rightarrow> (0, w))))"

section \<open>Client routes\<close>

definition free_rule :: "nat \<Rightarrow> dp_world \<Rightarrow> dp_world" where
  "free_rule i w =
     w\<lparr>dp := (dp w)\<lparr>dp_rules := (dp_rules (dp w))[i := (dp_rules (dp w) ! i)\<lparr>rr_in_use := False\<rparr>],
                   dp_num_rules := dp_num_rules (dp w) - 1\<rparr>\<rparr>"

definition route_diag_cmds :: "string \<Rightarrow> LinkRouteConfig \<Rightarrow> string list" where
  "route_diag_cmds ip link =
     (let tab = show_word (lr_route_table_id link) in
      [snprintf_buf 256 (''ip rule list | grep -E '' @ sq @ ip @ ''|lookup '' @ tab @ sq @ '' 2>/dev/null''),
       snprintf_buf 256 (''ip route show table '' @ tab @ '' 2>/dev/null''),
       snprintf_buf 256 (''ip addr show '' @ lr_interface_name link @ '' | head -3 2>/dev/null'')])"

text \<open>The rest of \<open>magic_dataplane_add_client_route\<close> once the link at index \<open>li\<close> has its routing table.\<close>

definition install_client_route ::
  "os_env \<Rightarrow> int \<Rightarrow> string \<Rightarrow> string \<Rightarrow> string \<Rightarrow> string option \<Rightarrow> nat \<Rightarrow> dp_world \<Rightarrow> int \<times> dp_world" where
  "install_client_route os now ip sid lid dest_ip li w =
     (let link = dp_links (dp w) ! li;
          w1 = (case magic_dataplane_find_rule (dp w) (Some sid) of
                  None \<Rightarrow> w
                | Some e \<Rightarrow> free_rule e (snd (delete_ip_rule os (rr_client_ip (dp_rules (dp w) ! e))
                              (rr_route_table_id (dp_rules (dp w) ! e)) w)))
      in case find_free_rule_slot (dp w1) of
           None \<Rightarrow> (-1, w1)
         | Some k \<Rightarrow>
             let prio = dp_next_priority (dp w1);
                 next = (if prio + 1 > 2000 then 1000 else prio + 1);
                 w2 = w1\<lparr>dp := (dp w1)\<lparr>dp_next_priority := next\<rparr>\<rparr>;
                 w3 = snd (remove_blackhole_rule os ip w2);
                 skip = (0 < count_client_ip_sessions (dp w3) ip (Some sid));
                 w4 = snd (setup_client_link_access os ip (Some (lr_gateway_ip link)) dest_ip skip w3);
                 (r, w5) = add_ip_rule os ip (lr_route_table_id link) prio w4
             in if r \<noteq> 0 then (-1, w5)
                else
                  let rule = zero_rule\<lparr>rr_in_use := True, rr_client_ip := strncpy_buf 63 ip,
                               rr_session_id := strncpy_buf 63 sid, rr_link_id := strncpy_buf 63 lid,
                               rr_rule_priority := prio,
                               rr_route_table_id := lr_route_table_id link, rr_created_at := now\<rparr>;
                      w6 = w5\<lparr>dp := (dp w5)\<lparr>dp_rules := (dp_rules (dp w5))[k := rule],
                                           dp_num_rules := dp_num_rules (dp w5) + 1\<rparr>\<rparr>
                  in (0, fold (raw_system os) (route_diag_cmds ip link) w6))"

definition magic_dataplane_add_client_route ::
  "os_env \<Rightarrow> int \<Rightarrow> string option \<Rightarrow> string option \<Rightarrow> string option \<Rightarrow> string option
     \<Rightarrow> dp_world \<Rightarrow> int \<times> dp_world" where
  "magic_dataplane_add_client_route os now client_ip session_id link_id dest_ip w =
     (if \<not> dp_is_initialized (dp w) then (-1, w)
      else case (client_ip, session_id, link_id) of
        (Some ip, Some sid, Some lid) \<Rightarrow>
          if \<not> dp_enable_routing (dp w) then (0, w)
          else (case find_link_config (dp w) lid of
                  None \<Rightarrow> (-1, w)
                | Some li \<Rightarrow>
                    let link = dp_links (dp w) ! li in
                    if lr_is_configured link then install_client_route os now ip sid lid dest_ip li w
                    else let (r, link', w1) = create_route_table os link w
                         in if r \<noteq> 0 then (-1, w1)
                            else install_client_route os now ip sid lid dest_ip li (set_link li link' w1))
      | _ \<Rightarrow> (-1, w))"

definition magic_dataplane_remove_client_route ::
  "os_env \<Rightarrow> string option \<Rightarrow> dp_world \<Rightarrow> int \<times> dp_world" where
  "magic_dataplane_remove_client_route os session_id w =
     (if \<not> dp_is_initialized (dp w) then (-1, w)
      else case session_id of None \<Rightarrow> (-1, w) | Some sid \<Rightarrow>
        (case magic_dataplane_find_rule (dp w) (Some sid) of
           None \<Rightarrow> (-1, w)
         | Some i \<Rightarrow>
             let rule = dp_rules (dp w) ! i;
                 ip = strncpy_buf 63 (rr_client_ip rule);
                 w1 = snd (delete_ip_rule os (rr_client_ip rule) (rr_route_table_id rule) w);
                 w2 = free_rule i w1
             in if count_client_ip_sessions (dp w2) ip None = 0
                then let w3 = snd (add_blackhole_rule os ip w2);
                         w4 = snd (magic_dataplane_ipset_del os (Some ip) w3)
                     in (0, run_cmd os (fmt [''conntrack -D -s '', ip, '' 2>/dev/null'']) w4)
                else (0, w2)))"

section \<open>Packet filters (TFT)\<close>

definition proto_str :: "u8 \<Rightarrow> string option" where
  "proto_str p = (if p = 6 then Some ''tcp'' else if p = 17 then Some ''udp''
                  else if p = 1 then Some ''icmp'' else None)"

text \<open>
  The packet selector of an iptables rule as the code prints it. \<open>full_match\<close> is printed by
  \<open>magic_dataplane_add_tft_rule\<close> and \<open>magic_dataplane_switch_tft_link\<close>, \<open>dport_match\<close> by
  \<open>magic_dataplane_remove_tft_rules\<close>, \<open>cleanup_match\<close> by \<open>magic_dataplane_cleanup\<close>.
\<close>

definition full_match :: "TftTuple \<Rightarrow> string" where
  "full_match t =
     (let base = '' -s '' @ tt_src_ip t @ '' -d '' @ tt_dst_ip t in
      case proto_str (tt_protocol t) of
        None \<Rightarrow> base
      | Some p \<Rightarrow>
          if tt_dst_port t > 0 \<and> tt_src_port t > 0
          then base @ '' -p '' @ p @ '' --sport '' @ show_word (tt_src_port t)
                 @ '' --dport '' @ show_word (tt_dst_port t)
          else if tt_dst_port t > 0 then base @ '' -p '' @ p @ '' --dport '' @ show_word (tt_dst_port t)
          else if tt_src_port t > 0 then base @ '' -p '' @ p @ '' --sport '' @ show_word (tt_src_port t)
          else base @ '' -p '' @ p)"

definition dport_match :: "TftTuple \<Rightarrow> string" where
  "dport_match t =
     (let base = '' -s '' @ tt_src_ip t @ '' -d '' @ tt_dst_ip t in
      case proto_str (tt_protocol t) of
        None \<Rightarrow> base
      | Some p \<Rightarrow>
          if tt_dst_port t > 0 then base @ '' -p '' @ p @ '' --dport '' @ show_word (tt_dst_port t)
          else base @ '' -p '' @ p)"

definition cleanup_match :: "TftTuple \<Rightarrow> string" where
  "cleanup_match t =
     (let base = '' -s '' @ tt_src_ip t @ '' -d '' @ tt_dst_ip t in
      if tt_protocol t = 6 \<or> tt_protocol t = 17
      then base @ '' -p '' @ (if tt_protocol t = 6 then ''tcp'' else ''udp'')
             @ '' --dport '' @ show_word (tt_dst_port t)
      else base)"

definition mangle_add_cmd :: "string \<Rightarrow> u32 \<Rightarrow> string" where
  "mangle_add_cmd match mark =
     fmt [''iptables -t mangle -I PREROUTING'', match, '' -j MARK --set-mark '', show_word mark]"

definition mangle_del_cmd :: "string \<Rightarrow> u32 \<Rightarrow> string" where
  "mangle_del_cmd match mark =
     fmt [''iptables -t mangle -D PREROUTING'', match, '' -j MARK --set-mark '', show_word mark, '' 2>/dev/null'']"

definition forward_add_cmd :: "string \<Rightarrow> string" where
  "forward_add_cmd match = fmt [''iptables -I FORWARD 1'', match, '' -j ACCEPT'']"

definition forward_del_cmd :: "string \<Rightarrow> string" where
  "forward_del_cmd match = fmt [''iptables -D FORWARD'', match, '' -j ACCEPT 2>/dev/null'']"

definition magic_dataplane_add_tft_rule ::
  "os_env \<Rightarrow> int \<Rightarrow> TftTuple \<Rightarrow> string option \<Rightarrow> string option \<Rightarrow> dp_world \<Rightarrow> int \<times> dp_world" where
  "magic_dataplane_add_tft_rule os now tuple session_id link_id w =
     (if \<not> dp_is_initialized (dp w) then (-1, w)
      else case (session_id, link_id) of
        (Some sid, Some lid) \<Rightarrow>
          (case find_link_config (dp w) lid of
             None \<Rightarrow> (-1, w)
           | Some li \<Rightarrow>
             (case find_idx (\<lambda>r. \<not> tf_in_use r) (dp_tft_rules (dp w)) of
                None \<Rightarrow> (-1, w)
              | Some k \<Rightarrow>
                  let mark = lr_fwmark (dp_links (dp w) ! li);
                      rule = \<lparr>tf_in_use = True, tf_tuple = tuple, tf_session_id = strncpy_buf 63 sid,
                              tf_link_id = strncpy_buf 63 lid, tf_fwmark = mark, tf_created_at = now\<rparr>;
                      w1 = w\<lparr>dp := (dp w)\<lparr>dp_tft_rules := (dp_tft_rules (dp w))[k := rule],
                                         dp_num_tft_rules := dp_num_tft_rules (dp w) + 1\<rparr>\<rparr>;
                      (r, w2) = magic_dataplane_exec_cmd os (mangle_add_cmd (full_match tuple) mark) w1
                  in if r \<noteq> 0 then (-1, w2)
                     else let w3 = run_cmd os (forward_add_cmd (full_match tuple)) w2
                          in (0, snd (magic_dataplane_ipset_add_data os (Some (tt_src_ip tuple)) w3))))
      | _ \<Rightarrow> (-1, w))"

text \<open>
  The loop of \<open>magic_dataplane_remove_tft_rules\<close>: the slots still to visit, the number removed so
  far and the client address saved from the first removed rule.
\<close>

fun remove_tft_loop ::
  "os_env \<Rightarrow> string \<Rightarrow> TftRule list \<Rightarrow> int \<Rightarrow> string \<Rightarrow> dp_world
     \<Rightarrow> TftRule list \<times> int \<times> string \<times> dp_world" where
  "remove_tft_loop os sid [] removed ip w = ([], removed, ip, w)"
| "remove_tft_loop os sid (r # rs) removed ip w =
     (if \<not> tf_in_use r \<or> tf_session_id r \<noteq> sid
      then let (rs', n, ip', w') = remove_tft_loop os sid rs removed ip w in (r # rs', n, ip', w')
      else
        let t = tf_tuple r;
            ip1 = (if ip = [] then strncpy_buf 63 (tt_src_ip t) else ip);
            w1 = run_cmds os [mangle_del_cmd (dport_match t) (tf_fwmark r),
                              forward_del_cmd (dport_match t)] w;
            w2 = w1\<lparr>dp := (dp w1)\<lparr>dp_num_tft_rules := dp_num_tft_rules (dp w1) - 1\<rparr>\<rparr>;
            (rs', n, ip', w') = remove_tft_loop os sid rs (removed + 1) ip1 w2
        in (r\<lparr>tf_in_use := False\<rparr> # rs', n, ip', w'))"

definition magic_dataplane_remove_tft_rules ::
  "os_env \<Rightarrow> string option \<Rightarrow> dp_world \<Rightarrow> int \<times> dp_world" where
  "magic_dataplane_remove_tft_rules os session_id w =
     (if \<not> dp_is_initialized (dp w) then (-1, w)
      else case session_id of None \<Rightarrow> (-1, w) | Some sid \<Rightarrow>
        let (rs', removed, ip, w1) = remove_tft_loop os sid (dp_tft_rules (dp w)) 0 [] w;
            w2 = w1\<lparr>dp := (dp w1)\<lparr>dp_tft_rules := rs'\<rparr>\<rparr>
        in if ip = [] then (removed, w2)
           else let w3 = snd (magic_dataplane_ipset_del os (Some ip) w2)
                in (removed, run_cmd os (fmt [''conntrack -D -s '', ip, '' 2>/dev/null'']) w3))"

text \<open>The indices of the session's filters, at most \<open>max_rules\<close> of them.\<close>

definition magic_dataplane_find_tft_rules ::
  "DataplaneContext \<Rightarrow> string option \<Rightarrow> nat \<Rightarrow> nat list" where
  "magic_dataplane_find_tft_rules c session_id max_rules =
     (case session_id of None \<Rightarrow> [] | Some sid \<Rightarrow>
        take max_rules
          (filter (\<lambda>i. tf_in_use (dp_tft_rules c ! i) \<and> tf_session_id (dp_tft_rules c ! i) = sid)
             [0..<length (dp_tft_rules c)]))"

fun switch_tft_loop ::
  "os_env \<Rightarrow> string \<Rightarrow> string \<Rightarrow> u32 \<Rightarrow> TftRule list \<Rightarrow> dp_world \<Rightarrow> TftRule list \<times> nat \<times> dp_world" where
  "switch_tft_loop os sid lid mark [] w = ([], 0, w)"
| "switch_tft_loop os sid lid mark (r # rs) w =
     (if \<not> tf_in_use r \<or> tf_session_id r \<noteq> sid \<or> tf_link_id r = lid
      then let (rs', n, w') = switch_tft_loop os sid lid mark rs w in (r # rs', n, w')
      else
        let m = full_match (tf_tuple r);
            w1 = run_cmd os (mangle_del_cmd m (tf_fwmark r)) w;
            (ret, w2) = magic_dataplane_exec_cmd os (mangle_add_cmd m mark) w1;
            (rs', n, w') = switch_tft_loop os sid lid mark rs w2
        in if ret = 0
           then (r\<lparr>tf_link_id := strncpy_buf 63 lid, tf_fwmark := mark\<rparr> # rs', Suc n, w')
           else (r # rs', n, w'))"

definition magic_dataplane_switch_tft_link ::
  "os_env \<Rightarrow> string option \<Rightarrow> string option \<Rightarrow> dp_world \<Rightarrow> int \<times> dp_world" where
  "magic_dataplane_switch_tft_link os session_id new_link_id w =
     (if \<not> dp_is_initialized (dp w) then (-1, w)
      else case (session_id, new_link_id) of
        (Some sid, Some lid) \<Rightarrow>
          (case find_link_config (dp w) lid of
             None \<Rightarrow> (-1, w)
           | Some li \<Rightarrow>
               let (rs', n, w1) = switch_tft_loop os sid lid (lr_fwmark (dp_links (dp w) ! li))
                                    (dp_tft_rules (dp w)) w
               in (if n > 0 then 0 else -1, w1\<lparr>dp := (dp w1)\<lparr>dp_tft_rules := rs'\<rparr>\<rparr>))
      | _ \<Rightarrow> (-1, w))"

definition magic_dataplane_switch_client_link ::
  "os_env \<Rightarrow> string option \<Rightarrow> string option \<Rightarrow> dp_world \<Rightarrow> int \<times> dp_world" where
  "magic_dataplane_switch_client_link os session_id new_link_id w =
     (if \<not> dp_is_initialized (dp w) then (-1, w)
      else case (session_id, new_link_id) of
        (Some sid, Some lid) \<Rightarrow>
          if magic_dataplane_find_tft_rules (dp w) (Some sid) MAX_TFT_RULES \<noteq> []
          then magic_dataplane_switch_tft_link os (Some sid) (Some lid) w
          else (0, w)
      | _ \<Rightarrow> (-1, w))"

section \<open>Shut-down\<close>

definition cleanup_rule_cmds :: "DataplaneContext \<Rightarrow> string list" where
  "cleanup_rule_cmds c =
     map (\<lambda>r. mangle_del_cmd (cleanup_match (tf_tuple r)) (tf_fwmark r))
       (filter tf_in_use (dp_tft_rules c))
     @ map (\<lambda>r. fmt [''ip rule del from '', rr_client_ip r, '' lookup '',
                     show_word (rr_route_table_id r), '' 2>/dev/null''])
         (filter rr_in_use (dp_rules c))
     @ map (\<lambda>l. fmt [''ip route flush table '', show_word (lr_route_table_id l), '' 2>/dev/null''])
         (take (unat (dp_num_links c)) (dp_links c))
     @ (if dp_fwmark_rules_installed c then del_fwmark_cmds else [])"

definition magic_dataplane_cleanup :: "os_env \<Rightarrow> dp_world \<Rightarrow> dp_world" where
  "magic_dataplane_cleanup os w =
     (let c = dp w; n = unat (dp_num_links c);
          w1 = run_cmds os (cleanup_rule_cmds c) w;
          c1 = c\<lparr>dp_tft_rules := map (\<lambda>r. r\<lparr>tf_in_use := False\<rparr>) (dp_tft_rules c), dp_num_tft_rules := 0,
                 dp_rules := map (\<lambda>r. r\<lparr>rr_in_use := False\<rparr>) (dp_rules c), dp_num_rules := 0,
                 dp_links := map (\<lambda>l. l\<lparr>lr_is_configured := False\<rparr>) (take n (dp_links c)) @ drop n (dp_links c),
                 dp_num_links := 0, dp_fwmark_rules_installed := False, dp_is_initialized := False\<rparr>;
          w2 = run_cmds os
                 [''iptables -D OUTPUT -m set --match-set magic_data src -j ACCEPT 2>/dev/null'',
                  ''iptables -D OUTPUT -m set --match-set magic_control src -j ACCEPT 2>/dev/null'',
                  ''iptables -D FORWARD -m state --state ESTABLISHED,RELATED -j ACCEPT 2>/dev/null'']
                 (w1\<lparr>dp := c1\<rparr>)
      in snd (magic_dataplane_ipset_destroy os w2))"

end
