(* ===== verification/Dataplane_Laws.thy ===== *)
theory Dataplane_Laws
  imports Dataplane
begin

text \<open>
  What the data plane promises. The routing rules refine a finite map from sessions to routes
  (\<open>routes_of\<close>), the packet filters refine a map from sessions to their filters
  (\<open>filters_of\<close>); the counters agree with the tables in every state a run of the operations reaches
  (\<open>dp_inv\<close>). The rule table and the filter table are instances of \<open>keyed_table\<close> and
  \<open>slot_table\<close>; the operations are an instance of \<open>guarded_machine\<close>; removing client routes is an
  instance of \<open>releaser\<close>, which the session component uses when it tears sessions down.
\<close>

section \<open>Commands do not change the context\<close>

definition exit_code :: "os_env \<Rightarrow> string \<Rightarrow> dp_world \<Rightarrow> int" where
  "exit_code os cmd w = (let ret = os_system os (cmds w) cmd in if ret = -1 then -1 else ret div 256 mod 256)"

named_theorems run_simps \<open>effect of running commands\<close>

lemma exec_cmd_pair [run_simps]:
  "magic_dataplane_exec_cmd os c w = (exit_code os c w, w\<lparr>cmds := cmds w @ [c]\<rparr>)"
  by (simp add: magic_dataplane_exec_cmd_def exit_code_def Let_def)

lemma run_cmd_eq [run_simps]: "run_cmd os c w = w\<lparr>cmds := cmds w @ [c]\<rparr>"
  by (simp add: run_cmd_def exec_cmd_pair)

lemma run_cmds_eq [run_simps]: "run_cmds os cs w = w\<lparr>cmds := cmds w @ cs\<rparr>"
  unfolding run_cmds_def by (induction cs arbitrary: w) (simp_all add: run_cmd_eq)

lemma raw_system_eq [run_simps]: "fold (raw_system os) cs w = w\<lparr>cmds := cmds w @ cs\<rparr>"
  by (induction cs arbitrary: w) (simp_all add: raw_system_def)

lemma exit_code_range: "exit_code os c w = -1 \<or> (0 \<le> exit_code os c w \<and> exit_code os c w < 256)"
  by (simp add: exit_code_def Let_def)

lemma dp_ipset_add_data [simp]: "dp (snd (magic_dataplane_ipset_add_data os ip w)) = dp w"
  by (simp add: magic_dataplane_ipset_add_data_def run_simps split: option.splits)

lemma dp_ipset_del [simp]: "dp (snd (magic_dataplane_ipset_del os ip w)) = dp w"
  by (simp add: magic_dataplane_ipset_del_def run_simps split: option.splits)

lemma dp_ipset_init [simp]: "dp (snd (magic_dataplane_ipset_init os w)) = dp w"
  by (simp add: magic_dataplane_ipset_init_def run_simps Let_def)

lemma dp_ipset_destroy [simp]: "dp (snd (magic_dataplane_ipset_destroy os w)) = dp w"
  by (simp add: magic_dataplane_ipset_destroy_def run_simps)

lemma add_ip_rule_dp [simp]: "dp (snd (add_ip_rule os ip t p w)) = dp w"
  by (simp add: add_ip_rule_def run_simps)

lemma delete_ip_rule_dp [simp]: "dp (snd (delete_ip_rule os ip t w)) = dp w"
  by (simp add: delete_ip_rule_def run_simps)

lemma remove_blackhole_dp [simp]: "dp (snd (remove_blackhole_rule os ip w)) = dp w"
  by (simp add: remove_blackhole_rule_def run_simps)

lemma add_blackhole_dp [simp]: "dp (snd (add_blackhole_rule os ip w)) = dp w"
  by (simp add: add_blackhole_rule_def remove_blackhole_rule_def run_simps Let_def)

lemma setup_access_dp [simp]: "dp (snd (setup_client_link_access os ip gw d sk w)) = dp w"
  by (simp add: setup_client_link_access_def remove_client_iptables_rules_def run_simps
      split: option.splits)

lemma init_nat_dp [simp]: "dp (snd (init_mark_based_nat os w)) = dp w"
  by (simp add: init_mark_based_nat_def run_simps)

lemma init_fwmark_dp:
  "dp (snd (init_fwmark_rules os w)) = dp w \<or>
   dp (snd (init_fwmark_rules os w)) = (dp w)\<lparr>dp_fwmark_rules_installed := True\<rparr>"
  by (simp add: init_fwmark_rules_def run_simps Let_def)

lemma init_filter_dp [simp]: "dp (init_filter_rules os ip w) = dp w"
  by (simp add: init_filter_rules_def run_simps Let_def)

lemma create_route_table_cases:
  assumes "create_route_table os l w = (r, l', w')"
  shows "dp w' = dp w \<and> (r = 0 \<and> l' = l\<lparr>lr_is_configured := True\<rparr> \<or> r = -1 \<and> l' = l)"
  using assms by (auto simp: create_route_table_def run_simps Let_def split: if_splits)

lemma delete_route_table_eq:
  "delete_route_table os l w = (0, l\<lparr>lr_is_configured := False\<rparr>,
     run_cmd os (fmt [''ip route flush table '', show_word (lr_route_table_id l), '' 2>/dev/null'']) w)"
  by (simp add: delete_route_table_def)

section \<open>Tables\<close>

interpretation rules: keyed_table rr_in_use zero_rule rr_session_id
  by unfold_locales (simp add: zero_rule_def)

interpretation tfts: slot_table tf_in_use zero_tft
  by unfold_locales (simp add: zero_tft_def)

definition rule_counts :: "DataplaneContext \<Rightarrow> bool" where
  "rule_counts c \<longleftrightarrow> length (dp_rules c) = MAX_ROUTING_RULES \<and> length (dp_tft_rules c) = MAX_TFT_RULES
     \<and> unat (dp_num_rules c) = count_if rr_in_use (dp_rules c)
     \<and> unat (dp_num_tft_rules c) = count_if tf_in_use (dp_tft_rules c)"

definition links_ok :: "DataplaneContext \<Rightarrow> bool" where
  "links_ok c \<longleftrightarrow> length (dp_links c) = MAX_DATAPLANE_LINKS \<and> unat (dp_num_links c) \<le> MAX_DATAPLANE_LINKS
     \<and> distinct (map lr_link_id (take (unat (dp_num_links c)) (dp_links c)))
     \<and> (\<forall>l\<in>set (take (unat (dp_num_links c)) (dp_links c)).
          100 \<le> lr_route_table_id l \<and> lr_route_table_id l < 110 \<and> lr_fwmark l = lr_route_table_id l)"

definition prio_ok :: "DataplaneContext \<Rightarrow> bool" where
  "prio_ok c \<longleftrightarrow> 1000 \<le> dp_next_priority c \<and> dp_next_priority c \<le> 2000"

definition dp_inv :: "DataplaneContext \<Rightarrow> bool" where
  "dp_inv c \<longleftrightarrow> rule_counts c \<and> links_ok c \<and> prio_ok c
     \<and> keys_unique rr_in_use rr_session_id (dp_rules c)"

lemmas dp_inv_defs = dp_inv_def rule_counts_def links_ok_def prio_ok_def

lemma unat_plus1_bounded: "unat (x :: u32) \<le> n \<Longrightarrow> n < 5000 \<Longrightarrow> unat (x + 1) = unat x + 1"
  by (simp add: unat_word_ariths)

lemma unat_minus1_pos: "unat (x :: u32) = Suc n \<Longrightarrow> unat (x - 1) = n"
  using unat_minus_one [of x] by (metis One_nat_def diff_Suc_1 nat.distinct(1) unat_0)

section \<open>Effect of the route operations on the context\<close>

definition drop_rule :: "nat \<Rightarrow> DataplaneContext \<Rightarrow> DataplaneContext" where
  "drop_rule i c = c\<lparr>dp_rules := (dp_rules c)[i := (dp_rules c ! i)\<lparr>rr_in_use := False\<rparr>],
                    dp_num_rules := dp_num_rules c - 1\<rparr>"

definition drop_session_rule :: "string \<Rightarrow> DataplaneContext \<Rightarrow> DataplaneContext" where
  "drop_session_rule sid c =
     (case magic_dataplane_find_rule c (Some sid) of None \<Rightarrow> c | Some i \<Rightarrow> drop_rule i c)"

definition next_prio :: "u32 \<Rightarrow> u32" where
  "next_prio p = (if p + 1 > 2000 then 1000 else p + 1)"

definition route_rule :: "int \<Rightarrow> string \<Rightarrow> string \<Rightarrow> string \<Rightarrow> u32 \<Rightarrow> u32 \<Rightarrow> ClientRoutingRule" where
  "route_rule now ip sid lid prio tab =
     zero_rule\<lparr>rr_in_use := True, rr_client_ip := strncpy_buf 63 ip, rr_session_id := strncpy_buf 63 sid,
       rr_link_id := strncpy_buf 63 lid, rr_rule_priority := prio, rr_route_table_id := tab,
       rr_created_at := now\<rparr>"

definition place_rule :: "nat \<Rightarrow> ClientRoutingRule \<Rightarrow> DataplaneContext \<Rightarrow> DataplaneContext" where
  "place_rule k r c = c\<lparr>dp_next_priority := next_prio (dp_next_priority c),
     dp_rules := (dp_rules c)[k := r], dp_num_rules := dp_num_rules c + 1\<rparr>"

definition skip_prio :: "DataplaneContext \<Rightarrow> DataplaneContext" where
  "skip_prio c = c\<lparr>dp_next_priority := next_prio (dp_next_priority c)\<rparr>"

lemma free_rule_dp [simp]: "dp (free_rule i w) = drop_rule i (dp w)"
  by (simp add: free_rule_def drop_rule_def)

lemma set_link_dp [simp]: "dp (set_link i l w) = (dp w)\<lparr>dp_links := (dp_links (dp w))[i := l]\<rparr>"
  by (simp add: set_link_def)

lemma add_ip_rule_pair:
  "add_ip_rule os ip t p w = (r, w') \<Longrightarrow> dp w' = dp w \<and> (r = 0 \<or> r = -1)"
  by (auto simp: add_ip_rule_def run_simps split: if_splits)

lemma install_cases:
  assumes "install_client_route os now ip sid lid dest li w = (r, w')"
  defines "c \<equiv> drop_session_rule sid (dp w)"
  shows "r = -1 \<and> (find_free_rule_slot c = None \<and> dp w' = c \<or> dp w' = skip_prio c) \<or>
         r = 0 \<and> (\<exists>k. find_free_rule_slot c = Some k \<and>
           dp w' = place_rule k (route_rule now ip sid lid (dp_next_priority c)
                                  (lr_route_table_id (dp_links (dp w) ! li))) c)"
proof -
  define w1 where "w1 = (case magic_dataplane_find_rule (dp w) (Some sid) of None \<Rightarrow> w
     | Some e \<Rightarrow> free_rule e (snd (delete_ip_rule os (rr_client_ip (dp_rules (dp w) ! e))
                              (rr_route_table_id (dp_rules (dp w) ! e)) w)))"
  have c: "dp w1 = c"
    by (simp add: w1_def c_def drop_session_rule_def split: option.splits)
  show ?thesis
  proof (cases "find_free_rule_slot c")
    case None
    with assms(1) c show ?thesis
      by (auto simp: install_client_route_def Let_def w1_def [symmetric])
  next
    case (Some k)
    with assms(1) c show ?thesis
      by (auto simp: install_client_route_def Let_def w1_def [symmetric] raw_system_eq skip_prio_def
          place_rule_def route_rule_def next_prio_def
          dest!: add_ip_rule_pair split: prod.splits if_splits)
  qed
qed

text \<open>The link's flag may be set before the route goes in; \<open>ready_link\<close> is the context after that.\<close>

definition ready_link :: "nat \<Rightarrow> DataplaneContext \<Rightarrow> DataplaneContext" where
  "ready_link li c = c\<lparr>dp_links := (dp_links c)[li := (dp_links c ! li)\<lparr>lr_is_configured := True\<rparr>]\<rparr>"

lemma ready_link_simps [simp]:
  "dp_rules (ready_link li c) = dp_rules c" "dp_num_rules (ready_link li c) = dp_num_rules c"
  "dp_tft_rules (ready_link li c) = dp_tft_rules c" "dp_num_tft_rules (ready_link li c) = dp_num_tft_rules c"
  "dp_next_priority (ready_link li c) = dp_next_priority c"
  "dp_num_links (ready_link li c) = dp_num_links c"
  "dp_is_initialized (ready_link li c) = dp_is_initialized c"
  "dp_enable_routing (ready_link li c) = dp_enable_routing c"
  by (simp_all add: ready_link_def)

lemma ready_link_table [simp]:
  "lr_route_table_id (dp_links (ready_link li c) ! li) = lr_route_table_id (dp_links c ! li)"
  by (cases "li < length (dp_links c)") (simp_all add: ready_link_def list_update_beyond)

lemma add_route_cases:
  assumes "magic_dataplane_add_client_route os now cip csid clid dest w = (r, w')"
  obtains (unchanged) "dp w' = dp w" "r = -1 \<or> r = 0 \<and> \<not> dp_enable_routing (dp w)"
  | (installed) ip sid lid li c0 w0 where "cip = Some ip" "csid = Some sid" "clid = Some lid"
      "dp_is_initialized (dp w)" "dp_enable_routing (dp w)"
      "find_link_config (dp w) lid = Some li" "c0 = dp w \<or> c0 = ready_link li (dp w)" "dp w0 = c0"
      "install_client_route os now ip sid lid dest li w0 = (r, w')"
proof (cases "dp_is_initialized (dp w) \<and> dp_enable_routing (dp w)")
  case False
  with assms show ?thesis
    by (intro unchanged) (auto simp: magic_dataplane_add_client_route_def split: option.splits if_splits)
next
  case True
  show ?thesis
  proof (cases "cip = None \<or> csid = None \<or> clid = None \<or> find_link_config (dp w) (the clid) = None")
    case True
    with assms show ?thesis
      by (intro unchanged) (auto simp: magic_dataplane_add_client_route_def split: option.splits if_splits)
  next
    case False
    then obtain ip sid lid li where v: "cip = Some ip" "csid = Some sid" "clid = Some lid"
      "find_link_config (dp w) lid = Some li" by auto
    obtain rc l' wc where crt: "create_route_table os (dp_links (dp w) ! li) w = (rc, l', wc)"
      by (cases "create_route_table os (dp_links (dp w) ! li) w")
    note eff = create_route_table_cases [OF crt]
    show ?thesis
    proof (cases "lr_is_configured (dp_links (dp w) ! li)")
      case True
      with assms v \<open>dp_is_initialized (dp w) \<and> dp_enable_routing (dp w)\<close> show ?thesis
        by (intro installed [of ip sid lid li "dp w" w])
          (auto simp: magic_dataplane_add_client_route_def Let_def)
    next
      case nc: False
      show ?thesis
      proof (cases "rc = 0")
        case True
        with assms v nc crt eff \<open>dp_is_initialized (dp w) \<and> dp_enable_routing (dp w)\<close> show ?thesis
          by (intro installed [of ip sid lid li "ready_link li (dp w)" "set_link li l' wc"])
            (auto simp: magic_dataplane_add_client_route_def Let_def ready_link_def)
      next
        case False
        with assms v nc crt eff True show ?thesis
          by (intro unchanged) (auto simp: magic_dataplane_add_client_route_def Let_def)
      qed
    qed
  qed
qed

section \<open>Routes as a map\<close>

type_synonym route = "string \<times> string \<times> u32"

definition route_of :: "ClientRoutingRule \<Rightarrow> route" where
  "route_of r = (rr_client_ip r, rr_link_id r, rr_route_table_id r)"

definition routes_of :: "DataplaneContext \<Rightarrow> string \<Rightarrow> route option" where
  "routes_of c sid = map_option route_of (table_map rr_in_use rr_session_id (dp_rules c) sid)"

lemma routes_of_cong: "dp_rules c = dp_rules c' \<Longrightarrow> routes_of c = routes_of c'"
  by (simp add: routes_of_def fun_eq_iff)

lemma find_rule_idx:
  "magic_dataplane_find_rule c (Some sid) = find_idx (\<lambda>r. rr_in_use r \<and> rr_session_id r = sid) (dp_rules c)"
  by (simp add: magic_dataplane_find_rule_def)

lemma routes_of_None_iff: "routes_of c sid = None \<longleftrightarrow> magic_dataplane_find_rule c (Some sid) = None"
  by (simp add: routes_of_def table_map_def find_rule_idx)

lemma drop_rule_routes:
  assumes "keys_unique rr_in_use rr_session_id (dp_rules c)"
    and "magic_dataplane_find_rule c (Some sid) = Some i"
  shows "routes_of (drop_rule i c) = (routes_of c)(sid := None)"
  using rules.table_map_removed [OF assms(1) assms(2) [unfolded find_rule_idx],
      of "(dp_rules c ! i)\<lparr>rr_in_use := False\<rparr>"]
  by (auto simp: routes_of_def drop_rule_def fun_eq_iff)

lemma drop_session_rule_routes:
  assumes "keys_unique rr_in_use rr_session_id (dp_rules c)"
  shows "routes_of (drop_session_rule sid c) = (routes_of c)(sid := None)"
  using drop_rule_routes [OF assms] routes_of_None_iff [of c sid]
  by (auto simp: drop_session_rule_def fun_eq_iff split: option.splits)

lemma place_rule_routes:
  assumes "find_free_rule_slot c = Some k" and "rr_in_use r" and "routes_of c (rr_session_id r) = None"
  shows "routes_of (place_rule k r c) = (routes_of c)(rr_session_id r \<mapsto> route_of r)"
  using assms rules.table_map_inserted [of "dp_rules c" k r]
  by (auto simp: routes_of_def place_rule_def find_free_rule_slot_def fun_eq_iff)

lemma drop_rule_unique:
  "keys_unique rr_in_use rr_session_id (dp_rules c) \<Longrightarrow>
   keys_unique rr_in_use rr_session_id (dp_rules (drop_rule i c))"
  by (simp add: drop_rule_def rules.unique_removed)

lemma drop_session_rule_unique:
  "keys_unique rr_in_use rr_session_id (dp_rules c) \<Longrightarrow>
   keys_unique rr_in_use rr_session_id (dp_rules (drop_session_rule sid c))"
  by (simp add: drop_session_rule_def drop_rule_unique split: option.splits)

lemma place_rule_unique:
  assumes "keys_unique rr_in_use rr_session_id (dp_rules c)"
    and "find_free_rule_slot c = Some k" and "routes_of c (rr_session_id r) = None"
  shows "keys_unique rr_in_use rr_session_id (dp_rules (place_rule k r c))"
  using assms rules.unique_inserted [of "dp_rules c" k r]
  by (auto simp: place_rule_def find_free_rule_slot_def routes_of_None_iff find_rule_idx)

section \<open>Counters\<close>

lemma drop_rule_counts:
  assumes "rule_counts c" and "magic_dataplane_find_rule c (Some sid) = Some i"
  shows "rule_counts (drop_rule i c)"
proof -
  have i: "i < length (dp_rules c)" "rr_in_use (dp_rules c ! i)"
    using find_idx_SomeD [OF assms(2) [unfolded find_rule_idx]] by auto
  have "Suc (count_if rr_in_use (dp_rules (drop_rule i c))) = unat (dp_num_rules c)"
    using rules.free_slot [OF i] assms(1) by (simp add: drop_rule_def rule_counts_def)
  from unat_minus1_pos [OF this [symmetric]] assms(1) show ?thesis
    by (simp add: rule_counts_def drop_rule_def)
qed

lemma drop_session_rule_counts: "rule_counts c \<Longrightarrow> rule_counts (drop_session_rule sid c)"
  using drop_rule_counts by (auto simp: drop_session_rule_def split: option.splits)

lemma place_rule_counts:
  assumes "rule_counts c" and "find_free_rule_slot c = Some k" and "rr_in_use r"
  shows "rule_counts (place_rule k r c)"
proof -
  have "unat (dp_num_rules c) \<le> 256"
    using assms(1) count_if_le_length [of rr_in_use "dp_rules c"] by (simp add: rule_counts_def)
  from unat_plus1_bounded [OF this] rules.take_slot [OF assms(2) [unfolded find_free_rule_slot_def] assms(3)]
  show ?thesis using assms(1) by (simp add: rule_counts_def place_rule_def)
qed

lemma next_prio_ok: "1000 \<le> p \<Longrightarrow> p \<le> 2000 \<Longrightarrow> 1000 \<le> next_prio p \<and> next_prio p \<le> 2000"
  unfolding next_prio_def word_le_nat_alt word_less_nat_alt
  by (auto simp: unat_word_ariths word_le_nat_alt)

section \<open>Invariant, one operation at a time\<close>

lemma links_ok_cong:
  "dp_links c = dp_links c' \<Longrightarrow> dp_num_links c = dp_num_links c' \<Longrightarrow> links_ok c = links_ok c'"
  by (simp add: links_ok_def)

lemma drop_rule_fields [simp]:
  "dp_links (drop_rule i c) = dp_links c" "dp_num_links (drop_rule i c) = dp_num_links c"
  "dp_next_priority (drop_rule i c) = dp_next_priority c"
  "dp_tft_rules (drop_rule i c) = dp_tft_rules c"
  by (simp_all add: drop_rule_def)

lemma drop_session_rule_fields [simp]:
  "dp_links (drop_session_rule i c) = dp_links c" "dp_num_links (drop_session_rule i c) = dp_num_links c"
  "dp_next_priority (drop_session_rule i c) = dp_next_priority c"
  "dp_tft_rules (drop_session_rule i c) = dp_tft_rules c"
  by (simp_all add: drop_session_rule_def split: option.splits)

lemma place_rule_fields [simp]:
  "dp_links (place_rule k r c) = dp_links c" "dp_num_links (place_rule k r c) = dp_num_links c"
  "dp_next_priority (place_rule k r c) = next_prio (dp_next_priority c)"
  "dp_tft_rules (place_rule k r c) = dp_tft_rules c"
  by (simp_all add: place_rule_def)

lemma drop_session_rule_inv: "dp_inv c \<Longrightarrow> dp_inv (drop_session_rule sid c)"
  by (simp add: dp_inv_def drop_session_rule_counts drop_session_rule_unique prio_ok_def
      links_ok_cong [of "drop_session_rule sid c" c])

lemma skip_prio_inv: "dp_inv c \<Longrightarrow> dp_inv (skip_prio c)"
  by (simp add: dp_inv_defs skip_prio_def next_prio_ok)

lemma place_rule_inv:
  assumes "dp_inv c" "find_free_rule_slot c = Some k" "rr_in_use r" "routes_of c (rr_session_id r) = None"
  shows "dp_inv (place_rule k r c)"
  using assms by (simp add: dp_inv_def place_rule_counts place_rule_unique prio_ok_def next_prio_ok
      links_ok_cong [of "place_rule k r c" c])

lemma take_map_link_ids:
  "i < length xs \<Longrightarrow> f v = f (xs ! i) \<Longrightarrow> map f (take n (xs[i := v])) = map f (take n xs)"
  by (auto simp: list_eq_iff_nth_eq nth_list_update)

lemma set_link_ok:
  assumes "links_ok c" and "i < length (dp_links c)"
    and "lr_link_id l = lr_link_id (dp_links c ! i)"
    and "lr_route_table_id l = lr_route_table_id (dp_links c ! i)" and "lr_fwmark l = lr_fwmark (dp_links c ! i)"
  shows "links_ok (c\<lparr>dp_links := (dp_links c)[i := l]\<rparr>)"
  using assms by (auto simp: links_ok_def take_map_link_ids all_set_conv_all_nth nth_list_update)

lemma find_link_less:
  assumes "links_ok c" and "find_link_config c lid = Some i"
  shows "i < unat (dp_num_links c)" and "i < length (dp_links c)"
  using find_idx_less [OF assms(2) [unfolded find_link_config_def]] assms(1)
  by (auto simp: links_ok_def)

lemma ready_link_inv:
  assumes "dp_inv c" and "find_link_config c lid = Some li"
  shows "dp_inv (ready_link li c)"
  using assms find_link_less [of c lid li] set_link_ok [of c li "(dp_links c ! li)\<lparr>lr_is_configured := True\<rparr>"]
  by (simp add: dp_inv_def rule_counts_def prio_ok_def ready_link_def)

lemma route_rule_simps [simp]:
  "rr_in_use (route_rule now ip sid lid p t)"
  "rr_session_id (route_rule now ip sid lid p t) = strncpy_buf 63 sid"
  "rr_client_ip (route_rule now ip sid lid p t) = strncpy_buf 63 ip"
  "rr_link_id (route_rule now ip sid lid p t) = strncpy_buf 63 lid"
  "rr_route_table_id (route_rule now ip sid lid p t) = t"
  by (simp_all add: route_rule_def)

lemma ready_link_routes [simp]: "routes_of (ready_link li c) = routes_of c"
  by (rule routes_of_cong) simp

lemma install_inv_routes:
  assumes inst: "install_client_route os now ip sid lid dest li w = (r, w')"
    and inv: "dp_inv (dp w)" and sid: "length sid \<le> 63"
  shows "dp_inv (dp w')"
    and "r = 0 \<Longrightarrow> routes_of (dp w') = (routes_of (dp w))
           (sid \<mapsto> (strncpy_buf 63 ip, strncpy_buf 63 lid, lr_route_table_id (dp_links (dp w) ! li)))"
    and "r \<noteq> 0 \<Longrightarrow> routes_of (dp w') = (routes_of (dp w))(sid := None)"
proof -
  define c where "c = drop_session_rule sid (dp w)"
  have cinv: "dp_inv c" unfolding c_def using inv by (rule drop_session_rule_inv)
  have cr: "routes_of c = (routes_of (dp w))(sid := None)"
    unfolding c_def using inv by (intro drop_session_rule_routes) (simp add: dp_inv_def)
  have sp: "routes_of (skip_prio c) = routes_of c"
    by (rule routes_of_cong) (simp add: skip_prio_def)
  note cases = install_cases [OF inst, folded c_def]
  show "dp_inv (dp w')"
    using cases cinv cr sid by (auto simp: skip_prio_inv intro!: place_rule_inv)
  show "r = 0 \<Longrightarrow> routes_of (dp w') = (routes_of (dp w))
      (sid \<mapsto> (strncpy_buf 63 ip, strncpy_buf 63 lid, lr_route_table_id (dp_links (dp w) ! li)))"
    using cases cr sid by (auto simp: place_rule_routes route_of_def)
  show "r \<noteq> 0 \<Longrightarrow> routes_of (dp w') = (routes_of (dp w))(sid := None)"
    using cases cr sp by auto
qed

lemma add_route_inv:
  assumes "dp_inv (dp w)" and "\<And>sid. session_id = Some sid \<Longrightarrow> length sid \<le> 63"
  shows "dp_inv (dp (snd (magic_dataplane_add_client_route os now client_ip session_id link_id dest w)))"
proof -
  obtain r w' where add: "magic_dataplane_add_client_route os now client_ip session_id link_id dest w = (r, w')"
    by (cases "magic_dataplane_add_client_route os now client_ip session_id link_id dest w")
  from add have "dp_inv (dp w')"
  proof (cases rule: add_route_cases)
    case unchanged
    with assms show ?thesis by simp
  next
    case (installed ip sid lid li c0 w0)
    then have "dp_inv (dp w0)" using assms(1) ready_link_inv by auto
    from install_inv_routes(1) [OF installed(9) this] assms(2) installed show ?thesis by simp
  qed
  with add show ?thesis by simp
qed

lemma remove_route_cases:
  assumes "magic_dataplane_remove_client_route os (Some sid) w = (r, w')" and "dp_is_initialized (dp w)"
  shows "dp w' = drop_session_rule sid (dp w) \<and>
         (r = (if magic_dataplane_find_rule (dp w) (Some sid) = None then -1 else 0))"
  using assms
  by (auto simp: magic_dataplane_remove_client_route_def drop_session_rule_def Let_def run_simps
      split: option.splits if_splits)

lemma remove_route_dp:
  "dp (snd (magic_dataplane_remove_client_route os (Some sid) w))
     = (if dp_is_initialized (dp w) then drop_session_rule sid (dp w) else dp w)"
proof (cases "dp_is_initialized (dp w)")
  case True
  obtain r w' where "magic_dataplane_remove_client_route os (Some sid) w = (r, w')"
    by (cases "magic_dataplane_remove_client_route os (Some sid) w")
  with remove_route_cases [OF this True] True show ?thesis by simp
next
  case False
  then show ?thesis by (simp add: magic_dataplane_remove_client_route_def)
qed

lemma remove_route_inv:
  "dp_inv (dp w) \<Longrightarrow> dp_inv (dp (snd (magic_dataplane_remove_client_route os session_id w)))"
  by (cases session_id)
    (simp_all add: remove_route_dp drop_session_rule_inv magic_dataplane_remove_client_route_def [of os None])

section \<open>Links\<close>

lemma word_less_10: "\<not> (10 :: u32) \<le> n \<Longrightarrow> unat n < 10"
  by (simp add: word_le_nat_alt)

lemma table_id_range: "unat (n :: u32) < 10 \<Longrightarrow> (100 :: u32) \<le> 100 + n \<and> 100 + n < 110"
  by (simp add: word_le_nat_alt word_less_nat_alt unat_word_ariths)

lemma append_link_ok:
  assumes ok: "links_ok c" and room: "\<not> 10 \<le> dp_num_links c"
    and fresh: "find_link_config c (lr_link_id l) = None"
    and l: "lr_route_table_id l = 100 + dp_num_links c" "lr_fwmark l = lr_route_table_id l"
  shows "links_ok (c\<lparr>dp_num_links := dp_num_links c + 1,
                     dp_links := (dp_links c)[unat (dp_num_links c) := l]\<rparr>)"
proof -
  let ?n = "unat (dp_num_links c)"
  have n: "?n < 10" using room by (rule word_less_10)
  have n1: "unat (dp_num_links c + 1) = Suc ?n" using n by (simp add: unat_word_ariths)
  have tk: "take (Suc ?n) ((dp_links c)[?n := l]) = take ?n (dp_links c) @ [l]"
    using n ok by (simp add: take_Suc_conv_app_nth links_ok_def)
  have "lr_link_id l \<notin> lr_link_id ` set (take ?n (dp_links c))"
    using fresh by (auto simp: find_link_config_def find_idx_None_iff)
  with ok n show ?thesis
    using table_id_range [OF n] l by (simp add: links_ok_def n1 tk)
qed

lemma register_link_dp:
  assumes "magic_dataplane_register_link os link_id interface_name gateway_ip w = (r, w')"
  obtains (same) "dp w' = dp w" "\<not> (dp_is_initialized (dp w) \<and> link_id \<noteq> None \<and> interface_name \<noteq> None \<and>
      find_link_config (dp w) (the link_id) = None \<and> \<not> 10 \<le> dp_num_links (dp w))"
  | (new) lid l where "link_id = Some lid" "find_link_config (dp w) lid = None" "\<not> 10 \<le> dp_num_links (dp w)"
      "lr_link_id l = strncpy_buf 63 lid" "lr_route_table_id l = 100 + dp_num_links (dp w)"
      "lr_fwmark l = lr_route_table_id l" "r = to_int32 (uint (100 + dp_num_links (dp w)))"
      "dp w' = (dp w)\<lparr>dp_num_links := dp_num_links (dp w) + 1,
                 dp_links := (dp_links (dp w))[unat (dp_num_links (dp w)) := l]\<rparr>"
proof (cases "dp_is_initialized (dp w) \<and> link_id \<noteq> None \<and> interface_name \<noteq> None \<and>
    find_link_config (dp w) (the link_id) = None \<and> \<not> 10 \<le> dp_num_links (dp w)")
  case False
  with assms show ?thesis
    by (intro same) (auto simp: magic_dataplane_register_link_def Let_def split: option.splits if_splits)
next
  case True
  then obtain lid ifn where v: "link_id = Some lid" "interface_name = Some ifn" by auto
  define l0 where "l0 = zero_link\<lparr>lr_link_id := strncpy_buf 63 lid,
                   lr_interface_name := strncpy_buf 15 ifn,
                   lr_gateway_ip := (case gateway_ip of Some g \<Rightarrow> strncpy_buf 63 g | None \<Rightarrow> []),
                   lr_route_table_id := 100 + dp_num_links (dp w), lr_fwmark := 100 + dp_num_links (dp w)\<rparr>"
  define w1 where "w1 = w\<lparr>dp := (dp w)\<lparr>dp_num_links := dp_num_links (dp w) + 1\<rparr>\<rparr>"
  obtain rc l' wc where crt: "create_route_table os l0 w1 = (rc, l', wc)"
    by (cases "create_route_table os l0 w1")
  note eff = create_route_table_cases [OF crt]
  have "magic_dataplane_register_link os link_id interface_name gateway_ip w
      = (to_int32 (uint (100 + dp_num_links (dp w))), set_link (unat (dp_num_links (dp w))) l' wc)"
    using True v crt by (simp add: magic_dataplane_register_link_def Let_def l0_def w1_def)
  with assms True v eff show ?thesis
    by (intro new [of lid l']) (auto simp: w1_def l0_def)
qed

lemma register_link_inv:
  assumes "dp_inv (dp w)" and "\<And>lid. link_id = Some lid \<Longrightarrow> length lid \<le> 63"
  shows "dp_inv (dp (snd (magic_dataplane_register_link os link_id ifn gw w)))"
proof -
  obtain r w' where reg: "magic_dataplane_register_link os link_id ifn gw w = (r, w')"
    by (cases "magic_dataplane_register_link os link_id ifn gw w")
  from reg have "dp_inv (dp w')"
  proof (cases rule: register_link_dp)
    case same
    with assms show ?thesis by simp
  next
    case (new lid l)
    from assms(2) [OF new(1)] new have "lr_link_id l = lid" by simp
    with append_link_ok [of "dp w" l] new assms(1) show ?thesis
      by (simp add: dp_inv_def rule_counts_def prio_ok_def)
  qed
  with reg show ?thesis by simp
qed

definition unlink_rule :: "u32 \<Rightarrow> ClientRoutingRule \<Rightarrow> ClientRoutingRule" where
  "unlink_rule tab r = (if rr_in_use r \<and> rr_route_table_id r = tab then r\<lparr>rr_in_use := False\<rparr> else r)"

lemma drop_table_rules_eff:
  "drop_table_rules os tab rs w = (rs', w') \<Longrightarrow>
   rs' = map (unlink_rule tab) rs \<and>
   dp w' = (dp w)\<lparr>dp_num_rules := dp_num_rules (dp w)
             - of_nat (count_if (\<lambda>r. rr_in_use r \<and> rr_route_table_id r = tab) rs)\<rparr>"
proof (induction rs arbitrary: w rs' w')
  case Nil
  then show ?case by simp
next
  case (Cons r rs)
  show ?case
  proof (cases "rr_in_use r \<and> rr_route_table_id r = tab")
    case True
    define w1 where "w1 = snd (delete_ip_rule os (rr_client_ip r) (rr_route_table_id r) w)"
    define w2 where "w2 = w1\<lparr>dp := (dp w1)\<lparr>dp_num_rules := dp_num_rules (dp w1) - 1\<rparr>\<rparr>"
    obtain rs2 w3 where rec: "drop_table_rules os tab rs w2 = (rs2, w3)"
      by (cases "drop_table_rules os tab rs w2")
    have "rs' = r\<lparr>rr_in_use := False\<rparr> # rs2" "w' = w3"
      using Cons.prems True rec by (auto simp: Let_def w1_def w2_def)
    moreover have "dp w2 = (dp w)\<lparr>dp_num_rules := dp_num_rules (dp w) - 1\<rparr>"
      by (simp add: w2_def w1_def)
    ultimately show ?thesis using Cons.IH [OF rec] True by (simp add: unlink_rule_def)
  next
    case False
    obtain rs2 w3 where rec: "drop_table_rules os tab rs w = (rs2, w3)"
      by (cases "drop_table_rules os tab rs w")
    have "rs' = r # rs2" "w' = w3" using Cons.prems False rec by auto
    then show ?thesis using Cons.IH [OF rec] False by (simp add: unlink_rule_def)
  qed
qed

lemma count_unlink:
  "count_if rr_in_use (map (unlink_rule tab) rs)
     + count_if (\<lambda>r. rr_in_use r \<and> rr_route_table_id r = tab) rs = count_if rr_in_use rs"
  by (induction rs) (auto simp: unlink_rule_def)

lemma unat_sub_counts:
  fixes n :: u32
  assumes "unat n = a + b" shows "unat (n - of_nat b) = a"
proof -
  have "n = of_nat (unat n)" by simp
  then have "n = of_nat (a + b)" using assms by simp
  then have "n - of_nat b = of_nat a" by simp
  moreover have "a < 2 ^ 32" using assms unsigned_less [of n, where 'a = nat] by simp
  ultimately show ?thesis by (simp add: unsigned_of_nat take_bit_nat_eq_self)
qed

lemma unlink_unique:
  assumes "keys_unique rr_in_use rr_session_id rs"
  shows "keys_unique rr_in_use rr_session_id (map (unlink_rule tab) rs)"
proof -
  have "rr_in_use (unlink_rule tab r) \<Longrightarrow> rr_in_use r" "rr_session_id (unlink_rule tab r) = rr_session_id r" for r
    by (auto simp: unlink_rule_def split: if_splits)
  then show ?thesis using assms by (auto simp: keys_unique_def)
qed

definition swap_remove :: "nat \<Rightarrow> nat \<Rightarrow> 'a list \<Rightarrow> 'a list" where
  "swap_remove n i xs = (if i < n - 1 then xs[i := xs ! (n - 1)] else xs)"

lemma swap_remove_nth:
  assumes "i < n" and "n \<le> length xs" and "j < n - 1"
  shows "swap_remove n i (xs[i := v]) ! j = xs ! (if j = i then n - 1 else j)"
  using assms by (auto simp: swap_remove_def nth_list_update)

lemma swap_remove_links_ok:
  assumes ok: "links_ok c" and i: "i < unat (dp_num_links c)"
  shows "links_ok (c\<lparr>dp_links := swap_remove (unat (dp_num_links c)) i ((dp_links c)[i := l]),
                     dp_num_links := dp_num_links c - 1\<rparr>)"
proof -
  let ?n = "unat (dp_num_links c)" and ?xs = "dp_links c"
  let ?ys = "swap_remove ?n i (?xs[i := l])"
  have len: "?n \<le> length ?xs" "length ?ys = length ?xs" using ok by (auto simp: links_ok_def swap_remove_def)
  have n1: "unat (dp_num_links c - 1) = ?n - 1" using i by (intro unat_minus1_pos) simp
  have nth: "?ys ! j = ?xs ! (if j = i then ?n - 1 else j)" if "j < ?n - 1" for j
    using swap_remove_nth [OF i len(1) that] .
  have "\<forall>a<?n. \<forall>b<?n. a \<noteq> b \<longrightarrow> lr_link_id (?xs ! a) \<noteq> lr_link_id (?xs ! b)"
    using ok len by (auto simp: links_ok_def distinct_conv_nth)
  then have "distinct (map lr_link_id (take (?n - 1) ?ys))"
    using len nth i by (auto simp: distinct_conv_nth)
  moreover have "\<forall>l\<in>set (take (?n - 1) ?ys). 100 \<le> lr_route_table_id l \<and> lr_route_table_id l < 110
      \<and> lr_fwmark l = lr_route_table_id l"
    using ok len nth i by (auto simp: links_ok_def all_set_conv_all_nth)
  moreover have "?n - 1 \<le> MAX_DATAPLANE_LINKS" using ok unfolding links_ok_def by linarith
  ultimately show ?thesis using ok len n1 by (simp add: links_ok_def)
qed

lemma unregister_link_dp:
  assumes "magic_dataplane_unregister_link os link_id w = (r, w')"
  obtains (same) "dp w' = dp w" "r = -1"
  | (gone) lid i l tab where "link_id = Some lid" "find_link_config (dp w) lid = Some i" "r = 0"
      "tab = lr_route_table_id (dp_links (dp w) ! i)"
      "dp w' = (dp w)\<lparr>dp_num_rules := dp_num_rules (dp w)
             - of_nat (count_if (\<lambda>r. rr_in_use r \<and> rr_route_table_id r = tab) (dp_rules (dp w))),
           dp_rules := map (unlink_rule tab) (dp_rules (dp w)),
           dp_links := swap_remove (unat (dp_num_links (dp w))) i ((dp_links (dp w))[i := l]),
           dp_num_links := dp_num_links (dp w) - 1\<rparr>"
proof (cases "dp_is_initialized (dp w) \<and> link_id \<noteq> None \<and> find_link_config (dp w) (the link_id) \<noteq> None")
  case False
  with assms show ?thesis
    by (intro same) (auto simp: magic_dataplane_unregister_link_def Let_def split: option.splits if_splits)
next
  case True
  then obtain lid i where v: "link_id = Some lid" "find_link_config (dp w) lid = Some i" by auto
  let ?link = "dp_links (dp w) ! i"
  obtain rs w1 where d: "drop_table_rules os (lr_route_table_id ?link) (dp_rules (dp w)) w = (rs, w1)"
    by (cases "drop_table_rules os (lr_route_table_id ?link) (dp_rules (dp w)) w")
  note eff = drop_table_rules_eff [OF d]
  show ?thesis
    using assms True v d eff
    by (intro gone [of lid i _ "if lr_is_configured ?link then ?link\<lparr>lr_is_configured := False\<rparr> else ?link"])
      (auto simp: magic_dataplane_unregister_link_def Let_def delete_route_table_eq run_simps swap_remove_def
        split: if_splits)
qed

lemma unregister_link_inv:
  assumes "dp_inv (dp w)"
  shows "dp_inv (dp (snd (magic_dataplane_unregister_link os link_id w)))"
proof -
  obtain r w' where un: "magic_dataplane_unregister_link os link_id w = (r, w')"
    by (cases "magic_dataplane_unregister_link os link_id w")
  from un have "dp_inv (dp w')"
  proof (cases rule: unregister_link_dp)
    case same
    with assms show ?thesis by simp
  next
    case (gone lid i l tab)
    have "unat (dp_num_rules (dp w'))= count_if rr_in_use (dp_rules (dp w'))"
      unfolding gone(5) using assms count_unlink [of tab "dp_rules (dp w)"]
      by (simp add: dp_inv_def rule_counts_def unat_sub_counts)
    moreover have "links_ok (dp w')"
    proof -
      have lk: "links_ok (dp w)" using assms by (simp add: dp_inv_def)
      from swap_remove_links_ok [OF lk find_link_less(1) [OF lk gone(2)], of l] show ?thesis
        by (rule links_ok_cong [THEN iffD1, rotated 2]) (simp_all add: gone(5))
    qed
    moreover have "keys_unique rr_in_use rr_session_id (dp_rules (dp w'))" "prio_ok (dp w')"
      using assms unlink_unique by (simp_all add: gone(5) dp_inv_def prio_ok_def)
    moreover have "length (dp_rules (dp w')) = length (dp_rules (dp w))"
      "dp_tft_rules (dp w') = dp_tft_rules (dp w)" "dp_num_tft_rules (dp w') = dp_num_tft_rules (dp w)"
      by (simp_all add: gone(5))
    ultimately show ?thesis using assms by (simp only: dp_inv_def rule_counts_def)
  qed
  with un show ?thesis by simp
qed

lemma update_gateway_dp:
  assumes "links_ok (dp w)"
  shows "\<exists>ls. dp (snd (magic_dataplane_update_link_gateway os link_id gw w)) = (dp w)\<lparr>dp_links := ls\<rparr>
     \<and> links_ok ((dp w)\<lparr>dp_links := ls\<rparr>)
     \<and> map lr_route_table_id ls = map lr_route_table_id (dp_links (dp w))"
proof (cases "\<exists>lid i g gs. link_id = Some lid \<and> find_link_config (dp w) lid = Some i \<and> gw = Some (g # gs)")
  case False
  then have "dp (snd (magic_dataplane_update_link_gateway os link_id gw w)) = dp w"
    by (auto simp: magic_dataplane_update_link_gateway_def split: option.splits list.splits)
  with assms show ?thesis by (intro exI [of _ "dp_links (dp w)"]) simp
next
  case True
  then obtain lid i g gs where v: "link_id = Some lid" "find_link_config (dp w) lid = Some i" "gw = Some (g # gs)"
    by blast
  let ?l = "dp_links (dp w) ! i"
  define l1 where "l1 = (if lr_is_configured ?l then ?l\<lparr>lr_is_configured := False\<rparr> else ?l)
     \<lparr>lr_gateway_ip := strncpy_buf 63 (g # gs)\<rparr>"
  define w1 where "w1 = (if lr_is_configured ?l then run_cmd os (fmt [''ip route flush table '',
      show_word (lr_route_table_id ?l), '' 2>/dev/null'']) w else w)"
  obtain r l2 w2 where crt: "create_route_table os l1 w1 = (r, l2, w2)" by (cases "create_route_table os l1 w1")
  note eff = create_route_table_cases [OF crt]
  have "dp w1 = dp w" by (simp add: w1_def run_simps)
  moreover have "magic_dataplane_update_link_gateway os link_id gw w = (0, set_link i l2 w2)"
    using v crt by (auto simp: magic_dataplane_update_link_gateway_def Let_def delete_route_table_eq
        l1_def w1_def split: if_splits)
  moreover have "links_ok ((dp w)\<lparr>dp_links := (dp_links (dp w))[i := l2]\<rparr>)"
    using eff assms find_link_less [OF assms v(2)] by (intro set_link_ok) (auto simp: l1_def)
  moreover have "map lr_route_table_id ((dp_links (dp w))[i := l2]) = map lr_route_table_id (dp_links (dp w))"
    using eff by (auto simp: map_update l1_def list_update_same_conv find_link_less [OF assms v(2)])
  ultimately show ?thesis using eff by (intro exI [of _ "(dp_links (dp w))[i := l2]"]) simp
qed

lemma update_gateway_inv:
  assumes "dp_inv (dp w)"
  shows "dp_inv (dp (snd (magic_dataplane_update_link_gateway os link_id gw w)))"
  using update_gateway_dp [of w os link_id gw] assms
  by (auto simp: dp_inv_def rule_counts_def prio_ok_def)

section \<open>Packet filters\<close>

definition owns :: "string \<Rightarrow> TftRule \<Rightarrow> bool" where
  "owns sid r \<longleftrightarrow> tf_in_use r \<and> tf_session_id r = sid"

definition unfilter :: "string \<Rightarrow> TftRule \<Rightarrow> TftRule" where
  "unfilter sid r = (if owns sid r then r\<lparr>tf_in_use := False\<rparr> else r)"

definition filter_del_cmds :: "TftRule \<Rightarrow> string list" where
  "filter_del_cmds r = [mangle_del_cmd (dport_match (tf_tuple r)) (tf_fwmark r),
                        forward_del_cmd (dport_match (tf_tuple r))]"

text \<open>The filters of a session: selector, link and mark of each occupied slot that names it.\<close>

definition filters_of :: "DataplaneContext \<Rightarrow> string \<Rightarrow> (TftTuple \<times> string \<times> u32) list" where
  "filters_of c sid = map (\<lambda>r. (tf_tuple r, tf_link_id r, tf_fwmark r)) (filter (owns sid) (dp_tft_rules c))"

lemma remove_tft_loop_eff:
  "remove_tft_loop os sid rs removed ip w = (rs', n, ip', w') \<Longrightarrow>
   rs' = map (unfilter sid) rs \<and> n = removed + int (count_if (owns sid) rs) \<and>
   dp w' = (dp w)\<lparr>dp_num_tft_rules := dp_num_tft_rules (dp w) - of_nat (count_if (owns sid) rs)\<rparr> \<and>
   cmds w' = cmds w @ concat (map filter_del_cmds (filter (owns sid) rs))"
proof (induction rs arbitrary: removed ip w rs' n ip' w')
  case Nil
  then show ?case by simp
next
  case (Cons r rs)
  show ?case
  proof (cases "owns sid r")
    case False
    obtain rs2 n2 ip2 w2 where rec: "remove_tft_loop os sid rs removed ip w = (rs2, n2, ip2, w2)"
      by (cases "remove_tft_loop os sid rs removed ip w")
    have "rs' = r # rs2" "n = n2" "w' = w2" using Cons.prems False rec by (auto simp: owns_def split: if_splits)
    with Cons.IH [OF rec] False show ?thesis by (simp add: unfilter_def)
  next
    case True
    define ip1 where "ip1 = (if ip = [] then strncpy_buf 63 (tt_src_ip (tf_tuple r)) else ip)"
    define w2 where "w2 = (run_cmds os (filter_del_cmds r) w)
      \<lparr>dp := (dp w)\<lparr>dp_num_tft_rules := dp_num_tft_rules (dp w) - 1\<rparr>\<rparr>"
    obtain rs3 n3 ip3 w3 where rec: "remove_tft_loop os sid rs (removed + 1) ip1 w2 = (rs3, n3, ip3, w3)"
      by (cases "remove_tft_loop os sid rs (removed + 1) ip1 w2")
    have "rs' = r\<lparr>tf_in_use := False\<rparr> # rs3" "n = n3" "w' = w3"
      using Cons.prems True rec
      by (auto simp: owns_def Let_def ip1_def w2_def filter_del_cmds_def run_simps split: prod.splits)
    with Cons.IH [OF rec] True show ?thesis by (simp add: unfilter_def w2_def run_simps)
  qed
qed

lemma count_unfilter:
  "count_if tf_in_use (map (unfilter sid) rs) + count_if (owns sid) rs = count_if tf_in_use rs"
  by (induction rs) (auto simp: unfilter_def owns_def)

lemma remove_tft_dp:
  assumes "magic_dataplane_remove_tft_rules os (Some sid) w = (n, w')" and "dp_is_initialized (dp w)"
  shows "n = int (count_if (owns sid) (dp_tft_rules (dp w)))"
    and "dp w' = (dp w)\<lparr>dp_num_tft_rules := dp_num_tft_rules (dp w)
                       - of_nat (count_if (owns sid) (dp_tft_rules (dp w))),
                     dp_tft_rules := map (unfilter sid) (dp_tft_rules (dp w))\<rparr>"
proof -
  obtain rs k ip w1 where loop: "remove_tft_loop os sid (dp_tft_rules (dp w)) 0 [] w = (rs, k, ip, w1)"
    by (cases "remove_tft_loop os sid (dp_tft_rules (dp w)) 0 [] w")
  note eff = remove_tft_loop_eff [OF loop]
  show "n = int (count_if (owns sid) (dp_tft_rules (dp w)))"
    using assms loop eff by (auto simp: magic_dataplane_remove_tft_rules_def Let_def split: if_splits)
  show "dp w' = (dp w)\<lparr>dp_num_tft_rules := dp_num_tft_rules (dp w)
                       - of_nat (count_if (owns sid) (dp_tft_rules (dp w))),
                     dp_tft_rules := map (unfilter sid) (dp_tft_rules (dp w))\<rparr>"
    using assms loop eff by (auto simp: magic_dataplane_remove_tft_rules_def Let_def run_simps split: if_splits)
qed

lemma filters_of_unfilter:
  assumes "dp_tft_rules c' = map (unfilter sid) (dp_tft_rules c)"
  shows "filters_of c' = (filters_of c)(sid := [])"
proof (rule ext)
  fix s
  have 1: "owns s (unfilter sid r) \<longleftrightarrow> owns s r \<and> s \<noteq> sid" for r
    by (auto simp: unfilter_def owns_def)
  have 2: "owns s r \<Longrightarrow> s \<noteq> sid \<Longrightarrow> unfilter sid r = r" for r
    by (auto simp: unfilter_def owns_def)
  have "filter (owns s) (map (unfilter sid) rs) = (if s = sid then [] else filter (owns s) rs)" for rs
    by (induction rs) (auto simp: 1 2)
  then show "filters_of c' s = ((filters_of c)(sid := [])) s"
    using assms by (simp add: filters_of_def)
qed

lemma remove_tft_inv:
  assumes "dp_inv (dp w)"
  shows "dp_inv (dp (snd (magic_dataplane_remove_tft_rules os session_id w)))"
proof (cases "dp_is_initialized (dp w) \<and> session_id \<noteq> None")
  case False
  with assms show ?thesis by (auto simp: magic_dataplane_remove_tft_rules_def split: option.splits)
next
  case True
  then obtain sid where sid: "session_id = Some sid" by auto
  obtain n w' where rm: "magic_dataplane_remove_tft_rules os (Some sid) w = (n, w')"
    by (cases "magic_dataplane_remove_tft_rules os (Some sid) w")
  note eff = remove_tft_dp(2) [OF rm] True
  have "unat (dp_num_tft_rules (dp w')) = count_if tf_in_use (dp_tft_rules (dp w'))"
    using eff assms count_unfilter [of sid "dp_tft_rules (dp w)"]
    by (simp add: dp_inv_def rule_counts_def unat_sub_counts)
  moreover have "links_ok (dp w')" using eff assms by (simp add: dp_inv_def links_ok_def)
  ultimately show ?thesis using eff assms sid rm by (simp add: dp_inv_def rule_counts_def prio_ok_def)
qed

lemma add_tft_dp:
  assumes "magic_dataplane_add_tft_rule os now tuple session_id link_id w = (r, w')"
  obtains (same) "dp w' = dp w" "r = -1"
  | (added) sid lid li k rule where "session_id = Some sid" "link_id = Some lid"
      "find_link_config (dp w) lid = Some li"
      "find_idx (\<lambda>r. \<not> tf_in_use r) (dp_tft_rules (dp w)) = Some k"
      "rule = \<lparr>tf_in_use = True, tf_tuple = tuple, tf_session_id = strncpy_buf 63 sid,
               tf_link_id = strncpy_buf 63 lid, tf_fwmark = lr_fwmark (dp_links (dp w) ! li),
               tf_created_at = now\<rparr>"
      "dp w' = (dp w)\<lparr>dp_tft_rules := (dp_tft_rules (dp w))[k := rule],
                 dp_num_tft_rules := dp_num_tft_rules (dp w) + 1\<rparr>"
proof (cases "dp_is_initialized (dp w) \<and> session_id \<noteq> None \<and> link_id \<noteq> None \<and>
    find_link_config (dp w) (the link_id) \<noteq> None \<and> find_idx (\<lambda>r. \<not> tf_in_use r) (dp_tft_rules (dp w)) \<noteq> None")
  case False
  with assms show ?thesis
    by (intro same) (auto simp: magic_dataplane_add_tft_rule_def split: option.splits if_splits)
next
  case True
  then obtain sid lid li k where v: "session_id = Some sid" "link_id = Some lid"
    "find_link_config (dp w) lid = Some li" "find_idx (\<lambda>r. \<not> tf_in_use r) (dp_tft_rules (dp w)) = Some k"
    by auto
  with assms True show ?thesis
    by (intro added [OF v refl])
      (auto simp: magic_dataplane_add_tft_rule_def Let_def run_simps split: if_splits)
qed

lemma add_tft_inv:
  assumes "dp_inv (dp w)"
  shows "dp_inv (dp (snd (magic_dataplane_add_tft_rule os now tuple session_id link_id w)))"
proof -
  obtain r w' where add: "magic_dataplane_add_tft_rule os now tuple session_id link_id w = (r, w')"
    by (cases "magic_dataplane_add_tft_rule os now tuple session_id link_id w")
  from add have "dp_inv (dp w')"
  proof (cases rule: add_tft_dp)
    case same
    with assms show ?thesis by simp
  next
    case (added sid lid li k rule)
    have "unat (dp_num_tft_rules (dp w)) \<le> 1024"
      using assms count_if_le_length [of tf_in_use "dp_tft_rules (dp w)"] by (simp add: dp_inv_def rule_counts_def)
    from unat_plus1_bounded [OF this] tfts.take_slot [OF added(4), of rule] added(5)
    have "unat (dp_num_tft_rules (dp w')) = count_if tf_in_use (dp_tft_rules (dp w'))"
      unfolding added(6) using assms by (simp add: dp_inv_def rule_counts_def)
    moreover have "links_ok (dp w')" unfolding added(6) using assms by (simp add: dp_inv_def links_ok_def)
    ultimately show ?thesis using assms by (simp add: dp_inv_def rule_counts_def prio_ok_def added(6))
  qed
  with add show ?thesis by simp
qed

text \<open>Moving filters to another link changes link and mark of a filter and nothing else.\<close>

definition retarget :: "string \<Rightarrow> string \<Rightarrow> u32 \<Rightarrow> TftRule \<Rightarrow> TftRule" where
  "retarget sid lid mark r =
     (if owns sid r \<and> tf_link_id r \<noteq> lid then r\<lparr>tf_link_id := strncpy_buf 63 lid, tf_fwmark := mark\<rparr> else r)"

lemma switch_loop_keeps:
  "switch_tft_loop os sid lid mark rs w = (rs', n, w') \<Longrightarrow>
   dp w' = dp w \<and> map tf_in_use rs' = map tf_in_use rs \<and>
   list_all2 (\<lambda>r r'. r' = r \<or> r' = retarget sid lid mark r) rs rs'"
proof (induction rs arbitrary: w rs' n w')
  case Nil
  then show ?case by simp
next
  case (Cons r rs)
  show ?case
  proof (cases "owns sid r \<and> tf_link_id r \<noteq> lid")
    case False
    obtain rs2 n2 w2 where rec: "switch_tft_loop os sid lid mark rs w = (rs2, n2, w2)"
      by (cases "switch_tft_loop os sid lid mark rs w")
    have "rs' = r # rs2" "w' = w2" using Cons.prems False rec by (auto simp: owns_def split: if_splits)
    with Cons.IH [OF rec] show ?thesis by simp
  next
    case True
    let ?m = "full_match (tf_tuple r)"
    define w1 where "w1 = run_cmd os (mangle_del_cmd ?m (tf_fwmark r)) w"
    define w2 where "w2 = w1\<lparr>cmds := cmds w1 @ [mangle_add_cmd ?m mark]\<rparr>"
    obtain rs3 n3 w3 where rec: "switch_tft_loop os sid lid mark rs w2 = (rs3, n3, w3)"
      by (cases "switch_tft_loop os sid lid mark rs w2")
    have "(rs' = r # rs3 \<or> rs' = retarget sid lid mark r # rs3) \<and> w' = w3"
      using Cons.prems True rec
      by (auto simp: owns_def retarget_def Let_def w1_def w2_def run_simps split: if_splits)
    moreover have "dp w2 = dp w" by (simp add: w1_def w2_def run_simps)
    moreover have "tf_in_use (retarget sid lid mark r) = tf_in_use r" by (simp add: retarget_def)
    ultimately show ?thesis using Cons.IH [OF rec] by auto
  qed
qed

lemma switch_loop_all_ok:
  assumes "\<And>h c. os_system os h c = 0"
  shows "switch_tft_loop os sid lid mark rs w = (rs', n, w') \<Longrightarrow>
   rs' = map (retarget sid lid mark) rs \<and> n = count_if (\<lambda>r. owns sid r \<and> tf_link_id r \<noteq> lid) rs"
proof (induction rs arbitrary: w rs' n w')
  case Nil
  then show ?case by simp
next
  case (Cons r rs)
  have ex: "exit_code os c v = 0" for c v using assms by (simp add: exit_code_def)
  from Cons show ?case
    by (auto simp: owns_def retarget_def Let_def run_simps ex split: if_splits prod.splits)
qed

lemma count_if_map_eq: "map P xs = map P ys \<Longrightarrow> count_if P xs = count_if P ys"
proof (induction xs arbitrary: ys)
  case (Cons x xs)
  then show ?case by (cases ys) auto
qed simp

lemma switch_tft_dp:
  "\<exists>rs. dp (snd (magic_dataplane_switch_tft_link os session_id link_id w)) = (dp w)\<lparr>dp_tft_rules := rs\<rparr>
     \<and> map tf_in_use rs = map tf_in_use (dp_tft_rules (dp w))"
proof (cases "\<exists>sid lid li. dp_is_initialized (dp w) \<and> session_id = Some sid \<and> link_id = Some lid \<and>
    find_link_config (dp w) lid = Some li")
  case False
  then have "dp (snd (magic_dataplane_switch_tft_link os session_id link_id w)) = dp w"
    by (auto simp: magic_dataplane_switch_tft_link_def split: option.splits)
  then show ?thesis by (intro exI [of _ "dp_tft_rules (dp w)"]) simp
next
  case True
  then obtain sid lid li where v: "dp_is_initialized (dp w)" "session_id = Some sid" "link_id = Some lid"
    "find_link_config (dp w) lid = Some li" by blast
  let ?mark = "lr_fwmark (dp_links (dp w) ! li)"
  obtain rs n w1 where loop: "switch_tft_loop os sid lid ?mark (dp_tft_rules (dp w)) w = (rs, n, w1)"
    by (cases "switch_tft_loop os sid lid ?mark (dp_tft_rules (dp w)) w")
  from switch_loop_keeps [OF loop] v loop show ?thesis
    by (intro exI [of _ rs]) (simp add: magic_dataplane_switch_tft_link_def)
qed

lemma switch_tft_inv:
  assumes "dp_inv (dp w)"
  shows "dp_inv (dp (snd (magic_dataplane_switch_tft_link os session_id link_id w)))"
proof -
  obtain rs where rs: "dp (snd (magic_dataplane_switch_tft_link os session_id link_id w)) = (dp w)\<lparr>dp_tft_rules := rs\<rparr>"
    "map tf_in_use rs = map tf_in_use (dp_tft_rules (dp w))" using switch_tft_dp by blast
  from rs(2) have "length rs = length (dp_tft_rules (dp w))" by (metis length_map)
  with rs count_if_map_eq [OF rs(2)] assms show ?thesis
    by (simp add: dp_inv_def rule_counts_def links_ok_def prio_ok_def)
qed

lemma switch_client_inv:
  "dp_inv (dp w) \<Longrightarrow> dp_inv (dp (snd (magic_dataplane_switch_client_link os session_id link_id w)))"
  by (auto simp: magic_dataplane_switch_client_link_def switch_tft_inv split: option.splits)

section \<open>Initialisation and shut-down\<close>

lemma init_dp:
  "\<exists>b. dp (snd (magic_dataplane_init os ingress_if ingress_ip w)) = zero_dp
            \<lparr>dp_ingress_interface := (case ingress_if of Some s \<Rightarrow> strncpy_buf 15 s | None \<Rightarrow> []),
             dp_ingress_ip := (case ingress_ip of Some s \<Rightarrow> strncpy_buf 63 s | None \<Rightarrow> []),
             dp_next_priority := 1000, dp_is_initialized := True, dp_enable_routing := True,
             dp_fwmark_rules_installed := b\<rparr>"
proof -
  define c where "c = zero_dp
            \<lparr>dp_ingress_interface := (case ingress_if of Some s \<Rightarrow> strncpy_buf 15 s | None \<Rightarrow> []),
             dp_ingress_ip := (case ingress_ip of Some s \<Rightarrow> strncpy_buf 63 s | None \<Rightarrow> []),
             dp_next_priority := 1000, dp_is_initialized := True, dp_enable_routing := True\<rparr>"
  define w3 where "w3 = init_filter_rules os ingress_ip
      (snd (init_mark_based_nat os (snd (init_fwmark_rules os (w\<lparr>dp := c\<rparr>)))))"
  have e: "dp (snd (magic_dataplane_init os ingress_if ingress_ip w)) = dp (snd (init_fwmark_rules os w3))"
    by (simp add: magic_dataplane_init_def Let_def c_def w3_def)
  have "dp w3 = c \<or> dp w3 = c\<lparr>dp_fwmark_rules_installed := True\<rparr>"
    using init_fwmark_dp [of os "w\<lparr>dp := c\<rparr>"] by (simp add: w3_def)
  moreover have "c = c\<lparr>dp_fwmark_rules_installed := False\<rparr>" by (simp add: c_def zero_dp_def)
  ultimately have "\<exists>b. dp (snd (init_fwmark_rules os w3)) = c\<lparr>dp_fwmark_rules_installed := b\<rparr>"
    using init_fwmark_dp [of os w3] by auto
  then show ?thesis by (simp add: e c_def)
qed

lemma init_inv: "dp_inv (dp (snd (magic_dataplane_init os ingress_if ingress_ip w)))"
proof -
  obtain b where "dp (snd (magic_dataplane_init os ingress_if ingress_ip w)) = zero_dp
            \<lparr>dp_ingress_interface := (case ingress_if of Some s \<Rightarrow> strncpy_buf 15 s | None \<Rightarrow> []),
             dp_ingress_ip := (case ingress_ip of Some s \<Rightarrow> strncpy_buf 63 s | None \<Rightarrow> []),
             dp_next_priority := 1000, dp_is_initialized := True, dp_enable_routing := True,
             dp_fwmark_rules_installed := b\<rparr>" using init_dp by blast
  then show ?thesis
    by (simp add: dp_inv_defs zero_dp_def rules.unique_blank rules.blank_table tfts.blank_table)
qed

lemma cleanup_dp:
  "dp (magic_dataplane_cleanup os w) = (dp w)
     \<lparr>dp_tft_rules := map (\<lambda>r. r\<lparr>tf_in_use := False\<rparr>) (dp_tft_rules (dp w)), dp_num_tft_rules := 0,
      dp_rules := map (\<lambda>r. r\<lparr>rr_in_use := False\<rparr>) (dp_rules (dp w)), dp_num_rules := 0,
      dp_links := map (\<lambda>l. l\<lparr>lr_is_configured := False\<rparr>) (take (unat (dp_num_links (dp w))) (dp_links (dp w)))
                  @ drop (unat (dp_num_links (dp w))) (dp_links (dp w)),
      dp_num_links := 0, dp_fwmark_rules_installed := False, dp_is_initialized := False\<rparr>"
  by (simp add: magic_dataplane_cleanup_def Let_def run_simps)

lemma cleanup_inv:
  assumes "dp_inv (dp w)"
  shows "dp_inv (dp (magic_dataplane_cleanup os w))"
proof -
  have "keys_unique rr_in_use rr_session_id (map (\<lambda>r. r\<lparr>rr_in_use := False\<rparr>) rs)" for rs
    by (simp add: keys_unique_def)
  then show ?thesis using assms
    by (simp add: cleanup_dp dp_inv_defs count_if_map count_if_eq_0_iff)
qed

section \<open>Releasing routes\<close>

lemma drop_session_rule_init [simp]:
  "dp_is_initialized (drop_session_rule sid c) = dp_is_initialized c"
  by (simp add: drop_session_rule_def drop_rule_def split: option.splits)

interpretation rel: releaser "\<lambda>sid w. snd (magic_dataplane_remove_client_route os (Some sid) w)"
  "\<lambda>w sid. routes_of (dp w) sid \<noteq> None" "\<lambda>w. dp_inv (dp w) \<and> dp_is_initialized (dp w)" for os
  by unfold_locales
    (auto simp: remove_route_dp drop_session_rule_inv drop_session_rule_routes dp_inv_def [of "dp _"])

end
