(* ===== verification/Dataplane_Props.thy ===== *)
theory Dataplane_Props
  imports Dataplane_Laws
begin

text \<open>
  The data plane as a machine over its operations, and its properties: the reachable-state
  invariant, the refinement of the route map and of the filter map, the commands that block a
  client when its last session goes, and the routing-table numbers of the links.
\<close>

section \<open>Runs\<close>

datatype dp_op =
    RegisterLink "string option" "string option" "string option"
  | UnregisterLink "string option"
  | UpdateGateway "string option" "string option"
  | AddRoute int "string option" "string option" "string option" "string option"
  | RemoveRoute "string option"
  | AddTft int TftTuple "string option" "string option"
  | RemoveTft "string option"
  | SwitchTft "string option" "string option"
  | SwitchClient "string option" "string option"
  | CleanupDp
  | InitDp "string option" "string option"

fun dp_step :: "os_env \<Rightarrow> dp_world \<Rightarrow> dp_op \<Rightarrow> dp_world" where
  "dp_step os w (RegisterLink lid ifn gw) = snd (magic_dataplane_register_link os lid ifn gw w)"
| "dp_step os w (UnregisterLink lid) = snd (magic_dataplane_unregister_link os lid w)"
| "dp_step os w (UpdateGateway lid gw) = snd (magic_dataplane_update_link_gateway os lid gw w)"
| "dp_step os w (AddRoute now ip sid lid dest) = snd (magic_dataplane_add_client_route os now ip sid lid dest w)"
| "dp_step os w (RemoveRoute sid) = snd (magic_dataplane_remove_client_route os sid w)"
| "dp_step os w (AddTft now t sid lid) = snd (magic_dataplane_add_tft_rule os now t sid lid w)"
| "dp_step os w (RemoveTft sid) = snd (magic_dataplane_remove_tft_rules os sid w)"
| "dp_step os w (SwitchTft sid lid) = snd (magic_dataplane_switch_tft_link os sid lid w)"
| "dp_step os w (SwitchClient sid lid) = snd (magic_dataplane_switch_client_link os sid lid w)"
| "dp_step os w CleanupDp = magic_dataplane_cleanup os w"
| "dp_step os w (InitDp ifn ip) = snd (magic_dataplane_init os ifn ip w)"

definition fits63 :: "string option \<Rightarrow> bool" where
  "fits63 s = (case s of None \<Rightarrow> True | Some x \<Rightarrow> length x \<le> 63)"

text \<open>Identifiers that fit their buffers: the session of a new route, the name of a new link.\<close>

fun ids_fit :: "dp_op \<Rightarrow> bool" where
  "ids_fit (RegisterLink lid ifn gw) = fits63 lid"
| "ids_fit (AddRoute now ip sid lid dest) = fits63 sid"
| "ids_fit _ = True"

lemma fits63_Some [simp]: "fits63 (Some s) \<longleftrightarrow> length s \<le> 63"
  by (simp add: fits63_def)

lemma dp_step_inv: "dp_inv (dp w) \<Longrightarrow> ids_fit op \<Longrightarrow> dp_inv (dp (dp_step os w op))"
  by (cases op)
    (auto intro: register_link_inv unregister_link_inv update_gateway_inv add_route_inv remove_route_inv
      add_tft_inv remove_tft_inv switch_tft_inv switch_client_inv cleanup_inv init_inv)

interpretation dpm: guarded_machine "dp_step os" "\<lambda>w. dp_inv (dp w)" ids_fit for os
  by unfold_locales (rule dp_step_inv)

text \<open>Without \<open>UnregisterLink\<close>, the link in slot \<open>i\<close> owns routing table \<open>100 + i\<close>.\<close>

definition tables_by_slot :: "DataplaneContext \<Rightarrow> bool" where
  "tables_by_slot c \<longleftrightarrow> links_ok c \<and>
     (\<forall>i<unat (dp_num_links c). lr_route_table_id (dp_links c ! i) = 100 + of_nat i)"

fun keeps_links :: "dp_op \<Rightarrow> bool" where
  "keeps_links (UnregisterLink lid) = False"
| "keeps_links (RegisterLink lid ifn gw) = fits63 lid"
| "keeps_links (AddRoute now ip sid lid dest) = fits63 sid"
| "keeps_links _ = True"

definition link_tables :: "DataplaneContext \<Rightarrow> u32 \<times> u32 list" where
  "link_tables c = (dp_num_links c, map lr_route_table_id (dp_links c))"

lemma ready_link_tables: "links_ok c \<Longrightarrow> find_link_config c lid = Some li \<Longrightarrow> link_tables (ready_link li c) = link_tables c"
  using find_link_less [of c lid li]
  by (simp add: link_tables_def ready_link_def map_update list_update_same_conv)

lemma install_tables:
  assumes "install_client_route os now ip sid lid dest li w = (r, w')"
  shows "link_tables (dp w') = link_tables (dp w)"
  using install_cases [OF assms] by (auto simp: link_tables_def skip_prio_def)

lemma add_route_tables:
  assumes "links_ok (dp w)"
  shows "link_tables (dp (snd (magic_dataplane_add_client_route os now ip sid lid dest w))) = link_tables (dp w)"
proof -
  obtain r w' where add: "magic_dataplane_add_client_route os now ip sid lid dest w = (r, w')"
    by (cases "magic_dataplane_add_client_route os now ip sid lid dest w")
  from add have "link_tables (dp w') = link_tables (dp w)"
  proof (cases rule: add_route_cases)
    case (installed ip sid lid li c0 w0)
    from install_tables [OF installed(9)] ready_link_tables [OF assms installed(6)] installed(7,8)
    show ?thesis by auto
  qed simp
  with add show ?thesis by simp
qed

lemma remove_route_tables:
  "link_tables (dp (snd (magic_dataplane_remove_client_route os sid w))) = link_tables (dp w)"
  by (cases sid) (simp_all add: remove_route_dp link_tables_def magic_dataplane_remove_client_route_def [of os None])

lemma tft_tables:
  "link_tables (dp (snd (magic_dataplane_add_tft_rule os now t sid lid w))) = link_tables (dp w)"
  "link_tables (dp (snd (magic_dataplane_remove_tft_rules os sid w))) = link_tables (dp w)"
  "link_tables (dp (snd (magic_dataplane_switch_tft_link os sid lid w))) = link_tables (dp w)"
  "link_tables (dp (snd (magic_dataplane_switch_client_link os sid lid w))) = link_tables (dp w)"
proof -
  show "link_tables (dp (snd (magic_dataplane_add_tft_rule os now t sid lid w))) = link_tables (dp w)"
    by (cases "magic_dataplane_add_tft_rule os now t sid lid w")
      (auto simp: link_tables_def elim!: add_tft_dp)
  show "link_tables (dp (snd (magic_dataplane_remove_tft_rules os sid w))) = link_tables (dp w)"
  proof (cases "\<exists>s. sid = Some s \<and> dp_is_initialized (dp w)")
    case True
    then obtain s where s: "sid = Some s" "dp_is_initialized (dp w)" by auto
    obtain n w' where "magic_dataplane_remove_tft_rules os (Some s) w = (n, w')"
      by (cases "magic_dataplane_remove_tft_rules os (Some s) w")
    with remove_tft_dp(2) [OF this s(2)] s show ?thesis by (simp add: link_tables_def)
  qed (auto simp: magic_dataplane_remove_tft_rules_def split: option.splits)
  show sw: "link_tables (dp (snd (magic_dataplane_switch_tft_link os sid lid w))) = link_tables (dp w)" for sid lid
    using switch_tft_dp [of os sid lid w] by (auto simp: link_tables_def)
  show "link_tables (dp (snd (magic_dataplane_switch_client_link os sid lid w))) = link_tables (dp w)"
    by (auto simp: magic_dataplane_switch_client_link_def sw split: option.splits)
qed

lemma tables_by_slot_link_tables:
  assumes "link_tables c' = link_tables c" and "links_ok c'" and "tables_by_slot c"
  shows "tables_by_slot c'"
proof -
  have n: "dp_num_links c' = dp_num_links c" and m: "map lr_route_table_id (dp_links c') = map lr_route_table_id (dp_links c)"
    using assms(1) by (auto simp: link_tables_def)
  have "lr_route_table_id (dp_links c' ! i) = lr_route_table_id (dp_links c ! i)" if "i < unat (dp_num_links c)" for i
    using arg_cong [OF m, of "\<lambda>xs. xs ! i"] that assms(2,3) n by (simp add: tables_by_slot_def links_ok_def)
  then show ?thesis using assms n by (simp add: tables_by_slot_def)
qed

lemma register_tables:
  assumes "dp_inv (dp w)" "tables_by_slot (dp w)" "fits63 lid"
  shows "tables_by_slot (dp (snd (magic_dataplane_register_link os lid ifn gw w)))"
proof -
  obtain r w' where reg: "magic_dataplane_register_link os lid ifn gw w = (r, w')"
    by (cases "magic_dataplane_register_link os lid ifn gw w")
  have ok: "links_ok (dp w')"
    using dp_step_inv [OF assms(1), of "RegisterLink lid ifn gw" os] assms(3) reg by (simp add: dp_inv_def)
  from reg have "tables_by_slot (dp w')"
  proof (cases rule: register_link_dp)
    case same
    with assms show ?thesis by simp
  next
    case (new lid l)
    let ?n = "unat (dp_num_links (dp w))"
    have n: "?n < 10" using new(3) by (rule word_less_10)
    have n1: "unat (dp_num_links (dp w) + 1) = Suc ?n" using n by (simp add: unat_word_ariths)
    have "lr_route_table_id (dp_links (dp w') ! i) = 100 + of_nat i" if "i < Suc ?n" for i
      using that assms(2) new n
      by (cases "i = ?n") (auto simp: tables_by_slot_def links_ok_def)
    then show ?thesis using ok n1 by (simp add: tables_by_slot_def new(8))
  qed
  with reg show ?thesis by simp
qed

lemma dp_step_tables:
  assumes inv: "dp_inv (dp w)" and tab: "tables_by_slot (dp w)" and op: "keeps_links op"
  shows "tables_by_slot (dp (dp_step os w op))"
proof -
  have "ids_fit op" using op by (cases op) auto
  from dp_step_inv [OF inv this, of os] have ok: "links_ok (dp (dp_step os w op))" by (simp add: dp_inv_def)
  have lk: "links_ok (dp w)" using inv by (simp add: dp_inv_def)
  note keep = tables_by_slot_link_tables [OF _ ok tab]
  show ?thesis
  proof (cases op)
    case (RegisterLink lid ifn gw)
    with register_tables [OF inv tab] op show ?thesis by simp
  next
    case (UnregisterLink lid)
    with op show ?thesis by simp
  next
    case (UpdateGateway lid gw)
    with update_gateway_dp [OF lk, of os lid gw] show ?thesis
      by (intro keep) (auto simp: link_tables_def)
  next
    case (InitDp ifn ip)
    then show ?thesis using ok init_dp [of os ifn ip w] by (auto simp: tables_by_slot_def zero_dp_def)
  next
    case CleanupDp
    then show ?thesis using ok by (simp add: tables_by_slot_def cleanup_dp)
  qed (intro keep; simp add: add_route_tables [OF lk] remove_route_tables tft_tables)+
qed

interpretation dpt: guarded_machine "dp_step os" "\<lambda>w. dp_inv (dp w) \<and> tables_by_slot (dp w)" keeps_links for os
proof
  fix s :: dp_world and e assume "dp_inv (dp s) \<and> tables_by_slot (dp s)" and e: "keeps_links e"
  moreover have "ids_fit e" using e by (cases e) auto
  ultimately show "dp_inv (dp (dp_step os s e)) \<and> tables_by_slot (dp (dp_step os s e))"
    using dp_step_inv dp_step_tables by blast
qed

lemma init_tables: "tables_by_slot (dp (snd (magic_dataplane_init os ingress_if ingress_ip w)))"
  using init_inv [of os ingress_if ingress_ip w] init_dp [of os ingress_if ingress_ip w]
  by (auto simp: tables_by_slot_def dp_inv_def zero_dp_def)

lemma small_of_nat_inj: "i < 10 \<Longrightarrow> j < 10 \<Longrightarrow> (of_nat i :: u32) = of_nat j \<Longrightarrow> i = j"
  by (simp add: word_of_nat_eq_iff take_bit_nat_eq_self)

lemma find_link_at:
  assumes "links_ok c" and "i < unat (dp_num_links c)"
  shows "find_link_config c (lr_link_id (dp_links c ! i)) = Some i"
  unfolding find_link_config_def
proof (rule find_idx_SomeI)
  let ?xs = "take (unat (dp_num_links c)) (dp_links c)"
  show i: "i < length ?xs" using assms by (simp add: links_ok_def)
  then show "lr_link_id (?xs ! i) = lr_link_id (dp_links c ! i)" by simp
  show "lr_link_id (?xs ! j) \<noteq> lr_link_id (dp_links c ! i)" if "j < i" for j
    using assms i that nth_eq_iff_index_eq [of "map lr_link_id ?xs" i j] by (auto simp: links_ok_def)
qed

lemma unregister_hit:
  "dp_is_initialized (dp w) \<Longrightarrow> find_link_config (dp w) lid = Some i \<Longrightarrow>
   fst (magic_dataplane_unregister_link os (Some lid) w) = 0"
  by (simp add: magic_dataplane_unregister_link_def Let_def split: prod.splits)

section \<open>Removing routes\<close>

lemma removal_commands:
  assumes inv: "dp_inv (dp w)" and init: "dp_is_initialized (dp w)"
    and hit: "routes_of (dp w) sid = Some (ip, lid, tab)" and ip: "length ip \<le> 63"
  shows "cmds (snd (magic_dataplane_remove_client_route os (Some sid) w)) =
     cmds w @ [fmt [''ip rule del from '', ip, '' lookup '', show_word tab, '' 2>/dev/null'']]
       @ (if \<exists>s r. s \<noteq> sid \<and> routes_of (dp w) s = Some r \<and> fst r = ip then []
          else [blackhole_del_cmd ip, blackhole_add_cmd ip,
                fmt [''ipset del magic_control '', ip, '' 2>/dev/null''],
                fmt [''ipset del magic_data '', ip, '' 2>/dev/null''],
                fmt [''conntrack -D -s '', ip, '' 2>/dev/null'']])"
proof -
  obtain i where i: "magic_dataplane_find_rule (dp w) (Some sid) = Some i"
    using hit routes_of_None_iff [of "dp w" sid] by (cases "magic_dataplane_find_rule (dp w) (Some sid)") auto
  let ?r = "dp_rules (dp w) ! i"
  have r: "rr_client_ip ?r = ip" "rr_route_table_id ?r = tab"
    using hit i by (auto simp: routes_of_def table_map_def find_rule_idx route_of_def)
  have uniq: "keys_unique rr_in_use rr_session_id (dp_rules (dp w))" using inv by (simp add: dp_inv_def)
  define c where "c = drop_rule i (dp w)"
  have cr: "routes_of c = (routes_of (dp w))(sid := None)"
    unfolding c_def using uniq i by (rule drop_rule_routes)
  have cu: "keys_unique rr_in_use rr_session_id (dp_rules c)"
    unfolding c_def using uniq by (rule drop_rule_unique)
  have look: "routes_of c (rr_session_id x) = Some (route_of x)" if "x \<in> set (dp_rules c)" "rr_in_use x" for x
    using rules.unique_lookup [OF cu] that
    by (auto simp: routes_of_def table_map_def in_set_conv_nth)
  have "count_client_ip_sessions c ip None = 0 \<longleftrightarrow> \<not> (\<exists>s r. routes_of c s = Some r \<and> fst r = ip)"
  proof -
    have "(\<exists>x\<in>set (dp_rules c). rr_in_use x \<and> rr_client_ip x = ip) \<longleftrightarrow> (\<exists>s r. routes_of c s = Some r \<and> fst r = ip)"
      using look by (auto simp: routes_of_def route_of_def dest!: rules.table_map_SomeD) (metis fst_conv)
    then show ?thesis by (auto simp: count_client_ip_sessions_def count_if_eq_0_iff)
  qed
  also have "\<dots> \<longleftrightarrow> \<not> (\<exists>s r. s \<noteq> sid \<and> routes_of (dp w) s = Some r \<and> fst r = ip)"
    by (auto simp: cr)
  finally show ?thesis
    using init i r ip
    by (auto simp: magic_dataplane_remove_client_route_def Let_def delete_ip_rule_def run_simps c_def
        add_blackhole_rule_def remove_blackhole_rule_def magic_dataplane_ipset_del_def free_rule_def
        drop_rule_def [symmetric])
qed

section \<open>Selectors\<close>

lemma selector_length:
  "length (dport_match t) = length (full_match t) \<longleftrightarrow> proto_str (tt_protocol t) = None \<or> tt_src_port t = 0"
proof -
  have "x > 0 \<longleftrightarrow> x \<noteq> 0" for x :: u16 by (simp add: word_neq_0_conv)
  then show ?thesis
    by (auto simp: dport_match_def full_match_def Let_def split: option.splits)
qed

lemma selector_eq_iff:
  "dport_match t = full_match t \<longleftrightarrow> proto_str (tt_protocol t) = None \<or> tt_src_port t = 0"
proof
  assume "dport_match t = full_match t"
  then show "proto_str (tt_protocol t) = None \<or> tt_src_port t = 0" by (simp flip: selector_length)
next
  assume "proto_str (tt_protocol t) = None \<or> tt_src_port t = 0"
  then show "dport_match t = full_match t"
    by (auto simp: dport_match_def full_match_def Let_def split: option.splits)
qed

lemma forward_del_inj:
  assumes "length a \<le> 400" "length b \<le> 400" "forward_del_cmd a = forward_del_cmd b"
  shows "a = b"
  using assms by (simp add: forward_del_cmd_def fmt_def snprintf_buf_def)

lemma show_port_length: "length (show_word (p :: u16)) \<le> 5"
  unfolding show_word_def using show_dec_length [of "uint p" 4] uint_lt2p [of p] by simp

lemma selector_short:
  assumes "length (tt_src_ip t) \<le> 63" and "length (tt_dst_ip t) \<le> 63"
  shows "length (full_match t) \<le> 400" and "length (dport_match t) \<le> 400"
  using assms show_port_length [of "tt_src_port t"] show_port_length [of "tt_dst_port t"]
  by (auto simp: full_match_def dport_match_def Let_def proto_str_def split: option.splits if_splits)

lemma filters_of_retarget:
  assumes "length lid \<le> 63" and "\<And>r. r \<in> set rs \<Longrightarrow> tf_link_id r = lid \<Longrightarrow> tf_fwmark r = mark"
  shows "map (\<lambda>r. (tf_tuple r, tf_link_id r, tf_fwmark r)) (filter (owns s) (map (retarget sid lid mark) rs))
     = (if s = sid then map (\<lambda>(t, _, _). (t, lid, mark)) (map (\<lambda>r. (tf_tuple r, tf_link_id r, tf_fwmark r)) (filter (owns s) rs))
        else map (\<lambda>r. (tf_tuple r, tf_link_id r, tf_fwmark r)) (filter (owns s) rs))"
  using assms(2)
proof (induction rs)
  case (Cons r rs)
  have "owns s (retarget sid lid mark r) = owns s r" by (auto simp: retarget_def owns_def)
  moreover have "s \<noteq> sid \<Longrightarrow> owns s r \<Longrightarrow> retarget sid lid mark r = r" by (auto simp: retarget_def owns_def)
  ultimately show ?case using Cons assms(1) by (auto simp: retarget_def)
qed simp

section \<open>A concrete data plane\<close>

definition demo_os :: os_env where
  "demo_os = \<lparr>os_system = \<lambda>_ _. 0, os_if_index = \<lambda>_. 1, os_if_addr = \<lambda>_. None\<rparr>"

definition demo_link :: "string \<Rightarrow> u32 \<Rightarrow> LinkRouteConfig" where
  "demo_link n t = \<lparr>lr_link_id = n, lr_interface_name = ''eth'' @ n, lr_gateway_ip = ''10.1.1.1'',
     lr_route_table_id = t, lr_fwmark = t, lr_is_configured = True\<rparr>"

definition demo_world :: dp_world where
  "demo_world = \<lparr>dp = zero_dp\<lparr>dp_next_priority := 1000, dp_is_initialized := True, dp_enable_routing := True,
      dp_links := [demo_link ''A'' 100, demo_link ''B'' 101, demo_link ''C'' 102] @ replicate 7 zero_link,
      dp_num_links := 3\<rparr>, cmds = []\<rparr>"

lemma demo_inv: "dp_inv (dp demo_world)"
  by (simp add: dp_inv_defs zero_dp_def rules.unique_blank rules.blank_table tfts.blank_table demo_world_def
      demo_link_def)

lemma demo_tables: "tables_by_slot (dp demo_world)"
proof -
  have "links_ok (dp demo_world)" using demo_inv by (simp add: dp_inv_def)
  moreover have "lr_route_table_id (dp_links (dp demo_world) ! i) = 100 + of_nat i" if "i < 3" for i
    using that by (auto simp: demo_world_def demo_link_def numeral_3_eq_3 less_Suc_eq)
  moreover have "unat (dp_num_links (dp demo_world)) = 3" by (simp add: demo_world_def)
  ultimately show ?thesis by (simp add: tables_by_slot_def)
qed

lemma demo_flags [simp]:
  "dp_is_initialized (dp demo_world)" "dp_enable_routing (dp demo_world)"
  by (simp_all add: demo_world_def)

lemma demo_links [simp]:
  "find_link_config (dp demo_world) ''A'' = Some 0"
  "find_link_config (dp demo_world) ''B'' = Some 1"
  "find_link_config (dp demo_world) ''C'' = Some 2"
  "find_link_config (dp demo_world) ''D'' = None"
  by (simp_all add: find_link_config_def demo_world_def demo_link_def)

definition demo_tft :: "string \<Rightarrow> TftRule" where
  "demo_tft s = \<lparr>tf_in_use = True, tf_tuple = \<lparr>tt_src_ip = ''10.0.0.7'', tt_dst_ip = ''1.2.3.4'', tt_src_port = 0,
     tt_dst_port = 80, tt_protocol = 6\<rparr>, tf_session_id = s, tf_link_id = ''A'', tf_fwmark = 100, tf_created_at = 5\<rparr>"

definition demo_filtered :: dp_world where
  "demo_filtered = demo_world\<lparr>dp := (dp demo_world)
     \<lparr>dp_tft_rules := [demo_tft ''s1'', demo_tft ''s2''] @ replicate 1022 zero_tft, dp_num_tft_rules := 2\<rparr>\<rparr>"

lemma demo_filtered_facts:
  "dp_is_initialized (dp demo_filtered)" "find_link_config (dp demo_filtered) ''C'' = Some 2"
  "magic_dataplane_get_fwmark (dp demo_filtered) (Some ''C'') = 102"
  "filters_of (dp demo_filtered) ''s1'' = [(tf_tuple (demo_tft ''s1''), ''A'', 100)]"
  "filters_of (dp demo_filtered) ''s2'' = [(tf_tuple (demo_tft ''s2''), ''A'', 100)]"
proof -
  show f: "find_link_config (dp demo_filtered) ''C'' = Some 2"
    using demo_links(3) by (simp add: demo_filtered_def find_link_config_def)
  show "magic_dataplane_get_fwmark (dp demo_filtered) (Some ''C'') = 102"
    using f by (simp add: magic_dataplane_get_fwmark_def) (simp add: demo_filtered_def demo_world_def demo_link_def)
  show "filters_of (dp demo_filtered) ''s1'' = [(tf_tuple (demo_tft ''s1''), ''A'', 100)]"
    "filters_of (dp demo_filtered) ''s2'' = [(tf_tuple (demo_tft ''s2''), ''A'', 100)]"
    using tfts.blank_unused by (simp_all add: demo_filtered_def filters_of_def owns_def demo_tft_def filter_replicate)
qed (simp add: demo_filtered_def)

definition demo_routed :: dp_world where
  "demo_routed = demo_world\<lparr>dp := place_rule 0 (route_rule 5 ''10.0.0.7'' ''s1'' ''B'' 1000 101) (dp demo_world)\<rparr>"

lemma demo_free: "find_free_rule_slot (dp demo_world) = Some 0" "routes_of (dp demo_world) = Map.empty"
proof -
  have "dp_rules (dp demo_world) = replicate 256 zero_rule" by (simp add: demo_world_def zero_dp_def)
  then show "find_free_rule_slot (dp demo_world) = Some 0" "routes_of (dp demo_world) = Map.empty"
    using rules.blank_unused
    by (simp_all add: find_free_rule_slot_def routes_of_def rules.table_map_blank find_idx_Some_iff fun_eq_iff)
qed

lemma demo_routed_inv: "dp_inv (dp demo_routed)" "dp_is_initialized (dp demo_routed)"
  "routes_of (dp demo_routed) = [''s1'' \<mapsto> (''10.0.0.7'', ''B'', 101)]"
proof -
  show "dp_inv (dp demo_routed)"
    using place_rule_inv [OF demo_inv demo_free(1)] by (simp add: demo_routed_def demo_free)
  show "dp_is_initialized (dp demo_routed)" by (simp add: demo_routed_def place_rule_def)
  show "routes_of (dp demo_routed) = [''s1'' \<mapsto> (''10.0.0.7'', ''B'', 101)]"
    using place_rule_routes [OF demo_free(1), of "route_rule 5 ''10.0.0.7'' ''s1'' ''B'' 1000 101"]
    by (simp add: demo_routed_def demo_free route_of_def)
qed

section \<open>Properties\<close>





text \<open>
  C6. Removing a client route refines the deletion of the session's entry in the route map, returns 0
  exactly when the session had a route, and leaves every other session's route in place.
\<close>

theorem remove_client_route_refines:
  assumes "dp_inv (dp w)" and "dp_is_initialized (dp w)"
    and "magic_dataplane_remove_client_route os (Some sid) w = (r, w')"
  shows "routes_of (dp w') = (routes_of (dp w))(sid := None) \<and> (r = 0 \<longleftrightarrow> routes_of (dp w) sid \<noteq> None)"
  using remove_route_cases [OF assms(3,2)] drop_session_rule_routes [of "dp w" sid] assms(1)
  by (simp add: dp_inv_def routes_of_None_iff)

theorem remove_client_route_refines_witness:
  "\<exists>r w'. magic_dataplane_remove_client_route demo_os (Some ''s1'') demo_world = (r, w') \<and>
     routes_of (dp w') = (routes_of (dp demo_world))(''s1'' := None) \<and> (r = 0 \<longleftrightarrow> routes_of (dp demo_world) ''s1'' \<noteq> None)"
proof -
  obtain r w' where e: "magic_dataplane_remove_client_route demo_os (Some ''s1'') demo_world = (r, w')"
    by (meson surj_pair)
  show ?thesis using remove_client_route_refines [OF demo_inv demo_flags(1) e] e by blast
qed

text \<open>
  Removing a session's route deletes its policy rule and then blocks the client's address
  (black-hole rule, address sets and connection tracking) exactly when no other session routes the
  same address: the complete list of commands, whatever their exit status.
\<close>

lemma remove_client_route_blocks_last:
  assumes "dp_inv (dp w)" and "dp_is_initialized (dp w)"
    and "routes_of (dp w) sid = Some (ip, lid, tab)" and "length ip \<le> 63"
  shows "cmds (snd (magic_dataplane_remove_client_route os (Some sid) w)) =
     cmds w @ [fmt [''ip rule del from '', ip, '' lookup '', show_word tab, '' 2>/dev/null'']]
       @ (if \<exists>s r. s \<noteq> sid \<and> routes_of (dp w) s = Some r \<and> fst r = ip then []
          else [blackhole_del_cmd ip, blackhole_add_cmd ip,
                fmt [''ipset del magic_control '', ip, '' 2>/dev/null''],
                fmt [''ipset del magic_data '', ip, '' 2>/dev/null''],
                fmt [''conntrack -D -s '', ip, '' 2>/dev/null'']])"
  using assms by (rule removal_commands)

lemma remove_client_route_blocks_last_witness:
  "\<exists>s0. cmds (snd (magic_dataplane_remove_client_route demo_os (Some ''s1'') demo_routed)) = s0
     @ [blackhole_del_cmd ''10.0.0.7'', blackhole_add_cmd ''10.0.0.7'',
        fmt [''ipset del magic_control '', ''10.0.0.7'', '' 2>/dev/null''],
        fmt [''ipset del magic_data '', ''10.0.0.7'', '' 2>/dev/null''],
        fmt [''conntrack -D -s '', ''10.0.0.7'', '' 2>/dev/null'']]"
  using remove_client_route_blocks_last [OF demo_routed_inv(1,2), of "''s1''" "''10.0.0.7''" "''B''" 101 demo_os]
  by (auto simp: demo_routed_inv(3) split: if_splits)

text \<open>
  As long as links are only added, every link has its own routing table: the tables of two
  different registered links are different and lie in 100..109, in every reachable state.
\<close>

lemma link_tables_distinct:
  assumes "\<And>op. op \<in> set ops \<Longrightarrow> keeps_links op"
    and "c = dp (foldl (dp_step os) (snd (magic_dataplane_init os ingress_if ingress_ip w)) ops)"
    and "find_link_config c a = Some i" and "find_link_config c b = Some j" and "a \<noteq> b"
  shows "magic_dataplane_get_table_id c (Some a) \<noteq> magic_dataplane_get_table_id c (Some b)
     \<and> 100 \<le> magic_dataplane_get_table_id c (Some a) \<and> magic_dataplane_get_table_id c (Some a) < 110"
proof -
  have inv: "dp_inv c" "tables_by_slot c"
    using dpt.run_inv [of "snd (magic_dataplane_init os ingress_if ingress_ip w)" ops os] assms(1,2)
      init_inv init_tables by auto
  have lk: "links_ok c" using inv by (simp add: dp_inv_def)
  have ij: "i < unat (dp_num_links c)" "j < unat (dp_num_links c)" "i < length (dp_links c)" "j < length (dp_links c)"
    using find_link_less [OF lk] assms(3,4) by auto
  have "lr_link_id (dp_links c ! i) = a" "lr_link_id (dp_links c ! j) = b"
    using find_idx_holds [OF assms(3) [unfolded find_link_config_def]]
      find_idx_holds [OF assms(4) [unfolded find_link_config_def]] ij by auto
  with assms(5) have "i \<noteq> j" by auto
  moreover have "i < 10" "j < 10" using ij lk by (auto simp: links_ok_def)
  ultimately have "(of_nat i :: u32) \<noteq> of_nat j"
    using small_of_nat_inj by blast
  moreover have "dp_links c ! i \<in> set (take (unat (dp_num_links c)) (dp_links c))"
    using ij by (auto simp: in_set_conv_nth)
  ultimately show ?thesis
    using inv(2) assms(3,4) ij lk by (auto simp: tables_by_slot_def magic_dataplane_get_table_id_def links_ok_def)
qed

lemma link_tables_distinct_witness:
  "\<exists>c i j. find_link_config c ''A'' = Some i \<and> find_link_config c ''B'' = Some j \<and>
     magic_dataplane_get_table_id c (Some ''A'') \<noteq> magic_dataplane_get_table_id c (Some ''B'')"
proof -
  define ops where "ops = [RegisterLink (Some ''A'') (Some ''e0'') None, RegisterLink (Some ''B'') (Some ''e1'') None]"
  define w0 where "w0 = snd (magic_dataplane_init demo_os None None demo_world)"
  define c where "c = dp (foldl (dp_step demo_os) w0 ops)"
  have i: "dp_is_initialized (dp w0)" "dp_num_links (dp w0) = 0" "dp_links (dp w0) = zero_link # zero_link # replicate 8 zero_link"
    using init_dp [of demo_os None None demo_world] by (auto simp: w0_def zero_dp_def numeral_eq_Suc)
  have reg: "find_link_config c ''A'' = Some 0 \<and> find_link_config c ''B'' = Some 1"
    unfolding c_def ops_def
    by (simp add: magic_dataplane_register_link_def Let_def i find_link_config_def create_route_table_def
        run_simps exit_code_def demo_os_def zero_link_def get_interface_ip_def word_le_nat_alt)
  have ok: "keeps_links op" if "op \<in> set ops" for op using that by (auto simp: ops_def)
  from link_tables_distinct [OF ok c_def [unfolded w0_def], of "''A''" 0 "''B''" 1] reg show ?thesis by blast
qed

text \<open>
  After a link other than the last one is unregistered, the next link registered gets the
  routing table (and packet mark) of a link still in use: the two links share one table.
\<close>

lemma register_after_unregister_collides:
  assumes inv: "dp_inv (dp w)" "tables_by_slot (dp w)" and on: "dp_is_initialized (dp w)"
    and hit: "find_link_config (dp w) lid = Some i" "Suc i < unat (dp_num_links (dp w))"
    and un: "magic_dataplane_unregister_link os (Some lid) w = (r1, w1)"
    and fresh: "find_link_config (dp w1) d = None" "length d \<le> 63"
    and reg: "magic_dataplane_register_link os (Some d) (Some ifn) gw w1 = (r2, w2)"
  defines "other \<equiv> lr_link_id (dp_links (dp w) ! (unat (dp_num_links (dp w)) - 1))"
  shows "other \<noteq> d \<and> other \<noteq> lid \<and> magic_dataplane_get_table_id (dp w2) (Some other) \<noteq> 0
     \<and> magic_dataplane_get_table_id (dp w2) (Some other) = magic_dataplane_get_table_id (dp w2) (Some d)
     \<and> magic_dataplane_get_fwmark (dp w2) (Some other) = magic_dataplane_get_fwmark (dp w2) (Some d)"
proof -
  let ?c = "dp w" and ?n = "unat (dp_num_links (dp w))"
  have lk: "links_ok ?c" using inv(1) by (simp add: dp_inv_def)
  have n10: "?n \<le> 10" "?n \<le> length (dp_links ?c)" using lk by (auto simp: links_ok_def)
  have lid: "lid = lr_link_id (dp_links ?c ! i)"
    using find_idx_SomeD [OF hit(1) [unfolded find_link_config_def]] by auto
  have "find_link_config ?c other = Some (?n - 1)"
    unfolding other_def using hit(2) by (intro find_link_at [OF lk]) simp
  with hit have ol: "other \<noteq> lid" by auto
  from un obtain l where w1: "dp_links (dp w1) = swap_remove ?n i ((dp_links ?c)[i := l])"
    "dp_num_links (dp w1) = dp_num_links ?c - 1" "dp_is_initialized (dp w1)"
    using unregister_hit [OF on hit(1), of os] hit on un by (cases rule: unregister_link_dp) auto
  have inv1: "dp_inv (dp w1)" using unregister_link_inv [OF inv(1), of os "Some lid"] un by simp
  then have lk1: "links_ok (dp w1)" by (simp add: dp_inv_def)
  have n1: "unat (dp_num_links (dp w1)) = ?n - 1"
    unfolding w1(2) using hit(2) by (intro unat_minus1_pos) simp
  have at_i: "dp_links (dp w1) ! i = dp_links ?c ! (?n - 1)"
    using swap_remove_nth [of i ?n "dp_links ?c" i l] hit(2) n10 w1(1) by simp
  have room: "\<not> 10 \<le> dp_num_links (dp w1)" using n1 n10 hit(2) by (simp add: word_le_nat_alt)
  from reg obtain l' where l': "lr_link_id l' = d" "lr_route_table_id l' = 100 + dp_num_links (dp w1)"
    "lr_fwmark l' = lr_route_table_id l'"
    "dp w2 = (dp w1)\<lparr>dp_num_links := dp_num_links (dp w1) + 1,
               dp_links := (dp_links (dp w1))[unat (dp_num_links (dp w1)) := l']\<rparr>"
  proof (cases rule: register_link_dp)
    case same
    with w1(3) fresh room show ?thesis by auto
  next
    case (new lid' l)
    with fresh(2) show ?thesis by (intro that [of l]) auto
  qed
  have lk2: "links_ok (dp w2)" unfolding l'(4)
    using append_link_ok [OF lk1 room] fresh(1) l' by simp
  have n2: "unat (dp_num_links (dp w2)) = ?n" using n1 n10 hit(2) by (simp add: l'(4) unat_word_ariths)
  have at2: "dp_links (dp w2) ! i = dp_links ?c ! (?n - 1)" "dp_links (dp w2) ! (?n - 1) = l'"
    using at_i n1 hit(2) lk1 n10 by (auto simp: l'(4) links_ok_def)
  have f: "find_link_config (dp w2) other = Some i" "find_link_config (dp w2) d = Some (?n - 1)"
    using find_link_at [OF lk2, of i] find_link_at [OF lk2, of "?n - 1"] at2 l'(1) hit(2) n2
    by (simp_all add: other_def)
  have t: "lr_route_table_id (dp_links ?c ! (?n - 1)) = 100 + of_nat (?n - 1)"
    using inv(2) hit(2) by (simp add: tables_by_slot_def)
  have num: "dp_num_links (dp w1) = of_nat (?n - 1)" using n1 by (metis of_nat_unat ucast_id)
  have "unat (dp_num_links (dp w1)) < 10" using n1 n10(1) hit(2) by linarith
  from table_id_range [OF this] have nz: "(100 :: u32) + of_nat (?n - 1) \<noteq> 0" unfolding num by auto
  have mk: "lr_fwmark (dp_links (dp w2) ! k) = lr_route_table_id (dp_links (dp w2) ! k)" if "k < ?n" for k
    using lk2 that n2 by (simp add: links_ok_def all_set_conv_all_nth)
  have "other \<noteq> d" using f hit(2) by auto
  then show ?thesis
    using ol f at2 t l'(2) num nz mk [of i] mk [of "?n - 1"] hit(2)
    by (simp add: magic_dataplane_get_table_id_def magic_dataplane_get_fwmark_def)
qed

lemma register_after_unregister_collides_witness:
  "\<exists>w1 w2. w1 = snd (magic_dataplane_unregister_link demo_os (Some ''A'') demo_world) \<and>
     w2 = snd (magic_dataplane_register_link demo_os (Some ''D'') (Some ''eth3'') None w1) \<and>
     magic_dataplane_get_table_id (dp w2) (Some ''C'') \<noteq> 0 \<and>
     magic_dataplane_get_table_id (dp w2) (Some ''C'') = magic_dataplane_get_table_id (dp w2) (Some ''D'')"
proof -
  obtain r1 w1 where un: "magic_dataplane_unregister_link demo_os (Some ''A'') demo_world = (r1, w1)"
    by (meson surj_pair)
  obtain r2 w2 where reg: "magic_dataplane_register_link demo_os (Some ''D'') (Some ''eth3'') None w1 = (r2, w2)"
    by (meson surj_pair)
  have n: "unat (dp_num_links (dp demo_world)) = 3" by (simp add: demo_world_def)
  have d: "find_link_config (dp w1) ''D'' = None"
    using un unregister_hit [OF demo_flags(1) demo_links(1), of demo_os]
    by (cases rule: unregister_link_dp)
      (auto simp: find_link_config_def swap_remove_def demo_world_def demo_link_def)
  have l: "lr_link_id (dp_links (dp demo_world) ! 2) = ''C''" by (simp add: demo_world_def demo_link_def)
  from register_after_unregister_collides [OF demo_inv demo_tables demo_flags(1) demo_links(1) _ un d _ reg,
      unfolded n]
  have "magic_dataplane_get_table_id (dp w2) (Some ''C'') \<noteq> 0 \<and>
     magic_dataplane_get_table_id (dp w2) (Some ''C'') = magic_dataplane_get_table_id (dp w2) (Some ''D'')"
    by (auto simp: l)
  with un reg show ?thesis by auto
qed

text \<open>
  Removing the packet filters of a session empties that session's filter list, leaves the filters
  of every other session as they are and returns how many were removed.
\<close>

lemma remove_tft_rules_refines:
  assumes "dp_is_initialized (dp w)" and "magic_dataplane_remove_tft_rules os (Some sid) w = (n, w')"
  shows "filters_of (dp w') = (filters_of (dp w))(sid := []) \<and> n = int (length (filters_of (dp w) sid))"
  using remove_tft_dp [OF assms(2,1)] filters_of_unfilter [of "dp w'" sid "dp w"]
  by (simp add: filters_of_def count_if_def)

lemma remove_tft_rules_refines_witness:
  "\<exists>w'. magic_dataplane_remove_tft_rules demo_os (Some ''s1'') demo_filtered = (1, w') \<and>
     filters_of (dp w') ''s1'' = [] \<and> filters_of (dp w') ''s2'' = [(tf_tuple (demo_tft ''s2''), ''A'', 100)]"
proof -
  obtain n w' where e: "magic_dataplane_remove_tft_rules demo_os (Some ''s1'') demo_filtered = (n, w')"
    by (meson surj_pair)
  from remove_tft_rules_refines [OF demo_filtered_facts(1) e] e show ?thesis
    by (simp add: demo_filtered_facts)
qed

text \<open>
  The selector printed when a packet filter is removed is the one printed when it was installed
  exactly when the filter names no source port (or no known protocol). With a source port the deletion
  commands name a rule that was never installed, and the installed ACCEPT rule stays.
\<close>

lemma tft_removal_selector_iff:
  assumes "length (tt_src_ip t) \<le> 63" and "length (tt_dst_ip t) \<le> 63"
  shows "forward_del_cmd (dport_match t) = forward_del_cmd (full_match t) \<longleftrightarrow>
     proto_str (tt_protocol t) = None \<or> tt_src_port t = 0"
proof -
  have "length (full_match t) \<le> 400 \<and> length (dport_match t) \<le> 400"
    using selector_short [OF assms] by simp
  then show ?thesis using forward_del_inj selector_eq_iff by metis
qed

lemma tft_removal_selector_iff_witness:
  "forward_del_cmd (dport_match \<lparr>tt_src_ip = ''10.0.0.7'', tt_dst_ip = ''1.2.3.4'', tt_src_port = 5000,
       tt_dst_port = 80, tt_protocol = 6\<rparr>)
   \<noteq> forward_del_cmd (full_match \<lparr>tt_src_ip = ''10.0.0.7'', tt_dst_ip = ''1.2.3.4'', tt_src_port = 5000,
       tt_dst_port = 80, tt_protocol = 6\<rparr>)"
  by (subst tft_removal_selector_iff) (simp_all add: proto_str_def)

text \<open>
  When the commands succeed, switching a session to another link moves every filter of that
  session to the link and to the link's mark, and leaves the filters of the other sessions alone.
\<close>

lemma switch_tft_link_refines:
  assumes "dp_is_initialized (dp w)" and "\<And>h c. os_system os h c = 0" and "length lid \<le> 63"
    and "find_link_config (dp w) lid = Some li"
    and "\<And>r. r \<in> set (dp_tft_rules (dp w)) \<Longrightarrow> tf_link_id r = lid \<Longrightarrow> tf_fwmark r = magic_dataplane_get_fwmark (dp w) (Some lid)"
  shows "filters_of (dp (snd (magic_dataplane_switch_tft_link os (Some sid) (Some lid) w)))
     = (filters_of (dp w))(sid := map (\<lambda>(t, _, _). (t, lid, magic_dataplane_get_fwmark (dp w) (Some lid)))
                                    (filters_of (dp w) sid))"
proof -
  let ?mark = "magic_dataplane_get_fwmark (dp w) (Some lid)"
  obtain rs n w1 where loop: "switch_tft_loop os sid lid ?mark (dp_tft_rules (dp w)) w = (rs, n, w1)"
    by (metis prod_cases3)
  have rs: "rs = map (retarget sid lid ?mark) (dp_tft_rules (dp w))"
    using switch_loop_all_ok [OF assms(2) loop] by simp
  have "dp (snd (magic_dataplane_switch_tft_link os (Some sid) (Some lid) w)) = (dp w)\<lparr>dp_tft_rules := rs\<rparr>"
    using assms(1,4) loop switch_loop_keeps [OF loop]
    by (simp add: magic_dataplane_switch_tft_link_def magic_dataplane_get_fwmark_def)
  then show ?thesis
    using filters_of_retarget [OF assms(3), of "dp_tft_rules (dp w)" ?mark _ sid] assms(5)
    by (simp add: rs filters_of_def fun_eq_iff)
qed

lemma switch_tft_link_refines_witness:
  "filters_of (dp (snd (magic_dataplane_switch_tft_link demo_os (Some ''s1'') (Some ''C'') demo_filtered)))
     = (filters_of (dp demo_filtered))(''s1'' := [(tf_tuple (demo_tft ''s1''), ''C'', 102)])"
proof -
  have "tf_link_id r \<noteq> ''C''" if "r \<in> set (dp_tft_rules (dp demo_filtered))" for r
    using that by (auto simp: demo_filtered_def demo_tft_def zero_tft_def)
  then show ?thesis
    using switch_tft_link_refines [OF demo_filtered_facts(1) _ _ demo_filtered_facts(2), of demo_os "''s1''"]
    by (auto simp: demo_filtered_facts demo_os_def)
qed

text \<open>
  A session identifier longer than the 63 bytes a rule stores is accepted by the route set-up but
  can never be removed: after a successful add the removal by the same identifier fails and changes
  nothing, while the rule stays under the truncated identifier.
\<close>

lemma long_session_id_leaks_route:
  assumes on: "dp_is_initialized (dp w)" "dp_enable_routing (dp w)"
    and stored: "\<And>r. r \<in> set (dp_rules (dp w)) \<Longrightarrow> length (rr_session_id r) \<le> 63"
    and long: "63 < length sid"
    and add: "magic_dataplane_add_client_route os now (Some ip) (Some sid) (Some lid) dest w = (0, w')"
  shows "magic_dataplane_remove_client_route os' (Some sid) w' = (-1, w')
     \<and> magic_dataplane_find_rule (dp w') (Some (take 63 sid)) \<noteq> None"
  using add
proof (cases rule: add_route_cases)
  case unchanged
  with on show ?thesis by simp
next
  case (installed ip' sid' lid' li c0 w0)
  have none: "magic_dataplane_find_rule c (Some sid) = None"
    if "\<And>r. r \<in> set (dp_rules c) \<Longrightarrow> length (rr_session_id r) \<le> 63" for c
    using that long by (auto simp: find_rule_idx find_idx_None_iff dest!: that)
  have rules0: "dp_rules (dp w0) = dp_rules (dp w)" using installed(7,8) by auto
  with none [of "dp w0"] stored have c: "drop_session_rule sid (dp w0) = dp w0"
    by (simp add: drop_session_rule_def)
  from install_cases [OF installed(9)] installed(2) c obtain k prio tab where
    k: "find_free_rule_slot (dp w0) = Some k"
    "dp w' = place_rule k (route_rule now ip' sid lid' prio tab) (dp w0)" by auto
  have klen: "k < length (dp_rules (dp w0))" using k(1) by (simp add: find_free_rule_slot_def find_idx_less)
  have rules': "dp_rules (dp w') = (dp_rules (dp w0))[k := route_rule now ip' sid lid' prio tab]"
    by (simp add: k(2) place_rule_def)
  have "length (rr_session_id r) \<le> 63" if "r \<in> set (dp_rules (dp w'))" for r
  proof -
    have "r \<in> insert (route_rule now ip' sid lid' prio tab) (set (dp_rules (dp w)))"
      using that set_update_split [OF klen] rules0 unfolding rules' by auto
    then show ?thesis using stored by (auto simp: strncpy_buf_length)
  qed
  from none [OF this] have "magic_dataplane_remove_client_route os' (Some sid) w' = (-1, w')"
    by (simp add: magic_dataplane_remove_client_route_def)
  moreover have "route_rule now ip' sid lid' prio tab \<in> set (dp_rules (dp w'))"
    using klen by (simp add: rules' set_update_memI)
  then have "magic_dataplane_find_rule (dp w') (Some (take 63 sid)) \<noteq> None"
    unfolding find_rule_idx find_idx_None_iff by (auto simp: strncpy_buf_def intro!: bexI)
  ultimately show ?thesis by blast
qed

lemma long_session_id_leaks_route_witness:
  "\<exists>w'. magic_dataplane_add_client_route demo_os 5 (Some ''10.0.0.7'') (Some (replicate 70 (CHR ''x''))) (Some ''B'') None
      demo_world = (0, w') \<and>
     magic_dataplane_remove_client_route demo_os (Some (replicate 70 (CHR ''x''))) w' = (-1, w')"
proof -
  obtain r w' where e: "magic_dataplane_add_client_route demo_os 5 (Some ''10.0.0.7'') (Some (replicate 70 (CHR ''x'')))
     (Some ''B'') None demo_world = (r, w')" by (meson surj_pair)
  have rules: "dp_rules (dp demo_world) = replicate 256 zero_rule" by (simp add: demo_world_def zero_dp_def)
  then have none: "magic_dataplane_find_rule (dp demo_world) (Some s) = None" for s
    by (simp add: find_rule_idx find_idx_None_iff zero_rule_def)
  have cfg: "lr_is_configured (dp_links (dp demo_world) ! Suc 0)" by (simp add: demo_world_def demo_link_def)
  have free: "find_free_rule_slot ((dp demo_world)\<lparr>dp_next_priority := p\<rparr>) = Some 0" for p
    using demo_free(1) by (simp add: find_free_rule_slot_def)
  have "r = 0"
    using e by (simp add: magic_dataplane_add_client_route_def Let_def install_client_route_def none demo_free(1) free cfg
        add_ip_rule_def run_simps exit_code_def demo_os_def)
  with e long_session_id_leaks_route [of demo_world "replicate 70 (CHR ''x'')"] rules show ?thesis
    by (auto simp: zero_rule_def)
qed

end
