(* ===== verification/Session.thy ===== *)
theory Session
  imports Dataplane
begin

text \<open>
  The session manager (\<open>src/app_magic/magic_session.c\<close>): the table of Diameter sessions, the
  per-client contexts with their bandwidth quota and session lists, and the per-session packet
  filters.

  A \<open>ClientSession *\<close> is the index of its slot where the code reaches it through the manager, and
  the record itself where an operation works on one session only. Releasing a session's link
  removes its route from the data plane, so those operations also take the operating system
  \<open>os\<close> and the data-plane world. The operations hold the manager's mutex and are atomic here;
  \<open>now\<close> is the clock reading of the operation. \<open>session_count\<close> and \<open>client_count\<close> are C \<open>int\<close>s,
  modelled without their bound.
\<close>

abbreviation MAX_SESSIONS :: nat where "MAX_SESSIONS \<equiv> 100"
abbreviation MAX_SESSIONS_PER_CLIENT :: nat where "MAX_SESSIONS_PER_CLIENT \<equiv> 10"
abbreviation MAX_TFT_PER_SESSION :: nat where "MAX_TFT_PER_SESSION \<equiv> 8"
abbreviation MAX_CLIENTS :: nat where "MAX_CLIENTS \<equiv> 50"

datatype SessionState =
    SESSION_STATE_INIT | SESSION_STATE_AUTHENTICATED | SESSION_STATE_ACTIVE | SESSION_STATE_MODIFYING
  | SESSION_STATE_SUSPENDED | SESSION_STATE_TERMINATING | SESSION_STATE_CLOSED

record SessionTftRule =
  sf_in_use :: bool
  sf_tft_id :: u8
  sf_direction :: u8
  sf_protocol :: u8
  sf_src_ip :: string
  sf_dst_ip :: string
  sf_src_port_start :: u16
  sf_src_port_end :: u16
  sf_dst_port_start :: u16
  sf_dst_port_end :: u16

record ClientSession =
  cs_in_use :: bool
  cs_session_id :: string
  cs_client_id :: string
  cs_client_realm :: string
  cs_assigned_link_id :: string
  cs_assigned_interface :: string
  cs_bearer_id :: u8
  cs_state :: SessionState
  cs_created_at :: int
  cs_last_activity :: int
  cs_granted_bw_kbps :: u32
  cs_granted_ret_bw_kbps :: u32
  cs_priority_class :: u8
  cs_qos_level :: u8
  cs_tft_rules :: "SessionTftRule list"
  cs_num_tft_rules :: u32
  cs_subscribed_status_level :: u32
  cs_status_subscription_active :: bool
  cs_profile_name :: string
  cs_client_ip :: string
  cs_auth_expire_time :: int
  cs_auth_grace_period :: u32
  cs_last_link_switch_time :: int
  cs_previous_link_id :: string
  cs_current_bw_percent :: u32
  cs_last_mntr_sent_time :: int
  cs_last_notified_bw_kbps :: u32
  cs_mntr_pending_ack :: bool
  cs_gateway_ip :: string
  cs_conntrack_mark :: u32
  cs_bytes_in :: u64
  cs_bytes_out :: u64
  cs_traffic_start_time :: int
  cs_cdr_id :: string
  cs_cdr_uuid :: string
  cs_keep_request :: bool

record ClientContext =
  cc_in_use :: bool
  cc_client_id :: string
  cc_profile_name :: string
  cc_max_forward_bw_kbps :: u32
  cc_max_return_bw_kbps :: u32
  cc_guaranteed_forward_bw_kbps :: u32
  cc_guaranteed_return_bw_kbps :: u32
  cc_max_concurrent_sessions :: u32
  cc_session_timeout_sec :: u32
  cc_total_allocated_forward_bw :: u32
  cc_total_allocated_return_bw :: u32
  cc_active_session_indices :: "int list"
  cc_active_session_count :: int
  cc_total_sessions_created :: u64
  cc_total_bytes_in :: u64
  cc_total_bytes_out :: u64
  cc_first_seen :: int
  cc_last_activity :: int

record SessionManager =
  sm_sessions :: "ClientSession list"
  sm_session_count :: int
  sm_clients :: "ClientContext list"
  sm_client_count :: int

section \<open>Zeroed memory\<close>

definition zero_sft :: SessionTftRule where
  "zero_sft = \<lparr>sf_in_use = False, sf_tft_id = 0, sf_direction = 0, sf_protocol = 0, sf_src_ip = [], sf_dst_ip = [],
     sf_src_port_start = 0, sf_src_port_end = 0, sf_dst_port_start = 0, sf_dst_port_end = 0\<rparr>"

definition zero_session :: ClientSession where
  "zero_session = \<lparr>cs_in_use = False, cs_session_id = [], cs_client_id = [], cs_client_realm = [],
     cs_assigned_link_id = [], cs_assigned_interface = [], cs_bearer_id = 0, cs_state = SESSION_STATE_INIT,
     cs_created_at = 0, cs_last_activity = 0, cs_granted_bw_kbps = 0, cs_granted_ret_bw_kbps = 0,
     cs_priority_class = 0, cs_qos_level = 0, cs_tft_rules = replicate MAX_TFT_PER_SESSION zero_sft,
     cs_num_tft_rules = 0, cs_subscribed_status_level = 0, cs_status_subscription_active = False,
     cs_profile_name = [], cs_client_ip = [], cs_auth_expire_time = 0, cs_auth_grace_period = 0,
     cs_last_link_switch_time = 0, cs_previous_link_id = [], cs_current_bw_percent = 0,
     cs_last_mntr_sent_time = 0, cs_last_notified_bw_kbps = 0, cs_mntr_pending_ack = False,
     cs_gateway_ip = [], cs_conntrack_mark = 0, cs_bytes_in = 0, cs_bytes_out = 0,
     cs_traffic_start_time = 0, cs_cdr_id = [], cs_cdr_uuid = [], cs_keep_request = False\<rparr>"

definition zero_client :: ClientContext where
  "zero_client = \<lparr>cc_in_use = False, cc_client_id = [], cc_profile_name = [], cc_max_forward_bw_kbps = 0,
     cc_max_return_bw_kbps = 0, cc_guaranteed_forward_bw_kbps = 0, cc_guaranteed_return_bw_kbps = 0,
     cc_max_concurrent_sessions = 0, cc_session_timeout_sec = 0, cc_total_allocated_forward_bw = 0,
     cc_total_allocated_return_bw = 0, cc_active_session_indices = replicate MAX_SESSIONS_PER_CLIENT 0,
     cc_active_session_count = 0, cc_total_sessions_created = 0, cc_total_bytes_in = 0,
     cc_total_bytes_out = 0, cc_first_seen = 0, cc_last_activity = 0\<rparr>"

definition magic_session_init :: "SessionManager \<Rightarrow> int \<times> SessionManager" where
  "magic_session_init m =
     (0, m\<lparr>sm_sessions := replicate MAX_SESSIONS zero_session, sm_clients := replicate MAX_CLIENTS zero_client,
          sm_session_count := 0, sm_client_count := 0\<rparr>)"

section \<open>Client contexts\<close>

definition magic_client_context_find :: "SessionManager \<Rightarrow> string option \<Rightarrow> nat option" where
  "magic_client_context_find m client_id =
     (case client_id of None \<Rightarrow> None
      | Some cid \<Rightarrow> find_idx (\<lambda>c. cc_in_use c \<and> cc_client_id c = cid) (sm_clients m))"

definition magic_client_context_get_or_create ::
  "int \<Rightarrow> string option \<Rightarrow> SessionManager \<Rightarrow> nat option \<times> SessionManager" where
  "magic_client_context_get_or_create now client_id m =
     (case client_id of None \<Rightarrow> (None, m) | Some cid \<Rightarrow>
        (case find_idx (\<lambda>c. cc_in_use c \<and> cc_client_id c = cid) (sm_clients m) of
           Some i \<Rightarrow> (Some i, m)
         | None \<Rightarrow>
             (case find_idx (\<lambda>c. \<not> cc_in_use c) (sm_clients m) of
                None \<Rightarrow> (None, m)
              | Some i \<Rightarrow>
                  let ctx = zero_client\<lparr>cc_in_use := True, cc_client_id := strncpy_buf 63 cid,
                              cc_first_seen := now, cc_last_activity := now,
                              cc_max_concurrent_sessions := of_nat MAX_SESSIONS_PER_CLIENT,
                              cc_active_session_indices := replicate MAX_SESSIONS_PER_CLIENT (-1)\<rparr>
                  in (Some i, m\<lparr>sm_clients := (sm_clients m)[i := ctx],
                               sm_client_count := sm_client_count m + 1\<rparr>))))"

definition magic_client_context_set_quota ::
  "u32 \<Rightarrow> u32 \<Rightarrow> u32 \<Rightarrow> u32 \<Rightarrow> ClientContext \<Rightarrow> ClientContext" where
  "magic_client_context_set_quota max_fwd max_ret guar_fwd guar_ret ctx =
     ctx\<lparr>cc_max_forward_bw_kbps := max_fwd, cc_max_return_bw_kbps := max_ret,
         cc_guaranteed_forward_bw_kbps := guar_fwd, cc_guaranteed_return_bw_kbps := guar_ret\<rparr>"

definition available_bw :: "u32 \<Rightarrow> u32 \<Rightarrow> u32" where
  "available_bw mx alloc = (if mx > alloc then mx - alloc else 0)"

text \<open>The return code and the two granted bandwidths.\<close>

definition magic_client_can_allocate_bandwidth ::
  "ClientContext \<Rightarrow> u32 \<Rightarrow> u32 \<Rightarrow> int \<times> u32 \<times> u32" where
  "magic_client_can_allocate_bandwidth ctx req_fwd req_ret =
     (if cc_max_forward_bw_kbps ctx = 0 \<and> cc_max_return_bw_kbps ctx = 0 then (0, req_fwd, req_ret)
      else
        let af = available_bw (cc_max_forward_bw_kbps ctx) (cc_total_allocated_forward_bw ctx);
            ar = available_bw (cc_max_return_bw_kbps ctx) (cc_total_allocated_return_bw ctx)
        in if af < cc_guaranteed_forward_bw_kbps ctx \<or> ar < cc_guaranteed_return_bw_kbps ctx then (-1, 0, 0)
           else (0, (if req_fwd < af then req_fwd else af), (if req_ret < ar then req_ret else ar)))"

text \<open>The deltas are \<open>int32_t\<close>: words read with their sign; negation wraps.\<close>

definition apply_delta :: "u32 \<Rightarrow> u32 \<Rightarrow> u32" where
  "apply_delta alloc delta =
     (if 0 \<le> sint delta then alloc + delta
      else let dec = - delta in if alloc \<ge> dec then alloc - dec else 0)"

definition magic_client_update_allocated_bandwidth ::
  "int \<Rightarrow> u32 \<Rightarrow> u32 \<Rightarrow> ClientContext \<Rightarrow> ClientContext" where
  "magic_client_update_allocated_bandwidth now delta_fwd delta_ret ctx =
     ctx\<lparr>cc_total_allocated_forward_bw := apply_delta (cc_total_allocated_forward_bw ctx) delta_fwd,
         cc_total_allocated_return_bw := apply_delta (cc_total_allocated_return_bw ctx) delta_ret,
         cc_last_activity := now\<rparr>"

definition magic_client_can_create_session :: "ClientContext \<Rightarrow> bool" where
  "magic_client_can_create_session ctx =
     (if cc_max_concurrent_sessions ctx = 0 then True
      else cc_active_session_count ctx < to_int32 (uint (cc_max_concurrent_sessions ctx)))"

definition listed :: "ClientContext \<Rightarrow> int list" where
  "listed ctx = take (nat (cc_active_session_count ctx)) (cc_active_session_indices ctx)"

definition magic_client_add_session :: "int \<Rightarrow> int \<Rightarrow> ClientContext \<Rightarrow> int \<times> ClientContext" where
  "magic_client_add_session now idx ctx =
     (if idx < 0 \<or> idx \<ge> int MAX_SESSIONS then (-1, ctx)
      else if \<not> magic_client_can_create_session ctx then (-1, ctx)
      else if idx \<in> set (listed ctx) then (0, ctx)
      else if cc_active_session_count ctx < int MAX_SESSIONS_PER_CLIENT
      then (0, ctx\<lparr>cc_active_session_indices :=
                    (cc_active_session_indices ctx)[nat (cc_active_session_count ctx) := idx],
                  cc_active_session_count := cc_active_session_count ctx + 1,
                  cc_total_sessions_created := cc_total_sessions_created ctx + 1,
                  cc_last_activity := now\<rparr>)
      else (-1, ctx))"

text \<open>The shift loop of \<open>magic_client_remove_session\<close>: entries after \<open>i\<close> move down, the last becomes -1.\<close>

definition shift_left :: "nat \<Rightarrow> nat \<Rightarrow> int list \<Rightarrow> int list" where
  "shift_left i n xs = take i xs @ drop (Suc i) (take n xs) @ [-1] @ drop n xs"

definition magic_client_remove_session :: "int \<Rightarrow> int \<Rightarrow> ClientContext \<Rightarrow> int \<times> ClientContext" where
  "magic_client_remove_session now idx ctx =
     (if idx < 0 then (-1, ctx)
      else case find_idx (\<lambda>x. x = idx) (listed ctx) of
             None \<Rightarrow> (-1, ctx)
           | Some i \<Rightarrow>
               (0, ctx\<lparr>cc_active_session_indices :=
                         shift_left i (nat (cc_active_session_count ctx)) (cc_active_session_indices ctx),
                       cc_active_session_count := cc_active_session_count ctx - 1,
                       cc_last_activity := now\<rparr>))"

definition magic_client_get_sessions :: "SessionManager \<Rightarrow> ClientContext \<Rightarrow> int \<Rightarrow> nat list" where
  "magic_client_get_sessions m ctx max_count =
     (if max_count \<le> 0 then []
      else take (nat max_count)
             (map nat (filter (\<lambda>idx. idx \<ge> 0 \<and> idx < int MAX_SESSIONS \<and> cs_in_use (sm_sessions m ! nat idx)) (listed ctx))))"

section \<open>Queries\<close>

definition magic_session_count_by_client :: "SessionManager \<Rightarrow> string option \<Rightarrow> nat" where
  "magic_session_count_by_client m client_id =
     (case client_id of None \<Rightarrow> 0
      | Some cid \<Rightarrow> count_if (\<lambda>s. cs_in_use s \<and> cs_client_id s = cid \<and> cs_state s = SESSION_STATE_ACTIVE) (sm_sessions m))"

definition magic_session_find_by_id :: "SessionManager \<Rightarrow> string option \<Rightarrow> nat option" where
  "magic_session_find_by_id m session_id =
     (case session_id of None \<Rightarrow> None
      | Some sid \<Rightarrow> find_idx (\<lambda>s. cs_in_use s \<and> cs_session_id s = sid) (sm_sessions m))"

definition magic_session_find_by_client :: "SessionManager \<Rightarrow> string option \<Rightarrow> nat option" where
  "magic_session_find_by_client m client_id =
     (case client_id of None \<Rightarrow> None
      | Some cid \<Rightarrow> find_idx (\<lambda>s. cs_in_use s \<and> cs_client_id s = cid \<and> cs_state s \<noteq> SESSION_STATE_CLOSED
                             \<and> cs_state s \<noteq> SESSION_STATE_TERMINATING) (sm_sessions m))"

definition slots_where :: "(ClientSession \<Rightarrow> bool) \<Rightarrow> SessionManager \<Rightarrow> int \<Rightarrow> nat list" where
  "slots_where P m max_count =
     (if max_count \<le> 0 then []
      else take (nat max_count) (filter (\<lambda>i. P (sm_sessions m ! i)) [0..<length (sm_sessions m)]))"

definition magic_session_find_subscribed :: "SessionManager \<Rightarrow> int \<Rightarrow> nat list" where
  "magic_session_find_subscribed m max_count =
     slots_where (\<lambda>s. cs_in_use s \<and> cs_status_subscription_active s \<and>
        (cs_state s = SESSION_STATE_AUTHENTICATED \<or> cs_state s = SESSION_STATE_ACTIVE)) m max_count"

definition magic_session_get_active_sessions :: "SessionManager \<Rightarrow> int \<Rightarrow> nat list" where
  "magic_session_get_active_sessions m max_count =
     slots_where (\<lambda>s. cs_in_use s \<and> (cs_state s = SESSION_STATE_ACTIVE \<or> cs_state s = SESSION_STATE_AUTHENTICATED))
       m max_count"

fun magic_session_state_name :: "SessionState \<Rightarrow> string" where
  "magic_session_state_name SESSION_STATE_INIT = ''INIT''"
| "magic_session_state_name SESSION_STATE_AUTHENTICATED = ''AUTHENTICATED''"
| "magic_session_state_name SESSION_STATE_ACTIVE = ''ACTIVE''"
| "magic_session_state_name SESSION_STATE_MODIFYING = ''MODIFYING''"
| "magic_session_state_name SESSION_STATE_SUSPENDED = ''SUSPENDED''"
| "magic_session_state_name SESSION_STATE_TERMINATING = ''TERMINATING''"
| "magic_session_state_name SESSION_STATE_CLOSED = ''CLOSED''"

section \<open>One session\<close>

definition magic_session_assign_link ::
  "int \<Rightarrow> string option \<Rightarrow> u8 \<Rightarrow> u32 \<Rightarrow> u32 \<Rightarrow> ClientSession \<Rightarrow> int \<times> ClientSession" where
  "magic_session_assign_link now link_id bearer bw ret_bw s =
     (case link_id of None \<Rightarrow> (-1, s) | Some lid \<Rightarrow>
        let s1 = (if cs_assigned_link_id s \<noteq> [] \<and> cs_assigned_link_id s \<noteq> lid
                  then s\<lparr>cs_previous_link_id := strncpy_buf 63 (cs_assigned_link_id s),
                         cs_last_link_switch_time := now\<rparr>
                  else if cs_assigned_link_id s = [] then s\<lparr>cs_last_link_switch_time := now\<rparr>
                  else s)
        in (0, s1\<lparr>cs_assigned_link_id := strncpy_buf 63 lid, cs_bearer_id := bearer,
                  cs_granted_bw_kbps := bw, cs_granted_ret_bw_kbps := ret_bw,
                  cs_state := SESSION_STATE_ACTIVE, cs_last_activity := now\<rparr>))"

definition magic_session_set_state :: "int \<Rightarrow> SessionState \<Rightarrow> ClientSession \<Rightarrow> int \<times> ClientSession" where
  "magic_session_set_state now st s = (0, s\<lparr>cs_state := st, cs_last_activity := now\<rparr>)"

definition magic_session_set_subscription :: "u32 \<Rightarrow> ClientSession \<Rightarrow> int \<times> ClientSession" where
  "magic_session_set_subscription level s =
     (0, s\<lparr>cs_subscribed_status_level := level, cs_status_subscription_active := (level > 0)\<rparr>)"

definition magic_session_suspend :: "int \<Rightarrow> ClientSession \<Rightarrow> int \<times> ClientSession" where
  "magic_session_suspend now s =
     (if cs_state s \<noteq> SESSION_STATE_ACTIVE then (-1, s)
      else (0, s\<lparr>cs_granted_bw_kbps := 0, cs_granted_ret_bw_kbps := 0, cs_state := SESSION_STATE_SUSPENDED,
                 cs_last_activity := now\<rparr>))"

definition magic_session_resume :: "int \<Rightarrow> ClientSession \<Rightarrow> int \<times> ClientSession" where
  "magic_session_resume now s =
     (if cs_state s \<noteq> SESSION_STATE_SUSPENDED then (-1, s)
      else (0, s\<lparr>cs_state := SESSION_STATE_ACTIVE, cs_last_activity := now\<rparr>))"

definition magic_session_add_tft :: "SessionTftRule \<Rightarrow> ClientSession \<Rightarrow> int \<times> ClientSession" where
  "magic_session_add_tft tft s =
     (if cs_num_tft_rules s \<ge> of_nat MAX_TFT_PER_SESSION then (-1, s)
      else (0, s\<lparr>cs_tft_rules := (cs_tft_rules s)[unat (cs_num_tft_rules s) := tft\<lparr>sf_in_use := True\<rparr>],
                 cs_num_tft_rules := cs_num_tft_rules s + 1\<rparr>))"

definition magic_session_clear_tfts :: "ClientSession \<Rightarrow> ClientSession" where
  "magic_session_clear_tfts s =
     s\<lparr>cs_tft_rules := replicate MAX_TFT_PER_SESSION zero_sft, cs_num_tft_rules := 0\<rparr>"

definition tft_accepts ::
  "string option \<Rightarrow> string option \<Rightarrow> u8 \<Rightarrow> u16 \<Rightarrow> u16 \<Rightarrow> SessionTftRule \<Rightarrow> bool" where
  "tft_accepts src_ip dst_ip protocol src_port dst_port t =
     (if \<not> sf_in_use t then False
      else if sf_protocol t \<noteq> 0 \<and> sf_protocol t \<noteq> protocol then False
      else if src_ip \<noteq> None \<and> sf_src_ip t \<noteq> [] \<and> sf_src_ip t \<noteq> the src_ip then False
      else if dst_ip \<noteq> None \<and> sf_dst_ip t \<noteq> [] \<and> sf_dst_ip t \<noteq> the dst_ip then False
      else if (sf_src_port_start t \<noteq> 0 \<or> sf_src_port_end t \<noteq> 0) \<and>
              (src_port < sf_src_port_start t \<or> src_port > sf_src_port_end t) then False
      else if (sf_dst_port_start t \<noteq> 0 \<or> sf_dst_port_end t \<noteq> 0) \<and>
              (dst_port < sf_dst_port_start t \<or> dst_port > sf_dst_port_end t) then False
      else True)"

definition magic_session_find_tft ::
  "ClientSession \<Rightarrow> string option \<Rightarrow> string option \<Rightarrow> u8 \<Rightarrow> u16 \<Rightarrow> u16 \<Rightarrow> nat option" where
  "magic_session_find_tft s src_ip dst_ip protocol src_port dst_port =
     find_idx (tft_accepts src_ip dst_ip protocol src_port dst_port)
       (take (unat (cs_num_tft_rules s)) (cs_tft_rules s))"

definition magic_session_release_link ::
  "os_env \<Rightarrow> ClientSession \<Rightarrow> dp_world \<Rightarrow> int \<times> ClientSession \<times> dp_world" where
  "magic_session_release_link os s w =
     (if cs_bearer_id s = 0 \<or> cs_assigned_link_id s = [] then (0, s, w)
      else
        let w1 = (if dp_is_initialized (dp w) \<and> cs_session_id s \<noteq> []
                  then snd (magic_dataplane_remove_client_route os (Some (cs_session_id s)) w) else w)
        in (0, s\<lparr>cs_bearer_id := 0, cs_assigned_link_id := [], cs_granted_bw_kbps := 0,
                 cs_granted_ret_bw_kbps := 0\<rparr>, w1))"

section \<open>The session table\<close>

definition magic_session_create ::
  "int \<Rightarrow> string option \<Rightarrow> string option \<Rightarrow> string option \<Rightarrow> SessionManager \<Rightarrow> nat option \<times> SessionManager" where
  "magic_session_create now session_id client_id client_realm m =
     (case (session_id, client_id) of
        (Some sid, Some cid) \<Rightarrow>
          (case find_idx (\<lambda>s. \<not> cs_in_use s) (sm_sessions m) of
             None \<Rightarrow> (None, m)
           | Some slot \<Rightarrow>
               let s = zero_session\<lparr>cs_in_use := True, cs_session_id := strncpy_buf 127 sid,
                         cs_client_id := strncpy_buf 63 cid,
                         cs_client_realm := (case client_realm of Some (r # rs) \<Rightarrow> strncpy_buf 63 (r # rs) | _ \<Rightarrow> []),
                         cs_state := SESSION_STATE_INIT, cs_created_at := now, cs_last_activity := now\<rparr>;
                   m1 = m\<lparr>sm_sessions := (sm_sessions m)[slot := s]\<rparr>;
                   (ctx, m2) = magic_client_context_get_or_create now (Some cid) m1;
                   m3 = (case ctx of None \<Rightarrow> m2
                         | Some k \<Rightarrow> m2\<lparr>sm_clients := (sm_clients m2)
                                        [k := snd (magic_client_add_session now (int slot) (sm_clients m2 ! k))]\<rparr>)
               in (Some slot, m3\<lparr>sm_session_count := sm_session_count m3 + 1\<rparr>))
      | _ \<Rightarrow> (None, m))"

definition magic_session_delete ::
  "os_env \<Rightarrow> int \<Rightarrow> string option \<Rightarrow> SessionManager \<Rightarrow> dp_world \<Rightarrow> int \<times> SessionManager \<times> dp_world" where
  "magic_session_delete os now session_id m w =
     (case session_id of None \<Rightarrow> (-1, m, w) | Some sid \<Rightarrow>
        (case find_idx (\<lambda>s. cs_in_use s \<and> cs_session_id s = sid) (sm_sessions m) of
           None \<Rightarrow> (-1, m, w)
         | Some i \<Rightarrow>
             let s = sm_sessions m ! i;
                 clients' =
                   (case find_idx (\<lambda>c. cc_in_use c \<and> cc_client_id c = cs_client_id s) (sm_clients m) of
                      None \<Rightarrow> sm_clients m
                    | Some k \<Rightarrow>
                        let c1 = magic_client_update_allocated_bandwidth now (- cs_granted_bw_kbps s)
                                   (- cs_granted_ret_bw_kbps s) (sm_clients m ! k)
                        in (sm_clients m)[k := snd (magic_client_remove_session now (int i) c1)]);
                 s1 = magic_session_clear_tfts s;
                 (r, s2, w1) = magic_session_release_link os s1 w
             in (0, m\<lparr>sm_sessions := (sm_sessions m)[i := zero_session], sm_clients := clients',
                      sm_session_count := (if sm_session_count m > 0 then sm_session_count m - 1
                                           else sm_session_count m)\<rparr>, w1)))"

text \<open>
  The loop of \<open>magic_session_cleanup_timeout\<close>: the slots from the first to the last, the number
  cleaned and the data plane after the releases.
\<close>

definition timed_out :: "int \<Rightarrow> u32 \<Rightarrow> ClientSession \<Rightarrow> bool" where
  "timed_out now timeout_sec s \<longleftrightarrow> cs_in_use s \<and> now - cs_last_activity s > uint timeout_sec"

fun cleanup_timeout_loop ::
  "os_env \<Rightarrow> int \<Rightarrow> u32 \<Rightarrow> ClientSession list \<Rightarrow> dp_world \<Rightarrow> ClientSession list \<times> int \<times> dp_world" where
  "cleanup_timeout_loop os now timeout_sec [] w = ([], 0, w)"
| "cleanup_timeout_loop os now timeout_sec (s # ss) w =
     (if timed_out now timeout_sec s
      then let (r, s', w1) = magic_session_release_link os s w;
               (ss', n, w2) = cleanup_timeout_loop os now timeout_sec ss w1
           in (zero_session # ss', n + 1, w2)
      else let (ss', n, w2) = cleanup_timeout_loop os now timeout_sec ss w in (s # ss', n, w2))"

definition magic_session_cleanup_timeout ::
  "os_env \<Rightarrow> int \<Rightarrow> u32 \<Rightarrow> SessionManager \<Rightarrow> dp_world \<Rightarrow> int \<times> SessionManager \<times> dp_world" where
  "magic_session_cleanup_timeout os now timeout_sec m w =
     (let (ss, n, w1) = cleanup_timeout_loop os now timeout_sec (sm_sessions m) w
      in (n, m\<lparr>sm_sessions := ss\<rparr>, w1))"

fun release_all :: "os_env \<Rightarrow> ClientSession list \<Rightarrow> dp_world \<Rightarrow> dp_world" where
  "release_all os [] w = w"
| "release_all os (s # ss) w =
     (if cs_in_use s then let (r, s', w1) = magic_session_release_link os s w in release_all os ss w1
      else release_all os ss w)"

definition magic_session_cleanup :: "os_env \<Rightarrow> SessionManager \<Rightarrow> dp_world \<Rightarrow> SessionManager \<times> dp_world" where
  "magic_session_cleanup os m w =
     (m\<lparr>sm_sessions := replicate MAX_SESSIONS zero_session\<rparr>, release_all os (sm_sessions m) w)"

end
