(* ===== verification/Session_Laws.thy ===== *)
theory Session_Laws
  imports Session Dataplane_Laws
begin

text \<open>
  The session manager as a step relation and its invariants. \<open>serve_step\<close> are the operations the
  request handlers use; \<open>sess_step\<close> adds the idle-session reaper. \<open>sess_inv\<close> (table shapes, list
  bounds, counters) holds in every state of both; \<open>listing_ok\<close> (a client context lists sessions of
  that client only) and the exactness of \<open>session_count\<close> hold along \<open>serve_step\<close>.
\<close>

interpretation sess: keyed_table cs_in_use zero_session cs_session_id
  by unfold_locales (simp add: zero_session_def)

interpretation clients: keyed_table cc_in_use zero_client cc_client_id
  by unfold_locales (simp add: zero_client_def)

section \<open>Invariants\<close>

definition client_ok :: "ClientContext \<Rightarrow> bool" where
  "client_ok c \<longleftrightarrow> length (cc_active_session_indices c) = MAX_SESSIONS_PER_CLIENT
     \<and> 0 \<le> cc_active_session_count c \<and> cc_active_session_count c \<le> int MAX_SESSIONS_PER_CLIENT
     \<and> distinct (listed c) \<and> (\<forall>x\<in>set (listed c). 0 \<le> x \<and> x < int MAX_SESSIONS)"

definition session_ok :: "ClientSession \<Rightarrow> bool" where
  "session_ok s \<longleftrightarrow> length (cs_tft_rules s) = MAX_TFT_PER_SESSION \<and> unat (cs_num_tft_rules s) \<le> MAX_TFT_PER_SESSION"

definition clients_ok :: "SessionManager \<Rightarrow> bool" where
  "clients_ok m \<longleftrightarrow> length (sm_clients m) = MAX_CLIENTS \<and> (\<forall>c\<in>set (sm_clients m). client_ok c)
     \<and> sm_client_count m = int (count_if cc_in_use (sm_clients m))
     \<and> keys_unique cc_in_use cc_client_id (sm_clients m)"

definition sess_inv :: "SessionManager \<Rightarrow> bool" where
  "sess_inv m \<longleftrightarrow> clients_ok m \<and> length (sm_sessions m) = MAX_SESSIONS
     \<and> (\<forall>s\<in>set (sm_sessions m). session_ok s)
     \<and> int (count_if cs_in_use (sm_sessions m)) \<le> sm_session_count m"

definition listing_ok :: "SessionManager \<Rightarrow> bool" where
  "listing_ok m \<longleftrightarrow> (\<forall>c\<in>set (sm_clients m). cc_in_use c \<longrightarrow>
     (\<forall>x\<in>set (listed c). cs_in_use (sm_sessions m ! nat x) \<and> cs_client_id (sm_sessions m ! nat x) = cc_client_id c))"

definition exact_count :: "SessionManager \<Rightarrow> bool" where
  "exact_count m \<longleftrightarrow> sm_session_count m = int (count_if cs_in_use (sm_sessions m))"

lemma zero_ok [simp]: "client_ok zero_client" "session_ok zero_session"
  by (simp_all add: client_ok_def zero_client_def listed_def session_ok_def zero_session_def)

lemma init_sess_inv:
  "sess_inv (snd (magic_session_init m))" "listing_ok (snd (magic_session_init m))"
  "exact_count (snd (magic_session_init m))"
  by (simp_all add: magic_session_init_def sess_inv_def clients_ok_def listing_ok_def exact_count_def sess.blank_table
      clients.blank_table clients.unique_blank clients.blank_unused)

section \<open>The session list of a client\<close>

lemma listed_length: "client_ok c \<Longrightarrow> length (listed c) = nat (cc_active_session_count c)"
  by (simp add: client_ok_def listed_def nat_le_iff)

lemma add_session_listed:
  assumes ok: "client_ok c" and i: "0 \<le> i" "i < int MAX_SESSIONS"
    and add: "magic_client_add_session now i c = (r, c')"
  shows "client_ok c' \<and> cc_in_use c' = cc_in_use c \<and> cc_client_id c' = cc_client_id c \<and>
         set (listed c') \<subseteq> insert i (set (listed c)) \<and> set (listed c) \<subseteq> set (listed c')"
proof (cases "magic_client_can_create_session c \<and> i \<notin> set (listed c) \<and> cc_active_session_count c < int MAX_SESSIONS_PER_CLIENT")
  case False
  with add i ok show ?thesis by (auto simp: magic_client_add_session_def split: if_splits)
next
  case True
  let ?n = "nat (cc_active_session_count c)"
  have n: "?n < length (cc_active_session_indices c)" using True ok by (simp add: client_ok_def nat_less_iff)
  have c': "c' = c\<lparr>cc_active_session_indices := (cc_active_session_indices c)[?n := i],
                  cc_active_session_count := cc_active_session_count c + 1,
                  cc_total_sessions_created := cc_total_sessions_created c + 1, cc_last_activity := now\<rparr>"
    using add True i by (auto simp: magic_client_add_session_def)
  have "nat (cc_active_session_count c + 1) = Suc ?n" using ok by (simp add: client_ok_def nat_add_distrib)
  then have l: "listed c' = listed c @ [i]"
    using n by (simp add: c' listed_def take_Suc_conv_app_nth)
  then show ?thesis using ok True i by (auto simp: client_ok_def c' listed_def)
qed

lemma shift_left_take:
  assumes "i < n" and "n \<le> length xs"
  shows "length (shift_left i n xs) = length xs"
    and "take (n - 1) (shift_left i n xs) = take i (take n xs) @ drop (Suc i) (take n xs)"
proof -
  show "length (shift_left i n xs) = length xs" using assms by (simp add: shift_left_def)
  have "length (take i xs @ drop (Suc i) (take n xs)) = n - 1" using assms by simp
  then have "take (n - 1) ((take i xs @ drop (Suc i) (take n xs)) @ [-1] @ drop n xs) = take i xs @ drop (Suc i) (take n xs)"
    by (metis append_eq_conv_conj)
  then show "take (n - 1) (shift_left i n xs) = take i (take n xs) @ drop (Suc i) (take n xs)"
    using assms by (simp add: shift_left_def min_def)
qed

lemma remove_nth_distinct:
  assumes "distinct ys" and "i < length ys"
  shows "distinct (take i ys @ drop (Suc i) ys) \<and> set (take i ys @ drop (Suc i) ys) = set ys - {ys ! i}"
proof -
  obtain a x b where ys: "ys = a @ x # b" "length a = i" "ys ! i = x"
    using id_take_nth_drop [OF assms(2)] assms(2) by (metis length_take min.absorb2 less_imp_le)
  then show ?thesis using assms(1) by auto
qed

lemma remove_session_listed:
  assumes ok: "client_ok c" and rem: "magic_client_remove_session now i c = (r, c')" and i: "0 \<le> i"
  shows "client_ok c' \<and> cc_in_use c' = cc_in_use c \<and> cc_client_id c' = cc_client_id c \<and>
         set (listed c') = set (listed c) - {i}"
proof (cases "find_idx (\<lambda>x. x = i) (listed c)")
  case None
  then have "i \<notin> set (listed c)" by (auto simp: find_idx_None_iff)
  with None rem i ok show ?thesis by (auto simp: magic_client_remove_session_def)
next
  case (Some k)
  let ?n = "nat (cc_active_session_count c)" and ?xs = "cc_active_session_indices c"
  have k: "k < length (listed c)" "listed c ! k = i" using find_idx_SomeD [OF Some] by auto
  have kn: "k < ?n" "?n \<le> length ?xs" using k listed_length [OF ok] ok by (auto simp: client_ok_def nat_le_iff)
  have c': "c' = c\<lparr>cc_active_session_indices := shift_left k ?n ?xs,
                  cc_active_session_count := cc_active_session_count c - 1, cc_last_activity := now\<rparr>"
    using rem Some i by (simp add: magic_client_remove_session_def)
  have "nat (cc_active_session_count c - 1) = ?n - 1" by (simp add: nat_diff_distrib')
  then have l: "listed c' = take k (listed c) @ drop (Suc k) (listed c)"
    using shift_left_take(2) [OF kn] by (simp add: c' listed_def)
  have "distinct (listed c)" using ok by (simp add: client_ok_def)
  from remove_nth_distinct [OF this k(1)] k(2) have d: "distinct (listed c') \<and> set (listed c') = set (listed c) - {i}"
    by (simp only: l)
  then show ?thesis using ok kn shift_left_take(1) [OF kn] by (auto simp: client_ok_def c')
qed

section \<open>Contexts under the table operations\<close>

lemma clients_ok_cong: "sm_clients m = sm_clients m' \<Longrightarrow> sm_client_count m = sm_client_count m' \<Longrightarrow> clients_ok m = clients_ok m'"
  by (simp add: clients_ok_def)

lemma edit_client_ok:
  assumes "clients_ok m" and "k < length (sm_clients m)" and "client_ok c"
    and "cc_in_use c = cc_in_use (sm_clients m ! k)" and "cc_client_id c = cc_client_id (sm_clients m ! k)"
  shows "clients_ok (m\<lparr>sm_clients := (sm_clients m)[k := c]\<rparr>)"
  using assms clients.keep_slot [of k "sm_clients m" c] clients.unique_kept [of "sm_clients m" c k]
    set_update_subset_insert [of "sm_clients m" k c]
  by (auto simp: clients_ok_def)

lemma get_or_create_cases:
  assumes ok: "clients_ok m" and cid: "length cid \<le> 63"
    and goc: "magic_client_context_get_or_create now (Some cid) m = (k, m')"
  shows "clients_ok m' \<and> sm_sessions m' = sm_sessions m \<and> sm_session_count m' = sm_session_count m \<and>
    (\<forall>c\<in>set (sm_clients m'). c \<in> set (sm_clients m) \<or> listed c = []) \<and>
    (case k of None \<Rightarrow> m' = m
     | Some j \<Rightarrow> j < length (sm_clients m') \<and> cc_in_use (sm_clients m' ! j) \<and> cc_client_id (sm_clients m' ! j) = cid)"
proof (cases "find_idx (\<lambda>c. cc_in_use c \<and> cc_client_id c = cid) (sm_clients m)")
  case (Some i)
  with goc have "k = Some i" "m' = m" by (simp_all add: magic_client_context_get_or_create_def)
  with ok find_idx_SomeD [OF Some] show ?thesis by simp
next
  case fresh: None
  show ?thesis
  proof (cases "find_idx (\<lambda>c. \<not> cc_in_use c) (sm_clients m)")
    case None
    with fresh goc ok show ?thesis by (auto simp: magic_client_context_get_or_create_def)
  next
    case (Some i)
    define ctx where "ctx = zero_client\<lparr>cc_in_use := True, cc_client_id := strncpy_buf 63 cid,
                              cc_first_seen := now, cc_last_activity := now,
                              cc_max_concurrent_sessions := of_nat MAX_SESSIONS_PER_CLIENT,
                              cc_active_session_indices := replicate MAX_SESSIONS_PER_CLIENT (-1)\<rparr>"
    have ctx: "cc_in_use ctx" "cc_client_id ctx = cid" "listed ctx = []" "client_ok ctx"
      using cid by (simp_all add: ctx_def listed_def client_ok_def zero_client_def)
    have m': "k = Some i" "m' = m\<lparr>sm_clients := (sm_clients m)[i := ctx], sm_client_count := sm_client_count m + 1\<rparr>"
      using goc fresh Some by (simp_all add: magic_client_context_get_or_create_def ctx_def Let_def)
    have i: "i < length (sm_clients m)" using Some by (rule find_idx_less)
    have "keys_unique cc_in_use cc_client_id ((sm_clients m)[i := ctx])"
      using ok fresh ctx(2) by (intro clients.unique_inserted [OF _ Some]) (auto simp: clients_ok_def)
    moreover have "count_if cc_in_use ((sm_clients m)[i := ctx]) = Suc (count_if cc_in_use (sm_clients m))"
      using clients.take_slot [OF Some] ctx(1) by simp
    ultimately show ?thesis
      using ok ctx i m' set_update_subset_insert [of "sm_clients m" i ctx] by (auto simp: clients_ok_def)
  qed
qed

lemma new_session_ok:
  "session_ok (zero_session\<lparr>cs_in_use := True, cs_session_id := a, cs_client_id := b, cs_client_realm := c,
     cs_state := st, cs_created_at := t, cs_last_activity := t\<rparr>)"
  by (simp add: session_ok_def zero_session_def)

definition new_session :: "int \<Rightarrow> string \<Rightarrow> string \<Rightarrow> string option \<Rightarrow> ClientSession" where
  "new_session now sid cid realm =
     zero_session\<lparr>cs_in_use := True, cs_session_id := strncpy_buf 127 sid,
                         cs_client_id := strncpy_buf 63 cid,
                         cs_client_realm := (case realm of Some (r # rs) \<Rightarrow> strncpy_buf 63 (r # rs) | _ \<Rightarrow> []),
                         cs_state := SESSION_STATE_INIT, cs_created_at := now, cs_last_activity := now\<rparr>"

lemma new_session_simps [simp]:
  "cs_in_use (new_session now sid cid realm)" "cs_session_id (new_session now sid cid realm) = strncpy_buf 127 sid"
  "cs_client_id (new_session now sid cid realm) = strncpy_buf 63 cid" "session_ok (new_session now sid cid realm)"
  by (simp_all add: new_session_def new_session_ok)

lemma create_cases:
  assumes inv: "sess_inv m" and cid: "length cid \<le> 63"
    and cr: "magic_session_create now (Some sid) (Some cid) realm m = (r, m')"
  obtains (full) "r = None" "m' = m" "find_idx (\<lambda>s. \<not> cs_in_use s) (sm_sessions m) = None"
  | (made) slot where "r = Some slot" "find_idx (\<lambda>s. \<not> cs_in_use s) (sm_sessions m) = Some slot"
      "sm_sessions m' = (sm_sessions m)[slot := new_session now sid cid realm]"
      "sm_session_count m' = sm_session_count m + 1" "clients_ok m'"
      "\<And>c. c \<in> set (sm_clients m') \<Longrightarrow> c \<in> set (sm_clients m) \<or> listed c = [] \<or>
         (cc_client_id c = cid \<and> (\<exists>d. (d \<in> set (sm_clients m) \<or> listed d = []) \<and> cc_in_use d \<and> cc_client_id d = cid \<and>
            set (listed c) \<subseteq> insert (int slot) (set (listed d))))"
proof (cases "find_idx (\<lambda>s. \<not> cs_in_use s) (sm_sessions m)")
  case None
  with cr show ?thesis by (intro full) (auto simp: magic_session_create_def)
next
  case (Some slot)
  let ?m1 = "m\<lparr>sm_sessions := (sm_sessions m)[slot := new_session now sid cid realm]\<rparr>"
  obtain k m2 where goc: "magic_client_context_get_or_create now (Some cid) ?m1 = (k, m2)" by (meson surj_pair)
  have "clients_ok ?m1" using inv by (simp add: sess_inv_def clients_ok_def)
  note g = get_or_create_cases [OF this cid goc]
  define m3 where "m3 = (case k of None \<Rightarrow> m2 | Some k \<Rightarrow> m2\<lparr>sm_clients := (sm_clients m2)
      [k := snd (magic_client_add_session now (int slot) (sm_clients m2 ! k))]\<rparr>)"
  have m': "r = Some slot" "m' = m3\<lparr>sm_session_count := sm_session_count m3 + 1\<rparr>"
    using cr Some goc by (simp_all add: magic_session_create_def Let_def m3_def new_session_def)
  show ?thesis
  proof (cases k)
    case None
    with g m' show ?thesis by (intro made [OF m'(1) Some]) (auto simp: m3_def clients_ok_def)
  next
    case (Some j)
    let ?d = "sm_clients m2 ! j"
    obtain rc c where add: "magic_client_add_session now (int slot) ?d = (rc, c)" by (meson surj_pair)
    have j: "j < length (sm_clients m2)" "cc_in_use ?d" "cc_client_id ?d = cid" "clients_ok m2" using g Some by auto
    have d: "client_ok ?d" "?d \<in> set (sm_clients m2)" using j by (auto simp: clients_ok_def)
    have "slot < MAX_SESSIONS"
      using find_idx_less [OF \<open>find_idx _ _ = Some slot\<close>] inv by (simp add: sess_inv_def)
    then have a: "client_ok c \<and> cc_in_use c = cc_in_use ?d \<and> cc_client_id c = cc_client_id ?d \<and>
         set (listed c) \<subseteq> insert (int slot) (set (listed ?d))"
      using add_session_listed [OF d(1) _ _ add] by simp
    have m3: "m3 = m2\<lparr>sm_clients := (sm_clients m2)[j := c]\<rparr>" by (simp add: m3_def Some add)
    have ok3: "clients_ok m3" unfolding m3 using edit_client_ok [OF j(4,1)] a by simp
    have mem: "x \<in> set (sm_clients m) \<or> listed x = []" if "x \<in> set (sm_clients m2)" for x
      using g that by auto
    show ?thesis
    proof (rule made [OF m'(1) \<open>find_idx _ _ = Some slot\<close>])
      show "sm_sessions m' = (sm_sessions m)[slot := new_session now sid cid realm]"
        "sm_session_count m' = sm_session_count m + 1" using g by (simp_all add: m'(2) m3)
      show "clients_ok m'" using ok3 by (simp add: m'(2) clients_ok_def)
      fix x assume "x \<in> set (sm_clients m')"
      then have "x = c \<or> x \<in> set (sm_clients m2)"
        using set_update_subset_insert [of "sm_clients m2" j c] by (auto simp: m'(2) m3)
      then show "x \<in> set (sm_clients m) \<or> listed x = [] \<or>
         (cc_client_id x = cid \<and> (\<exists>d. (d \<in> set (sm_clients m) \<or> listed d = []) \<and> cc_in_use d \<and> cc_client_id d = cid \<and>
            set (listed x) \<subseteq> insert (int slot) (set (listed d))))"
        using a j d(2) mem by metis
    qed
  qed
qed

lemma create_inv:
  assumes inv: "sess_inv m" and cid: "length cid \<le> 63"
    and cr: "magic_session_create now (Some sid) (Some cid) realm m = (r, m')"
  shows "sess_inv m'" and "listing_ok m \<Longrightarrow> listing_ok m'" and "exact_count m \<Longrightarrow> exact_count m'"
proof -
  have "sess_inv m' \<and> (listing_ok m \<longrightarrow> listing_ok m') \<and> (exact_count m \<longrightarrow> exact_count m')"
    using inv cid cr
  proof (cases rule: create_cases)
    case full
    with inv show ?thesis by simp
  next
    case (made slot)
    let ?s = "new_session now sid cid realm"
    have sl: "slot < length (sm_sessions m)" "\<not> cs_in_use (sm_sessions m ! slot)"
      using find_idx_SomeD [OF made(2)] by auto
    have cnt: "count_if cs_in_use (sm_sessions m') = Suc (count_if cs_in_use (sm_sessions m))"
      using sess.take_slot [OF made(2)] made(3) by simp
    have "sess_inv m'"
      using inv made cnt set_update_subset_insert [of "sm_sessions m" slot ?s] by (auto simp: sess_inv_def)
    moreover have "listing_ok m'" if lo: "listing_ok m"
    proof -
      have old: "cs_in_use (sm_sessions m' ! nat x) \<and> cs_client_id (sm_sessions m' ! nat x) = cc_client_id c"
        if "c \<in> set (sm_clients m)" "cc_in_use c" "x \<in> set (listed c)" for c x
        using lo that sl by (auto simp: listing_ok_def made(3) nth_list_update)
      have new: "cs_in_use (sm_sessions m' ! slot)" "cs_client_id (sm_sessions m' ! slot) = cid"
        using sl cid by (simp_all add: made(3))
      show ?thesis unfolding listing_ok_def
      proof (intro ballI impI)
        fix c x assume c: "c \<in> set (sm_clients m')" "cc_in_use c" "x \<in> set (listed c)"
        from made(6) [OF c(1)] c(3) consider "c \<in> set (sm_clients m)"
          | d where "cc_client_id c = cid" "d \<in> set (sm_clients m) \<or> listed d = []" "cc_in_use d" "cc_client_id d = cid"
            "x = int slot \<or> x \<in> set (listed d)" by fastforce
        then show "cs_in_use (sm_sessions m' ! nat x) \<and> cs_client_id (sm_sessions m' ! nat x) = cc_client_id c"
        proof cases
          case 1
          with old c show ?thesis by blast
        next
          case 2
          with old [of d x] new show ?thesis by auto
        qed
      qed
    qed
    moreover have "exact_count m \<longrightarrow> exact_count m'" using cnt made(4) by (simp add: exact_count_def)
    ultimately show ?thesis by blast
  qed
  then show "sess_inv m'" "listing_ok m \<Longrightarrow> listing_ok m'" "exact_count m \<Longrightarrow> exact_count m'" by auto
qed

section \<open>Deleting\<close>

lemma release_link_keeps:
  assumes "magic_session_release_link os s w = (r, s', w')"
  shows "cs_in_use s' = cs_in_use s \<and> cs_session_id s' = cs_session_id s \<and> cs_client_id s' = cs_client_id s \<and>
    session_ok s' = session_ok s \<and> r = 0"
  using assms by (auto simp: magic_session_release_link_def session_ok_def Let_def split: if_splits)

lemma update_allocated_keeps [simp]:
  "cc_in_use (magic_client_update_allocated_bandwidth now a b c) = cc_in_use c"
  "cc_client_id (magic_client_update_allocated_bandwidth now a b c) = cc_client_id c"
  "listed (magic_client_update_allocated_bandwidth now a b c) = listed c"
  "client_ok (magic_client_update_allocated_bandwidth now a b c) = client_ok c"
  by (simp_all add: magic_client_update_allocated_bandwidth_def listed_def client_ok_def)

text \<open>What deletion does to the context of the session's client.\<close>

definition settle :: "int \<Rightarrow> nat \<Rightarrow> ClientSession \<Rightarrow> ClientContext \<Rightarrow> ClientContext" where
  "settle now i s c = snd (magic_client_remove_session now (int i)
     (magic_client_update_allocated_bandwidth now (- cs_granted_bw_kbps s) (- cs_granted_ret_bw_kbps s) c))"

lemma settle_keeps:
  assumes "client_ok c"
  shows "client_ok (settle now i s c) \<and> cc_in_use (settle now i s c) = cc_in_use c \<and>
    cc_client_id (settle now i s c) = cc_client_id c \<and> set (listed (settle now i s c)) = set (listed c) - {int i}"
proof -
  let ?c = "magic_client_update_allocated_bandwidth now (- cs_granted_bw_kbps s) (- cs_granted_ret_bw_kbps s) c"
  obtain r c' where rem: "magic_client_remove_session now (int i) ?c = (r, c')" by (meson surj_pair)
  from remove_session_listed [OF _ rem] assms show ?thesis by (simp add: settle_def rem)
qed

lemma delete_cases:
  assumes "magic_session_delete os now session_id m w = (r, m', w')"
  obtains (missing) "r = -1" "m' = m" "w' = w" "magic_session_find_by_id m session_id = None"
  | (gone) sid i where "r = 0" "session_id = Some sid" "magic_session_find_by_id m session_id = Some i"
      "sm_sessions m' = (sm_sessions m)[i := zero_session]"
      "sm_session_count m' = (if sm_session_count m > 0 then sm_session_count m - 1 else sm_session_count m)"
      "sm_client_count m' = sm_client_count m"
      "sm_clients m' = (case magic_client_context_find m (Some (cs_client_id (sm_sessions m ! i))) of
         None \<Rightarrow> sm_clients m
       | Some k \<Rightarrow> (sm_clients m)[k := settle now i (sm_sessions m ! i) (sm_clients m ! k)])"
      "w' = snd (snd (magic_session_release_link os (sm_sessions m ! i) w))"
proof (cases "magic_session_find_by_id m session_id")
  case None
  with assms show ?thesis
    by (intro missing) (auto simp: magic_session_delete_def magic_session_find_by_id_def split: option.splits)
next
  case (Some i)
  then obtain sid where sid: "session_id = Some sid" by (auto simp: magic_session_find_by_id_def split: option.splits)
  have rel: "snd (snd (magic_session_release_link os (magic_session_clear_tfts s) w)) = snd (snd (magic_session_release_link os s w))" for s
    by (simp add: magic_session_release_link_def magic_session_clear_tfts_def Let_def)
  show ?thesis
    using assms Some sid
    by (intro gone [of sid i])
      (auto simp: rel [of "sm_sessions m ! i", symmetric] magic_session_delete_def magic_session_find_by_id_def magic_client_context_find_def Let_def
        settle_def split: prod.splits option.splits)
qed

lemma delete_clients_ok:
  assumes ok: "clients_ok m" and d: "magic_session_delete os now session_id m w = (r, m', w')"
  shows "clients_ok m'"
  using d
proof (cases rule: delete_cases)
  case (gone sid i)
  let ?s = "sm_sessions m ! i"
  show ?thesis
  proof (cases "magic_client_context_find m (Some (cs_client_id ?s))")
    case None
    with gone ok show ?thesis by (simp add: clients_ok_def)
  next
    case (Some k)
    then have k: "k < length (sm_clients m)"
      by (simp add: magic_client_context_find_def find_idx_less)
    then have "client_ok (sm_clients m ! k)" using ok by (simp add: clients_ok_def)
    from edit_client_ok [OF ok k, of "settle now i ?s (sm_clients m ! k)"] settle_keeps [OF this]
    have "clients_ok (m\<lparr>sm_clients := (sm_clients m)[k := settle now i ?s (sm_clients m ! k)]\<rparr>)" by simp
    then show ?thesis using gone(6,7) Some by (simp add: clients_ok_def)
  qed
qed (simp add: ok)

lemma delete_inv:
  assumes inv: "sess_inv m" and d: "magic_session_delete os now session_id m w = (r, m', w')"
  shows "sess_inv m'" and "exact_count m \<Longrightarrow> exact_count m'" and "listing_ok m \<Longrightarrow> listing_ok m'"
proof -
  have ok: "clients_ok m" using inv by (simp add: sess_inv_def)
  have "sess_inv m' \<and> (exact_count m \<longrightarrow> exact_count m') \<and> (listing_ok m \<longrightarrow> listing_ok m')"
    using d
  proof (cases rule: delete_cases)
    case missing
    with inv show ?thesis by simp
  next
    case (gone sid i)
    let ?s = "sm_sessions m ! i"
    have hit: "find_idx (\<lambda>s. cs_in_use s \<and> cs_session_id s = sid) (sm_sessions m) = Some i"
      using gone(2,3) by (simp add: magic_session_find_by_id_def)
    have i: "i < length (sm_sessions m)" "cs_in_use ?s" using find_idx_SomeD [OF hit] by auto
    have cnt: "Suc (count_if cs_in_use (sm_sessions m')) = count_if cs_in_use (sm_sessions m)"
      using sess.free_slot [OF i sess.blank_unused] gone(4) by simp
    have "sess_inv m'"
      using inv gone(4,5) cnt delete_clients_ok [OF ok d] set_update_subset_insert [of "sm_sessions m" i zero_session]
      by (auto simp: sess_inv_def)
    moreover have "exact_count m \<longrightarrow> exact_count m'" using cnt gone(5) by (auto simp: exact_count_def)
    moreover have "listing_ok m'" if lo: "listing_ok m"
    proof -
      have keep: "cs_in_use (sm_sessions m' ! nat x) \<and> cs_client_id (sm_sessions m' ! nat x) = cc_client_id c"
        if "c \<in> set (sm_clients m)" "cc_in_use c" "x \<in> set (listed c)" "x \<noteq> int i" for c x
      proof -
        have "0 \<le> x" using ok that by (auto simp: clients_ok_def client_ok_def)
        with that lo show ?thesis by (auto simp: listing_ok_def gone(4) nth_list_update)
      qed
      have own: "c = sm_clients m ! k \<and> magic_client_context_find m (Some (cs_client_id ?s)) = Some k"
        if "c = sm_clients m ! k" "k < length (sm_clients m)" "cc_in_use c" "int i \<in> set (listed c)" for c k
      proof -
        have "cs_client_id ?s = cc_client_id c"
          using lo that by (metis listing_ok_def nat_int nth_mem)
        moreover have "keys_unique cc_in_use cc_client_id (sm_clients m)" using ok by (simp add: clients_ok_def)
        ultimately show ?thesis using that clients.unique_lookup [of "sm_clients m" k]
          by (simp add: magic_client_context_find_def)
      qed
      show ?thesis unfolding listing_ok_def
      proof (intro ballI impI)
        fix c x assume c: "c \<in> set (sm_clients m')" "cc_in_use c" "x \<in> set (listed c)"
        then obtain k where k: "k < length (sm_clients m')" "c = sm_clients m' ! k" by (metis in_set_conv_nth)
        have len: "length (sm_clients m') = length (sm_clients m)" using gone(7) by (simp split: option.splits)
        let ?d = "sm_clients m ! k"
        have dok: "client_ok ?d" "?d \<in> set (sm_clients m)" using ok k len by (auto simp: clients_ok_def)
        show "cs_in_use (sm_sessions m' ! nat x) \<and> cs_client_id (sm_sessions m' ! nat x) = cc_client_id c"
        proof (cases "magic_client_context_find m (Some (cs_client_id ?s)) = Some k")
          case True
          then have "c = settle now i ?s ?d" using gone(7) k len by simp
          with settle_keeps [OF dok(1), of now i ?s] keep [OF dok(2), of x] c show ?thesis by auto
        next
          case False
          then have e: "c = ?d" using gone(7) k len by (auto simp: nth_list_update split: option.splits)
          have "x \<noteq> int i" using own [OF e] k len c False by auto
          with keep [OF dok(2), of x] e c show ?thesis by simp
        qed
      qed
    qed
    ultimately show ?thesis by blast
  qed
  then show "sess_inv m'" "exact_count m \<Longrightarrow> exact_count m'" "listing_ok m \<Longrightarrow> listing_ok m'" by auto
qed

section \<open>Reaping idle sessions\<close>

lemma cleanup_loop_sessions:
  "cleanup_timeout_loop os now t ss w = (ss', n, w') \<Longrightarrow>
   ss' = map (\<lambda>s. if timed_out now t s then zero_session else s) ss \<and> n = int (count_if (timed_out now t) ss)"
proof (induction ss arbitrary: w ss' n w')
  case (Cons s ss)
  obtain r s1 w1 where rel: "magic_session_release_link os s w = (r, s1, w1)" by (metis prod_cases3)
  obtain ss2 n2 w2 where rec1: "cleanup_timeout_loop os now t ss w1 = (ss2, n2, w2)" by (metis prod_cases3)
  obtain ss3 n3 w3 where rec2: "cleanup_timeout_loop os now t ss w = (ss3, n3, w3)" by (metis prod_cases3)
  from Cons.prems Cons.IH [OF rec1] Cons.IH [OF rec2] rel rec1 rec2 show ?case
    by (auto split: if_splits)
qed simp

lemma cleanup_timeout_dp_inv:
  "cleanup_timeout_loop os now t ss w = (ss', n, w') \<Longrightarrow> dp_inv (dp w) \<Longrightarrow> dp_inv (dp w')"
proof (induction ss arbitrary: w ss' n w')
  case (Cons s ss)
  obtain r s1 w1 where rel: "magic_session_release_link os s w = (r, s1, w1)" by (metis prod_cases3)
  obtain ss2 n2 w2 where rec1: "cleanup_timeout_loop os now t ss w1 = (ss2, n2, w2)" by (metis prod_cases3)
  obtain ss3 n3 w3 where rec2: "cleanup_timeout_loop os now t ss w = (ss3, n3, w3)" by (metis prod_cases3)
  have "dp_inv (dp w1)"
    using rel Cons.prems(2) remove_route_inv by (auto simp: magic_session_release_link_def Let_def split: if_splits)
  with Cons.prems Cons.IH [OF rec1] Cons.IH [OF rec2] rel rec1 rec2 show ?case by (auto split: if_splits)
qed simp

lemma cleanup_timeout_inv:
  assumes inv: "sess_inv m" and c: "magic_session_cleanup_timeout os now t m w = (n, m', w')"
  shows "sess_inv m'"
proof -
  obtain ss k w1 where loop: "cleanup_timeout_loop os now t (sm_sessions m) w = (ss, k, w1)" by (metis prod_cases3)
  have m': "m' = m\<lparr>sm_sessions := map (\<lambda>s. if timed_out now t s then zero_session else s) (sm_sessions m)\<rparr>"
    using c loop cleanup_loop_sessions [OF loop] by (simp add: magic_session_cleanup_timeout_def)
  have "count_if cs_in_use (sm_sessions m') \<le> count_if cs_in_use (sm_sessions m)"
    unfolding m' by (simp add: count_if_map) (rule count_if_mono, auto simp: zero_session_def split: if_splits)
  with inv show ?thesis by (auto simp: sess_inv_def m' clients_ok_def)
qed

section \<open>Edits of one session and of one context\<close>

datatype session_edit =
    Assign int "string option" u8 u32 u32
  | SetState int SessionState
  | Subscribe u32
  | Suspend int
  | Resume int
  | AddTft SessionTftRule
  | ClearTfts

fun apply_edit :: "session_edit \<Rightarrow> ClientSession \<Rightarrow> ClientSession" where
  "apply_edit (Assign now lid b bw rbw) s = snd (magic_session_assign_link now lid b bw rbw s)"
| "apply_edit (SetState now st) s = snd (magic_session_set_state now st s)"
| "apply_edit (Subscribe l) s = snd (magic_session_set_subscription l s)"
| "apply_edit (Suspend now) s = snd (magic_session_suspend now s)"
| "apply_edit (Resume now) s = snd (magic_session_resume now s)"
| "apply_edit (AddTft t) s = snd (magic_session_add_tft t s)"
| "apply_edit ClearTfts s = magic_session_clear_tfts s"

lemma add_tft_ok:
  assumes "session_ok s" shows "session_ok (snd (magic_session_add_tft t s))"
proof (cases "of_nat MAX_TFT_PER_SESSION \<le> cs_num_tft_rules s")
  case True
  with assms show ?thesis by (simp add: magic_session_add_tft_def)
next
  case False
  then have "unat (cs_num_tft_rules s) < 8" by (simp add: word_le_nat_alt)
  then have "unat (cs_num_tft_rules s + 1) \<le> 8" by (simp add: unat_word_ariths)
  with assms False show ?thesis by (simp add: session_ok_def magic_session_add_tft_def)
qed

lemma apply_edit_keeps:
  "cs_in_use (apply_edit e s) = cs_in_use s" "cs_session_id (apply_edit e s) = cs_session_id s"
  "cs_client_id (apply_edit e s) = cs_client_id s" "session_ok s \<Longrightarrow> session_ok (apply_edit e s)"
proof -
  show "cs_in_use (apply_edit e s) = cs_in_use s" "cs_session_id (apply_edit e s) = cs_session_id s"
    "cs_client_id (apply_edit e s) = cs_client_id s"
    by (cases e; simp add: magic_session_assign_link_def magic_session_set_state_def magic_session_set_subscription_def
        magic_session_suspend_def magic_session_resume_def magic_session_add_tft_def magic_session_clear_tfts_def
        Let_def split: option.splits)+
  show "session_ok (apply_edit e s)" if "session_ok s"
    using that add_tft_ok [OF that]
    by (cases e) (simp_all add: magic_session_assign_link_def magic_session_set_state_def magic_session_set_subscription_def
        magic_session_suspend_def magic_session_resume_def magic_session_clear_tfts_def session_ok_def
        Let_def split: option.splits)
qed

lemma edit_session_inv:
  assumes "i < length (sm_sessions m)" and "cs_in_use s = cs_in_use (sm_sessions m ! i)"
    and "cs_client_id s = cs_client_id (sm_sessions m ! i)" and "session_ok s" and inv: "sess_inv m"
  defines "m' \<equiv> m\<lparr>sm_sessions := (sm_sessions m)[i := s]\<rparr>"
  shows "sess_inv m'" and "listing_ok m \<Longrightarrow> listing_ok m'" and "exact_count m \<Longrightarrow> exact_count m'"
proof -
  have cnt: "count_if cs_in_use (sm_sessions m') = count_if cs_in_use (sm_sessions m)"
    using sess.keep_slot [OF assms(1,2)] by (simp add: m'_def)
  show "sess_inv m'"
    using inv cnt assms(4) set_update_subset_insert [of "sm_sessions m" i s]
    by (auto simp: sess_inv_def m'_def clients_ok_def)
  show "exact_count m'" if "exact_count m" using that cnt by (simp add: exact_count_def m'_def)
  have "cs_in_use (sm_sessions m' ! j) = cs_in_use (sm_sessions m ! j) \<and>
    cs_client_id (sm_sessions m' ! j) = cs_client_id (sm_sessions m ! j)" for j
    using assms(1-3) by (cases "j = i") (simp_all add: m'_def)
  then show "listing_ok m'" if "listing_ok m" using that by (simp add: listing_ok_def m'_def)
qed

lemma edit_client_inv:
  assumes k: "k < length (sm_clients m)" and c: "client_ok c" "listed c = listed (sm_clients m ! k)"
    "cc_in_use c = cc_in_use (sm_clients m ! k)" "cc_client_id c = cc_client_id (sm_clients m ! k)"
    and inv: "sess_inv m"
  defines "m' \<equiv> m\<lparr>sm_clients := (sm_clients m)[k := c]\<rparr>"
  shows "sess_inv m'" and "listing_ok m \<Longrightarrow> listing_ok m'" and "exact_count m \<Longrightarrow> exact_count m'"
proof -
  show "sess_inv m'" using edit_client_ok [of m k c] assms by (simp add: sess_inv_def)
  show "exact_count m'" if "exact_count m" using that by (simp add: exact_count_def m'_def)
  show "listing_ok m'" if "listing_ok m"
    unfolding listing_ok_def
  proof (intro ballI impI)
    fix d x assume "d \<in> set (sm_clients m')" "cc_in_use d" "x \<in> set (listed d)"
    then show "cs_in_use (sm_sessions m' ! nat x) \<and> cs_client_id (sm_sessions m' ! nat x) = cc_client_id d"
      using that k c set_update_subset_insert [of "sm_clients m" k c]
      by (auto simp: listing_ok_def m'_def) (metis c(2-4) insertE nth_mem subsetD)+
  qed
qed

section \<open>The step relation\<close>

inductive serve_step :: "os_env \<Rightarrow> SessionManager \<times> dp_world \<Rightarrow> SessionManager \<times> dp_world \<Rightarrow> bool" for os where
  create: "length cid \<le> 63 \<Longrightarrow> magic_session_create now (Some sid) (Some cid) realm m = (r, m') \<Longrightarrow>
           serve_step os (m, w) (m', w)"
| delete: "magic_session_delete os now sid m w = (r, m', w') \<Longrightarrow> serve_step os (m, w) (m', w')"
| edit: "i < length (sm_sessions m) \<Longrightarrow>
           serve_step os (m, w) (m\<lparr>sm_sessions := (sm_sessions m)[i := apply_edit e (sm_sessions m ! i)]\<rparr>, w)"
| release: "i < length (sm_sessions m) \<Longrightarrow> magic_session_release_link os (sm_sessions m ! i) w = (r, s', w') \<Longrightarrow>
           serve_step os (m, w) (m\<lparr>sm_sessions := (sm_sessions m)[i := s']\<rparr>, w')"
| quota: "k < length (sm_clients m) \<Longrightarrow>
           serve_step os (m, w) (m\<lparr>sm_clients := (sm_clients m)
             [k := magic_client_context_set_quota a b c d (sm_clients m ! k)]\<rparr>, w)"
| account: "k < length (sm_clients m) \<Longrightarrow>
           serve_step os (m, w) (m\<lparr>sm_clients := (sm_clients m)
             [k := magic_client_update_allocated_bandwidth now df dr (sm_clients m ! k)]\<rparr>, w)"

inductive sess_step :: "os_env \<Rightarrow> SessionManager \<times> dp_world \<Rightarrow> SessionManager \<times> dp_world \<Rightarrow> bool" for os where
  serve: "serve_step os x y \<Longrightarrow> sess_step os x y"
| reap: "magic_session_cleanup_timeout os now t m w = (n, m', w') \<Longrightarrow> sess_step os (m, w) (m', w')"

inductive_cases serve_stepE: "serve_step os (m, w) (m', w')"
inductive_cases sess_stepE: "sess_step os (m, w) (m', w')"

lemma serve_step_inv:
  assumes "serve_step os x y" and "sess_inv (fst x)"
  shows "sess_inv (fst y) \<and> (listing_ok (fst x) \<longrightarrow> listing_ok (fst y)) \<and> (exact_count (fst x) \<longrightarrow> exact_count (fst y))"
  using assms
proof (induction rule: serve_step.induct)
  case (create cid now sid realm m r m' w)
  then show ?case using create_inv [of m cid now sid realm r m'] by simp
next
  case (delete now sid m w r m' w')
  then show ?case using delete_inv [of m os now sid w r m' w'] by simp
next
  case (edit i m w e)
  then have "session_ok (sm_sessions m ! i)" by (simp add: sess_inv_def)
  with edit show ?case using edit_session_inv [of i m "apply_edit e (sm_sessions m ! i)"] by (simp add: apply_edit_keeps)
next
  case (release i m w r s' w')
  then have "session_ok (sm_sessions m ! i)" by (simp add: sess_inv_def)
  with release release_link_keeps [OF release(2)] show ?case using edit_session_inv [of i m s'] by simp
next
  case (quota k m w a b c d)
  then have "client_ok (sm_clients m ! k)" by (simp add: sess_inv_def clients_ok_def)
  with quota show ?case
    using edit_client_inv [of k m "magic_client_context_set_quota a b c d (sm_clients m ! k)"]
    by (simp add: magic_client_context_set_quota_def client_ok_def listed_def)
next
  case (account k m w now df dr)
  then have "client_ok (sm_clients m ! k)" by (simp add: sess_inv_def clients_ok_def)
  with account show ?case
    using edit_client_inv [of k m "magic_client_update_allocated_bandwidth now df dr (sm_clients m ! k)"] by simp
qed

lemma sess_step_inv: "sess_step os x y \<Longrightarrow> sess_inv (fst x) \<Longrightarrow> sess_inv (fst y)"
proof (induction rule: sess_step.induct)
  case (serve x y)
  then show ?case using serve_step_inv by blast
next
  case (reap now t m w n m' w')
  then show ?case using cleanup_timeout_inv by simp
qed

lemma sess_steps_inv: "(sess_step os)\<^sup>*\<^sup>* x y \<Longrightarrow> sess_inv (fst x) \<Longrightarrow> sess_inv (fst y)"
  by (induction rule: rtranclp_induct) (auto intro: sess_step_inv)

lemma serve_steps_inv:
  "(serve_step os)\<^sup>*\<^sup>* x y \<Longrightarrow> sess_inv (fst x) \<and> listing_ok (fst x) \<and> exact_count (fst x) \<Longrightarrow>
   sess_inv (fst y) \<and> listing_ok (fst y) \<and> exact_count (fst y)"
  by (induction rule: rtranclp_induct) (auto dest: serve_step_inv)

end
