(* ===== verification/Session_Props.thy ===== *)
theory Session_Props
  imports Session_Laws
begin

text \<open>
  Properties of the session manager: reachable-state invariants, creation and deletion as updates of
  the session map, bandwidth quota, the idle-session reaper, suspension, packet-filter lookup and
  the release of data-plane routes.
\<close>

section \<open>Helper lemmas\<close>

definition session_map :: "SessionManager \<Rightarrow> string \<Rightarrow> ClientSession option" where
  "session_map m = table_map cs_in_use cs_session_id (sm_sessions m)"

lemma find_by_id_None: "magic_session_find_by_id m (Some sid) = None \<longleftrightarrow> session_map m sid = None"
  by (simp add: magic_session_find_by_id_def session_map_def table_map_def)

lemma available_bw_nat: "unat (available_bw mx alloc) = unat mx - unat alloc"
  by (auto simp: available_bw_def unat_sub word_less_nat_alt word_le_nat_alt not_less)

lemma apply_delta_grant:
  assumes "unat g < 2 ^ 31"
  shows "apply_delta alloc g = alloc + g"
    and "g \<noteq> 0 \<Longrightarrow> apply_delta alloc (- g) = (if alloc \<ge> g then alloc - g else 0)"
proof -
  have ul: "uint g < 2 ^ 31" using assms unat_less_uint [of g "2 ^ 31"] by simp
  have lo: "- (2 ^ 31) \<le> uint g" by (rule order_trans [of _ 0]) simp_all
  have s: "sint g = uint g"
    unfolding sint_uint using lo ul by (intro signed_take_bit_int_eq_self) simp_all
  show "apply_delta alloc g = alloc + g" by (simp add: apply_delta_def s)
  have hi: "- uint g < 2 ^ 31" by (rule le_less_trans [of _ 0]) simp_all
  have "sint (- g) = - uint g"
    unfolding sint_word_minus s using ul hi by (intro signed_take_bit_int_eq_self) simp_all
  moreover have "uint g \<noteq> 0" if "g \<noteq> 0" using that by (simp add: uint_0_iff)
  moreover have "0 \<le> uint g" by simp
  ultimately have "sint (- g) < 0" if "g \<noteq> 0" using that by linarith
  then show "apply_delta alloc (- g) = (if alloc \<ge> g then alloc - g else 0)" if "g \<noteq> 0"
    using that by (simp add: apply_delta_def Let_def)
qed

lemma apply_delta_release:
  assumes "unat g < 2 ^ 31"
  shows "unat (apply_delta alloc (- g)) = unat alloc - unat g"
proof (cases "g = 0")
  case True
  then show ?thesis by (simp add: apply_delta_def)
next
  case False
  with apply_delta_grant(2) [OF assms False] show ?thesis
    by (auto simp: unat_sub word_le_nat_alt)
qed

lemma book_within:
  assumes "g \<le> available_bw mx alloc" and "alloc \<le> mx"
  shows "unat (alloc + g) = unat alloc + unat g" and "alloc + g \<le> mx"
proof -
  have g: "unat g \<le> unat mx - unat alloc" using assms(1) by (simp add: word_le_nat_alt available_bw_nat)
  have le: "unat alloc \<le> unat mx" using assms(2) by (simp add: word_le_nat_alt)
  have "unat mx < 2 ^ 32" using unsigned_less [of mx, where 'a = nat] by simp
  with g le show eq: "unat (alloc + g) = unat alloc + unat g" by (simp add: unat_word_ariths)
  show "alloc + g \<le> mx" using g le by (simp add: word_le_nat_alt eq)
qed

definition has_route :: "ClientSession \<Rightarrow> bool" where
  "has_route s \<longleftrightarrow> cs_in_use s \<and> cs_bearer_id s \<noteq> 0 \<and> cs_assigned_link_id s \<noteq> [] \<and> cs_session_id s \<noteq> []"

lemma release_link_world:
  assumes "dp_is_initialized (dp w)"
  shows "snd (snd (magic_session_release_link os s w)) =
    (if cs_bearer_id s \<noteq> 0 \<and> cs_assigned_link_id s \<noteq> [] \<and> cs_session_id s \<noteq> []
     then snd (magic_dataplane_remove_client_route os (Some (cs_session_id s)) w) else w)"
  using assms by (simp add: magic_session_release_link_def)

lemma remove_route_init [simp]:
  "dp_is_initialized (dp (snd (magic_dataplane_remove_client_route os (Some sid) w))) = dp_is_initialized (dp w)"
  by (simp add: remove_route_dp)

lemma release_all_fold:
  "dp_is_initialized (dp w) \<Longrightarrow>
   release_all os ss w = fold (\<lambda>sid w. snd (magic_dataplane_remove_client_route os (Some sid) w))
     (map cs_session_id (filter has_route ss)) w"
proof (induction ss arbitrary: w)
  case (Cons s ss)
  obtain r s1 w1 where rel: "magic_session_release_link os s w = (r, s1, w1)" by (metis prod_cases3)
  with release_link_world [OF Cons.prems, of os s] Cons show ?case
    by (auto simp: has_route_def split: if_splits)
qed simp

lemma reap_result:
  assumes "magic_session_cleanup_timeout os now t m w = (n, m', w')"
  shows "m' = m\<lparr>sm_sessions := map (\<lambda>s. if timed_out now t s then zero_session else s) (sm_sessions m)\<rparr>"
    and "n = int (count_if (timed_out now t) (sm_sessions m))"
proof -
  obtain ss k w1 where loop: "cleanup_timeout_loop os now t (sm_sessions m) w = (ss, k, w1)" by (metis prod_cases3)
  with assms cleanup_loop_sessions [OF loop]
  show "m' = m\<lparr>sm_sessions := map (\<lambda>s. if timed_out now t s then zero_session else s) (sm_sessions m)\<rparr>"
    "n = int (count_if (timed_out now t) (sm_sessions m))"
    by (simp_all add: magic_session_cleanup_timeout_def)
qed

section \<open>A concrete manager\<close>

definition demo_mgr0 :: SessionManager where
  "demo_mgr0 = snd (magic_session_init \<lparr>sm_sessions = [], sm_session_count = 0, sm_clients = [], sm_client_count = 0\<rparr>)"

definition demo_mgr :: SessionManager where
  "demo_mgr = snd (magic_session_create 5 (Some ''s1'') (Some ''c1'') None demo_mgr0)"

definition demo_plane :: dp_world where
  "demo_plane = \<lparr>dp = zero_dp\<lparr>dp_is_initialized := True, dp_next_priority := 1000\<rparr>, cmds = []\<rparr>"

definition demo_host :: os_env where
  "demo_host = \<lparr>os_system = \<lambda>_ _. 0, os_if_index = \<lambda>_. 1, os_if_addr = \<lambda>_. None\<rparr>"

lemma demo_mgr0_inv: "sess_inv demo_mgr0"
  by (simp add: demo_mgr0_def init_sess_inv)

lemma demo_mgr_step: "serve_step os (demo_mgr0, w) (demo_mgr, w)"
  unfolding demo_mgr_def
  by (rule serve_step.create [of "''c1''" 5 "''s1''" None demo_mgr0]) (simp_all add: prod_eq_iff)

lemma demo_mgr_inv: "sess_inv demo_mgr"
  using serve_step_inv [OF demo_mgr_step] demo_mgr0_inv by simp

lemma demo_mgr_facts:
  "magic_session_find_by_id demo_mgr (Some ''s1'') = Some 0"
  "cs_granted_bw_kbps (sm_sessions demo_mgr ! 0) = 0"
  "magic_client_context_find demo_mgr (Some ''c1'') = Some 0"
  "magic_client_get_sessions demo_mgr (sm_clients demo_mgr ! 0) 4 = [0]"
  "cc_in_use (sm_clients demo_mgr ! 0)"
  by code_simp+

lemma demo_plane_inv: "dp_inv (dp demo_plane)" "dp_is_initialized (dp demo_plane)"
  by (simp_all add: dp_inv_defs zero_dp_def rules.unique_blank rules.blank_table tfts.blank_table demo_plane_def)

definition demo_held :: SessionManager where
  "demo_held = demo_mgr\<lparr>sm_sessions := (sm_sessions demo_mgr)
     [0 := apply_edit (Assign 6 (Some ''B'') 1 100 100) (sm_sessions demo_mgr ! 0)]\<rparr>"

definition demo_held_plane :: dp_world where
  "demo_held_plane = demo_plane\<lparr>dp := place_rule 0 (route_rule 5 ''10.0.0.7'' ''s1'' ''B'' 1000 101) (dp demo_plane)\<rparr>"

lemma demo_held_plane_facts:
  "dp_inv (dp demo_held_plane)" "dp_is_initialized (dp demo_held_plane)" "routes_of (dp demo_held_plane) ''s1'' \<noteq> None"
proof -
  have r: "dp_rules (dp demo_plane) = replicate 256 zero_rule" by (simp add: demo_plane_def zero_dp_def)
  then have free: "find_free_rule_slot (dp demo_plane) = Some 0" and none: "routes_of (dp demo_plane) = Map.empty"
    using rules.blank_unused
    by (simp_all add: find_free_rule_slot_def routes_of_def rules.table_map_blank find_idx_Some_iff fun_eq_iff)
  show "dp_inv (dp demo_held_plane)"
    using place_rule_inv [OF demo_plane_inv(1) free] by (simp add: demo_held_plane_def none)
  show "dp_is_initialized (dp demo_held_plane)" by (simp add: demo_held_plane_def place_rule_def demo_plane_def)
  show "routes_of (dp demo_held_plane) ''s1'' \<noteq> None"
    using place_rule_routes [OF free, of "route_rule 5 ''10.0.0.7'' ''s1'' ''B'' 1000 101"]
    by (simp add: demo_held_plane_def none)
qed

section \<open>Properties\<close>

text \<open>
  C2. In every state reachable from initialisation through any interleaving of session operations and
  reaper runs: the tables keep their sizes, every client context's session list has at most ten
  distinct valid slot numbers, every session has at most eight filters, client names are unique,
  \<open>client_count\<close> is the number of contexts, and \<open>session_count\<close> is at least the number of sessions.
\<close>

theorem sessions_reachable_inv:
  assumes "(sess_step os)\<^sup>*\<^sup>* (snd (magic_session_init m0), w0) (m, w)"
  shows "sess_inv m"
  using sess_steps_inv [OF assms] init_sess_inv(1) by simp

theorem sessions_reachable_inv_witness: "sess_inv demo_mgr"
proof (rule sessions_reachable_inv)
  show "(sess_step demo_host)\<^sup>*\<^sup>* (snd (magic_session_init
      \<lparr>sm_sessions = [], sm_session_count = 0, sm_clients = [], sm_client_count = 0\<rparr>), demo_plane) (demo_mgr, demo_plane)"
    using demo_mgr_step [of demo_host demo_plane] unfolding demo_mgr0_def by (blast intro: sess_step.serve)
qed

text \<open>
  C4. As long as the reaper does not run, the sessions a client's context hands out are occupied slots
  of that very client, and \<open>session_count\<close> is exactly the number of sessions.
\<close>

theorem client_sessions_are_own:
  assumes "(serve_step os)\<^sup>*\<^sup>* (snd (magic_session_init m0), w0) (m, w)"
    and "k < length (sm_clients m)" and "cc_in_use (sm_clients m ! k)"
    and "i \<in> set (magic_client_get_sessions m (sm_clients m ! k) max_count)"
  shows "i < MAX_SESSIONS \<and> cs_in_use (sm_sessions m ! i) \<and> cs_client_id (sm_sessions m ! i) = cc_client_id (sm_clients m ! k)
     \<and> sm_session_count m = int (count_if cs_in_use (sm_sessions m))"
proof -
  have inv: "listing_ok m" "exact_count m"
    using serve_steps_inv [OF assms(1)] init_sess_inv by auto
  obtain x where x: "x \<in> set (listed (sm_clients m ! k))" "i = nat x" "0 \<le> x" "x < int MAX_SESSIONS"
    using assms(4) by (auto simp: magic_client_get_sessions_def split: if_splits dest!: in_set_takeD)
  with inv assms(2,3) show ?thesis by (auto simp: listing_ok_def exact_count_def)
qed

theorem client_sessions_are_own_witness:
  "0 < MAX_SESSIONS \<and> cs_client_id (sm_sessions demo_mgr ! 0) = cc_client_id (sm_clients demo_mgr ! 0)"
proof -
  have st: "(serve_step demo_host)\<^sup>*\<^sup>* (snd (magic_session_init
      \<lparr>sm_sessions = [], sm_session_count = 0, sm_clients = [], sm_client_count = 0\<rparr>), demo_plane) (demo_mgr, demo_plane)"
    using demo_mgr_step [of demo_host demo_plane] unfolding demo_mgr0_def by blast
  have "0 < length (sm_clients demo_mgr)" using demo_mgr_inv by (simp add: sess_inv_def clients_ok_def)
  from client_sessions_are_own [OF st this demo_mgr_facts(5), of 0 4] demo_mgr_facts(4) show ?thesis by simp
qed

text \<open>
  Creating a session (identifiers within their fields, a free slot, a new identifier) adds exactly
  that session to the session map, in state INIT with the requested identity and no bearer; every
  other session is unchanged, and lookup by identifier then returns the slot.
\<close>

lemma create_adds_session:
  assumes "sess_inv m" and "length sid \<le> 127" and "length cid \<le> 63" and "session_map m sid = None"
    and "magic_session_create now (Some sid) (Some cid) realm m = (Some slot, m')"
  shows "session_map m' = (session_map m)(sid \<mapsto> sm_sessions m' ! slot)
     \<and> magic_session_find_by_id m' (Some sid) = Some slot
     \<and> cs_client_id (sm_sessions m' ! slot) = cid \<and> cs_state (sm_sessions m' ! slot) = SESSION_STATE_INIT
     \<and> cs_bearer_id (sm_sessions m' ! slot) = 0 \<and> cs_last_activity (sm_sessions m' ! slot) = now"
  using assms(1,3,5)
proof (cases rule: create_cases)
  case full
  then show ?thesis by simp
next
  case (made slot')
  have sl: "slot' = slot" "slot < length (sm_sessions m)" using made(1,2) by (auto simp: find_idx_less)
  have s: "sm_sessions m' ! slot = new_session now sid cid realm" using made(3) sl by simp
  have fresh: "find_idx (\<lambda>s. cs_in_use s \<and> cs_session_id s = sid) (sm_sessions m) = None"
    using assms(4) by (simp add: session_map_def table_map_def)
  have "session_map m' = (session_map m)(sid \<mapsto> sm_sessions m' ! slot)"
    using sess.table_map_inserted [OF made(2), of "new_session now sid cid realm"] assms(2,4) s made(3)
    by (simp add: session_map_def)
  moreover have "magic_session_find_by_id m' (Some sid) = Some slot"
    using sess.lookup_inserted [OF made(2) _ _ fresh, of "new_session now sid cid realm"] assms(2) sl(1) made(3)
    by (simp add: magic_session_find_by_id_def)
  ultimately show ?thesis using assms(3) s by (simp add: new_session_def zero_session_def)
qed

lemma create_adds_session_witness:
  "\<exists>m' slot. magic_session_create 9 (Some ''s2'') (Some ''c1'') None demo_mgr = (Some slot, m') \<and>
     session_map m' = (session_map demo_mgr)(''s2'' \<mapsto> sm_sessions m' ! slot)"
proof -
  obtain r m' where e: "magic_session_create 9 (Some ''s2'') (Some ''c1'') None demo_mgr = (r, m')"
    by (meson surj_pair)
  have "fst (magic_session_create 9 (Some ''s2'') (Some ''c1'') None demo_mgr) = Some 1" by code_simp
  with e have r: "r = Some 1" by simp
  have "session_map demo_mgr ''s2'' = None" by code_simp
  from create_adds_session [OF demo_mgr_inv _ _ this e [unfolded r]] e r show ?thesis by auto
qed

text \<open>
  Creation fails exactly when all hundred slots are taken; it then changes nothing. Otherwise
  the counter grows by one.
\<close>

lemma create_fails_iff_full:
  assumes "sess_inv m" and "length cid \<le> 63"
    and "magic_session_create now (Some sid) (Some cid) realm m = (r, m')"
  shows "(r = None \<longleftrightarrow> count_if cs_in_use (sm_sessions m) = MAX_SESSIONS) \<and> (r = None \<longrightarrow> m' = m)
     \<and> (r \<noteq> None \<longrightarrow> sm_session_count m' = sm_session_count m + 1 \<and>
                     count_if cs_in_use (sm_sessions m') = Suc (count_if cs_in_use (sm_sessions m)))"
  using assms
proof (cases rule: create_cases)
  case full
  then show ?thesis using sess.no_free_slot_iff [of "sm_sessions m"] assms(1) by (simp add: sess_inv_def)
next
  case (made slot)
  then show ?thesis
    using sess.no_free_slot_iff [of "sm_sessions m"] sess.take_slot [OF made(2)] assms(1) by (auto simp: sess_inv_def)
qed

lemma create_fails_iff_full_witness:
  "fst (magic_session_create 9 (Some ''s2'') (Some ''c1'') None demo_mgr) = None \<longleftrightarrow>
   count_if cs_in_use (sm_sessions demo_mgr) = MAX_SESSIONS"
  by (cases "magic_session_create 9 (Some ''s2'') (Some ''c1'') None demo_mgr")
    (use create_fails_iff_full [OF demo_mgr_inv, of "''c1''" 9 "''s2''" None] in auto)

text \<open>
  Deleting a session removes exactly that session from the session map and gives its granted
  bandwidth back to its client (never below zero), and it removes the slot from the client's list;
  an unknown identifier is an error that changes nothing.
\<close>

lemma delete_removes_session:
  assumes inv: "sess_inv m" and uniq: "keys_unique cs_in_use cs_session_id (sm_sessions m)"
    and small: "unat (cs_granted_bw_kbps (sm_sessions m ! i)) < 2 ^ 31"
    and hit: "magic_session_find_by_id m (Some sid) = Some i"
    and ctx: "magic_client_context_find m (Some (cs_client_id (sm_sessions m ! i))) = Some k"
    and del: "magic_session_delete os now (Some sid) m w = (r, m', w')"
  shows "r = 0 \<and> session_map m' = (session_map m)(sid := None)
     \<and> int i \<notin> set (listed (sm_clients m' ! k))
     \<and> unat (cc_total_allocated_forward_bw (sm_clients m' ! k)) =
         unat (cc_total_allocated_forward_bw (sm_clients m ! k)) - unat (cs_granted_bw_kbps (sm_sessions m ! i))"
  using del
proof (cases rule: delete_cases)
  case missing
  with hit show ?thesis by simp
next
  case (gone sid' i')
  have i: "i' = i" using gone(3) hit by simp
  let ?s = "sm_sessions m ! i" and ?c = "sm_clients m ! k"
  have k: "k < length (sm_clients m)" using ctx by (simp add: magic_client_context_find_def find_idx_less)
  have c': "sm_clients m' ! k = settle now i ?s ?c" using gone(7) i ctx k by simp
  have ok: "client_ok ?c" using inv k by (simp add: sess_inv_def clients_ok_def)
  have "session_map m' = (session_map m)(sid := None)"
    using sess.table_map_removed [OF uniq _ sess.blank_unused, of sid i] hit gone(4) i
    by (simp add: session_map_def magic_session_find_by_id_def)
  moreover have "cc_total_allocated_forward_bw (settle now i ?s ?c)
      = apply_delta (cc_total_allocated_forward_bw ?c) (- cs_granted_bw_kbps ?s)"
    by (simp add: settle_def magic_client_remove_session_def magic_client_update_allocated_bandwidth_def
        split: option.splits)
  moreover have "unat (apply_delta (cc_total_allocated_forward_bw ?c) (- cs_granted_bw_kbps ?s))
      = unat (cc_total_allocated_forward_bw ?c) - unat (cs_granted_bw_kbps ?s)"
    using apply_delta_release [OF small] .
  ultimately show ?thesis using gone(1) c' settle_keeps [OF ok, of now i ?s] by simp
qed

lemma delete_removes_session_witness:
  "\<exists>m'. session_map m' = (session_map demo_mgr)(''s1'' := None) \<and>
     m' = fst (snd (magic_session_delete demo_host 7 (Some ''s1'') demo_mgr demo_plane))"
proof -
  obtain r m' w' where e: "magic_session_delete demo_host 7 (Some ''s1'') demo_mgr demo_plane = (r, m', w')"
    by (metis prod_cases3)
  have "sm_sessions demo_mgr = new_session 5 ''s1'' ''c1'' None # replicate 99 zero_session"
    by code_simp
  then have "keys_unique cs_in_use cs_session_id (sm_sessions demo_mgr)"
    using sess.blank_unused by (auto simp: keys_unique_def nth_Cons split: nat.splits)
  moreover have "magic_client_context_find demo_mgr (Some (cs_client_id (sm_sessions demo_mgr ! 0))) = Some 0"
    by code_simp
  ultimately show ?thesis
    using delete_removes_session [OF demo_mgr_inv _ _ demo_mgr_facts(1) _ e, of 0] demo_mgr_facts(2) e by auto
qed

text \<open>
  C7. The quota check never over-commits: if the allocation is within the client's maximum, whatever
  is granted (below \<open>2^31\<close> kbps) keeps it within the maximum after it is booked, in both directions,
  without wrap-around, and is at most what was asked for.
\<close>

theorem granted_bandwidth_within_quota:
  assumes "magic_client_can_allocate_bandwidth ctx rf rr = (r, gf, gr)"
    and "cc_max_forward_bw_kbps ctx \<noteq> 0 \<or> cc_max_return_bw_kbps ctx \<noteq> 0"
    and "cc_total_allocated_forward_bw ctx \<le> cc_max_forward_bw_kbps ctx"
    and "cc_total_allocated_return_bw ctx \<le> cc_max_return_bw_kbps ctx"
    and "unat gf < 2 ^ 31" and "unat gr < 2 ^ 31"
    and ctx'_def: "ctx' = magic_client_update_allocated_bandwidth now gf gr ctx"
  shows "gf \<le> rf \<and> gr \<le> rr
     \<and> unat (cc_total_allocated_forward_bw ctx') = unat (cc_total_allocated_forward_bw ctx) + unat gf
     \<and> unat (cc_total_allocated_return_bw ctx') = unat (cc_total_allocated_return_bw ctx) + unat gr
     \<and> cc_total_allocated_forward_bw ctx' \<le> cc_max_forward_bw_kbps ctx'
     \<and> cc_total_allocated_return_bw ctx' \<le> cc_max_return_bw_kbps ctx'"
proof -
  let ?af = "available_bw (cc_max_forward_bw_kbps ctx) (cc_total_allocated_forward_bw ctx)"
  let ?ar = "available_bw (cc_max_return_bw_kbps ctx) (cc_total_allocated_return_bw ctx)"
  have g: "gf \<le> rf" "gf \<le> ?af" "gr \<le> rr" "gr \<le> ?ar"
    using assms(1,2) by (auto simp: magic_client_can_allocate_bandwidth_def Let_def not_less split: if_splits)
  note f = book_within [OF g(2) assms(3)] and r = book_within [OF g(4) assms(4)]
  show ?thesis
    using g f r apply_delta_grant(1) [OF assms(5)] apply_delta_grant(1) [OF assms(6)]
    by (simp add: ctx'_def magic_client_update_allocated_bandwidth_def)
qed

definition demo_ctx :: ClientContext where
  "demo_ctx = zero_client\<lparr>cc_in_use := True, cc_max_forward_bw_kbps := 1000, cc_max_return_bw_kbps := 500,
     cc_total_allocated_forward_bw := 700\<rparr>"

theorem granted_bandwidth_within_quota_witness:
  "magic_client_can_allocate_bandwidth demo_ctx 400 200 = (0, 300, 200) \<and>
   cc_total_allocated_forward_bw (magic_client_update_allocated_bandwidth 5 300 200 demo_ctx) \<le>
     cc_max_forward_bw_kbps (magic_client_update_allocated_bandwidth 5 300 200 demo_ctx)"
proof -
  have "magic_client_can_allocate_bandwidth demo_ctx 400 200 = (0, 300, 200)" by code_simp
  from granted_bandwidth_within_quota [OF this, of _ 5] this show ?thesis
    by (simp add: demo_ctx_def zero_client_def)
qed

text \<open>
  Booking a grant and giving the same amount back restores the client's totals, and giving back
  more than is booked stops at zero instead of wrapping.
\<close>

lemma bandwidth_booking_roundtrip:
  assumes "unat g < 2 ^ 31" and "unat (cc_total_allocated_forward_bw ctx) + unat g < 2 ^ 32"
  shows "cc_total_allocated_forward_bw (magic_client_update_allocated_bandwidth t2 (- g) 0
           (magic_client_update_allocated_bandwidth t1 g 0 ctx)) = cc_total_allocated_forward_bw ctx
     \<and> unat (cc_total_allocated_forward_bw (magic_client_update_allocated_bandwidth t2 (- g) 0 ctx))
         = unat (cc_total_allocated_forward_bw ctx) - unat g"
proof -
  let ?a = "cc_total_allocated_forward_bw ctx"
  have "unat (?a + g) = unat ?a + unat g" using assms(2) by (simp add: unat_word_ariths)
  then have "unat (apply_delta (?a + g) (- g)) = unat ?a" using apply_delta_release [OF assms(1)] by simp
  then show ?thesis
    using apply_delta_grant(1) [OF assms(1)] apply_delta_release [OF assms(1)]
    by (simp add: magic_client_update_allocated_bandwidth_def word_unat_eq_iff)
qed

lemma bandwidth_booking_roundtrip_witness:
  "cc_total_allocated_forward_bw (magic_client_update_allocated_bandwidth 6 (- 250) 0
     (magic_client_update_allocated_bandwidth 5 250 0 demo_ctx)) = cc_total_allocated_forward_bw demo_ctx"
  by (rule bandwidth_booking_roundtrip [THEN conjunct1]) (simp_all add: demo_ctx_def)

text \<open>
  The reaper frees exactly the sessions idle for longer than the timeout and returns their number,
  but it touches neither the client contexts nor \<open>session_count\<close>: bandwidth booked for the reaped
  sessions stays booked and their slots stay listed.
\<close>

lemma reaper_frees_idle_sessions_only:
  assumes "magic_session_cleanup_timeout os now t m w = (n, m', w')"
  shows "sm_clients m' = sm_clients m \<and> sm_session_count m' = sm_session_count m
     \<and> n = int (count_if cs_in_use (sm_sessions m)) - int (count_if cs_in_use (sm_sessions m'))
     \<and> (i < length (sm_sessions m) \<longrightarrow>
          sm_sessions m' ! i = (if cs_in_use (sm_sessions m ! i) \<and> now - cs_last_activity (sm_sessions m ! i) > uint t
                                then zero_session else sm_sessions m ! i))"
proof -
  note r = reap_result [OF assms]
  have "count_if cs_in_use (map (\<lambda>s. if timed_out now t s then zero_session else s) ss) + count_if (timed_out now t) ss
      = count_if cs_in_use ss" for ss
    using sess.blank_unused by (induction ss) (auto simp: timed_out_def)
  from this [of "sm_sessions m"] r show ?thesis by (auto simp: timed_out_def)
qed

lemma reaper_frees_idle_sessions_only_witness:
  "sm_clients (fst (snd (magic_session_cleanup_timeout demo_host 800 600 demo_mgr demo_plane))) = sm_clients demo_mgr \<and>
   sm_session_count (fst (snd (magic_session_cleanup_timeout demo_host 800 600 demo_mgr demo_plane))) = sm_session_count demo_mgr"
  by (cases "magic_session_cleanup_timeout demo_host 800 600 demo_mgr demo_plane")
    (use reaper_frees_idle_sessions_only [of demo_host 800 600 demo_mgr demo_plane _ _ _ 0] in auto)

text \<open>
  After the reaper has freed a slot and another client has taken it, the first client's context
  hands out the other client's session.
\<close>

definition stale_mgr :: SessionManager where
  "stale_mgr = snd (magic_session_create 900 (Some ''s2'') (Some ''c2'') None
     (fst (snd (magic_session_cleanup_timeout demo_host 800 600 demo_mgr demo_plane))))"

lemma reaped_slot_leaks_to_old_client:
  "cc_client_id (sm_clients stale_mgr ! 0) = ''c1'' \<and>
   map (\<lambda>i. cs_client_id (sm_sessions stale_mgr ! i)) (magic_client_get_sessions stale_mgr (sm_clients stale_mgr ! 0) 10)
     = [''c2'']"
  by code_simp

text \<open>
  Suspending an active session and resuming it yields an active session whose granted bandwidth
  is zero, and deleting it later returns nothing to the client's quota, although the bandwidth was
  booked there: the booked amount is lost.
\<close>

lemma suspend_resume_loses_bandwidth:
  assumes "cs_state s = SESSION_STATE_ACTIVE"
    and s'_def: "s' = snd (magic_session_resume t2 (snd (magic_session_suspend t1 s)))"
    and ctx'_def: "ctx' = magic_client_update_allocated_bandwidth now (- cs_granted_bw_kbps s') (- cs_granted_ret_bw_kbps s') ctx"
  shows "cs_state s' = SESSION_STATE_ACTIVE \<and> cs_granted_bw_kbps s' = 0 \<and> cs_granted_ret_bw_kbps s' = 0
     \<and> cs_assigned_link_id s' = cs_assigned_link_id s \<and> cs_bearer_id s' = cs_bearer_id s
     \<and> cc_total_allocated_forward_bw ctx' = cc_total_allocated_forward_bw ctx
     \<and> cc_total_allocated_return_bw ctx' = cc_total_allocated_return_bw ctx"
  using assms(1)
  by (auto simp: s'_def ctx'_def magic_session_suspend_def magic_session_resume_def
      magic_client_update_allocated_bandwidth_def apply_delta_def)

lemma suspend_resume_loses_bandwidth_witness:
  "cs_granted_bw_kbps (snd (magic_session_resume 9 (snd (magic_session_suspend 8
     (zero_session\<lparr>cs_state := SESSION_STATE_ACTIVE, cs_granted_bw_kbps := 500\<rparr>))))) = 0"
  by (rule suspend_resume_loses_bandwidth [of "zero_session\<lparr>cs_state := SESSION_STATE_ACTIVE, cs_granted_bw_kbps := 500\<rparr>",
        OF _ refl refl, THEN conjunct2, THEN conjunct1]) simp

text \<open>
  Packet-filter lookup returns the first filter that admits the packet: protocol, addresses and
  port ranges each equal to the packet's or left open in the filter. A filter just added is found for
  every packet it admits and no earlier filter of the session admits.
\<close>

lemma added_tft_is_found:
  assumes "session_ok s" and "magic_session_add_tft t s = (0, s')"
    and "magic_session_find_tft s (Some src) (Some dst) proto sp dport = None"
  shows "magic_session_find_tft s' (Some src) (Some dst) proto sp dport =
    (if (sf_protocol t = 0 \<or> sf_protocol t = proto) \<and> (sf_src_ip t = [] \<or> sf_src_ip t = src)
        \<and> (sf_dst_ip t = [] \<or> sf_dst_ip t = dst)
        \<and> (sf_src_port_start t = 0 \<and> sf_src_port_end t = 0 \<or> sp \<in> {sf_src_port_start t .. sf_src_port_end t})
        \<and> (sf_dst_port_start t = 0 \<and> sf_dst_port_end t = 0 \<or> dport \<in> {sf_dst_port_start t .. sf_dst_port_end t})
     then Some (unat (cs_num_tft_rules s)) else None)"
proof -
  let ?n = "unat (cs_num_tft_rules s)" and ?P = "tft_accepts (Some src) (Some dst) proto sp dport"
  let ?t = "t\<lparr>sf_in_use := True\<rparr>"
  have lt: "\<not> of_nat MAX_TFT_PER_SESSION \<le> cs_num_tft_rules s"
    and s': "s' = s\<lparr>cs_tft_rules := (cs_tft_rules s)[?n := ?t], cs_num_tft_rules := cs_num_tft_rules s + 1\<rparr>"
    using assms(2) by (auto simp: magic_session_add_tft_def split: if_splits)
  have n: "?n < 8" using lt by (simp add: word_le_nat_alt)
  then have n1: "unat (cs_num_tft_rules s + 1) = Suc ?n" by (simp add: unat_word_ariths)
  have tk: "take (Suc ?n) ((cs_tft_rules s)[?n := ?t]) = take ?n (cs_tft_rules s) @ [?t]"
    using n assms(1) by (simp add: session_ok_def take_Suc_conv_app_nth)
  have len: "length (take ?n (cs_tft_rules s)) = ?n" using n assms(1) by (simp add: session_ok_def)
  have "find_idx ?P (take ?n (cs_tft_rules s) @ [?t]) = (if ?P ?t then Some ?n else None)"
    using assms(3) find_idx_append_None [of ?P "take ?n (cs_tft_rules s)" "[?t]"] len
    by (simp add: magic_session_find_tft_def)
  then show ?thesis
    by (simp add: magic_session_find_tft_def s' n1 tk tft_accepts_def not_less not_le)
qed

lemma added_tft_is_found_witness:
  "magic_session_find_tft (snd (magic_session_add_tft (zero_sft\<lparr>sf_protocol := 6, sf_dst_port_start := 80, sf_dst_port_end := 90\<rparr>)
     zero_session)) (Some ''10.0.0.7'') (Some ''1.2.3.4'') 6 5000 85 = Some 0"
proof -
  let ?t = "zero_sft\<lparr>sf_protocol := 6, sf_dst_port_start := 80, sf_dst_port_end := 90\<rparr>"
  obtain r s' where e: "magic_session_add_tft ?t zero_session = (r, s')" by (meson surj_pair)
  have "r = 0" using e by (simp add: magic_session_add_tft_def zero_session_def split: if_splits)
  moreover have "magic_session_find_tft zero_session (Some ''10.0.0.7'') (Some ''1.2.3.4'') 6 5000 85 = None"
    by (simp add: magic_session_find_tft_def zero_session_def)
  moreover have "unat (cs_num_tft_rules zero_session) = 0" by (simp add: zero_session_def)
  ultimately show ?thesis
    using added_tft_is_found [of zero_session ?t s' "''10.0.0.7''" "''1.2.3.4''" 6 5000 85] e
    by (simp add: zero_sft_def)
qed

text \<open>
  Shutting the session manager down removes from the data plane the route of every session that
  holds a bearer on a link, and no other route, and it empties the session table.
\<close>

lemma shutdown_releases_all_routes:
  assumes "dp_inv (dp w)" and "dp_is_initialized (dp w)"
    and "magic_session_cleanup os m w = (m', w')"
  shows "(routes_of (dp w') sid \<noteq> None) =
       (routes_of (dp w) sid \<noteq> None \<and>
        \<not> (\<exists>s\<in>set (sm_sessions m). cs_in_use s \<and> cs_session_id s = sid \<and> sid \<noteq> [] \<and> cs_bearer_id s \<noteq> 0
             \<and> cs_assigned_link_id s \<noteq> []))
     \<and> dp_inv (dp w') \<and> count_if cs_in_use (sm_sessions m') = 0"
proof -
  let ?ks = "map cs_session_id (filter has_route (sm_sessions m))"
  have w': "w' = fold (\<lambda>sid w. snd (magic_dataplane_remove_client_route os (Some sid) w)) ?ks w"
    using assms(3) release_all_fold [OF assms(2), of os "sm_sessions m"] by (simp add: magic_session_cleanup_def)
  have "(routes_of (dp w') sid \<noteq> None) = (routes_of (dp w) sid \<noteq> None \<and> sid \<notin> set ?ks)"
    unfolding w' using rel.release_all_holds [of w os ?ks sid] assms(1,2) by simp
  moreover have "dp_inv (dp w')" unfolding w' using rel.release_all_inv [of w os ?ks] assms(1,2) by simp
  moreover have "count_if cs_in_use (sm_sessions m') = 0"
    using assms(3) by (auto simp: magic_session_cleanup_def sess.blank_table)
  ultimately show ?thesis by (auto simp: has_route_def)
qed

lemma shutdown_releases_all_routes_witness:
  "routes_of (dp demo_held_plane) ''s1'' \<noteq> None \<and>
   routes_of (dp (snd (magic_session_cleanup demo_host demo_held demo_held_plane))) ''s1'' = None"
proof -
  obtain m' w' where e: "magic_session_cleanup demo_host demo_held demo_held_plane = (m', w')" by (meson surj_pair)
  have "\<exists>s\<in>set (sm_sessions demo_held). cs_in_use s \<and> cs_session_id s = ''s1'' \<and> ''s1'' \<noteq> [] \<and> cs_bearer_id s \<noteq> 0
      \<and> cs_assigned_link_id s \<noteq> []" by code_simp
  with shutdown_releases_all_routes [OF demo_held_plane_facts(1,2) e, of "''s1''"] e demo_held_plane_facts(3)
  show ?thesis by auto
qed

end
