(* ===== verification/Cdr.thy ===== *)
theory Cdr
  imports CString
begin

text \<open>
  Charging data records (\<open>src/app_magic/magic_cdr.c\<close>): the record table, roll-over with base offsets
  and counter wrap detection, JSON files under the active and archive directories, recovery and
  retention.

  The file system is a map from paths to contents and modification times; which paths can be written
  or created and in which order a directory is listed are parameters (\<open>fs_env\<close>). The identifier
  \<open>cdr_generate_uuid\<close> makes from clock, process id and \<open>rand_r\<close> is the argument \<open>uuid\<close> of the operations
  that call it; \<open>now\<close> is the clock. A \<open>CDRRecord *\<close> is a slot number. Mutexes are not modelled, their
  initialisation always succeeds. \<open>CDRStatus\<close> is the 32-bit integer the file reader may put there.
\<close>

abbreviation MAX_CDR_RECORDS :: nat where "MAX_CDR_RECORDS \<equiv> 1024"

abbreviation CDR_STATUS_UNKNOWN :: u32 where "CDR_STATUS_UNKNOWN \<equiv> 0"
abbreviation CDR_STATUS_ACTIVE :: u32 where "CDR_STATUS_ACTIVE \<equiv> 1"
abbreviation CDR_STATUS_FINISHED :: u32 where "CDR_STATUS_FINISHED \<equiv> 2"
abbreviation CDR_STATUS_ARCHIVED :: u32 where "CDR_STATUS_ARCHIVED \<equiv> 3"
abbreviation CDR_STATUS_ROLLOVER :: u32 where "CDR_STATUS_ROLLOVER \<equiv> 4"

record CDRRecord =
  cr_cdr_id :: u32
  cr_cdr_uuid :: string
  cr_session_id :: string
  cr_client_id :: string
  cr_status :: u32
  cr_in_use :: bool
  cr_start_time :: int
  cr_stop_time :: int
  cr_archive_time :: int
  cr_bytes_in :: u64
  cr_bytes_out :: u64
  cr_packets_in :: u64
  cr_packets_out :: u64
  cr_base_offset_in :: u64
  cr_base_offset_out :: u64
  cr_overflow_count_in :: u32
  cr_overflow_count_out :: u32
  cr_last_bytes_in :: u64
  cr_last_bytes_out :: u64
  cr_dlm_name :: string
  cr_bearer_id :: u8
  cr_lock_initialized :: bool

record CDRManager =
  cm_records :: "CDRRecord list"
  cm_record_count :: u32
  cm_next_cdr_id :: u32
  cm_is_initialized :: bool
  cm_base_dir :: string
  cm_active_dir :: string
  cm_archive_dir :: string
  cm_retention_sec :: u32
  cm_last_cleanup_time :: int
  cm_total_cdrs_created :: u64
  cm_total_cdrs_archived :: u64
  cm_total_cdrs_deleted :: u64

record CDRRolloverResult =
  ro_success :: bool
  ro_old_cdr_id :: u32
  ro_new_cdr_id :: u32
  ro_old_cdr_uuid :: string
  ro_new_cdr_uuid :: string
  ro_final_bytes_in :: u64
  ro_final_bytes_out :: u64
  ro_error_code :: int
  ro_error_message :: string

type_synonym disk_file = "string \<times> int"

record cdr_world =
  cdrs :: CDRManager
  disk :: "string \<Rightarrow> disk_file option"

record fs_env =
  fe_writable :: "string \<Rightarrow> bool"
  fe_mkdir :: "string \<Rightarrow> bool"
  fe_listing :: "string \<Rightarrow> string list option"
  fe_unlink :: "string \<Rightarrow> bool"

definition zero_cdr :: CDRRecord where
  "zero_cdr = \<lparr>cr_cdr_id = 0, cr_cdr_uuid = [], cr_session_id = [], cr_client_id = [], cr_status = 0,
     cr_in_use = False, cr_start_time = 0, cr_stop_time = 0, cr_archive_time = 0, cr_bytes_in = 0,
     cr_bytes_out = 0, cr_packets_in = 0, cr_packets_out = 0, cr_base_offset_in = 0, cr_base_offset_out = 0,
     cr_overflow_count_in = 0, cr_overflow_count_out = 0, cr_last_bytes_in = 0, cr_last_bytes_out = 0,
     cr_dlm_name = [], cr_bearer_id = 0, cr_lock_initialized = False\<rparr>"

definition zero_result :: CDRRolloverResult where
  "zero_result = \<lparr>ro_success = False, ro_old_cdr_id = 0, ro_new_cdr_id = 0, ro_old_cdr_uuid = [],
     ro_new_cdr_uuid = [], ro_final_bytes_in = 0, ro_final_bytes_out = 0, ro_error_code = 0, ro_error_message = []\<rparr>"

definition zero_cdr_manager :: CDRManager where
  "zero_cdr_manager = \<lparr>cm_records = replicate MAX_CDR_RECORDS zero_cdr, cm_record_count = 0, cm_next_cdr_id = 0,
     cm_is_initialized = False, cm_base_dir = [], cm_active_dir = [], cm_archive_dir = [], cm_retention_sec = 0,
     cm_last_cleanup_time = 0, cm_total_cdrs_created = 0, cm_total_cdrs_archived = 0, cm_total_cdrs_deleted = 0\<rparr>"

section \<open>Status names and counter wrap\<close>

definition cdr_status_name :: "u32 \<Rightarrow> string" where
  "cdr_status_name st =
     (if st = CDR_STATUS_ACTIVE then ''ACTIVE'' else if st = CDR_STATUS_FINISHED then ''FINISHED''
      else if st = CDR_STATUS_ARCHIVED then ''ARCHIVED'' else if st = CDR_STATUS_ROLLOVER then ''ROLLOVER''
      else ''UNKNOWN'')"

definition cdr_detect_overflow :: "u64 \<Rightarrow> u64 \<Rightarrow> bool" where
  "cdr_detect_overflow current previous \<longleftrightarrow>
     current < previous \<and> previous - current > (- 1) div 2"

definition actual_bytes :: "u64 \<Rightarrow> u64 \<Rightarrow> u32 \<Rightarrow> u64" where
  "actual_bytes bytes base overflow_count =
     (let a = (if bytes \<ge> base then bytes - base else (- 1 - base) + bytes + 1)
      in if overflow_count > 0 then a + ucast overflow_count * (- 1) else a)"

definition cdr_get_actual_traffic :: "CDRRecord \<Rightarrow> u64 \<times> u64" where
  "cdr_get_actual_traffic c =
     (actual_bytes (cr_bytes_in c) (cr_base_offset_in c) (cr_overflow_count_in c),
      actual_bytes (cr_bytes_out c) (cr_base_offset_out c) (cr_overflow_count_out c))"

section \<open>JSON text\<close>

abbreviation quote :: char where "quote \<equiv> CHR 0x22"
abbreviation newline :: char where "newline \<equiv> CHR 0x0A"

definition quoted :: "string \<Rightarrow> string" where
  "quoted s = quote # s @ [quote]"

text \<open>The lines of the record file: indentation, key, value and what follows the value.\<close>

definition json_fields :: "CDRRecord \<Rightarrow> (string \<times> string \<times> string \<times> string) list" where
  "json_fields c =
     (let i1 = ''  ''; i2 = ''    ''; nl = [newline]; cnl = '','' @ nl in
      [(''{'' @ nl @ i1, ''cdr_id'', show_word (cr_cdr_id c), cnl),
       (i1, ''cdr_uuid'', quoted (cr_cdr_uuid c), cnl),
       (i1, ''session_id'', quoted (cr_session_id c), cnl),
       (i1, ''client_id'', quoted (cr_client_id c), cnl),
       (i1, ''dlm_name'', quoted (cr_dlm_name c), cnl),
       (i1, ''bearer_id'', show_word (cr_bearer_id c), cnl),
       (i1, ''status'', quoted (cdr_status_name (cr_status c)), cnl),
       (i1, ''status_code'', show_int (sint (cr_status c)), cnl),
       (i1, ''start_time'', show_int (cr_start_time c), cnl),
       (i1, ''stop_time'', show_int (cr_stop_time c), cnl),
       (i1, ''archive_time'', show_int (cr_archive_time c), cnl),
       (i1, ''traffic'', ''{'', nl),
       (i2, ''bytes_in'', show_word (cr_bytes_in c), cnl),
       (i2, ''bytes_out'', show_word (cr_bytes_out c), cnl),
       (i2, ''packets_in'', show_word (cr_packets_in c), cnl),
       (i2, ''packets_out'', show_word (cr_packets_out c), cnl),
       (i2, ''base_offset_in'', show_word (cr_base_offset_in c), cnl),
       (i2, ''base_offset_out'', show_word (cr_base_offset_out c), nl @ i1 @ ''},'' @ nl),
       (i1, ''overflow'', ''{'', nl),
       (i2, ''count_in'', show_word (cr_overflow_count_in c), cnl),
       (i2, ''count_out'', show_word (cr_overflow_count_out c), cnl),
       (i2, ''last_bytes_in'', show_word (cr_last_bytes_in c), cnl),
       (i2, ''last_bytes_out'', show_word (cr_last_bytes_out c), nl @ i1 @ ''}'' @ nl @ ''}'' @ nl)])"

definition field_text :: "string \<times> string \<times> string \<times> string \<Rightarrow> string" where
  "field_text f = (case f of (lead, key, val, tail) \<Rightarrow> lead @ quoted key @ '': '' @ val @ tail)"

text \<open>\<open>None\<close> is the return value -1: the text does not fit the buffer.\<close>

definition cdr_to_json :: "CDRRecord \<Rightarrow> nat \<Rightarrow> string option" where
  "cdr_to_json c buf_size =
     (if buf_size < 512 then None
      else let text = concat (map field_text (json_fields c))
           in if 0 < length text \<and> length text < buf_size then Some text else None)"

definition json_value :: "string \<Rightarrow> string \<Rightarrow> string option" where
  "json_value json key =
     (let search = snprintf_buf 128 (quoted key @ '':'') in
      case strstr json search of None \<Rightarrow> None
      | Some pos \<Rightarrow> Some (dropWhile (\<lambda>c. c = CHR '' '' \<or> c = CHR 0x09) (drop (length search) pos)))"

definition json_find_string :: "string \<Rightarrow> string \<Rightarrow> string option" where
  "json_find_string json key =
     (case json_value json key of
        Some (c # pos) \<Rightarrow>
          if c = quote then
            (case strchr_split quote pos of
               Some (v, _) \<Rightarrow> if length v < 256 then Some v else None
             | None \<Rightarrow> None)
          else None
      | _ \<Rightarrow> None)"

definition json_find_long :: "string \<Rightarrow> string \<Rightarrow> int" where
  "json_find_long json key = (case json_value json key of None \<Rightarrow> 0 | Some pos \<Rightarrow> atol pos)"

definition json_find_ulong :: "string \<Rightarrow> string \<Rightarrow> u64" where
  "json_find_ulong json key = (case json_value json key of None \<Rightarrow> 0 | Some pos \<Rightarrow> strtoul10 pos)"

definition copy_string :: "nat \<Rightarrow> string option \<Rightarrow> string" where
  "copy_string n s = (case s of None \<Rightarrow> [] | Some x \<Rightarrow> strncpy_buf n x)"

definition json_to_cdr :: "string \<Rightarrow> CDRRecord" where
  "json_to_cdr json =
     (let st = word_of_int (json_find_long json ''status_code'') :: u32 in
      \<lparr>cr_cdr_id = ucast (json_find_ulong json ''cdr_id''),
       cr_cdr_uuid = copy_string 63 (json_find_string json ''cdr_uuid''),
       cr_session_id = copy_string 127 (json_find_string json ''session_id''),
       cr_client_id = copy_string 63 (json_find_string json ''client_id''),
       cr_status = st, cr_in_use = (st = CDR_STATUS_ACTIVE),
       cr_start_time = json_find_long json ''start_time'',
       cr_stop_time = json_find_long json ''stop_time'',
       cr_archive_time = json_find_long json ''archive_time'',
       cr_bytes_in = json_find_ulong json ''bytes_in'', cr_bytes_out = json_find_ulong json ''bytes_out'',
       cr_packets_in = json_find_ulong json ''packets_in'', cr_packets_out = json_find_ulong json ''packets_out'',
       cr_base_offset_in = json_find_ulong json ''base_offset_in'',
       cr_base_offset_out = json_find_ulong json ''base_offset_out'',
       cr_overflow_count_in = ucast (json_find_ulong json ''count_in''),
       cr_overflow_count_out = ucast (json_find_ulong json ''count_out''),
       cr_last_bytes_in = json_find_ulong json ''last_bytes_in'',
       cr_last_bytes_out = json_find_ulong json ''last_bytes_out'',
       cr_dlm_name = copy_string 63 (json_find_string json ''dlm_name''),
       cr_bearer_id = ucast (json_find_ulong json ''bearer_id''), cr_lock_initialized = False\<rparr>)"

section \<open>Files\<close>

definition snprintf_path :: "string \<Rightarrow> string" where
  "snprintf_path s = snprintf_buf 256 s"

definition cdr_path :: "string \<Rightarrow> CDRRecord \<Rightarrow> string" where
  "cdr_path dir c = snprintf_path (dir @ ''/cdr_'' @ show_word (cr_cdr_id c) @ ''_'' @ cr_cdr_uuid c @ ''.json'')"

definition read_file_content :: "(string \<Rightarrow> disk_file option) \<Rightarrow> string \<Rightarrow> string option" where
  "read_file_content f path =
     (case f path of None \<Rightarrow> None
      | Some (content, _) \<Rightarrow>
          if length content = 0 \<or> length content > 1024 * 1024 then None else Some content)"

definition cdr_save_to_file :: "fs_env \<Rightarrow> int \<Rightarrow> CDRRecord \<Rightarrow> cdr_world \<Rightarrow> int \<times> cdr_world" where
  "cdr_save_to_file env now c w =
     (let dir = (if cr_status c = CDR_STATUS_ACTIVE then cm_active_dir (cdrs w) else cm_archive_dir (cdrs w));
          path = cdr_path dir c
      in case cdr_to_json c 4096 of
           None \<Rightarrow> (-1, w)
         | Some json \<Rightarrow>
             if \<not> fe_writable env path then (-1, w)
             else (0, w\<lparr>disk := (disk w)(path \<mapsto> (json, now))\<rparr>))"

definition find_free_cdr :: "CDRManager \<Rightarrow> nat option" where
  "find_free_cdr m = find_idx (\<lambda>c. \<not> cr_in_use c) (cm_records m)"

definition cdr_load_from_file :: "string \<Rightarrow> cdr_world \<Rightarrow> nat option \<times> cdr_world" where
  "cdr_load_from_file path w =
     (case read_file_content (disk w) path of None \<Rightarrow> (None, w)
      | Some content \<Rightarrow>
          (case find_free_cdr (cdrs w) of None \<Rightarrow> (None, w)
           | Some i \<Rightarrow>
               let c = json_to_cdr content; m = cdrs w in
               if cr_status c = CDR_STATUS_ACTIVE
               then (Some i, w\<lparr>cdrs := m\<lparr>cm_records := (cm_records m)[i := c\<lparr>cr_in_use := True, cr_lock_initialized := True\<rparr>],
                        cm_record_count := cm_record_count m + 1,
                        cm_next_cdr_id := (if cr_cdr_id c \<ge> cm_next_cdr_id m then cr_cdr_id c + 1
                                           else cm_next_cdr_id m)\<rparr>\<rparr>)
               else (None, w\<lparr>cdrs := m\<lparr>cm_records := (cm_records m)[i := zero_cdr]\<rparr>\<rparr>)))"

definition is_cdr_name :: "string \<Rightarrow> bool" where
  "is_cdr_name name \<longleftrightarrow> has_prefix ''cdr_'' name \<and> strstr name ''.json'' \<noteq> None"

fun load_entries :: "string list \<Rightarrow> cdr_world \<Rightarrow> int \<times> cdr_world" where
  "load_entries [] w = (0, w)"
| "load_entries (name # names) w =
     (if \<not> is_cdr_name name then load_entries names w
      else let (r, w1) = cdr_load_from_file (snprintf_path (cm_active_dir (cdrs w) @ ''/'' @ name)) w;
               (n, w2) = load_entries names w1
           in (if r \<noteq> None then n + 1 else n, w2))"

definition cdr_load_all_active :: "fs_env \<Rightarrow> cdr_world \<Rightarrow> int \<times> cdr_world" where
  "cdr_load_all_active env w =
     (case fe_listing env (cm_active_dir (cdrs w)) of None \<Rightarrow> (0, w) | Some names \<Rightarrow> load_entries names w)"

fun save_active :: "fs_env \<Rightarrow> int \<Rightarrow> CDRRecord list \<Rightarrow> cdr_world \<Rightarrow> int \<times> cdr_world" where
  "save_active env now [] w = (0, w)"
| "save_active env now (c # cs) w =
     (if cr_in_use c \<and> cr_status c = CDR_STATUS_ACTIVE
      then let (r, w1) = cdr_save_to_file env now c w; (n, w2) = save_active env now cs w1
           in (if r = 0 then n + 1 else n, w2)
      else save_active env now cs w)"

definition cdr_save_all_active :: "fs_env \<Rightarrow> int \<Rightarrow> cdr_world \<Rightarrow> int \<times> cdr_world" where
  "cdr_save_all_active env now w = save_active env now (cm_records (cdrs w)) w"

definition cdr_archive :: "fs_env \<Rightarrow> int \<Rightarrow> nat \<Rightarrow> cdr_world \<Rightarrow> int \<times> cdr_world" where
  "cdr_archive env now i w =
     (let c = cm_records (cdrs w) ! i in
      if cr_status c = CDR_STATUS_ACTIVE then (-1, w)
      else
        let old_path = cdr_path (cm_active_dir (cdrs w)) c;
            w1 = (if fe_unlink env old_path then w\<lparr>disk := (disk w)(old_path := None)\<rparr> else w);
            w2 = snd (cdr_save_to_file env now (c\<lparr>cr_status := CDR_STATUS_ARCHIVED, cr_archive_time := now\<rparr>) w1);
            m = cdrs w2
        in (0, w2\<lparr>cdrs := m\<lparr>cm_records := (cm_records m)[i := zero_cdr], cm_record_count := cm_record_count m - 1,
                              cm_total_cdrs_archived := cm_total_cdrs_archived m + 1\<rparr>\<rparr>))"

fun expire_entries :: "fs_env \<Rightarrow> int \<Rightarrow> string list \<Rightarrow> cdr_world \<Rightarrow> int \<times> cdr_world" where
  "expire_entries env cutoff [] w = (0, w)"
| "expire_entries env cutoff (name # names) w =
     (let path = snprintf_path (cm_archive_dir (cdrs w) @ ''/'' @ name) in
      if is_cdr_name name \<and> (case disk w path of None \<Rightarrow> False | Some (_, mtime) \<Rightarrow> mtime < cutoff) \<and> fe_unlink env path
      then let (n, w') = expire_entries env cutoff names (w\<lparr>disk := (disk w)(path := None)\<rparr>) in (n + 1, w')
      else expire_entries env cutoff names w)"

definition cdr_cleanup_expired :: "fs_env \<Rightarrow> int \<Rightarrow> cdr_world \<Rightarrow> int \<times> cdr_world" where
  "cdr_cleanup_expired env now w =
     (case fe_listing env (cm_archive_dir (cdrs w)) of None \<Rightarrow> (0, w)
      | Some names \<Rightarrow>
          let (n, w1) = expire_entries env (now - uint (cm_retention_sec (cdrs w))) names w
          in (n, if n > 0 then w1\<lparr>cdrs := (cdrs w1)\<lparr>cm_total_cdrs_deleted := cm_total_cdrs_deleted (cdrs w1) + word_of_int n\<rparr>\<rparr>
                 else w1))"

definition cdr_periodic_maintenance :: "fs_env \<Rightarrow> int \<Rightarrow> cdr_world \<Rightarrow> cdr_world" where
  "cdr_periodic_maintenance env now w =
     (if \<not> cm_is_initialized (cdrs w) then w
      else if now - cm_last_cleanup_time (cdrs w) < 3600 then w
      else let w1 = w\<lparr>cdrs := (cdrs w)\<lparr>cm_last_cleanup_time := now\<rparr>\<rparr>;
               w2 = snd (cdr_save_all_active env now w1)
           in snd (cdr_cleanup_expired env now w2))"

section \<open>Manager\<close>

text \<open>
  The directories are named before they are made. When one cannot be made the initialisation stops
  with the names set.
\<close>

definition cdr_manager_init :: "fs_env \<Rightarrow> int \<Rightarrow> string option \<Rightarrow> u32 \<Rightarrow> cdr_world \<Rightarrow> int \<times> cdr_world" where
  "cdr_manager_init env now base_dir retention_sec w =
     (let base = snprintf_path (case base_dir of Some (d # ds) \<Rightarrow> d # ds | _ \<Rightarrow> ''/var/lib/magic/cdr'');
          act = snprintf_path (base @ ''/active''); arch = snprintf_path (base @ ''/archive'');
          m = zero_cdr_manager\<lparr>cm_base_dir := base, cm_active_dir := act, cm_archive_dir := arch,
                cm_retention_sec := (if retention_sec > 0 then retention_sec else 86400)\<rparr>
      in if \<not> fe_mkdir env base \<or> \<not> fe_mkdir env act \<or> \<not> fe_mkdir env arch then (-1, w\<lparr>cdrs := m\<rparr>)
         else let w1 = w\<lparr>cdrs := m\<lparr>cm_next_cdr_id := word_of_int now\<rparr>\<rparr>;
                  w2 = snd (cdr_load_all_active env w1)
              in (0, w2\<lparr>cdrs := (cdrs w2)\<lparr>cm_is_initialized := True, cm_last_cleanup_time := now\<rparr>\<rparr>))"

definition cdr_manager_cleanup :: "fs_env \<Rightarrow> int \<Rightarrow> cdr_world \<Rightarrow> cdr_world" where
  "cdr_manager_cleanup env now w =
     (if \<not> cm_is_initialized (cdrs w) then w
      else let w1 = snd (cdr_save_all_active env now w)
           in w1\<lparr>cdrs := (cdrs w1)\<lparr>cm_is_initialized := False\<rparr>\<rparr>)"

definition cdr_create ::
  "fs_env \<Rightarrow> int \<Rightarrow> string \<Rightarrow> string option \<Rightarrow> string option \<Rightarrow> string option \<Rightarrow> cdr_world
     \<Rightarrow> nat option \<times> cdr_world" where
  "cdr_create env now uuid session_id client_id dlm_name w =
     (let m = cdrs w in
      if \<not> cm_is_initialized m then (None, w)
      else case session_id of None \<Rightarrow> (None, w) | Some sid \<Rightarrow>
        (case find_free_cdr m of None \<Rightarrow> (None, w)
         | Some i \<Rightarrow>
             let c = zero_cdr\<lparr>cr_cdr_id := cm_next_cdr_id m, cr_cdr_uuid := uuid,
                       cr_session_id := strncpy_buf 127 sid, cr_client_id := copy_string 63 client_id,
                       cr_dlm_name := copy_string 63 dlm_name, cr_status := CDR_STATUS_ACTIVE,
                       cr_start_time := now, cr_in_use := True, cr_lock_initialized := True\<rparr>;
                 w1 = w\<lparr>cdrs := m\<lparr>cm_records := (cm_records m)[i := c], cm_next_cdr_id := cm_next_cdr_id m + 1,
                        cm_record_count := cm_record_count m + 1,
                        cm_total_cdrs_created := cm_total_cdrs_created m + 1\<rparr>\<rparr>
             in (Some i, snd (cdr_save_to_file env now c w1))))"

definition set_cdr :: "nat \<Rightarrow> CDRRecord \<Rightarrow> cdr_world \<Rightarrow> cdr_world" where
  "set_cdr i c w = w\<lparr>cdrs := (cdrs w)\<lparr>cm_records := (cm_records (cdrs w))[i := c]\<rparr>\<rparr>"

definition cdr_close :: "fs_env \<Rightarrow> int \<Rightarrow> nat \<Rightarrow> u64 \<Rightarrow> u64 \<Rightarrow> cdr_world \<Rightarrow> int \<times> cdr_world" where
  "cdr_close env now i final_in final_out w =
     (let c = cm_records (cdrs w) ! i in
      if \<not> cr_in_use c then (-1, w)
      else let c1 = c\<lparr>cr_bytes_in := final_in, cr_bytes_out := final_out, cr_stop_time := now,
                      cr_status := CDR_STATUS_FINISHED\<rparr>;
               w1 = snd (cdr_save_to_file env now c1 (set_cdr i c1 w))
           in (0, snd (cdr_archive env now i w1)))"

section \<open>Queries and traffic\<close>

definition cdr_find_by_session :: "CDRManager \<Rightarrow> string option \<Rightarrow> nat option" where
  "cdr_find_by_session m session_id =
     (case session_id of None \<Rightarrow> None
      | Some sid \<Rightarrow> find_idx (\<lambda>c. cr_in_use c \<and> cr_status c = CDR_STATUS_ACTIVE \<and> cr_session_id c = sid) (cm_records m))"

definition cdr_find_by_id :: "CDRManager \<Rightarrow> u32 \<Rightarrow> nat option" where
  "cdr_find_by_id m cdr_id = find_idx (\<lambda>c. cr_in_use c \<and> cr_cdr_id c = cdr_id) (cm_records m)"

definition cdr_find_by_client :: "CDRManager \<Rightarrow> string option \<Rightarrow> int \<Rightarrow> nat list" where
  "cdr_find_by_client m client_id max_count =
     (case client_id of None \<Rightarrow> []
      | Some cid \<Rightarrow>
          if max_count \<le> 0 then []
          else take (nat max_count)
                 (filter (\<lambda>i. cr_in_use (cm_records m ! i) \<and> cr_client_id (cm_records m ! i) = cid)
                    [0..<length (cm_records m)]))"

definition cdr_update_traffic :: "u64 \<Rightarrow> u64 \<Rightarrow> u64 \<Rightarrow> u64 \<Rightarrow> CDRRecord \<Rightarrow> int \<times> CDRRecord" where
  "cdr_update_traffic b_in b_out p_in p_out c =
     (if \<not> cr_in_use c then (-1, c)
      else
        let oi = cdr_detect_overflow b_in (cr_last_bytes_in c); oo = cdr_detect_overflow b_out (cr_last_bytes_out c)
        in (if oi \<or> oo then 1 else 0,
            c\<lparr>cr_overflow_count_in := (if oi then cr_overflow_count_in c + 1 else cr_overflow_count_in c),
              cr_overflow_count_out := (if oo then cr_overflow_count_out c + 1 else cr_overflow_count_out c),
              cr_bytes_in := b_in, cr_bytes_out := b_out, cr_packets_in := p_in, cr_packets_out := p_out,
              cr_last_bytes_in := b_in, cr_last_bytes_out := b_out\<rparr>))"

section \<open>Roll-over\<close>

text \<open>The old record with its final counters, before it is archived (steps 2 and 3 of the code).\<close>

definition close_for_rollover :: "int \<Rightarrow> u64 \<Rightarrow> u64 \<Rightarrow> CDRRecord \<Rightarrow> CDRRecord" where
  "close_for_rollover now cur_in cur_out c =
     (let oi = cdr_detect_overflow cur_in (cr_last_bytes_in c); oo = cdr_detect_overflow cur_out (cr_last_bytes_out c)
      in c\<lparr>cr_overflow_count_in := (if oi then cr_overflow_count_in c + 1 else cr_overflow_count_in c),
           cr_overflow_count_out := (if oo then cr_overflow_count_out c + 1 else cr_overflow_count_out c),
           cr_bytes_in := (if oi then - 1 - cr_last_bytes_in c + cur_in else cur_in),
           cr_bytes_out := (if oo then - 1 - cr_last_bytes_out c + cur_out else cur_out),
           cr_stop_time := now, cr_status := CDR_STATUS_ROLLOVER\<rparr>)"

definition successor_cdr :: "int \<Rightarrow> string \<Rightarrow> u32 \<Rightarrow> u64 \<Rightarrow> u64 \<Rightarrow> CDRRecord \<Rightarrow> CDRRecord" where
  "successor_cdr now uuid cid cur_in cur_out old =
     zero_cdr\<lparr>cr_cdr_id := cid, cr_cdr_uuid := uuid,
       cr_session_id := strncpy_buf 127 (cr_session_id old), cr_client_id := strncpy_buf 63 (cr_client_id old),
       cr_dlm_name := strncpy_buf 63 (cr_dlm_name old), cr_bearer_id := cr_bearer_id old,
       cr_status := CDR_STATUS_ACTIVE, cr_start_time := now, cr_in_use := True,
       cr_base_offset_in := cur_in, cr_base_offset_out := cur_out,
       cr_last_bytes_in := cur_in, cr_last_bytes_out := cur_out, cr_lock_initialized := True\<rparr>"

definition cdr_rollover ::
  "fs_env \<Rightarrow> int \<Rightarrow> string \<Rightarrow> string option \<Rightarrow> u64 \<Rightarrow> u64 \<Rightarrow> cdr_world \<Rightarrow> int \<times> CDRRolloverResult \<times> cdr_world" where
  "cdr_rollover env now uuid session_id cur_in cur_out w =
     (case session_id of None \<Rightarrow> (-1, zero_result, w) | Some sid \<Rightarrow>
        (case cdr_find_by_session (cdrs w) (Some sid) of
           None \<Rightarrow> (-1, zero_result\<lparr>ro_error_code := -1,
                     ro_error_message := snprintf_buf 128 (''No active CDR found for session: '' @ sid)\<rparr>, w)
         | Some i \<Rightarrow>
             let old = close_for_rollover now cur_in cur_out (cm_records (cdrs w) ! i);
                 (fi, fo) = cdr_get_actual_traffic old;
                 res = zero_result\<lparr>ro_old_cdr_id := cr_cdr_id old, ro_old_cdr_uuid := strncpy_buf 63 (cr_cdr_uuid old),
                         ro_final_bytes_in := fi, ro_final_bytes_out := fo\<rparr>;
                 w1 = set_cdr i old w; m = cdrs w1
             in case find_free_cdr m of
                  None \<Rightarrow> (-1, res\<lparr>ro_error_code := -2, ro_error_message := ''No free CDR slot for new record''\<rparr>,
                           set_cdr i (old\<lparr>cr_status := CDR_STATUS_ACTIVE, cr_stop_time := 0\<rparr>) w1)
                | Some j \<Rightarrow>
                    let new = successor_cdr now uuid (cm_next_cdr_id m) cur_in cur_out old;
                        w2 = w1\<lparr>cdrs := m\<lparr>cm_records := (cm_records m)[j := new], cm_next_cdr_id := cm_next_cdr_id m + 1,
                               cm_record_count := cm_record_count m + 1,
                               cm_total_cdrs_created := cm_total_cdrs_created m + 1\<rparr>\<rparr>;
                        w3 = snd (cdr_save_to_file env now old w2);
                        w4 = snd (cdr_save_to_file env now new w3);
                        w5 = snd (cdr_archive env now i w4)
                    in (0, res\<lparr>ro_new_cdr_id := cr_cdr_id new, ro_new_cdr_uuid := strncpy_buf 63 uuid,
                              ro_success := True\<rparr>, w5)))"

end
