(* ===== verification/Cdr_Laws.thy ===== *)
theory Cdr_Laws
  imports Cdr
begin

text \<open>
  Lemmas about charging records: the JSON writer and the key-search reader are inverse to each other,
  the table keeps its counter and holds active records only, and the arithmetic of counter wrap.
\<close>

section \<open>Searching keys in the JSON text\<close>

lemma strstr_skip:
  "quote \<notin> set xs \<Longrightarrow> strstr (xs @ ys) (quote # p) = strstr ys (quote # p)"
  by (induction xs) auto

lemma has_prefix_quoted:
  "quote \<notin> set k \<Longrightarrow> quote \<notin> set u \<Longrightarrow>
   has_prefix (k @ [quote, CHR '':'']) (u @ quote # c # rest) \<longleftrightarrow> u = k \<and> c = CHR '':''"
proof (induction k arbitrary: u)
  case Nil
  then show ?case by (cases u) auto
next
  case (Cons a k)
  then show ?case by (cases u) auto
qed

lemma strstr_quoted:
  assumes k: "quote \<notin> set k" "k \<noteq> []" "hd k \<noteq> c" and u: "quote \<notin> set u"
  shows "strstr (quote # u @ quote # c # rest) (quote # k @ [quote, CHR '':'']) =
     (if u = k \<and> c = CHR '':'' then Some (quote # u @ quote # c # rest)
      else strstr (c # rest) (quote # k @ [quote, CHR '':'']))"
proof -
  let ?p = "k @ [quote, CHR '':'']"
  have miss: "\<not> has_prefix ?p (c # rest)" using k(2,3) by (cases k) auto
  have hit: "strstr (quote # x) (quote # ?p) = (if has_prefix ?p x then Some (quote # x) else strstr x (quote # ?p))" for x
    by simp
  show ?thesis
    by (simp only: hit has_prefix_quoted [OF k(1) u] strstr_skip [OF u] miss if_False)
qed

type_synonym field = "string \<times> string \<times> string \<times> string"

definition plain :: "string \<Rightarrow> bool" where
  "plain s \<longleftrightarrow> quote \<notin> set s"

definition field_ok :: "field \<Rightarrow> bool" where
  "field_ok f = (case f of (lead, key, val, tail) \<Rightarrow>
     plain lead \<and> plain key \<and> plain tail \<and> tail \<noteq> [] \<and> \<not> isdigit (hd tail) \<and>
     (plain val \<or> (\<exists>u t. val = quoted u \<and> plain u \<and> tail = CHR '','' # t)))"

definition key_ok :: "string \<Rightarrow> bool" where
  "key_ok k \<longleftrightarrow> plain k \<and> k \<noteq> [] \<and> hd k \<noteq> CHR '':'' \<and> hd k \<noteq> CHR '',''"

abbreviation pat :: "string \<Rightarrow> string" where
  "pat k \<equiv> quote # k @ [quote, CHR '':'']"

lemma strstr_field:
  assumes f: "field_ok (lead, key, val, tail)" and k: "key_ok k"
  shows "strstr (field_text (lead, key, val, tail) @ rest) (pat k) =
     (if key = k then Some (pat k @ '' '' @ val @ tail @ rest) else strstr rest (pat k))"
proof -
  have kk: "quote \<notin> set k" "k \<noteq> []" "hd k \<noteq> CHR '':''" "hd k \<noteq> CHR '',''" using k by (auto simp: key_ok_def plain_def)
  have q: "quote \<notin> set lead" "quote \<notin> set key" "quote \<notin> set tail" using f by (auto simp: field_ok_def plain_def)
  have "strstr (field_text (lead, key, val, tail) @ rest) (pat k)
      = strstr (quote # key @ quote # CHR '':'' # '' '' @ val @ tail @ rest) (pat k)"
    using strstr_skip [OF q(1)] by (simp add: field_text_def quoted_def)
  also have "\<dots> = (if key = k then Some (pat k @ '' '' @ val @ tail @ rest)
      else strstr ('': '' @ val @ tail @ rest) (pat k))"
    using strstr_quoted [OF kk(1-3) q(2), of "'' '' @ val @ tail @ rest"] by simp
  also have "strstr ('': '' @ val @ tail @ rest) (pat k) = strstr (val @ tail @ rest) (pat k)"
    by (rule strstr_skip) simp
  also have "strstr (val @ tail @ rest) (pat k) = strstr rest (pat k)"
  proof (cases "plain val")
    case True
    then show ?thesis using strstr_skip [of "val @ tail"] q(3) by (simp add: plain_def)
  next
    case False
    then obtain u t where u: "val = quoted u" "quote \<notin> set u" "tail = CHR '','' # t"
      using f by (auto simp: field_ok_def plain_def)
    have "strstr (val @ tail @ rest) (pat k) = strstr (CHR '','' # t @ rest) (pat k)"
      using strstr_quoted [OF kk(1,2,4) u(2), of "t @ rest"] by (simp add: u quoted_def)
    also have "\<dots> = strstr rest (pat k)" using strstr_skip [of tail rest] q(3) u(3) by simp
    finally show ?thesis .
  qed
  finally show ?thesis .
qed

fun field_get :: "string \<Rightarrow> field list \<Rightarrow> string option" where
  "field_get k [] = None"
| "field_get k ((lead, key, val, tail) # fs) = (if key = k then Some val else field_get k fs)"

lemma strstr_fields:
  assumes k: "key_ok k"
  shows "(\<forall>f\<in>set fs. field_ok f) \<Longrightarrow> field_get k fs = Some v \<Longrightarrow>
     \<exists>rest. rest \<noteq> [] \<and> \<not> isdigit (hd rest) \<and> strstr (concat (map field_text fs)) (pat k) = Some (pat k @ '' '' @ v @ rest)"
proof (induction fs)
  case (Cons f fs)
  obtain lead key val tail where f: "f = (lead, key, val, tail)" by (metis prod_cases4)
  have fo: "field_ok (lead, key, val, tail)" using Cons.prems(1) f by simp
  note st = strstr_field [OF fo k, of "concat (map field_text fs)"]
  show ?case
  proof (cases "key = k")
    case True
    have "tail \<noteq> []" "\<not> isdigit (hd tail)" using fo by (simp_all add: field_ok_def)
    with True st f Cons.prems(2) show ?thesis by (intro exI [of _ "tail @ concat (map field_text fs)"]) simp
  next
    case False
    with st f Cons show ?thesis by simp
  qed
qed simp

lemma json_value_fields:
  assumes k: "key_ok k" "length k \<le> 100" and fs: "\<forall>f\<in>set fs. field_ok f"
    and v: "field_get k fs = Some v" "v \<noteq> []" "hd v \<noteq> CHR '' ''" "hd v \<noteq> CHR 0x09"
  shows "\<exists>rest. rest \<noteq> [] \<and> \<not> isdigit (hd rest) \<and> json_value (concat (map field_text fs)) k = Some (v @ rest)"
proof -
  have search: "snprintf_buf 128 (quoted k @ '':'') = pat k"
    using k(2) by (simp add: snprintf_buf_def quoted_def)
  obtain c cs where c: "v = c # cs" using v(2) by (cases v) auto
  show ?thesis
    using strstr_fields [OF k(1) fs v(1)] v c by (auto simp: json_value_def search)
qed

section \<open>Writing and reading a record\<close>

lemma plain_simps [simp]:
  "plain []" "plain (c # s) \<longleftrightarrow> c \<noteq> quote \<and> plain s" "plain (a @ b) \<longleftrightarrow> plain a \<and> plain b"
  by (auto simp: plain_def)

lemma plain_show_dec: "0 \<le> n \<Longrightarrow> plain (show_dec n)"
  using show_dec_digits [of n quote] by (auto simp: plain_def isdigit_def)

lemma plain_show [simp]: "plain (show_word w)" "plain (show_int i)"
  by (simp_all add: show_word_def show_int_def plain_show_dec)

lemma show_dec_hd_digit: "0 \<le> n \<Longrightarrow> isdigit (hd (show_dec n))"
  using show_dec_nonempty [of n] show_dec_digits [of n] hd_in_set by blast

lemma show_word_nonempty [simp]: "show_word w \<noteq> []" "show_int i \<noteq> []"
  by (simp_all add: show_word_def show_int_def show_dec_nonempty)

lemma show_word_hd: "hd (show_word w) \<noteq> CHR '' ''" "hd (show_word w) \<noteq> CHR 0x09"
  using show_dec_hd_digit [of "uint w"] by (auto simp: show_word_def isdigit_def)

lemma show_int_hd: "hd (show_int i) \<noteq> CHR '' ''" "hd (show_int i) \<noteq> CHR 0x09"
  using show_dec_hd_digit [of i] by (auto simp: show_int_def isdigit_def)

definition text_of :: "CDRRecord \<Rightarrow> string" where
  "text_of c = concat (map field_text (json_fields c))"

definition strings_ok :: "CDRRecord \<Rightarrow> bool" where
  "strings_ok c \<longleftrightarrow> plain (cr_cdr_uuid c) \<and> length (cr_cdr_uuid c) \<le> 63
     \<and> plain (cr_session_id c) \<and> length (cr_session_id c) \<le> 127
     \<and> plain (cr_client_id c) \<and> length (cr_client_id c) \<le> 63
     \<and> plain (cr_dlm_name c) \<and> length (cr_dlm_name c) \<le> 63"

definition times_ok :: "CDRRecord \<Rightarrow> bool" where
  "times_ok c \<longleftrightarrow> (\<forall>t\<in>{cr_start_time c, cr_stop_time c, cr_archive_time c}. - (2 ^ 63) \<le> t \<and> t < 2 ^ 63)"

lemma json_fields_ok: "strings_ok c \<Longrightarrow> f \<in> set (json_fields c) \<Longrightarrow> field_ok f"
  by (auto simp: json_fields_def Let_def field_ok_def strings_ok_def cdr_status_name_def isdigit_def)

lemma find_number:
  fixes n :: "'a::len word"
  assumes "strings_ok c" and "key_ok k" "length k \<le> 100"
    and "field_get k (json_fields c) = Some (show_word n)" and "LENGTH('a) \<le> 64"
  shows "json_find_ulong (text_of c) k = ucast n"
proof -
  obtain rest where rest: "rest \<noteq> []" "\<not> isdigit (hd rest)" "json_value (text_of c) k = Some (show_word n @ rest)"
    unfolding text_of_def
    using json_value_fields [of k "json_fields c" "show_word n"] json_fields_ok [OF assms(1)] assms(2-4) show_word_hd [of n]
    by auto
  have "uint n < 2 ^ LENGTH('a)" by simp
  also have "\<dots> \<le> 2 ^ 64" by (rule power_increasing [OF assms(5)]) simp
  finally have "strtoul10 (show_word n @ rest) = word_of_int (uint n)"
    unfolding show_word_def using rest by (intro strtoul10_show) auto
  then show ?thesis by (simp add: json_find_ulong_def rest(3))
qed

lemma find_time:
  assumes "strings_ok c" and "key_ok k" "length k \<le> 100"
    and "field_get k (json_fields c) = Some (show_int i)" "- (2 ^ 63) \<le> i" "i < 2 ^ 63"
  shows "json_find_long (text_of c) k = i"
proof -
  obtain rest where rest: "rest \<noteq> []" "\<not> isdigit (hd rest)" "json_value (text_of c) k = Some (show_int i @ rest)"
    unfolding text_of_def
    using json_value_fields [of k "json_fields c" "show_int i"] json_fields_ok [OF assms(1)] assms(2-4) show_int_hd [of i]
    by auto
  then show ?thesis using assms(5,6) by (simp add: json_find_long_def atol_def strtol10_show)
qed

lemma find_text:
  assumes "strings_ok c" and "key_ok k" "length k \<le> 100"
    and "field_get k (json_fields c) = Some (quoted u)" and "plain u" "length u < 256"
  shows "json_find_string (text_of c) k = Some u"
proof -
  obtain rest where rest: "json_value (text_of c) k = Some (quoted u @ rest)"
    unfolding text_of_def
    using json_value_fields [of k "json_fields c" "quoted u"] json_fields_ok [OF assms(1)] assms(2-4)
    by (auto simp: quoted_def)
  moreover have "strchr_split quote (u @ quote # rest) = Some (u, rest)"
    using assms(5) by (induction u) auto
  ultimately show ?thesis using assms(6) by (simp add: json_find_string_def quoted_def)
qed

lemma sint_status: "- (2 ^ 63) \<le> sint (w :: u32) \<and> sint w < 2 ^ 63"
  using sint_ge [of w] sint_lt [of w] by simp

lemma json_roundtrip:
  assumes s: "strings_ok c" and t: "times_ok c"
  shows "json_to_cdr (text_of c) = c\<lparr>cr_in_use := (cr_status c = CDR_STATUS_ACTIVE), cr_lock_initialized := False\<rparr>"
proof -
  note ok = key_ok_def json_fields_def Let_def
  have ids: "json_find_ulong (text_of c) ''cdr_id'' = ucast (cr_cdr_id c)"
    "json_find_ulong (text_of c) ''bearer_id'' = ucast (cr_bearer_id c)"
    "json_find_ulong (text_of c) ''count_in'' = ucast (cr_overflow_count_in c)"
    "json_find_ulong (text_of c) ''count_out'' = ucast (cr_overflow_count_out c)"
    by (rule find_number [OF s], simp_all add: ok)+
  have traffic: "json_find_ulong (text_of c) ''bytes_in'' = cr_bytes_in c"
    "json_find_ulong (text_of c) ''bytes_out'' = cr_bytes_out c"
    "json_find_ulong (text_of c) ''packets_in'' = cr_packets_in c"
    "json_find_ulong (text_of c) ''packets_out'' = cr_packets_out c"
    "json_find_ulong (text_of c) ''base_offset_in'' = cr_base_offset_in c"
    "json_find_ulong (text_of c) ''base_offset_out'' = cr_base_offset_out c"
    "json_find_ulong (text_of c) ''last_bytes_in'' = cr_last_bytes_in c"
    "json_find_ulong (text_of c) ''last_bytes_out'' = cr_last_bytes_out c"
    by (rule find_number [OF s, where 'a = 64, simplified], simp_all add: ok)+
  have times: "json_find_long (text_of c) ''status_code'' = sint (cr_status c)"
    "json_find_long (text_of c) ''start_time'' = cr_start_time c"
    "json_find_long (text_of c) ''stop_time'' = cr_stop_time c"
    "json_find_long (text_of c) ''archive_time'' = cr_archive_time c"
    using t sint_status [of "cr_status c"] by - (rule find_time [OF s], simp_all add: ok times_ok_def)+
  have texts: "json_find_string (text_of c) ''cdr_uuid'' = Some (cr_cdr_uuid c)"
    "json_find_string (text_of c) ''session_id'' = Some (cr_session_id c)"
    "json_find_string (text_of c) ''client_id'' = Some (cr_client_id c)"
    "json_find_string (text_of c) ''dlm_name'' = Some (cr_dlm_name c)"
    using s by - (rule find_text [OF s], simp_all add: ok strings_ok_def)+
  have narrow: "(ucast (ucast x :: u64) :: u32) = x" "(ucast (ucast y :: u64) :: u8) = y" for x y
    by (rule bit_word_eqI; simp add: bit_simps)+
  show ?thesis
    using s by (intro CDRRecord.equality) (simp_all add: narrow json_to_cdr_def ids traffic times texts copy_string_def strings_ok_def Let_def)
qed

lemma text_short:
  assumes "strings_ok c" and "times_ok c"
  shows "0 < length (text_of c)" and "length (text_of c) < 4096"
proof -
  have nums: "length (show_word w) \<le> 20" "length (show_word x) \<le> 20" "length (show_word y) \<le> 20"
    for w :: u64 and x :: u32 and y :: u8 by (simp_all add: show_word_length)
  have times: "length (show_int (cr_start_time c)) \<le> 20" "length (show_int (cr_stop_time c)) \<le> 20"
    "length (show_int (cr_archive_time c)) \<le> 20" "length (show_int (sint (cr_status c))) \<le> 20"
    using assms(2) sint_status [of "cr_status c"] by (auto simp: times_ok_def intro!: show_int_length)
  have st: "length (cdr_status_name (cr_status c)) \<le> 8" by (simp add: cdr_status_name_def)
  show "0 < length (text_of c)" by (simp add: text_of_def json_fields_def Let_def field_text_def)
  show "length (text_of c) < 4096"
    using assms(1) times st nums(1) [of "cr_bytes_in c"] nums(1) [of "cr_bytes_out c"] nums(1) [of "cr_packets_in c"]
      nums(1) [of "cr_packets_out c"] nums(1) [of "cr_base_offset_in c"] nums(1) [of "cr_base_offset_out c"]
      nums(1) [of "cr_last_bytes_in c"] nums(1) [of "cr_last_bytes_out c"] nums(2) [of "cr_cdr_id c"]
      nums(2) [of "cr_overflow_count_in c"] nums(2) [of "cr_overflow_count_out c"] nums(3) [of "cr_bearer_id c"]
    by (simp add: text_of_def json_fields_def Let_def field_text_def quoted_def strings_ok_def)
qed

lemma to_json_text: "strings_ok c \<Longrightarrow> times_ok c \<Longrightarrow> cdr_to_json c 4096 = Some (text_of c)"
  using text_short [of c] by (simp add: cdr_to_json_def text_of_def Let_def)

section \<open>Effect on the table\<close>

interpretation cdrtab: keyed_table cr_in_use zero_cdr cr_session_id
  by unfold_locales (simp add: zero_cdr_def)

definition cdr_inv :: "CDRManager \<Rightarrow> bool" where
  "cdr_inv m \<longleftrightarrow> length (cm_records m) = MAX_CDR_RECORDS
     \<and> unat (cm_record_count m) = count_if cr_in_use (cm_records m)
     \<and> (\<forall>c\<in>set (cm_records m). cr_in_use c \<longrightarrow> cr_status c = CDR_STATUS_ACTIVE)"

lemma save_cdrs [simp]: "cdrs (snd (cdr_save_to_file env now c w)) = cdrs w"
  by (simp add: cdr_save_to_file_def Let_def split: option.splits)

lemma archive_cdrs:
  assumes "cr_status (cm_records (cdrs w) ! i) \<noteq> CDR_STATUS_ACTIVE"
  shows "cdrs (snd (cdr_archive env now i w)) = (cdrs w)\<lparr>cm_records := (cm_records (cdrs w))[i := zero_cdr],
     cm_record_count := cm_record_count (cdrs w) - 1, cm_total_cdrs_archived := cm_total_cdrs_archived (cdrs w) + 1\<rparr>"
  using assms by (simp add: cdr_archive_def Let_def)

lemma unat_plus1_1024: "unat (x :: u32) \<le> 1024 \<Longrightarrow> unat (x + 1) = Suc (unat x)"
  by (simp add: unat_word_ariths)

lemma unat_minus1: "unat (x :: u32) = Suc n \<Longrightarrow> unat (x - 1) = n"
  using unat_minus_one [of x] by (metis diff_Suc_1 nat.distinct(1) unat_0 One_nat_def)

lemma add_cdr_inv:
  assumes inv: "cdr_inv m" and free: "find_free_cdr m = Some i" and c: "cr_in_use c" "cr_status c = CDR_STATUS_ACTIVE"
    and m': "cm_records m' = (cm_records m)[i := c]" "cm_record_count m' = cm_record_count m + 1"
  shows "cdr_inv m'"
proof -
  have f: "find_idx (\<lambda>c. \<not> cr_in_use c) (cm_records m) = Some i" using free by (simp add: find_free_cdr_def)
  have "unat (cm_record_count m) \<le> 1024"
    using inv count_if_le_length [of cr_in_use "cm_records m"] by (simp add: cdr_inv_def)
  from unat_plus1_1024 [OF this] cdrtab.take_slot [OF f c(1)] inv c(2) m'
    set_update_subset_insert [of "cm_records m" i c] show ?thesis
    by (auto simp: cdr_inv_def)
qed

lemma drop_cdr_inv:
  assumes inv: "cdr_inv m" and i: "i < length (cm_records m)" "cr_in_use (cm_records m ! i)"
    and m': "cm_records m' = (cm_records m)[i := zero_cdr]" "cm_record_count m' = cm_record_count m - 1"
  shows "cdr_inv m'"
proof -
  have "Suc (count_if cr_in_use (cm_records m')) = unat (cm_record_count m)"
    using cdrtab.free_slot [OF i cdrtab.blank_unused] inv by (simp add: cdr_inv_def m')
  from unat_minus1 [OF this [symmetric]] inv m' cdrtab.blank_unused
    set_update_subset_insert [of "cm_records m" i zero_cdr] show ?thesis
    by (auto simp: cdr_inv_def)
qed

lemma edit_cdr_inv:
  assumes inv: "cdr_inv m" and i: "i < length (cm_records m)" and c: "cr_in_use c = cr_in_use (cm_records m ! i)"
    "cr_in_use c \<Longrightarrow> cr_status c = CDR_STATUS_ACTIVE"
    and m': "cm_records m' = (cm_records m)[i := c]" "cm_record_count m' = cm_record_count m"
  shows "cdr_inv m'"
  using inv cdrtab.keep_slot [OF i c(1)] c(2) m' set_update_subset_insert [of "cm_records m" i c]
  by (auto simp: cdr_inv_def)

end
