(* ===== verification/Cdr_Props.thy ===== *)
theory Cdr_Props
  imports Cdr_Laws
begin

text \<open>
  Properties of the charging records: the table invariant over all operations, conservation of traffic
  across roll-overs, detection of counter wrap, persistence through the JSON files, and the failure
  branches of roll-over.
\<close>

section \<open>Operations keep the invariant\<close>

lemma create_cdr_inv:
  assumes "cdr_inv (cdrs w)"
  shows "cdr_inv (cdrs (snd (cdr_create env now uuid sid cid dlm w)))"
proof (cases "cm_is_initialized (cdrs w) \<and> sid \<noteq> None \<and> find_free_cdr (cdrs w) \<noteq> None")
  case False
  with assms show ?thesis by (auto simp: cdr_create_def Let_def split: option.splits)
next
  case True
  then obtain s i where v: "sid = Some s" "find_free_cdr (cdrs w) = Some i" by auto
  let ?c = "zero_cdr\<lparr>cr_cdr_id := cm_next_cdr_id (cdrs w), cr_cdr_uuid := uuid,
     cr_session_id := strncpy_buf 127 s, cr_client_id := copy_string 63 cid,
     cr_dlm_name := copy_string 63 dlm, cr_status := CDR_STATUS_ACTIVE,
     cr_start_time := now, cr_in_use := True, cr_lock_initialized := True\<rparr>"
  show ?thesis using v True by (auto simp: cdr_create_def Let_def intro!: add_cdr_inv [OF assms v(2), of ?c])
qed

lemma close_cdr_inv:
  assumes inv: "cdr_inv (cdrs w)" and i: "i < MAX_CDR_RECORDS"
  shows "cdr_inv (cdrs (snd (cdr_close env now i fi fo w)))"
proof (cases "cr_in_use (cm_records (cdrs w) ! i)")
  case False
  with inv show ?thesis by (simp add: cdr_close_def Let_def)
next
  case True
  have len: "i < length (cm_records (cdrs w))" using inv i by (simp add: cdr_inv_def)
  show ?thesis
    using True len by (auto simp: cdr_close_def Let_def set_cdr_def archive_cdrs intro!: drop_cdr_inv [OF inv len])
qed

lemma load_file_inv:
  assumes "cdr_inv (cdrs w)"
  shows "cdr_inv (cdrs (snd (cdr_load_from_file path w)))"
proof -
  have "cdr_inv ((cdrs w)\<lparr>cm_records := (cm_records (cdrs w))[i := zero_cdr]\<rparr>)" if "find_free_cdr (cdrs w) = Some i" for i
    using that assms cdrtab.blank_unused
    by (intro edit_cdr_inv [OF assms, of i zero_cdr]) (auto simp: find_free_cdr_def dest: find_idx_SomeD)
  moreover have "cdr_inv m'" if "find_free_cdr (cdrs w) = Some i" "cr_status (json_to_cdr x) = CDR_STATUS_ACTIVE"
    "cm_records m' = (cm_records (cdrs w))[i := (json_to_cdr x)\<lparr>cr_in_use := True, cr_lock_initialized := True\<rparr>]"
    "cm_record_count m' = cm_record_count (cdrs w) + 1" for i x m'
    using add_cdr_inv [OF assms that(1) _ _ that(3,4)] that(2) by simp
  ultimately show ?thesis
    using assms by (auto simp: cdr_load_from_file_def Let_def split: option.splits)
qed

lemma load_entries_inv: "cdr_inv (cdrs w) \<Longrightarrow> cdr_inv (cdrs (snd (load_entries names w)))"
proof (induction names arbitrary: w)
  case (Cons name names)
  obtain r w1 where l: "cdr_load_from_file (snprintf_path (cm_active_dir (cdrs w) @ ''/'' @ name)) w = (r, w1)"
    by (meson surj_pair)
  have "cdr_inv (cdrs w1)" using load_file_inv [OF Cons.prems] l by (metis snd_conv)
  with Cons l show ?case by (auto split: prod.splits) (metis snd_conv)
qed simp

lemma init_cdr_inv: "cdr_inv (cdrs (snd (cdr_manager_init env now dir ret w)))"
proof -
  have "cdr_inv m" if "cm_records m = replicate MAX_CDR_RECORDS zero_cdr" "cm_record_count m = 0" for m
    using that by (simp add: cdr_inv_def cdrtab.blank_table cdrtab.blank_unused)
  moreover have "cdr_inv (m\<lparr>cm_is_initialized := True, cm_last_cleanup_time := now\<rparr>) = cdr_inv m" for m
    by (simp add: cdr_inv_def)
  ultimately show ?thesis
    using load_entries_inv
    by (auto simp: cdr_manager_init_def Let_def cdr_load_all_active_def zero_cdr_manager_def split: option.splits)
qed

lemma snd_case_pair [simp]: "snd (case p of (a, b) \<Rightarrow> (g a b, b)) = snd p"
  by (cases p) simp

lemma save_active_cdrs [simp]: "cdrs (snd (save_active env now cs w)) = cdrs w"
proof (induction cs arbitrary: w)
  case (Cons c cs)
  obtain r w1 where s: "cdr_save_to_file env now c w = (r, w1)" by (meson surj_pair)
  have "cdrs w1 = cdrs w" using save_cdrs [of env now c w] s by simp
  with Cons s show ?case by simp
qed simp

lemma expire_cdrs [simp]: "cdrs (snd (expire_entries env t names w)) = cdrs w"
  by (induction names arbitrary: w) (auto simp: Let_def)

lemma cleanup_expired_inv: "cdr_inv (cdrs (snd (cdr_cleanup_expired env now w))) = cdr_inv (cdrs w)"
proof (cases "fe_listing env (cm_archive_dir (cdrs w))")
  case None
  then show ?thesis by (simp add: cdr_cleanup_expired_def)
next
  case (Some names)
  obtain n w1 where e: "expire_entries env (now - uint (cm_retention_sec (cdrs w))) names w = (n, w1)" by (meson surj_pair)
  have "cdrs w1 = cdrs w" using expire_cdrs [of env "now - uint (cm_retention_sec (cdrs w))" names w] e by simp
  with Some e show ?thesis by (simp add: cdr_cleanup_expired_def cdr_inv_def)
qed

lemma maintenance_inv: "cdr_inv (cdrs w) \<Longrightarrow> cdr_inv (cdrs (cdr_periodic_maintenance env now w))"
  by (simp add: cdr_periodic_maintenance_def Let_def cleanup_expired_inv cdr_save_all_active_def)
    (simp add: cdr_inv_def)

lemma cleanup_cdr_inv: "cdr_inv (cdrs w) \<Longrightarrow> cdr_inv (cdrs (cdr_manager_cleanup env now w))"
  by (simp add: cdr_manager_cleanup_def Let_def cdr_save_all_active_def) (simp add: cdr_inv_def)

lemma update_traffic_inv:
  assumes inv: "cdr_inv (cdrs w)" and i: "i < MAX_CDR_RECORDS"
  shows "cdr_inv (cdrs (set_cdr i (snd (cdr_update_traffic a b p q (cm_records (cdrs w) ! i))) w))"
proof -
  have len: "i < length (cm_records (cdrs w))" using inv i by (simp add: cdr_inv_def)
  then have "cr_in_use (cm_records (cdrs w) ! i) \<Longrightarrow> cr_status (cm_records (cdrs w) ! i) = CDR_STATUS_ACTIVE"
    using inv by (simp add: cdr_inv_def)
  with len show ?thesis
    by (intro edit_cdr_inv [OF inv len]) (auto simp: cdr_update_traffic_def Let_def set_cdr_def)
qed

section \<open>Roll-over\<close>

lemma close_for_rollover_simps [simp]:
  "cr_in_use (close_for_rollover now a b c) = cr_in_use c" "cr_session_id (close_for_rollover now a b c) = cr_session_id c"
  "cr_status (close_for_rollover now a b c) = CDR_STATUS_ROLLOVER"
  "cr_client_id (close_for_rollover now a b c) = cr_client_id c" "cr_base_offset_in (close_for_rollover now a b c) = cr_base_offset_in c"
  by (simp_all add: close_for_rollover_def Let_def)

lemma successor_simps [simp]:
  "cr_in_use (successor_cdr now u i a b c)" "cr_status (successor_cdr now u i a b c) = CDR_STATUS_ACTIVE"
  "cr_session_id (successor_cdr now u i a b c) = strncpy_buf 127 (cr_session_id c)"
  "cr_base_offset_in (successor_cdr now u i a b c) = a" "cr_last_bytes_in (successor_cdr now u i a b c) = a"
  "cr_base_offset_out (successor_cdr now u i a b c) = b" "cr_last_bytes_out (successor_cdr now u i a b c) = b"
  "cr_overflow_count_in (successor_cdr now u i a b c) = 0"
  by (simp_all add: successor_cdr_def zero_cdr_def)

lemma rollover_cases:
  assumes inv: "cdr_inv (cdrs w)" and r: "cdr_rollover env now uuid (Some sid) a b w = (r, res, w')"
  obtains (missing) "r = -1" "w' = w" "cdr_find_by_session (cdrs w) (Some sid) = None" "ro_error_code res = -1"
  | (full) i where "cdr_find_by_session (cdrs w) (Some sid) = Some i" "r = -1" "ro_error_code res = -2"
      "count_if cr_in_use (cm_records (cdrs w)) = MAX_CDR_RECORDS"
      "cdrs w' = (cdrs w)\<lparr>cm_records := (cm_records (cdrs w))[i :=
         (close_for_rollover now a b (cm_records (cdrs w) ! i))\<lparr>cr_status := CDR_STATUS_ACTIVE, cr_stop_time := 0\<rparr>]\<rparr>"
      "disk w' = disk w"
  | (split) i j where "cdr_find_by_session (cdrs w) (Some sid) = Some i" "r = 0" "ro_success res" "i \<noteq> j"
      "find_free_cdr (cdrs w) = Some j" "i < MAX_CDR_RECORDS" "j < MAX_CDR_RECORDS"
      "(ro_final_bytes_in res, ro_final_bytes_out res)
         = cdr_get_actual_traffic (close_for_rollover now a b (cm_records (cdrs w) ! i))"
      "cm_records (cdrs w') = (cm_records (cdrs w))[j := successor_cdr now uuid (cm_next_cdr_id (cdrs w)) a b
           (close_for_rollover now a b (cm_records (cdrs w) ! i)), i := zero_cdr]"
      "cm_record_count (cdrs w') = cm_record_count (cdrs w)"
      "cm_next_cdr_id (cdrs w') = cm_next_cdr_id (cdrs w) + 1"
proof (cases "cdr_find_by_session (cdrs w) (Some sid)")
  case None
  with r show ?thesis by (intro missing) (auto simp: cdr_rollover_def)
next
  case (Some i)
  let ?rs = "cm_records (cdrs w)"
  have i: "i < length ?rs" "cr_in_use (?rs ! i)"
    using Some by (auto simp: cdr_find_by_session_def dest: find_idx_SomeD)
  have len: "length ?rs = 1024" using inv by (simp add: cdr_inv_def)
  let ?old = "close_for_rollover now a b (?rs ! i)"
  have free: "find_free_cdr ((cdrs w)\<lparr>cm_records := ?rs[i := ?old]\<rparr>) = find_free_cdr (cdrs w)"
    unfolding find_free_cdr_def using find_idx_update_unaffected [of i ?rs "\<lambda>c. \<not> cr_in_use c" ?old] i by simp
  show ?thesis
  proof (cases "find_free_cdr (cdrs w)")
    case None
    then have "count_if cr_in_use ?rs = MAX_CDR_RECORDS"
      using cdrtab.no_free_slot_iff [of ?rs] len by (simp add: find_free_cdr_def)
    with None Some r free show ?thesis
      by (intro full [of i]) (auto simp: cdr_rollover_def Let_def set_cdr_def split: prod.splits)
  next
    case j: (Some j)
    have jj: "j < length ?rs" "\<not> cr_in_use (?rs ! j)" using j by (auto simp: find_free_cdr_def dest: find_idx_SomeD)
    then have ne: "i \<noteq> j" using i by auto
    define new where "new = successor_cdr now uuid (cm_next_cdr_id (cdrs w)) a b ?old"
    define m2 where "m2 = (cdrs w)\<lparr>cm_records := ?rs[i := ?old, j := new], cm_next_cdr_id := cm_next_cdr_id (cdrs w) + 1,
      cm_record_count := cm_record_count (cdrs w) + 1, cm_total_cdrs_created := cm_total_cdrs_created (cdrs w) + 1\<rparr>"
    define w4 where "w4 = snd (cdr_save_to_file env now new (snd (cdr_save_to_file env now ?old
      ((set_cdr i ?old w)\<lparr>cdrs := m2\<rparr>))))"
    have w4: "cdrs w4 = m2" by (simp add: w4_def)
    have w': "w' = snd (cdr_archive env now i w4)" "r = 0" "ro_success res"
      "(ro_final_bytes_in res, ro_final_bytes_out res) = cdr_get_actual_traffic ?old"
      using r Some j free by (auto simp: cdr_rollover_def Let_def set_cdr_def w4_def new_def m2_def split: prod.splits)
    have at_i: "cm_records (cdrs w4) ! i = ?old" using i ne by (simp add: w4 m2_def)
    have fin: "cdrs w' = m2\<lparr>cm_records := (cm_records m2)[i := zero_cdr],
      cm_record_count := cm_record_count m2 - 1, cm_total_cdrs_archived := cm_total_cdrs_archived m2 + 1\<rparr>"
      unfolding w'(1) using archive_cdrs [of w4 i env now] at_i w4 by simp
    show ?thesis
    proof (rule split [OF Some w'(2,3) ne j])
      show "i < MAX_CDR_RECORDS" "j < MAX_CDR_RECORDS" using i jj len by auto
      show "(ro_final_bytes_in res, ro_final_bytes_out res) = cdr_get_actual_traffic ?old" by (rule w'(4))
      show "cm_records (cdrs w') = ?rs[j := successor_cdr now uuid (cm_next_cdr_id (cdrs w)) a b ?old, i := zero_cdr]"
        using ne by (simp add: fin m2_def new_def list_update_swap)
      show "cm_record_count (cdrs w') = cm_record_count (cdrs w)" "cm_next_cdr_id (cdrs w') = cm_next_cdr_id (cdrs w) + 1"
        by (simp_all add: fin m2_def)
    qed
  qed
qed

lemma rollover_inv:
  assumes inv: "cdr_inv (cdrs w)"
  shows "cdr_inv (cdrs (snd (snd (cdr_rollover env now uuid sid a b w))))"
proof (cases sid)
  case None
  with inv show ?thesis by (simp add: cdr_rollover_def)
next
  case (Some s)
  obtain r res w' where e: "cdr_rollover env now uuid (Some s) a b w = (r, res, w')" by (metis prod_cases3)
  from inv e have "cdr_inv (cdrs w')"
  proof (cases rule: rollover_cases)
    case missing
    with inv show ?thesis by simp
  next
    case (full i)
    have "i < length (cm_records (cdrs w))" using full(1) by (auto simp: cdr_find_by_session_def dest: find_idx_less)
    then show ?thesis by (rule edit_cdr_inv [OF inv]) (simp_all add: full(5))
  next
    case (split i j)
    let ?new = "successor_cdr now uuid (cm_next_cdr_id (cdrs w)) a b (close_for_rollover now a b (cm_records (cdrs w) ! i))"
    define m1 where "m1 = (cdrs w)\<lparr>cm_records := (cm_records (cdrs w))[j := ?new], cm_record_count := cm_record_count (cdrs w) + 1\<rparr>"
    have "cdr_inv m1" by (rule add_cdr_inv [OF inv split(5), of ?new]) (simp_all add: m1_def)
    moreover have "i < length (cm_records m1)" "cr_in_use (cm_records m1 ! i)"
      using split(1,4,6) inv by (auto simp: m1_def cdr_inv_def cdr_find_by_session_def dest: find_idx_SomeD)
    ultimately show ?thesis by (rule drop_cdr_inv) (simp_all add: m1_def split(9,10))
  qed
  with e Some show ?thesis by simp
qed

section \<open>Runs\<close>

datatype cdr_op =
    CdrCreate int string "string option" "string option" "string option"
  | CdrClose int nat u64 u64
  | CdrRollover int string "string option" u64 u64
  | CdrTraffic nat u64 u64 u64 u64
  | CdrLoad string
  | CdrMaintain int
  | CdrStop int
  | CdrStart int "string option" u32

fun cdr_step :: "fs_env \<Rightarrow> cdr_world \<Rightarrow> cdr_op \<Rightarrow> cdr_world" where
  "cdr_step env w (CdrCreate now uuid sid cid dlm) = snd (cdr_create env now uuid sid cid dlm w)"
| "cdr_step env w (CdrClose now i fi fo) = snd (cdr_close env now i fi fo w)"
| "cdr_step env w (CdrRollover now uuid sid a b) = snd (snd (cdr_rollover env now uuid sid a b w))"
| "cdr_step env w (CdrTraffic i a b p q) = set_cdr i (snd (cdr_update_traffic a b p q (cm_records (cdrs w) ! i))) w"
| "cdr_step env w (CdrLoad path) = snd (cdr_load_from_file path w)"
| "cdr_step env w (CdrMaintain now) = cdr_periodic_maintenance env now w"
| "cdr_step env w (CdrStop now) = cdr_manager_cleanup env now w"
| "cdr_step env w (CdrStart now dir ret) = snd (cdr_manager_init env now dir ret w)"

fun slot_valid :: "cdr_op \<Rightarrow> bool" where
  "slot_valid (CdrClose now i fi fo) = (i < MAX_CDR_RECORDS)"
| "slot_valid (CdrTraffic i a b p q) = (i < MAX_CDR_RECORDS)"
| "slot_valid _ = True"

interpretation cdrm: guarded_machine "cdr_step env" "\<lambda>w. cdr_inv (cdrs w)" slot_valid for env
proof
  fix s :: cdr_world and e assume "cdr_inv (cdrs s)" "slot_valid e"
  then show "cdr_inv (cdrs (cdr_step env s e))"
    by (cases e) (auto intro: create_cdr_inv close_cdr_inv rollover_inv update_traffic_inv load_file_inv
        maintenance_inv cleanup_cdr_inv init_cdr_inv)
qed

section \<open>Counter arithmetic\<close>

lemma half_u64: "unat ((- 1 :: u64) div 2) = 2 ^ 63 - 1"
  by (simp add: unat_div unsigned_minus_1_eq_mask mask_eq_exp_minus_1)

lemma actual_bytes_eq: "actual_bytes bytes base n = bytes - base - ucast n"
proof -
  have "(- 1 - base) + bytes + 1 = bytes - base" for base bytes :: u64 by (simp add: algebra_simps)
  then show ?thesis by (auto simp: actual_bytes_def Let_def algebra_simps word_gt_0)
qed

lemma detect_overflow_nat:
  "cdr_detect_overflow current previous \<longleftrightarrow> unat previous > unat current + (2 ^ 63 - 1)"
proof (cases "current < previous")
  case True
  then have "unat (previous - current) = unat previous - unat current"
    by (simp add: unat_sub word_less_nat_alt word_le_nat_alt)
  with True show ?thesis
    unfolding cdr_detect_overflow_def word_less_nat_alt half_u64 by auto
next
  case False
  then show ?thesis by (simp add: cdr_detect_overflow_def word_less_nat_alt)
qed

section \<open>A series of roll-overs\<close>

type_synonym reading = "int \<times> string \<times> u64 \<times> u64"

fun roll_series :: "fs_env \<Rightarrow> string \<Rightarrow> reading list \<Rightarrow> cdr_world \<Rightarrow> CDRRolloverResult list \<times> cdr_world" where
  "roll_series env sid [] w = ([], w)"
| "roll_series env sid ((now, uuid, a, b) # rs) w =
     (let (r, res, w1) = cdr_rollover env now uuid (Some sid) a b w; (rest, w2) = roll_series env sid rs w1
      in (res # rest, w2))"

fun no_wrap :: "u64 \<Rightarrow> reading list \<Rightarrow> bool" where
  "no_wrap prev [] = True"
| "no_wrap prev ((now, uuid, a, b) # rs) = (\<not> cdr_detect_overflow a prev \<and> no_wrap a rs)"

definition sole_active :: "CDRManager \<Rightarrow> string \<Rightarrow> nat \<Rightarrow> bool" where
  "sole_active m sid i \<longleftrightarrow> cdr_find_by_session m (Some sid) = Some i \<and>
     (\<forall>k<length (cm_records m). k \<noteq> i \<longrightarrow> cr_in_use (cm_records m ! k) \<longrightarrow> cr_session_id (cm_records m ! k) \<noteq> sid)"

lemma rollover_step:
  assumes inv: "cdr_inv (cdrs w)" and sole: "sole_active (cdrs w) sid i" and sid: "length sid \<le> 127"
    and room: "count_if cr_in_use (cm_records (cdrs w)) < MAX_CDR_RECORDS"
    and c: "cr_overflow_count_in (cm_records (cdrs w) ! i) = 0"
      "\<not> cdr_detect_overflow a (cr_last_bytes_in (cm_records (cdrs w) ! i))"
    and r: "cdr_rollover env now uuid (Some sid) a b w = (r, res, w')"
  obtains j where "r = 0" "ro_final_bytes_in res = a - cr_base_offset_in (cm_records (cdrs w) ! i)"
    "sole_active (cdrs w') sid j" "cdr_inv (cdrs w')"
    "count_if cr_in_use (cm_records (cdrs w')) = count_if cr_in_use (cm_records (cdrs w))"
    "cr_overflow_count_in (cm_records (cdrs w') ! j) = 0" "cr_last_bytes_in (cm_records (cdrs w') ! j) = a"
    "cr_base_offset_in (cm_records (cdrs w') ! j) = a"
  using inv r
proof (cases rule: rollover_cases)
  case missing
  with sole show ?thesis by (simp add: sole_active_def)
next
  case (full i')
  with room show ?thesis by simp
next
  case (split i' j)
  let ?rs = "cm_records (cdrs w)"
  have ii: "i' = i" using split(1) sole by (simp add: sole_active_def)
  have len: "length ?rs = 1024" using inv by (simp add: cdr_inv_def)
  let ?old = "close_for_rollover now a b (?rs ! i)"
  let ?new = "successor_cdr now uuid (cm_next_cdr_id (cdrs w)) a b ?old"
  have rs': "cm_records (cdrs w') = ?rs[j := ?new, i := zero_cdr]" using split(9) ii by simp
  have s: "cr_session_id (?rs ! i) = sid"
    using split(1) ii by (auto simp: cdr_find_by_session_def dest: find_idx_SomeD)
  have at_j: "cm_records (cdrs w') ! j = ?new" using split(4,7) ii len by (simp add: rs')
  have inv': "cdr_inv (cdrs w')" using rollover_inv [OF inv, of env now uuid "Some sid" a b] r by simp
  have others: "cr_session_id (cm_records (cdrs w') ! k) \<noteq> sid"
    if "k < 1024" "k \<noteq> j" "cr_in_use (cm_records (cdrs w') ! k)" for k
    using that sole len cdrtab.blank_unused by (cases "k = i") (auto simp: rs' sole_active_def)
  have "cdr_find_by_session (cdrs w') (Some sid) = Some j"
    unfolding cdr_find_by_session_def option.case
  proof (rule find_idx_SomeI)
    show "j < length (cm_records (cdrs w'))" using split(7) len by (simp add: rs')
    show "cr_in_use (cm_records (cdrs w') ! j) \<and> cr_status (cm_records (cdrs w') ! j) = CDR_STATUS_ACTIVE
        \<and> cr_session_id (cm_records (cdrs w') ! j) = sid" using sid s by (simp add: at_j)
    fix k assume "k < j"
    then have "k < 1024" "k \<noteq> j" using split(7) by auto
    then show "\<not> (cr_in_use (cm_records (cdrs w') ! k) \<and> cr_status (cm_records (cdrs w') ! k) = CDR_STATUS_ACTIVE
        \<and> cr_session_id (cm_records (cdrs w') ! k) = sid)" using others by blast
  qed
  then have sole': "sole_active (cdrs w') sid j" using others len by (simp add: sole_active_def rs')
  have "unat (cm_record_count (cdrs w')) = unat (cm_record_count (cdrs w))" using split(10) by simp
  then have cnt: "count_if cr_in_use (cm_records (cdrs w')) = count_if cr_in_use ?rs"
    using inv inv' by (simp add: cdr_inv_def)
  have "ro_final_bytes_in res = a - cr_base_offset_in (?rs ! i)"
    using split(8) ii c by (simp add: cdr_get_actual_traffic_def actual_bytes_eq close_for_rollover_def Let_def)
  with split(2) sole' inv' cnt show ?thesis by (intro that [of j]) (simp_all add: at_j)
qed

lemma roll_series_sum:
  assumes "cdr_inv (cdrs w)" "sole_active (cdrs w) sid i" "length sid \<le> 127"
    "count_if cr_in_use (cm_records (cdrs w)) < MAX_CDR_RECORDS"
    "cr_overflow_count_in (cm_records (cdrs w) ! i) = 0"
    "no_wrap (cr_last_bytes_in (cm_records (cdrs w) ! i)) rs"
  shows "sum_list (map ro_final_bytes_in (fst (roll_series env sid rs w)))
     = last (cr_base_offset_in (cm_records (cdrs w) ! i) # map (\<lambda>(_, _, a, _). a) rs)
       - cr_base_offset_in (cm_records (cdrs w) ! i)"
  using assms
proof (induction rs arbitrary: w i)
  case Nil
  then show ?case by simp
next
  case (Cons x rs)
  obtain now uuid a b where x: "x = (now, uuid, a, b)" by (metis prod_cases4)
  obtain r res w1 where e: "cdr_rollover env now uuid (Some sid) a b w = (r, res, w1)" by (metis prod_cases3)
  have nw: "\<not> cdr_detect_overflow a (cr_last_bytes_in (cm_records (cdrs w) ! i))" "no_wrap a rs" using Cons.prems x by auto
  obtain j where j: "ro_final_bytes_in res = a - cr_base_offset_in (cm_records (cdrs w) ! i)"
    "sole_active (cdrs w1) sid j" "cdr_inv (cdrs w1)"
    "count_if cr_in_use (cm_records (cdrs w1)) = count_if cr_in_use (cm_records (cdrs w))"
    "cr_overflow_count_in (cm_records (cdrs w1) ! j) = 0" "cr_last_bytes_in (cm_records (cdrs w1) ! j) = a"
    "cr_base_offset_in (cm_records (cdrs w1) ! j) = a"
    using rollover_step [OF Cons.prems(1-5) nw(1) e] by metis
  from Cons.IH [OF j(3,2)] Cons.prems j nw(2)
  have "sum_list (map ro_final_bytes_in (fst (roll_series env sid rs w1))) = last (a # map (\<lambda>(_, _, a, _). a) rs) - a"
    by simp
  with j(1) show ?case by (cases "roll_series env sid rs w1") (auto simp: x e algebra_simps)
qed

section \<open>A concrete manager\<close>

definition demo_fs :: fs_env where
  "demo_fs = \<lparr>fe_writable = \<lambda>_. True, fe_mkdir = \<lambda>_. True, fe_listing = \<lambda>_. Some [], fe_unlink = \<lambda>_. True\<rparr>"

definition demo_cdr :: CDRRecord where
  "demo_cdr = zero_cdr\<lparr>cr_cdr_id := 7, cr_cdr_uuid := ''u-7'', cr_session_id := ''s1'', cr_client_id := ''c1'',
     cr_dlm_name := ''SATCOM1'', cr_status := CDR_STATUS_ACTIVE, cr_start_time := 100, cr_in_use := True,
     cr_bytes_in := 500, cr_base_offset_in := 100, cr_last_bytes_in := 500, cr_lock_initialized := True\<rparr>"

definition demo_cdrs :: cdr_world where
  "demo_cdrs = \<lparr>cdrs = zero_cdr_manager\<lparr>cm_records := demo_cdr # replicate 1023 zero_cdr, cm_record_count := 1,
      cm_next_cdr_id := 8, cm_is_initialized := True, cm_active_dir := ''/a'', cm_archive_dir := ''/z''\<rparr>, disk = Map.empty\<rparr>"

lemma demo_cdr_ok: "strings_ok demo_cdr" "times_ok demo_cdr"
  by (simp_all add: strings_ok_def times_ok_def demo_cdr_def zero_cdr_def)

lemma demo_cdrs_records: "cm_records (cdrs demo_cdrs) = demo_cdr # replicate 1023 zero_cdr"
  by (simp add: demo_cdrs_def)

lemma demo_cdr_in_use [simp]: "cr_in_use demo_cdr" "cr_session_id demo_cdr = ''s1''" "cr_status demo_cdr = CDR_STATUS_ACTIVE"
  by (simp_all add: demo_cdr_def)

lemma demo_cdrs_facts:
  "cdr_inv (cdrs demo_cdrs)" "sole_active (cdrs demo_cdrs) ''s1'' 0"
  "count_if cr_in_use (cm_records (cdrs demo_cdrs)) = 1"
  "find_free_cdr (cdrs demo_cdrs) = Some 1"
proof -
  have cnt: "count_if cr_in_use (replicate n zero_cdr) = 0" for n by (rule cdrtab.blank_table)
  show c1: "count_if cr_in_use (cm_records (cdrs demo_cdrs)) = 1" by (simp add: demo_cdrs_records cnt)
  show "cdr_inv (cdrs demo_cdrs)" using c1 cdrtab.blank_unused
    by (simp add: cdr_inv_def demo_cdrs_records) (simp add: demo_cdrs_def)
  show "sole_active (cdrs demo_cdrs) ''s1'' 0" using cdrtab.blank_unused
    by (auto simp: sole_active_def cdr_find_by_session_def demo_cdrs_records nth_Cons split: nat.splits)
  have "find_idx (\<lambda>c. \<not> cr_in_use c) (replicate 1023 zero_cdr) = Some 0"
    using cdrtab.blank_unused by (simp add: find_idx_Some_iff)
  then show "find_free_cdr (cdrs demo_cdrs) = Some 1" by (simp add: find_free_cdr_def demo_cdrs_records)
qed

section \<open>Properties\<close>

text \<open>
  C8. From initialisation on, whatever records are created, updated, closed, rolled over, loaded or
  maintained: \<open>record_count\<close> is the number of occupied slots and every occupied slot holds an ACTIVE
  record, so closed records never linger in memory.
\<close>

theorem cdr_reachable_inv:
  assumes "\<And>op. op \<in> set ops \<Longrightarrow> slot_valid op"
  shows "cdr_inv (cdrs (foldl (cdr_step env) (snd (cdr_manager_init env now dir ret w)) ops))"
  using assms by (intro cdrm.run_inv init_cdr_inv) auto

theorem cdr_reachable_inv_witness:
  "cdr_inv (cdrs (foldl (cdr_step demo_fs) (snd (cdr_manager_init demo_fs 50 None 0 demo_cdrs))
     [CdrCreate 60 ''u'' (Some ''s1'') None None, CdrRollover 70 ''v'' (Some ''s1'') 10 20, CdrClose 80 1 30 40]))"
  by (rule cdr_reachable_inv) auto



text \<open>
  Wrap detection is exact for every increment below \<open>2^63\<close>: it fires exactly when adding the
  increment to the previous reading overflows 64 bits.
\<close>

lemma detect_overflow_exact:
  assumes "unat d < 2 ^ 63"
  shows "cdr_detect_overflow (previous + d) previous \<longleftrightarrow> unat previous + unat d \<ge> 2 ^ 64"
proof (cases "unat previous + unat d \<ge> 2 ^ 64")
  case True
  have "unat previous < 2 ^ 64" using unsigned_less [of previous, where 'a = nat] by simp
  with True assms have "unat (previous + d) = unat previous + unat d - 2 ^ 64"
    by (simp add: unat_word_ariths mod_if)
  with True assms show ?thesis by (simp add: detect_overflow_nat)
next
  case False
  then have "unat (previous + d) = unat previous + unat d" by (simp add: unat_word_ariths)
  with False show ?thesis by (simp add: detect_overflow_nat)
qed

text \<open>
  The traffic reported for a record is the difference between counter and base offset, less the
  number of counted wraps: a record whose traffic is \<open>t\<close> and that saw \<open>n\<close> wraps reports \<open>t - n\<close>, because the
  code adds \<open>n\<close> times \<open>UINT64_MAX\<close> instead of \<open>n\<close> times \<open>2^64\<close>.
\<close>

lemma reported_traffic_misses_wraps:
  assumes "cr_bytes_in c = cr_base_offset_in c + t"
  shows "fst (cdr_get_actual_traffic c) = t - ucast (cr_overflow_count_in c)"
  using assms by (simp add: cdr_get_actual_traffic_def actual_bytes_eq)

lemma reported_traffic_misses_wraps_witness:
  "fst (cdr_get_actual_traffic (demo_cdr\<lparr>cr_overflow_count_in := 1\<rparr>)) = 399"
  using reported_traffic_misses_wraps [of "demo_cdr\<lparr>cr_overflow_count_in := 1\<rparr>" 400]
  by (simp add: demo_cdr_def zero_cdr_def)



text \<open>
  Closing an occupied record frees its slot and no other, counts it as archived, deletes its file
  from the active directory and leaves in the archive a file that reads back as the record with the
  final counters, the closing time and status ARCHIVED.
\<close>

lemma close_archives_record:
  assumes inv: "cdr_inv (cdrs w)" and i: "i < MAX_CDR_RECORDS" "cr_in_use (cm_records (cdrs w) ! i)"
    and c: "c = cm_records (cdrs w) ! i" "strings_ok c" "times_ok c" and now: "0 \<le> now" "now < 2 ^ 63"
    and env: "\<And>p. fe_writable env p" "\<And>p. fe_unlink env p"
    and dirs: "cdr_path (cm_active_dir (cdrs w)) c \<noteq> cdr_path (cm_archive_dir (cdrs w)) c"
    and close: "cdr_close env now i fi fo w = (r, w')"
  shows "r = 0 \<and> cm_records (cdrs w') = (cm_records (cdrs w))[i := zero_cdr]
     \<and> cm_total_cdrs_archived (cdrs w') = cm_total_cdrs_archived (cdrs w) + 1
     \<and> disk w' (cdr_path (cm_active_dir (cdrs w)) c) = None
     \<and> map_option (json_to_cdr \<circ> fst) (disk w' (cdr_path (cm_archive_dir (cdrs w)) c))
         = Some (c\<lparr>cr_bytes_in := fi, cr_bytes_out := fo, cr_stop_time := now, cr_status := CDR_STATUS_ARCHIVED,
                  cr_archive_time := now, cr_in_use := False, cr_lock_initialized := False\<rparr>)"
proof -
  define c1 where "c1 = c\<lparr>cr_bytes_in := fi, cr_bytes_out := fo, cr_stop_time := now, cr_status := CDR_STATUS_FINISHED\<rparr>"
  define c2 where "c2 = c1\<lparr>cr_status := CDR_STATUS_ARCHIVED, cr_archive_time := now\<rparr>"
  have len: "i < length (cm_records (cdrs w))" using inv i by (simp add: cdr_inv_def)
  have ok: "strings_ok c1" "times_ok c1" "strings_ok c2" "times_ok c2"
    using c(2,3) now by (auto simp: strings_ok_def times_ok_def c1_def c2_def)
  have path: "cdr_path d c1 = cdr_path d c" "cdr_path d c2 = cdr_path d c" for d
    by (simp_all add: cdr_path_def c1_def c2_def)
  define w1 where "w1 = snd (cdr_save_to_file env now c1 (set_cdr i c1 w))"
  have w1: "cdrs w1 = (cdrs w)\<lparr>cm_records := (cm_records (cdrs w))[i := c1]\<rparr>" by (simp add: w1_def set_cdr_def)
  have w': "r = 0" "w' = snd (cdr_archive env now i w1)"
    using close i c(1) by (auto simp: cdr_close_def Let_def w1_def c1_def)
  have at: "cm_records (cdrs w1) ! i = c1" using len by (simp add: w1)
  have st: "cr_status c1 \<noteq> CDR_STATUS_ACTIVE" "cr_status c2 \<noteq> CDR_STATUS_ACTIVE" by (simp_all add: c1_def c2_def)
  have "disk w' = ((disk w1)(cdr_path (cm_active_dir (cdrs w)) c := None))
      (cdr_path (cm_archive_dir (cdrs w)) c \<mapsto> (text_of c2, now))"
    using st to_json_text [OF ok(3,4)] env
    by (simp add: w'(2) cdr_archive_def at Let_def c2_def [symmetric] cdr_save_to_file_def path)
      (simp add: w1 path)
  moreover have "cdrs w' = (cdrs w1)\<lparr>cm_records := (cm_records (cdrs w1))[i := zero_cdr],
     cm_record_count := cm_record_count (cdrs w1) - 1, cm_total_cdrs_archived := cm_total_cdrs_archived (cdrs w1) + 1\<rparr>"
    unfolding w'(2) using archive_cdrs [of w1 i env now] st at by simp
  moreover have "json_to_cdr (text_of c2) = c\<lparr>cr_bytes_in := fi, cr_bytes_out := fo, cr_stop_time := now,
      cr_status := CDR_STATUS_ARCHIVED, cr_archive_time := now, cr_in_use := False, cr_lock_initialized := False\<rparr>"
    unfolding json_roundtrip [OF ok(3,4)] by (simp add: c2_def c1_def)
  ultimately show ?thesis using w'(1) dirs by (simp add: w1)
qed

lemma close_archives_record_witness:
  "\<exists>w'. cdr_close demo_fs 900 0 700 30 demo_cdrs = (0, w') \<and> cm_records (cdrs w') = replicate 1024 zero_cdr \<and>
     disk w' (cdr_path ''/a'' demo_cdr) = None"
proof -
  obtain r w' where e: "cdr_close demo_fs 900 0 700 30 demo_cdrs = (r, w')" by (meson surj_pair)
  have c: "demo_cdr = cm_records (cdrs demo_cdrs) ! 0" by (simp add: demo_cdrs_records)
  have env: "fe_writable demo_fs p" "fe_unlink demo_fs p" for p by (simp_all add: demo_fs_def)
  have dir: "cm_active_dir (cdrs demo_cdrs) = ''/a''" "cm_archive_dir (cdrs demo_cdrs) = ''/z''" by (simp_all add: demo_cdrs_def)
  have path: "cdr_path (cm_active_dir (cdrs demo_cdrs)) demo_cdr \<noteq> cdr_path (cm_archive_dir (cdrs demo_cdrs)) demo_cdr"
    by (simp add: cdr_path_def snprintf_path_def snprintf_buf_def dir)
  have use: "cr_in_use (cm_records (cdrs demo_cdrs) ! 0)" by (simp add: demo_cdrs_records)
  have "replicate 1024 zero_cdr = zero_cdr # replicate 1023 zero_cdr" by (simp add: replicate_Suc [symmetric] del: replicate_Suc)
  with close_archives_record [OF demo_cdrs_facts(1) _ use c demo_cdr_ok _ _ env path e] e dir show ?thesis
    by (simp add: demo_cdrs_records)
qed

text \<open>
  When a roll-over finds no free slot it fails with error -2 and puts the status and stop time of
  the old record back, but not its counters: the byte counter stays overwritten and a wrap stays
  counted although the last reading is the old one, so a retry counts the same wrap again.
\<close>

lemma failed_rollover_keeps_counters:
  assumes inv: "cdr_inv (cdrs w)" and full: "count_if cr_in_use (cm_records (cdrs w)) = MAX_CDR_RECORDS"
    and hit: "cdr_find_by_session (cdrs w) (Some sid) = Some i"
    and r: "cdr_rollover env now uuid (Some sid) a b w = (r, res, w')"
    and c: "c = cm_records (cdrs w) ! i" "c' = cm_records (cdrs w') ! i"
  shows "r = -1 \<and> ro_error_code res = -2 \<and> disk w' = disk w \<and> cr_status c' = CDR_STATUS_ACTIVE \<and> cr_stop_time c' = 0
     \<and> cr_last_bytes_in c' = cr_last_bytes_in c
     \<and> cr_overflow_count_in c' = cr_overflow_count_in c + (if cdr_detect_overflow a (cr_last_bytes_in c) then 1 else 0)
     \<and> cr_bytes_in c' = (if cdr_detect_overflow a (cr_last_bytes_in c) then a - cr_last_bytes_in c - 1 else a)"
  using inv r
proof (cases rule: rollover_cases)
  case missing
  with hit show ?thesis by simp
next
  case (full i')
  have i: "i' = i" "i < length (cm_records (cdrs w))"
    using full(1) hit by (auto simp: cdr_find_by_session_def dest: find_idx_less)
  then show ?thesis
    using full by (simp add: c close_for_rollover_def Let_def)
next
  case (split i' j)
  have "find_idx (\<lambda>c. \<not> cr_in_use c) (cm_records (cdrs w)) = None"
    using cdrtab.no_free_slot_iff [of "cm_records (cdrs w)"] full inv by (simp add: cdr_inv_def)
  with split(5) show ?thesis by (simp add: find_free_cdr_def)
qed

definition demo_full :: cdr_world where
  "demo_full = demo_cdrs\<lparr>cdrs := (cdrs demo_cdrs)\<lparr>cm_records := replicate 1024 demo_cdr, cm_record_count := 1024\<rparr>\<rparr>"

lemma failed_rollover_keeps_counters_witness:
  "\<exists>res w'. cdr_rollover demo_fs 60 ''v'' (Some ''s1'') 900 0 demo_full = (-1, res, w') \<and> ro_error_code res = -2
     \<and> cr_bytes_in (cm_records (cdrs w') ! 0) = 900"
proof -
  obtain r res w' where e: "cdr_rollover demo_fs 60 ''v'' (Some ''s1'') 900 0 demo_full = (r, res, w')"
    by (metis prod_cases3)
  have cnt: "count_if cr_in_use (cm_records (cdrs demo_full)) = 1024"
    by (simp add: demo_full_def count_if_replicate)
  have inv: "cdr_inv (cdrs demo_full)" using cnt by (simp add: cdr_inv_def) (simp add: demo_full_def)
  have hit: "cdr_find_by_session (cdrs demo_full) (Some ''s1'') = Some 0"
    by (simp add: cdr_find_by_session_def find_idx_Some_iff demo_full_def)
  have "\<not> cdr_detect_overflow 900 (cr_last_bytes_in (cm_records (cdrs demo_full) ! 0))"
    by (simp add: demo_full_def demo_cdr_def detect_overflow_nat)
  with failed_rollover_keeps_counters [OF inv cnt hit e refl refl] e show ?thesis by simp
qed

end
