(* ===== verification/Softfloat.thy ===== *)
theory Softfloat
  imports Complex_Main "HOL-Library.Log_Nat" CString
begin

text \<open>
  Binary floating point as the sources use it: a \<open>float\<close> or \<open>double\<close> is the rational number it
  stands for, and every arithmetic operation is the exact one followed by rounding to 24 or 53
  significant bits, to nearest with ties to even. Infinities, NaN and the subnormal range are left
  out: the configured values are finite and of ordinary size.
\<close>

definition round_half_even :: "rat \<Rightarrow> int" where
  "round_half_even y =
     (let f = \<lfloor>y\<rfloor>; r = y - of_int f
      in if r < 1 / 2 then f else if r > 1 / 2 then f + 1 else if even f then f else f + 1)"

definition pow2 :: "int \<Rightarrow> rat" where
  "pow2 e = (if 0 \<le> e then 2 ^ nat e else 1 / 2 ^ nat (- e))"

text \<open>The exponent that leaves \<open>p\<close> bits before the binary point.\<close>

definition fp_exponent :: "nat \<Rightarrow> rat \<Rightarrow> int" where
  "fp_exponent p x =
     (let (n, d) = quotient_of \<bar>x\<bar>; e = bitlen n - bitlen d - int p
      in if \<bar>x\<bar> / pow2 e \<ge> 2 ^ p then e + 1 else e)"

definition round_fp :: "nat \<Rightarrow> rat \<Rightarrow> rat" where
  "round_fp p x =
     (if x = 0 then 0
      else let e = fp_exponent p x in of_int (round_half_even (x / pow2 e)) * pow2 e)"

definition to_float :: "rat \<Rightarrow> rat" where "to_float x = round_fp 24 x"

definition to_double :: "rat \<Rightarrow> rat" where "to_double x = round_fp 53 x"

text \<open>The C conversion of a floating-point value to \<open>uint32_t\<close>.\<close>

definition fp_to_u32 :: "rat \<Rightarrow> u32" where
  "fp_to_u32 x = word_of_int (if x < 0 then \<lceil>x\<rceil> else \<lfloor>x\<rfloor>)"

section \<open>Decimal text\<close>

text \<open>
  \<open>atof\<close> on decimal text: white space, a sign, digits with an optional fraction, and an optional
  exponent; the nearest \<open>double\<close>. Hexadecimal text, infinities and NaN are left out.
\<close>

definition scan_mantissa :: "string \<Rightarrow> int \<times> nat \<times> string" where
  "scan_mantissa s =
     (let (i, r) = scan_digits 0 s in
      case r of
        c # r2 \<Rightarrow> if c = CHR ''.'' then (let (m, r3) = scan_digits i r2 in (m, length r2 - length r3, r3)) else (i, 0, r)
      | [] \<Rightarrow> (i, 0, []))"

definition scan_exponent :: "string \<Rightarrow> int" where
  "scan_exponent s =
     (case s of
        c # r \<Rightarrow> if c = CHR ''e'' \<or> c = CHR ''E''
                 then (case r of
                         d # ds \<Rightarrow> if d = CHR ''-'' then - fst (scan_digits 0 ds)
                                   else if d = CHR ''+'' then fst (scan_digits 0 ds) else fst (scan_digits 0 r)
                       | [] \<Rightarrow> 0)
                 else 0
      | [] \<Rightarrow> 0)"

definition pow10 :: "int \<Rightarrow> rat" where
  "pow10 e = (if 0 \<le> e then 10 ^ nat e else 1 / 10 ^ nat (- e))"

definition atof :: "string \<Rightarrow> rat" where
  "atof s =
     (let t = skip_space s;
          neg = (t \<noteq> [] \<and> hd t = CHR ''-'');
          u = (if t \<noteq> [] \<and> (hd t = CHR ''-'' \<or> hd t = CHR ''+'') then tl t else t);
          (m, k, r) = scan_mantissa u
      in to_double (of_int (if neg then - m else m) * pow10 (scan_exponent r - int k)))"

section \<open>Integers of at most \<open>p\<close> bits are exact\<close>

lemma round_half_even_int [simp]: "round_half_even (of_int i) = i"
  by (simp add: round_half_even_def)

lemma pow2_nonzero [simp]: "pow2 e \<noteq> 0"
  by (simp add: pow2_def)

lemma pow2_neg: "e \<le> 0 \<Longrightarrow> x / pow2 e = x * 2 ^ nat (- e)"
  by (cases "e = 0") (simp_all add: pow2_def)

lemma quotient_of_abs_int: "quotient_of \<bar>of_int i\<bar> = (\<bar>i\<bar>, 1)"
  by (simp flip: of_int_abs add: quotient_of_int)

lemma fp_exponent_int:
  assumes "i \<noteq> 0" and "\<bar>i\<bar> < 2 ^ p"
  shows "fp_exponent p (of_int i) = bitlen \<bar>i\<bar> - int p \<and> bitlen \<bar>i\<bar> - int p \<le> 0"
proof -
  let ?k = "bitlen \<bar>i\<bar>"
  have pos: "0 < ?k" using assms(1) bitlen_nonneg [of "\<bar>i\<bar>"] bitlen_eq_zero_iff [of "\<bar>i\<bar>"] by linarith
  have le: "?k \<le> int p" using assms(2) by (simp add: bitlen_le_iff_power)
  have lo: "2 ^ nat (?k - 1) \<le> \<bar>i\<bar>" using assms(1) bitlen_bounds [of "\<bar>i\<bar>"] by simp
  have "2 ^ p = (2 ^ nat (?k - 1) * 2 ^ nat (- (?k - 1 - int p)) :: int)"
    using pos le by (simp add: nat_diff_distrib power_add [symmetric])
  also have "\<dots> \<le> \<bar>i\<bar> * 2 ^ nat (- (?k - 1 - int p))" using lo by simp
  finally have "(2 :: rat) ^ p \<le> of_int (\<bar>i\<bar> * 2 ^ nat (- (?k - 1 - int p)))"
    by (metis of_int_le_iff of_int_numeral of_int_power)
  then have "(2 :: rat) ^ p \<le> \<bar>of_int i\<bar> / pow2 (?k - 1 - int p)"
    using le by (simp add: pow2_neg)
  moreover have "bitlen 1 = 1" by (simp add: compute_bitlen [of 1])
  ultimately show ?thesis using le by (simp add: fp_exponent_def quotient_of_abs_int Let_def)
qed

lemma round_fp_int:
  assumes "\<bar>i\<bar> < 2 ^ p"
  shows "round_fp p (of_int i) = of_int i"
proof (cases "i = 0")
  case False
  let ?e = "bitlen \<bar>i\<bar> - int p"
  have e: "fp_exponent p (of_int i) = ?e" "?e \<le> 0" using fp_exponent_int [OF False assms] by auto
  have x: "(of_int i :: rat) / pow2 ?e = of_int (i * 2 ^ nat (- ?e))" using e(2) by (simp add: pow2_neg)
  have "of_int (round_half_even (of_int i / pow2 ?e)) * pow2 ?e = (of_int i :: rat)"
    by (subst x, subst round_half_even_int, subst x [symmetric]) simp
  then show ?thesis using False e(1) by (simp add: round_fp_def)
qed (simp add: round_fp_def)

lemma to_float_nat: "n < 2 ^ 24 \<Longrightarrow> to_float (of_nat n) = of_nat n"
  using round_fp_int [of "int n" 24] by (simp add: to_float_def)

end
