(* ===== verification/Config.thy ===== *)
theory Config
  imports Softfloat
begin

text \<open>
  The configuration (\<open>src/app_magic/magic_config.h\<close>, \<open>magic_config.c\<close>): the structures that the
  configuration files are loaded into, the readers of enumerated values and the look-ups that the
  rest of the server uses.

  An array with a counter is a list and the counter; a loop that runs to the counter visits the
  first \<open>counter\<close> elements of the list. The configuration pointer is always valid. A look-up that
  returns a pointer into an array returns the index.
\<close>

section \<open>Data links\<close>

datatype DLMType = DLM_TYPE_UNKNOWN | DLM_TYPE_SATELLITE | DLM_TYPE_CELLULAR | DLM_TYPE_HYBRID

datatype LoadBalanceAlgorithm = LB_ALGO_UNKNOWN | LB_ALGO_ROUND_ROBIN | LB_ALGO_LEAST_LOADED | LB_ALGO_PRIORITY

datatype Coverage = COVERAGE_UNKNOWN | COVERAGE_GLOBAL | COVERAGE_TERRESTRIAL | COVERAGE_GATE_ONLY

record CoverageConfig =
  cv_enabled :: bool
  cv_min_latitude :: rat
  cv_max_latitude :: rat
  cv_min_longitude :: rat
  cv_max_longitude :: rat
  cv_min_altitude_ft :: u32
  cv_max_altitude_ft :: u32

record LoadBalanceConfig =
  lb_algorithm :: LoadBalanceAlgorithm
  lb_enable_failover :: bool
  lb_health_check_interval_sec :: u32

record DLMConfig =
  dc_dlm_name :: string
  dc_description :: string
  dc_enabled :: bool
  dc_dlm_type :: DLMType
  dc_link_name :: string
  dc_link_number :: u32
  dc_max_forward_bw_kbps :: rat
  dc_max_return_bw_kbps :: rat
  dc_oversubscription_ratio :: rat
  dc_supported_qos :: "u8 list"
  dc_num_supported_qos :: u32
  dc_latency_ms :: u32
  dc_jitter_ms :: u32
  dc_packet_loss_rate :: rat
  dc_mihf_id :: string
  dc_dlm_socket_path :: string
  dc_load_balance :: LoadBalanceConfig
  dc_coverage :: CoverageConfig
  dc_is_active :: bool

section \<open>Central policy\<close>

datatype PolicyAction = ACTION_DEFAULT | ACTION_PERMIT | ACTION_PROHIBIT

record PathPreference =
  pp_ranking :: u32
  pp_link_id :: string
  pp_action :: PolicyAction
  pp_security_required :: string
  pp_has_max_latency :: bool
  pp_max_latency_ms :: u32
  pp_on_ground_only :: bool
  pp_airborne_only :: bool

record PolicyRule =
  pl_traffic_class :: string
  pl_preferences :: "PathPreference list"
  pl_num_preferences :: u32

record PolicyRuleSet =
  ps_ruleset_id :: string
  ps_flight_phases :: string
  ps_rules :: "PolicyRule list"
  ps_num_rules :: u32

record TrafficClassDefinition =
  tc_traffic_class_id :: string
  tc_has_priority_class_match :: bool
  tc_match_priority_class :: u8
  tc_has_qos_level_match :: bool
  tc_match_qos_level :: u8
  tc_num_patterns :: u32
  tc_match_patterns :: "string list"
  tc_is_default :: bool

record SwitchingPolicy =
  sp_min_dwell_time_sec :: u32
  sp_hysteresis_percentage :: u32

record CentralPolicyProfile =
  cp_available_links :: "string list"
  cp_num_links :: u32
  cp_traffic_class_defs :: "TrafficClassDefinition list"
  cp_num_traffic_class_defs :: u32
  cp_switching_policy :: SwitchingPolicy
  cp_rulesets :: "PolicyRuleSet list"
  cp_num_rulesets :: u32

section \<open>Clients\<close>

datatype CfgFlightPhase =
    CFG_FLIGHT_PHASE_GATE | CFG_FLIGHT_PHASE_TAXI | CFG_FLIGHT_PHASE_TAKE_OFF | CFG_FLIGHT_PHASE_CLIMB
  | CFG_FLIGHT_PHASE_CRUISE | CFG_FLIGHT_PHASE_DESCENT | CFG_FLIGHT_PHASE_APPROACH | CFG_FLIGHT_PHASE_LANDING
  | CFG_FLIGHT_PHASE_MAINTENANCE | CFG_FLIGHT_PHASE_UNKNOWN

datatype PriorityType = PRIORITY_TYPE_UNKNOWN | PRIORITY_TYPE_BLOCKING | PRIORITY_TYPE_PREEMPTION

record ClientAuthConfig =
  ca_username :: string
  ca_client_password :: string
  ca_server_password :: string
  ca_source_ip :: string

record BandwidthConfig =
  bw_max_forward_kbps :: u32
  bw_max_return_kbps :: u32
  bw_guaranteed_forward_kbps :: u32
  bw_guaranteed_return_kbps :: u32
  bw_default_request_kbps :: u32

record QoSConfig =
  qc_priority_type :: PriorityType
  qc_priority_class :: u8
  qc_default_level :: u8
  qc_allowed_levels :: "u8 list"
  qc_num_allowed_levels :: u32

record LinkPolicyConfig =
  lk_allowed_dlms :: "string list"
  lk_num_allowed_dlms :: u32
  lk_preferred_dlm :: string
  lk_allow_multi_link :: bool
  lk_max_concurrent_links :: u32

record SessionPolicyConfig =
  sc_max_concurrent_sessions :: u32
  sc_session_timeout_sec :: u32
  sc_auto_reconnect :: bool
  sc_reconnect_delay_sec :: u32
  sc_allowed_phases :: "CfgFlightPhase list"
  sc_num_allowed_phases :: u32
  sc_allow_detailed_status :: bool
  sc_allow_registered_clients :: bool
  sc_msxr_rate_limit_sec :: u32
  sc_allow_cdr_control :: bool

record TrafficSecurityConfig =
  ts_encryption_required :: bool
  ts_allowed_protocols :: "string list"
  ts_num_allowed_protocols :: u32
  ts_allowed_tfts :: "string list"
  ts_num_allowed_tfts :: u32
  ts_dest_ip_range :: string
  ts_dest_port_range :: string
  ts_source_port_range :: string
  ts_max_packet_size :: u32

record LocationConstraintConfig =
  lo_geo_restriction_enabled :: bool
  lo_allowed_regions :: "string list"
  lo_num_allowed_regions :: u32
  lo_require_coverage :: bool
  lo_min_coverage_type :: Coverage

record ClientProfile =
  cl_profile_name :: string
  cl_client_id :: string
  cl_description :: string
  cl_enabled :: bool
  cl_auth :: ClientAuthConfig
  cl_bandwidth :: BandwidthConfig
  cl_qos :: QoSConfig
  cl_link_policy :: LinkPolicyConfig
  cl_session :: SessionPolicyConfig
  cl_traffic :: TrafficSecurityConfig
  cl_location :: LocationConstraintConfig
  cl_is_online :: bool

record MagicConfig =
  mc_dlm_configs :: "DLMConfig list"
  mc_num_dlm_configs :: u32
  mc_policy :: CentralPolicyProfile
  mc_clients :: "ClientProfile list"
  mc_num_clients :: u32
  mc_load_time :: int
  mc_is_loaded :: bool
  mc_adif_degraded_mode :: bool

text \<open>The elements a loop up to the counter visits.\<close>

definition used_part :: "'a list \<Rightarrow> u32 \<Rightarrow> 'a list" where
  "used_part xs n = take (unat n) xs"

section \<open>Enumerated values\<close>

definition parse_link_type :: "string option \<Rightarrow> DLMType" where
  "parse_link_type s =
     (case s of None \<Rightarrow> DLM_TYPE_UNKNOWN
      | Some x \<Rightarrow> if x = ''SATELLITE'' then DLM_TYPE_SATELLITE
                  else if x = ''CELLULAR'' then DLM_TYPE_CELLULAR
                  else if x = ''GATELINK'' \<or> x = ''HYBRID'' then DLM_TYPE_HYBRID else DLM_TYPE_UNKNOWN)"

definition parse_dlm_type :: "string option \<Rightarrow> DLMType" where
  "parse_dlm_type s =
     (case s of None \<Rightarrow> DLM_TYPE_UNKNOWN
      | Some x \<Rightarrow> let v = atoi x in
                  if v = 1 then DLM_TYPE_SATELLITE else if v = 2 then DLM_TYPE_CELLULAR
                  else if v = 3 then DLM_TYPE_HYBRID else DLM_TYPE_UNKNOWN)"

definition parse_load_balance_algorithm :: "string option \<Rightarrow> LoadBalanceAlgorithm" where
  "parse_load_balance_algorithm s =
     (case s of None \<Rightarrow> LB_ALGO_UNKNOWN
      | Some x \<Rightarrow> if x = ''RoundRobin'' then LB_ALGO_ROUND_ROBIN
                  else if x = ''LeastLoaded'' then LB_ALGO_LEAST_LOADED
                  else if x = ''Priority'' then LB_ALGO_PRIORITY
                  else let v = atoi x in
                       if v = 1 then LB_ALGO_ROUND_ROBIN else if v = 2 then LB_ALGO_LEAST_LOADED
                       else if v = 3 then LB_ALGO_PRIORITY else LB_ALGO_UNKNOWN)"

definition parse_coverage :: "string option \<Rightarrow> Coverage" where
  "parse_coverage s =
     (case s of None \<Rightarrow> COVERAGE_UNKNOWN
      | Some x \<Rightarrow> if x = ''GLOBAL'' then COVERAGE_GLOBAL
                  else if x = ''TERRESTRIAL'' then COVERAGE_TERRESTRIAL
                  else if x = ''GATE_ONLY'' then COVERAGE_GATE_ONLY else COVERAGE_UNKNOWN)"

definition parse_policy_action :: "string option \<Rightarrow> PolicyAction" where
  "parse_policy_action s =
     (case s of None \<Rightarrow> ACTION_DEFAULT
      | Some x \<Rightarrow> if x = ''PERMIT'' then ACTION_PERMIT
                  else if x = ''PROHIBIT'' then ACTION_PROHIBIT else ACTION_DEFAULT)"

definition magic_config_parse_flight_phase :: "string option \<Rightarrow> CfgFlightPhase" where
  "magic_config_parse_flight_phase s =
     (case s of None \<Rightarrow> CFG_FLIGHT_PHASE_UNKNOWN
      | Some x \<Rightarrow>
          if x = ''GATE'' then CFG_FLIGHT_PHASE_GATE
          else if x = ''TAXI'' then CFG_FLIGHT_PHASE_TAXI
          else if x = ''TAKE_OFF'' \<or> x = ''TAKEOFF'' then CFG_FLIGHT_PHASE_TAKE_OFF
          else if x = ''CLIMB'' then CFG_FLIGHT_PHASE_CLIMB
          else if x = ''CRUISE'' then CFG_FLIGHT_PHASE_CRUISE
          else if x = ''DESCENT'' then CFG_FLIGHT_PHASE_DESCENT
          else if x = ''APPROACH'' then CFG_FLIGHT_PHASE_APPROACH
          else if x = ''LANDING'' then CFG_FLIGHT_PHASE_LANDING
          else if x = ''MAINTENANCE'' then CFG_FLIGHT_PHASE_MAINTENANCE
          else CFG_FLIGHT_PHASE_UNKNOWN)"

definition parse_priority_type :: "string option \<Rightarrow> PriorityType" where
  "parse_priority_type s =
     (case s of None \<Rightarrow> PRIORITY_TYPE_UNKNOWN
      | Some x \<Rightarrow> let v = atoi x in
                  if v = 1 then PRIORITY_TYPE_BLOCKING else if v = 2 then PRIORITY_TYPE_PREEMPTION
                  else PRIORITY_TYPE_UNKNOWN)"

section \<open>Look-ups\<close>

definition magic_config_find_dlm :: "MagicConfig \<Rightarrow> string option \<Rightarrow> nat option" where
  "magic_config_find_dlm config dlm_name =
     (case dlm_name of None \<Rightarrow> None
      | Some n \<Rightarrow> find_idx (\<lambda>d. dc_dlm_name d = n) (used_part (mc_dlm_configs config) (mc_num_dlm_configs config)))"

definition magic_config_find_datalink :: "MagicConfig \<Rightarrow> string option \<Rightarrow> nat option" where
  "magic_config_find_datalink config link_id = magic_config_find_dlm config link_id"

text \<open>The comparison converts the altitude limits to \<open>double\<close>, which is exact.\<close>

definition in_box :: "CoverageConfig \<Rightarrow> rat \<Rightarrow> rat \<Rightarrow> rat \<Rightarrow> bool" where
  "in_box c lat lon alt_ft \<longleftrightarrow>
     \<not> (lat < cv_min_latitude c \<or> lat > cv_max_latitude c)
     \<and> \<not> (lon < cv_min_longitude c \<or> lon > cv_max_longitude c)
     \<and> \<not> (alt_ft < of_nat (unat (cv_min_altitude_ft c)) \<or> alt_ft > of_nat (unat (cv_max_altitude_ft c)))"

definition magic_config_check_dlm_coverage :: "DLMConfig option \<Rightarrow> rat \<Rightarrow> rat \<Rightarrow> rat \<Rightarrow> bool" where
  "magic_config_check_dlm_coverage dlm latitude longitude altitude_ft =
     (case dlm of None \<Rightarrow> True
      | Some d \<Rightarrow> if \<not> cv_enabled (dc_coverage d) then True
                  else in_box (dc_coverage d) latitude longitude altitude_ft)"

definition magic_config_dlm_supports_qos :: "DLMConfig \<Rightarrow> u8 \<Rightarrow> bool" where
  "magic_config_dlm_supports_qos d qos_level = list_ex (\<lambda>q. q = qos_level) (used_part (dc_supported_qos d) (dc_num_supported_qos d))"

definition magic_config_find_client :: "MagicConfig \<Rightarrow> string option \<Rightarrow> nat option" where
  "magic_config_find_client config client_id =
     (case client_id of None \<Rightarrow> None
      | Some n \<Rightarrow> find_idx (\<lambda>c. cl_client_id c = n) (used_part (mc_clients config) (mc_num_clients config)))"

definition magic_config_find_client_by_profile :: "MagicConfig \<Rightarrow> string option \<Rightarrow> nat option" where
  "magic_config_find_client_by_profile config profile_name =
     (case profile_name of None \<Rightarrow> None
      | Some n \<Rightarrow>
          (case find_idx (\<lambda>c. cl_profile_name c = n) (used_part (mc_clients config) (mc_num_clients config)) of
             None \<Rightarrow> None
           | Some i \<Rightarrow> if cl_enabled (mc_clients config ! i) then Some i else None))"

definition magic_config_is_dlm_allowed :: "ClientProfile \<Rightarrow> string option \<Rightarrow> bool" where
  "magic_config_is_dlm_allowed client dlm_id =
     (case dlm_id of None \<Rightarrow> False
      | Some n \<Rightarrow>
          if lk_num_allowed_dlms (cl_link_policy client) = 0 then True
          else list_ex (\<lambda>a. a = n) (used_part (lk_allowed_dlms (cl_link_policy client)) (lk_num_allowed_dlms (cl_link_policy client))))"

definition magic_config_is_qos_level_allowed :: "ClientProfile \<Rightarrow> u8 \<Rightarrow> bool" where
  "magic_config_is_qos_level_allowed client qos_level =
     (if qc_num_allowed_levels (cl_qos client) = 0 then True
      else list_ex (\<lambda>q. q = qos_level) (used_part (qc_allowed_levels (cl_qos client)) (qc_num_allowed_levels (cl_qos client))))"

definition magic_config_is_flight_phase_allowed :: "ClientProfile \<Rightarrow> CfgFlightPhase \<Rightarrow> bool" where
  "magic_config_is_flight_phase_allowed client phase =
     (if sc_num_allowed_phases (cl_session client) = 0 then True
      else list_ex (\<lambda>p. p = phase) (used_part (sc_allowed_phases (cl_session client)) (sc_num_allowed_phases (cl_session client))))"

definition magic_config_find_ruleset :: "MagicConfig \<Rightarrow> string \<Rightarrow> nat option" where
  "magic_config_find_ruleset config flight_phase =
     find_idx (\<lambda>r. strstr (ps_flight_phases r) flight_phase \<noteq> None)
       (used_part (cp_rulesets (mc_policy config)) (cp_num_rulesets (mc_policy config)))"

lemma used_part_subset: "x \<in> set (used_part xs n) \<Longrightarrow> x \<in> set xs"
  by (auto simp: used_part_def dest: in_set_takeD)

lemma used_part_nth: "i < length (used_part xs n) \<Longrightarrow> used_part xs n ! i = xs ! i"
  by (simp add: used_part_def)

lemma used_part_map: "map f (used_part xs n) = used_part (map f xs) n"
  by (simp add: used_part_def take_map)

end
