(* ===== verification/Tft.thy ===== *)
theory Tft
  imports Config
begin

text \<open>
  Packet-filter requests against a client's white list (\<open>src/magic_tft_validator_3gpp.c\<close>, types in
  \<open>src/app_magic/magic_tft_validator.h\<close>): the parser of the 3GPP filter text and the check of a
  requested filter against the filters the configuration allows.

  A parser that fails after the structure was cleared leaves it cleared: the model returns the whole
  rule. \<open>tft_validate_against_whitelist\<close> returns its result code and the error message.
  The static functions \<open>parse_whitelist_ip_range\<close> and \<open>parse_whitelist_port_range\<close> are never called.
\<close>

record IPRange =
  ir_start_ip :: u32
  ir_end_ip :: u32
  ir_is_valid :: bool

record PortRange =
  pr_start_port :: u16
  pr_end_port :: u16
  pr_is_valid :: bool

record TFTRule =
  tr_src_ip :: IPRange
  tr_dst_ip :: IPRange
  tr_src_port :: PortRange
  tr_dst_port :: PortRange
  tr_protocol :: u8
  tr_has_protocol :: bool
  tr_is_outbound :: bool
  tr_is_valid :: bool

definition zero_ip_range :: IPRange where
  "zero_ip_range = \<lparr>ir_start_ip = 0, ir_end_ip = 0, ir_is_valid = False\<rparr>"

definition any_port :: PortRange where
  "any_port = \<lparr>pr_start_port = 0, pr_end_port = 65535, pr_is_valid = True\<rparr>"

definition zero_port_range :: PortRange where
  "zero_port_range = \<lparr>pr_start_port = 0, pr_end_port = 0, pr_is_valid = False\<rparr>"

definition zero_rule :: TFTRule where
  "zero_rule = \<lparr>tr_src_ip = zero_ip_range, tr_dst_ip = zero_ip_range, tr_src_port = zero_port_range,
     tr_dst_port = zero_port_range, tr_protocol = 0, tr_has_protocol = False, tr_is_outbound = False,
     tr_is_valid = False\<rparr>"

section \<open>Addresses and ports\<close>

text \<open>\<open>None\<close> is the return value -1, which leaves the range as it was.\<close>

definition parse_ip_with_mask :: "string \<Rightarrow> string \<Rightarrow> IPRange option" where
  "parse_ip_with_mask ip_str mask_str =
     (case inet_pton4 ip_str of None \<Rightarrow> None
      | Some ip \<Rightarrow>
          (case inet_pton4 mask_str of None \<Rightarrow> None
           | Some mk \<Rightarrow> Some \<lparr>ir_start_ip = and ip mk, ir_end_ip = or ip (and (not mk) 0xFFFFFFFF),
                               ir_is_valid = True\<rparr>))"

definition parse_port_range_3gpp :: "string \<Rightarrow> PortRange option" where
  "parse_port_range_3gpp s =
     (case sscanf_d_dot_d s of None \<Rightarrow> None
      | Some (start, stop) \<Rightarrow>
          if start < 0 \<or> start > 65535 \<or> stop < 0 \<or> stop > 65535 \<or> start > stop then None
          else Some \<lparr>pr_start_port = word_of_int start, pr_end_port = word_of_int stop, pr_is_valid = True\<rparr>)"

definition ip_range_contains :: "IPRange \<Rightarrow> IPRange \<Rightarrow> bool" where
  "ip_range_contains ip wl \<longleftrightarrow>
     ir_is_valid ip \<and> ir_is_valid wl \<and> ir_start_ip ip \<ge> ir_start_ip wl \<and> ir_end_ip ip \<le> ir_end_ip wl"

definition port_range_contains :: "PortRange \<Rightarrow> PortRange \<Rightarrow> bool" where
  "port_range_contains port wl \<longleftrightarrow>
     pr_is_valid port \<and> pr_is_valid wl \<and> pr_start_port port \<ge> pr_start_port wl \<and> pr_end_port port \<le> pr_end_port wl"

section \<open>The filter text\<close>

text \<open>
  The cutting loop: at most \<open>k\<close> more parts of fewer than 16 characters, and the text that is left.
\<close>

fun octet_loop :: "nat \<Rightarrow> string \<Rightarrow> string list \<times> string" where
  "octet_loop 0 s = ([], s)"
| "octet_loop (Suc k) s =
     (case strchr_split (CHR ''.'') s of None \<Rightarrow> ([], s)
      | Some (part, rest) \<Rightarrow>
          if length part < 16 then (let (os, r) = octet_loop k rest in (part # os, r)) else ([], s))"

definition octets :: "string \<Rightarrow> string list" where
  "octets s = (let (os, r) = octet_loop 8 s in if length os < 8 \<and> length r < 16 then os @ [r] else os)"

definition dotted :: "string \<Rightarrow> string \<Rightarrow> string \<Rightarrow> string \<Rightarrow> string" where
  "dotted a b c d = snprintf_buf 64 (a @ ''.'' @ b @ ''.'' @ c @ ''.'' @ d)"

text \<open>An address field: eight parts give an address and a mask; otherwise the range stays cleared.\<close>

definition parse_addr_field :: "string \<Rightarrow> IPRange" where
  "parse_addr_field f =
     (case octets f of
        [a, b, c, d, e, g, h, i] \<Rightarrow>
          (case parse_ip_with_mask (dotted a b c d) (dotted e g h i) of Some r \<Rightarrow> r | None \<Rightarrow> zero_ip_range)
      | _ \<Rightarrow> zero_ip_range)"

definition parse_dst_field :: "string \<Rightarrow> IPRange" where
  "parse_dst_field f =
     (if length (octets f) = 8 then parse_addr_field f
      else if f = ''0.0.0.0.0.0.0.0'' then \<lparr>ir_start_ip = 0, ir_end_ip = 0xFFFFFFFF, ir_is_valid = True\<rparr>
      else zero_ip_range)"

definition parse_port_field :: "string \<Rightarrow> PortRange" where
  "parse_port_field f = (case parse_port_range_3gpp f of Some r \<Rightarrow> r | None \<Rightarrow> any_port)"

text \<open>At most 15 fields; the last keeps the text that follows it. An empty text has no field.\<close>

definition tft_fields :: "string \<Rightarrow> string list" where
  "tft_fields s = (if s = [] then [] else split_max 14 (CHR '','') s)"

definition field :: "string list \<Rightarrow> nat \<Rightarrow> string" where
  "field cut_fields i = (if i < length cut_fields then cut_fields ! i else [])"

text \<open>The prefix of the text decides the direction.\<close>

definition strip_prefix :: "string \<Rightarrow> bool \<times> string" where
  "strip_prefix s =
     (if has_prefix ''_iTFT='' s then (True, drop 6 s)
      else if has_prefix ''+CGTFT='' s then (False, drop 7 s) else (False, s))"

definition tft_parse_rule :: "string option \<Rightarrow> int \<times> TFTRule" where
  "tft_parse_rule tft_string =
     (case tft_string of None \<Rightarrow> (-1, zero_rule)
      | Some s \<Rightarrow>
          let (outbound, start) = strip_prefix (strncpy_buf 511 s);
              f = field (tft_fields start)
          in (0, \<lparr>tr_src_ip = (if f 3 \<noteq> [] then parse_addr_field (f 3) else zero_ip_range),
                  tr_dst_ip = (if f 4 \<noteq> [] then parse_dst_field (f 4) else zero_ip_range),
                  tr_src_port = (if f 7 \<noteq> [] then parse_port_field (f 7) else any_port),
                  tr_dst_port = (if f 6 \<noteq> [] then parse_port_field (f 6) else any_port),
                  tr_protocol = (if f 5 \<noteq> [] then word_of_int (atoi (f 5)) else 0),
                  tr_has_protocol = (f 5 \<noteq> []), tr_is_outbound = outbound, tr_is_valid = True\<rparr>))"

section \<open>The white list\<close>

definition protocol_matches :: "TFTRule \<Rightarrow> TFTRule \<Rightarrow> bool" where
  "protocol_matches req wl \<longleftrightarrow>
     \<not> (tr_has_protocol wl \<and> tr_protocol wl \<noteq> 0 \<and> tr_protocol req \<noteq> tr_protocol wl)"

definition ip_matches :: "IPRange \<Rightarrow> IPRange \<Rightarrow> bool" where
  "ip_matches req wl \<longleftrightarrow>
     \<not> (ir_is_valid wl \<and> ir_is_valid req \<and> (ir_start_ip req < ir_start_ip wl \<or> ir_end_ip req > ir_end_ip wl))"

definition port_matches :: "PortRange \<Rightarrow> PortRange \<Rightarrow> bool" where
  "port_matches req wl \<longleftrightarrow>
     \<not> (pr_is_valid wl \<and> pr_is_valid req \<and> \<not> (pr_start_port wl = 0 \<and> pr_end_port wl = 65535)
        \<and> (pr_start_port req < pr_start_port wl \<or> pr_end_port req > pr_end_port wl))"

definition entry_allows :: "TFTRule \<Rightarrow> TFTRule \<Rightarrow> bool" where
  "entry_allows req wl \<longleftrightarrow>
     protocol_matches req wl \<and> ip_matches (tr_src_ip req) (tr_src_ip wl) \<and> ip_matches (tr_dst_ip req) (tr_dst_ip wl)
     \<and> port_matches (tr_dst_port req) (tr_dst_port wl) \<and> port_matches (tr_src_port req) (tr_src_port wl)"

fun whitelist_loop :: "TFTRule \<Rightarrow> string list \<Rightarrow> bool" where
  "whitelist_loop req [] = False"
| "whitelist_loop req (w # ws) =
     (let (r, wl) = tft_parse_rule (Some w) in
      if r \<noteq> 0 then whitelist_loop req ws
      else if entry_allows req wl then True else whitelist_loop req ws)"

text \<open>White space is cut off at both ends; the cut at the end never takes the first character.\<close>

definition normalize_tft :: "string \<Rightarrow> string" where
  "normalize_tft s =
     (case strncpy_buf 511 (dropWhile isspace s) of [] \<Rightarrow> []
      | c # cs \<Rightarrow> c # rev (dropWhile isspace (rev cs)))"

definition reject_message :: "nat \<Rightarrow> TFTRule \<Rightarrow> u32 \<Rightarrow> string" where
  "reject_message len r n =
     snprintf_buf len (''TFT not in whitelist: src_port='' @ show_word (pr_start_port (tr_src_port r)) @ ''-''
       @ show_word (pr_end_port (tr_src_port r)) @ '', dst_port='' @ show_word (pr_start_port (tr_dst_port r)) @ ''-''
       @ show_word (pr_end_port (tr_dst_port r)) @ '' (checked '' @ show_word n @ '' entries)'')"

definition tft_validate_against_whitelist ::
  "string option \<Rightarrow> TrafficSecurityConfig \<Rightarrow> nat \<Rightarrow> int \<times> string" where
  "tft_validate_against_whitelist tft_string wl error_msg_len =
     (case tft_string of None \<Rightarrow> (-2, [])
      | Some s \<Rightarrow>
          if ts_num_allowed_tfts wl = 0
          then (-1, snprintf_buf error_msg_len ''No TFT whitelist configured for this client'')
          else
            let (r, req) = tft_parse_rule (Some (normalize_tft s)) in
            if r \<noteq> 0 \<or> \<not> tr_is_valid req
            then (-2, snprintf_buf error_msg_len ''Failed to parse requested TFT rule'')
            else if whitelist_loop req (take (unat (ts_num_allowed_tfts wl)) (ts_allowed_tfts wl)) then (0, [])
            else (-1, reject_message error_msg_len req (ts_num_allowed_tfts wl)))"

end
