(* ===== verification/Tft_Props.thy ===== *)
theory Tft_Props
  imports Tft
begin

text \<open>
  Correctness of the white-list check. A rule denotes the set of packets it admits; the check of one
  dimension (source address, destination address, ports, protocol) is the inclusion of the sets of
  that dimension, and the locale \<open>selector\<close> composes dimensions. The check is then inclusion of the
  admitted packets whenever the request's addresses were parsed, and says nothing about addresses
  when they were not.
\<close>

unbundle bit_operations_syntax

section \<open>What a rule admits\<close>

definition ip_set :: "IPRange \<Rightarrow> u32 set" where
  "ip_set r = (if ir_is_valid r then {ir_start_ip r..ir_end_ip r} else UNIV)"

definition port_set :: "PortRange \<Rightarrow> u16 set" where
  "port_set r = (if pr_is_valid r then {pr_start_port r..pr_end_port r} else UNIV)"

definition proto_set :: "TFTRule \<Rightarrow> u8 set" where
  "proto_set r = (if tr_has_protocol r \<and> tr_protocol r \<noteq> 0 then {tr_protocol r} else UNIV)"

text \<open>Addresses (source, destination), ports (destination, source) and protocol of an admitted packet.\<close>

definition rule_admits :: "TFTRule \<Rightarrow> ((u32 \<times> u32) \<times> (u16 \<times> u16) \<times> u8) set" where
  "rule_admits r = (ip_set (tr_src_ip r) \<times> ip_set (tr_dst_ip r)) \<times> (port_set (tr_dst_port r) \<times> port_set (tr_src_port r)) \<times> proto_set r"

section \<open>Checks that are inclusions\<close>

locale selector =
  fixes wf :: "'r \<Rightarrow> bool" and den :: "'r \<Rightarrow> 'v set" and check :: "'r \<Rightarrow> 'r \<Rightarrow> bool"
  assumes nonempty: "wf r \<Longrightarrow> den r \<noteq> {}"
    and exact: "wf r \<Longrightarrow> check r w \<longleftrightarrow> den r \<subseteq> den w"

locale selector_pair = a: selector wf1 den1 check1 + b: selector wf2 den2 check2
  for wf1 :: "'r \<Rightarrow> bool" and den1 :: "'r \<Rightarrow> 'v set" and check1
    and wf2 :: "'r \<Rightarrow> bool" and den2 :: "'r \<Rightarrow> 'w set" and check2

sublocale selector_pair \<subseteq> both: selector "\<lambda>r. wf1 r \<and> wf2 r" "\<lambda>r. den1 r \<times> den2 r" "\<lambda>r w. check1 r w \<and> check2 r w"
proof
  show "den1 r \<times> den2 r \<noteq> {}" if "wf1 r \<and> wf2 r" for r
    using that a.nonempty b.nonempty by blast
  show "(check1 r w \<and> check2 r w) \<longleftrightarrow> den1 r \<times> den2 r \<subseteq> den1 w \<times> den2 w" if "wf1 r \<and> wf2 r" for r w
    using that a.nonempty [of r] b.nonempty [of r] a.exact [of r w] b.exact [of r w]
    by (auto simp: times_subset_iff)
qed

definition ip_wf :: "IPRange \<Rightarrow> bool" where
  "ip_wf r \<longleftrightarrow> ir_is_valid r \<and> ir_start_ip r \<le> ir_end_ip r"

definition port_wf :: "PortRange \<Rightarrow> bool" where
  "port_wf r \<longleftrightarrow> pr_is_valid r \<and> pr_start_port r \<le> pr_end_port r"

definition proto_wf :: "TFTRule \<Rightarrow> bool" where
  "proto_wf r \<longleftrightarrow> (tr_protocol r \<noteq> 0 \<longrightarrow> tr_has_protocol r)"

lemma ip_exact: "ip_wf r \<Longrightarrow> ip_matches r w \<longleftrightarrow> ip_set r \<subseteq> ip_set w"
  by (auto simp: ip_wf_def ip_matches_def ip_set_def not_less)

lemma any_port_UNIV: "{0..65535} = (UNIV :: u16 set)"
proof -
  have "x \<le> 65535" for x :: u16
    using unsigned_less [of x, where 'a = nat] by (simp add: word_le_nat_alt)
  then show ?thesis by auto
qed

lemma port_exact: "port_wf r \<Longrightarrow> port_matches r w \<longleftrightarrow> port_set r \<subseteq> port_set w"
  by (cases "pr_start_port w = 0 \<and> pr_end_port w = 65535")
    (auto simp: port_wf_def port_matches_def port_set_def not_less any_port_UNIV)

lemma proto_exact: "proto_wf r \<Longrightarrow> protocol_matches r w \<longleftrightarrow> proto_set r \<subseteq> proto_set w"
proof -
  have "\<not> UNIV \<subseteq> {p :: u8}" for p
    by (metis UNIV_I singletonD subsetD zero_neq_one)
  then show "proto_wf r \<Longrightarrow> ?thesis"
    by (auto simp: proto_wf_def protocol_matches_def proto_set_def)
qed

interpretation src_addr: selector "\<lambda>r. ip_wf (tr_src_ip r)" "\<lambda>r. ip_set (tr_src_ip r)"
  "\<lambda>r w. ip_matches (tr_src_ip r) (tr_src_ip w)"
  by unfold_locales (simp_all add: ip_exact, simp add: ip_wf_def ip_set_def)

interpretation dst_addr: selector "\<lambda>r. ip_wf (tr_dst_ip r)" "\<lambda>r. ip_set (tr_dst_ip r)"
  "\<lambda>r w. ip_matches (tr_dst_ip r) (tr_dst_ip w)"
  by unfold_locales (simp_all add: ip_exact, simp add: ip_wf_def ip_set_def)

interpretation src_port: selector "\<lambda>r. port_wf (tr_src_port r)" "\<lambda>r. port_set (tr_src_port r)"
  "\<lambda>r w. port_matches (tr_src_port r) (tr_src_port w)"
  by unfold_locales (simp_all add: port_exact, simp add: port_wf_def port_set_def)

interpretation dst_port: selector "\<lambda>r. port_wf (tr_dst_port r)" "\<lambda>r. port_set (tr_dst_port r)"
  "\<lambda>r w. port_matches (tr_dst_port r) (tr_dst_port w)"
  by unfold_locales (simp_all add: port_exact, simp add: port_wf_def port_set_def)

interpretation protocol: selector proto_wf proto_set protocol_matches
  by unfold_locales (simp_all add: proto_exact, simp add: proto_set_def)

interpretation addrs: selector_pair "\<lambda>r. ip_wf (tr_src_ip r)" "\<lambda>r. ip_set (tr_src_ip r)"
  "\<lambda>r w. ip_matches (tr_src_ip r) (tr_src_ip w)" "\<lambda>r. ip_wf (tr_dst_ip r)" "\<lambda>r. ip_set (tr_dst_ip r)"
  "\<lambda>r w. ip_matches (tr_dst_ip r) (tr_dst_ip w)"
  by unfold_locales

interpretation ports: selector_pair "\<lambda>r. port_wf (tr_dst_port r)" "\<lambda>r. port_set (tr_dst_port r)"
  "\<lambda>r w. port_matches (tr_dst_port r) (tr_dst_port w)" "\<lambda>r. port_wf (tr_src_port r)" "\<lambda>r. port_set (tr_src_port r)"
  "\<lambda>r w. port_matches (tr_src_port r) (tr_src_port w)"
  by unfold_locales

interpretation ports_proto: selector_pair "\<lambda>r. port_wf (tr_dst_port r) \<and> port_wf (tr_src_port r)"
  "\<lambda>r. port_set (tr_dst_port r) \<times> port_set (tr_src_port r)"
  "\<lambda>r w. port_matches (tr_dst_port r) (tr_dst_port w) \<and> port_matches (tr_src_port r) (tr_src_port w)"
  proto_wf proto_set protocol_matches
  by unfold_locales

interpretation rule_check: selector_pair "\<lambda>r. ip_wf (tr_src_ip r) \<and> ip_wf (tr_dst_ip r)"
  "\<lambda>r. ip_set (tr_src_ip r) \<times> ip_set (tr_dst_ip r)"
  "\<lambda>r w. ip_matches (tr_src_ip r) (tr_src_ip w) \<and> ip_matches (tr_dst_ip r) (tr_dst_ip w)"
  "\<lambda>r. (port_wf (tr_dst_port r) \<and> port_wf (tr_src_port r)) \<and> proto_wf r"
  "\<lambda>r. (port_set (tr_dst_port r) \<times> port_set (tr_src_port r)) \<times> proto_set r"
  "\<lambda>r w. (port_matches (tr_dst_port r) (tr_dst_port w) \<and> port_matches (tr_src_port r) (tr_src_port w)) \<and> protocol_matches r w"
  by unfold_locales

section \<open>Parsed rules are well formed\<close>

lemma and_le_or: "and x (m :: u32) \<le> or x y"
  using word_and_le2 [of x m] le_word_or2 [of x y] by (meson order_trans)

lemma parse_ip_wf: "parse_ip_with_mask a b = Some r \<Longrightarrow> ip_wf r"
  by (auto simp: parse_ip_with_mask_def ip_wf_def and_le_or split: option.splits)

lemma addr_field_wf: "ir_is_valid (parse_addr_field f) \<Longrightarrow> ip_wf (parse_addr_field f)"
  by (auto simp: parse_addr_field_def zero_ip_range_def split: list.splits option.splits dest: parse_ip_wf)

lemma dst_field_wf: "ir_is_valid (parse_dst_field f) \<Longrightarrow> ip_wf (parse_dst_field f)"
  by (auto simp: parse_dst_field_def zero_ip_range_def addr_field_wf ip_wf_def [of "\<lparr>ir_start_ip = 0, ir_end_ip = e, ir_is_valid = True\<rparr>" for e] split: if_splits)

lemma parse_port_wf: "parse_port_range_3gpp f = Some r \<Longrightarrow> port_wf r"
  by (auto simp: parse_port_range_3gpp_def port_wf_def word_le_def unsigned_of_int take_bit_int_eq_self split: option.splits if_splits)

lemma port_field_wf: "port_wf (parse_port_field f)"
  by (auto simp: parse_port_field_def any_port_def port_wf_def split: option.splits dest: parse_port_wf [unfolded port_wf_def])

lemma any_port_wf: "port_wf any_port"
  by (simp add: any_port_def port_wf_def)

lemma parsed_rule_wf:
  assumes "tft_parse_rule (Some s) = (c, r)"
  shows "c = 0" "tr_is_valid r" "port_wf (tr_dst_port r)" "port_wf (tr_src_port r)" "proto_wf r"
    "ir_is_valid (tr_src_ip r) \<Longrightarrow> ip_wf (tr_src_ip r)" "ir_is_valid (tr_dst_ip r) \<Longrightarrow> ip_wf (tr_dst_ip r)"
  using assms
  by (auto simp: tft_parse_rule_def Let_def port_field_wf any_port_wf proto_wf_def zero_ip_range_def
      split: prod.splits if_splits intro!: addr_field_wf dst_field_wf)

section \<open>The check\<close>

abbreviation parsed :: "string \<Rightarrow> TFTRule" where
  "parsed s \<equiv> snd (tft_parse_rule (Some s))"

abbreviation allowed :: "TrafficSecurityConfig \<Rightarrow> string list" where
  "allowed cfg \<equiv> take (unat (ts_num_allowed_tfts cfg)) (ts_allowed_tfts cfg)"

lemma whitelist_loop_iff: "whitelist_loop req ws \<longleftrightarrow> (\<exists>w\<in>set ws. entry_allows req (parsed w))"
  by (induction ws) (auto simp: split: prod.splits dest: parsed_rule_wf(1))

lemma validate_accepts_iff:
  "fst (tft_validate_against_whitelist (Some s) cfg n) = 0
     \<longleftrightarrow> (\<exists>w\<in>set (allowed cfg). entry_allows (parsed (normalize_tft s)) (parsed w))"
proof -
  obtain c r where p: "tft_parse_rule (Some (normalize_tft s)) = (c, r)" by (rule prod.exhaust)
  show ?thesis
    using parsed_rule_wf(1,2) [OF p] p
    by (auto simp: tft_validate_against_whitelist_def Let_def whitelist_loop_iff)
qed

lemma ports_check:
  "(port_matches (tr_dst_port (parsed s)) (tr_dst_port w) \<and> port_matches (tr_src_port (parsed s)) (tr_src_port w)) \<and> protocol_matches (parsed s) w
   \<longleftrightarrow> (port_set (tr_dst_port (parsed s)) \<times> port_set (tr_src_port (parsed s))) \<times> proto_set (parsed s)
       \<subseteq> (port_set (tr_dst_port w) \<times> port_set (tr_src_port w)) \<times> proto_set w"
  using parsed_rule_wf(3-5) [OF surjective_pairing, of s] by (intro ports_proto.both.exact) simp

text \<open>A traffic section with the given white list and nothing else.\<close>

definition whitelist_of :: "string list \<Rightarrow> TrafficSecurityConfig" where
  "whitelist_of ws = \<lparr>ts_encryption_required = False, ts_allowed_protocols = [], ts_num_allowed_protocols = 0,
     ts_allowed_tfts = ws, ts_num_allowed_tfts = word_of_nat (length ws), ts_dest_ip_range = [], ts_dest_port_range = [],
     ts_source_port_range = [], ts_max_packet_size = 0\<rparr>"

definition lan_cfg :: TrafficSecurityConfig where
  "lan_cfg = whitelist_of [''_iTFT=,,,192.168.0.0.255.255.0.0,10.16.0.0.255.255.0.0,6,0.1023,0.65535'']"

text \<open>
  C11. For a request whose two addresses were parsed, the validator accepts exactly when the packets
  the request admits are among those that a single entry of the white list admits.
\<close>

theorem validator_is_inclusion:
  assumes "ir_is_valid (tr_src_ip (parsed (normalize_tft s)))" and "ir_is_valid (tr_dst_ip (parsed (normalize_tft s)))"
  shows "fst (tft_validate_against_whitelist (Some s) cfg n) = 0
           \<longleftrightarrow> (\<exists>w\<in>set (allowed cfg). rule_admits (parsed (normalize_tft s)) \<subseteq> rule_admits (parsed w))"
proof -
  let ?r = "parsed (normalize_tft s)"
  have "entry_allows ?r w \<longleftrightarrow> rule_admits ?r \<subseteq> rule_admits w" for w
    using rule_check.both.exact [of ?r w] parsed_rule_wf(3-7) [OF surjective_pairing, of "normalize_tft s"] assms
    by (auto simp: entry_allows_def rule_admits_def)
  then show ?thesis by (simp add: validate_accepts_iff)
qed

theorem validator_is_inclusion_witness:
  "fst (tft_validate_against_whitelist (Some '' _iTFT=,,,192.168.7.0.255.255.255.0,10.16.4.4.255.255.255.255,6,80.80,0.65535 '') lan_cfg 256) = 0
   \<and> rule_admits (parsed (normalize_tft '' _iTFT=,,,192.168.7.0.255.255.255.0,10.16.4.4.255.255.255.255,6,80.80,0.65535 ''))
       \<subseteq> rule_admits (parsed (hd (ts_allowed_tfts lan_cfg)))"
proof -
  let ?s = "'' _iTFT=,,,192.168.7.0.255.255.255.0,10.16.4.4.255.255.255.255,6,80.80,0.65535 ''"
  have v: "ir_is_valid (tr_src_ip (parsed (normalize_tft ?s)))" "ir_is_valid (tr_dst_ip (parsed (normalize_tft ?s)))" by code_simp+
  have ok: "fst (tft_validate_against_whitelist (Some ?s) lan_cfg 256) = 0" by code_simp
  then show ?thesis
    using validator_is_inclusion [OF v, of lan_cfg 256] by (simp add: lan_cfg_def whitelist_of_def)
qed

lemma entry_without_addresses:
  assumes "\<not> ir_is_valid (tr_src_ip r)" and "\<not> ir_is_valid (tr_dst_ip r)" and "r = parsed s"
  shows "entry_allows r w \<longleftrightarrow> port_set (tr_dst_port r) \<subseteq> port_set (tr_dst_port w)
    \<and> port_set (tr_src_port r) \<subseteq> port_set (tr_src_port w) \<and> proto_set r \<subseteq> proto_set w"
  using assms parsed_rule_wf(3-5) [OF surjective_pairing, of s]
  by (auto simp: entry_allows_def ip_matches_def dst_port.exact src_port.exact protocol.exact)

lemma rule_admits_nonempty:
  assumes "r = parsed s"
  shows "rule_admits r \<noteq> {}"
proof -
  note wf = parsed_rule_wf [OF surjective_pairing, of s]
  have "ip_set (tr_src_ip r) \<noteq> {}" "ip_set (tr_dst_ip r) \<noteq> {}"
    using src_addr.nonempty [of r] dst_addr.nonempty [of r] wf(6,7) assms by (auto simp: ip_set_def)
  then show ?thesis
    using dst_port.nonempty [of r] src_port.nonempty [of r] protocol.nonempty [of r] wf(3-5) assms
    by (auto simp: rule_admits_def)
qed

text \<open>
  A request whose address fields are missing or malformed is checked for ports and protocol only:
  every address restriction of the white list is ignored, although such a request admits packets
  that an entry with an address restriction does not.
\<close>

lemma unparsed_addresses_bypass_whitelist:
  assumes r: "r = parsed (normalize_tft s)"
    and src: "\<not> ir_is_valid (tr_src_ip r)" and dst: "\<not> ir_is_valid (tr_dst_ip r)"
  shows "(fst (tft_validate_against_whitelist (Some s) cfg n) = 0
           \<longleftrightarrow> (\<exists>w\<in>set (allowed cfg). port_set (tr_dst_port r) \<subseteq> port_set (tr_dst_port (parsed w))
                 \<and> port_set (tr_src_port r) \<subseteq> port_set (tr_src_port (parsed w)) \<and> proto_set r \<subseteq> proto_set (parsed w)))
       \<and> (\<forall>w. ip_set (tr_src_ip (parsed w)) \<noteq> UNIV \<or> ip_set (tr_dst_ip (parsed w)) \<noteq> UNIV
             \<longrightarrow> \<not> rule_admits r \<subseteq> rule_admits (parsed w))"
proof
  show "fst (tft_validate_against_whitelist (Some s) cfg n) = 0
           \<longleftrightarrow> (\<exists>w\<in>set (allowed cfg). port_set (tr_dst_port r) \<subseteq> port_set (tr_dst_port (parsed w))
                 \<and> port_set (tr_src_port r) \<subseteq> port_set (tr_src_port (parsed w)) \<and> proto_set r \<subseteq> proto_set (parsed w))"
    using entry_without_addresses [OF src dst r] by (simp add: validate_accepts_iff flip: r)
  have "ip_set (tr_src_ip r) = UNIV" "ip_set (tr_dst_ip r) = UNIV"
    using src dst by (simp_all add: ip_set_def)
  with rule_admits_nonempty [OF r]
  show "\<forall>w. ip_set (tr_src_ip (parsed w)) \<noteq> UNIV \<or> ip_set (tr_dst_ip (parsed w)) \<noteq> UNIV
             \<longrightarrow> \<not> rule_admits r \<subseteq> rule_admits (parsed w)"
    by (auto simp: rule_admits_def times_subset_iff)
qed

lemma unparsed_addresses_bypass_whitelist_witness:
  "fst (tft_validate_against_whitelist (Some ''_iTFT=,,,,,6,80.80,0.65535'') lan_cfg 256) = 0
   \<and> \<not> rule_admits (parsed (normalize_tft ''_iTFT=,,,,,6,80.80,0.65535'')) \<subseteq> rule_admits (parsed (hd (ts_allowed_tfts lan_cfg)))"
proof -
  let ?s = "''_iTFT=,,,,,6,80.80,0.65535''"
  have v: "\<not> ir_is_valid (tr_src_ip (parsed (normalize_tft ?s)))" "\<not> ir_is_valid (tr_dst_ip (parsed (normalize_tft ?s)))" by code_simp+
  have "ip_set (tr_src_ip (parsed (hd (ts_allowed_tfts lan_cfg)))) = {0xC0A80000..0xC0A8FFFF}"
  proof -
    have "tr_src_ip (parsed (hd (ts_allowed_tfts lan_cfg))) = \<lparr>ir_start_ip = 0xC0A80000, ir_end_ip = 0xC0A8FFFF, ir_is_valid = True\<rparr>"
      by code_simp
    then show ?thesis by (simp add: ip_set_def)
  qed
  moreover have "(0 :: u32) \<notin> {0xC0A80000..0xC0A8FFFF}" by simp
  ultimately have "ip_set (tr_src_ip (parsed (hd (ts_allowed_tfts lan_cfg)))) \<noteq> UNIV" by blast
  moreover have "fst (tft_validate_against_whitelist (Some ?s) lan_cfg 256) = 0" by code_simp
  ultimately show ?thesis
    using unparsed_addresses_bypass_whitelist [OF refl v, of lan_cfg 256] by blast
qed

text \<open>The example the validator's own documentation gives, without the packet filter fields.\<close>

definition documented_tft :: string where
  "documented_tft = ''_iTFT=,192.168.0.0.255.255.255.0,10.16.0.0.255.255.0.0,6,0.1023,0.65535,,,''"

text \<open>
  The filter the documentation gives as an example is read with all fields shifted: it admits
  every packet, and a white list that consists of it accepts every request.
\<close>

lemma documented_filter_is_unrestricted:
  "rule_admits (parsed documented_tft) = UNIV
   \<and> fst (tft_validate_against_whitelist (Some s) (whitelist_of [documented_tft]) n) = 0"
proof -
  have p: "parsed documented_tft = \<lparr>tr_src_ip = zero_ip_range, tr_dst_ip = zero_ip_range, tr_src_port = any_port,
     tr_dst_port = any_port, tr_protocol = 0, tr_has_protocol = True, tr_is_outbound = True, tr_is_valid = True\<rparr>"
    by code_simp
  have "entry_allows r (parsed documented_tft)" for r
    unfolding p by (simp add: entry_allows_def protocol_matches_def ip_matches_def port_matches_def zero_ip_range_def any_port_def)
  moreover have "rule_admits (parsed documented_tft) = UNIV"
    unfolding p by (simp add: rule_admits_def ip_set_def port_set_def proto_set_def zero_ip_range_def any_port_def any_port_UNIV)
  ultimately show ?thesis by (simp add: validate_accepts_iff whitelist_of_def)
qed

section \<open>Addresses with masks\<close>

lemma masked_in_range:
  assumes "a AND m = ip AND m"
  shows "ip AND m \<le> (a :: u32) \<and> a \<le> ip OR NOT m"
proof -
  have "a OR (ip OR NOT m) = ip OR NOT m"
  proof (rule bit_word_eqI)
    fix n assume "n < LENGTH(32)"
    have "bit (a AND m) n = bit (ip AND m) n" using assms by simp
    then show "bit (a OR (ip OR NOT m)) n = bit (ip OR NOT m) n" using \<open>n < LENGTH(32)\<close> by (auto simp: bit_simps)
  qed
  then have "a \<le> ip OR NOT m" by (metis le_word_or2 or.commute)
  moreover have "ip AND m \<le> a" by (metis assms word_and_le2)
  ultimately show ?thesis by simp
qed

lemma drop_bit_mono: "x \<le> y \<Longrightarrow> drop_bit k x \<le> drop_bit k (y :: u32)"
  by (simp only: word_le_nat_alt unat_drop_bit_eq) (simp add: drop_bit_eq_div div_le_mono)

lemma in_prefix_range:
  assumes "ip AND NOT (mask k) \<le> (a :: u32)" and "a \<le> ip OR mask k"
  shows "a AND NOT (mask k) = ip AND NOT (mask k)"
proof -
  have "drop_bit k (ip AND NOT (mask k)) = drop_bit k ip" "drop_bit k (ip OR mask k) = drop_bit k ip"
    by (rule bit_word_eqI, auto simp: bit_simps dest: bit_imp_le_length)+
  then have d: "drop_bit k a = drop_bit k ip"
    using drop_bit_mono [OF assms(1), of k] drop_bit_mono [OF assms(2), of k] by simp
  show ?thesis
  proof (rule bit_word_eqI)
    fix n assume "n < LENGTH(32)"
    show "bit (a AND NOT (mask k)) n = bit (ip AND NOT (mask k)) n"
    proof (cases "n < k")
      case False
      have "bit (drop_bit k a) (n - k) = bit (drop_bit k ip) (n - k)" using d by simp
      with False show ?thesis by (simp add: bit_simps)
    qed (simp add: bit_simps)
  qed
qed

text \<open>
  An address with a mask gives a range that contains all addresses of the network, and exactly
  those when the mask is a prefix mask.
\<close>

lemma mask_gives_network_range:
  assumes "inet_pton4 ip_str = Some ip" and "inet_pton4 mask_str = Some m"
  shows "\<exists>r. parse_ip_with_mask ip_str mask_str = Some r
           \<and> (\<forall>a. a AND m = ip AND m \<longrightarrow> a \<in> ip_set r)
           \<and> (\<forall>k. m = NOT (mask k) \<longrightarrow> (\<forall>a. a \<in> ip_set r \<longleftrightarrow> a AND m = ip AND m))"
proof -
  have f: "NOT m AND 0xFFFFFFFF = NOT m"
  proof -
    have e: "(0xFFFFFFFF :: u32) = - 1" by simp
    show ?thesis unfolding e by simp
  qed
  obtain r where p: "parse_ip_with_mask ip_str mask_str = Some r" "ip_set r = {ip AND m..ip OR NOT m}"
    using assms f by (auto simp: parse_ip_with_mask_def ip_set_def)
  have exact: "a AND m = ip AND m" if "m = NOT (mask k)" "a \<in> ip_set r" for a k
    using in_prefix_range [of ip k a] that p(2) by simp
  have cover: "a \<in> ip_set r" if "a AND m = ip AND m" for a
    using masked_in_range [OF that] p(2) by simp
  show ?thesis
  proof (intro exI [of _ r] conjI allI impI)
    show "(a \<in> ip_set r) = (a AND m = ip AND m)" if "m = NOT (mask k)" for k a
      using exact [OF that] cover by blast
  qed (rule p(1), erule cover)
qed

lemma mask_gives_network_range_witness:
  "\<exists>r. parse_ip_with_mask ''10.16.4.4'' ''255.255.0.0'' = Some r \<and> (0x0A10FFFE \<in> ip_set r \<and> 0x0A110000 \<notin> ip_set r)"
proof -
  have v: "inet_pton4 ''10.16.4.4'' = Some 0x0A100404" "inet_pton4 ''255.255.0.0'' = Some 0xFFFF0000" by code_simp+
  have m: "(0xFFFF0000 :: u32) = NOT (mask 16)" by (simp add: mask_eq_exp_minus_1)
  from mask_gives_network_range [OF v] obtain r where r: "parse_ip_with_mask ''10.16.4.4'' ''255.255.0.0'' = Some r"
      "\<forall>a. a \<in> ip_set r \<longleftrightarrow> a AND 0xFFFF0000 = 0x0A100404 AND 0xFFFF0000"
    using m by auto
  from r show ?thesis by simp
qed

section \<open>Reading the documented format\<close>

definition octets_of :: "u32 \<Rightarrow> string list" where
  "octets_of w = map show_dec [uint w div 2 ^ 24, uint w div 2 ^ 16 mod 256, uint w div 2 ^ 8 mod 256, uint w mod 256]"

lemma dotted_quad_no: "\<not> isdigit c \<Longrightarrow> c \<noteq> CHR ''.'' \<Longrightarrow> c \<notin> set (dotted_quad w)"
  using quad_octets [of w] by (simp add: dotted_quad_def show_dec_no)

lemma octet_text:
  assumes "0 \<le> n" and "n \<le> 255"
  shows "CHR ''.'' \<notin> set (show_dec n)" "length (show_dec n) < 16" "length (show_dec n) \<le> 3"
  using assms show_dec_length [of n 2] show_dec_no [of n "CHR ''.''"] by (simp_all add: isdigit_def)

lemma octet_loop_parts:
  "(\<And>p. p \<in> set ps \<Longrightarrow> CHR ''.'' \<notin> set p \<and> length p < 16) \<Longrightarrow> CHR ''.'' \<notin> set r \<Longrightarrow> length ps < k
   \<Longrightarrow> octet_loop k (concat (map (\<lambda>p. p @ ''.'') ps) @ r) = (ps, r)"
proof (induction ps arbitrary: k)
  case Nil
  then show ?case by (cases k) (simp_all add: strchr_split_None [THEN iffD2])
next
  case (Cons p ps)
  then obtain k' where k: "k = Suc k'" by (cases k) auto
  with Cons have "octet_loop k' (concat (map (\<lambda>p. p @ ''.'') ps) @ r) = (ps, r)" by simp
  then show ?case using Cons.prems(1) [of p] k by (simp add: strchr_split_append)
qed

lemma octets_parts:
  assumes "\<And>p. p \<in> set ps \<Longrightarrow> CHR ''.'' \<notin> set p \<and> length p < 16" and "length ps = 7" and "CHR ''.'' \<notin> set r" and "length r < 16"
  shows "octets (concat (map (\<lambda>p. p @ ''.'') ps) @ r) = ps @ [r]"
  using octet_loop_parts [of ps r 8] assms by (simp add: octets_def)

lemma octets_of_parts: "p \<in> set (octets_of w) \<Longrightarrow> CHR ''.'' \<notin> set p \<and> length p < 16 \<and> length p \<le> 3"
  using quad_octets [of w] octet_text by (auto simp: octets_of_def)

lemma octets_pair:
  "octets (dotted_quad ip @ CHR ''.'' # dotted_quad m) = octets_of ip @ octets_of m"
proof -
  let ?ps = "octets_of ip @ butlast (octets_of m)" and ?r = "last (octets_of m)"
  have "dotted_quad ip @ CHR ''.'' # dotted_quad m = concat (map (\<lambda>p. p @ ''.'') ?ps) @ ?r"
    by (simp add: dotted_quad_def octets_of_def)
  moreover have "octets (concat (map (\<lambda>p. p @ ''.'') ?ps) @ ?r) = ?ps @ [?r]"
    using octets_of_parts [of _ ip] octets_of_parts [of _ m]
    by (intro octets_parts) (auto simp: octets_of_def)
  moreover have "octets_of m \<noteq> []" by (simp add: octets_of_def)
  ultimately show ?thesis by simp
qed

lemma dotted_quad_length: "length (dotted_quad w) \<le> 15"
proof -
  have m: "length (show_dec (x mod 256)) \<le> 3" for x
    using pos_mod_bound [of 256 x] by (intro octet_text(3)) simp_all
  show ?thesis
    using m [of "uint w div 2 ^ 16"] m [of "uint w div 2 ^ 8"] m [of "uint w"]
      octet_text(3) [of "uint w div 2 ^ 24"] quad_octets [of w]
    by (simp add: dotted_quad_def)
qed

definition net_range :: "u32 \<Rightarrow> u32 \<Rightarrow> IPRange" where
  "net_range ip m = \<lparr>ir_start_ip = and ip m, ir_end_ip = or ip (and (not m) 0xFFFFFFFF), ir_is_valid = True\<rparr>"

lemma parse_addr_field_quads:
  "parse_addr_field (dotted_quad ip @ CHR ''.'' # dotted_quad m) = net_range ip m"
proof -
  have d: "dotted (show_dec (uint w div 2 ^ 24)) (show_dec (uint w div 2 ^ 16 mod 256))
      (show_dec (uint w div 2 ^ 8 mod 256)) (show_dec (uint w mod 256)) = dotted_quad w" for w :: u32
    unfolding dotted_def snprintf_buf_def
    using dotted_quad_length [of w] by (subst take_all) (simp_all add: dotted_quad_def)
  show ?thesis
    unfolding parse_addr_field_def octets_pair octets_of_def
    by (simp add: d [simplified] parse_ip_with_mask_def inet_pton4_dotted_quad net_range_def)
qed

lemma parse_dst_field_quads:
  "parse_dst_field (dotted_quad ip @ CHR ''.'' # dotted_quad m) = net_range ip m"
  by (simp add: parse_dst_field_def octets_pair parse_addr_field_quads octets_of_def)

lemma parse_port_field_show:
  assumes "a \<le> b"
  shows "parse_port_field (show_word a @ CHR ''.'' # show_word b) = \<lparr>pr_start_port = a, pr_end_port = b, pr_is_valid = True\<rparr>"
  using assms uint_lt2p [of a] uint_lt2p [of b]
  by (simp add: parse_port_field_def parse_port_range_3gpp_def show_word_def sscanf_d_dot_d_show word_le_def)

text \<open>The filter text of the documented format, with empty identifier, filter number and precedence.\<close>

definition tft_text :: "u32 \<times> u32 \<Rightarrow> u32 \<times> u32 \<Rightarrow> u8 \<Rightarrow> u16 \<times> u16 \<Rightarrow> u16 \<times> u16 \<Rightarrow> string" where
  "tft_text s d p dp sp = ''_iTFT=,,,'' @ dotted_quad (fst s) @ ''.'' @ dotted_quad (snd s) @ '','' @ dotted_quad (fst d) @ ''.''
     @ dotted_quad (snd d) @ '','' @ show_word p @ '','' @ show_word (fst dp) @ ''.'' @ show_word (snd dp) @ '',''
     @ show_word (fst sp) @ ''.'' @ show_word (snd sp)"

lemma tft_text_fields:
  "tft_fields (drop 6 (tft_text s d p dp sp)) = [[], [], [], dotted_quad (fst s) @ CHR ''.'' # dotted_quad (snd s),
     dotted_quad (fst d) @ CHR ''.'' # dotted_quad (snd d), show_word p, show_word (fst dp) @ CHR ''.'' # show_word (snd dp),
     show_word (fst sp) @ CHR ''.'' # show_word (snd sp)]"
proof -
  have q: "CHR '','' \<notin> set (dotted_quad w)" for w using dotted_quad_no [of "CHR '',''" w] by (simp add: isdigit_def)
  have n: "CHR '','' \<notin> set (show_word w)" for w :: "'a::len word" using show_dec_no [of "uint w" "CHR '',''"] by (simp add: isdigit_def show_word_def)
  have a: "split_max k (CHR '','') (a @ CHR ''.'' # b @ CHR '','' # r) = (a @ CHR ''.'' # b) # split_max (k - 1) (CHR '','') r"
    if "CHR '','' \<notin> set a" "CHR '','' \<notin> set b" "0 < k" for k a b r
    using split_max_append [of "CHR '',''" "a @ CHR ''.'' # b" k r] that by simp
  show ?thesis
    by (simp add: tft_fields_def tft_text_def a q n split_max_append split_max_no_delim)
qed

lemma tft_text_length: "length (tft_text s d p dp sp) \<le> 511"
  using dotted_quad_length [of "fst s"] dotted_quad_length [of "snd s"] dotted_quad_length [of "fst d"] dotted_quad_length [of "snd d"]
    show_word_length [of p] show_word_length [of "fst dp"] show_word_length [of "snd dp"] show_word_length [of "fst sp"] show_word_length [of "snd sp"]
  by (simp add: tft_text_def)

text \<open>
  C12. The text of a filter with addresses, masks, protocol and port ranges is read back as the rule
  with those networks, ports and protocol, outbound.
\<close>

theorem filter_text_roundtrip:
  assumes "fst dp \<le> snd dp" and "fst sp \<le> snd sp"
  shows "tft_parse_rule (Some (tft_text s d p dp sp)) =
    (0, \<lparr>tr_src_ip = net_range (fst s) (snd s), tr_dst_ip = net_range (fst d) (snd d),
         tr_src_port = \<lparr>pr_start_port = fst sp, pr_end_port = snd sp, pr_is_valid = True\<rparr>,
         tr_dst_port = \<lparr>pr_start_port = fst dp, pr_end_port = snd dp, pr_is_valid = True\<rparr>,
         tr_protocol = p, tr_has_protocol = True, tr_is_outbound = True, tr_is_valid = True\<rparr>)"
proof -
  have pre: "strip_prefix (tft_text s d p dp sp) = (True, drop 6 (tft_text s d p dp sp))"
    by (simp add: strip_prefix_def tft_text_def)
  have ne: "show_word w \<noteq> []" for w :: "'a::len word" by (simp add: show_word_def show_dec_nonempty)
  have proto: "word_of_int (atoi (show_word p)) = p"
    using uint_lt2p [of p] by (simp add: show_word_def atoi_show)
  show ?thesis
    using parse_port_field_show [OF assms(1)] parse_port_field_show [OF assms(2)] ne [of p]
    by (simp add: tft_parse_rule_def tft_text_length pre tft_text_fields field_def parse_addr_field_quads parse_dst_field_quads proto)
qed

theorem filter_text_roundtrip_witness:
  "tr_dst_ip (snd (tft_parse_rule (Some (tft_text (0x0A000000, 0xFF000000) (0xC0A80000, 0xFFFFFF00) 6 (80, 443) (0, 65535)))))
     = \<lparr>ir_start_ip = 0xC0A80000, ir_end_ip = 0xC0A800FF, ir_is_valid = True\<rparr>"
  using filter_text_roundtrip [of "(80, 443)" "(0, 65535)" "(0x0A000000, 0xFF000000)" "(0xC0A80000, 0xFFFFFF00)" 6]
  by (simp add: net_range_def)

end
