(* ===== verification/Napt.thy ===== *)
theory Napt
  imports Tft_Props
begin

text \<open>
  Address-translation rules (\<open>src/app_magic/magic_napt_validator.c\<close>): the parser of the eight-field
  rule text and the validator, which checks the format only.

  A \<open>NULL\<close> text or link address is \<open>None\<close>. The structure is cleared before it is filled, so a part
  that is not read stays zero.
\<close>

datatype NAPTType = NAPT_TYPE_SNAT | NAPT_TYPE_DNAT | NAPT_TYPE_UNKNOWN

record NAPTRule =
  nr_type :: NAPTType
  nr_src_ip :: IPRange
  nr_dst_ip :: IPRange
  nr_protocol :: u8
  nr_dst_port :: PortRange
  nr_src_port :: PortRange
  nr_to_ip :: IPRange
  nr_to_port :: PortRange
  nr_is_valid :: bool

definition zero_napt :: NAPTRule where
  "zero_napt = \<lparr>nr_type = NAPT_TYPE_SNAT, nr_src_ip = zero_ip_range, nr_dst_ip = zero_ip_range, nr_protocol = 0,
     nr_dst_port = zero_port_range, nr_src_port = zero_port_range, nr_to_ip = zero_ip_range,
     nr_to_port = zero_port_range, nr_is_valid = False\<rparr>"

text \<open>
  Return code and range. The text is cut at its last dot, the part before it is the address and the
  part after it the mask, which has to have three dots.
\<close>

definition parse_ip_mask :: "string \<Rightarrow> IPRange \<Rightarrow> string option \<Rightarrow> int \<times> IPRange" where
  "parse_ip_mask str rng link_ip =
     (if str = [] then (0, rng\<lparr>ir_is_valid := False\<rparr>)
      else case (if str = ''%LinkIp%'' then link_ip else Some str) of
             None \<Rightarrow> (0, rng\<lparr>ir_is_valid := False\<rparr>)
           | Some s \<Rightarrow>
               let buf = strncpy_buf 63 s in
               (case (case strrchr_split (CHR ''.'') buf of
                        None \<Rightarrow> Some (buf, 0xFFFFFFFF)
                      | Some (ip_part, mask_part) \<Rightarrow>
                          if count_if (\<lambda>c. c = CHR ''.'') mask_part = 3
                          then map_option (\<lambda>m. (ip_part, m)) (inet_pton4 mask_part) else None) of
                  None \<Rightarrow> (-1, rng)
                | Some (ip_part, m) \<Rightarrow>
                    (case inet_pton4 ip_part of None \<Rightarrow> (-1, rng)
                     | Some ip \<Rightarrow> (0, \<lparr>ir_start_ip = and ip m, ir_end_ip = or ip (not m), ir_is_valid = True\<rparr>))))"

definition parse_napt_port_range :: "string \<Rightarrow> PortRange \<Rightarrow> PortRange" where
  "parse_napt_port_range str rng =
     (if str = [] then rng\<lparr>pr_is_valid := False\<rparr>
      else case strchr_split (CHR ''.'') str of
             Some (_, rest) \<Rightarrow> \<lparr>pr_start_port = word_of_int (atoi str), pr_end_port = word_of_int (atoi rest), pr_is_valid = True\<rparr>
           | None \<Rightarrow> \<lparr>pr_start_port = word_of_int (atoi str), pr_end_port = word_of_int (atoi str), pr_is_valid = True\<rparr>)"

definition napt_type :: "string \<Rightarrow> NAPTType" where
  "napt_type s = (if strcasecmp_eq s ''SNAT'' then NAPT_TYPE_SNAT
                  else if strcasecmp_eq s ''DNAT'' then NAPT_TYPE_DNAT else NAPT_TYPE_UNKNOWN)"

definition napt_parse_rule :: "string option \<Rightarrow> string option \<Rightarrow> int \<times> NAPTRule" where
  "napt_parse_rule napt_str link_ip =
     (case napt_str of None \<Rightarrow> (-1, zero_napt)
      | Some s \<Rightarrow>
          (case take 8 (strtok_tokens (CHR '','') s) of
             [f0, f1, f2, f3, f4, f5, f6, f7] \<Rightarrow>
               (0, \<lparr>nr_type = napt_type f0, nr_src_ip = snd (parse_ip_mask f1 zero_ip_range link_ip),
                    nr_dst_ip = snd (parse_ip_mask f2 zero_ip_range link_ip), nr_protocol = word_of_int (atoi f3),
                    nr_dst_port = parse_napt_port_range f4 zero_port_range, nr_src_port = parse_napt_port_range f5 zero_port_range,
                    nr_to_ip = snd (parse_ip_mask f6 zero_ip_range link_ip), nr_to_port = parse_napt_port_range f7 zero_port_range,
                    nr_is_valid = True\<rparr>)
           | _ \<Rightarrow> (-1, zero_napt)))"

definition napt_validate_against_whitelist ::
  "string option \<Rightarrow> TrafficSecurityConfig \<Rightarrow> string option \<Rightarrow> string \<Rightarrow> nat \<Rightarrow> int \<times> string" where
  "napt_validate_against_whitelist napt_str wl link_ip error_msg error_msg_len =
     (if fst (napt_parse_rule napt_str link_ip) \<noteq> 0
      then (-2, snprintf_buf error_msg_len ''Malformed NAPT string (ARINC 839 format required)'')
      else (0, error_msg))"

section \<open>What is read\<close>

lemma parse_ip_mask_invalid: "\<not> ir_is_valid r \<Longrightarrow> \<not> ir_is_valid (snd (parse_ip_mask s r link_ip))"
proof -
  have "count_if (\<lambda>c. c = CHR ''.'') b = 0" if "strrchr_split (CHR ''.'') x = Some (a, b)" for x a b
    using strrchr_split_Some [OF that] by (auto simp: count_if_eq_0_iff)
  moreover have "inet_pton4 x = None" if "strrchr_split (CHR ''.'') x = None" for x
    using that by (simp add: strrchr_split_None inet_pton4_no_dot)
  ultimately show "\<not> ir_is_valid r \<Longrightarrow> ?thesis"
    by (fastforce simp: parse_ip_mask_def Let_def split: option.splits prod.splits if_splits)
qed

lemma length_8_cases: "length ys = 8 \<Longrightarrow> \<exists>a b c d e f g h. ys = [a, b, c, d, e, f, g, h]"
  by (auto simp: numeral_eq_Suc length_Suc_conv)

lemma take_8_cases:
  "(\<exists>a b c d e f g h. take 8 xs = [a, b, c, d, e, f, g, h]) \<longleftrightarrow> 8 \<le> length xs"
proof
  assume "8 \<le> length xs"
  then have "length (take 8 xs) = 8" by simp
  then show "\<exists>a b c d e f g h. take 8 xs = [a, b, c, d, e, f, g, h]"
    by (rule length_8_cases)
next
  assume "\<exists>a b c d e f g h. take 8 xs = [a, b, c, d, e, f, g, h]"
  then obtain a b c d e f g h where "take 8 xs = [a, b, c, d, e, f, g, h]" by blast
  then have "length (take 8 xs) = length [a, b, c, d, e, f, g, h]" by (simp only:)
  then show "8 \<le> length xs" by simp
qed

lemma napt_parse_code:
  "fst (napt_parse_rule (Some s) link_ip) = (if 8 \<le> length (strtok_tokens (CHR '','') s) then 0 else -1)"
  using take_8_cases [of "strtok_tokens (CHR '','') s"]
  by (auto simp: napt_parse_rule_def split: list.splits)

text \<open>
  The validator accepts exactly the texts with at least eight non-empty fields: neither the
  white list nor any address, port or type of the rule has an influence, and whatever is accepted
  was read without any of its addresses, since the address reader cuts at the last dot and then
  never finds a mask with three dots.
\<close>

lemma napt_check_is_format_only:
  "fst (napt_validate_against_whitelist (Some s) wl link_ip msg n) = (if 8 \<le> length (strtok_tokens (CHR '','') s) then 0 else -2)
   \<and> \<not> ir_is_valid (nr_src_ip (snd (napt_parse_rule (Some s) link_ip)))
   \<and> \<not> ir_is_valid (nr_dst_ip (snd (napt_parse_rule (Some s) link_ip)))
   \<and> \<not> ir_is_valid (nr_to_ip (snd (napt_parse_rule (Some s) link_ip)))"
proof -
  have z: "\<not> ir_is_valid (snd (parse_ip_mask f zero_ip_range link_ip))" for f
    by (rule parse_ip_mask_invalid) (simp add: zero_ip_range_def)
  have "\<not> ir_is_valid (nr_src_ip (snd (napt_parse_rule (Some s) link_ip)))
   \<and> \<not> ir_is_valid (nr_dst_ip (snd (napt_parse_rule (Some s) link_ip)))
   \<and> \<not> ir_is_valid (nr_to_ip (snd (napt_parse_rule (Some s) link_ip)))"
    using z by (simp add: napt_parse_rule_def zero_napt_def zero_ip_range_def split: list.splits)
  then show ?thesis by (simp add: napt_validate_against_whitelist_def napt_parse_code)
qed

end
