(* ===== verification/Config_Load.thy ===== *)
theory Config_Load
  imports Config
begin

text \<open>
  The loaders of the three configuration files (\<open>src/app_magic/magic_config.c\<close>).

  The document tree that libxml2 builds is the type \<open>xml_node\<close>: an element has a name, attributes and
  children; a text, CDATA or comment node has content. Which tree a file holds is the parameter
  \<open>read_xml\<close>, \<open>None\<close> when the file cannot be parsed or has no root element.
  Arrays of the configuration keep their capacity: a write to entry \<open>n\<close> is a list update.
\<close>

datatype xml_node = XElem string "(string \<times> string) list" "xml_node list" | XData string

section \<open>Access to the tree\<close>

fun node_children :: "xml_node \<Rightarrow> xml_node list" where
  "node_children (XElem _ _ cs) = cs"
| "node_children (XData _) = []"

fun is_elem :: "string \<Rightarrow> xml_node \<Rightarrow> bool" where
  "is_elem name (XElem n _ _) = (n = name)"
| "is_elem name (XData _) = False"

fun node_data :: "xml_node \<Rightarrow> string option" where
  "node_data (XData s) = Some s"
| "node_data (XElem _ _ _) = None"

definition get_node_content :: "xml_node option \<Rightarrow> string option" where
  "get_node_content node =
     (case node of None \<Rightarrow> None
      | Some n \<Rightarrow> (case node_children n of [] \<Rightarrow> None | c # _ \<Rightarrow> node_data c))"

definition find_child_node :: "xml_node option \<Rightarrow> string \<Rightarrow> xml_node option" where
  "find_child_node parent name = (case parent of None \<Rightarrow> None | Some p \<Rightarrow> List.find (is_elem name) (node_children p))"

definition get_child_content :: "xml_node option \<Rightarrow> string \<Rightarrow> string option" where
  "get_child_content parent name = get_node_content (find_child_node parent name)"

definition u32_of :: "string \<Rightarrow> u32" where
  "u32_of s = word_of_int (atoi s)"

definition get_child_uint32 :: "xml_node option \<Rightarrow> string \<Rightarrow> u32 \<Rightarrow> u32" where
  "get_child_uint32 parent name dflt = (case get_child_content parent name of Some c \<Rightarrow> u32_of c | None \<Rightarrow> dflt)"

definition get_attribute :: "xml_node \<Rightarrow> string \<Rightarrow> string option" where
  "get_attribute node name = (case node of XElem _ attrs _ \<Rightarrow> map_of attrs name | XData _ \<Rightarrow> None)"

definition get_child_float :: "xml_node option \<Rightarrow> string \<Rightarrow> rat \<Rightarrow> rat" where
  "get_child_float parent name dflt =
     (case get_child_content parent name of Some c \<Rightarrow> to_float (atof c) | None \<Rightarrow> dflt)"

definition get_child_double :: "xml_node option \<Rightarrow> string \<Rightarrow> rat \<Rightarrow> rat" where
  "get_child_double parent name dflt = (case get_child_content parent name of Some c \<Rightarrow> atof c | None \<Rightarrow> dflt)"

definition get_child_bool :: "xml_node option \<Rightarrow> string \<Rightarrow> bool \<Rightarrow> bool" where
  "get_child_bool parent name dflt =
     (case get_child_content parent name of None \<Rightarrow> dflt
      | Some c \<Rightarrow> if c = ''true'' \<or> c = ''1'' then True else if c = ''false'' \<or> c = ''0'' then False else dflt)"

definition copy_child :: "nat \<Rightarrow> xml_node option \<Rightarrow> string \<Rightarrow> string \<Rightarrow> string" where
  "copy_child n parent name old = (case get_child_content parent name of Some c \<Rightarrow> strncpy_buf n c | None \<Rightarrow> old)"

definition copy_attribute :: "nat \<Rightarrow> xml_node \<Rightarrow> string \<Rightarrow> string" where
  "copy_attribute n node name = (case get_attribute node name of Some c \<Rightarrow> strncpy_buf n c | None \<Rightarrow> [])"

text \<open>
  The loading loops: every child for which there is a value is stored behind the entries stored so
  far, as long as the array has room.
\<close>

fun fill :: "nat \<Rightarrow> (xml_node \<Rightarrow> 'a option) \<Rightarrow> xml_node list \<Rightarrow> 'a list \<Rightarrow> u32 \<Rightarrow> 'a list \<times> u32" where
  "fill cap get [] xs n = (xs, n)"
| "fill cap get (c # cs) xs n =
     (case get c of None \<Rightarrow> fill cap get cs xs n
      | Some v \<Rightarrow> if unat n < cap then fill cap get cs (xs[unat n := v]) (n + 1) else fill cap get cs xs n)"

definition content_of :: "string \<Rightarrow> (string \<Rightarrow> 'a) \<Rightarrow> xml_node \<Rightarrow> 'a option" where
  "content_of name conv c = (if is_elem name c then map_option conv (get_node_content (Some c)) else None)"

section \<open>Cleared structures\<close>

definition zero_dlm :: DLMConfig where
  "zero_dlm = \<lparr>dc_dlm_name = [], dc_description = [], dc_enabled = False, dc_dlm_type = DLM_TYPE_UNKNOWN,
     dc_link_name = [], dc_link_number = 0, dc_max_forward_bw_kbps = 0, dc_max_return_bw_kbps = 0,
     dc_oversubscription_ratio = 0, dc_supported_qos = replicate 4 0, dc_num_supported_qos = 0, dc_latency_ms = 0,
     dc_jitter_ms = 0, dc_packet_loss_rate = 0, dc_mihf_id = [], dc_dlm_socket_path = [],
     dc_load_balance = \<lparr>lb_algorithm = LB_ALGO_UNKNOWN, lb_enable_failover = False, lb_health_check_interval_sec = 0\<rparr>,
     dc_coverage = \<lparr>cv_enabled = False, cv_min_latitude = 0, cv_max_latitude = 0, cv_min_longitude = 0,
        cv_max_longitude = 0, cv_min_altitude_ft = 0, cv_max_altitude_ft = 0\<rparr>,
     dc_is_active = False\<rparr>"

definition zero_pref :: PathPreference where
  "zero_pref = \<lparr>pp_ranking = 0, pp_link_id = [], pp_action = ACTION_DEFAULT, pp_security_required = [],
     pp_has_max_latency = False, pp_max_latency_ms = 0, pp_on_ground_only = False, pp_airborne_only = False\<rparr>"

definition zero_policy_rule :: PolicyRule where
  "zero_policy_rule = \<lparr>pl_traffic_class = [], pl_preferences = replicate 5 zero_pref, pl_num_preferences = 0\<rparr>"

definition zero_ruleset :: PolicyRuleSet where
  "zero_ruleset = \<lparr>ps_ruleset_id = [], ps_flight_phases = [], ps_rules = replicate 20 zero_policy_rule, ps_num_rules = 0\<rparr>"

definition zero_class :: TrafficClassDefinition where
  "zero_class = \<lparr>tc_traffic_class_id = [], tc_has_priority_class_match = False, tc_match_priority_class = 0,
     tc_has_qos_level_match = False, tc_match_qos_level = 0, tc_num_patterns = 0, tc_match_patterns = replicate 5 [],
     tc_is_default = False\<rparr>"

definition zero_policy :: CentralPolicyProfile where
  "zero_policy = \<lparr>cp_available_links = replicate 10 [], cp_num_links = 0, cp_traffic_class_defs = replicate 10 zero_class,
     cp_num_traffic_class_defs = 0, cp_switching_policy = \<lparr>sp_min_dwell_time_sec = 0, sp_hysteresis_percentage = 0\<rparr>,
     cp_rulesets = replicate 10 zero_ruleset, cp_num_rulesets = 0\<rparr>"

definition zero_profile :: ClientProfile where
  "zero_profile = \<lparr>cl_profile_name = [], cl_client_id = [], cl_description = [], cl_enabled = False,
     cl_auth = \<lparr>ca_username = [], ca_client_password = [], ca_server_password = [], ca_source_ip = []\<rparr>,
     cl_bandwidth = \<lparr>bw_max_forward_kbps = 0, bw_max_return_kbps = 0, bw_guaranteed_forward_kbps = 0,
        bw_guaranteed_return_kbps = 0, bw_default_request_kbps = 0\<rparr>,
     cl_qos = \<lparr>qc_priority_type = PRIORITY_TYPE_UNKNOWN, qc_priority_class = 0, qc_default_level = 0,
        qc_allowed_levels = replicate 5 0, qc_num_allowed_levels = 0\<rparr>,
     cl_link_policy = \<lparr>lk_allowed_dlms = replicate 10 [], lk_num_allowed_dlms = 0, lk_preferred_dlm = [],
        lk_allow_multi_link = False, lk_max_concurrent_links = 0\<rparr>,
     cl_session = \<lparr>sc_max_concurrent_sessions = 0, sc_session_timeout_sec = 0, sc_auto_reconnect = False,
        sc_reconnect_delay_sec = 0, sc_allowed_phases = replicate 10 CFG_FLIGHT_PHASE_GATE, sc_num_allowed_phases = 0,
        sc_allow_detailed_status = False, sc_allow_registered_clients = False, sc_msxr_rate_limit_sec = 0,
        sc_allow_cdr_control = False\<rparr>,
     cl_traffic = \<lparr>ts_encryption_required = False, ts_allowed_protocols = replicate 5 [], ts_num_allowed_protocols = 0,
        ts_allowed_tfts = replicate 255 [], ts_num_allowed_tfts = 0, ts_dest_ip_range = [], ts_dest_port_range = [],
        ts_source_port_range = [], ts_max_packet_size = 0\<rparr>,
     cl_location = \<lparr>lo_geo_restriction_enabled = False, lo_allowed_regions = replicate 5 [], lo_num_allowed_regions = 0,
        lo_require_coverage = False, lo_min_coverage_type = COVERAGE_UNKNOWN\<rparr>,
     cl_is_online = False\<rparr>"

definition magic_config_init :: MagicConfig where
  "magic_config_init = \<lparr>mc_dlm_configs = replicate 10 zero_dlm, mc_num_dlm_configs = 0, mc_policy = zero_policy,
     mc_clients = replicate 50 zero_profile, mc_num_clients = 0, mc_load_time = 0, mc_is_loaded = False,
     mc_adif_degraded_mode = False\<rparr>"

definition magic_config_cleanup :: MagicConfig where
  "magic_config_cleanup = magic_config_init"

section \<open>Data links\<close>

definition parse_dlm_link :: "xml_node option \<Rightarrow> DLMConfig \<Rightarrow> DLMConfig" where
  "parse_dlm_link link d =
     (case link of None \<Rightarrow> d
      | Some _ \<Rightarrow>
          let (qos, nq) = (case find_child_node link ''SupportedQoS'' of
                             None \<Rightarrow> (dc_supported_qos d, dc_num_supported_qos d)
                           | Some q \<Rightarrow> fill 4 (content_of ''Level'' (\<lambda>s. word_of_int (atoi s))) (node_children q) (dc_supported_qos d) 0);
              mihf = get_child_content link ''MIHFID''
          in d\<lparr>dc_link_name := copy_child 127 link ''LinkName'' (dc_link_name d),
               dc_link_number := get_child_uint32 link ''LinkNumber'' 1,
               dc_max_forward_bw_kbps := get_child_float link ''MaxForwardBW'' 0,
               dc_max_return_bw_kbps := get_child_float link ''MaxReturnBW'' 0,
               dc_oversubscription_ratio := get_child_float link ''OversubscriptionRatio'' 1,
               dc_supported_qos := qos, dc_num_supported_qos := nq,
               dc_latency_ms := get_child_uint32 link ''Latency'' 0,
               dc_jitter_ms := get_child_uint32 link ''Jitter'' 0,
               dc_packet_loss_rate := get_child_float link ''PacketLossRate'' 0,
               dc_mihf_id := copy_child 63 link ''MIHFID'' (dc_mihf_id d),
               dc_dlm_socket_path := snprintf_buf 128 (''/tmp/'' @ (case mihf of Some m \<Rightarrow> m | None \<Rightarrow> dc_dlm_name d) @ ''.sock'')\<rparr>)"

definition parse_dlm_load_balance :: "xml_node option \<Rightarrow> DLMConfig \<Rightarrow> DLMConfig" where
  "parse_dlm_load_balance lb d =
     (case lb of None \<Rightarrow> d
      | Some _ \<Rightarrow> d\<lparr>dc_load_balance :=
                     \<lparr>lb_algorithm = parse_load_balance_algorithm (get_child_content lb ''Algorithm''),
                      lb_enable_failover = get_child_bool lb ''EnableFailover'' False,
                      lb_health_check_interval_sec = get_child_uint32 lb ''HealthCheckInterval'' 60\<rparr>\<rparr>)"

definition parse_dlm_coverage :: "xml_node option \<Rightarrow> DLMConfig \<Rightarrow> DLMConfig" where
  "parse_dlm_coverage cov d =
     (case cov of None \<Rightarrow> d\<lparr>dc_coverage := (dc_coverage d)\<lparr>cv_enabled := False\<rparr>\<rparr>
      | Some _ \<Rightarrow> d\<lparr>dc_coverage :=
                     \<lparr>cv_enabled = True,
                      cv_min_latitude = get_child_double cov ''MinLatitude'' (- 90),
                      cv_max_latitude = get_child_double cov ''MaxLatitude'' 90,
                      cv_min_longitude = get_child_double cov ''MinLongitude'' (- 180),
                      cv_max_longitude = get_child_double cov ''MaxLongitude'' 180,
                      cv_min_altitude_ft = get_child_uint32 cov ''MinAltitude'' 0,
                      cv_max_altitude_ft = get_child_uint32 cov ''MaxAltitude'' 60000\<rparr>\<rparr>)"

definition parse_dlm :: "xml_node \<Rightarrow> DLMConfig option" where
  "parse_dlm node =
     (if \<not> is_elem ''DLMConfig'' node then None
      else
        let n = Some node;
            d = zero_dlm\<lparr>dc_dlm_name := copy_child 63 n ''DLMName'' [], dc_description := copy_child 127 n ''Description'' [],
                  dc_enabled := get_child_bool n ''Enabled'' True,
                  dc_dlm_type := parse_dlm_type (get_child_content n ''DLMType'')\<rparr>;
            d1 = parse_dlm_link (find_child_node (find_child_node n ''Links'') ''Link'') d;
            d2 = parse_dlm_load_balance (find_child_node n ''LoadBalance'') d1;
            d3 = parse_dlm_coverage (find_child_node n ''Coverage'') d2
        in Some (d3\<lparr>dc_is_active := True\<rparr>))"

definition magic_config_load_datalinks :: "(string \<Rightarrow> xml_node option) \<Rightarrow> string \<Rightarrow> MagicConfig \<Rightarrow> int \<times> MagicConfig" where
  "magic_config_load_datalinks read_xml base_path config =
     (case read_xml (snprintf_buf 512 (base_path @ ''/Datalink_Profile.xml'')) of
        None \<Rightarrow> (-1, config)
      | Some doc \<Rightarrow>
          if \<not> is_elem ''DLMConfigs'' doc then (-1, config)
          else let (ds, n) = fill 10 parse_dlm (node_children doc) (mc_dlm_configs config) 0
               in (0, config\<lparr>mc_dlm_configs := ds, mc_num_dlm_configs := n\<rparr>))"

section \<open>Central policy\<close>

definition attr_flag :: "xml_node \<Rightarrow> string \<Rightarrow> bool" where
  "attr_flag node name = (case get_attribute node name of None \<Rightarrow> False | Some s \<Rightarrow> s = ''true'' \<or> s = ''1'')"

definition parse_preference :: "xml_node \<Rightarrow> PathPreference option" where
  "parse_preference node =
     (if \<not> is_elem ''PathPreference'' node then None
      else Some \<lparr>pp_ranking = (case get_attribute node ''ranking'' of Some s \<Rightarrow> u32_of s | None \<Rightarrow> 0),
                 pp_link_id = copy_attribute 63 node ''link_id'',
                 pp_action = parse_policy_action (get_attribute node ''action''),
                 pp_security_required = copy_attribute 31 node ''security_required'',
                 pp_has_max_latency = (get_attribute node ''max_latency_ms'' \<noteq> None),
                 pp_max_latency_ms = (case get_attribute node ''max_latency_ms'' of Some s \<Rightarrow> u32_of s | None \<Rightarrow> 0),
                 pp_on_ground_only = attr_flag node ''on_ground_only'',
                 pp_airborne_only = attr_flag node ''airborne_only''\<rparr>)"

definition parse_rule :: "xml_node \<Rightarrow> PolicyRule option" where
  "parse_rule node =
     (if \<not> is_elem ''PolicyRule'' node then None
      else let (ps, n) = fill 5 parse_preference (node_children node) (pl_preferences zero_policy_rule) 0
           in Some \<lparr>pl_traffic_class = copy_attribute 63 node ''traffic_class'', pl_preferences = ps, pl_num_preferences = n\<rparr>)"

definition parse_ruleset :: "xml_node \<Rightarrow> PolicyRuleSet option" where
  "parse_ruleset node =
     (if \<not> is_elem ''PolicyRuleSet'' node then None
      else let (rs, n) = fill 20 parse_rule (node_children node) (ps_rules zero_ruleset) 0
           in Some \<lparr>ps_ruleset_id = copy_attribute 63 node ''id'', ps_flight_phases = copy_attribute 127 node ''flight_phases'',
                    ps_rules = rs, ps_num_rules = n\<rparr>)"

definition class_child :: "TrafficClassDefinition \<Rightarrow> xml_node \<Rightarrow> TrafficClassDefinition" where
  "class_child d child =
     (case get_node_content (Some child) of None \<Rightarrow> d
      | Some c \<Rightarrow>
          if is_elem ''MatchPriorityClass'' child
          then d\<lparr>tc_has_priority_class_match := True, tc_match_priority_class := word_of_int (atoi c)\<rparr>
          else if is_elem ''MatchQoSLevel'' child
          then d\<lparr>tc_has_qos_level_match := True, tc_match_qos_level := word_of_int (atoi c)\<rparr>
          else if is_elem ''MatchProfileNamePattern'' child
          then (if unat (tc_num_patterns d) < 5
                then d\<lparr>tc_match_patterns := (tc_match_patterns d)[unat (tc_num_patterns d) := strncpy_buf 127 c],
                       tc_num_patterns := tc_num_patterns d + 1\<rparr>
                else d)
          else if is_elem ''Default'' child
          then (if c = ''true'' then d\<lparr>tc_is_default := True\<rparr> else d)
          else d)"

definition parse_traffic_class :: "xml_node \<Rightarrow> TrafficClassDefinition option" where
  "parse_traffic_class node =
     (if \<not> is_elem ''TrafficClass'' node then None
      else Some (foldl class_child (zero_class\<lparr>tc_traffic_class_id := copy_attribute 63 node ''id''\<rparr>) (node_children node)))"

definition parse_switching :: "xml_node option \<Rightarrow> SwitchingPolicy" where
  "parse_switching sw =
     (case sw of None \<Rightarrow> \<lparr>sp_min_dwell_time_sec = 30, sp_hysteresis_percentage = 10\<rparr>
      | Some _ \<Rightarrow> \<lparr>sp_min_dwell_time_sec = get_child_uint32 sw ''MinDwellTime'' 30,
                   sp_hysteresis_percentage = get_child_uint32 sw ''HysteresisPercentage'' 10\<rparr>)"

definition link_attr :: "xml_node \<Rightarrow> string option" where
  "link_attr c = (if is_elem ''Link'' c then map_option (strncpy_buf 63) (get_attribute c ''id'') else None)"

definition magic_config_load_policy :: "(string \<Rightarrow> xml_node option) \<Rightarrow> string \<Rightarrow> MagicConfig \<Rightarrow> int \<times> MagicConfig" where
  "magic_config_load_policy read_xml base_path config =
     (case read_xml (snprintf_buf 512 (base_path @ ''/Central_Policy_Profile.xml'')) of
        None \<Rightarrow> (-1, config)
      | Some doc \<Rightarrow>
          if \<not> is_elem ''CentralPolicyProfile'' doc then (-1, config)
          else
            let (links, nl) = (case find_child_node (Some doc) ''AvailableLinks'' of
                                 None \<Rightarrow> (cp_available_links zero_policy, 0)
                               | Some n \<Rightarrow> fill 10 link_attr (node_children n) (cp_available_links zero_policy) 0);
                (rss, nr) = fill 10 parse_ruleset (node_children doc) (cp_rulesets zero_policy) 0;
                (tcs, nt) = (case find_child_node (Some doc) ''TrafficClassDefinitions'' of
                               None \<Rightarrow> (cp_traffic_class_defs zero_policy, 0)
                             | Some n \<Rightarrow> fill 10 parse_traffic_class (node_children n) (cp_traffic_class_defs zero_policy) 0)
            in (0, config\<lparr>mc_policy := \<lparr>cp_available_links = links, cp_num_links = nl, cp_traffic_class_defs = tcs,
                   cp_num_traffic_class_defs = nt, cp_switching_policy = parse_switching (find_child_node (Some doc) ''SwitchingPolicy''),
                   cp_rulesets = rss, cp_num_rulesets = nr\<rparr>\<rparr>))"

section \<open>Clients\<close>

definition parse_client_auth :: "xml_node option \<Rightarrow> ClientAuthConfig \<Rightarrow> ClientAuthConfig" where
  "parse_client_auth node a =
     (case node of None \<Rightarrow> a
      | Some _ \<Rightarrow> a\<lparr>ca_username := copy_child 63 node ''Username'' (ca_username a), ca_client_password := copy_child 63 node ''ClientPassword'' (ca_client_password a),
                     ca_server_password := copy_child 63 node ''ServerPassword'' (ca_server_password a), ca_source_ip := copy_child 63 node ''SourceIP'' (ca_source_ip a)\<rparr>)"

definition parse_client_bandwidth :: "xml_node option \<Rightarrow> BandwidthConfig \<Rightarrow> BandwidthConfig" where
  "parse_client_bandwidth node b =
     (case node of None \<Rightarrow> b
      | Some _ \<Rightarrow> \<lparr>bw_max_forward_kbps = get_child_uint32 node ''MaxForward'' 0 div 1000,
                   bw_max_return_kbps = get_child_uint32 node ''MaxReturn'' 0 div 1000,
                   bw_guaranteed_forward_kbps = get_child_uint32 node ''GuaranteedForward'' 0 div 1000,
                   bw_guaranteed_return_kbps = get_child_uint32 node ''GuaranteedReturn'' 0 div 1000,
                   bw_default_request_kbps = get_child_uint32 node ''DefaultRequest'' 0 div 1000\<rparr>)"

definition child_list :: "nat \<Rightarrow> string \<Rightarrow> string \<Rightarrow> (string \<Rightarrow> 'a) \<Rightarrow> xml_node option \<Rightarrow> 'a list \<Rightarrow> u32 \<Rightarrow> 'a list \<times> u32" where
  "child_list cap grp item conv node xs n =
     (case find_child_node node grp of None \<Rightarrow> (xs, n)
      | Some g \<Rightarrow> fill cap (content_of item conv) (node_children g) xs 0)"

definition parse_client_qos :: "xml_node option \<Rightarrow> QoSConfig \<Rightarrow> QoSConfig" where
  "parse_client_qos node q =
     (case node of None \<Rightarrow> q
      | Some _ \<Rightarrow>
          let (ls, n) = child_list 5 ''AllowedLevels'' ''Level'' (\<lambda>s. word_of_int (atoi s)) node (qc_allowed_levels q) (qc_num_allowed_levels q)
          in \<lparr>qc_priority_type = parse_priority_type (get_child_content node ''PriorityType''),
              qc_priority_class = ucast (get_child_uint32 node ''PriorityClass'' 5),
              qc_default_level = ucast (get_child_uint32 node ''DefaultLevel'' 0),
              qc_allowed_levels = ls, qc_num_allowed_levels = n\<rparr>)"

definition parse_client_link_policy :: "xml_node option \<Rightarrow> LinkPolicyConfig \<Rightarrow> LinkPolicyConfig" where
  "parse_client_link_policy node l =
     (case node of None \<Rightarrow> l
      | Some _ \<Rightarrow>
          let (ds, n) = child_list 10 ''AllowedDLMs'' ''DLM'' (strncpy_buf 63) node (lk_allowed_dlms l) (lk_num_allowed_dlms l)
          in \<lparr>lk_allowed_dlms = ds, lk_num_allowed_dlms = n, lk_preferred_dlm = copy_child 63 node ''PreferredDLM'' (lk_preferred_dlm l),
              lk_allow_multi_link = get_child_bool node ''AllowMultiLink'' False,
              lk_max_concurrent_links = get_child_uint32 node ''MaxConcurrentLinks'' 1\<rparr>)"

definition parse_client_session :: "xml_node option \<Rightarrow> SessionPolicyConfig \<Rightarrow> SessionPolicyConfig" where
  "parse_client_session node s =
     (case node of
        None \<Rightarrow> s\<lparr>sc_max_concurrent_sessions := 1, sc_session_timeout_sec := 3600, sc_auto_reconnect := True,
                  sc_reconnect_delay_sec := 5, sc_num_allowed_phases := 0, sc_allow_detailed_status := True,
                  sc_allow_registered_clients := False, sc_msxr_rate_limit_sec := 5, sc_allow_cdr_control := True\<rparr>
      | Some _ \<Rightarrow>
          let (ps, n) = child_list 10 ''AllowedPhases'' ''Phase'' (\<lambda>c. magic_config_parse_flight_phase (Some c)) node (sc_allowed_phases s) (sc_num_allowed_phases s)
          in \<lparr>sc_max_concurrent_sessions = get_child_uint32 node ''MaxConcurrentSessions'' 1,
              sc_session_timeout_sec = get_child_uint32 node ''SessionTimeout'' 3600,
              sc_auto_reconnect = get_child_bool node ''AutoReconnect'' True,
              sc_reconnect_delay_sec = get_child_uint32 node ''ReconnectDelay'' 5,
              sc_allowed_phases = ps, sc_num_allowed_phases = n,
              sc_allow_detailed_status = get_child_bool node ''AllowDetailedStatus'' True,
              sc_allow_registered_clients = get_child_bool node ''AllowRegisteredClients'' False,
              sc_msxr_rate_limit_sec = get_child_uint32 node ''MsxrRateLimitSec'' 5,
              sc_allow_cdr_control = get_child_bool node ''AllowCDRControl'' True\<rparr>)"

text \<open>White space at both ends of a filter text is cut off; a blank text is skipped.\<close>

definition trim_text :: "string \<Rightarrow> string" where
  "trim_text s = (case dropWhile isspace s of [] \<Rightarrow> [] | c # cs \<Rightarrow> c # rev (dropWhile isspace (rev cs)))"

definition tft_content :: "xml_node \<Rightarrow> string option" where
  "tft_content c =
     (if is_elem ''TFT'' c
      then (case get_node_content (Some c) of None \<Rightarrow> None
            | Some s \<Rightarrow> if trim_text s = [] then None else Some (strncpy_buf 511 (trim_text s)))
      else None)"

definition parse_client_traffic :: "xml_node option \<Rightarrow> TrafficSecurityConfig \<Rightarrow> TrafficSecurityConfig" where
  "parse_client_traffic node t =
     (case node of None \<Rightarrow> t
      | Some _ \<Rightarrow>
          let (ps, np) = child_list 5 ''AllowedProtocols'' ''Protocol'' (strncpy_buf 31) node (ts_allowed_protocols t) (ts_num_allowed_protocols t);
              (tfs, nf) = (case find_child_node node ''TFTs'' of None \<Rightarrow> (ts_allowed_tfts t, 0)
                          | Some g \<Rightarrow> fill 255 tft_content (node_children g) (ts_allowed_tfts t) 0)
          in t\<lparr>ts_encryption_required := get_child_bool node ''EncryptionRequired'' False,
               ts_allowed_protocols := ps, ts_num_allowed_protocols := np, ts_allowed_tfts := tfs, ts_num_allowed_tfts := nf,
               ts_max_packet_size := get_child_uint32 node ''MaxPacketSize'' 1500\<rparr>)"

definition parse_client_location :: "xml_node option \<Rightarrow> LocationConstraintConfig \<Rightarrow> LocationConstraintConfig" where
  "parse_client_location node l =
     (case node of None \<Rightarrow> l
      | Some _ \<Rightarrow>
          let (rs, n) = child_list 5 ''AllowedRegions'' ''Region'' (strncpy_buf 127) node (lo_allowed_regions l) (lo_num_allowed_regions l)
          in \<lparr>lo_geo_restriction_enabled = get_child_bool node ''GeoRestrictionEnabled'' False,
              lo_allowed_regions = rs, lo_num_allowed_regions = n,
              lo_require_coverage = get_child_bool node ''RequireCoverage'' False,
              lo_min_coverage_type = parse_coverage (get_child_content node ''MinCoverageType'')\<rparr>)"

text \<open>A client with a profile name; a node without one is skipped.\<close>

definition parse_client :: "xml_node \<Rightarrow> ClientProfile option" where
  "parse_client node =
     (let n = Some node in
      case get_child_content n ''ProfileName'' of None \<Rightarrow> None
      | Some name \<Rightarrow>
          Some (zero_profile\<lparr>cl_profile_name := strncpy_buf 127 name, cl_client_id := copy_child 63 n ''ClientID'' [],
            cl_description := copy_child 127 n ''Description'' [], cl_enabled := get_child_bool n ''Enabled'' True,
            cl_auth := parse_client_auth (find_child_node n ''Auth'') (cl_auth zero_profile),
            cl_bandwidth := parse_client_bandwidth (find_child_node n ''Bandwidth'') (cl_bandwidth zero_profile),
            cl_qos := parse_client_qos (find_child_node n ''QoS'') (cl_qos zero_profile),
            cl_link_policy := parse_client_link_policy (find_child_node n ''LinkPolicy'') (cl_link_policy zero_profile),
            cl_session := parse_client_session (find_child_node n ''Session'') (cl_session zero_profile),
            cl_traffic := parse_client_traffic (find_child_node n ''Traffic'') (cl_traffic zero_profile),
            cl_location := parse_client_location (find_child_node n ''Location'') (cl_location zero_profile),
            cl_is_online := False\<rparr>))"

fun load_clients_loop :: "xml_node list \<Rightarrow> ClientProfile list \<Rightarrow> u32 \<Rightarrow> ClientProfile list \<times> u32" where
  "load_clients_loop [] xs n = (xs, n)"
| "load_clients_loop (c # cs) xs n =
     (if \<not> is_elem ''ClientProfile'' c then load_clients_loop cs xs n
      else if unat n \<ge> 50 then (xs, n)
      else case parse_client c of
             None \<Rightarrow> load_clients_loop cs (xs[unat n := zero_profile]) n
           | Some p \<Rightarrow> load_clients_loop cs (xs[unat n := p]) (n + 1))"

definition magic_config_load_clients :: "(string \<Rightarrow> xml_node option) \<Rightarrow> string \<Rightarrow> MagicConfig \<Rightarrow> int \<times> MagicConfig" where
  "magic_config_load_clients read_xml base_path config =
     (case read_xml (snprintf_buf 512 (base_path @ ''/Client_Profile.xml'')) of
        None \<Rightarrow> (-1, config)
      | Some doc \<Rightarrow>
          if \<not> is_elem ''ClientProfiles'' doc then (-1, config)
          else let (cs, n) = load_clients_loop (node_children doc) (mc_clients config) 0
               in (0, config\<lparr>mc_clients := cs, mc_num_clients := n\<rparr>))"

end
