(* ===== verification/Config_Props.thy ===== *)
theory Config_Props
  imports Config_Load
begin

text \<open>
  Correctness of the configuration loaders: every loading loop stores exactly the first entries of
  the file that fit the array, and whatever the files contain the loaded configuration is well
  formed, so that every loop up to a counter stays inside its array.
\<close>

section \<open>Loading loops\<close>

text \<open>The contract of a loading loop: it stores a prefix of the values the nodes give.\<close>

definition stored :: "nat \<Rightarrow> 'a list \<Rightarrow> 'a list \<times> u32 \<Rightarrow> bool" where
  "stored cap vs r \<longleftrightarrow> length (fst r) = cap \<and> unat (snd r) = min cap (length vs) \<and> take (unat (snd r)) (fst r) = take cap vs"

definition values_of :: "(xml_node \<Rightarrow> 'a option) \<Rightarrow> xml_node list \<Rightarrow> 'a list" where
  "values_of get cs = List.map_filter get cs"

lemma values_of_simps [simp]:
  "values_of get [] = []"
  "values_of get (c # cs) = (case get c of None \<Rightarrow> values_of get cs | Some v \<Rightarrow> v # values_of get cs)"
  by (auto simp: values_of_def map_filter_simps split: option.splits)

lemma unat_Suc_u32: "unat (n :: u32) < 1000 \<Longrightarrow> unat (n + 1) = Suc (unat n)"
  by (simp add: unat_word_ariths)

lemma take_Suc_update: "n < length xs \<Longrightarrow> take (Suc n) (xs[n := v]) = take n xs @ [v]"
  by (simp add: take_Suc_conv_app_nth)

lemma fill_stored:
  assumes "length xs = cap" and "cap < 1000" and "unat n \<le> cap"
  shows "stored cap (take (unat n) xs @ values_of get cs) (fill cap get cs xs n)"
  using assms
proof (induction cs arbitrary: xs n)
  case Nil
  then show ?case by (auto simp: stored_def)
next
  case (Cons c cs)
  show ?case
  proof (cases "get c")
    case None
    then show ?thesis using Cons by simp
  next
    case (Some v)
    show ?thesis
    proof (cases "unat n < cap")
      case True
      then have n: "unat (n + 1) = Suc (unat n)" using Cons.prems unat_Suc_u32 [of n] by simp
      have "stored cap (take (unat (n + 1)) (xs[unat n := v]) @ values_of get cs) (fill cap get cs (xs[unat n := v]) (n + 1))"
        using Cons.prems True n by (intro Cons.IH) auto
      then show ?thesis using Some True Cons.prems n by (simp add: take_Suc_update)
    next
      case False
      then have "unat n = cap" using Cons.prems by simp
      then have "stored cap (xs @ values_of get cs) (fill cap get cs xs n)" using Cons.IH [of xs n] Cons.prems by simp
      then have "stored cap (xs @ v # values_of get cs) (fill cap get cs xs n)" using Cons.prems by (auto simp: stored_def)
      then show ?thesis using \<open>unat n = cap\<close> Cons.prems Some by simp
    qed
  qed
qed

lemma fill_from_empty: "length xs = cap \<Longrightarrow> cap < 1000 \<Longrightarrow> stored cap (values_of get cs) (fill cap get cs xs 0)"
  using fill_stored [of xs cap 0 get cs] by simp

lemma stored_bounds: "stored cap vs r \<Longrightarrow> length (fst r) = cap \<and> unat (snd r) \<le> cap"
  by (simp add: stored_def)

lemma stored_used: "stored cap vs r \<Longrightarrow> used_part (fst r) (snd r) = take cap vs"
  unfolding stored_def used_part_def by blast

lemma fill_all:
  assumes "\<forall>x\<in>set xs. P x" and "\<And>c v. get c = Some v \<Longrightarrow> P v"
  shows "\<forall>x\<in>set (fst (fill cap get cs xs n)). P x"
  using assms(1)
proof (induction cs arbitrary: xs n)
  case (Cons c cs)
  show ?case
  proof (cases "get c")
    case (Some v)
    then have "\<forall>x\<in>set (xs[i := v]). P x" for i
      using Cons.prems assms(2) set_update_subset_insert [of xs i v] by blast
    then show ?thesis using Some Cons.prems Cons.IH [of "xs[unat n := v]"] Cons.IH [of xs] by simp
  qed (use Cons in simp)
qed simp

section \<open>Well-formed configurations\<close>

text \<open>
  A table of capacity \<open>cap\<close> with counter \<open>n\<close>: the array has its capacity, the counter is within it
  and every entry of the array satisfies \<open>P\<close>.
\<close>

definition table_wf :: "nat \<Rightarrow> ('a \<Rightarrow> bool) \<Rightarrow> 'a list \<Rightarrow> u32 \<Rightarrow> bool" where
  "table_wf cap P xs n \<longleftrightarrow> length xs = cap \<and> unat n \<le> cap \<and> list_all P xs"

definition text_wf :: "nat \<Rightarrow> string \<Rightarrow> bool" where
  "text_wf n s \<longleftrightarrow> length s < n"

definition dlm_wf :: "DLMConfig \<Rightarrow> bool" where
  "dlm_wf d \<longleftrightarrow> table_wf 4 (\<lambda>_. True) (dc_supported_qos d) (dc_num_supported_qos d) \<and>
     text_wf 64 (dc_dlm_name d) \<and> text_wf 128 (dc_description d) \<and> text_wf 128 (dc_link_name d) \<and>
     text_wf 64 (dc_mihf_id d) \<and> text_wf 128 (dc_dlm_socket_path d)"

definition pref_wf :: "PathPreference \<Rightarrow> bool" where
  "pref_wf p \<longleftrightarrow> text_wf 64 (pp_link_id p) \<and> text_wf 32 (pp_security_required p)"

definition rule_wf :: "PolicyRule \<Rightarrow> bool" where
  "rule_wf r \<longleftrightarrow> text_wf 64 (pl_traffic_class r) \<and> table_wf 5 pref_wf (pl_preferences r) (pl_num_preferences r)"

definition ruleset_wf :: "PolicyRuleSet \<Rightarrow> bool" where
  "ruleset_wf s \<longleftrightarrow> text_wf 64 (ps_ruleset_id s) \<and> text_wf 128 (ps_flight_phases s) \<and> table_wf 20 rule_wf (ps_rules s) (ps_num_rules s)"

definition class_wf :: "TrafficClassDefinition \<Rightarrow> bool" where
  "class_wf c \<longleftrightarrow> text_wf 64 (tc_traffic_class_id c) \<and> table_wf 5 (text_wf 128) (tc_match_patterns c) (tc_num_patterns c)"

definition policy_wf :: "CentralPolicyProfile \<Rightarrow> bool" where
  "policy_wf p \<longleftrightarrow> table_wf 10 (text_wf 64) (cp_available_links p) (cp_num_links p) \<and>
     table_wf 10 class_wf (cp_traffic_class_defs p) (cp_num_traffic_class_defs p) \<and>
     table_wf 10 ruleset_wf (cp_rulesets p) (cp_num_rulesets p)"

definition auth_wf :: "ClientAuthConfig \<Rightarrow> bool" where
  "auth_wf a \<longleftrightarrow> text_wf 64 (ca_username a) \<and> text_wf 64 (ca_client_password a) \<and> text_wf 64 (ca_server_password a) \<and> text_wf 64 (ca_source_ip a)"

definition qos_wf :: "QoSConfig \<Rightarrow> bool" where
  "qos_wf q \<longleftrightarrow> table_wf 5 (\<lambda>_. True) (qc_allowed_levels q) (qc_num_allowed_levels q)"

definition link_policy_wf :: "LinkPolicyConfig \<Rightarrow> bool" where
  "link_policy_wf l \<longleftrightarrow> table_wf 10 (text_wf 64) (lk_allowed_dlms l) (lk_num_allowed_dlms l) \<and> text_wf 64 (lk_preferred_dlm l)"

definition session_policy_wf :: "SessionPolicyConfig \<Rightarrow> bool" where
  "session_policy_wf s \<longleftrightarrow> table_wf 10 (\<lambda>_. True) (sc_allowed_phases s) (sc_num_allowed_phases s)"

definition traffic_wf :: "TrafficSecurityConfig \<Rightarrow> bool" where
  "traffic_wf t \<longleftrightarrow> table_wf 5 (text_wf 32) (ts_allowed_protocols t) (ts_num_allowed_protocols t) \<and>
     table_wf 255 (text_wf 512) (ts_allowed_tfts t) (ts_num_allowed_tfts t)"

definition location_wf :: "LocationConstraintConfig \<Rightarrow> bool" where
  "location_wf l \<longleftrightarrow> table_wf 5 (text_wf 128) (lo_allowed_regions l) (lo_num_allowed_regions l)"

definition client_wf :: "ClientProfile \<Rightarrow> bool" where
  "client_wf c \<longleftrightarrow> text_wf 128 (cl_profile_name c) \<and> text_wf 64 (cl_client_id c) \<and> text_wf 128 (cl_description c) \<and>
     auth_wf (cl_auth c) \<and> qos_wf (cl_qos c) \<and> link_policy_wf (cl_link_policy c) \<and> session_policy_wf (cl_session c) \<and>
     traffic_wf (cl_traffic c) \<and> location_wf (cl_location c)"

definition config_wf :: "MagicConfig \<Rightarrow> bool" where
  "config_wf c \<longleftrightarrow> table_wf 10 dlm_wf (mc_dlm_configs c) (mc_num_dlm_configs c) \<and> policy_wf (mc_policy c) \<and>
     table_wf 50 client_wf (mc_clients c) (mc_num_clients c)"

lemmas config_parts_wf =
  dlm_wf_def pref_wf_def rule_wf_def ruleset_wf_def class_wf_def policy_wf_def auth_wf_def qos_wf_def
  link_policy_wf_def session_policy_wf_def traffic_wf_def location_wf_def client_wf_def

lemma text_wf_simps [simp]:
  "text_wf n [] \<longleftrightarrow> 0 < n"
  "n < m \<Longrightarrow> text_wf m (strncpy_buf n s)"
  "0 < n \<Longrightarrow> n \<le> m \<Longrightarrow> text_wf m (snprintf_buf n s)"
  by (auto simp: text_wf_def strncpy_buf_def snprintf_buf_def)

lemma text_wf_copies [simp]:
  "n < m \<Longrightarrow> text_wf m old \<Longrightarrow> text_wf m (copy_child n node name old)"
  "n < m \<Longrightarrow> text_wf m (copy_attribute n x name)"
  by (auto simp: copy_child_def copy_attribute_def split: option.splits)

lemma table_wf_empty [simp]: "table_wf cap P (replicate cap v) 0 \<longleftrightarrow> cap = 0 \<or> P v"
  by (cases cap) (auto simp: table_wf_def list_all_length nth_Cons')

lemma table_wf_fill:
  assumes "fill cap get cs xs 0 = (ys, m)" and "table_wf cap P xs n" and "cap < 1000"
    and "\<And>c v. get c = Some v \<Longrightarrow> P v"
  shows "table_wf cap P ys m"
proof -
  have xs: "length xs = cap" "\<forall>x\<in>set xs. P x" using assms(2) by (auto simp: table_wf_def list_all_iff)
  have "length ys = cap \<and> unat m \<le> cap"
    using stored_bounds [OF fill_from_empty [OF xs(1) assms(3), of get cs]] assms(1) by simp
  moreover have "\<forall>x\<in>set ys. P x"
    using fill_all [OF xs(2), of get cap cs 0] assms(1,4) by simp
  ultimately show ?thesis by (simp add: table_wf_def list_all_iff)
qed

lemma content_of_Some: "content_of name conv c = Some v \<Longrightarrow> \<exists>s. v = conv s"
  by (auto simp: content_of_def split: if_splits)

lemma table_wf_child_list:
  assumes "child_list cap grp item conv node xs n = (ys, m)" and "table_wf cap P xs n" and "cap < 1000" and "\<And>s. P (conv s)"
  shows "table_wf cap P ys m"
proof (cases "find_child_node node grp")
  case None
  then show ?thesis using assms(1,2) by (simp add: child_list_def)
next
  case (Some g)
  then have f: "fill cap (content_of item conv) (node_children g) xs 0 = (ys, m)" using assms(1) by (simp add: child_list_def)
  show ?thesis
    by (rule table_wf_fill [OF f assms(2,3)]) (auto dest!: content_of_Some intro: assms(4))
qed

section \<open>Every parser gives well-formed structures\<close>

lemma zero_wf [simp]:
  "dlm_wf zero_dlm" "pref_wf zero_pref" "rule_wf zero_policy_rule" "ruleset_wf zero_ruleset" "class_wf zero_class"
  "policy_wf zero_policy" "client_wf zero_profile"
  by (simp_all add: config_parts_wf zero_dlm_def zero_pref_def zero_policy_rule_def zero_ruleset_def zero_class_def
      zero_policy_def zero_profile_def)

lemma dlm_link_wf: "dlm_wf d \<Longrightarrow> dlm_wf (parse_dlm_link link d)"
  by (auto simp: parse_dlm_link_def dlm_wf_def Let_def split: option.splits prod.splits elim!: table_wf_fill)

lemma dlm_load_balance_wf: "dlm_wf d \<Longrightarrow> dlm_wf (parse_dlm_load_balance lb d)"
  by (simp add: parse_dlm_load_balance_def dlm_wf_def split: option.splits)

lemma dlm_coverage_wf: "dlm_wf d \<Longrightarrow> dlm_wf (parse_dlm_coverage cov d)"
  by (simp add: parse_dlm_coverage_def dlm_wf_def split: option.splits)

lemma dlm_basic_wf:
  assumes "dlm_wf d" and "text_wf 64 a" and "text_wf 128 b"
  shows "dlm_wf (d\<lparr>dc_dlm_name := a, dc_description := b, dc_enabled := e, dc_dlm_type := t\<rparr>)"
  using assms by (simp add: dlm_wf_def)

lemma dlm_active_wf: "dlm_wf d \<Longrightarrow> dlm_wf (d\<lparr>dc_is_active := a\<rparr>)"
  by (simp add: dlm_wf_def)

lemma parse_dlm_wf: "parse_dlm node = Some d \<Longrightarrow> dlm_wf d"
  by (auto simp: parse_dlm_def Let_def split: if_splits intro!: dlm_active_wf dlm_coverage_wf dlm_load_balance_wf dlm_link_wf dlm_basic_wf)

lemma parse_preference_wf: "parse_preference node = Some p \<Longrightarrow> pref_wf p"
  by (auto simp: parse_preference_def pref_wf_def split: if_splits)

lemma parse_rule_wf:
  assumes "parse_rule node = Some r"
  shows "rule_wf r"
proof -
  obtain ps n where f: "fill 5 parse_preference (node_children node) (pl_preferences zero_policy_rule) 0 = (ps, n)"
    and r: "r = \<lparr>pl_traffic_class = copy_attribute 63 node ''traffic_class'', pl_preferences = ps, pl_num_preferences = n\<rparr>"
    using assms by (auto simp: parse_rule_def split: if_splits prod.splits)
  have "table_wf 5 pref_wf ps n"
    by (rule table_wf_fill [OF f, where n = 0]) (auto simp: zero_policy_rule_def intro: parse_preference_wf)
  then show ?thesis by (simp add: r rule_wf_def)
qed

lemma parse_ruleset_wf:
  assumes "parse_ruleset node = Some s"
  shows "ruleset_wf s"
proof -
  obtain rs n where f: "fill 20 parse_rule (node_children node) (ps_rules zero_ruleset) 0 = (rs, n)"
    and s: "s = \<lparr>ps_ruleset_id = copy_attribute 63 node ''id'', ps_flight_phases = copy_attribute 127 node ''flight_phases'',
                 ps_rules = rs, ps_num_rules = n\<rparr>"
    using assms by (auto simp: parse_ruleset_def split: if_splits prod.splits)
  have "table_wf 20 rule_wf rs n"
    by (rule table_wf_fill [OF f, where n = 0]) (auto simp: zero_ruleset_def intro: parse_rule_wf)
  then show ?thesis by (simp add: s ruleset_wf_def)
qed

lemma table_wf_store: "table_wf cap P xs n \<Longrightarrow> unat n < cap \<Longrightarrow> cap < 1000 \<Longrightarrow> P v \<Longrightarrow> table_wf cap P (xs[unat n := v]) (n + 1)"
  by (auto simp: table_wf_def unat_Suc_u32 list_all_iff dest!: set_update_subset_insert [THEN subsetD])

lemma table_wf_reset: "table_wf cap P xs n \<Longrightarrow> table_wf cap P xs 0"
  by (simp add: table_wf_def)

lemma class_child_wf: "class_wf d \<Longrightarrow> class_wf (class_child d c)"
  by (auto simp: class_child_def class_wf_def text_wf_def [of _ "''true''"] intro!: table_wf_store split: option.splits)

lemma parse_traffic_class_wf: "parse_traffic_class node = Some d \<Longrightarrow> class_wf d"
proof -
  have "class_wf d \<Longrightarrow> class_wf (foldl class_child d cs)" for d cs
    by (induction cs arbitrary: d) (auto intro: class_child_wf)
  moreover have "class_wf (zero_class\<lparr>tc_traffic_class_id := copy_attribute 63 node ''id''\<rparr>)"
    using zero_wf(5) by (simp add: class_wf_def)
  ultimately show "parse_traffic_class node = Some d \<Longrightarrow> class_wf d"
    by (auto simp: parse_traffic_class_def split: if_splits)
qed

lemma link_attr_wf: "link_attr c = Some s \<Longrightarrow> text_wf 64 s"
  by (auto simp: link_attr_def split: if_splits)

lemma tft_content_wf: "tft_content c = Some s \<Longrightarrow> text_wf 512 s"
  by (auto simp: tft_content_def split: if_splits option.splits)

lemma client_parts_wf:
  "auth_wf a \<Longrightarrow> auth_wf (parse_client_auth node a)"
  "qos_wf q \<Longrightarrow> qos_wf (parse_client_qos node q)"
  "link_policy_wf l \<Longrightarrow> link_policy_wf (parse_client_link_policy node l)"
  "session_policy_wf s \<Longrightarrow> session_policy_wf (parse_client_session node s)"
  "location_wf lo \<Longrightarrow> location_wf (parse_client_location node lo)"
  by (auto simp: parse_client_auth_def parse_client_qos_def parse_client_link_policy_def parse_client_session_def
      parse_client_location_def auth_wf_def qos_wf_def link_policy_wf_def session_policy_wf_def location_wf_def
      elim: table_wf_child_list table_wf_reset split: option.splits prod.splits)

lemma parse_client_traffic_wf:
  assumes "traffic_wf t"
  shows "traffic_wf (parse_client_traffic node t)"
proof -
  have "table_wf 5 (text_wf 32) ps n"
    if "child_list 5 ''AllowedProtocols'' ''Protocol'' (strncpy_buf 31) node (ts_allowed_protocols t) (ts_num_allowed_protocols t) = (ps, n)" for ps n
    by (rule table_wf_child_list [OF that]) (use assms in \<open>auto simp: traffic_wf_def\<close>)
  moreover have "table_wf 255 (text_wf 512) xs n"
    if "fill 255 tft_content cs (ts_allowed_tfts t) 0 = (xs, n)" for cs xs n
    by (rule table_wf_fill [OF that]) (use assms in \<open>auto simp: traffic_wf_def intro: tft_content_wf\<close>)
  ultimately show ?thesis
    using assms by (auto simp: parse_client_traffic_def traffic_wf_def intro: table_wf_reset split: option.splits prod.splits)
qed

lemma parse_client_wf: "parse_client node = Some p \<Longrightarrow> client_wf p"
  using zero_wf(7)
  by (auto simp: parse_client_def client_wf_def Let_def intro!: client_parts_wf parse_client_traffic_wf split: option.splits)

lemma load_clients_loop_wf:
  "table_wf 50 client_wf xs n \<Longrightarrow> load_clients_loop cs xs n = (ys, m) \<Longrightarrow> table_wf 50 client_wf ys m"
proof (induction cs xs n rule: load_clients_loop.induct)
  case (2 c cs xs n)
  have z: "table_wf 50 client_wf (xs[unat n := zero_profile]) n"
    using 2(4) by (auto simp: table_wf_def list_all_iff dest!: set_update_subset_insert [THEN subsetD])
  have p: "table_wf 50 client_wf (xs[unat n := p]) (n + 1)" if "parse_client c = Some p" "\<not> 50 \<le> unat n" for p
    using 2(4) that by (intro table_wf_store parse_client_wf) auto
  show ?case
    using 2 z p by (auto split: if_splits option.splits)
qed simp

section \<open>The loaders\<close>

lemma init_wf [simp]: "config_wf magic_config_init"
  by (simp add: config_wf_def magic_config_init_def)

lemma load_datalinks_wf: "config_wf c \<Longrightarrow> config_wf (snd (magic_config_load_datalinks rd base c))"
  by (auto simp: magic_config_load_datalinks_def config_wf_def intro: table_wf_fill parse_dlm_wf split: option.splits prod.splits)

lemma load_clients_wf: "config_wf c \<Longrightarrow> config_wf (snd (magic_config_load_clients rd base c))"
  by (auto simp: magic_config_load_clients_def config_wf_def intro: load_clients_loop_wf table_wf_reset split: option.splits prod.splits)

lemma policy_tables_wf:
  "fill 10 link_attr cs (cp_available_links zero_policy) 0 = (xs, n) \<Longrightarrow> table_wf 10 (text_wf 64) xs n"
  "fill 10 parse_ruleset cs (cp_rulesets zero_policy) 0 = (ys, n) \<Longrightarrow> table_wf 10 ruleset_wf ys n"
  "fill 10 parse_traffic_class cs (cp_traffic_class_defs zero_policy) 0 = (zs, n) \<Longrightarrow> table_wf 10 class_wf zs n"
  by (erule table_wf_fill [where n = 0], auto simp: zero_policy_def intro: link_attr_wf parse_ruleset_wf parse_traffic_class_wf)+

lemma load_policy_wf: "config_wf c \<Longrightarrow> config_wf (snd (magic_config_load_policy rd base c))"
  by (auto simp: magic_config_load_policy_def config_wf_def policy_wf_def zero_policy_def [THEN arg_cong [where f = cp_available_links]]
       zero_policy_def [THEN arg_cong [where f = cp_traffic_class_defs]]
      intro: policy_tables_wf split: option.splits prod.splits)

text \<open>
  The calls that change the configuration, each with the documents its file system holds at that
  moment, and their effect on the configuration.
\<close>

datatype config_call =
    Load_datalinks "string \<Rightarrow> xml_node option" string
  | Load_policy "string \<Rightarrow> xml_node option" string
  | Load_clients "string \<Rightarrow> xml_node option" string
  | Cleanup

fun config_step :: "MagicConfig \<Rightarrow> config_call \<Rightarrow> MagicConfig" where
  "config_step c (Load_datalinks rd base) = snd (magic_config_load_datalinks rd base c)"
| "config_step c (Load_policy rd base) = snd (magic_config_load_policy rd base c)"
| "config_step c (Load_clients rd base) = snd (magic_config_load_clients rd base c)"
| "config_step c Cleanup = magic_config_cleanup"

text \<open>
  C13. Whatever documents the loaders are given and in whatever order they are called, the
  configuration stays well formed: every array keeps its capacity, every counter stays within its
  array and every text leaves room for its terminating zero, down to the preferences of a rule, the
  patterns of a traffic class and the filters of a client. So no loop of the policy engine, the
  session code or the look-ups that runs up to a counter leaves its array.
\<close>

theorem loaded_config_is_well_formed: "config_wf (foldl config_step magic_config_init calls)"
proof (induction calls rule: rev_induct)
  case (snoc call calls)
  then show ?case
    by (cases call) (simp_all add: load_datalinks_wf load_policy_wf load_clients_wf magic_config_cleanup_def)
qed simp

text \<open>What the loaders keep of a document: the first entries that fit, in the order of the document.\<close>

lemma fill_used:
  "length xs = cap \<Longrightarrow> cap < 1000 \<Longrightarrow> fill cap get cs xs 0 = (ys, n) \<Longrightarrow> used_part ys n = take cap (values_of get cs)"
  using stored_used [OF fill_from_empty [of xs cap get cs]] by simp

definition client_of :: "xml_node \<Rightarrow> ClientProfile option" where
  "client_of c = (if is_elem ''ClientProfile'' c then parse_client c else None)"

lemma load_clients_loop_stored:
  assumes "length xs = 50" and "unat n \<le> 50"
  shows "stored 50 (take (unat n) xs @ values_of client_of cs) (load_clients_loop cs xs n)"
  using assms
proof (induction cs arbitrary: xs n)
  case Nil
  then show ?case by (auto simp: stored_def)
next
  case (Cons c cs)
  consider (other) "\<not> is_elem ''ClientProfile'' c" | (full) "is_elem ''ClientProfile'' c" "unat n = 50"
    | (skip) "is_elem ''ClientProfile'' c" "unat n < 50" "parse_client c = None"
    | (keep) p where "is_elem ''ClientProfile'' c" "unat n < 50" "parse_client c = Some p"
    using Cons.prems by (cases "parse_client c") force+
  then show ?case
  proof cases
    case other
    then show ?thesis using Cons by (simp add: client_of_def)
  next
    case full
    then show ?thesis using Cons.prems by (auto simp: stored_def)
  next
    case skip
    then show ?thesis using Cons.IH [of "xs[unat n := zero_profile]" n] Cons.prems by (simp add: client_of_def)
  next
    case keep
    have "unat (n + 1) = Suc (unat n)" using keep unat_Suc_u32 [of n] by simp
    then show ?thesis
      using keep Cons.IH [of "xs[unat n := p]" "n + 1"] Cons.prems by (simp add: client_of_def take_Suc_update)
  qed
qed

text \<open>
  Loading is exact. From a well-formed configuration and documents with the right roots, all
  three loaders succeed; the tables then hold precisely the entries of the documents in their order,
  cut off at the capacity of the table (10 links, 10 rule sets, 50 clients); profiles without a name
  are passed over without taking a place.
\<close>

lemma loaders_store_the_documents:
  assumes "config_wf c" and "rd (snprintf_buf 512 (base @ ''/Datalink_Profile.xml'')) = Some (XElem ''DLMConfigs'' as1 dlms)"
    and "rd (snprintf_buf 512 (base @ ''/Central_Policy_Profile.xml'')) = Some (XElem ''CentralPolicyProfile'' as2 sets)"
    and "rd (snprintf_buf 512 (base @ ''/Client_Profile.xml'')) = Some (XElem ''ClientProfiles'' as3 cls)"
  shows "\<exists>c1 c2 c3. magic_config_load_datalinks rd base c = (0, c1) \<and> magic_config_load_policy rd base c1 = (0, c2) \<and>
           magic_config_load_clients rd base c2 = (0, c3) \<and>
           used_part (mc_dlm_configs c3) (mc_num_dlm_configs c3) = take 10 (values_of parse_dlm dlms) \<and>
           used_part (cp_rulesets (mc_policy c3)) (cp_num_rulesets (mc_policy c3)) = take 10 (values_of parse_ruleset sets) \<and>
           used_part (mc_clients c3) (mc_num_clients c3) = take 50 (values_of client_of cls)"
proof -
  have len: "length (mc_dlm_configs c) = 10" "length (mc_clients c) = 50"
    using assms(1) by (auto simp: config_wf_def table_wf_def)
  obtain ds nd where d: "fill 10 parse_dlm dlms (mc_dlm_configs c) 0 = (ds, nd)" by force
  obtain rs nr where r: "fill 10 parse_ruleset sets (cp_rulesets zero_policy) 0 = (rs, nr)" by force
  obtain ps np where p: "load_clients_loop cls (mc_clients c) 0 = (ps, np)" by force
  have "used_part ds nd = take 10 (values_of parse_dlm dlms)"
    using fill_used [OF len(1) _ d] by simp
  moreover have "used_part rs nr = take 10 (values_of parse_ruleset sets)"
    by (rule fill_used [OF _ _ r]) (simp_all add: zero_policy_def)
  moreover have "used_part ps np = take 50 (values_of client_of cls)"
    using stored_used [OF load_clients_loop_stored [OF len(2), of 0 cls]] p by simp
  ultimately show ?thesis
    using d r p by (simp add: magic_config_load_datalinks_def magic_config_load_policy_def magic_config_load_clients_def assms(2-4)
        split: prod.splits)
qed

text \<open>
  A link that its profile disables is loaded as an active link: whatever the entry's \<open>Enabled\<close>
  element says, the loader stores \<open>is_active\<close> true, and \<open>is_active\<close> is the only one of the two flags
  the policy engine reads.
\<close>

lemma disabled_links_are_loaded_active: "parse_dlm node = Some d \<Longrightarrow> dc_is_active d"
  by (auto simp: parse_dlm_def Let_def split: if_splits)

section \<open>Witnesses\<close>

definition leaf :: "string \<Rightarrow> string \<Rightarrow> xml_node" where
  "leaf name s = XElem name [] [XData s]"

definition demo_dlms :: "xml_node list" where
  "demo_dlms = [XData ''links'', XElem ''DLMConfig'' [] [leaf ''DLMName'' ''LINK_SATCOM'', leaf ''Enabled'' ''false'']]"

definition demo_sets :: "xml_node list" where
  "demo_sets = [XElem ''PolicyRuleSet'' [(''id'', ''R1'')] [XElem ''PolicyRule'' [(''traffic_class'', ''ALL'')] []]]"

definition demo_profiles :: "xml_node list" where
  "demo_profiles = [XElem ''ClientProfile'' [] [], XElem ''ClientProfile'' [] [leaf ''ProfileName'' ''P1'', leaf ''ClientID'' ''efb'']]"

definition demo_rd :: "string \<Rightarrow> xml_node option" where
  "demo_rd p =
     (if p = ''/etc/Datalink_Profile.xml'' then Some (XElem ''DLMConfigs'' [] demo_dlms)
      else if p = ''/etc/Central_Policy_Profile.xml'' then Some (XElem ''CentralPolicyProfile'' [] demo_sets)
      else if p = ''/etc/Client_Profile.xml'' then Some (XElem ''ClientProfiles'' [] demo_profiles) else None)"

lemma loaders_store_the_documents_witness:
  "\<exists>c1 c2 c3. magic_config_load_datalinks demo_rd ''/etc'' magic_config_init = (0, c1) \<and>
     magic_config_load_policy demo_rd ''/etc'' c1 = (0, c2) \<and> magic_config_load_clients demo_rd ''/etc'' c2 = (0, c3) \<and>
     map dc_dlm_name (used_part (mc_dlm_configs c3) (mc_num_dlm_configs c3)) = [''LINK_SATCOM''] \<and>
     map ps_ruleset_id (used_part (cp_rulesets (mc_policy c3)) (cp_num_rulesets (mc_policy c3))) = [''R1''] \<and>
     map cl_client_id (used_part (mc_clients c3) (mc_num_clients c3)) = [''efb'']"
proof -
  have "map dc_dlm_name (take 10 (values_of parse_dlm demo_dlms)) = [''LINK_SATCOM'']"
    "map ps_ruleset_id (take 10 (values_of parse_ruleset demo_sets)) = [''R1'']"
    "map cl_client_id (take 50 (values_of client_of demo_profiles)) = [''efb'']"
    by code_simp+
  then show ?thesis
    using loaders_store_the_documents [of magic_config_init demo_rd "''/etc''" "[]" demo_dlms "[]" demo_sets "[]" demo_profiles]
    by (auto simp: demo_rd_def snprintf_buf_def)
qed

end
