(* ===== verification/Mih.thy ===== *)
theory Mih
  imports Config
begin

text \<open>
  The messages between the MAGIC server and its link managers (\<open>src/mih_protocol.h\<close>,
  \<open>src/mih_extensions.h\<close>) and their transport (\<open>src/mih_transport.c\<close>).

  Structures are records of their fields; signed fields that are only copied are kept as words.
  The transport works on bytes: a header is packed in the byte order of the host, which is
  little-endian on the platforms the server is built for. A stream socket is the list of bytes sent
  so far together with what \<open>send(2)\<close> answers (a parameter), or the list of bytes still to be read up
  to the end of the stream; \<open>recv(2)\<close> with \<open>MSG_WAITALL\<close> then gives the bytes asked for or, at the end
  of the stream, fewer.
\<close>

section \<open>Protocol structures\<close>

datatype STATUS =
    STATUS_SUCCESS | STATUS_FAILURE | STATUS_INSUFFICIENT_RESOURCES | STATUS_INVALID_BEARER
  | STATUS_LINK_NOT_AVAILABLE | STATUS_QOS_NOT_SUPPORTED

text \<open>The third case stands for every other value of the enumeration's integer.\<close>

datatype RESOURCE_ACTION_TYPE = RESOURCE_ACTION_REQUEST | RESOURCE_ACTION_RELEASE | RESOURCE_ACTION_OTHER

record LINK_TUPLE_ID =
  lt_link_type :: u8
  lt_link_addr :: string
  lt_poa_addr :: string

record QOS_PARAM =
  qp_cos_id :: u32
  qp_forward_link_rate :: u32
  qp_return_link_rate :: u32
  qp_min_pk_tx_delay :: u32
  qp_avg_pk_tx_delay :: u32
  qp_max_pk_tx_delay :: u32
  qp_pk_delay_jitter :: u32
  qp_pk_loss_rate :: rat

record LINK_PARAMETERS =
  pa_current_tx_rate_kbps :: u32
  pa_current_rx_rate_kbps :: u32
  pa_signal_strength_dbm :: u32
  pa_signal_quality :: u8
  pa_sinr_db :: u16
  pa_current_latency_ms :: u32
  pa_current_jitter_ms :: u32
  pa_packet_loss_rate :: rat
  pa_available_bandwidth_kbps :: u32
  pa_ip_address :: u32
  pa_netmask :: u32
  pa_gateway :: u32
  pa_dns_primary :: u32
  pa_dns_secondary :: u32
  pa_link_state :: u8
  pa_handover_status :: u8
  pa_active_bearers :: u16

record mih_link_parameters_t =
  mp_current_bandwidth_kbps :: u32
  mp_current_latency_ms :: u32
  mp_signal_strength_dbm :: u32
  mp_ip_address :: u32
  mp_netmask :: u32
  mp_link_state :: u8
  mp_signal_quality :: u8

record MIH_Link_Capabilities =
  lc_max_bandwidth_kbps :: u32
  lc_typical_latency_ms :: u32
  lc_cost_per_mb :: u32
  lc_coverage :: u8
  lc_security_level :: u8
  lc_mtu :: u16

record LINK_CAPABILITY =
  cy_supported_events :: u32
  cy_supported_commands :: u32
  cy_max_bandwidth_kbps :: u32
  cy_typical_latency_ms :: u32
  cy_link_type :: u8
  cy_security_level :: u8
  cy_mtu :: u16
  cy_is_asymmetric :: bool

definition validate_qos_params :: "QOS_PARAM option \<Rightarrow> bool" where
  "validate_qos_params qos =
     (case qos of None \<Rightarrow> False
      | Some q \<Rightarrow>
          if qp_forward_link_rate q = 0 \<and> qp_return_link_rate q = 0 then False
          else if qp_pk_loss_rate q < 0 \<or> qp_pk_loss_rate q > 1 then False
          else True)"

definition mih_validate_capabilities :: "MIH_Link_Capabilities option \<Rightarrow> bool" where
  "mih_validate_capabilities cap =
     (case cap of None \<Rightarrow> False
      | Some c \<Rightarrow>
          if lc_max_bandwidth_kbps c = 0 then False
          else if lc_typical_latency_ms c = 0 then False
          else if lc_coverage c > 3 then False
          else if lc_security_level c = 0 \<or> lc_security_level c > 5 then False
          else True)"

section \<open>Transport\<close>

type_synonym bytes = "u8 list"

abbreviation MIH_MAX_MESSAGE_SIZE :: nat where "MIH_MAX_MESSAGE_SIZE \<equiv> 4096"
abbreviation HEADER_SIZE :: nat where "HEADER_SIZE \<equiv> 12"

record mih_transport_header_t =
  th_primitive_type :: u16
  th_message_length :: u16
  th_transaction_id :: u32
  th_timestamp :: u32

definition le16 :: "u16 \<Rightarrow> bytes" where
  "le16 w = [of_nat (unat w), of_nat (unat w div 2 ^ 8)]"

definition le32 :: "u32 \<Rightarrow> bytes" where
  "le32 w = [of_nat (unat w), of_nat (unat w div 2 ^ 8), of_nat (unat w div 2 ^ 16), of_nat (unat w div 2 ^ 24)]"

definition get16 :: "bytes \<Rightarrow> u16" where
  "get16 b = of_nat (unat (b ! 0) + 2 ^ 8 * unat (b ! 1))"

definition get32 :: "bytes \<Rightarrow> u32" where
  "get32 b = of_nat (unat (b ! 0) + 2 ^ 8 * unat (b ! 1) + 2 ^ 16 * unat (b ! 2) + 2 ^ 24 * unat (b ! 3))"

definition header_bytes :: "mih_transport_header_t \<Rightarrow> bytes" where
  "header_bytes h = le16 (th_primitive_type h) @ le16 (th_message_length h) @ le32 (th_transaction_id h) @ le32 (th_timestamp h)"

definition bytes_header :: "bytes \<Rightarrow> mih_transport_header_t" where
  "bytes_header b = \<lparr>th_primitive_type = get16 b, th_message_length = get16 (drop 2 b),
     th_transaction_id = get32 (drop 4 b), th_timestamp = get32 (drop 8 b)\<rparr>"

definition mih_transport_next_transaction_id :: "u32 \<Rightarrow> u32 \<times> u32" where
  "mih_transport_next_transaction_id g = (g + 1, g + 1)"

text \<open>The header and the transaction counter after it; the payload length arrives as a \<open>uint16_t\<close>.\<close>

definition mih_transport_init_header :: "int \<Rightarrow> u16 \<Rightarrow> u16 \<Rightarrow> u32 \<Rightarrow> u32 \<Rightarrow> mih_transport_header_t \<times> u32" where
  "mih_transport_init_header now prim payload_length tid g =
     (let (t, g') = (if tid = 0 then mih_transport_next_transaction_id g else (tid, g))
      in (\<lparr>th_primitive_type = prim, th_message_length = of_nat HEADER_SIZE + payload_length,
           th_transaction_id = t, th_timestamp = word_of_int now\<rparr>, g'))"

text \<open>
  A sending socket: the descriptor, the bytes written so far, and the answer of \<open>send\<close> given those
  bytes and the data. The sent part of the data is in the stream whatever the caller does next.
\<close>

record tx_socket =
  tx_fd :: int
  tx_sent :: bytes
  tx_answer :: "bytes \<Rightarrow> bytes \<Rightarrow> int"

definition sock_send :: "bytes \<Rightarrow> tx_socket \<Rightarrow> int \<times> tx_socket" where
  "sock_send data s = (let n = tx_answer s (tx_sent s) data in (n, s\<lparr>tx_sent := tx_sent s @ take (nat n) data\<rparr>))"

definition mih_transport_send :: "int \<Rightarrow> u16 \<Rightarrow> bytes option \<Rightarrow> u32 \<Rightarrow> tx_socket \<Rightarrow> int \<times> u32 \<times> tx_socket" where
  "mih_transport_send now prim payload g s =
     (case payload of None \<Rightarrow> (-1, g, s)
      | Some p \<Rightarrow>
          if tx_fd s < 0 \<or> length p = 0 then (-1, g, s)
          else
            let (h, g') = mih_transport_init_header now prim (of_nat (length p)) 0 g;
                (n, s1) = sock_send (header_bytes h) s
            in if n \<noteq> int HEADER_SIZE then (-1, g', s1)
               else let (m, s2) = sock_send p s1
                    in if m \<noteq> int (length p) then (-1, g', s2) else (0, g', s2))"

text \<open>\<open>None\<close> is the return value -1; otherwise the header and the payload written into the buffer.\<close>

definition mih_transport_recv ::
  "int \<Rightarrow> nat \<Rightarrow> bytes \<Rightarrow> (mih_transport_header_t \<times> bytes) option \<times> bytes" where
  "mih_transport_recv fd buf_size inp =
     (if fd < 0 then (None, inp)
      else
        let hb = take HEADER_SIZE inp; rest = drop HEADER_SIZE inp
        in if length hb \<noteq> HEADER_SIZE then (None, rest)
           else
             let h = bytes_header hb;
                 payload_len = unat (th_message_length h - of_nat HEADER_SIZE)
             in if payload_len > buf_size then (None, rest)
                else if payload_len > 0
                then (let p = take payload_len rest; rest' = drop payload_len rest
                      in if length p \<noteq> payload_len then (None, rest') else (Some (h, p), rest'))
                else (Some (h, []), rest))"

text \<open>Datagrams: a type code in two bytes and the payload.\<close>

definition mih_transport_sendto :: "int \<Rightarrow> (bytes \<Rightarrow> int) \<Rightarrow> bool \<Rightarrow> u16 \<Rightarrow> bytes \<Rightarrow> int \<times> bytes option" where
  "mih_transport_sendto fd answer has_dest prim payload =
     (if fd < 0 \<or> \<not> has_dest then (-1, None)
      else
        let total_len = 2 + length payload
        in if total_len > MIH_MAX_MESSAGE_SIZE then (-1, None)
           else let buffer = le16 prim @ payload; n = answer buffer
                in if n < 0 then (-1, None)
                   else if n \<noteq> int total_len then (-1, Some (take (nat n) buffer))
                   else (0, Some buffer))"

text \<open>A datagram longer than the buffer is cut off by \<open>recvfrom(2)\<close>; \<open>None\<close> as input is its failure.\<close>

definition mih_transport_recvfrom :: "int \<Rightarrow> nat \<Rightarrow> bytes option \<Rightarrow> (u16 \<times> bytes) option" where
  "mih_transport_recvfrom fd buf_size datagram =
     (if fd < 0 then None
      else case datagram of None \<Rightarrow> None
           | Some d \<Rightarrow>
               let buffer = take MIH_MAX_MESSAGE_SIZE d
               in if length buffer < 2 then None
                  else let payload = drop 2 buffer
                       in if length payload > buf_size then None else Some (get16 buffer, payload))"

section \<open>Correctness of the transport\<close>

lemma length_header_bytes [simp]: "length (header_bytes h) = HEADER_SIZE"
  by (simp add: header_bytes_def le16_def le32_def)

lemma unat_byte: "unat (of_nat n :: u8) = n mod 256"
  by (simp add: unat_of_nat)

lemma digits16: "n < 2 ^ 16 \<Longrightarrow> n mod 256 + 256 * (n div 256 mod 256) = (n :: nat)"
  by simp

lemma horner256:
  "n = 256 * a + x \<Longrightarrow> a = 256 * b + y \<Longrightarrow> b = 256 * c + z \<Longrightarrow> x + 256 * y + 65536 * z + 16777216 * c = (n :: nat)"
  by simp

lemma digits32:
  assumes "n < 2 ^ 32"
  shows "n mod 256 + 256 * (n div 256 mod 256) + 65536 * (n div 65536 mod 256) + 16777216 * (n div 16777216 mod 256) = (n :: nat)"
proof -
  have d: "n div 65536 = n div 256 div 256" "n div 16777216 = n div 256 div 256 div 256"
    by (simp_all flip: div_mult2_eq)
  have "n div 256 div 256 div 256 mod 256 = n div 256 div 256 div 256" using assms by (simp flip: div_mult2_eq)
  then show ?thesis
    unfolding d
    using horner256 [of n "n div 256" "n mod 256" "n div 256 div 256" "n div 256 mod 256" "n div 256 div 256 div 256" "n div 256 div 256 mod 256"]
    by simp
qed

lemma get16_le16 [simp]: "get16 (le16 w @ xs) = w"
proof -
  have "unat w mod 256 + 256 * (unat w div 256 mod 256) = unat w"
    using unsigned_less [of w, where 'a = nat] by (intro digits16) simp
  then have "unat (le16 w ! 0) + 2 ^ 8 * unat (le16 w ! 1) = unat w" unfolding le16_def by (simp add: unat_byte del: of_nat_unat)
  then have "of_nat (unat (le16 w ! 0) + 2 ^ 8 * unat (le16 w ! 1)) = (of_nat (unat w) :: u16)" by (simp only:)
  then show ?thesis unfolding get16_def by (simp add: nth_append le16_def)
qed

lemma get32_le32 [simp]: "get32 (le32 w @ xs) = w"
proof -
  have "unat w mod 256 + 256 * (unat w div 256 mod 256) + 65536 * (unat w div 65536 mod 256) + 16777216 * (unat w div 16777216 mod 256) = unat w"
    using unsigned_less [of w, where 'a = nat] by (intro digits32) simp
  moreover have "unat w div 16777216 mod 256 = unat w div 16777216"
    using unsigned_less [of w, where 'a = nat] by simp
  ultimately have "unat (le32 w ! 0) + 2 ^ 8 * unat (le32 w ! 1) + 2 ^ 16 * unat (le32 w ! 2) + 2 ^ 24 * unat (le32 w ! 3) = unat w"
    unfolding le32_def by (simp add: unat_byte del: of_nat_unat)
  then have "of_nat (unat (le32 w ! 0) + 2 ^ 8 * unat (le32 w ! 1) + 2 ^ 16 * unat (le32 w ! 2) + 2 ^ 24 * unat (le32 w ! 3)) = (of_nat (unat w) :: u32)"
    by (simp only:)
  then show ?thesis unfolding get32_def by (simp add: nth_append le32_def)
qed

lemma le_lengths [simp]: "length (le16 w) = 2" "length (le32 v) = 4"
  by (simp_all add: le16_def le32_def)

lemma bytes_header_bytes [simp]: "bytes_header (header_bytes h) = h"
proof -
  have "get32 (le32 w) = w" for w using get32_le32 [of w "[]"] by simp
  then show ?thesis by (simp add: bytes_header_def header_bytes_def)
qed

lemma init_header_auto:
  "mih_transport_init_header now prim len 0 g =
     (\<lparr>th_primitive_type = prim, th_message_length = of_nat HEADER_SIZE + len, th_transaction_id = g + 1,
       th_timestamp = word_of_int now\<rparr>, g + 1)"
  by (simp add: mih_transport_init_header_def mih_transport_next_transaction_id_def)

lemma message_length_exact: "n + HEADER_SIZE < 2 ^ 16 \<Longrightarrow> unat (of_nat HEADER_SIZE + of_nat n - of_nat HEADER_SIZE :: u16) = n"
  by (simp add: unat_of_nat)

text \<open>A socket that takes everything it is given.\<close>

definition reliable :: "tx_socket \<Rightarrow> bool" where
  "reliable s \<longleftrightarrow> tx_fd s \<ge> 0 \<and> tx_answer s = (\<lambda>_ d. int (length d))"

lemma send_reliable:
  assumes "reliable s" and "p \<noteq> []"
  shows "\<exists>h s'. mih_transport_send now prim (Some p) g s = (0, g + 1, s') \<and> reliable s' \<and>
    tx_sent s' = tx_sent s @ header_bytes h @ p \<and> th_primitive_type h = prim \<and>
    th_message_length h = of_nat HEADER_SIZE + of_nat (length p)"
  using assms
  by (intro exI [of _ "fst (mih_transport_init_header now prim (of_nat (length p)) 0 g)"])
    (simp add: mih_transport_send_def init_header_auto sock_send_def reliable_def Let_def)

lemma recv_message:
  assumes "fd \<ge> 0" and "p \<noteq> []" and "length p \<le> buf" and "length p + HEADER_SIZE < 2 ^ 16"
    and "th_message_length h = of_nat HEADER_SIZE + of_nat (length p)"
  shows "mih_transport_recv fd buf (header_bytes h @ p @ rest) = (Some (h, p), rest)"
  using assms message_length_exact [of "length p"] by (simp add: mih_transport_recv_def Let_def)

fun send_series :: "int \<Rightarrow> (u16 \<times> bytes) list \<Rightarrow> u32 \<Rightarrow> tx_socket \<Rightarrow> tx_socket" where
  "send_series now [] g s = s"
| "send_series now ((prim, p) # ms) g s =
     (let (r, g', s') = mih_transport_send now prim (Some p) g s in send_series now ms g' s')"

fun recv_series :: "int \<Rightarrow> nat \<Rightarrow> nat \<Rightarrow> bytes \<Rightarrow> (u16 \<times> bytes) option list \<times> bytes" where
  "recv_series fd buf 0 inp = ([], inp)"
| "recv_series fd buf (Suc n) inp =
     (let (r, rest) = mih_transport_recv fd buf inp; (rs, rest') = recv_series fd buf n rest
      in (map_option (\<lambda>(h, p). (th_primitive_type h, p)) r # rs, rest'))"

lemma send_series_stream:
  assumes "reliable s" and "\<forall>(prim, p) \<in> set ms. p \<noteq> [] \<and> length p \<le> buf \<and> length p + HEADER_SIZE < 2 ^ 16" and "fd \<ge> 0"
  shows "\<exists>w. tx_sent (send_series now ms g s) = tx_sent s @ w \<and> recv_series fd buf (length ms) (w @ rest) = (map Some ms, rest)"
  using assms(1,2)
proof (induction ms arbitrary: g s)
  case Nil
  then show ?case by simp
next
  case (Cons m ms)
  obtain prim p where m: "m = (prim, p)" by force
  have p: "p \<noteq> []" "length p \<le> buf" "length p + HEADER_SIZE < 2 ^ 16" using Cons.prems(2) by (auto simp: m)
  obtain h s' where send: "mih_transport_send now prim (Some p) g s = (0, g + 1, s')" "reliable s'"
      "tx_sent s' = tx_sent s @ header_bytes h @ p" "th_primitive_type h = prim"
      "th_message_length h = of_nat HEADER_SIZE + of_nat (length p)"
    using send_reliable [OF Cons.prems(1) p(1), of now prim g] by blast
  obtain w where w: "tx_sent (send_series now ms (g + 1) s') = tx_sent s' @ w"
      "recv_series fd buf (length ms) (w @ rest) = (map Some ms, rest)"
    using Cons.IH [OF send(2), of "g + 1"] Cons.prems(2) by auto
  have "mih_transport_recv fd buf (header_bytes h @ p @ w @ rest) = (Some (h, p), w @ rest)"
    by (rule recv_message [OF assms(3) p send(5)])
  then show ?case
    using send(1,3,4) w by (intro exI [of _ "header_bytes h @ p @ w"]) (simp add: m)
qed

text \<open>
  C21. Whatever messages are sent over a stream socket that takes all bytes, the receiver gets
  exactly these messages, types and payloads, in order and with nothing left over, as long as every
  payload is non-empty, fits the receiver's buffer and keeps the 16-bit length field.
\<close>

theorem stream_roundtrip:
  assumes "reliable s" and "tx_sent s = []" and "fd \<ge> 0"
    and "\<forall>(prim, p) \<in> set ms. p \<noteq> [] \<and> length p \<le> buf \<and> length p + HEADER_SIZE < 2 ^ 16"
  shows "recv_series fd buf (length ms) (tx_sent (send_series now ms g s)) = (map Some ms, [])"
  using send_series_stream [OF assms(1,4,3), of now g "[]"] assms(2) by auto

text \<open>
  The receiver never writes past its buffer: what \<open>mih_transport_recv\<close> accepts is no longer than
  the buffer, whatever length the header claims. A header that claims less than its own size makes
  the length wrap around and is refused for every buffer the server uses.
\<close>

lemma recv_stays_in_buffer:
  assumes "mih_transport_recv fd buf inp = (Some (h, p), rest)"
  shows "length p \<le> buf \<and> h = bytes_header (take HEADER_SIZE inp) \<and> inp = take HEADER_SIZE inp @ p @ rest \<and>
    (buf < 2 ^ 16 - HEADER_SIZE \<longrightarrow> unat (th_message_length h) = HEADER_SIZE + length p)"
proof -
  have wrap: "unat (w - 12) = (if unat w < 12 then unat w + 2 ^ 16 - 12 else unat w - 12)" for w :: u16
    using unsigned_less [of w, where 'a = nat] by (auto simp: unat_sub_if_size word_size)
  have split: "inp = take HEADER_SIZE inp @ take k (drop HEADER_SIZE inp) @ drop (k + HEADER_SIZE) inp" for k
    by (metis append_take_drop_id drop_drop)
  have "length p \<le> buf" "length p = unat (th_message_length h - 12)" "h = bytes_header (take HEADER_SIZE inp)"
      "inp = take HEADER_SIZE inp @ p @ rest"
    using assms split by (auto simp: mih_transport_recv_def Let_def split: if_splits)
  then show ?thesis using wrap [of "th_message_length h"] by (auto split: if_splits)
qed

section \<open>Witnesses\<close>

definition demo_socket :: tx_socket where
  "demo_socket = \<lparr>tx_fd = 7, tx_sent = [], tx_answer = (\<lambda>_ d. int (length d))\<rparr>"

theorem stream_roundtrip_witness:
  "recv_series 9 4096 2 (tx_sent (send_series 0 [(0x8F01, [1, 2, 3]), (0x0202, [255])] 0 demo_socket))
     = ([Some (0x8F01, [1, 2, 3]), Some (0x0202, [255])], [])"
proof -
  have "recv_series 9 4096 (length [(0x8F01 :: u16, [1, 2, 3 :: u8]), (0x0202, [255])])
      (tx_sent (send_series 0 [(0x8F01, [1, 2, 3]), (0x0202, [255])] 0 demo_socket)) = (map Some [(0x8F01, [1, 2, 3]), (0x0202, [255])], [])"
    by (rule stream_roundtrip) (simp_all add: demo_socket_def reliable_def)
  moreover have "length [(0x8F01 :: u16, [1, 2, 3 :: u8]), (0x0202, [255])] = 2" by simp
  ultimately show ?thesis by (simp only: list.map)
qed

definition demo_header :: mih_transport_header_t where
  "demo_header = \<lparr>th_primitive_type = 0x8F01, th_message_length = 14, th_transaction_id = 1, th_timestamp = 0\<rparr>"

lemma recv_stays_in_buffer_witness:
  "mih_transport_recv 9 4096 (header_bytes demo_header @ [42, 43] @ [99]) = (Some (demo_header, [42, 43]), [99]) \<and>
   unat (th_message_length demo_header) = HEADER_SIZE + length [42 :: u8, 43]"
proof -
  have r: "mih_transport_recv 9 4096 (header_bytes demo_header @ [42, 43] @ [99]) = (Some (demo_header, [42, 43]), [99])"
    by (rule recv_message) (simp_all add: demo_header_def)
  then show ?thesis using recv_stays_in_buffer [OF r] by simp
qed

end
