(* ===== verification/Magic_Context.thy ===== *)
theory Magic_Context
  imports Mih Session
begin

text \<open>
  The global context of the extension (\<open>src/app_magic/app_magic.h\<close>, \<open>struct MagicContext\<close>) as far as
  link management and notification work on it: the configuration, the table of link managers
  (\<open>src/app_magic/magic_lmi.h\<close>), the session manager and the data plane, together with what left the
  process: the Diameter requests handed to libfdcore, the answers to link managers and the
  descriptors closed. The pointer \<open>ctx->config\<close> of the link-manager interface is the global
  configuration once the server has been started; \<open>li_has_config\<close> says whether it is set.
\<close>

abbreviation MAX_DLM_CLIENTS :: nat where "MAX_DLM_CLIENTS \<equiv> 10"
abbreviation MAX_BEARERS :: nat where "MAX_BEARERS \<equiv> 8"
abbreviation MAX_EVENT_CALLBACKS :: nat where "MAX_EVENT_CALLBACKS \<equiv> 16"

record BearerState =
  be_is_active :: bool
  be_bearer_id :: u8
  be_qos_params :: QOS_PARAM
  be_created_time :: int
  be_tx_bytes :: u64
  be_rx_bytes :: u64

record DlmClient =
  dm_client_fd :: int
  dm_link_id :: string
  dm_dlm_id :: string
  dm_is_registered :: bool
  dm_is_link_up :: bool
  dm_last_heartbeat :: int
  dm_last_seen :: int
  dm_link_identifier :: LINK_TUPLE_ID
  dm_capabilities :: MIH_Link_Capabilities
  dm_link_params :: mih_link_parameters_t
  dm_dlm_pid :: int
  dm_health_status :: string
  dm_bearers :: "BearerState list"
  dm_num_active_bearers :: u8
  dm_link_capability :: LINK_CAPABILITY
  dm_subscribed_events :: u16
  dm_current_parameters :: LINK_PARAMETERS

text \<open>The functions that are registered as callbacks: the bridge of \<open>src/app_magic/app_magic.c\<close> is the only one.\<close>

datatype lmi_event_callback = On_lmi_link_event_for_mscr

record EventCallbackEntry =
  ec_event_type :: u16
  ec_callback :: "lmi_event_callback option"

record MagicLmiContext =
  li_server_fd :: int
  li_running :: bool
  li_dgram_fd :: int
  li_dgram_running :: bool
  li_udp_fd :: int
  li_udp_running :: bool
  li_udp_port :: u16
  li_heartbeat_monitor_running :: bool
  li_clients :: "DlmClient list"
  li_has_config :: bool
  li_event_callbacks :: "EventCallbackEntry list"
  li_num_callbacks :: int

text \<open>The server's requests: a notification report (MNTR) and a status change report (MSCR).\<close>

record comm_report =
  rp_profile_name :: string
  rp_granted_bw :: u32
  rp_granted_return_bw :: u32
  rp_gateway_ip :: "string option"

record dlm_info =
  di_dlm_name :: string
  di_dlm_available :: int
  di_dlm_max_links :: u32
  di_dlm_max_bw :: rat
  di_dlm_alloc_links :: u32
  di_dlm_alloc_bw :: rat

datatype push_msg =
    MNTR string string "comm_report option" "u32 option" "string option"
  | MSCR string string "u32 option" "dlm_info list option" "u32 option" "string option"

fun push_session :: "push_msg \<Rightarrow> string" where
  "push_session (MNTR sid _ _ _ _) = sid"
| "push_session (MSCR sid _ _ _ _ _) = sid"

datatype mih_reply = Register_confirm STATUS u32 | Heartbeat_ack u32

record MagicContext =
  mx_config :: MagicConfig
  mx_lmi :: MagicLmiContext
  mx_sm :: SessionManager
  mx_dp :: dp_world
  mx_pushes :: "push_msg list"
  mx_attempts :: nat
  mx_replies :: "(int \<times> mih_reply) list"
  mx_closed :: "int list"

section \<open>Zeroed memory\<close>

definition zero_qos :: QOS_PARAM where
  "zero_qos = \<lparr>qp_cos_id = 0, qp_forward_link_rate = 0, qp_return_link_rate = 0, qp_min_pk_tx_delay = 0,
     qp_avg_pk_tx_delay = 0, qp_max_pk_tx_delay = 0, qp_pk_delay_jitter = 0, qp_pk_loss_rate = 0\<rparr>"

definition zero_bearer :: BearerState where
  "zero_bearer = \<lparr>be_is_active = False, be_bearer_id = 0, be_qos_params = zero_qos, be_created_time = 0, be_tx_bytes = 0, be_rx_bytes = 0\<rparr>"

definition zero_link_tuple :: LINK_TUPLE_ID where
  "zero_link_tuple = \<lparr>lt_link_type = 0, lt_link_addr = [], lt_poa_addr = []\<rparr>"

definition zero_parameters :: LINK_PARAMETERS where
  "zero_parameters = \<lparr>pa_current_tx_rate_kbps = 0, pa_current_rx_rate_kbps = 0, pa_signal_strength_dbm = 0,
     pa_signal_quality = 0, pa_sinr_db = 0, pa_current_latency_ms = 0, pa_current_jitter_ms = 0, pa_packet_loss_rate = 0,
     pa_available_bandwidth_kbps = 0, pa_ip_address = 0, pa_netmask = 0, pa_gateway = 0, pa_dns_primary = 0,
     pa_dns_secondary = 0, pa_link_state = 0, pa_handover_status = 0, pa_active_bearers = 0\<rparr>"

definition zero_link_params :: mih_link_parameters_t where
  "zero_link_params = \<lparr>mp_current_bandwidth_kbps = 0, mp_current_latency_ms = 0, mp_signal_strength_dbm = 0,
     mp_ip_address = 0, mp_netmask = 0, mp_link_state = 0, mp_signal_quality = 0\<rparr>"

definition zero_capabilities :: MIH_Link_Capabilities where
  "zero_capabilities = \<lparr>lc_max_bandwidth_kbps = 0, lc_typical_latency_ms = 0, lc_cost_per_mb = 0, lc_coverage = 0,
     lc_security_level = 0, lc_mtu = 0\<rparr>"

definition zero_capability :: LINK_CAPABILITY where
  "zero_capability = \<lparr>cy_supported_events = 0, cy_supported_commands = 0, cy_max_bandwidth_kbps = 0, cy_typical_latency_ms = 0,
     cy_link_type = 0, cy_security_level = 0, cy_mtu = 0, cy_is_asymmetric = False\<rparr>"

definition zero_dlm_client :: DlmClient where
  "zero_dlm_client = \<lparr>dm_client_fd = 0, dm_link_id = [], dm_dlm_id = [], dm_is_registered = False, dm_is_link_up = False,
     dm_last_heartbeat = 0, dm_last_seen = 0, dm_link_identifier = zero_link_tuple, dm_capabilities = zero_capabilities,
     dm_link_params = zero_link_params, dm_dlm_pid = 0, dm_health_status = [], dm_bearers = replicate MAX_BEARERS zero_bearer,
     dm_num_active_bearers = 0, dm_link_capability = zero_capability, dm_subscribed_events = 0,
     dm_current_parameters = zero_parameters\<rparr>"

definition zero_callback :: EventCallbackEntry where
  "zero_callback = \<lparr>ec_event_type = 0, ec_callback = None\<rparr>"

section \<open>Access\<close>

definition mx_sessions :: "MagicContext \<Rightarrow> ClientSession list" where
  "mx_sessions x = sm_sessions (mx_sm x)"

definition set_session :: "nat \<Rightarrow> ClientSession \<Rightarrow> MagicContext \<Rightarrow> MagicContext" where
  "set_session i s x = x\<lparr>mx_sm := (mx_sm x)\<lparr>sm_sessions := (sm_sessions (mx_sm x))[i := s]\<rparr>\<rparr>"

definition set_dlm_client :: "nat \<Rightarrow> DlmClient \<Rightarrow> MagicContext \<Rightarrow> MagicContext" where
  "set_dlm_client i c x = x\<lparr>mx_lmi := (mx_lmi x)\<lparr>li_clients := (li_clients (mx_lmi x))[i := c]\<rparr>\<rparr>"

lemma mx_sessions_updates [simp]:
  "mx_sessions (set_session i s x) = (mx_sessions x)[i := s]"
  "mx_sessions (set_dlm_client i c x) = mx_sessions x"
  "mx_sessions (x\<lparr>mx_pushes := ps\<rparr>) = mx_sessions x"
  "mx_sessions (x\<lparr>mx_attempts := n\<rparr>) = mx_sessions x"
  "mx_sessions (x\<lparr>mx_replies := rs\<rparr>) = mx_sessions x"
  "mx_sessions (x\<lparr>mx_closed := fds\<rparr>) = mx_sessions x"
  "mx_sessions (x\<lparr>mx_config := cfg\<rparr>) = mx_sessions x"
  "mx_sessions (x\<lparr>mx_lmi := l\<rparr>) = mx_sessions x"
  "mx_sessions (x\<lparr>mx_dp := d\<rparr>) = mx_sessions x"
  by (simp_all add: mx_sessions_def set_session_def set_dlm_client_def)

lemma set_session_updates [simp]:
  "set_session i s (x\<lparr>mx_attempts := n\<rparr>) = (set_session i s x)\<lparr>mx_attempts := n\<rparr>"
  "set_session i s (x\<lparr>mx_pushes := ps\<rparr>) = (set_session i s x)\<lparr>mx_pushes := ps\<rparr>"
  "set_session i (mx_sessions x ! i) x = x"
  by (cases x; simp add: set_session_def mx_sessions_def)+

end
