(* ===== verification/Policy.thy ===== *)
theory Policy
  imports Config Magic_Context
begin

text \<open>
  The policy engine (\<open>src/app_magic/magic_policy.c\<close>): wildcard patterns, traffic classification,
  coverage, the damping of link switches, the score of a link and the selection of a path.

  Scores are C \<open>int\<close>s that mix with unsigned operands; \<open>to_int32\<close> is the conversion back to \<open>int\<close>.
  The engine reads the load from the table of link managers, \<open>None\<close>
  when the pointer to the link interface is not set. The clock is the argument \<open>now\<close>.
\<close>

record PolicyRequest =
  rq_client_id :: string
  rq_profile_name :: string
  rq_requested_bw_kbps :: u32
  rq_requested_ret_bw_kbps :: u32
  rq_required_bw_kbps :: u32
  rq_required_ret_bw_kbps :: u32
  rq_priority_class :: u8
  rq_qos_level :: u8
  rq_traffic_class :: u8
  rq_flight_phase :: string
  rq_exclude_link_count :: int
  rq_exclude_links :: "string list"
  rq_current_link_id :: string
  rq_current_bw_percent :: u32
  rq_new_link_bw_percent :: u32
  rq_aircraft_lat :: rat
  rq_aircraft_lon :: rat
  rq_aircraft_alt :: rat
  rq_on_ground :: bool
  rq_has_adif_data :: bool

record PolicyResponse =
  rs_success :: bool
  rs_selected_link_id :: string
  rs_granted_bw_kbps :: u32
  rs_granted_ret_bw_kbps :: u32
  rs_qos_level :: u8
  rs_reason :: string
  rs_matched_traffic_class :: string

record PolicyContext =
  pc_config :: MagicConfig
  pc_initialized :: bool
  pc_lmi_ctx :: "DlmClient list option"

definition zero_response :: PolicyResponse where
  "zero_response = \<lparr>rs_success = False, rs_selected_link_id = [], rs_granted_bw_kbps = 0, rs_granted_ret_bw_kbps = 0,
     rs_qos_level = 0, rs_reason = [], rs_matched_traffic_class = []\<rparr>"

section \<open>Wildcard patterns\<close>

text \<open>
  \<open>wildcard\<close> is the matching loop and \<open>star_loop\<close> the loop that tries the rest of the pattern at every
  position after a star.
\<close>

function wildcard :: "string \<Rightarrow> string \<Rightarrow> bool" and star_loop :: "string \<Rightarrow> string \<Rightarrow> bool" where
  "wildcard (p # ps) (c # cs) =
     (if p = CHR ''*'' then (if ps = [] then True else star_loop ps (c # cs))
      else if p = CHR ''?'' then wildcard ps cs
      else if tolower p \<noteq> tolower c then False else wildcard ps cs)"
| "wildcard [] cs = (cs = [])"
| "wildcard (p # ps) [] = (dropWhile (\<lambda>x. x = CHR ''*'') (p # ps) = [])"
| "star_loop ps (c # cs) = (if wildcard ps (c # cs) then True else star_loop ps cs)"
| "star_loop ps [] = wildcard ps []"
  by pat_completeness auto
termination
  by (relation "measures [\<lambda>x. case x of Inl (p, s) \<Rightarrow> length p | Inr (p, s) \<Rightarrow> length p,
                          \<lambda>x. case x of Inl (p, s) \<Rightarrow> length s | Inr (p, s) \<Rightarrow> length s,
                          \<lambda>x. case x of Inl _ \<Rightarrow> 0 | Inr _ \<Rightarrow> 1]") auto

definition magic_policy_wildcard_match :: "string option \<Rightarrow> string option \<Rightarrow> bool" where
  "magic_policy_wildcard_match pat str =
     (case pat of None \<Rightarrow> False | Some p \<Rightarrow> (case str of None \<Rightarrow> False | Some s \<Rightarrow> wildcard p s))"

section \<open>Traffic classes\<close>

definition class_matches :: "u8 \<Rightarrow> u8 \<Rightarrow> string option \<Rightarrow> TrafficClassDefinition \<Rightarrow> bool" where
  "class_matches prio qos profile d \<longleftrightarrow>
     tc_has_priority_class_match d \<and> tc_match_priority_class d = prio
     \<or> tc_has_qos_level_match d \<and> tc_match_qos_level d = qos
     \<or> profile \<noteq> None \<and> tc_num_patterns d > 0
        \<and> list_ex (\<lambda>p. magic_policy_wildcard_match (Some p) profile) (used_part (tc_match_patterns d) (tc_num_patterns d))"

fun classify_loop :: "u8 \<Rightarrow> u8 \<Rightarrow> string option \<Rightarrow> string \<Rightarrow> TrafficClassDefinition list \<Rightarrow> string" where
  "classify_loop prio qos profile dflt [] = dflt"
| "classify_loop prio qos profile dflt (d # ds) =
     (if tc_is_default d then classify_loop prio qos profile (tc_traffic_class_id d) ds
      else if class_matches prio qos profile d then tc_traffic_class_id d
      else classify_loop prio qos profile dflt ds)"

definition magic_policy_classify_traffic :: "CentralPolicyProfile \<Rightarrow> u8 \<Rightarrow> u8 \<Rightarrow> string option \<Rightarrow> string" where
  "magic_policy_classify_traffic policy prio qos profile =
     (if cp_num_traffic_class_defs policy = 0 then ''BEST_EFFORT''
      else classify_loop prio qos profile ''BEST_EFFORT''
             (used_part (cp_traffic_class_defs policy) (cp_num_traffic_class_defs policy)))"

section \<open>Coverage\<close>

definition metres_to_feet :: "rat \<Rightarrow> rat" where
  "metres_to_feet m = to_double (m * to_double (328084 / 100000))"

definition magic_policy_check_coverage :: "CoverageConfig option \<Rightarrow> rat \<Rightarrow> rat \<Rightarrow> rat \<Rightarrow> bool" where
  "magic_policy_check_coverage coverage lat lon alt_m =
     (case coverage of None \<Rightarrow> True
      | Some c \<Rightarrow> if \<not> cv_enabled c then True else in_box c lat lon (metres_to_feet alt_m))"

section \<open>Switching between links\<close>

definition magic_policy_can_switch_link ::
  "int \<Rightarrow> CentralPolicyProfile option \<Rightarrow> ClientSession option \<Rightarrow> string option \<Rightarrow> u32 \<Rightarrow> bool" where
  "magic_policy_can_switch_link now policy session new_link new_bw =
     (case (policy, session, new_link) of
        (Some p, Some s, Some l) \<Rightarrow>
          let sw = cp_switching_policy p; cur = cs_current_bw_percent s in
          if cs_assigned_link_id s = [] then True
          else if cs_assigned_link_id s = l then False
          else if cs_last_link_switch_time s > 0
                  \<and> now - cs_last_link_switch_time s < uint (sp_min_dwell_time_sec sw) then False
          else if cur > 0 \<and> new_bw > 0 \<and> new_bw < cur + cur * sp_hysteresis_percentage sw div 100 then False
          else True
      | _ \<Rightarrow> True)"

section \<open>Score\<close>

text \<open>The requested bandwidth is converted to \<open>float\<close>, and the head-room is a \<open>float\<close> difference.\<close>

definition calculate_link_score :: "DLMConfig \<Rightarrow> PathPreference \<Rightarrow> u32 \<Rightarrow> int" where
  "calculate_link_score dlm pref requested_bw =
     (if pp_has_max_latency pref \<and> dc_latency_ms dlm > pp_max_latency_ms pref then - 999999
      else
        let req = to_float (of_nat (unat requested_bw));
            s1 = to_int32 (uint ((10 - pp_ranking pref) * 1000));
            s2 = (if dc_max_forward_bw_kbps dlm \<ge> req
                  then to_int32 (s1 + uint (fp_to_u32 (to_float (dc_max_forward_bw_kbps dlm - req)) div 100))
                  else s1 - 5000);
            s3 = (if dc_latency_ms dlm < 50 then s2 + 100 else if dc_latency_ms dlm > 500 then s2 - 50 else s2)
        in case dc_dlm_type dlm of
             DLM_TYPE_SATELLITE \<Rightarrow> s3 + 5 | DLM_TYPE_CELLULAR \<Rightarrow> s3 + 3 | DLM_TYPE_HYBRID \<Rightarrow> s3 + 4
           | DLM_TYPE_UNKNOWN \<Rightarrow> s3)"

section \<open>Path selection\<close>

definition magic_policy_init :: "PolicyContext option \<Rightarrow> MagicConfig option \<Rightarrow> int \<times> PolicyContext option" where
  "magic_policy_init ctx config =
     (case (ctx, config) of
        (Some _, Some c) \<Rightarrow> (0, Some \<lparr>pc_config = c, pc_initialized = True, pc_lmi_ctx = None\<rparr>)
      | _ \<Rightarrow> (-1, ctx))"

definition magic_policy_cleanup :: "PolicyContext \<Rightarrow> PolicyContext" where
  "magic_policy_cleanup ctx = ctx\<lparr>pc_initialized := False\<rparr>"

definition active_sessions :: "PolicyContext \<Rightarrow> string \<Rightarrow> int" where
  "active_sessions ctx link_id =
     (case pc_lmi_ctx ctx of None \<Rightarrow> 0
      | Some cs \<Rightarrow>
          (case find_idx (\<lambda>d. dm_is_registered d \<and> dm_link_id d = link_id) cs of
             None \<Rightarrow> 0 | Some j \<Rightarrow> uint (dm_num_active_bearers (cs ! j))))"

text \<open>The tests of the selection loop: the index of the link when the preference is a candidate.\<close>

definition candidate :: "PolicyContext \<Rightarrow> ClientProfile \<Rightarrow> PolicyRequest \<Rightarrow> PathPreference \<Rightarrow> nat option" where
  "candidate ctx client req pref =
     (if pp_action pref = ACTION_PROHIBIT then None
      else if \<not> magic_config_is_dlm_allowed client (Some (pp_link_id pref)) then None
      else case magic_config_find_dlm (pc_config ctx) (Some (pp_link_id pref)) of
             None \<Rightarrow> None
           | Some k \<Rightarrow>
               let dlm = mc_dlm_configs (pc_config ctx) ! k in
               if \<not> dc_is_active dlm then None
               else if \<not> mc_adif_degraded_mode (pc_config ctx) \<and> cv_enabled (dc_coverage dlm) \<and> rq_has_adif_data req
                       \<and> (rq_aircraft_lat req \<noteq> 0 \<or> rq_aircraft_lon req \<noteq> 0)
                       \<and> \<not> magic_policy_check_coverage (Some (dc_coverage dlm)) (rq_aircraft_lat req) (rq_aircraft_lon req) (rq_aircraft_alt req)
               then None
               else if rq_has_adif_data req \<and> pp_on_ground_only pref \<and> \<not> rq_on_ground req then None
               else if rq_has_adif_data req \<and> pp_airborne_only pref \<and> rq_on_ground req then None
               else Some k)"

definition path_score :: "PolicyContext \<Rightarrow> ClientProfile \<Rightarrow> PolicyRequest \<Rightarrow> PathPreference \<Rightarrow> nat \<Rightarrow> int" where
  "path_score ctx client req pref k =
     calculate_link_score (mc_dlm_configs (pc_config ctx) ! k) pref (rq_requested_bw_kbps req)
     - active_sessions ctx (pp_link_id pref) * 600
     + (if lk_preferred_dlm (cl_link_policy client) \<noteq> [] \<and> pp_link_id pref = lk_preferred_dlm (cl_link_policy client)
        then 500 else 0)"

fun select_loop ::
  "PolicyContext \<Rightarrow> ClientProfile \<Rightarrow> PolicyRequest \<Rightarrow> PathPreference list \<Rightarrow> (nat \<times> PathPreference) option \<Rightarrow> int
     \<Rightarrow> (nat \<times> PathPreference) option \<times> int" where
  "select_loop ctx client req [] sel best = (sel, best)"
| "select_loop ctx client req (pref # prefs) sel best =
     (case candidate ctx client req pref of
        None \<Rightarrow> select_loop ctx client req prefs sel best
      | Some k \<Rightarrow>
          let score = path_score ctx client req pref k in
          if score > best then select_loop ctx client req prefs (Some (k, pref)) score
          else select_loop ctx client req prefs sel best)"

definition find_rule_for :: "PolicyRuleSet \<Rightarrow> string \<Rightarrow> nat option" where
  "find_rule_for rs tclass = find_idx (\<lambda>r. pl_traffic_class r = tclass) (used_part (ps_rules rs) (ps_num_rules rs))"

definition choose_rule :: "PolicyRuleSet \<Rightarrow> ClientProfile \<Rightarrow> string \<Rightarrow> nat option" where
  "choose_rule rs client tclass =
     (case find_rule_for rs tclass of Some i \<Rightarrow> Some i
      | None \<Rightarrow>
          (case find_rule_for rs ''ALL_TRAFFIC'' of Some i \<Rightarrow> Some i
           | None \<Rightarrow>
               if qc_priority_class (cl_qos client) > 0
               then find_rule_for rs (snprintf_buf 16 (''PRIORITY_'' @ show_word (qc_priority_class (cl_qos client))))
               else None))"

definition choose_ruleset :: "MagicConfig \<Rightarrow> string \<Rightarrow> PolicyRuleSet option" where
  "choose_ruleset config flight_phase =
     (case magic_config_find_ruleset config flight_phase of
        Some i \<Rightarrow> Some (cp_rulesets (mc_policy config) ! i)
      | None \<Rightarrow> if cp_num_rulesets (mc_policy config) > 0 then Some (cp_rulesets (mc_policy config) ! 0) else None)"

definition client_limit :: "ClientProfile \<Rightarrow> u32" where
  "client_limit client =
     (if bw_max_forward_kbps (cl_bandwidth client) = 0 then 10000 else bw_max_forward_kbps (cl_bandwidth client))"

definition refuse :: "PolicyResponse \<Rightarrow> string \<Rightarrow> int \<times> PolicyResponse" where
  "refuse r reason = (-1, r\<lparr>rs_reason := snprintf_buf 128 reason\<rparr>)"

definition magic_policy_select_path :: "PolicyContext \<Rightarrow> PolicyRequest \<Rightarrow> int \<times> PolicyResponse" where
  "magic_policy_select_path ctx req =
     (let cfg = pc_config ctx in
      case magic_config_find_client cfg (Some (rq_client_id req)) of
        None \<Rightarrow> refuse zero_response (''Client '' @ [CHR 0x27] @ rq_client_id req @ [CHR 0x27] @ '' not found in configuration'')
      | Some ci \<Rightarrow>
          let client = mc_clients cfg ! ci in
          if \<not> cl_enabled client
          then refuse zero_response (''Client '' @ [CHR 0x27] @ rq_client_id req @ [CHR 0x27] @ '' profile is disabled'')
          else if rq_requested_bw_kbps req > client_limit client
          then refuse zero_response (''Requested BW ('' @ show_word (rq_requested_bw_kbps req)
                 @ '' kbps) exceeds client limit ('' @ show_word (client_limit client) @ '' kbps)'')
          else case choose_ruleset cfg (rq_flight_phase req) of
                 None \<Rightarrow> refuse zero_response ''No policy rulesets configured''
               | Some rs \<Rightarrow>
                   let tclass = magic_policy_classify_traffic (mc_policy cfg) (rq_priority_class req)
                                  (rq_qos_level req) (Some (rq_profile_name req));
                       resp = zero_response\<lparr>rs_matched_traffic_class := strncpy_buf 63 tclass\<rparr>
                   in case choose_rule rs client tclass of
                        None \<Rightarrow> refuse resp (''No policy rule for traffic class '' @ [CHR 0x27] @ tclass @ [CHR 0x27])
                      | Some ri \<Rightarrow>
                          let rule = ps_rules rs ! ri in
                          (case select_loop ctx client req (used_part (pl_preferences rule) (pl_num_preferences rule)) None (- 999999) of
                             (Some (k, pref), best) \<Rightarrow>
                               let name = dc_dlm_name (mc_dlm_configs cfg ! k) in
                               (0, resp\<lparr>rs_success := True, rs_selected_link_id := strncpy_buf 63 name,
                                        rs_granted_bw_kbps := rq_requested_bw_kbps req,
                                        rs_granted_ret_bw_kbps := rq_requested_ret_bw_kbps req, rs_qos_level := rq_qos_level req,
                                        rs_reason := snprintf_buf 128 (''Selected '' @ name @ '' (ranking ''
                                          @ show_word (pp_ranking pref) @ '', score '' @ show_int best @ '')'')\<rparr>)
                           | (None, _) \<Rightarrow> refuse resp ''No suitable link available (all offline or prohibited)''))"

end
