(* ===== verification/Policy_Props.thy ===== *)
theory Policy_Props
  imports Policy
begin

text \<open>
  Correctness of the policy engine: wildcard matching is the usual pattern semantics, the selection
  loop finds the first candidate of maximal score, the damping of switches prevents a return, and
  the score is the intended formula on ordinary values.
\<close>

section \<open>Patterns\<close>

text \<open>The meaning of a pattern, independent of any matching strategy.\<close>

inductive glob :: "string \<Rightarrow> string \<Rightarrow> bool" where
  glob_end: "glob [] []"
| glob_star: "glob ps r \<Longrightarrow> glob (CHR ''*'' # ps) (s @ r)"
| glob_any: "glob ps cs \<Longrightarrow> glob (CHR ''?'' # ps) (c # cs)"
| glob_char: "p \<noteq> CHR ''*'' \<Longrightarrow> p \<noteq> CHR ''?'' \<Longrightarrow> tolower p = tolower c \<Longrightarrow> glob ps cs \<Longrightarrow> glob (p # ps) (c # cs)"

inductive_cases glob_NilE: "glob [] s"
inductive_cases glob_ConsE: "glob (p # ps) s"
inductive_simps glob_Nil [simp]: "glob [] s"

lemma glob_star_iff: "glob (CHR ''*'' # ps) s \<longleftrightarrow> (\<exists>a r. s = a @ r \<and> glob ps r)"
  by (rule iffI, erule glob_ConsE) (auto intro: glob_star)

lemma glob_any_iff: "glob (CHR ''?'' # ps) s \<longleftrightarrow> (\<exists>c cs. s = c # cs \<and> glob ps cs)"
  by (rule iffI, erule glob_ConsE) (auto intro: glob_any)

lemma glob_char_iff:
  "p \<noteq> CHR ''*'' \<Longrightarrow> p \<noteq> CHR ''?'' \<Longrightarrow> glob (p # ps) s \<longleftrightarrow> (\<exists>c cs. s = c # cs \<and> tolower p = tolower c \<and> glob ps cs)"
  by (rule iffI, erule glob_ConsE) (auto intro: glob_char)

lemma glob_star_Cons: "glob (CHR ''*'' # ps) (c # cs) \<longleftrightarrow> glob ps (c # cs) \<or> glob (CHR ''*'' # ps) cs"
  by (auto simp: glob_star_iff Cons_eq_append_conv)

lemma glob_empty_text: "glob ps [] \<longleftrightarrow> dropWhile (\<lambda>x. x = CHR ''*'') ps = []"
proof (induction ps)
  case (Cons p ps)
  then show ?case
    by (cases "p = CHR ''*''"; cases "p = CHR ''?''") (auto simp: glob_star_iff glob_any_iff glob_char_iff)
qed simp

lemma glob_trailing_star: "glob [CHR ''*''] s"
  using glob_star [OF glob_end, of s] by simp

lemma wildcard_glob:
  "wildcard p s \<longleftrightarrow> glob p s"
  "star_loop p s \<longleftrightarrow> glob (CHR ''*'' # p) s"
proof (induction p s and p s rule: wildcard_star_loop.induct)
  case (1 p ps c cs)
  then show ?case
    by (cases "p = CHR ''*''"; cases "p = CHR ''?''")
      (auto simp: glob_any_iff glob_char_iff glob_trailing_star)
next
  case (3 p ps)
  then show ?case by (simp add: glob_empty_text)
next
  case (4 ps c cs)
  then show ?case by (auto simp: glob_star_Cons)
next
  case (5 ps)
  then show ?case by (auto simp: glob_star_iff)
qed simp

text \<open>
  C16. The recursive matcher decides exactly the pattern language: a star stands for any text, a
  question mark for one character, every other character for itself up to letter case.
\<close>

theorem wildcard_match_is_glob:
  "magic_policy_wildcard_match (Some p) (Some s) \<longleftrightarrow> glob p s"
  by (simp add: magic_policy_wildcard_match_def wildcard_glob)

section \<open>Selection\<close>

lemma select_loop_ge: "best \<le> snd (select_loop ctx client req prefs sel best)"
proof (induction prefs arbitrary: sel best)
  case (Cons p prefs)
  show ?case
    by (auto simp: Let_def intro: Cons.IH order_trans [OF less_imp_le Cons.IH] split: option.splits)
qed simp

lemma select_loop_covers:
  "p \<in> set prefs \<Longrightarrow> candidate ctx client req p = Some k \<Longrightarrow>
   path_score ctx client req p k \<le> snd (select_loop ctx client req prefs sel best)"
proof (induction prefs arbitrary: sel best)
  case (Cons q prefs)
  then show ?case
    using select_loop_ge [of best ctx client req prefs sel]
      select_loop_ge [of "path_score ctx client req p k" ctx client req prefs "Some (k, p)"]
    by (auto simp: Let_def split: option.splits)
qed simp

definition first_best :: "PolicyContext \<Rightarrow> ClientProfile \<Rightarrow> PolicyRequest \<Rightarrow> PathPreference list \<Rightarrow> int \<Rightarrow> nat \<Rightarrow> nat \<Rightarrow> int \<Rightarrow> bool" where
  "first_best ctx client req prefs lo i k score \<longleftrightarrow>
     i < length prefs \<and> candidate ctx client req (prefs ! i) = Some k \<and> score = path_score ctx client req (prefs ! i) k
     \<and> lo < score
     \<and> (\<forall>j<i. \<forall>k'. candidate ctx client req (prefs ! j) = Some k' \<longrightarrow> path_score ctx client req (prefs ! j) k' < score)"

lemma first_best_Suc:
  assumes "first_best ctx client req prefs lo' i k score" and "lo \<le> lo'"
    and "\<And>k'. candidate ctx client req p = Some k' \<Longrightarrow> path_score ctx client req p k' \<le> lo'"
  shows "first_best ctx client req (p # prefs) lo (Suc i) k score"
  using assms unfolding first_best_def by (force simp: less_Suc_eq_0_disj)

lemma select_loop_first:
  "select_loop ctx client req prefs sel best = (sel', best') \<Longrightarrow>
   (sel' = sel \<and> best' = best) \<or> (\<exists>i k. first_best ctx client req prefs best i k best' \<and> sel' = Some (k, prefs ! i))"
proof (induction prefs arbitrary: sel best)
  case (Cons p prefs)
  show ?case
  proof (cases "\<exists>k. candidate ctx client req p = Some k \<and> path_score ctx client req p k > best")
    case True
    then obtain k where k: "candidate ctx client req p = Some k" "path_score ctx client req p k > best" by blast
    with Cons.prems have "select_loop ctx client req prefs (Some (k, p)) (path_score ctx client req p k) = (sel', best')"
      by simp
    from Cons.IH [OF this] show ?thesis
    proof (elim disjE conjE exE)
      assume "sel' = Some (k, p)" "best' = path_score ctx client req p k"
      then show ?thesis using k by (intro disjI2 exI [of _ 0] exI [of _ k]) (simp add: first_best_def)
    next
      fix i k' assume f: "first_best ctx client req prefs (path_score ctx client req p k) i k' best'" "sel' = Some (k', prefs ! i)"
      have "first_best ctx client req (p # prefs) best (Suc i) k' best'"
        using k by (intro first_best_Suc [OF f(1)]) auto
      then show ?thesis using f(2) by (metis nth_Cons_Suc)
    qed
  next
    case False
    then have skip: "select_loop ctx client req prefs sel best = (sel', best')"
      using Cons.prems by (auto simp: Let_def split: option.splits if_splits)
    have "first_best ctx client req (p # prefs) best (Suc i) k best'" if "first_best ctx client req prefs best i k best'" for i k
      using False by (intro first_best_Suc [OF that]) (auto simp: not_less)
    then show ?thesis using Cons.IH [OF skip] by (metis nth_Cons_Suc)
  qed
qed simp

text \<open>The preferences of the rule that applies to a request of a client.\<close>

definition rule_prefs :: "PolicyContext \<Rightarrow> ClientProfile \<Rightarrow> PolicyRequest \<Rightarrow> PathPreference list option" where
  "rule_prefs ctx client req =
     (case choose_ruleset (pc_config ctx) (rq_flight_phase req) of None \<Rightarrow> None
      | Some rs \<Rightarrow>
          map_option (\<lambda>ri. used_part (pl_preferences (ps_rules rs ! ri)) (pl_num_preferences (ps_rules rs ! ri)))
            (choose_rule rs client (magic_policy_classify_traffic (mc_policy (pc_config ctx)) (rq_priority_class req)
               (rq_qos_level req) (Some (rq_profile_name req)))))"

lemma candidate_dlm:
  assumes "candidate ctx client req p = Some k"
  shows "dc_dlm_name (mc_dlm_configs (pc_config ctx) ! k) = pp_link_id p" "dc_is_active (mc_dlm_configs (pc_config ctx) ! k)"
    "pp_action p \<noteq> ACTION_PROHIBIT" "magic_config_is_dlm_allowed client (Some (pp_link_id p))"
    "rq_has_adif_data req \<Longrightarrow> pp_on_ground_only p \<Longrightarrow> rq_on_ground req"
    "rq_has_adif_data req \<Longrightarrow> pp_airborne_only p \<Longrightarrow> \<not> rq_on_ground req"
  using assms find_idx_SomeD [of "\<lambda>d. dc_dlm_name d = pp_link_id p"
      "used_part (mc_dlm_configs (pc_config ctx)) (mc_num_dlm_configs (pc_config ctx))" k]
  by (auto simp: candidate_def magic_config_find_dlm_def Let_def used_part_nth split: if_splits option.splits)

lemma candidate_coverage:
  assumes "candidate ctx client req p = Some k" and "rq_has_adif_data req" and "\<not> mc_adif_degraded_mode (pc_config ctx)"
    and "rq_aircraft_lat req \<noteq> 0 \<or> rq_aircraft_lon req \<noteq> 0"
  shows "magic_policy_check_coverage (Some (dc_coverage (mc_dlm_configs (pc_config ctx) ! k)))
           (rq_aircraft_lat req) (rq_aircraft_lon req) (rq_aircraft_alt req)"
proof (cases "cv_enabled (dc_coverage (mc_dlm_configs (pc_config ctx) ! k))")
  case True
  then show ?thesis
    using assms by (auto simp: candidate_def Let_def split: if_splits option.splits)
qed (simp add: magic_policy_check_coverage_def)

lemma select_path_served:
  assumes "magic_config_find_client (pc_config ctx) (Some (rq_client_id req)) = Some ci"
    and "client = mc_clients (pc_config ctx) ! ci" and "cl_enabled client"
    and "rq_requested_bw_kbps req \<le> client_limit client" and "rule_prefs ctx client req = Some prefs"
  shows "fst (magic_policy_select_path ctx req) = (if fst (select_loop ctx client req prefs None (- 999999)) = None then -1 else 0)"
    and "fst (select_loop ctx client req prefs None (- 999999)) = Some (k, p) \<Longrightarrow>
       rs_selected_link_id (snd (magic_policy_select_path ctx req)) = strncpy_buf 63 (dc_dlm_name (mc_dlm_configs (pc_config ctx) ! k))
       \<and> rs_granted_bw_kbps (snd (magic_policy_select_path ctx req)) = rq_requested_bw_kbps req"
  using assms
  by (auto simp: magic_policy_select_path_def rule_prefs_def Let_def refuse_def not_less split: option.splits prod.splits)

lemma select_path_success:
  assumes "magic_policy_select_path ctx req = (0, resp)"
  obtains ci prefs where "magic_config_find_client (pc_config ctx) (Some (rq_client_id req)) = Some ci"
    "cl_enabled (mc_clients (pc_config ctx) ! ci)" "rq_requested_bw_kbps req \<le> client_limit (mc_clients (pc_config ctx) ! ci)"
    "rule_prefs ctx (mc_clients (pc_config ctx) ! ci) req = Some prefs"
  using assms
  by (auto simp: magic_policy_select_path_def rule_prefs_def Let_def refuse_def not_less split: option.splits prod.splits if_splits)


text \<open>
  C15. The choice is optimal: for a client that may be served, the engine succeeds exactly when some
  candidate of the rule scores above the threshold, and then selects the first preference of the
  highest score.
\<close>

theorem selected_path_is_best:
  assumes "magic_config_find_client (pc_config ctx) (Some (rq_client_id req)) = Some ci"
    and "client = mc_clients (pc_config ctx) ! ci" and "cl_enabled client"
    and "rq_requested_bw_kbps req \<le> client_limit client" and "rule_prefs ctx client req = Some prefs"
  shows "(if \<exists>p\<in>set prefs. \<exists>k. candidate ctx client req p = Some k \<and> path_score ctx client req p k > - 999999
          then \<exists>i k score. first_best ctx client req prefs (- 999999) i k score
                 \<and> (\<forall>p\<in>set prefs. \<forall>k'. candidate ctx client req p = Some k' \<longrightarrow> path_score ctx client req p k' \<le> score)
                 \<and> fst (magic_policy_select_path ctx req) = 0
                 \<and> rs_selected_link_id (snd (magic_policy_select_path ctx req)) = strncpy_buf 63 (pp_link_id (prefs ! i))
          else fst (magic_policy_select_path ctx req) = -1)"
proof -
  note served = select_path_served [OF assms]
  obtain sel best where l: "select_loop ctx client req prefs None (- 999999) = (sel, best)" by (rule prod.exhaust)
  have all: "path_score ctx client req p k \<le> best" if "p \<in> set prefs" "candidate ctx client req p = Some k" for p k
    using select_loop_covers [OF that, of None "- 999999"] l by simp
  from select_loop_first [OF l] show ?thesis
  proof (elim disjE conjE exE)
    assume n: "sel = None" "best = - 999999"
    then have "\<not> (\<exists>p\<in>set prefs. \<exists>k. candidate ctx client req p = Some k \<and> path_score ctx client req p k > - 999999)"
      using all by (auto simp: not_less)
    then show ?thesis using served(1) l n(1) by simp
  next
    fix i k assume f: "first_best ctx client req prefs (- 999999) i k best" "sel = Some (k, prefs ! i)"
    then have c: "candidate ctx client req (prefs ! i) = Some k" "i < length prefs" "best = path_score ctx client req (prefs ! i) k" "best > - 999999"
      by (auto simp: first_best_def)
    then have ex: "\<exists>p\<in>set prefs. \<exists>k. candidate ctx client req p = Some k \<and> path_score ctx client req p k > - 999999"
      using nth_mem by blast
    have "rs_selected_link_id (snd (magic_policy_select_path ctx req)) = strncpy_buf 63 (pp_link_id (prefs ! i))"
      using served(2) l f(2) candidate_dlm(1) [OF c(1)] by simp
    with f all served(1) l have "first_best ctx client req prefs (- 999999) i k best
        \<and> (\<forall>p\<in>set prefs. \<forall>k'. candidate ctx client req p = Some k' \<longrightarrow> path_score ctx client req p k' \<le> best)
        \<and> fst (magic_policy_select_path ctx req) = 0
        \<and> rs_selected_link_id (snd (magic_policy_select_path ctx req)) = strncpy_buf 63 (pp_link_id (prefs ! i))"
      by simp
    with ex show ?thesis by (subst if_P) blast+
  qed
qed

text \<open>
  The latency limit is not hard: a link beyond the limit of its preference scores -999999, but the
  bonus for the client's preferred link still applies, so such a link without active sessions is
  selected when it is the only candidate.
\<close>

lemma latency_limit_is_not_enforced:
  assumes "magic_config_find_client (pc_config ctx) (Some (rq_client_id req)) = Some ci"
    and "client = mc_clients (pc_config ctx) ! ci" and "cl_enabled client"
    and "rq_requested_bw_kbps req \<le> client_limit client" and "rule_prefs ctx client req = Some [p]"
    and "candidate ctx client req p = Some k"
    and "pp_has_max_latency p" and "dc_latency_ms (mc_dlm_configs (pc_config ctx) ! k) > pp_max_latency_ms p"
    and "active_sessions ctx (pp_link_id p) = 0" and "pp_link_id p \<noteq> []" and "lk_preferred_dlm (cl_link_policy client) = pp_link_id p"
  shows "fst (magic_policy_select_path ctx req) = 0
         \<and> rs_selected_link_id (snd (magic_policy_select_path ctx req)) = strncpy_buf 63 (pp_link_id p)"
proof -
  have "path_score ctx client req p k = - 999499"
    using assms(7-11) by (simp add: path_score_def calculate_link_score_def)
  then have "fst (select_loop ctx client req [p] None (- 999999)) = Some (k, p)" using assms(6) by simp
  then show ?thesis
    using select_path_served [OF assms(1-5)] candidate_dlm(1) [OF assms(6)] by simp
qed

lemma threshold_nat:
  assumes "x \<le> (100 :: u32)" and "h \<le> 100"
  shows "unat (x + x * h div 100) = unat x + unat x * unat h div 100"
proof -
  have b: "unat x \<le> 100" "unat h \<le> 100" using assms by (simp_all add: word_le_nat_alt)
  then have "unat x * unat h \<le> 100 * 100" by (rule mult_le_mono)
  then have p: "unat (x * h) = unat x * unat h" by (simp add: unat_word_ariths)
  have "unat x * unat h div 100 \<le> 100" using \<open>unat x * unat h \<le> 100 * 100\<close> by simp
  then show ?thesis using b p by (simp add: unat_word_ariths unat_div)
qed

text \<open>
  Damping: once the session manager has assigned another link, no switch at all is allowed within
  the dwell time, and a switch that the hysteresis test let through is not allowed back on the same
  figures at any time, as soon as the margin amounts to one percentage point.
\<close>

lemma switch_is_damped:
  assumes asg: "magic_session_assign_link now (Some b) bearer bw ret_bw s = (r, s')"
    and link: "cs_assigned_link_id s \<noteq> []" "cs_assigned_link_id s \<noteq> b" "b \<noteq> []" "length b \<le> 63" "0 < now"
    and ok: "magic_policy_can_switch_link now (Some p) (Some s) (Some b) y"
    and pct: "h = sp_hysteresis_percentage (cp_switching_policy p)" "x = cs_current_bw_percent s"
      "0 < x" "x \<le> 100" "0 < y" "y \<le> 100" "h \<le> 100" "100 \<le> unat x * unat h"
  shows "(now' < now + uint (sp_min_dwell_time_sec (cp_switching_policy p)) \<longrightarrow> \<not> magic_policy_can_switch_link now' (Some p) (Some s') (Some c) z)
    \<and> \<not> magic_policy_can_switch_link now' (Some p) (Some (s'\<lparr>cs_current_bw_percent := y\<rparr>)) (Some (cs_assigned_link_id s)) x"
proof -
  have s': "cs_assigned_link_id s' = b" "cs_last_link_switch_time s' = now"
    using asg link by (auto simp: magic_session_assign_link_def)
  have "x + x * h div 100 \<le> y"
    using ok link(1,2) pct(1-3,5) by (auto simp: magic_policy_can_switch_link_def Let_def split: if_splits)
  then have "unat x + 1 \<le> unat y"
    using pct(4,7,8) by (simp add: word_le_nat_alt threshold_nat)
  then have "x < y + y * h div 100"
    using pct(6,7) by (simp add: word_less_nat_alt threshold_nat)
  then show ?thesis
    using s' link(2,3,5) pct(1,3,5) by (simp add: magic_policy_can_switch_link_def)
qed

lemma select_loop_exclusions:
  "select_loop ctx client (req\<lparr>rq_exclude_link_count := n, rq_exclude_links := ls\<rparr>) prefs sel best
     = select_loop ctx client req prefs sel best"
proof -
  have c: "candidate ctx client (req\<lparr>rq_exclude_link_count := n, rq_exclude_links := ls\<rparr>) q = candidate ctx client req q" for q
    by (auto simp: candidate_def Let_def split: option.split)
  have s: "path_score ctx client (req\<lparr>rq_exclude_link_count := n, rq_exclude_links := ls\<rparr>) q k = path_score ctx client req q k" for q k
    by (simp add: path_score_def)
  show ?thesis by (induction prefs arbitrary: sel best) (auto simp: c s Let_def split: option.split)
qed

text \<open>
  Links to be excluded are ignored: the exclusion fields that the fallback of the client interface
  fills in with the links already tried have no influence on the decision.
\<close>

lemma exclusions_are_ignored:
  "magic_policy_select_path ctx (req\<lparr>rq_exclude_link_count := n, rq_exclude_links := ls\<rparr>) = magic_policy_select_path ctx req"
  by (simp add: magic_policy_select_path_def select_loop_exclusions Let_def split: option.split prod.split)

section \<open>A configuration\<close>

definition demo_coverage :: CoverageConfig where
  "demo_coverage = \<lparr>cv_enabled = True, cv_min_latitude = -60, cv_max_latitude = 60, cv_min_longitude = -180,
     cv_max_longitude = 180, cv_min_altitude_ft = 0, cv_max_altitude_ft = 45000\<rparr>"

definition demo_dlm :: "string \<Rightarrow> DLMType \<Rightarrow> rat \<Rightarrow> u32 \<Rightarrow> DLMConfig" where
  "demo_dlm name typ kbps latency = \<lparr>dc_dlm_name = name, dc_description = [], dc_enabled = True, dc_dlm_type = typ,
     dc_link_name = [], dc_link_number = 1, dc_max_forward_bw_kbps = kbps, dc_max_return_bw_kbps = kbps,
     dc_oversubscription_ratio = 1, dc_supported_qos = [], dc_num_supported_qos = 0, dc_latency_ms = latency, dc_jitter_ms = 0,
     dc_packet_loss_rate = 0, dc_mihf_id = [], dc_dlm_socket_path = [],
     dc_load_balance = \<lparr>lb_algorithm = LB_ALGO_UNKNOWN, lb_enable_failover = False, lb_health_check_interval_sec = 0\<rparr>,
     dc_coverage = demo_coverage, dc_is_active = True\<rparr>"

definition demo_pref :: "string \<Rightarrow> u32 \<Rightarrow> PathPreference" where
  "demo_pref link rank = \<lparr>pp_ranking = rank, pp_link_id = link, pp_action = ACTION_PERMIT, pp_security_required = [],
     pp_has_max_latency = True, pp_max_latency_ms = 600, pp_on_ground_only = False, pp_airborne_only = False\<rparr>"

definition demo_client :: "string \<Rightarrow> ClientProfile" where
  "demo_client preferred = \<lparr>cl_profile_name = ''IFE'', cl_client_id = ''ife'', cl_description = [], cl_enabled = True,
     cl_auth = \<lparr>ca_username = [], ca_client_password = [], ca_server_password = [], ca_source_ip = []\<rparr>,
     cl_bandwidth = \<lparr>bw_max_forward_kbps = 5000, bw_max_return_kbps = 5000, bw_guaranteed_forward_kbps = 0,
        bw_guaranteed_return_kbps = 0, bw_default_request_kbps = 0\<rparr>,
     cl_qos = \<lparr>qc_priority_type = PRIORITY_TYPE_BLOCKING, qc_priority_class = 5, qc_default_level = 0, qc_allowed_levels = [],
        qc_num_allowed_levels = 0\<rparr>,
     cl_link_policy = \<lparr>lk_allowed_dlms = [], lk_num_allowed_dlms = 0, lk_preferred_dlm = preferred, lk_allow_multi_link = False,
        lk_max_concurrent_links = 1\<rparr>,
     cl_session = \<lparr>sc_max_concurrent_sessions = 1, sc_session_timeout_sec = 60, sc_auto_reconnect = False, sc_reconnect_delay_sec = 0,
        sc_allowed_phases = [], sc_num_allowed_phases = 0, sc_allow_detailed_status = False, sc_allow_registered_clients = False,
        sc_msxr_rate_limit_sec = 5, sc_allow_cdr_control = False\<rparr>,
     cl_traffic = \<lparr>ts_encryption_required = False, ts_allowed_protocols = [], ts_num_allowed_protocols = 0, ts_allowed_tfts = [],
        ts_num_allowed_tfts = 0, ts_dest_ip_range = [], ts_dest_port_range = [], ts_source_port_range = [], ts_max_packet_size = 0\<rparr>,
     cl_location = \<lparr>lo_geo_restriction_enabled = False, lo_allowed_regions = [], lo_num_allowed_regions = 0,
        lo_require_coverage = False, lo_min_coverage_type = COVERAGE_UNKNOWN\<rparr>,
     cl_is_online = True\<rparr>"

definition demo_ctx :: "PathPreference list \<Rightarrow> string \<Rightarrow> PolicyContext" where
  "demo_ctx prefs preferred =
     \<lparr>pc_config =
        \<lparr>mc_dlm_configs = [demo_dlm ''SAT'' DLM_TYPE_SATELLITE 2000 700, demo_dlm ''CELL'' DLM_TYPE_CELLULAR 10000 60],
         mc_num_dlm_configs = 2,
         mc_policy = \<lparr>cp_available_links = [], cp_num_links = 0, cp_traffic_class_defs = [], cp_num_traffic_class_defs = 0,
           cp_switching_policy = \<lparr>sp_min_dwell_time_sec = 30, sp_hysteresis_percentage = 20\<rparr>,
           cp_rulesets = [\<lparr>ps_ruleset_id = ''R'', ps_flight_phases = ''CRUISE,CLIMB'',
              ps_rules = [\<lparr>pl_traffic_class = ''ALL_TRAFFIC'', pl_preferences = prefs, pl_num_preferences = word_of_nat (length prefs)\<rparr>],
              ps_num_rules = 1\<rparr>],
           cp_num_rulesets = 1\<rparr>,
         mc_clients = [demo_client preferred], mc_num_clients = 1, mc_load_time = 0, mc_is_loaded = True,
         mc_adif_degraded_mode = False\<rparr>,
      pc_initialized = True, pc_lmi_ctx = Some [zero_dlm_client\<lparr>dm_link_id := ''CELL'', dm_is_registered := True, dm_num_active_bearers := 1\<rparr>]\<rparr>"

definition demo_request :: PolicyRequest where
  "demo_request = \<lparr>rq_client_id = ''ife'', rq_profile_name = ''IFE'', rq_requested_bw_kbps = 1000, rq_requested_ret_bw_kbps = 500,
     rq_required_bw_kbps = 0, rq_required_ret_bw_kbps = 0, rq_priority_class = 5, rq_qos_level = 1, rq_traffic_class = 0,
     rq_flight_phase = ''CRUISE'', rq_exclude_link_count = 0, rq_exclude_links = [], rq_current_link_id = [],
     rq_current_bw_percent = 0, rq_new_link_bw_percent = 0, rq_aircraft_lat = 48, rq_aircraft_lon = 11, rq_aircraft_alt = 10000,
     rq_on_ground = False, rq_has_adif_data = True\<rparr>"

lemma demo_served:
  "magic_config_find_client (pc_config (demo_ctx ps q)) (Some (rq_client_id demo_request)) = Some 0"
  "cl_enabled (demo_client q)" "rq_requested_bw_kbps demo_request \<le> client_limit (demo_client q)"
  by (simp_all add: demo_ctx_def demo_request_def demo_client_def magic_config_find_client_def used_part_def client_limit_def)

lemma demo_ctx_client: "demo_client q = mc_clients (pc_config (demo_ctx ps q)) ! 0"
  by (simp add: demo_ctx_def)

lemma demo_rule:
  assumes "length ps < 2 ^ 32"
  shows "rule_prefs (demo_ctx ps q) (demo_client q) demo_request = Some ps"
  using assms
  by (simp add: rule_prefs_def demo_ctx_def demo_request_def choose_ruleset_def magic_config_find_ruleset_def used_part_def
      choose_rule_def find_rule_for_def magic_policy_classify_traffic_def unsigned_of_nat take_bit_nat_eq_self)

lemma demo_feet: "metres_to_feet 10000 = 4509152161090765 / 137438953472"
  by code_simp

lemma to_float_numeral: "numeral n < (2 ^ 24 :: nat) \<Longrightarrow> to_float (numeral n) = numeral n"
  using to_float_nat [of "numeral n"] by simp

lemma demo_candidates:
  "candidate (demo_ctx ps q) (demo_client q) demo_request (demo_pref ''SAT'' r) = Some 0"
  "candidate (demo_ctx ps q) (demo_client q) demo_request (demo_pref ''CELL'' r) = Some 1"
  by (simp_all add: candidate_def demo_ctx_def demo_client_def demo_request_def demo_pref_def demo_dlm_def demo_coverage_def
      magic_config_is_dlm_allowed_def magic_config_find_dlm_def used_part_def magic_policy_check_coverage_def in_box_def demo_feet)

lemma demo_scores:
  "path_score (demo_ctx ps []) (demo_client []) demo_request (demo_pref ''SAT'' 1) 0 = - 999999"
  "path_score (demo_ctx ps []) (demo_client []) demo_request (demo_pref ''CELL'' 2) 1 = 7493"
  by (simp_all add: path_score_def calculate_link_score_def demo_ctx_def demo_client_def demo_request_def demo_pref_def demo_dlm_def
     active_sessions_def to_float_numeral fp_to_u32_def to_int32_def)
lemma demo_prefs:
  "rule_prefs (demo_ctx [demo_pref ''SAT'' 1, demo_pref ''CELL'' 2] []) (demo_client []) demo_request
     = Some [demo_pref ''SAT'' 1, demo_pref ''CELL'' 2]"
  "rule_prefs (demo_ctx [demo_pref ''SAT'' 1] ''SAT'') (demo_client ''SAT'') demo_request = Some [demo_pref ''SAT'' 1]"
  using demo_rule [of "[demo_pref ''SAT'' 1, demo_pref ''CELL'' 2]" "[]"] demo_rule [of "[demo_pref ''SAT'' 1]" "''SAT''"]
  by simp_all


theorem selected_path_is_best_witness:
  "rs_selected_link_id (snd (magic_policy_select_path (demo_ctx [demo_pref ''SAT'' 1, demo_pref ''CELL'' 2] []) demo_request)) = ''CELL''"
proof -
  let ?ctx = "demo_ctx [demo_pref ''SAT'' 1, demo_pref ''CELL'' 2] []" and ?ps = "[demo_pref ''SAT'' 1, demo_pref ''CELL'' 2]"
  have ex: "\<exists>p\<in>set ?ps. \<exists>k. candidate ?ctx (demo_client []) demo_request p = Some k
      \<and> path_score ?ctx (demo_client []) demo_request p k > - 999999"
    using demo_candidates(2) demo_scores(2) by (intro bexI [of _ "demo_pref ''CELL'' 2"] exI [of _ 1]) auto
  from selected_path_is_best [OF demo_served(1) demo_ctx_client demo_served(2,3) demo_prefs(1)] ex
  obtain i k score where b: "first_best ?ctx (demo_client []) demo_request ?ps (- 999999) i k score"
    "rs_selected_link_id (snd (magic_policy_select_path ?ctx demo_request)) = strncpy_buf 63 (pp_link_id (?ps ! i))"
    by (auto simp only: if_True)
  have "i \<noteq> 0"
  proof
    assume "i = 0"
    with b(1) show False by (auto simp: first_best_def demo_candidates demo_scores)
  qed
  moreover from b(1) have "i < 2" by (simp add: first_best_def)
  ultimately have "i = 1" by simp
  with b(2) show ?thesis by (simp add: demo_pref_def)
qed

lemma latency_limit_is_not_enforced_witness:
  "rs_selected_link_id (snd (magic_policy_select_path (demo_ctx [demo_pref ''SAT'' 1] ''SAT'') demo_request)) = ''SAT''"
proof -
  have "pp_has_max_latency (demo_pref ''SAT'' 1)"
    "dc_latency_ms (mc_dlm_configs (pc_config (demo_ctx [demo_pref ''SAT'' 1] ''SAT'')) ! 0) > pp_max_latency_ms (demo_pref ''SAT'' 1)"
    "active_sessions (demo_ctx [demo_pref ''SAT'' 1] ''SAT'') (pp_link_id (demo_pref ''SAT'' 1)) = 0"
    "pp_link_id (demo_pref ''SAT'' 1) \<noteq> []" "lk_preferred_dlm (cl_link_policy (demo_client ''SAT'')) = pp_link_id (demo_pref ''SAT'' 1)"
    by (simp_all add: demo_ctx_def demo_pref_def demo_dlm_def active_sessions_def demo_client_def)
  from latency_limit_is_not_enforced [OF demo_served(1) demo_ctx_client demo_served(2,3) demo_prefs(2) demo_candidates(1) this]
  show ?thesis by (simp add: demo_pref_def)
qed

definition demo_switching :: CentralPolicyProfile where
  "demo_switching = mc_policy (pc_config (demo_ctx [] []))"

lemma switch_is_damped_witness:
  "\<not> magic_policy_can_switch_link 5000 (Some demo_switching)
       (Some (zero_session\<lparr>cs_assigned_link_id := ''CELL'', cs_bearer_id := 2, cs_granted_bw_kbps := 100, cs_granted_ret_bw_kbps := 100,
          cs_state := SESSION_STATE_ACTIVE, cs_last_activity := 1000, cs_previous_link_id := ''SAT'', cs_last_link_switch_time := 1000,
          cs_current_bw_percent := 70\<rparr>)) (Some ''SAT'') 40"
proof -
  let ?s = "zero_session\<lparr>cs_assigned_link_id := ''SAT'', cs_current_bw_percent := 40\<rparr>"
  obtain r s' where a: "magic_session_assign_link 1000 (Some ''CELL'') 2 100 100 ?s = (r, s')" by (rule prod.exhaust)
  have ok: "magic_policy_can_switch_link 1000 (Some demo_switching) (Some ?s) (Some ''CELL'') 70"
    by (simp add: magic_policy_can_switch_link_def demo_switching_def demo_ctx_def zero_session_def)
  have h: "sp_hysteresis_percentage (cp_switching_policy demo_switching) = 20" by (simp add: demo_switching_def demo_ctx_def)
  have "\<not> magic_policy_can_switch_link 5000 (Some demo_switching) (Some (s'\<lparr>cs_current_bw_percent := 70\<rparr>)) (Some (cs_assigned_link_id ?s)) 40"
    using switch_is_damped [OF a _ _ _ _ _ ok refl refl, of 5000 "[]" 0] by (simp add: h)
  moreover have "s' = zero_session\<lparr>cs_assigned_link_id := ''CELL'', cs_bearer_id := 2, cs_granted_bw_kbps := 100, cs_granted_ret_bw_kbps := 100,
          cs_state := SESSION_STATE_ACTIVE, cs_last_activity := 1000, cs_previous_link_id := ''SAT'', cs_last_link_switch_time := 1000,
          cs_current_bw_percent := 40\<rparr>"
    using a by (auto simp: magic_session_assign_link_def zero_session_def)
  ultimately show ?thesis by simp
qed

end
