(* ===== verification/Push.thy ===== *)
theory Push
  imports Magic_Context
begin

text \<open>
  Server-initiated notifications (\<open>src/app_magic/magic_cic_push.c\<close>): the report to a session (MNTR)
  with its storm control and acknowledgement time-out, the broadcast of status changes (MSCR) and
  the reactions to link, bandwidth and hand-over events.

  libfdproto and libfdcore build and send the messages: their outcomes are the parameter \<open>env\<close>,
  indexed by the number of messages attempted before. A message is what the code puts into it; a
  message that was handed to \<open>fd_msg_send\<close> successfully is recorded in \<open>mx_pushes\<close>. A
  \<open>ClientSession *\<close> is the index of its slot. One clock reading per operation.
\<close>

abbreviation MNTR_ACK_TIMEOUT_SEC :: int where "MNTR_ACK_TIMEOUT_SEC \<equiv> 5"
abbreviation MNTR_MIN_INTERVAL_SEC :: int where "MNTR_MIN_INTERVAL_SEC \<equiv> 1"
abbreviation MNTR_BW_CHANGE_THRESHOLD :: u32 where "MNTR_BW_CHANGE_THRESHOLD \<equiv> 10"
abbreviation MAGIC_STATUS_SUCCESS :: u32 where "MAGIC_STATUS_SUCCESS \<equiv> 0"
abbreviation MAGIC_STATUS_NO_FREE_BANDWIDTH :: u32 where "MAGIC_STATUS_NO_FREE_BANDWIDTH \<equiv> 1016"
abbreviation MAGIC_STATUS_LINK_ERROR :: u32 where "MAGIC_STATUS_LINK_ERROR \<equiv> 2007"
abbreviation MAGIC_STATUS_FORCED_REROUTING :: u32 where "MAGIC_STATUS_FORCED_REROUTING \<equiv> 2010"

text \<open>
  Building a message succeeds, fails in a call after which the function returns, or fails in a call
  after which the loop goes on with the next session.
\<close>

datatype build_result = Built | Build_returns | Build_continues

record dia_env =
  de_new :: "nat \<Rightarrow> bool"
  de_build :: "nat \<Rightarrow> build_result"
  de_report :: "nat \<Rightarrow> bool"
  de_info :: "nat \<Rightarrow> nat \<Rightarrow> bool"
  de_send :: "nat \<Rightarrow> bool"

datatype StatusChangeType =
    STATUS_CHANGE_DLM_UP | STATUS_CHANGE_DLM_DOWN | STATUS_CHANGE_DLM_DEGRADED
  | STATUS_CHANGE_CLIENT_JOIN | STATUS_CHANGE_CLIENT_LEAVE

record MNTRParams =
  mn_magic_status_code :: u32
  mn_error_message :: "string option"
  mn_new_granted_bw :: u32
  mn_new_granted_ret_bw :: u32
  mn_new_link_id :: "string option"
  mn_new_bearer_id :: u32
  mn_new_gateway_ip :: "string option"
  mn_force_send :: bool

record MSCRParams =
  mr_type :: StatusChangeType
  mr_magic_status_code :: u32
  mr_error_message :: "string option"
  mr_dlm_name :: "string option"
  mr_dlm_available :: int

definition zero_mntr :: MNTRParams where
  "zero_mntr = \<lparr>mn_magic_status_code = 0, mn_error_message = None, mn_new_granted_bw = 0, mn_new_granted_ret_bw = 0,
     mn_new_link_id = None, mn_new_bearer_id = 0, mn_new_gateway_ip = None, mn_force_send = False\<rparr>"

section \<open>Reports to one session\<close>

text \<open>The change in per cent as the code computes it: unsigned 32-bit arithmetic read as a signed value.\<close>

definition change_percent :: "u32 \<Rightarrow> u32 \<Rightarrow> u32" where
  "change_percent old new = (let c = (new - old) * 100 div old in if sint c < 0 then - c else c)"

definition magic_cic_should_send_mntr :: "int \<Rightarrow> ClientSession \<Rightarrow> u32 \<Rightarrow> bool \<Rightarrow> bool" where
  "magic_cic_should_send_mntr now s new_bw_kbps force =
     (if force then True
      else if cs_last_mntr_sent_time s > 0 \<and> now - cs_last_mntr_sent_time s < MNTR_MIN_INTERVAL_SEC then False
      else if cs_last_notified_bw_kbps s > 0 \<and> new_bw_kbps > 0
              \<and> change_percent (cs_last_notified_bw_kbps s) new_bw_kbps < MNTR_BW_CHANGE_THRESHOLD then False
      else True)"

definition destination_realm :: "ClientSession \<Rightarrow> string" where
  "destination_realm s =
     (if cs_client_realm s \<noteq> [] then strncpy_buf 127 (cs_client_realm s)
      else case strchr_split CHR ''.'' (cs_client_id s) of
             Some (_, r) \<Rightarrow> strncpy_buf 127 r
           | None \<Rightarrow> ''client.local'')"

definition non_empty :: "string option \<Rightarrow> string option" where
  "non_empty s = (case s of Some (c # cs) \<Rightarrow> Some (c # cs) | _ \<Rightarrow> None)"

definition mntr_of :: "dia_env \<Rightarrow> nat \<Rightarrow> ClientSession \<Rightarrow> MNTRParams \<Rightarrow> push_msg" where
  "mntr_of env n s ps =
     MNTR (cs_session_id s) (destination_realm s)
       (if de_report env n
        then Some \<lparr>rp_profile_name = cs_profile_name s, rp_granted_bw = mn_new_granted_bw ps,
                   rp_granted_return_bw = mn_new_granted_ret_bw ps, rp_gateway_ip = non_empty (mn_new_gateway_ip ps)\<rparr>
        else None)
       (if mn_magic_status_code ps > 0 then Some (mn_magic_status_code ps) else None)
       (non_empty (mn_error_message ps))"

definition magic_cic_send_mntr :: "dia_env \<Rightarrow> int \<Rightarrow> nat \<Rightarrow> MNTRParams \<Rightarrow> MagicContext \<Rightarrow> int \<times> MagicContext" where
  "magic_cic_send_mntr env now slot ps x =
     (let s = mx_sessions x ! slot; new_bw = mn_new_granted_bw ps div 1000 in
      if \<not> magic_cic_should_send_mntr now s new_bw (mn_force_send ps) then (0, x)
      else
        let n = mx_attempts x; x1 = x\<lparr>mx_attempts := n + 1\<rparr> in
        if \<not> de_new env n then (-1, x1)
        else if de_build env n \<noteq> Built then (-1, x1)
        else
          let s1 = s\<lparr>cs_mntr_pending_ack := True, cs_last_mntr_sent_time := now, cs_last_notified_bw_kbps := new_bw\<rparr> in
          if de_send env n
          then (0, (set_session slot s1 x1)\<lparr>mx_pushes := mx_pushes x @ [mntr_of env n s ps]\<rparr>)
          else (-1, set_session slot (s1\<lparr>cs_mntr_pending_ack := False\<rparr>) x1))"

text \<open>The answer, or \<open>None\<close> when libfdcore gives up waiting: then the session in the slot is deleted.\<close>

definition mntr_answer_callback :: "os_env \<Rightarrow> int \<Rightarrow> nat \<Rightarrow> u32 option \<Rightarrow> MagicContext \<Rightarrow> MagicContext" where
  "mntr_answer_callback os now slot answer x =
     (let s = mx_sessions x ! slot; x1 = set_session slot (s\<lparr>cs_mntr_pending_ack := False\<rparr>) x in
      case answer of
        Some result_code \<Rightarrow> x1
      | None \<Rightarrow>
          let (r, m, w) = magic_session_delete os now (Some (cs_session_id s)) (mx_sm x1) (mx_dp x1)
          in x1\<lparr>mx_sm := m, mx_dp := w\<rparr>)"

definition ack_overdue :: "int \<Rightarrow> ClientSession \<Rightarrow> bool" where
  "ack_overdue now s \<longleftrightarrow> cs_in_use s \<and> cs_mntr_pending_ack s \<and> now - cs_last_mntr_sent_time s \<ge> MNTR_ACK_TIMEOUT_SEC"

definition magic_cic_check_mntr_timeouts :: "int \<Rightarrow> MagicContext \<Rightarrow> MagicContext" where
  "magic_cic_check_mntr_timeouts now x =
     x\<lparr>mx_sm := (mx_sm x)\<lparr>
         sm_sessions := map (\<lambda>s. if ack_overdue now s
                                then s\<lparr>cs_mntr_pending_ack := False, cs_state := SESSION_STATE_CLOSED, cs_in_use := False\<rparr> else s)
                          (mx_sessions x),
         sm_session_count := sm_session_count (mx_sm x) - int (count_if (ack_overdue now) (mx_sessions x))\<rparr>\<rparr>"

section \<open>Broadcasts\<close>

definition mscr_answer_callback :: "nat \<Rightarrow> u32 option \<Rightarrow> MagicContext \<Rightarrow> MagicContext" where
  "mscr_answer_callback slot answer x =
     (let unsubscribed = set_session slot ((mx_sessions x ! slot)\<lparr>cs_status_subscription_active := False, cs_subscribed_status_level := 0\<rparr>) x in
      case answer of None \<Rightarrow> unsubscribed
      | Some result_code \<Rightarrow> if result_code = 2001 then x else unsubscribed)"

definition need_dlm :: "ClientSession \<Rightarrow> bool" where
  "need_dlm s \<longleftrightarrow> cs_subscribed_status_level s \<ge> 2"

definition need_magic :: "ClientSession \<Rightarrow> bool" where
  "need_magic s \<longleftrightarrow> cs_subscribed_status_level s = 1 \<or> cs_subscribed_status_level s = 3 \<or> cs_subscribed_status_level s = 7"

definition mscr_wanted :: "MSCRParams \<Rightarrow> ClientSession \<Rightarrow> bool" where
  "mscr_wanted ps s =
     (if mr_type ps = STATUS_CHANGE_CLIENT_JOIN \<or> mr_type ps = STATUS_CHANGE_CLIENT_LEAVE then need_magic s else need_dlm s)"

definition registered_clients :: "MagicContext \<Rightarrow> u32" where
  "registered_clients x = word_of_int (sm_session_count (mx_sm x))"

definition mscr_of :: "MagicContext \<Rightarrow> ClientSession \<Rightarrow> MSCRParams \<Rightarrow> push_msg" where
  "mscr_of x s ps =
     MSCR (cs_session_id s) (destination_realm s) (if need_magic s then Some (registered_clients x) else None)
       (if need_dlm s
        then map_option (\<lambda>name. [\<lparr>di_dlm_name = name, di_dlm_available = (if mr_dlm_available ps = 0 then 1 else 2),
                                  di_dlm_max_links = of_nat MAX_BEARERS, di_dlm_max_bw = 10000, di_dlm_alloc_links = 0,
                                  di_dlm_alloc_bw = 0\<rparr>]) (mr_dlm_name ps)
        else None)
       (if mr_magic_status_code ps > 0 then Some (mr_magic_status_code ps) else None)
       (non_empty (mr_error_message ps))"

fun broadcast_loop :: "dia_env \<Rightarrow> MSCRParams \<Rightarrow> nat list \<Rightarrow> int \<Rightarrow> MagicContext \<Rightarrow> int \<times> MagicContext" where
  "broadcast_loop env ps [] sent x = (sent, x)"
| "broadcast_loop env ps (slot # slots) sent x =
     (let s = mx_sessions x ! slot in
      if \<not> mscr_wanted ps s then broadcast_loop env ps slots sent x
      else
        let n = mx_attempts x; x1 = x\<lparr>mx_attempts := n + 1\<rparr> in
        if \<not> de_new env n then broadcast_loop env ps slots sent x1
        else case de_build env n of
               Build_returns \<Rightarrow> (-1, x1)
             | Build_continues \<Rightarrow> broadcast_loop env ps slots sent x1
             | Built \<Rightarrow>
                 if de_send env n
                 then broadcast_loop env ps slots (sent + 1) (x1\<lparr>mx_pushes := mx_pushes x1 @ [mscr_of x s ps]\<rparr>)
                 else broadcast_loop env ps slots sent x1)"

definition magic_cic_broadcast_mscr :: "dia_env \<Rightarrow> MSCRParams \<Rightarrow> MagicContext \<Rightarrow> int \<times> MagicContext" where
  "magic_cic_broadcast_mscr env ps x = broadcast_loop env ps (magic_session_find_subscribed (mx_sm x) (int MAX_SESSIONS)) 0 x"

section \<open>Events\<close>

definition link_change_params :: "bool \<Rightarrow> ClientSession \<Rightarrow> MNTRParams" where
  "link_change_params up s =
     (if up
      then zero_mntr\<lparr>mn_force_send := True, mn_magic_status_code := MAGIC_STATUS_SUCCESS, mn_error_message := Some ''Link recovered'',
                     mn_new_granted_bw := cs_granted_bw_kbps s * 1000, mn_new_granted_ret_bw := cs_granted_ret_bw_kbps s * 1000\<rparr>
      else zero_mntr\<lparr>mn_force_send := True, mn_magic_status_code := MAGIC_STATUS_LINK_ERROR,
                     mn_error_message := Some ''Link connection lost''\<rparr>)"

fun link_change_loop :: "dia_env \<Rightarrow> int \<Rightarrow> string \<Rightarrow> bool \<Rightarrow> nat list \<Rightarrow> MagicContext \<Rightarrow> MagicContext" where
  "link_change_loop env now link_id up [] x = x"
| "link_change_loop env now link_id up (i # is) x =
     (let s = mx_sessions x ! i in
      if \<not> cs_in_use s \<or> cs_state s = SESSION_STATE_CLOSED then link_change_loop env now link_id up is x
      else if cs_assigned_link_id s \<noteq> link_id then link_change_loop env now link_id up is x
      else
        let s1 = (if up then snd (magic_session_resume now s) else snd (magic_session_suspend now s));
            x1 = set_session i s1 x;
            x2 = snd (magic_cic_send_mntr env now i (link_change_params up s) x1)
        in link_change_loop env now link_id up is x2)"

definition link_change_report :: "string \<Rightarrow> bool \<Rightarrow> MSCRParams" where
  "link_change_report link_id up =
     \<lparr>mr_type = (if up then STATUS_CHANGE_DLM_UP else STATUS_CHANGE_DLM_DOWN),
      mr_magic_status_code = (if up then MAGIC_STATUS_SUCCESS else MAGIC_STATUS_LINK_ERROR),
      mr_error_message = Some (if up then ''DLM link recovered'' else ''DLM link lost''),
      mr_dlm_name = Some link_id, mr_dlm_available = (if up then 0 else 1)\<rparr>"

definition magic_cic_on_link_status_change :: "dia_env \<Rightarrow> int \<Rightarrow> string option \<Rightarrow> bool \<Rightarrow> MagicContext \<Rightarrow> int \<times> MagicContext" where
  "magic_cic_on_link_status_change env now link_id up x =
     (case link_id of None \<Rightarrow> (-1, x)
      | Some lid \<Rightarrow>
          let x1 = link_change_loop env now lid up [0..<MAX_SESSIONS] x;
              x2 = snd (magic_cic_broadcast_mscr env (link_change_report lid up) x1)
          in (0, x2))"

definition magic_cic_on_bandwidth_change ::
  "dia_env \<Rightarrow> int \<Rightarrow> nat \<Rightarrow> u32 \<Rightarrow> string option \<Rightarrow> MagicContext \<Rightarrow> int \<times> MagicContext" where
  "magic_cic_on_bandwidth_change env now slot new_bw reason x =
     (let s = mx_sessions x ! slot; old_bw = cs_granted_bw_kbps s in
      if new_bw = old_bw then (0, x)
      else
        let ps = zero_mntr\<lparr>mn_magic_status_code := (if new_bw < old_bw then MAGIC_STATUS_NO_FREE_BANDWIDTH else MAGIC_STATUS_SUCCESS),
                   mn_error_message := reason, mn_new_granted_bw := new_bw * 1000,
                   mn_new_granted_ret_bw := cs_granted_ret_bw_kbps s * 1000, mn_new_link_id := Some (cs_assigned_link_id s),
                   mn_new_bearer_id := ucast (cs_bearer_id s), mn_force_send := False\<rparr>
        in magic_cic_send_mntr env now slot ps (set_session slot (s\<lparr>cs_granted_bw_kbps := new_bw, cs_last_activity := now\<rparr>) x))"

definition magic_cic_on_handover ::
  "dia_env \<Rightarrow> int \<Rightarrow> nat \<Rightarrow> string option \<Rightarrow> string option \<Rightarrow> MagicContext \<Rightarrow> int \<times> MagicContext" where
  "magic_cic_on_handover env now slot new_link_id new_gateway_ip x =
     (case new_link_id of None \<Rightarrow> (-1, x)
      | Some lid \<Rightarrow>
          let s = mx_sessions x ! slot;
              ps = zero_mntr\<lparr>mn_magic_status_code := MAGIC_STATUS_FORCED_REROUTING, mn_error_message := Some ''Link handover completed'',
                     mn_new_granted_bw := cs_granted_bw_kbps s * 1000, mn_new_granted_ret_bw := cs_granted_ret_bw_kbps s * 1000,
                     mn_new_link_id := Some lid, mn_new_bearer_id := ucast (cs_bearer_id s), mn_force_send := True,
                     mn_new_gateway_ip := non_empty new_gateway_ip\<rparr>;
              s1 = (case non_empty new_gateway_ip of None \<Rightarrow> s | Some g \<Rightarrow> s\<lparr>cs_gateway_ip := strncpy_buf 63 g\<rparr>);
              s2 = s1\<lparr>cs_previous_link_id := strncpy_buf 63 (cs_assigned_link_id s1), cs_assigned_link_id := strncpy_buf 63 lid,
                      cs_last_link_switch_time := now, cs_last_activity := now\<rparr>
          in magic_cic_send_mntr env now slot ps (set_session slot s2 x))"

text \<open>The first report after a subscription lists the registered link managers with their bearers.\<close>

definition allocated_bw :: "DlmClient \<Rightarrow> rat" where
  "allocated_bw c =
     foldl (\<lambda>total_bw b. to_float (total_bw + to_float (of_nat (unat (qp_forward_link_rate (be_qos_params b))))))
       0 (filter be_is_active (dm_bearers c))"

definition dlm_info_of :: "DlmClient \<Rightarrow> dlm_info" where
  "dlm_info_of c = \<lparr>di_dlm_name = dm_link_id c, di_dlm_available = (if dm_is_registered c then 1 else 2),
     di_dlm_max_links = of_nat MAX_BEARERS, di_dlm_max_bw = 10000, di_dlm_alloc_links = ucast (dm_num_active_bearers c),
     di_dlm_alloc_bw = allocated_bw c\<rparr>"

definition dlm_list :: "dia_env \<Rightarrow> nat \<Rightarrow> MagicContext \<Rightarrow> dlm_info list" where
  "dlm_list env n x =
     map dlm_info_of (map snd (filter (\<lambda>(i, c). dm_is_registered c \<and> de_info env n i) (enumerate 0 (li_clients (mx_lmi x)))))"

definition magic_cic_send_initial_mscr :: "dia_env \<Rightarrow> nat \<Rightarrow> MagicContext \<Rightarrow> int \<times> MagicContext" where
  "magic_cic_send_initial_mscr env slot x =
     (let s = mx_sessions x ! slot in
      if cs_subscribed_status_level s = 0 then (0, x)
      else
        let n = mx_attempts x; x1 = x\<lparr>mx_attempts := n + 1\<rparr> in
        if \<not> de_new env n then (-1, x1)
        else if de_build env n \<noteq> Built then (-1, x1)
        else if de_send env n
        then (0, x1\<lparr>mx_pushes := mx_pushes x1 @
                 [MSCR (cs_session_id s) (destination_realm s) (if need_magic s then Some (registered_clients x) else None)
                    (if need_dlm s then Some (dlm_list env n x) else None)
                    (Some MAGIC_STATUS_SUCCESS) (Some ''Initial Status Report'')]\<rparr>)
        else (-1, x1))"

end
