(* ===== verification/Lmi.thy ===== *)
theory Lmi
  imports Push
begin

text \<open>
  The link-manager interface (\<open>src/app_magic/magic_lmi.c\<close>): the table of link managers (DLM), their
  bearers, the messages they send over a stream, a datagram or a broadcast socket, the event
  callbacks and the heartbeat monitor.

  A message is handed to its handler as the structure its bytes are read as. For datagrams the
  reading is \<open>None\<close> when the payload is shorter than the structure. Threads are not modelled: every
  handler, and one round of the monitor, is one atomic step; the answers of the socket and thread
  calls at start-up are the parameter \<open>os_answers\<close>. The handlers of the older protocol that the code
  marks as unused are left out.
\<close>

abbreviation HEARTBEAT_TIMEOUT_SEC :: int where "HEARTBEAT_TIMEOUT_SEC \<equiv> 30"
abbreviation MONITOR_CHECK_INTERVAL_SEC :: int where "MONITOR_CHECK_INTERVAL_SEC \<equiv> 10"
abbreviation LINK_EVENT_UP :: u16 where "LINK_EVENT_UP \<equiv> 2"
abbreviation LINK_EVENT_DOWN :: u16 where "LINK_EVENT_DOWN \<equiv> 4"

record MIH_EXT_Link_Register_Request =
  rg_link_identifier :: LINK_TUPLE_ID
  rg_capabilities :: MIH_Link_Capabilities
  rg_dlm_pid :: int

section \<open>Life cycle\<close>

definition zero_lmi :: MagicLmiContext where
  "zero_lmi = \<lparr>li_server_fd = 0, li_running = False, li_dgram_fd = 0, li_dgram_running = False, li_udp_fd = 0,
     li_udp_running = False, li_udp_port = 0, li_heartbeat_monitor_running = False,
     li_clients = replicate MAX_DLM_CLIENTS zero_dlm_client, li_has_config = False,
     li_event_callbacks = replicate MAX_EVENT_CALLBACKS zero_callback, li_num_callbacks = 0\<rparr>"

definition magic_lmi_init :: "MagicContext \<Rightarrow> int \<times> MagicContext" where
  "magic_lmi_init x =
     (0, x\<lparr>mx_lmi := zero_lmi\<lparr>li_server_fd := -1, li_dgram_fd := -1, li_udp_fd := -1, li_udp_port := 1947\<rparr>\<rparr>)"

definition edit_lmi :: "(MagicLmiContext \<Rightarrow> MagicLmiContext) \<Rightarrow> MagicContext \<Rightarrow> MagicContext" where
  "edit_lmi f x = x\<lparr>mx_lmi := f (mx_lmi x)\<rparr>"

definition close_fd :: "int \<Rightarrow> MagicContext \<Rightarrow> MagicContext" where
  "close_fd fd x = x\<lparr>mx_closed := mx_closed x @ [fd]\<rparr>"

record os_answers =
  oa_socket :: int
  oa_options :: bool
  oa_bind :: bool
  oa_listen :: bool
  oa_thread :: bool
  oa_monitor :: bool

definition magic_lmi_start_server :: "os_answers \<Rightarrow> MagicContext \<Rightarrow> int \<times> MagicContext" where
  "magic_lmi_start_server oa x =
     (let x1 = edit_lmi (\<lambda>l. l\<lparr>li_has_config := True, li_server_fd := oa_socket oa\<rparr>) x in
      if oa_socket oa < 0 then (-1, x1)
      else if \<not> oa_bind oa then (-1, close_fd (oa_socket oa) x1)
      else if \<not> oa_listen oa then (-1, close_fd (oa_socket oa) x1)
      else
        let x2 = edit_lmi (\<lambda>l. l\<lparr>li_running := True\<rparr>) x1 in
        if \<not> oa_thread oa then (-1, close_fd (oa_socket oa) x2)
        else
          let x3 = edit_lmi (\<lambda>l. l\<lparr>li_heartbeat_monitor_running := True\<rparr>) x2 in
          if \<not> oa_monitor oa then (-1, close_fd (oa_socket oa) (edit_lmi (\<lambda>l. l\<lparr>li_running := False\<rparr>) x3))
          else (0, x3))"

definition magic_lmi_start_dgram_server :: "os_answers \<Rightarrow> MagicContext \<Rightarrow> int \<times> MagicContext" where
  "magic_lmi_start_dgram_server oa x =
     (let x1 = edit_lmi (\<lambda>l. l\<lparr>li_dgram_fd := oa_socket oa\<rparr>) x in
      if oa_socket oa < 0 then (-1, x1)
      else
        let x2 = edit_lmi (\<lambda>l. l\<lparr>li_dgram_running := True\<rparr>) x1 in
        if \<not> oa_thread oa then (-1, edit_lmi (\<lambda>l. l\<lparr>li_dgram_fd := -1\<rparr>) (close_fd (oa_socket oa) x2))
        else (0, x2))"

definition magic_lmi_start_udp_listener :: "os_answers \<Rightarrow> u16 \<Rightarrow> MagicContext \<Rightarrow> int \<times> MagicContext" where
  "magic_lmi_start_udp_listener oa port x =
     (let x1 = edit_lmi (\<lambda>l. l\<lparr>li_udp_port := (if port = 0 then 1947 else port), li_udp_fd := oa_socket oa\<rparr>) x;
          failed = edit_lmi (\<lambda>l. l\<lparr>li_udp_fd := -1\<rparr>) (close_fd (oa_socket oa) x1)
      in if oa_socket oa < 0 then (-1, x1)
         else if \<not> oa_options oa then (-1, failed)
         else if \<not> oa_bind oa then (-1, failed)
         else if \<not> oa_thread oa then (-1, edit_lmi (\<lambda>l. l\<lparr>li_udp_running := False\<rparr>) failed)
         else (0, edit_lmi (\<lambda>l. l\<lparr>li_udp_running := True\<rparr>) x1))"

definition magic_lmi_cleanup :: "MagicContext \<Rightarrow> MagicContext" where
  "magic_lmi_cleanup x =
     (let l = mx_lmi x;
          x1 = edit_lmi (\<lambda>l. l\<lparr>li_running := False, li_dgram_running := False, li_udp_running := False,
                               li_heartbeat_monitor_running := False\<rparr>) x;
          x2 = (if li_server_fd l \<ge> 0 then close_fd (li_server_fd l) x1 else x1);
          x3 = (if li_dgram_fd l \<ge> 0 then close_fd (li_dgram_fd l) x2 else x2)
      in if li_udp_fd l \<ge> 0 then close_fd (li_udp_fd l) x3 else x3)"

section \<open>Look-ups and link states\<close>

definition magic_lmi_find_by_link :: "MagicLmiContext \<Rightarrow> string option \<Rightarrow> nat option" where
  "magic_lmi_find_by_link l link_id =
     (case link_id of None \<Rightarrow> None
      | Some lid \<Rightarrow> find_idx (\<lambda>c. dm_is_registered c \<and> dm_link_id c = lid) (li_clients l))"

definition find_by_fd :: "int \<Rightarrow> MagicContext \<Rightarrow> nat option" where
  "find_by_fd fd x = find_idx (\<lambda>c. dm_is_registered c \<and> dm_client_fd c = fd) (li_clients (mx_lmi x))"

definition set_active :: "string \<Rightarrow> bool \<Rightarrow> MagicConfig \<Rightarrow> MagicConfig" where
  "set_active link_id b cfg =
     (case magic_config_find_datalink cfg (Some link_id) of None \<Rightarrow> cfg
      | Some k \<Rightarrow> cfg\<lparr>mc_dlm_configs := (mc_dlm_configs cfg)[k := (mc_dlm_configs cfg ! k)\<lparr>dc_is_active := b\<rparr>]\<rparr>)"

definition magic_lmi_update_link_status :: "string \<Rightarrow> bool \<Rightarrow> MagicContext \<Rightarrow> MagicContext" where
  "magic_lmi_update_link_status link_id b x =
     (if li_has_config (mx_lmi x) then x\<lparr>mx_config := set_active link_id b (mx_config x)\<rparr> else x)"

section \<open>Event callbacks\<close>

definition on_lmi_link_event_for_mscr :: "dia_env \<Rightarrow> int \<Rightarrow> string \<Rightarrow> u16 \<Rightarrow> MagicContext \<Rightarrow> MagicContext" where
  "on_lmi_link_event_for_mscr env now link_id event_type x =
     snd (magic_cic_on_link_status_change env now (Some link_id) (event_type = LINK_EVENT_UP) x)"

fun run_callback :: "lmi_event_callback \<Rightarrow> dia_env \<Rightarrow> int \<Rightarrow> string \<Rightarrow> u16 \<Rightarrow> MagicContext \<Rightarrow> MagicContext" where
  "run_callback On_lmi_link_event_for_mscr env now link_id event_type x = on_lmi_link_event_for_mscr env now link_id event_type x"

fun callback_loop :: "dia_env \<Rightarrow> int \<Rightarrow> string \<Rightarrow> u16 \<Rightarrow> EventCallbackEntry list \<Rightarrow> MagicContext \<Rightarrow> MagicContext" where
  "callback_loop env now link_id event_type [] x = x"
| "callback_loop env now link_id event_type (e # es) x =
     (case ec_callback e of
        Some cb \<Rightarrow> (if ec_event_type e = event_type
                    then callback_loop env now link_id event_type es (run_callback cb env now link_id event_type x)
                    else callback_loop env now link_id event_type es x)
      | None \<Rightarrow> callback_loop env now link_id event_type es x)"

definition trigger_lmi_event_callbacks :: "dia_env \<Rightarrow> int \<Rightarrow> string \<Rightarrow> u16 \<Rightarrow> MagicContext \<Rightarrow> MagicContext" where
  "trigger_lmi_event_callbacks env now link_id event_type x =
     callback_loop env now link_id event_type (take (nat (li_num_callbacks (mx_lmi x))) (li_event_callbacks (mx_lmi x))) x"

definition magic_lmi_register_event_callback :: "u16 \<Rightarrow> lmi_event_callback option \<Rightarrow> MagicContext \<Rightarrow> int \<times> MagicContext" where
  "magic_lmi_register_event_callback event_type callback x =
     (case callback of None \<Rightarrow> (-1, x)
      | Some cb \<Rightarrow>
          let l = mx_lmi x in
          if li_num_callbacks l \<ge> int MAX_EVENT_CALLBACKS then (-1, x)
          else (0, x\<lparr>mx_lmi := l\<lparr>li_event_callbacks := (li_event_callbacks l)[nat (li_num_callbacks l) := \<lparr>ec_event_type = event_type, ec_callback = Some cb\<rparr>],
                                 li_num_callbacks := li_num_callbacks l + 1\<rparr>\<rparr>))"

section \<open>Messages on a stream\<close>

text \<open>The 64 bytes from the link address on: the address, and what follows it when it fills its 32 bytes.\<close>

definition tuple_link_id :: "LINK_TUPLE_ID \<Rightarrow> string" where
  "tuple_link_id t = (if length (lt_link_addr t) < 32 then lt_link_addr t else lt_link_addr t @ lt_poa_addr t)"

definition reply :: "int \<Rightarrow> mih_reply \<Rightarrow> MagicContext \<Rightarrow> MagicContext" where
  "reply fd r x = x\<lparr>mx_replies := mx_replies x @ [(fd, r)]\<rparr>"

definition handle_mih_register_request :: "int \<Rightarrow> int \<Rightarrow> MIH_EXT_Link_Register_Request \<Rightarrow> MagicContext \<Rightarrow> MagicContext" where
  "handle_mih_register_request now fd req x =
     (case find_idx (\<lambda>c. \<not> dm_is_registered c) (li_clients (mx_lmi x)) of
        None \<Rightarrow> reply fd (Register_confirm STATUS_INSUFFICIENT_RESOURCES 0) x
      | Some i \<Rightarrow>
          let c = (li_clients (mx_lmi x) ! i)\<lparr>dm_is_registered := True, dm_client_fd := fd, dm_link_identifier := rg_link_identifier req,
                     dm_link_id := tuple_link_id (rg_link_identifier req), dm_capabilities := rg_capabilities req,
                     dm_dlm_pid := rg_dlm_pid req, dm_last_heartbeat := now, dm_last_seen := now\<rparr>
          in reply fd (Register_confirm STATUS_SUCCESS (of_nat i + 1))
               (magic_lmi_update_link_status (dm_link_id c) True (set_dlm_client i c x)))"

definition handle_mih_link_up_indication :: "int \<Rightarrow> mih_link_parameters_t \<Rightarrow> MagicContext \<Rightarrow> MagicContext" where
  "handle_mih_link_up_indication fd params x =
     (case find_by_fd fd x of None \<Rightarrow> x
      | Some i \<Rightarrow>
          let c = (li_clients (mx_lmi x) ! i)\<lparr>dm_link_params := params, dm_is_link_up := True\<rparr>
          in magic_lmi_update_link_status (dm_link_id c) True (set_dlm_client i c x))"

text \<open>The loop over the sessions of a lost link: a session is suspended when its report could be sent.\<close>

fun link_lost_loop :: "dia_env \<Rightarrow> int \<Rightarrow> string \<Rightarrow> nat list \<Rightarrow> MagicContext \<Rightarrow> MagicContext" where
  "link_lost_loop env now link_id [] x = x"
| "link_lost_loop env now link_id (i # is) x =
     (let s = mx_sessions x ! i in
      if \<not> cs_in_use s \<or> cs_state s = SESSION_STATE_CLOSED then link_lost_loop env now link_id is x
      else if cs_assigned_link_id s \<noteq> link_id then link_lost_loop env now link_id is x
      else
        let ps = zero_mntr\<lparr>mn_magic_status_code := MAGIC_STATUS_LINK_ERROR,
                   mn_error_message := Some ''Link Down - datalink connection lost'', mn_force_send := True\<rparr>;
            (r, x1) = magic_cic_send_mntr env now i ps x
        in if r = 0 then link_lost_loop env now link_id is (set_session i ((mx_sessions x1 ! i)\<lparr>cs_state := SESSION_STATE_SUSPENDED\<rparr>) x1)
           else link_lost_loop env now link_id is x1)"

definition handle_mih_link_down_indication :: "dia_env \<Rightarrow> int \<Rightarrow> int \<Rightarrow> MagicContext \<Rightarrow> MagicContext" where
  "handle_mih_link_down_indication env now fd x =
     (case find_by_fd fd x of None \<Rightarrow> x
      | Some i \<Rightarrow>
          let c = li_clients (mx_lmi x) ! i;
              link_id = strncpy_buf 63 (dm_link_id c);
              x1 = magic_lmi_update_link_status (dm_link_id c) False (set_dlm_client i (c\<lparr>dm_is_link_up := False\<rparr>) x)
          in if link_id = [] then x1 else link_lost_loop env now link_id [0..<MAX_SESSIONS] x1)"

definition handle_mih_heartbeat :: "int \<Rightarrow> int \<Rightarrow> MagicContext \<Rightarrow> MagicContext" where
  "handle_mih_heartbeat now fd x =
     (case find_by_fd fd x of None \<Rightarrow> x
      | Some i \<Rightarrow> reply fd (Heartbeat_ack (word_of_int now))
                   (set_dlm_client i ((li_clients (mx_lmi x) ! i)\<lparr>dm_last_heartbeat := now\<rparr>) x))"

definition handle_mih_parameters_report :: "int \<Rightarrow> int \<Rightarrow> LINK_PARAMETERS \<Rightarrow> MagicContext \<Rightarrow> MagicContext" where
  "handle_mih_parameters_report now fd ps x =
     (case find_by_fd fd x of None \<Rightarrow> x
      | Some i \<Rightarrow>
          let c = li_clients (mx_lmi x) ! i
          in set_dlm_client i (c\<lparr>dm_current_parameters := ps,
               dm_link_params := (dm_link_params c)\<lparr>mp_current_bandwidth_kbps := pa_available_bandwidth_kbps ps,
                  mp_current_latency_ms := pa_current_latency_ms ps, mp_signal_strength_dbm := pa_signal_strength_dbm ps,
                  mp_signal_quality := pa_signal_quality ps, mp_ip_address := pa_ip_address ps\<rparr>,
               dm_last_seen := now\<rparr>) x)"

text \<open>A client thread: dispatch by the primitive until the stream ends, then the clean-up of its entry.\<close>

datatype stream_msg =
    Register_request MIH_EXT_Link_Register_Request
  | Link_up_indication mih_link_parameters_t
  | Link_down_indication
  | Heartbeat
  | Parameters_report LINK_PARAMETERS
  | Unknown_primitive

fun dispatch_stream :: "dia_env \<Rightarrow> int \<Rightarrow> int \<Rightarrow> stream_msg \<Rightarrow> MagicContext \<Rightarrow> MagicContext" where
  "dispatch_stream env now fd (Register_request req) x = handle_mih_register_request now fd req x"
| "dispatch_stream env now fd (Link_up_indication ps) x = handle_mih_link_up_indication fd ps x"
| "dispatch_stream env now fd Link_down_indication x = handle_mih_link_down_indication env now fd x"
| "dispatch_stream env now fd Heartbeat x = handle_mih_heartbeat now fd x"
| "dispatch_stream env now fd (Parameters_report ps) x = handle_mih_parameters_report now fd ps x"
| "dispatch_stream env now fd Unknown_primitive x = x"

definition disconnect_client :: "int \<Rightarrow> MagicContext \<Rightarrow> MagicContext" where
  "disconnect_client fd x =
     close_fd fd
       (case find_by_fd fd x of None \<Rightarrow> x
        | Some i \<Rightarrow> set_dlm_client i zero_dlm_client
                     (magic_lmi_update_link_status (dm_link_id (li_clients (mx_lmi x) ! i)) False x))"

fun handle_dlm_client_thread :: "dia_env \<Rightarrow> int \<Rightarrow> (int \<times> stream_msg) list \<Rightarrow> MagicContext \<Rightarrow> MagicContext" where
  "handle_dlm_client_thread env fd [] x = disconnect_client fd x"
| "handle_dlm_client_thread env fd ((now, m) # ms) x =
     (if li_running (mx_lmi x) then handle_dlm_client_thread env fd ms (dispatch_stream env now fd m x) else disconnect_client fd x)"

section \<open>Bearers\<close>

text \<open>Bearer numbers are slot numbers plus one; 0 means that there is none.\<close>

definition magic_dlm_allocate_bearer :: "int \<Rightarrow> DlmClient \<Rightarrow> u8 \<times> DlmClient" where
  "magic_dlm_allocate_bearer now c =
     (case find_idx (\<lambda>b. \<not> be_is_active b) (dm_bearers c) of
        None \<Rightarrow> (0, c)
      | Some i \<Rightarrow>
          let b = (dm_bearers c ! i)\<lparr>be_is_active := True, be_bearer_id := of_nat i + 1, be_created_time := now,
                    be_tx_bytes := 0, be_rx_bytes := 0\<rparr>
          in (be_bearer_id b, c\<lparr>dm_bearers := (dm_bearers c)[i := b], dm_num_active_bearers := dm_num_active_bearers c + 1\<rparr>))"

definition bearer_index :: "u8 \<Rightarrow> nat option" where
  "bearer_index bid = (if bid = 0 \<or> bid > of_nat MAX_BEARERS then None else Some (unat (bid - 1)))"

definition magic_dlm_release_bearer :: "u8 \<Rightarrow> DlmClient \<Rightarrow> int \<times> DlmClient" where
  "magic_dlm_release_bearer bid c =
     (case bearer_index bid of None \<Rightarrow> (-1, c)
      | Some i \<Rightarrow>
          if be_is_active (dm_bearers c ! i)
          then (0, c\<lparr>dm_bearers := (dm_bearers c)[i := zero_bearer], dm_num_active_bearers := dm_num_active_bearers c - 1\<rparr>)
          else (-1, c))"

definition magic_dlm_find_bearer :: "DlmClient \<Rightarrow> u8 \<Rightarrow> nat option" where
  "magic_dlm_find_bearer c bid =
     (case bearer_index bid of None \<Rightarrow> None
      | Some i \<Rightarrow> if be_is_active (dm_bearers c ! i) then Some i else None)"

record MsgMihResourceReq =
  mq_link_id :: string
  mq_action :: RESOURCE_ACTION_TYPE
  mq_bearer_id :: "u8 option"
  mq_qos_params :: "QOS_PARAM option"

record MsgMihResourceResp =
  ma_status :: STATUS
  ma_bearer_id :: "u8 option"
  ma_reason :: string

definition set_bearer_qos :: "nat \<Rightarrow> QOS_PARAM \<Rightarrow> DlmClient \<Rightarrow> DlmClient" where
  "set_bearer_qos i q c = c\<lparr>dm_bearers := (dm_bearers c)[i := (dm_bearers c ! i)\<lparr>be_qos_params := q\<rparr>]\<rparr>"

definition resp :: "STATUS \<Rightarrow> u8 option \<Rightarrow> string \<Rightarrow> MsgMihResourceResp" where
  "resp st bid reason = \<lparr>ma_status = st, ma_bearer_id = bid, ma_reason = strncpy_buf 127 reason\<rparr>"

text \<open>
  The request without a bearer number allocates one and looks it up again; the look-up succeeds
  (lemma \<open>allocated_bearer_found\<close>), its failure stands for the null pointer the code would follow.
\<close>

definition handle_mih_resource_request_internal :: "int \<Rightarrow> MsgMihResourceReq \<Rightarrow> DlmClient \<Rightarrow> MsgMihResourceResp \<times> DlmClient" where
  "handle_mih_resource_request_internal now req c =
     (case mq_action req of
        RESOURCE_ACTION_REQUEST \<Rightarrow>
          (case mq_qos_params req of
             None \<Rightarrow> (resp STATUS_FAILURE None ''QoS parameters required'', c)
           | Some q \<Rightarrow>
               if \<not> validate_qos_params (Some q) then (resp STATUS_QOS_NOT_SUPPORTED None ''Invalid QoS parameters'', c)
               else (case mq_bearer_id req of
                       Some bid \<Rightarrow>
                         (case magic_dlm_find_bearer c bid of
                            None \<Rightarrow> (resp STATUS_INVALID_BEARER None ''Bearer not found'', c)
                          | Some i \<Rightarrow> (resp STATUS_SUCCESS (Some bid) ''Resources updated'', set_bearer_qos i q c))
                     | None \<Rightarrow>
                         let (bid, c1) = magic_dlm_allocate_bearer now c in
                         if bid = 0 then (resp STATUS_INSUFFICIENT_RESOURCES None ''No free bearer slots'', c1)
                         else (case magic_dlm_find_bearer c1 bid of
                                 None \<Rightarrow> (resp STATUS_FAILURE None [], c1)
                               | Some i \<Rightarrow> (resp STATUS_SUCCESS (Some bid) (''Allocated bearer ID '' @ show_word bid), set_bearer_qos i q c1))))
      | RESOURCE_ACTION_RELEASE \<Rightarrow>
          (case mq_bearer_id req of
             None \<Rightarrow> (resp STATUS_FAILURE None ''Bearer ID required'', c)
           | Some bid \<Rightarrow>
               let (r, c1) = magic_dlm_release_bearer bid c in
               if r = 0 then (resp STATUS_SUCCESS None ''Bearer released'', c1)
               else (resp STATUS_INVALID_BEARER None ''Bearer not found'', c1))
      | RESOURCE_ACTION_OTHER \<Rightarrow> (resp STATUS_FAILURE None ''Unknown action'', c))"

record MIH_Link_Resource_Request =
  lq_destination_id :: string
  lq_link_identifier :: LINK_TUPLE_ID
  lq_resource_action :: RESOURCE_ACTION_TYPE
  lq_bearer_identifier :: "u8 option"
  lq_qos_parameters :: "QOS_PARAM option"

record MIH_Link_Resource_Confirm =
  lf_source_identifier :: string
  lf_link_identifier :: LINK_TUPLE_ID
  lf_status :: STATUS
  lf_bearer_identifier :: "u8 option"

definition blank_confirm :: "STATUS \<Rightarrow> MIH_Link_Resource_Confirm" where
  "blank_confirm st = \<lparr>lf_source_identifier = [], lf_link_identifier = zero_link_tuple, lf_status = st, lf_bearer_identifier = None\<rparr>"

definition magic_dlm_mih_link_resource_request ::
  "int \<Rightarrow> MIH_Link_Resource_Request \<Rightarrow> MagicContext \<Rightarrow> int \<times> MIH_Link_Resource_Confirm \<times> MagicContext" where
  "magic_dlm_mih_link_resource_request now request x =
     (case (if li_has_config (mx_lmi x) then magic_config_find_datalink (mx_config x) (Some (lt_link_addr (lq_link_identifier request))) else None) of
        None \<Rightarrow> (-1, blank_confirm STATUS_LINK_NOT_AVAILABLE, x)
      | Some k \<Rightarrow>
          let link = mc_dlm_configs (mx_config x) ! k in
          if \<not> dc_is_active link then (-1, blank_confirm STATUS_LINK_NOT_AVAILABLE, x)
          else
            let req = \<lparr>mq_link_id = strncpy_buf 63 (dc_dlm_name link), mq_action = lq_resource_action request,
                       mq_bearer_id = lq_bearer_identifier request, mq_qos_params = lq_qos_parameters request\<rparr>
            in case magic_lmi_find_by_link (mx_lmi x) (Some (dc_dlm_name link)) of
                 None \<Rightarrow> (-1, blank_confirm STATUS_LINK_NOT_AVAILABLE, x)
               | Some i \<Rightarrow>
                   let (rs, c) = handle_mih_resource_request_internal now req (li_clients (mx_lmi x) ! i)
                   in ((if ma_status rs = STATUS_SUCCESS then 0 else -1),
                       \<lparr>lf_source_identifier = lq_destination_id request, lf_link_identifier = lq_link_identifier request,
                        lf_status = ma_status rs, lf_bearer_identifier = ma_bearer_id rs\<rparr>,
                       set_dlm_client i c x))"

record LINK_Resource_Request =
  kq_resource_action :: RESOURCE_ACTION_TYPE
  kq_bearer_identifier :: "u8 option"
  kq_qos_parameters :: "QOS_PARAM option"

definition magic_dlm_link_resource_request ::
  "int \<Rightarrow> LINK_Resource_Request \<Rightarrow> DlmClient \<Rightarrow> int \<times> (STATUS \<times> u8 option) \<times> DlmClient" where
  "magic_dlm_link_resource_request now request c =
     (case kq_resource_action request of
        RESOURCE_ACTION_REQUEST \<Rightarrow>
          (case kq_qos_parameters request of
             None \<Rightarrow> (-1, (STATUS_FAILURE, None), c)
           | Some q \<Rightarrow>
               (case kq_bearer_identifier request of
                  Some bid \<Rightarrow>
                    (case magic_dlm_find_bearer c bid of
                       None \<Rightarrow> (-1, (STATUS_INVALID_BEARER, None), c)
                     | Some i \<Rightarrow> (0, (STATUS_SUCCESS, Some bid), set_bearer_qos i q c))
                | None \<Rightarrow>
                    let (bid, c1) = magic_dlm_allocate_bearer now c in
                    if bid = 0 then (-1, (STATUS_INSUFFICIENT_RESOURCES, None), c1)
                    else (0, (STATUS_SUCCESS, Some bid),
                          (case magic_dlm_find_bearer c1 bid of None \<Rightarrow> c1 | Some i \<Rightarrow> set_bearer_qos i q c1))))
      | RESOURCE_ACTION_RELEASE \<Rightarrow>
          (case kq_bearer_identifier request of
             None \<Rightarrow> (-1, (STATUS_FAILURE, None), c)
           | Some bid \<Rightarrow>
               let (r, c1) = magic_dlm_release_bearer bid c in
               if r \<noteq> 0 then (-1, (STATUS_INVALID_BEARER, None), c1) else (0, (STATUS_SUCCESS, None), c1))
      | RESOURCE_ACTION_OTHER \<Rightarrow> (0, (STATUS_SUCCESS, None), c))"

definition magic_dlm_update_health :: "string \<Rightarrow> DlmClient \<Rightarrow> DlmClient" where
  "magic_dlm_update_health health c = c\<lparr>dm_health_status := health\<rparr>"

section \<open>Datagrams\<close>

definition has_sub :: "string \<Rightarrow> string \<Rightarrow> bool" where
  "has_sub s pat \<longleftrightarrow> strstr s pat \<noteq> None"

definition path_matches :: "string \<Rightarrow> DlmClient \<Rightarrow> bool" where
  "path_matches path c \<longleftrightarrow> dm_is_registered c \<and>
     (has_sub path ''cellular'' \<and> has_sub (dm_dlm_id c) ''CELLULAR'' \<or> has_sub path ''satcom'' \<and> has_sub (dm_dlm_id c) ''SATCOM''
      \<or> has_sub path ''wifi'' \<and> has_sub (dm_dlm_id c) ''WIFI'')"

definition name_client :: "string \<Rightarrow> DlmClient \<Rightarrow> DlmClient" where
  "name_client path c =
     (if has_sub path ''cellular''
      then c\<lparr>dm_dlm_id := ''DLM_CELLULAR_DGRAM'', dm_link_id := ''LINK_CELLULAR'', dm_link_identifier := (dm_link_identifier c)\<lparr>lt_link_type := 0x12\<rparr>\<rparr>
      else if has_sub path ''satcom''
      then c\<lparr>dm_dlm_id := ''DLM_SATCOM_DGRAM'', dm_link_id := ''LINK_SATCOM'', dm_link_identifier := (dm_link_identifier c)\<lparr>lt_link_type := 0x22\<rparr>\<rparr>
      else if has_sub path ''wifi''
      then c\<lparr>dm_dlm_id := ''DLM_WIFI_DGRAM'', dm_link_id := ''LINK_WIFI'', dm_link_identifier := (dm_link_identifier c)\<lparr>lt_link_type := 0x02\<rparr>\<rparr>
      else c\<lparr>dm_dlm_id := ''DLM_UNKNOWN'', dm_link_id := ''LINK_UNKNOWN''\<rparr>)"

definition find_or_create_dgram_client :: "int \<Rightarrow> string \<Rightarrow> MagicContext \<Rightarrow> nat option \<times> MagicContext" where
  "find_or_create_dgram_client now path x =
     (case find_idx (path_matches path) (li_clients (mx_lmi x)) of
        Some i \<Rightarrow> (Some i, x)
      | None \<Rightarrow>
          (case find_idx (\<lambda>c. \<not> dm_is_registered c) (li_clients (mx_lmi x)) of
             None \<Rightarrow> (None, x)
           | Some i \<Rightarrow>
               (Some i, set_dlm_client i (name_client path (zero_dlm_client\<lparr>dm_is_registered := True, dm_client_fd := -1, dm_last_heartbeat := now\<rparr>)) x)))"

definition sync_client_params :: "DlmClient \<Rightarrow> DlmClient" where
  "sync_client_params c =
     (let ps = dm_current_parameters c in
      c\<lparr>dm_link_params := (dm_link_params c)\<lparr>
          mp_current_bandwidth_kbps := (if pa_available_bandwidth_kbps ps = 0 then pa_current_rx_rate_kbps ps else pa_available_bandwidth_kbps ps),
          mp_current_latency_ms := pa_current_latency_ms ps, mp_signal_strength_dbm := pa_signal_strength_dbm ps,
          mp_ip_address := pa_ip_address ps, mp_netmask := pa_netmask ps, mp_link_state := pa_link_state ps,
          mp_signal_quality := pa_signal_quality ps\<rparr>\<rparr>)"

definition edit_dlm_client :: "nat \<Rightarrow> (DlmClient \<Rightarrow> DlmClient) \<Rightarrow> MagicContext \<Rightarrow> MagicContext" where
  "edit_dlm_client i f x = set_dlm_client i (f (li_clients (mx_lmi x) ! i)) x"

definition link_id_at :: "nat \<Rightarrow> MagicContext \<Rightarrow> string" where
  "link_id_at i x = dm_link_id (li_clients (mx_lmi x) ! i)"

text \<open>The first indication of a link that is not active makes it active and raises the event.\<close>

definition handle_dgram_link_up_indication ::
  "dia_env \<Rightarrow> int \<Rightarrow> string \<Rightarrow> (LINK_TUPLE_ID \<times> LINK_PARAMETERS) option \<Rightarrow> MagicContext \<Rightarrow> MagicContext" where
  "handle_dgram_link_up_indication env now path ind x =
     (case ind of None \<Rightarrow> x
      | Some (tuple, ps) \<Rightarrow>
          (case find_or_create_dgram_client now path x of
             (None, x1) \<Rightarrow> x1
           | (Some i, x1) \<Rightarrow>
               let x2 = edit_dlm_client i (\<lambda>c. (sync_client_params (c\<lparr>dm_link_identifier := tuple, dm_current_parameters := ps\<rparr>))
                          \<lparr>dm_last_heartbeat := now, dm_last_seen := now\<rparr>) x1
               in if li_has_config (mx_lmi x2)
                  then (case magic_config_find_dlm (mx_config x2) (Some (link_id_at i x2)) of
                          None \<Rightarrow> x2
                        | Some k \<Rightarrow>
                            if dc_is_active (mc_dlm_configs (mx_config x2) ! k) then x2
                            else trigger_lmi_event_callbacks env now (link_id_at i x2) LINK_EVENT_UP
                                   (magic_lmi_update_link_status (link_id_at i x2) True x2))
                  else x2))"

definition handle_dgram_link_down_indication ::
  "dia_env \<Rightarrow> os_env \<Rightarrow> int \<Rightarrow> string \<Rightarrow> unit option \<Rightarrow> MagicContext \<Rightarrow> MagicContext" where
  "handle_dgram_link_down_indication env os now path ind x =
     (case ind of None \<Rightarrow> x
      | Some _ \<Rightarrow>
          (case find_or_create_dgram_client now path x of
             (None, x1) \<Rightarrow> x1
           | (Some i, x1) \<Rightarrow>
               let x2 = (if li_has_config (mx_lmi x1)
                         then let y = magic_lmi_update_link_status (link_id_at i x1) False x1
                              in y\<lparr>mx_dp := snd (magic_dataplane_unregister_link os (Some (link_id_at i x1)) (mx_dp y))\<rparr>
                         else x1)
               in trigger_lmi_event_callbacks env now (link_id_at i x2) LINK_EVENT_DOWN x2))"

definition handle_dgram_parameters_report :: "int \<Rightarrow> string \<Rightarrow> LINK_PARAMETERS option \<Rightarrow> MagicContext \<Rightarrow> MagicContext" where
  "handle_dgram_parameters_report now path ind x =
     (case ind of None \<Rightarrow> x
      | Some ps \<Rightarrow>
          (case find_or_create_dgram_client now path x of
             (None, x1) \<Rightarrow> x1
           | (Some i, x1) \<Rightarrow>
               magic_lmi_update_link_status (link_id_at i x1) True
                 (edit_dlm_client i (\<lambda>c. (sync_client_params (c\<lparr>dm_current_parameters := ps\<rparr>))\<lparr>dm_last_heartbeat := now, dm_last_seen := now\<rparr>) x1)))"

definition handle_dgram_capability_confirm :: "int \<Rightarrow> string \<Rightarrow> LINK_CAPABILITY option option \<Rightarrow> MagicContext \<Rightarrow> MagicContext" where
  "handle_dgram_capability_confirm now path cnf x =
     (case cnf of None \<Rightarrow> x
      | Some capability \<Rightarrow>
          (case (find_or_create_dgram_client now path x, capability) of
             ((Some i, x1), Some cap) \<Rightarrow> edit_dlm_client i (\<lambda>c. c\<lparr>dm_link_capability := cap, dm_last_heartbeat := now\<rparr>) x1
           | ((_, x1), _) \<Rightarrow> x1))"

definition handle_dgram_get_parameters_confirm :: "int \<Rightarrow> string \<Rightarrow> LINK_PARAMETERS option \<Rightarrow> MagicContext \<Rightarrow> MagicContext" where
  "handle_dgram_get_parameters_confirm now path cnf x =
     (case cnf of None \<Rightarrow> x
      | Some ps \<Rightarrow>
          (case find_or_create_dgram_client now path x of
             (None, x1) \<Rightarrow> x1
           | (Some i, x1) \<Rightarrow> edit_dlm_client i (\<lambda>c. c\<lparr>dm_current_parameters := ps, dm_last_heartbeat := now\<rparr>) x1))"

definition handle_dgram_event_subscribe_confirm :: "int \<Rightarrow> string \<Rightarrow> u16 option \<Rightarrow> MagicContext \<Rightarrow> MagicContext" where
  "handle_dgram_event_subscribe_confirm now path cnf x =
     (case cnf of None \<Rightarrow> x
      | Some events \<Rightarrow>
          (case find_or_create_dgram_client now path x of
             (None, x1) \<Rightarrow> x1
           | (Some i, x1) \<Rightarrow> edit_dlm_client i (\<lambda>c. c\<lparr>dm_subscribed_events := events, dm_last_heartbeat := now\<rparr>) x1))"

text \<open>A payload, read as each of the structures a handler may cast it to.\<close>

record dgram =
  dg_link_up :: "(LINK_TUPLE_ID \<times> LINK_PARAMETERS) option"
  dg_link_down :: "unit option"
  dg_report :: "LINK_PARAMETERS option"
  dg_capability :: "LINK_CAPABILITY option option"
  dg_parameters :: "LINK_PARAMETERS option"
  dg_subscribed :: "u16 option"

definition process_dgram_message :: "dia_env \<Rightarrow> os_env \<Rightarrow> int \<Rightarrow> string \<Rightarrow> u16 \<Rightarrow> dgram \<Rightarrow> MagicContext \<Rightarrow> MagicContext" where
  "process_dgram_message env os now path msg_type d x =
     (if msg_type = 0x0202 then handle_dgram_link_up_indication env now path (dg_link_up d) x
      else if msg_type = 0x0203 then handle_dgram_link_down_indication env os now path (dg_link_down d) x
      else if msg_type = 0x0205 then handle_dgram_parameters_report now path (dg_report d) x
      else if msg_type = 0x0102 then handle_dgram_capability_confirm now path (dg_capability d) x
      else if msg_type = 0x0108 then handle_dgram_get_parameters_confirm now path (dg_parameters d) x
      else if msg_type = 0x0104 then handle_dgram_event_subscribe_confirm now path (dg_subscribed d) x
      else x)"

section \<open>Broadcast heartbeats and the monitor\<close>

text \<open>A heartbeat as its identifier, \<open>None\<close> when the packet is too short.\<close>

definition handle_udp_heartbeat :: "dia_env \<Rightarrow> int \<Rightarrow> string option \<Rightarrow> MagicContext \<Rightarrow> MagicContext" where
  "handle_udp_heartbeat env now hb x =
     (case hb of None \<Rightarrow> x
      | Some dlm_id \<Rightarrow>
          if li_has_config (mx_lmi x) \<and>
             (case magic_config_find_datalink (mx_config x) (Some dlm_id) of
                None \<Rightarrow> True | Some k \<Rightarrow> \<not> dc_enabled (mc_dlm_configs (mx_config x) ! k))
          then x
          else case find_idx (\<lambda>c. dm_is_registered c \<and> dm_dlm_id c = dlm_id) (li_clients (mx_lmi x)) of
                 Some i \<Rightarrow> edit_dlm_client i (\<lambda>c. c\<lparr>dm_last_heartbeat := now, dm_last_seen := now\<rparr>) x
               | None \<Rightarrow>
                   (case find_idx (\<lambda>c. \<not> dm_is_registered c) (li_clients (mx_lmi x)) of
                      None \<Rightarrow> x
                    | Some i \<Rightarrow>
                        let c = zero_dlm_client\<lparr>dm_is_registered := True, dm_client_fd := -1, dm_dlm_id := strncpy_buf 63 dlm_id,
                                  dm_link_id := strncpy_buf 63 dlm_id, dm_last_heartbeat := now, dm_last_seen := now\<rparr>
                        in trigger_lmi_event_callbacks env now (dm_link_id c) LINK_EVENT_UP
                             (magic_lmi_update_link_status (dm_link_id c) True (set_dlm_client i c x))))"

text \<open>One round of the monitor over the table.\<close>

definition dlm_silent :: "int \<Rightarrow> DlmClient \<Rightarrow> bool" where
  "dlm_silent now c \<longleftrightarrow> dm_is_registered c \<and> now - dm_last_seen c > HEARTBEAT_TIMEOUT_SEC"

fun monitor_loop :: "dia_env \<Rightarrow> int \<Rightarrow> nat list \<Rightarrow> MagicContext \<Rightarrow> MagicContext" where
  "monitor_loop env now [] x = x"
| "monitor_loop env now (i # is) x =
     (let c = li_clients (mx_lmi x) ! i in
      if \<not> dlm_silent now c then monitor_loop env now is x
      else
        let x1 = trigger_lmi_event_callbacks env now (dm_link_id c) LINK_EVENT_DOWN x;
            x2 = edit_dlm_client i (\<lambda>c. c\<lparr>dm_is_registered := False\<rparr>) x1;
            x3 = (if dm_client_fd c > 0 then edit_dlm_client i (\<lambda>c. c\<lparr>dm_client_fd := -1\<rparr>) (close_fd (dm_client_fd c) x2) else x2)
        in monitor_loop env now is x3)"

definition heartbeat_monitor_round :: "dia_env \<Rightarrow> int \<Rightarrow> MagicContext \<Rightarrow> MagicContext" where
  "heartbeat_monitor_round env now x = monitor_loop env now [0..<MAX_DLM_CLIENTS] x"

end
