(* ===== verification/Push_Props.thy ===== *)
theory Push_Props
  imports Push Session_Laws Config_Load
begin

text \<open>
  Correctness of the notifications: what the storm control lets through, which messages a link
  event produces and what it does to the sessions, and that no notification breaks the invariant of
  the session manager.
\<close>

section \<open>Storm control\<close>

abbreviation max_rate :: nat where "max_rate \<equiv> 21474836"

lemma unat_times_100: "unat (x :: u32) \<le> max_rate \<Longrightarrow> unat (x * 100) = unat x * 100"
  by (subst unat_word_ariths(2)) simp

lemma sint_nonneg: "unat (c :: u32) < 2 ^ 31 \<Longrightarrow> 0 \<le> sint c"
proof -
  assume "unat c < 2 ^ 31"
  moreover have "uint c = int (unat c)" by simp
  ultimately have "uint c < 2 ^ 31" by (simp only: of_nat_less_numeral_power_cancel_iff)
  moreover have "- (2 ^ 31) \<le> uint c" by (rule order_trans [of _ 0]) simp_all
  ultimately have "sint c = uint c" unfolding sint_uint by (intro signed_take_bit_int_eq_self) simp_all
  then show ?thesis by simp
qed

lemma change_percent_unat:
  assumes "unat ((new - old) * 100 div old) < 2 ^ 31"
  shows "unat (change_percent old new) = unat ((new - old) * 100) div unat old"
  using sint_nonneg [OF assms] by (simp add: change_percent_def Let_def unat_div)

lemma change_percent_up:
  assumes "old \<le> new" and "unat new \<le> max_rate"
  shows "unat (change_percent old new) = (unat new - unat old) * 100 div unat old"
proof -
  have m: "unat ((new - old) * 100) = (unat new - unat old) * 100"
    using assms unat_times_100 [of "new - old"] by (simp add: unat_sub)
  have "(unat new - unat old) * 100 div unat old \<le> (unat new - unat old) * 100" by (rule div_le_dividend)
  also have "\<dots> < 2 ^ 31" using assms(2) by simp
  finally have "unat ((new - old) * 100 div old) < 2 ^ 31" unfolding unat_div m .
  then show ?thesis using change_percent_unat [of new old] m by simp
qed

text \<open>A reduction wraps around: the percentage comes out above every threshold.\<close>

lemma change_percent_down:
  assumes "new < old" and "0 < new" and "unat old \<le> max_rate"
  shows "10 \<le> unat (change_percent old new)"
proof -
  define d where "d = unat old - unat new"
  have d: "0 < d" "d < unat old" "unat (old - new) = d"
    using assms(1,2) by (simp_all add: d_def word_less_nat_alt unat_sub order_less_imp_le)
  have "(new - old) * 100 = 0 - (old - new) * 100" by (simp add: algebra_simps)
  moreover have md: "unat ((old - new) * 100) = d * 100" using unat_times_100 [of "old - new"] assms(3) d by simp
  moreover have "d * 100 < 2 ^ 31" using d assms(3) by simp
  ultimately have m: "unat ((new - old) * 100) = 2 ^ 32 - d * 100"
    using d(1) by (simp only: unat_sub_if_size) (simp add: word_size)
  have q: "(2 ^ 32 - d * 100) div unat old < 2 ^ 31"
  proof -
    have "(2 ^ 32 - d * 100) div unat old \<le> (2 ^ 32 - d * 100) div 2" using d by (intro div_le_mono2) auto
    also have "\<dots> < 2 ^ 31" using d by simp
    finally show ?thesis .
  qed
  have "10 * unat old \<le> 2 ^ 32 - d * 100" using assms(3) d by simp
  then have "10 \<le> (2 ^ 32 - d * 100) div unat old" using d by (simp add: less_eq_div_iff_mult_less_eq)
  then show ?thesis using change_percent_unat [of new old] m q by (simp add: unat_div)
qed

text \<open>
  The storm control, outside its one-second window and for rates up to 21 Gbit/s: an increase is
  reported exactly when it is at least ten per cent of the rate last reported; a reduction is
  always reported, however small, because the unsigned difference wraps around. (The comments
  promise the ten per cent threshold for changes in both directions.)
\<close>

lemma storm_control_threshold:
  assumes "cs_last_notified_bw_kbps s = old" and "0 < old" and "0 < new" and "unat old \<le> max_rate" and "unat new \<le> max_rate"
    and "cs_last_mntr_sent_time s \<le> 0 \<or> now - cs_last_mntr_sent_time s \<ge> MNTR_MIN_INTERVAL_SEC"
  shows "magic_cic_should_send_mntr now s new False \<longleftrightarrow> new < old \<or> unat old \<le> 10 * (unat new - unat old)"
proof -
  have send: "magic_cic_should_send_mntr now s new False \<longleftrightarrow> \<not> change_percent old new < 10"
    using assms by (auto simp: magic_cic_should_send_mntr_def)
  show ?thesis
  proof (cases "new < old")
    case True
    then show ?thesis using change_percent_down [OF True assms(3,4)] send by (simp add: word_less_nat_alt)
  next
    case False
    have "0 < unat old" using assms(2) by (simp add: word_less_nat_alt)
    moreover have "unat (change_percent old new) = (unat new - unat old) * 100 div unat old"
      using change_percent_up [of old new] False assms(5) by simp
    ultimately have "10 \<le> unat (change_percent old new) \<longleftrightarrow> 10 * unat old \<le> (unat new - unat old) * 100"
      by (simp add: less_eq_div_iff_mult_less_eq)
    then show ?thesis using False send by (auto simp: word_less_nat_alt)
  qed
qed

section \<open>Link events\<close>

text \<open>A session without the bookkeeping of its last report.\<close>

definition core :: "ClientSession \<Rightarrow> ClientSession" where
  "core s = s\<lparr>cs_mntr_pending_ack := False, cs_last_mntr_sent_time := 0, cs_last_notified_bw_kbps := 0\<rparr>"

lemma core_marks [simp]:
  "core (s\<lparr>cs_mntr_pending_ack := a\<rparr>) = core s" "core (s\<lparr>cs_last_mntr_sent_time := b\<rparr>) = core s"
  "core (s\<lparr>cs_last_notified_bw_kbps := c\<rparr>) = core s"
  by (cases s; simp add: core_def)+

lemma core_eqD:
  assumes "core s = core t"
  shows "cs_in_use s = cs_in_use t" "cs_session_id s = cs_session_id t" "cs_client_id s = cs_client_id t"
    "cs_client_realm s = cs_client_realm t" "cs_assigned_link_id s = cs_assigned_link_id t" "cs_state s = cs_state t"
    "cs_granted_bw_kbps s = cs_granted_bw_kbps t" "cs_granted_ret_bw_kbps s = cs_granted_ret_bw_kbps t"
    "cs_profile_name s = cs_profile_name t" "cs_subscribed_status_level s = cs_subscribed_status_level t"
    "cs_status_subscription_active s = cs_status_subscription_active t" "cs_tft_rules s = cs_tft_rules t"
    "cs_num_tft_rules s = cs_num_tft_rules t"
  using assms by (cases s; cases t; simp add: core_def)+

text \<open>A report leaves everything as it is but the bookkeeping of its session and the list of messages.\<close>

definition reported :: "nat \<Rightarrow> MagicContext \<Rightarrow> MagicContext \<Rightarrow> bool" where
  "reported i x x' \<longleftrightarrow> (\<exists>s n ps. core s = core (mx_sessions x ! i) \<and> x' = (set_session i s x)\<lparr>mx_attempts := n, mx_pushes := ps\<rparr>)"

lemma send_mntr_reported: "reported i x (snd (magic_cic_send_mntr env now i ps x))"
proof -
  have *: "reported i x ((set_session i s x)\<lparr>mx_attempts := n, mx_pushes := q\<rparr>)" if "core s = core (mx_sessions x ! i)" for s n q
    using that by (auto simp: reported_def)
  have "reported i x x" "reported i x (x\<lparr>mx_attempts := n\<rparr>)" for n
    using * [where s = "mx_sessions x ! i" and n = "mx_attempts x" and q = "mx_pushes x"]
      * [where s = "mx_sessions x ! i" and n = n and q = "mx_pushes x"] by simp_all
  moreover have "reported i x (set_session i s (x\<lparr>mx_attempts := n\<rparr>))"
      "reported i x ((set_session i s (x\<lparr>mx_attempts := n\<rparr>))\<lparr>mx_pushes := q\<rparr>)" if "core s = core (mx_sessions x ! i)" for s n q
    using * [OF that, where n = n and q = "mx_pushes (set_session i s x)"] * [OF that, where n = n and q = q] by simp_all
  ultimately show ?thesis by (simp add: magic_cic_send_mntr_def Let_def)
qed

lemma reported_keeps:
  assumes "reported i x x'"
  shows "length (mx_sessions x') = length (mx_sessions x)" "core (mx_sessions x' ! j) = core (mx_sessions x ! j)"
    "sm_session_count (mx_sm x') = sm_session_count (mx_sm x)" "sm_clients (mx_sm x') = sm_clients (mx_sm x)"
    "mx_config x' = mx_config x" "mx_lmi x' = mx_lmi x" "mx_dp x' = mx_dp x"
proof -
  obtain s n ps where r: "core s = core (mx_sessions x ! i)" "x' = (set_session i s x)\<lparr>mx_attempts := n, mx_pushes := ps\<rparr>"
    using assms by (auto simp: reported_def)
  show "core (mx_sessions x' ! j) = core (mx_sessions x ! j)"
    using r by (cases "i < length (mx_sessions x)") (auto simp: nth_list_update list_update_beyond)
qed (use assms in \<open>auto simp: reported_def set_session_def mx_sessions_def\<close>)

definition on_link :: "string \<Rightarrow> ClientSession \<Rightarrow> bool" where
  "on_link lid s \<longleftrightarrow> cs_in_use s \<and> cs_state s \<noteq> SESSION_STATE_CLOSED \<and> cs_assigned_link_id s = lid"

definition link_effect :: "int \<Rightarrow> bool \<Rightarrow> string \<Rightarrow> ClientSession \<Rightarrow> ClientSession" where
  "link_effect now up lid s =
     (if on_link lid s then snd ((if up then magic_session_resume else magic_session_suspend) now s) else s)"

lemma link_effect_core:
  assumes "core s = core t"
  shows "core (link_effect now up lid s) = core (link_effect now up lid t)"
proof -
  have "core (s\<lparr>cs_granted_bw_kbps := a, cs_granted_ret_bw_kbps := b, cs_state := st, cs_last_activity := u\<rparr>) =
        core (t\<lparr>cs_granted_bw_kbps := a, cs_granted_ret_bw_kbps := b, cs_state := st, cs_last_activity := u\<rparr>)"
       "core (s\<lparr>cs_state := st, cs_last_activity := u\<rparr>) = core (t\<lparr>cs_state := st, cs_last_activity := u\<rparr>)" for a b st u
    using assms by (cases s; cases t; simp add: core_def)+
  then show ?thesis
    using assms core_eqD [OF assms]
    by (simp add: link_effect_def on_link_def magic_session_resume_def magic_session_suspend_def)
qed

text \<open>One round of the loop over the sessions.\<close>

lemma link_change_loop_Cons:
  "link_change_loop env now lid up (i # is) x =
     link_change_loop env now lid up is
       (if on_link lid (mx_sessions x ! i)
        then snd (magic_cic_send_mntr env now i (link_change_params up (mx_sessions x ! i))
                   (set_session i (link_effect now up lid (mx_sessions x ! i)) x))
        else x)"
  by (auto simp: Let_def on_link_def link_effect_def)

declare link_change_loop.simps(2) [simp del]

lemma link_change_loop_core:
  assumes "distinct is" and "\<forall>i\<in>set is. i < length (mx_sessions x)"
  shows "length (mx_sessions (link_change_loop env now lid up is x)) = length (mx_sessions x) \<and>
    sm_session_count (mx_sm (link_change_loop env now lid up is x)) = sm_session_count (mx_sm x) \<and>
    sm_clients (mx_sm (link_change_loop env now lid up is x)) = sm_clients (mx_sm x) \<and>
    (\<forall>j < length (mx_sessions x). core (mx_sessions (link_change_loop env now lid up is x) ! j) =
       core (if j \<in> set is then link_effect now up lid (mx_sessions x ! j) else mx_sessions x ! j))"
  using assms
proof (induction "is" arbitrary: x)
  case (Cons i "is")
  define y where "y = (if on_link lid (mx_sessions x ! i)
        then snd (magic_cic_send_mntr env now i (link_change_params up (mx_sessions x ! i))
                   (set_session i (link_effect now up lid (mx_sessions x ! i)) x))
        else x)"
  let ?x1 = "set_session i (link_effect now up lid (mx_sessions x ! i)) x"
  have y: "length (mx_sessions y) = length (mx_sessions x)" "sm_session_count (mx_sm y) = sm_session_count (mx_sm x)"
    "sm_clients (mx_sm y) = sm_clients (mx_sm x)"
    "j < length (mx_sessions x) \<Longrightarrow> core (mx_sessions y ! j) = core (if j = i then link_effect now up lid (mx_sessions x ! i) else mx_sessions x ! j)" for j
    using reported_keeps [OF send_mntr_reported [of i ?x1 env now "link_change_params up (mx_sessions x ! i)"]]
    by (auto simp: y_def link_effect_def set_session_def mx_sessions_def nth_list_update)
  have IH: "length (mx_sessions (link_change_loop env now lid up is y)) = length (mx_sessions y) \<and>
    sm_session_count (mx_sm (link_change_loop env now lid up is y)) = sm_session_count (mx_sm y) \<and>
    sm_clients (mx_sm (link_change_loop env now lid up is y)) = sm_clients (mx_sm y) \<and>
    (\<forall>j < length (mx_sessions y). core (mx_sessions (link_change_loop env now lid up is y) ! j) =
       core (if j \<in> set is then link_effect now up lid (mx_sessions y ! j) else mx_sessions y ! j))"
    using Cons.prems y(1) by (intro Cons.IH) auto
  have "link_change_loop env now lid up (i # is) x = link_change_loop env now lid up is y"
    by (simp add: link_change_loop_Cons y_def)
  then show ?case using IH y Cons.prems by (auto intro: link_effect_core)
qed simp

text \<open>The Diameter library as it behaves when nothing fails.\<close>

definition env_ok :: "dia_env \<Rightarrow> bool" where
  "env_ok env \<longleftrightarrow> (\<forall>n. de_new env n \<and> de_build env n = Built \<and> de_report env n \<and> de_send env n)"

definition link_report :: "bool \<Rightarrow> ClientSession \<Rightarrow> push_msg" where
  "link_report up s =
     MNTR (cs_session_id s) (destination_realm s)
       (Some \<lparr>rp_profile_name = cs_profile_name s, rp_granted_bw = (if up then cs_granted_bw_kbps s * 1000 else 0),
              rp_granted_return_bw = (if up then cs_granted_ret_bw_kbps s * 1000 else 0), rp_gateway_ip = None\<rparr>)
       (if up then None else Some MAGIC_STATUS_LINK_ERROR)
       (Some (if up then ''Link recovered'' else ''Link connection lost''))"

lemma destination_realm_core:
  assumes "core s = core t" shows "destination_realm s = destination_realm t"
  using core_eqD [OF assms] by (simp add: destination_realm_def)

lemma link_effect_names:
  "cs_session_id (link_effect now up lid s) = cs_session_id s" "cs_profile_name (link_effect now up lid s) = cs_profile_name s"
  "destination_realm (link_effect now up lid s) = destination_realm s" "cs_in_use (link_effect now up lid s) = cs_in_use s"
  "cs_client_id (link_effect now up lid s) = cs_client_id s" "session_ok s \<Longrightarrow> session_ok (link_effect now up lid s)"
  by (simp_all add: link_effect_def magic_session_resume_def magic_session_suspend_def destination_realm_def session_ok_def)

lemma send_link_report:
  assumes "env_ok env" and "i < length (mx_sessions x)"
  shows "mx_pushes (snd (magic_cic_send_mntr env now i (link_change_params up s) (set_session i (link_effect now up lid s) x)))
    = mx_pushes x @ [link_report up s]"
  using assms
  by (simp add: magic_cic_send_mntr_def Let_def env_ok_def magic_cic_should_send_mntr_def link_change_params_def zero_mntr_def
      mntr_of_def link_report_def link_effect_names non_empty_def set_session_def mx_sessions_def)

lemma link_report_core:
  assumes "core s = core t" shows "link_report up s = link_report up t"
  using core_eqD [OF assms] destination_realm_core [OF assms] by (simp add: link_report_def)

lemma on_link_core:
  assumes "core s = core t" shows "on_link lid s = on_link lid t"
  using core_eqD [OF assms] by (simp add: on_link_def)

lemma link_change_loop_pushes:
  assumes "env_ok env" and "distinct is" and "\<forall>i\<in>set is. i < length (mx_sessions x)"
  shows "mx_pushes (link_change_loop env now lid up is x) =
    mx_pushes x @ map (\<lambda>i. link_report up (mx_sessions x ! i)) (filter (\<lambda>i. on_link lid (mx_sessions x ! i)) is)"
  using assms(2,3)
proof (induction "is" arbitrary: x)
  case (Cons i "is")
  define y where "y = (if on_link lid (mx_sessions x ! i)
        then snd (magic_cic_send_mntr env now i (link_change_params up (mx_sessions x ! i))
                   (set_session i (link_effect now up lid (mx_sessions x ! i)) x))
        else x)"
  have rep: "reported i (set_session i (link_effect now up lid (mx_sessions x ! i)) x)
      (snd (magic_cic_send_mntr env now i (link_change_params up (mx_sessions x ! i))
         (set_session i (link_effect now up lid (mx_sessions x ! i)) x)))"
    by (rule send_mntr_reported)
  have same: "core (mx_sessions y ! j) = core (mx_sessions x ! j)" if "j \<noteq> i" for j
    using reported_keeps(2) [OF rep, of j] that by (simp add: y_def)
  have len: "length (mx_sessions y) = length (mx_sessions x)"
    using reported_keeps(1) [OF rep] by (simp add: y_def)
  have "mx_pushes y = mx_pushes x @ (if on_link lid (mx_sessions x ! i) then [link_report up (mx_sessions x ! i)] else [])"
    using send_link_report [OF assms(1), of i x now up "mx_sessions x ! i" lid] Cons.prems by (simp add: y_def)
  moreover have "mx_pushes (link_change_loop env now lid up is y) =
      mx_pushes y @ map (\<lambda>i. link_report up (mx_sessions y ! i)) (filter (\<lambda>i. on_link lid (mx_sessions y ! i)) is)"
    using Cons.prems len by (intro Cons.IH) auto
  moreover have "filter (\<lambda>j. on_link lid (mx_sessions y ! j)) is = filter (\<lambda>j. on_link lid (mx_sessions x ! j)) is"
    using Cons.prems(1) by (intro filter_cong refl on_link_core same) auto
  moreover have "map (\<lambda>j. link_report up (mx_sessions y ! j)) (filter Q is) = map (\<lambda>j. link_report up (mx_sessions x ! j)) (filter Q is)" for Q
    using Cons.prems(1) by (intro map_cong refl link_report_core same) auto
  ultimately show ?case
    by (simp add: link_change_loop_Cons del: map_eq_conv flip: y_def)
qed simp

lemma broadcast_loop_pushes:
  assumes "env_ok env"
  shows "mx_pushes (snd (broadcast_loop env ps is n x)) =
      mx_pushes x @ map (\<lambda>i. mscr_of x (mx_sessions x ! i) ps) (filter (\<lambda>i. mscr_wanted ps (mx_sessions x ! i)) is)
    \<and> fst (broadcast_loop env ps is n x) = n + int (length (filter (\<lambda>i. mscr_wanted ps (mx_sessions x ! i)) is))"
proof (induction "is" arbitrary: n x)
  case (Cons i "is")
  have m: "mscr_of (x\<lparr>mx_attempts := k, mx_pushes := q\<rparr>) s ps = mscr_of x s ps" for k q s
    by (simp add: mscr_of_def registered_clients_def)
  show ?case using assms Cons by (simp add: Let_def env_ok_def m)
qed simp

lemma broadcast_loop_keeps: "mx_sm (snd (broadcast_loop env ps is n x)) = mx_sm x"
  by (induction env ps "is" n x rule: broadcast_loop.induct) (simp_all add: Let_def split: build_result.splits)

definition subscribed :: "ClientSession \<Rightarrow> bool" where
  "subscribed s \<longleftrightarrow> cs_in_use s \<and> cs_status_subscription_active s \<and>
     (cs_state s = SESSION_STATE_AUTHENTICATED \<or> cs_state s = SESSION_STATE_ACTIVE)"

lemma find_subscribed_all:
  "length (sm_sessions m) = MAX_SESSIONS \<Longrightarrow>
   magic_session_find_subscribed m (int MAX_SESSIONS) = filter (\<lambda>i. subscribed (sm_sessions m ! i)) [0..<MAX_SESSIONS]"
  using length_filter_le [of "\<lambda>i. subscribed (sm_sessions m ! i)" "[0..<MAX_SESSIONS]"]
  by (simp add: magic_session_find_subscribed_def slots_where_def subscribed_def)

lemma wanted_core:
  assumes "core s = core t"
  shows "subscribed s = subscribed t" "need_dlm s = need_dlm t" "mscr_of x s ps = mscr_of x t ps"
  using core_eqD [OF assms] destination_realm_core [OF assms]
  by (simp_all add: subscribed_def need_dlm_def need_magic_def mscr_of_def)

lemma link_event_effect:
  assumes "env_ok env" and "length (mx_sessions x) = MAX_SESSIONS"
    and "x' = snd (magic_cic_on_link_status_change env now (Some lid) up x)"
  shows "mx_pushes x' = mx_pushes x @
      map (\<lambda>i. link_report up (mx_sessions x ! i)) (filter (\<lambda>i. on_link lid (mx_sessions x ! i)) [0..<MAX_SESSIONS]) @
      map (\<lambda>i. mscr_of x (link_effect now up lid (mx_sessions x ! i)) (link_change_report lid up))
        (filter (\<lambda>i. subscribed (link_effect now up lid (mx_sessions x ! i)) \<and> need_dlm (link_effect now up lid (mx_sessions x ! i)))
          [0..<MAX_SESSIONS])
    \<and> (\<forall>i<MAX_SESSIONS. core (mx_sessions x' ! i) = core (link_effect now up lid (mx_sessions x ! i)))"
proof -
  define y where "y = link_change_loop env now lid up [0..<MAX_SESSIONS] x"
  let ?e = "\<lambda>i. link_effect now up lid (mx_sessions x ! i)" and ?ps = "link_change_report lid up"
  have y: "length (mx_sessions y) = MAX_SESSIONS" "sm_session_count (mx_sm y) = sm_session_count (mx_sm x)"
      "i < MAX_SESSIONS \<Longrightarrow> core (mx_sessions y ! i) = core (?e i)" for i
    using link_change_loop_core [of "[0..<MAX_SESSIONS]" x env now lid up] assms(2) by (simp_all add: y_def)
  have x': "x' = snd (magic_cic_broadcast_mscr env ?ps y)"
    using assms(3) by (simp add: magic_cic_on_link_status_change_def y_def Let_def)
  have cores: "\<forall>i<MAX_SESSIONS. core (mx_sessions x' ! i) = core (?e i)"
    using y(3) by (simp add: x' magic_cic_broadcast_mscr_def mx_sessions_def broadcast_loop_keeps)
  have py: "mx_pushes y = mx_pushes x @ map (\<lambda>i. link_report up (mx_sessions x ! i)) (filter (\<lambda>i. on_link lid (mx_sessions x ! i)) [0..<MAX_SESSIONS])"
    using link_change_loop_pushes [OF assms(1), of "[0..<MAX_SESSIONS]" x now lid up] assms(2) by (simp add: y_def)
  have wanted: "mscr_wanted ?ps s = need_dlm s" for s by (simp add: mscr_wanted_def link_change_report_def)
  have "filter (\<lambda>i. need_dlm (mx_sessions y ! i)) (filter (\<lambda>i. subscribed (mx_sessions y ! i)) [0..<MAX_SESSIONS])
      = filter (\<lambda>i. subscribed (?e i) \<and> need_dlm (?e i)) [0..<MAX_SESSIONS]"
    using wanted_core(1,2) [OF y(3)] by (auto simp: conj_commute intro: filter_cong)
  moreover have "map (\<lambda>i. mscr_of y (mx_sessions y ! i) ?ps) (filter Q [0..<MAX_SESSIONS]) = map (\<lambda>i. mscr_of x (?e i) ?ps) (filter Q [0..<MAX_SESSIONS])" for Q
  proof (intro map_cong refl)
    fix i assume "i \<in> set (filter Q [0..<MAX_SESSIONS])"
    then show "mscr_of y (mx_sessions y ! i) ?ps = mscr_of x (?e i) ?ps"
      using wanted_core(3) [OF y(3), of i y ?ps] y(2) by (simp add: mscr_of_def registered_clients_def)
  qed
  moreover have "magic_session_find_subscribed (mx_sm y) (int MAX_SESSIONS) = filter (\<lambda>i. subscribed (mx_sessions y ! i)) [0..<MAX_SESSIONS]"
    using find_subscribed_all [of "mx_sm y"] y(1) by (simp add: mx_sessions_def)
  ultimately show ?thesis
    using cores py unfolding x' magic_cic_broadcast_mscr_def
    using broadcast_loop_pushes [OF assms(1), of ?ps "filter (\<lambda>i. subscribed (mx_sessions y ! i)) [0..<MAX_SESSIONS]" 0 y]
    by (simp add: wanted del: map_eq_conv)
qed

text \<open>
  C20. What a link event does when the Diameter library works: every session on the link, in the order
  of the slots, gets one report (loss with status 2007 and no bandwidth, or recovery with the
  session's grant); afterwards the status change goes to every subscriber of link states whose
  session is authenticated or active at that moment; nothing else is sent. The sessions on the link
  are suspended or resumed and all others are unchanged, up to the bookkeeping of the reports.
\<close>

theorem link_event_messages:
  assumes "env_ok env" and "length (mx_sessions x) = MAX_SESSIONS"
    and "x' = snd (magic_cic_on_link_status_change env now (Some lid) up x)"
  shows "mx_pushes x' = mx_pushes x @
      map (\<lambda>i. link_report up (mx_sessions x ! i)) (filter (\<lambda>i. on_link lid (mx_sessions x ! i)) [0..<MAX_SESSIONS]) @
      map (\<lambda>i. mscr_of x (link_effect now up lid (mx_sessions x ! i)) (link_change_report lid up))
        (filter (\<lambda>i. subscribed (link_effect now up lid (mx_sessions x ! i)) \<and> need_dlm (link_effect now up lid (mx_sessions x ! i)))
          [0..<MAX_SESSIONS])
    \<and> (\<forall>i<MAX_SESSIONS. core (mx_sessions x' ! i) = core (link_effect now up lid (mx_sessions x ! i)))"
  by (rule link_event_effect [OF assms])

text \<open>
  An outage costs a session its bandwidth. After the link of an active session went down and came
  back, the session is active again but with a grant of zero in both directions, and the report of
  the recovery announces a bandwidth of zero, which by the protocol means an outage. (The comment in
  the code says that recovery is signalled by a bandwidth above zero.)
\<close>

lemma recovered_session_has_no_bandwidth:
  assumes "env_ok env" and "length (mx_sessions x) = MAX_SESSIONS" and "i < MAX_SESSIONS"
    and "cs_in_use (mx_sessions x ! i)" and "cs_state (mx_sessions x ! i) = SESSION_STATE_ACTIVE" and "cs_assigned_link_id (mx_sessions x ! i) = lid"
    and "x1 = snd (magic_cic_on_link_status_change env t1 (Some lid) False x)"
    and "x2 = snd (magic_cic_on_link_status_change env t2 (Some lid) True x1)"
  shows "cs_state (mx_sessions x2 ! i) = SESSION_STATE_ACTIVE \<and> cs_granted_bw_kbps (mx_sessions x2 ! i) = 0 \<and>
    cs_granted_ret_bw_kbps (mx_sessions x2 ! i) = 0 \<and>
    MNTR (cs_session_id (mx_sessions x ! i)) (destination_realm (mx_sessions x ! i))
      (Some \<lparr>rp_profile_name = cs_profile_name (mx_sessions x ! i), rp_granted_bw = 0, rp_granted_return_bw = 0, rp_gateway_ip = None\<rparr>)
      None (Some ''Link recovered'') \<in> set (drop (length (mx_pushes x1)) (mx_pushes x2))"
proof -
  let ?s = "mx_sessions x ! i"
  let ?s1 = "?s\<lparr>cs_granted_bw_kbps := 0, cs_granted_ret_bw_kbps := 0, cs_state := SESSION_STATE_SUSPENDED, cs_last_activity := t1\<rparr>"
  have down: "core (mx_sessions x1 ! i) = core ?s1"
    using link_event_effect [OF assms(1,2,7)] assms(3-6) by (simp add: link_effect_def on_link_def magic_session_suspend_def)
  have len: "length (mx_sessions x1) = MAX_SESSIONS"
    using assms(2) link_change_loop_core [of "[0..<MAX_SESSIONS]" x env t1 lid False]
    by (simp add: assms(7) magic_cic_on_link_status_change_def Let_def magic_cic_broadcast_mscr_def mx_sessions_def broadcast_loop_keeps)
  note up = link_event_effect [OF assms(1) len assms(8)]
  have eff: "link_effect t2 True lid ?s1 = ?s1\<lparr>cs_state := SESSION_STATE_ACTIVE, cs_last_activity := t2\<rparr>"
    using assms(3-6) by (simp add: link_effect_def on_link_def magic_session_resume_def)
  have "core (mx_sessions x2 ! i) = core (?s1\<lparr>cs_state := SESSION_STATE_ACTIVE, cs_last_activity := t2\<rparr>)"
    using up assms(3) link_effect_core [OF down, of t2 True lid] eff by simp
  note end_state = core_eqD [OF this]
  have "on_link lid (mx_sessions x1 ! i)"
    using on_link_core [OF down, of lid] assms(4,6) by (simp add: on_link_def)
  then have "link_report True (mx_sessions x1 ! i) \<in> set (drop (length (mx_pushes x1)) (mx_pushes x2))"
    using up assms(3) by auto
  moreover have "destination_realm ?s1 = destination_realm ?s" by (simp add: destination_realm_def cong: if_cong)
  ultimately show ?thesis
    using end_state link_report_core [OF down, of True] by (simp add: link_report_def)
qed

section \<open>The session manager under notifications\<close>

text \<open>Everything the notification code does to the context, one call at a time.\<close>

datatype push_call =
    Send_mntr int nat MNTRParams
  | Mntr_answer int nat "u32 option"
  | Check_timeouts int
  | Mscr_answer nat "u32 option"
  | Broadcast MSCRParams
  | Link_change int "string option" bool
  | Bandwidth_change int nat u32 "string option"
  | Handover int nat "string option" "string option"
  | Initial_mscr nat

fun push_step :: "dia_env \<Rightarrow> os_env \<Rightarrow> MagicContext \<Rightarrow> push_call \<Rightarrow> MagicContext" where
  "push_step env os x (Send_mntr now i ps) = snd (magic_cic_send_mntr env now i ps x)"
| "push_step env os x (Mntr_answer now i a) = mntr_answer_callback os now i a x"
| "push_step env os x (Check_timeouts now) = magic_cic_check_mntr_timeouts now x"
| "push_step env os x (Mscr_answer i a) = mscr_answer_callback i a x"
| "push_step env os x (Broadcast ps) = snd (magic_cic_broadcast_mscr env ps x)"
| "push_step env os x (Link_change now lid up) = snd (magic_cic_on_link_status_change env now lid up x)"
| "push_step env os x (Bandwidth_change now i bw reason) = snd (magic_cic_on_bandwidth_change env now i bw reason x)"
| "push_step env os x (Handover now i lid gw) = snd (magic_cic_on_handover env now i lid gw x)"
| "push_step env os x (Initial_mscr i) = snd (magic_cic_send_initial_mscr env i x)"

lemma set_session_inv:
  assumes "sess_inv (mx_sm x)" and "i < length (mx_sessions x) \<Longrightarrow> cs_in_use s = cs_in_use (mx_sessions x ! i) \<and>
    cs_client_id s = cs_client_id (mx_sessions x ! i) \<and> session_ok s"
  shows "sess_inv (mx_sm (set_session i s x))"
proof (cases "i < length (mx_sessions x)")
  case True
  then show ?thesis using assms edit_session_inv(1) [of i "mx_sm x" s] by (simp add: set_session_def mx_sessions_def)
next
  case False
  then show ?thesis using assms(1) by (simp add: set_session_def mx_sessions_def list_update_beyond)
qed

lemma session_ok_at: "sess_inv (mx_sm x) \<Longrightarrow> i < length (mx_sessions x) \<Longrightarrow> session_ok (mx_sessions x ! i)"
  by (simp add: sess_inv_def mx_sessions_def)

lemma reported_inv:
  assumes "reported i x x'" and "sess_inv (mx_sm x)"
  shows "sess_inv (mx_sm x')"
proof -
  obtain s n ps where r: "core s = core (mx_sessions x ! i)" "x' = (set_session i s x)\<lparr>mx_attempts := n, mx_pushes := ps\<rparr>"
    using assms by (auto simp: reported_def)
  have "sess_inv (mx_sm (set_session i s x))"
    using core_eqD [OF r(1)] session_ok_at [OF assms(2)] by (intro set_session_inv assms(2)) (auto simp: session_ok_def)
  then show ?thesis by (simp add: r(2))
qed

lemma send_mntr_inv: "sess_inv (mx_sm x) \<Longrightarrow> sess_inv (mx_sm (snd (magic_cic_send_mntr env now i ps x)))"
  using reported_inv [OF send_mntr_reported] .

lemma link_change_loop_inv: "sess_inv (mx_sm x) \<Longrightarrow> sess_inv (mx_sm (link_change_loop env now lid up is x))"
proof (induction "is" arbitrary: x)
  case (Cons i "is")
  have "sess_inv (mx_sm (set_session i (link_effect now up lid (mx_sessions x ! i)) x))"
    using session_ok_at [OF Cons.prems] by (intro set_session_inv Cons.prems) (simp add: link_effect_names)
  then show ?case using Cons by (simp add: link_change_loop_Cons send_mntr_inv)
qed simp

lemma check_timeouts_inv:
  assumes "sess_inv (mx_sm x)"
  shows "sess_inv (mx_sm (magic_cic_check_mntr_timeouts now x))"
proof -
  let ?f = "\<lambda>s. if ack_overdue now s then s\<lparr>cs_mntr_pending_ack := False, cs_state := SESSION_STATE_CLOSED, cs_in_use := False\<rparr> else s"
  have "int (count_if cs_in_use (map ?f ss)) = int (count_if cs_in_use ss) - int (count_if (ack_overdue now) ss)" for ss
    by (induction ss) (auto simp: ack_overdue_def)
  then show ?thesis
    using assms by (auto simp: magic_cic_check_mntr_timeouts_def sess_inv_def mx_sessions_def session_ok_def clients_ok_def)
qed

lemma mntr_answer_inv:
  assumes "sess_inv (mx_sm x)"
  shows "sess_inv (mx_sm (mntr_answer_callback os now i a x))"
proof -
  let ?x1 = "set_session i ((mx_sessions x ! i)\<lparr>cs_mntr_pending_ack := False\<rparr>) x"
  have x1: "sess_inv (mx_sm ?x1)"
    using session_ok_at [OF assms] by (intro set_session_inv assms) (simp add: session_ok_def)
  show ?thesis
    using x1 delete_inv(1) [OF x1] by (auto simp: mntr_answer_callback_def Let_def split: option.splits prod.splits)
qed

lemma push_step_inv:
  assumes "sess_inv (mx_sm x)"
  shows "sess_inv (mx_sm (push_step env os x c))"
proof -
  have edit: "sess_inv (mx_sm (set_session i s x))"
    if "cs_in_use s = cs_in_use (mx_sessions x ! i)" "cs_client_id s = cs_client_id (mx_sessions x ! i)"
      "cs_tft_rules s = cs_tft_rules (mx_sessions x ! i)" "cs_num_tft_rules s = cs_num_tft_rules (mx_sessions x ! i)" for i s
    using session_ok_at [OF assms] that by (intro set_session_inv assms) (simp add: session_ok_def)
  show ?thesis
  proof (cases c)
    case (Handover now i lid gw)
    then show ?thesis
      using assms by (auto simp: magic_cic_on_handover_def Let_def intro!: send_mntr_inv edit split: option.splits)
  qed (use assms in \<open>auto simp: magic_cic_on_bandwidth_change_def mscr_answer_callback_def magic_cic_send_initial_mscr_def
      magic_cic_broadcast_mscr_def broadcast_loop_keeps magic_cic_on_link_status_change_def Let_def
      intro!: send_mntr_inv mntr_answer_inv check_timeouts_inv link_change_loop_inv edit split: option.splits\<close>)
qed

text \<open>
  No notification, acknowledgement, time-out or link event breaks the invariant of the session
  manager, whatever the Diameter library answers and in whatever order the calls come.
\<close>

lemma push_keeps_session_inv:
  assumes "sess_inv (mx_sm x)"
  shows "sess_inv (mx_sm (foldl (push_step env os) x calls))"
  using assms by (induction calls arbitrary: x) (simp_all add: push_step_inv)

text \<open>
  A session that is closed because its acknowledgement is overdue keeps what it holds elsewhere: its
  client's context still lists the slot and counts its bandwidth, and its route stays installed.
\<close>

lemma forced_close_keeps_bookings:
  "sm_clients (mx_sm (magic_cic_check_mntr_timeouts now x)) = sm_clients (mx_sm x)"
  "mx_dp (magic_cic_check_mntr_timeouts now x) = mx_dp x"
  by (simp_all add: magic_cic_check_mntr_timeouts_def)

section \<open>Witnesses\<close>

definition demo_dia :: dia_env where
  "demo_dia = \<lparr>de_new = (\<lambda>_. True), de_build = (\<lambda>_. Built), de_report = (\<lambda>_. True), de_info = (\<lambda>_ _. True), de_send = (\<lambda>_. True)\<rparr>"

definition demo_session :: ClientSession where
  "demo_session = zero_session\<lparr>cs_in_use := True, cs_session_id := ''s1'', cs_client_id := ''efb.air'', cs_state := SESSION_STATE_ACTIVE,
     cs_assigned_link_id := ''SAT'', cs_granted_bw_kbps := 512, cs_granted_ret_bw_kbps := 128, cs_last_notified_bw_kbps := 1000\<rparr>"

definition demo_lmi :: MagicLmiContext where
  "demo_lmi = \<lparr>li_server_fd = -1, li_running = False, li_dgram_fd = -1, li_dgram_running = False, li_udp_fd = -1, li_udp_running = False,
     li_udp_port = 1947, li_heartbeat_monitor_running = False, li_clients = replicate MAX_DLM_CLIENTS zero_dlm_client, li_has_config = True,
     li_event_callbacks = replicate MAX_EVENT_CALLBACKS zero_callback, li_num_callbacks = 0\<rparr>"

definition demo_context :: MagicContext where
  "demo_context = \<lparr>mx_config = magic_config_init, mx_lmi = demo_lmi,
     mx_sm = (snd (magic_session_init \<lparr>sm_sessions = [], sm_session_count = 0, sm_clients = [], sm_client_count = 0\<rparr>))\<lparr>
       sm_sessions := (replicate MAX_SESSIONS zero_session)[0 := demo_session], sm_session_count := 1\<rparr>,
     mx_dp = \<lparr>dp = zero_dp, cmds = []\<rparr>, mx_pushes = [], mx_attempts = 0, mx_replies = [], mx_closed = []\<rparr>"

lemma demo_context_facts:
  "env_ok demo_dia" "length (mx_sessions demo_context) = MAX_SESSIONS" "mx_sessions demo_context ! 0 = demo_session"
  by (simp_all add: env_ok_def demo_dia_def demo_context_def mx_sessions_def)

lemma demo_context_inv: "sess_inv (mx_sm demo_context)"
proof -
  have "session_ok demo_session" "cs_in_use demo_session" by (simp_all add: session_ok_def demo_session_def zero_session_def)
  moreover have "count_if cs_in_use ((replicate MAX_SESSIONS zero_session)[0 := demo_session]) = 1"
    using count_if_update [of 0 "replicate MAX_SESSIONS zero_session" cs_in_use demo_session] calculation(2)
    by (simp add: count_if_replicate zero_session_def)
  moreover have "set ((replicate MAX_SESSIONS zero_session)[0 := demo_session]) \<subseteq> {zero_session, demo_session}"
    using set_update_subset_insert [of "replicate MAX_SESSIONS zero_session" 0 demo_session] by auto
  ultimately show ?thesis
    using init_sess_inv(1) [of "\<lparr>sm_sessions = [], sm_session_count = 0, sm_clients = [], sm_client_count = 0\<rparr>"]
    by (auto simp: demo_context_def sess_inv_def magic_session_init_def clients_ok_def)
qed

lemma storm_control_threshold_witness:
  "magic_cic_should_send_mntr 100 demo_session 999 False \<and> \<not> magic_cic_should_send_mntr 100 demo_session 1099 False \<and>
   magic_cic_should_send_mntr 100 demo_session 1100 False"
  using storm_control_threshold [of demo_session 1000 999 100] storm_control_threshold [of demo_session 1000 1099 100]
    storm_control_threshold [of demo_session 1000 1100 100]
  by (simp add: demo_session_def zero_session_def)

theorem link_event_messages_witness:
  "link_report False demo_session \<in> set (mx_pushes (snd (magic_cic_on_link_status_change demo_dia 7 (Some ''SAT'') False demo_context)))"
proof -
  have "on_link ''SAT'' demo_session" by (simp add: on_link_def demo_session_def)
  then show ?thesis
    using link_event_messages [OF demo_context_facts(1,2), of _ 7 "''SAT''" False] demo_context_facts(3)
    by (auto intro!: image_eqI [of _ _ 0])
qed

lemma recovered_session_has_no_bandwidth_witness:
  "cs_granted_bw_kbps (mx_sessions (snd (magic_cic_on_link_status_change demo_dia 9 (Some ''SAT'') True
     (snd (magic_cic_on_link_status_change demo_dia 7 (Some ''SAT'') False demo_context)))) ! 0) = 0"
  using recovered_session_has_no_bandwidth [OF demo_context_facts(1,2), of 0 "''SAT''" _ 7 _ 9] demo_context_facts(3)
  by (simp add: demo_session_def)

lemma push_keeps_session_inv_witness:
  "sess_inv (mx_sm (foldl (push_step demo_dia \<lparr>os_system = (\<lambda>_ _. 0), os_if_index = (\<lambda>_. 1), os_if_addr = (\<lambda>_. None)\<rparr>) demo_context
     [Link_change 7 (Some ''SAT'') False, Check_timeouts 20]))"
  by (rule push_keeps_session_inv [OF demo_context_inv])

end
