(* ===== verification/Lmi_Laws.thy ===== *)
theory Lmi_Laws
  imports Lmi Push_Props Config_Props Dataplane_Laws
begin

text \<open>
  Laws of the link-manager interface: the bearer table of a link manager and the finite map it stands
  for, what the notifications leave untouched, and the invariant of the whole context
  (\<open>ctx_inv\<close>) with its preservation by every operation.
\<close>

section \<open>Bearer tables\<close>

interpretation be: slot_table be_is_active zero_bearer
  by unfold_locales (simp add: zero_bearer_def)

definition bearers_ok :: "DlmClient \<Rightarrow> bool" where
  "bearers_ok c \<longleftrightarrow> length (dm_bearers c) = MAX_BEARERS \<and> unat (dm_num_active_bearers c) = count_if be_is_active (dm_bearers c) \<and>
     (\<forall>i<MAX_BEARERS. be_is_active (dm_bearers c ! i) \<longrightarrow> be_bearer_id (dm_bearers c ! i) = of_nat i + 1)"

lemma zero_dlm_client_ok [simp]: "bearers_ok zero_dlm_client"
  by (simp add: bearers_ok_def zero_dlm_client_def be.blank_table) (simp add: zero_bearer_def)

lemma bearers_ok_cong:
  "dm_bearers c = dm_bearers c' \<Longrightarrow> dm_num_active_bearers c = dm_num_active_bearers c' \<Longrightarrow> bearers_ok c = bearers_ok c'"
  by (simp add: bearers_ok_def)

lemma bearer_index_of:
  assumes "i < MAX_BEARERS"
  shows "bearer_index (of_nat i + 1) = Some i" "(of_nat i + 1 :: u8) \<noteq> 0"
proof -
  have "i \<in> {0, 1, 2, 3, 4, 5, 6, 7}" using assms by auto
  then show "bearer_index (of_nat i + 1) = Some i" "(of_nat i + 1 :: u8) \<noteq> 0" by (auto simp: bearer_index_def)
qed

lemma bearer_index_SomeD:
  assumes "bearer_index bid = Some i"
  shows "i < MAX_BEARERS \<and> bid = of_nat i + 1"
proof -
  from assms have b: "bid \<noteq> 0" "bid \<le> 8" and i: "i = unat (bid - 1)" by (auto simp: bearer_index_def split: if_splits)
  have "unat bid \<noteq> 0" "unat bid \<le> 8" using b by (simp_all add: word_le_nat_alt unat_eq_0)
  moreover have "unat (bid - 1) = unat bid - 1" using b(1) by (simp add: unat_minus_one)
  ultimately show ?thesis using i by simp
qed

lemma bearer_index_inj: "bearer_index a = Some i \<Longrightarrow> bearer_index b = Some i \<Longrightarrow> a = b"
  by (auto dest!: bearer_index_SomeD)

lemma allocate_cases:
  assumes "bearers_ok c"
  obtains (full) "count_if be_is_active (dm_bearers c) = MAX_BEARERS" "magic_dlm_allocate_bearer now c = (0, c)"
  | (slot) i b where "i < MAX_BEARERS" "\<not> be_is_active (dm_bearers c ! i)" "be_is_active b" "be_bearer_id b = of_nat i + 1"
      "magic_dlm_allocate_bearer now c =
        (of_nat i + 1, c\<lparr>dm_bearers := (dm_bearers c)[i := b], dm_num_active_bearers := dm_num_active_bearers c + 1\<rparr>)"
proof (cases "find_idx (\<lambda>b. \<not> be_is_active b) (dm_bearers c)")
  case None
  then show ?thesis using assms be.no_free_slot_iff [of "dm_bearers c"]
    by (intro full) (simp_all add: bearers_ok_def magic_dlm_allocate_bearer_def)
next
  case (Some i)
  then show ?thesis using assms find_idx_SomeD [OF Some]
    by (intro slot [of i "(dm_bearers c ! i)\<lparr>be_is_active := True, be_bearer_id := of_nat i + 1, be_created_time := now,
            be_tx_bytes := 0, be_rx_bytes := 0\<rparr>"])
      (simp_all add: bearers_ok_def magic_dlm_allocate_bearer_def Let_def)
qed

lemma unat_Suc_small: "unat (n :: u8) < 255 \<Longrightarrow> unat (n + 1) = Suc (unat n)"
  by (simp add: unat_word_ariths(1))

lemma allocate_ok: "bearers_ok c \<Longrightarrow> bearers_ok (snd (magic_dlm_allocate_bearer now c))"
proof -
  assume ok: "bearers_ok c"
  then show ?thesis
  proof (cases rule: allocate_cases [of c now])
    case (slot i b)
    have "count_if be_is_active ((dm_bearers c)[i := b]) = Suc (count_if be_is_active (dm_bearers c))"
      using count_if_update [of i "dm_bearers c" be_is_active b] slot ok by (simp add: bearers_ok_def)
    moreover have "count_if be_is_active (dm_bearers c) \<le> MAX_BEARERS"
      using ok count_if_le_length [of be_is_active "dm_bearers c"] by (simp add: bearers_ok_def)
    ultimately show ?thesis using ok slot by (auto simp: bearers_ok_def nth_list_update unat_Suc_small)
  qed (use ok in simp)
qed

lemma release_ok: "bearers_ok c \<Longrightarrow> bearers_ok (snd (magic_dlm_release_bearer bid c))"
proof -
  assume ok: "bearers_ok c"
  show ?thesis
  proof (cases "\<exists>i. bearer_index bid = Some i \<and> be_is_active (dm_bearers c ! i)")
    case True
    then obtain i where i: "bearer_index bid = Some i" "be_is_active (dm_bearers c ! i)" by blast
    have less: "i < length (dm_bearers c)" using ok bearer_index_SomeD [OF i(1)] by (simp add: bearers_ok_def)
    have cnt: "Suc (count_if be_is_active ((dm_bearers c)[i := zero_bearer])) = count_if be_is_active (dm_bearers c)"
      using less i(2) be.blank_unused by (rule be.free_slot)
    then have "dm_num_active_bearers c \<noteq> 0" using ok by (auto simp: bearers_ok_def)
    then have "unat (dm_num_active_bearers c - 1) = unat (dm_num_active_bearers c) - 1" by (rule unat_minus_one)
    then show ?thesis using ok i less cnt be.blank_unused
      by (auto simp: bearers_ok_def magic_dlm_release_bearer_def nth_list_update)
  qed (use ok in \<open>auto simp: magic_dlm_release_bearer_def split: option.splits\<close>)
qed

lemma set_qos_ok:
  assumes "bearers_ok c" shows "bearers_ok (set_bearer_qos i q c)"
proof (cases "i < length (dm_bearers c)")
  case True
  then have "count_if be_is_active ((dm_bearers c)[i := (dm_bearers c ! i)\<lparr>be_qos_params := q\<rparr>]) = count_if be_is_active (dm_bearers c)"
    by (intro be.keep_slot) simp_all
  moreover have "be_is_active ((dm_bearers c)[i := (dm_bearers c ! i)\<lparr>be_qos_params := q\<rparr>] ! j) = be_is_active (dm_bearers c ! j)"
      "be_bearer_id ((dm_bearers c)[i := (dm_bearers c ! i)\<lparr>be_qos_params := q\<rparr>] ! j) = be_bearer_id (dm_bearers c ! j)" for j
    using True by (cases "i = j"; simp)+
  ultimately show ?thesis using assms by (simp add: bearers_ok_def set_bearer_qos_def)
next
  case False
  then show ?thesis using assms by (simp add: bearers_ok_def set_bearer_qos_def list_update_beyond)
qed

lemma resource_request_ok: "bearers_ok c \<Longrightarrow> bearers_ok (snd (handle_mih_resource_request_internal now req c))"
  by (simp add: handle_mih_resource_request_internal_def set_qos_ok allocate_ok release_ok Let_def case_prod_beta
      split: RESOURCE_ACTION_TYPE.split option.split)

lemma link_resource_request_ok: "bearers_ok c \<Longrightarrow> bearers_ok (snd (snd (magic_dlm_link_resource_request now req c)))"
  by (simp add: magic_dlm_link_resource_request_def set_qos_ok allocate_ok release_ok Let_def case_prod_beta
      split: RESOURCE_ACTION_TYPE.split option.split)

section \<open>The map a bearer table stands for\<close>

definition bearer_map :: "DlmClient \<Rightarrow> u8 \<Rightarrow> QOS_PARAM option" where
  "bearer_map c bid = map_option (\<lambda>i. be_qos_params (dm_bearers c ! i)) (magic_dlm_find_bearer c bid)"

definition bearer_ids :: "u8 set" where
  "bearer_ids = {1, 2, 3, 4, 5, 6, 7, 8}"

lemma bearer_index_None_iff: "bearer_index bid = None \<longleftrightarrow> bid \<notin> bearer_ids"
proof
  show "bid \<notin> bearer_ids" if "bearer_index bid = None" using that by (auto simp: bearer_index_def bearer_ids_def)
next
  assume "bid \<notin> bearer_ids"
  moreover have "bid \<in> bearer_ids" if i: "i < MAX_BEARERS" and bid: "bid = of_nat i + 1" for i
  proof -
    have "i \<in> {0, 1, 2, 3, 4, 5, 6, 7}" using i by auto
    then show ?thesis using bid by (auto simp: bearer_ids_def)
  qed
  ultimately show "bearer_index bid = None" using bearer_index_SomeD [of bid] by (cases "bearer_index bid") auto
qed

lemma dom_bearer_map: "bid \<in> dom (bearer_map c) \<longleftrightarrow> (\<exists>i. bearer_index bid = Some i \<and> be_is_active (dm_bearers c ! i))"
  by (auto simp: bearer_map_def magic_dlm_find_bearer_def split: option.splits if_splits)

lemma bearer_map_update:
  assumes "bearer_index bid = Some i" and "i < length (dm_bearers c)"
  shows "bearer_map (c\<lparr>dm_bearers := (dm_bearers c)[i := b], dm_num_active_bearers := n\<rparr>)
    = (bearer_map c)(bid := (if be_is_active b then Some (be_qos_params b) else None))"
proof (rule ext)
  fix k
  have "bearer_index k = Some i \<longleftrightarrow> k = bid" using assms(1) bearer_index_inj by blast
  then show "bearer_map (c\<lparr>dm_bearers := (dm_bearers c)[i := b], dm_num_active_bearers := n\<rparr>) k
    = ((bearer_map c)(bid := (if be_is_active b then Some (be_qos_params b) else None))) k"
    using assms by (auto simp: bearer_map_def magic_dlm_find_bearer_def nth_list_update split: option.splits)
qed

lemma set_qos_map:
  assumes "magic_dlm_find_bearer c bid = Some i" and "length (dm_bearers c) = MAX_BEARERS"
  shows "bearer_map (set_bearer_qos i q c) = (bearer_map c)(bid \<mapsto> q)"
proof -
  have i: "bearer_index bid = Some i" "be_is_active (dm_bearers c ! i)" "i < length (dm_bearers c)"
    using assms by (auto simp: magic_dlm_find_bearer_def dest: bearer_index_SomeD split: option.splits if_splits)
  have "set_bearer_qos i q c = c\<lparr>dm_bearers := (dm_bearers c)[i := (dm_bearers c ! i)\<lparr>be_qos_params := q\<rparr>],
      dm_num_active_bearers := dm_num_active_bearers c\<rparr>" by (simp add: set_bearer_qos_def)
  then show ?thesis
    using bearer_map_update [OF i(1,3), where b = "(dm_bearers c ! i)\<lparr>be_qos_params := q\<rparr>" and n = "dm_num_active_bearers c"] i(2) by simp
qed

lemma allocated_bearer_found:
  assumes "bearers_ok c" and "magic_dlm_allocate_bearer now c = (bid, c')" and "bid \<noteq> 0"
  shows "\<exists>i q. magic_dlm_find_bearer c' bid = Some i \<and> bid \<in> bearer_ids - dom (bearer_map c) \<and> bearer_map c' = (bearer_map c)(bid \<mapsto> q)"
  using assms(1)
proof (cases rule: allocate_cases [of c now])
  case (slot i b)
  have bid: "bid = of_nat i + 1" and c': "c' = c\<lparr>dm_bearers := (dm_bearers c)[i := b], dm_num_active_bearers := dm_num_active_bearers c + 1\<rparr>"
    using assms(2) slot(5) by simp_all
  have idx: "bearer_index bid = Some i" using bearer_index_of(1) [OF slot(1)] bid by simp
  have "i < length (dm_bearers c)" using assms(1) slot(1) by (simp add: bearers_ok_def)
  then have "magic_dlm_find_bearer c' bid = Some i" "bearer_map c' = (bearer_map c)(bid \<mapsto> be_qos_params b)"
    using bearer_map_update [OF idx, where c = c and b = b] slot(3) idx by (simp_all add: c' magic_dlm_find_bearer_def)
  moreover have "bid \<in> bearer_ids" using idx bearer_index_None_iff [of bid] by auto
  moreover have "bid \<notin> dom (bearer_map c)" using idx slot(2) by (simp add: dom_bearer_map)
  ultimately show ?thesis by blast
qed (use assms in simp)

lemma allocate_full:
  assumes "bearers_ok c" and "magic_dlm_allocate_bearer now c = (0, c')"
  shows "c' = c \<and> dom (bearer_map c) = bearer_ids"
  using assms(1)
proof (cases rule: allocate_cases [of c now])
  case full
  have "\<forall>b\<in>set (dm_bearers c). be_is_active b"
    using assms(1) full(1) count_if_full_iff [of be_is_active "dm_bearers c"] by (simp add: bearers_ok_def)
  then have "be_is_active (dm_bearers c ! i)" if "bearer_index bid = Some i" for bid i
    using assms(1) bearer_index_SomeD [OF that] by (simp add: bearers_ok_def)
  then have "bid \<in> dom (bearer_map c) \<longleftrightarrow> bid \<in> bearer_ids" for bid
    using bearer_index_None_iff [of bid] by (auto simp: dom_bearer_map)
  then show ?thesis using assms(2) full(2) by auto
next
  case (slot i b)
  then show ?thesis using assms(2) bearer_index_of(2) [OF slot(1)] by simp
qed

lemma release_map:
  assumes "bearers_ok c" and "magic_dlm_release_bearer bid c = (r, c')"
  shows "r = 0 \<and> bid \<in> dom (bearer_map c) \<and> bearer_map c' = (bearer_map c)(bid := None) \<or> r = -1 \<and> bid \<notin> dom (bearer_map c) \<and> c' = c"
proof (cases "\<exists>i. bearer_index bid = Some i \<and> be_is_active (dm_bearers c ! i)")
  case True
  then obtain i where i: "bearer_index bid = Some i" "be_is_active (dm_bearers c ! i)" by blast
  have "i < length (dm_bearers c)" using assms(1) bearer_index_SomeD [OF i(1)] by (simp add: bearers_ok_def)
  then show ?thesis using assms(2) i True bearer_map_update [OF i(1), where c = c and b = zero_bearer] be.blank_unused
    by (auto simp: magic_dlm_release_bearer_def dom_bearer_map)
next
  case False
  then show ?thesis using assms(2)
    by (auto simp: magic_dlm_release_bearer_def dom_bearer_map split: option.splits)
qed

section \<open>What notifications leave untouched\<close>

definition rest :: "MagicContext \<Rightarrow> MagicConfig \<times> MagicLmiContext \<times> dp_world" where
  "rest x = (mx_config x, mx_lmi x, mx_dp x)"

lemma rest_simps [simp]:
  "rest (set_session i s x) = rest x" "rest (x\<lparr>mx_attempts := n\<rparr>) = rest x" "rest (x\<lparr>mx_pushes := ps\<rparr>) = rest x"
  by (simp_all add: rest_def set_session_def)

lemma rest_eqD: "rest y = rest x \<Longrightarrow> mx_config y = mx_config x \<and> mx_lmi y = mx_lmi x \<and> mx_dp y = mx_dp x"
  by (simp add: rest_def)

lemma send_mntr_rest [simp]: "rest (snd (magic_cic_send_mntr env now i ps x)) = rest x"
  using reported_keeps(5-7) [OF send_mntr_reported [of i x env now ps]] by (simp add: rest_def)

lemma link_change_loop_rest [simp]: "rest (link_change_loop env now lid up is x) = rest x"
  by (induction "is" arbitrary: x) (simp_all add: link_change_loop_Cons del: link_change_loop.simps(2))

lemma broadcast_loop_rest [simp]: "rest (snd (broadcast_loop env ps is n x)) = rest x"
  by (induction env ps "is" n x rule: broadcast_loop.induct) (simp_all add: Let_def split: build_result.splits)

lemma status_change_rest [simp]: "rest (snd (magic_cic_on_link_status_change env now lid up x)) = rest x"
  by (simp add: magic_cic_on_link_status_change_def magic_cic_broadcast_mscr_def Let_def split: option.split)

lemma status_change_inv:
  "sess_inv (mx_sm x) \<Longrightarrow> sess_inv (mx_sm (snd (magic_cic_on_link_status_change env now lid up x)))"
  by (simp add: magic_cic_on_link_status_change_def magic_cic_broadcast_mscr_def Let_def broadcast_loop_keeps
      link_change_loop_inv split: option.split)

lemma callback_loop_rest [simp]: "rest (callback_loop env now lid ev es x) = rest x"
proof (induction es arbitrary: x)
  case (Cons e es)
  have "rest (run_callback cb env now lid ev y) = rest y" for cb y
    by (cases cb) (simp add: on_lmi_link_event_for_mscr_def)
  then show ?case using Cons by (simp split: option.split)
qed simp

lemma callback_loop_inv: "sess_inv (mx_sm x) \<Longrightarrow> sess_inv (mx_sm (callback_loop env now lid ev es x))"
proof (induction es arbitrary: x)
  case (Cons e es)
  have "sess_inv (mx_sm (run_callback cb env now lid ev y))" if "sess_inv (mx_sm y)" for cb y
    using that by (cases cb) (simp add: on_lmi_link_event_for_mscr_def status_change_inv)
  then show ?case using Cons by (simp split: option.split)
qed simp

lemma trigger_rest [simp]: "rest (trigger_lmi_event_callbacks env now lid ev x) = rest x"
  by (simp add: trigger_lmi_event_callbacks_def)

lemma trigger_lmi [simp]: "mx_lmi (trigger_lmi_event_callbacks env now lid ev x) = mx_lmi x"
  using rest_eqD [OF trigger_rest] by simp

lemma link_lost_loop_keeps:
  "rest (link_lost_loop env now lid is x) = rest x \<and> (sess_inv (mx_sm x) \<longrightarrow> sess_inv (mx_sm (link_lost_loop env now lid is x)))"
proof (induction "is" arbitrary: x)
  case (Cons i "is")
  have edit: "sess_inv (mx_sm (set_session i ((mx_sessions y ! i)\<lparr>cs_state := st\<rparr>) y))" if "sess_inv (mx_sm y)" for y st
    using session_ok_at [OF that] that by (intro set_session_inv) (simp_all add: session_ok_def)
  show ?case
    using Cons by (simp add: Let_def case_prod_beta edit send_mntr_inv)
qed simp

section \<open>The invariant of the context\<close>

definition lmi_inv :: "MagicLmiContext \<Rightarrow> bool" where
  "lmi_inv l \<longleftrightarrow> length (li_clients l) = MAX_DLM_CLIENTS \<and> (\<forall>c\<in>set (li_clients l). bearers_ok c) \<and>
     length (li_event_callbacks l) = MAX_EVENT_CALLBACKS \<and> 0 \<le> li_num_callbacks l \<and> li_num_callbacks l \<le> int MAX_EVENT_CALLBACKS"

definition ctx_inv :: "MagicContext \<Rightarrow> bool" where
  "ctx_inv x \<longleftrightarrow> lmi_inv (mx_lmi x) \<and> sess_inv (mx_sm x) \<and> dp_inv (dp (mx_dp x)) \<and> config_wf (mx_config x)"

lemma ctx_frame:
  "ctx_inv x \<Longrightarrow> rest y = rest x \<Longrightarrow> sess_inv (mx_sm y) \<Longrightarrow> ctx_inv y"
  by (simp add: ctx_inv_def rest_def)

lemma ctx_trigger: "ctx_inv x \<Longrightarrow> ctx_inv (trigger_lmi_event_callbacks env now lid ev x)"
  by (rule ctx_frame) (simp_all add: trigger_lmi_event_callbacks_def callback_loop_inv ctx_inv_def)

lemma ctx_outputs: "ctx_inv x \<Longrightarrow> ctx_inv (reply fd r x)" "ctx_inv x \<Longrightarrow> ctx_inv (close_fd fd x)"
  by (simp_all add: ctx_inv_def reply_def close_fd_def)

lemma ctx_edit_lmi: "ctx_inv x \<Longrightarrow> (lmi_inv (mx_lmi x) \<Longrightarrow> lmi_inv (f (mx_lmi x))) \<Longrightarrow> ctx_inv (edit_lmi f x)"
  by (simp add: ctx_inv_def edit_lmi_def)

lemma ctx_set_client: "ctx_inv x \<Longrightarrow> bearers_ok c \<Longrightarrow> ctx_inv (set_dlm_client i c x)"
  using set_update_subset_insert [of "li_clients (mx_lmi x)" i c]
  by (auto simp: ctx_inv_def lmi_inv_def set_dlm_client_def)

lemma ctx_client: "ctx_inv x \<Longrightarrow> i < MAX_DLM_CLIENTS \<Longrightarrow> bearers_ok (li_clients (mx_lmi x) ! i)"
  by (simp add: ctx_inv_def lmi_inv_def)

lemma ctx_slot: "ctx_inv x \<Longrightarrow> find_idx P (li_clients (mx_lmi x)) = Some i \<Longrightarrow> i < MAX_DLM_CLIENTS"
  using find_idx_less [of P "li_clients (mx_lmi x)" i] by (simp add: ctx_inv_def lmi_inv_def)

lemma ctx_edit_client:
  assumes "ctx_inv x" and "\<And>c. bearers_ok c \<Longrightarrow> bearers_ok (f c)"
  shows "ctx_inv (edit_dlm_client i f x)"
proof (cases "i < length (li_clients (mx_lmi x))")
  case True
  then have "i < MAX_DLM_CLIENTS" using assms(1) by (simp add: ctx_inv_def lmi_inv_def)
  then show ?thesis unfolding edit_dlm_client_def using assms by (intro ctx_set_client ctx_client assms(2))
next
  case False
  then show ?thesis using assms(1) by (simp add: edit_dlm_client_def set_dlm_client_def list_update_beyond)
qed

lemma set_active_wf: "config_wf cfg \<Longrightarrow> config_wf (set_active lid b cfg)"
proof -
  assume wf: "config_wf cfg"
  have "dlm_wf ((mc_dlm_configs cfg ! k)\<lparr>dc_is_active := b\<rparr>)" if "k < length (mc_dlm_configs cfg)" for k
    using wf that by (simp add: config_wf_def table_wf_def list_all_length dlm_wf_def)
  then show ?thesis using wf
    by (auto simp: set_active_def config_wf_def table_wf_def list_all_length list_update_nth_eq split: option.split)
qed

lemma ctx_status: "ctx_inv x \<Longrightarrow> ctx_inv (magic_lmi_update_link_status lid b x)"
  by (simp add: ctx_inv_def magic_lmi_update_link_status_def set_active_wf)

text \<open>Changes of a link manager's entry that do not touch its bearers.\<close>

lemma bearers_ok_updates [simp]:
  "bearers_ok (c\<lparr>dm_client_fd := fd\<rparr>) = bearers_ok c" "bearers_ok (c\<lparr>dm_link_id := l\<rparr>) = bearers_ok c"
  "bearers_ok (c\<lparr>dm_dlm_id := d\<rparr>) = bearers_ok c" "bearers_ok (c\<lparr>dm_is_registered := b\<rparr>) = bearers_ok c"
  "bearers_ok (c\<lparr>dm_is_link_up := b\<rparr>) = bearers_ok c" "bearers_ok (c\<lparr>dm_last_heartbeat := t\<rparr>) = bearers_ok c"
  "bearers_ok (c\<lparr>dm_last_seen := t\<rparr>) = bearers_ok c" "bearers_ok (c\<lparr>dm_link_identifier := tid\<rparr>) = bearers_ok c"
  "bearers_ok (c\<lparr>dm_capabilities := cap\<rparr>) = bearers_ok c" "bearers_ok (c\<lparr>dm_link_params := lp\<rparr>) = bearers_ok c"
  "bearers_ok (c\<lparr>dm_dlm_pid := p\<rparr>) = bearers_ok c" "bearers_ok (c\<lparr>dm_health_status := h\<rparr>) = bearers_ok c"
  "bearers_ok (c\<lparr>dm_link_capability := lc\<rparr>) = bearers_ok c" "bearers_ok (c\<lparr>dm_subscribed_events := ev\<rparr>) = bearers_ok c"
  "bearers_ok (c\<lparr>dm_current_parameters := ps\<rparr>) = bearers_ok c" "bearers_ok (sync_client_params c) = bearers_ok c"
  "bearers_ok (name_client path c) = bearers_ok c"
  by (simp_all add: bearers_ok_def sync_client_params_def name_client_def Let_def)

lemmas ctx_intros =
  ctx_trigger ctx_outputs ctx_status ctx_set_client ctx_edit_client

end
