(* ===== verification/Lmi_Props.thy ===== *)
theory Lmi_Props
  imports Lmi_Laws
begin

text \<open>
  Correctness of the link-manager interface: the invariant of the whole context under any sequence of
  its events and of the notifications they cause, the refinement of the resource requests to
  operations on a finite map, and the time-out of silent link managers.
\<close>

section \<open>Runs\<close>

datatype lmi_call =
    Lmi_init
  | Start_server os_answers
  | Start_dgram_server os_answers
  | Start_udp_listener os_answers u16
  | Lmi_cleanup
  | Register_callback u16 "lmi_event_callback option"
  | Stream int int stream_msg
  | Disconnect int
  | Datagram int string u16 dgram
  | Udp_heartbeat int "string option"
  | Monitor_round int
  | Resource_request int MIH_Link_Resource_Request
  | Link_resource_request int nat LINK_Resource_Request
  | Update_health nat string
  | Notify push_call

fun lmi_step :: "dia_env \<Rightarrow> os_env \<Rightarrow> MagicContext \<Rightarrow> lmi_call \<Rightarrow> MagicContext" where
  "lmi_step env os x Lmi_init = snd (magic_lmi_init x)"
| "lmi_step env os x (Start_server oa) = snd (magic_lmi_start_server oa x)"
| "lmi_step env os x (Start_dgram_server oa) = snd (magic_lmi_start_dgram_server oa x)"
| "lmi_step env os x (Start_udp_listener oa port) = snd (magic_lmi_start_udp_listener oa port x)"
| "lmi_step env os x Lmi_cleanup = magic_lmi_cleanup x"
| "lmi_step env os x (Register_callback ev cb) = snd (magic_lmi_register_event_callback ev cb x)"
| "lmi_step env os x (Stream fd now m) = dispatch_stream env now fd m x"
| "lmi_step env os x (Disconnect fd) = disconnect_client fd x"
| "lmi_step env os x (Datagram now path t d) = process_dgram_message env os now path t d x"
| "lmi_step env os x (Udp_heartbeat now hb) = handle_udp_heartbeat env now hb x"
| "lmi_step env os x (Monitor_round now) = heartbeat_monitor_round env now x"
| "lmi_step env os x (Resource_request now req) = snd (snd (magic_dlm_mih_link_resource_request now req x))"
| "lmi_step env os x (Link_resource_request now i req) = edit_dlm_client i (\<lambda>c. snd (snd (magic_dlm_link_resource_request now req c))) x"
| "lmi_step env os x (Update_health i h) = edit_dlm_client i (magic_dlm_update_health h) x"
| "lmi_step env os x (Notify c) = push_step env os x c"

lemma lmi_init_inv: "ctx_inv x \<Longrightarrow> ctx_inv (snd (magic_lmi_init x))"
  by (simp add: ctx_inv_def magic_lmi_init_def lmi_inv_def zero_lmi_def)

lemma start_inv:
  "ctx_inv x \<Longrightarrow> ctx_inv (snd (magic_lmi_start_server oa x))"
  "ctx_inv x \<Longrightarrow> ctx_inv (snd (magic_lmi_start_dgram_server oa x))"
  "ctx_inv x \<Longrightarrow> ctx_inv (snd (magic_lmi_start_udp_listener oa port x))"
  "ctx_inv x \<Longrightarrow> ctx_inv (magic_lmi_cleanup x)"
  by (simp_all add: magic_lmi_start_server_def magic_lmi_start_dgram_server_def magic_lmi_start_udp_listener_def
      magic_lmi_cleanup_def Let_def ctx_inv_def edit_lmi_def close_fd_def lmi_inv_def)

lemma register_callback_inv: "ctx_inv x \<Longrightarrow> ctx_inv (snd (magic_lmi_register_event_callback ev cb x))"
  by (auto simp: magic_lmi_register_event_callback_def Let_def ctx_inv_def lmi_inv_def split: option.split)

lemma link_lost_inv:
  assumes "ctx_inv y" shows "ctx_inv (link_lost_loop env now lid is y)"
  using link_lost_loop_keeps [of env now lid "is" y] assms by (intro ctx_frame [OF assms]) (simp_all add: ctx_inv_def)

lemma stream_inv:
  assumes "ctx_inv x"
  shows "ctx_inv (dispatch_stream env now fd m x)"
proof -
  have fd: "find_by_fd fd x = Some i \<Longrightarrow> bearers_ok (li_clients (mx_lmi x) ! i)" for i
    using assms by (auto simp: find_by_fd_def intro: ctx_client ctx_slot)
  show ?thesis
  proof (cases m)
    case (Register_request req)
    have "find_idx P (li_clients (mx_lmi x)) = Some i \<Longrightarrow> bearers_ok (li_clients (mx_lmi x) ! i)" for P i
      using assms by (intro ctx_client) (auto intro: ctx_slot)
    with Register_request assms show ?thesis
      by (auto simp: handle_mih_register_request_def Let_def intro!: ctx_intros split: option.split)
  next
    case Link_down_indication
    with assms fd show ?thesis
      by (auto simp: handle_mih_link_down_indication_def Let_def intro!: link_lost_inv ctx_intros split: option.split)
  qed (use assms fd in \<open>auto simp: handle_mih_link_up_indication_def handle_mih_heartbeat_def
      handle_mih_parameters_report_def Let_def intro!: ctx_intros split: option.split\<close>)
qed

lemma disconnect_inv: "ctx_inv x \<Longrightarrow> ctx_inv (disconnect_client fd x)"
  by (auto simp: disconnect_client_def intro!: ctx_intros split: option.split)

lemma find_or_create_inv:
  "ctx_inv x \<Longrightarrow> find_or_create_dgram_client now path x = (r, y) \<Longrightarrow> ctx_inv y"
  by (auto simp: find_or_create_dgram_client_def intro!: ctx_set_client split: option.splits)

lemma ctx_unregister:
  "ctx_inv x \<Longrightarrow> ctx_inv (x\<lparr>mx_dp := snd (magic_dataplane_unregister_link os lid (mx_dp x))\<rparr>)"
  by (simp add: ctx_inv_def unregister_link_inv)

lemma datagram_inv:
  assumes "ctx_inv x"
  shows "ctx_inv (process_dgram_message env os now path t d x)"
proof -
  obtain r y where make: "find_or_create_dgram_client now path x = (r, y)" by (cases "find_or_create_dgram_client now path x")
  note y = find_or_create_inv [OF assms make]
  have "ctx_inv (handle_dgram_link_up_indication env now path u x)"
       "ctx_inv (handle_dgram_link_down_indication env os now path v x)" for u v
    using assms y by (auto simp: make handle_dgram_link_up_indication_def handle_dgram_link_down_indication_def Let_def
        intro!: ctx_intros ctx_unregister split: option.split)
  moreover have "ctx_inv (handle_dgram_parameters_report now path a x)" "ctx_inv (handle_dgram_capability_confirm now path b x)"
       "ctx_inv (handle_dgram_get_parameters_confirm now path a x)" "ctx_inv (handle_dgram_event_subscribe_confirm now path c x)" for a b c
    using assms y by (auto simp: make handle_dgram_parameters_report_def handle_dgram_capability_confirm_def
        handle_dgram_get_parameters_confirm_def handle_dgram_event_subscribe_confirm_def
        intro!: ctx_intros split: option.split)
  ultimately show ?thesis using assms by (simp add: process_dgram_message_def)
qed

lemma udp_heartbeat_inv: "ctx_inv x \<Longrightarrow> ctx_inv (handle_udp_heartbeat env now hb x)"
  by (auto simp: handle_udp_heartbeat_def Let_def intro!: ctx_intros split: option.split)

lemma monitor_loop_inv: "ctx_inv x \<Longrightarrow> ctx_inv (monitor_loop env now is x)"
proof (induction "is" arbitrary: x)
  case (Cons i "is")
  then show ?case by (auto simp: Let_def intro!: Cons.IH ctx_intros)
qed simp

lemma resource_request_inv: "ctx_inv x \<Longrightarrow> ctx_inv (snd (snd (magic_dlm_mih_link_resource_request now req x)))"
  by (auto simp: magic_dlm_mih_link_resource_request_def Let_def case_prod_beta magic_lmi_find_by_link_def
      intro!: ctx_set_client resource_request_ok ctx_client intro: ctx_slot split: option.split)

lemma session_delete_dp:
  "dp_inv (dp w) \<Longrightarrow> dp_inv (dp (snd (snd (magic_session_delete os now sid m w))))"
  by (simp add: magic_session_delete_def magic_session_release_link_def Let_def case_prod_beta remove_route_inv split: option.split)

lemma mntr_answer_context:
  "mx_lmi (mntr_answer_callback os now i a x) = mx_lmi x" "mx_config (mntr_answer_callback os now i a x) = mx_config x"
  "dp_inv (dp (mx_dp x)) \<Longrightarrow> dp_inv (dp (mx_dp (mntr_answer_callback os now i a x)))"
  by (simp_all add: mntr_answer_callback_def Let_def case_prod_beta set_session_def session_delete_dp split: option.split)

lemma push_step_context:
  "mx_lmi (push_step env os x c) = mx_lmi x" "mx_config (push_step env os x c) = mx_config x"
  "dp_inv (dp (mx_dp x)) \<Longrightarrow> dp_inv (dp (mx_dp (push_step env os x c)))"
proof -
  have same: "rest (push_step env os x c) = rest x \<or> (\<exists>now i a. c = Mntr_answer now i a)"
  proof (cases c)
    case (Check_timeouts now)
    then show ?thesis by (simp add: magic_cic_check_mntr_timeouts_def rest_def)
  qed (simp_all add: magic_cic_on_bandwidth_change_def mscr_answer_callback_def magic_cic_send_initial_mscr_def
      magic_cic_broadcast_mscr_def magic_cic_on_handover_def Let_def split: option.split)
  then show "mx_lmi (push_step env os x c) = mx_lmi x" "mx_config (push_step env os x c) = mx_config x"
    "dp_inv (dp (mx_dp x)) \<Longrightarrow> dp_inv (dp (mx_dp (push_step env os x c)))"
    using rest_eqD [of "push_step env os x c" x] mntr_answer_context by auto
qed

lemma lmi_step_inv:
  assumes "ctx_inv x"
  shows "ctx_inv (lmi_step env os x c)"
proof (cases c)
  case (Notify p)
  then show ?thesis using assms by (simp add: ctx_inv_def push_step_context push_step_inv)
next
  case (Link_resource_request now i req)
  then show ?thesis using assms by (simp add: ctx_edit_client link_resource_request_ok)
next
  case (Update_health i h)
  then show ?thesis using assms by (simp add: ctx_edit_client magic_dlm_update_health_def)
qed (use assms in \<open>simp_all add: lmi_init_inv start_inv register_callback_inv stream_inv disconnect_inv datagram_inv
    udp_heartbeat_inv heartbeat_monitor_round_def monitor_loop_inv resource_request_inv\<close>)

interpretation lmi: guarded_machine "lmi_step env os" ctx_inv "\<lambda>_. True" for env os
  by unfold_locales (rule lmi_step_inv)

text \<open>
  Nothing that arrives at the link-manager interface breaks the context: after any sequence of
  start-ups, stream messages, disconnections, datagrams, broadcast heartbeats, monitor rounds,
  resource requests and notifications, whatever the operating system and the Diameter library
  answer, every link manager's bearer count equals its active bearers and every active bearer has
  its slot's number, the callback table is within its bounds, and the invariants of the session
  manager, the data plane and the configuration hold.
\<close>

lemma link_events_keep_context:
  assumes "ctx_inv x"
  shows "ctx_inv (foldl (lmi_step env os) x calls)"
  using assms by (rule lmi.run_inv) simp

section \<open>Resource requests\<close>

text \<open>What a resource request promises, over the finite map from bearer numbers to their quality of service.\<close>

inductive bearer_spec ::
  "MsgMihResourceReq \<Rightarrow> (u8 \<Rightarrow> QOS_PARAM option) \<Rightarrow> STATUS \<Rightarrow> u8 option \<Rightarrow> (u8 \<Rightarrow> QOS_PARAM option) \<Rightarrow> bool"
  for req :: MsgMihResourceReq and m :: "u8 \<Rightarrow> QOS_PARAM option" where
  granted: "mq_action req = RESOURCE_ACTION_REQUEST \<Longrightarrow> mq_qos_params req = Some q \<Longrightarrow> validate_qos_params (Some q) \<Longrightarrow>
    mq_bearer_id req = None \<Longrightarrow> bid \<in> bearer_ids - dom m \<Longrightarrow> bearer_spec req m STATUS_SUCCESS (Some bid) (m(bid \<mapsto> q))"
| none_free: "mq_action req = RESOURCE_ACTION_REQUEST \<Longrightarrow> mq_qos_params req = Some q \<Longrightarrow> validate_qos_params (Some q) \<Longrightarrow>
    mq_bearer_id req = None \<Longrightarrow> dom m = bearer_ids \<Longrightarrow> bearer_spec req m STATUS_INSUFFICIENT_RESOURCES None m"
| modified: "mq_action req = RESOURCE_ACTION_REQUEST \<Longrightarrow> mq_qos_params req = Some q \<Longrightarrow> validate_qos_params (Some q) \<Longrightarrow>
    mq_bearer_id req = Some bid \<Longrightarrow> bid \<in> dom m \<Longrightarrow> bearer_spec req m STATUS_SUCCESS (Some bid) (m(bid \<mapsto> q))"
| modify_unknown: "mq_action req = RESOURCE_ACTION_REQUEST \<Longrightarrow> mq_qos_params req = Some q \<Longrightarrow> validate_qos_params (Some q) \<Longrightarrow>
    mq_bearer_id req = Some bid \<Longrightarrow> bid \<notin> dom m \<Longrightarrow> bearer_spec req m STATUS_INVALID_BEARER None m"
| qos_missing: "mq_action req = RESOURCE_ACTION_REQUEST \<Longrightarrow> mq_qos_params req = None \<Longrightarrow> bearer_spec req m STATUS_FAILURE None m"
| qos_invalid: "mq_action req = RESOURCE_ACTION_REQUEST \<Longrightarrow> mq_qos_params req = Some q \<Longrightarrow> \<not> validate_qos_params (Some q) \<Longrightarrow>
    bearer_spec req m STATUS_QOS_NOT_SUPPORTED None m"
| released: "mq_action req = RESOURCE_ACTION_RELEASE \<Longrightarrow> mq_bearer_id req = Some bid \<Longrightarrow> bid \<in> dom m \<Longrightarrow>
    bearer_spec req m STATUS_SUCCESS None (m(bid := None))"
| release_unknown: "mq_action req = RESOURCE_ACTION_RELEASE \<Longrightarrow> mq_bearer_id req = Some bid \<Longrightarrow> bid \<notin> dom m \<Longrightarrow>
    bearer_spec req m STATUS_INVALID_BEARER None m"
| release_unnamed: "mq_action req = RESOURCE_ACTION_RELEASE \<Longrightarrow> mq_bearer_id req = None \<Longrightarrow> bearer_spec req m STATUS_FAILURE None m"
| unknown_action: "mq_action req = RESOURCE_ACTION_OTHER \<Longrightarrow> bearer_spec req m STATUS_FAILURE None m"

lemma find_bearer_dom: "bid \<in> dom (bearer_map c) \<longleftrightarrow> (\<exists>i. magic_dlm_find_bearer c bid = Some i)"
  by (auto simp: bearer_map_def)

lemma request_refines:
  assumes "bearers_ok c" and "mq_action req = RESOURCE_ACTION_REQUEST" and "handle_mih_resource_request_internal now req c = (rs, c')"
  shows "bearer_spec req (bearer_map c) (ma_status rs) (ma_bearer_id rs) (bearer_map c')"
proof (cases "\<exists>q. mq_qos_params req = Some q \<and> validate_qos_params (Some q)")
  case False
  then show ?thesis using assms(2,3)
    by (auto simp: handle_mih_resource_request_internal_def resp_def intro: bearer_spec.intros split: option.splits)
next
  case True
  then obtain q where q: "mq_qos_params req = Some q" "validate_qos_params (Some q)" by blast
  have len: "length (dm_bearers c) = MAX_BEARERS" using assms(1) by (simp add: bearers_ok_def)
  show ?thesis
  proof (cases "mq_bearer_id req")
    case (Some bid)
    note named = bearer_spec.modified [OF assms(2) q Some] bearer_spec.modify_unknown [OF assms(2) q Some]
    show ?thesis
    proof (cases "magic_dlm_find_bearer c bid")
      case None
      then have "bid \<notin> dom (bearer_map c)" by (simp add: find_bearer_dom del: domIff)
      from named(2) [OF this] show ?thesis
        using assms(2,3) q Some None by (auto simp: handle_mih_resource_request_internal_def resp_def)
    next
      case (Some i)
      then have "bid \<in> dom (bearer_map c)" by (simp add: find_bearer_dom)
      from named(1) [OF this] set_qos_map [OF Some len, of q] show ?thesis
        using assms(2,3) q Some \<open>mq_bearer_id req = Some bid\<close> by (auto simp: handle_mih_resource_request_internal_def resp_def)
    qed
  next
    case None
    obtain bid c1 where al: "magic_dlm_allocate_bearer now c = (bid, c1)" by (cases "magic_dlm_allocate_bearer now c")
    show ?thesis
    proof (cases "bid = 0")
      case True
      then show ?thesis using assms(2,3) q None al allocate_full [OF assms(1), of now c1]
        by (auto simp: handle_mih_resource_request_internal_def resp_def intro: bearer_spec.none_free)
    next
      case False
      obtain i q0 where i: "magic_dlm_find_bearer c1 bid = Some i" "bid \<in> bearer_ids - dom (bearer_map c)"
          "bearer_map c1 = (bearer_map c)(bid \<mapsto> q0)"
        using allocated_bearer_found [OF assms(1) al False] by blast
      have "length (dm_bearers c1) = MAX_BEARERS" using allocate_ok [OF assms(1), of now] al by (simp add: bearers_ok_def)
      then have "bearer_map (set_bearer_qos i q c1) = (bearer_map c)(bid \<mapsto> q)" using set_qos_map [OF i(1)] i(3) by simp
      then show ?thesis using assms(2,3) q None al False i
        by (auto simp: handle_mih_resource_request_internal_def resp_def intro: bearer_spec.granted)
    qed
  qed
qed

text \<open>
  C17. A resource request does to the bearer table what it promises about the map from bearer numbers
  to quality of service, with the status that goes with it, and in no case anything else: a new
  bearer gets a number from 1 to 8 that is not in use and is refused only when all eight are; an
  update or a release concerns exactly the bearer named; every refusal leaves the map as it was.
  The table stays consistent.
\<close>

theorem resource_request_refines:
  assumes "bearers_ok c" and "handle_mih_resource_request_internal now req c = (rs, c')"
  shows "bearer_spec req (bearer_map c) (ma_status rs) (ma_bearer_id rs) (bearer_map c') \<and> bearers_ok c'"
proof
  show "bearers_ok c'" using resource_request_ok [OF assms(1), of now req] assms(2) by simp
  show "bearer_spec req (bearer_map c) (ma_status rs) (ma_bearer_id rs) (bearer_map c')"
  proof (cases "mq_action req")
    case RESOURCE_ACTION_REQUEST
    then show ?thesis using request_refines assms by blast
  next
    case RESOURCE_ACTION_RELEASE
    show ?thesis
    proof (cases "mq_bearer_id req")
      case None
      then show ?thesis using assms(2) RESOURCE_ACTION_RELEASE
        by (auto simp: handle_mih_resource_request_internal_def resp_def intro: bearer_spec.release_unnamed)
    next
      case (Some bid)
      obtain r c1 where rel: "magic_dlm_release_bearer bid c = (r, c1)" by (cases "magic_dlm_release_bearer bid c")
      note named = bearer_spec.released [OF RESOURCE_ACTION_RELEASE Some] bearer_spec.release_unknown [OF RESOURCE_ACTION_RELEASE Some]
      from release_map [OF assms(1) rel] show ?thesis
      proof (elim disjE conjE)
        assume "r = 0" "bid \<in> dom (bearer_map c)" "bearer_map c1 = (bearer_map c)(bid := None)"
        with named(1) [of "bearer_map c"] assms(2) rel Some RESOURCE_ACTION_RELEASE show ?thesis
          by (simp add: handle_mih_resource_request_internal_def resp_def del: domIff) (metis MsgMihResourceResp.select_convs(1,2))
      next
        assume "r = -1" "bid \<notin> dom (bearer_map c)" "c1 = c"
        with named(2) [of "bearer_map c"] assms(2) rel Some RESOURCE_ACTION_RELEASE show ?thesis
          by (simp add: handle_mih_resource_request_internal_def resp_def del: domIff) (metis MsgMihResourceResp.select_convs(1,2))
      qed
    qed
  next
    case RESOURCE_ACTION_OTHER
    then show ?thesis using assms(2)
      by (auto simp: handle_mih_resource_request_internal_def resp_def intro: bearer_spec.unknown_action)
  qed
qed

section \<open>The heartbeat monitor\<close>

definition dropped :: "DlmClient \<Rightarrow> DlmClient" where
  "dropped c = c\<lparr>dm_is_registered := False, dm_client_fd := (if dm_client_fd c > 0 then -1 else dm_client_fd c)\<rparr>"

text \<open>One round of the monitor's loop: dropping the link manager of a slot.\<close>

definition drop_dlm :: "dia_env \<Rightarrow> int \<Rightarrow> nat \<Rightarrow> MagicContext \<Rightarrow> MagicContext" where
  "drop_dlm env now i x =
     (let c = li_clients (mx_lmi x) ! i;
          x1 = trigger_lmi_event_callbacks env now (dm_link_id c) LINK_EVENT_DOWN x;
          x2 = edit_dlm_client i (\<lambda>c. c\<lparr>dm_is_registered := False\<rparr>) x1
      in if dm_client_fd c > 0 then edit_dlm_client i (\<lambda>c. c\<lparr>dm_client_fd := -1\<rparr>) (close_fd (dm_client_fd c) x2) else x2)"

lemma monitor_loop_Cons:
  "monitor_loop env now (i # is) x = monitor_loop env now is (if dlm_silent now (li_clients (mx_lmi x) ! i) then drop_dlm env now i x else x)"
  by (simp add: drop_dlm_def Let_def)

lemma drop_dlm_clients:
  "i < length (li_clients (mx_lmi x)) \<Longrightarrow> li_clients (mx_lmi (drop_dlm env now i x)) = (li_clients (mx_lmi x))[i := dropped (li_clients (mx_lmi x) ! i)]"
  by (simp add: drop_dlm_def Let_def edit_dlm_client_def set_dlm_client_def close_fd_def dropped_def)

lemma drop_dlm_rest:
  "mx_sessions (drop_dlm env now i x) = mx_sessions (trigger_lmi_event_callbacks env now (dm_link_id (li_clients (mx_lmi x) ! i)) LINK_EVENT_DOWN x)"
  "li_event_callbacks (mx_lmi (drop_dlm env now i x)) = li_event_callbacks (mx_lmi x)"
  "li_num_callbacks (mx_lmi (drop_dlm env now i x)) = li_num_callbacks (mx_lmi x)"
  by (simp_all add: drop_dlm_def Let_def edit_dlm_client_def set_dlm_client_def close_fd_def mx_sessions_def)

declare monitor_loop.simps(2) [simp del]

lemma monitor_loop_clients:
  assumes "distinct is" and "\<forall>i\<in>set is. i < length (li_clients (mx_lmi x))"
  shows "length (li_clients (mx_lmi (monitor_loop env now is x))) = length (li_clients (mx_lmi x)) \<and>
    (\<forall>j < length (li_clients (mx_lmi x)). li_clients (mx_lmi (monitor_loop env now is x)) ! j =
      (if j \<in> set is \<and> dlm_silent now (li_clients (mx_lmi x) ! j) then dropped (li_clients (mx_lmi x) ! j) else li_clients (mx_lmi x) ! j))"
  using assms
proof (induction "is" arbitrary: x)
  case (Cons i "is")
  let ?y = "if dlm_silent now (li_clients (mx_lmi x) ! i) then drop_dlm env now i x else x"
  have "li_clients (mx_lmi ?y) = (if dlm_silent now (li_clients (mx_lmi x) ! i)
      then (li_clients (mx_lmi x))[i := dropped (li_clients (mx_lmi x) ! i)] else li_clients (mx_lmi x))"
    using Cons.prems by (simp add: drop_dlm_clients)
  then show ?case using Cons.IH [of ?y] Cons.prems by (auto simp: monitor_loop_Cons nth_list_update)
qed simp

lemma monitor_round_clients:
  assumes "length (li_clients (mx_lmi x)) = MAX_DLM_CLIENTS"
  shows "length (li_clients (mx_lmi (heartbeat_monitor_round env now x))) = MAX_DLM_CLIENTS"
    and "j < MAX_DLM_CLIENTS \<Longrightarrow> li_clients (mx_lmi (heartbeat_monitor_round env now x)) ! j =
      (if dlm_silent now (li_clients (mx_lmi x) ! j) then dropped (li_clients (mx_lmi x) ! j) else li_clients (mx_lmi x) ! j)"
  using monitor_loop_clients [of "[0..<MAX_DLM_CLIENTS]" x env now] assms by (simp_all add: heartbeat_monitor_round_def)

text \<open>The events that do not refresh the time a link manager was last seen at.\<close>

fun quiet_call :: "lmi_call \<Rightarrow> bool" where
  "quiet_call (Monitor_round t) = True"
| "quiet_call (Stream fd t m) = (m = Heartbeat)"
| "quiet_call (Notify c) = True"
| "quiet_call _ = False"

lemma quiet_step:
  assumes "length (li_clients (mx_lmi x)) = MAX_DLM_CLIENTS" and "i < MAX_DLM_CLIENTS" and "quiet_call e" and "y = lmi_step env os x e"
  shows "length (li_clients (mx_lmi y)) = MAX_DLM_CLIENTS"
    and "dm_last_seen (li_clients (mx_lmi y) ! i) = dm_last_seen (li_clients (mx_lmi x) ! i)"
    and "dm_is_registered (li_clients (mx_lmi y) ! i) \<longleftrightarrow> dm_is_registered (li_clients (mx_lmi x) ! i) \<and>
      (\<forall>t. e = Monitor_round t \<longrightarrow> t - dm_last_seen (li_clients (mx_lmi x) ! i) \<le> HEARTBEAT_TIMEOUT_SEC)"
proof -
  let ?l = "li_clients (mx_lmi x)" and ?l' = "li_clients (mx_lmi y)"
  have beat: "length ?l' = MAX_DLM_CLIENTS \<and> dm_last_seen (?l' ! i) = dm_last_seen (?l ! i) \<and> dm_is_registered (?l' ! i) = dm_is_registered (?l ! i)"
    if "e = Stream fd t Heartbeat" for fd t
    using assms that
    by (auto simp: handle_mih_heartbeat_def reply_def set_dlm_client_def list_update_nth_eq split: option.splits)
  have round: "length ?l' = MAX_DLM_CLIENTS \<and> dm_last_seen (?l' ! i) = dm_last_seen (?l ! i) \<and>
      (dm_is_registered (?l' ! i) \<longleftrightarrow> dm_is_registered (?l ! i) \<and> t - dm_last_seen (?l ! i) \<le> HEARTBEAT_TIMEOUT_SEC)" if "e = Monitor_round t" for t
    using monitor_round_clients [OF assms(1), where env = env and now = t] assms(2,4) that by (auto simp: dropped_def dlm_silent_def)
  show "length ?l' = MAX_DLM_CLIENTS" "dm_last_seen (?l' ! i) = dm_last_seen (?l ! i)"
    "dm_is_registered (?l' ! i) \<longleftrightarrow> dm_is_registered (?l ! i) \<and> (\<forall>t. e = Monitor_round t \<longrightarrow> t - dm_last_seen (?l ! i) \<le> HEARTBEAT_TIMEOUT_SEC)"
    using assms(1,3,4) beat round by (cases e; auto simp: push_step_context)+
qed

text \<open>
  C18. A silent link manager is dropped, and no other. Over any sequence of monitor rounds, stream
  heartbeats and notifications, a registered link manager is still registered at the end exactly
  when no round came more than 30 seconds after it was last seen. The heartbeats of the stream
  protocol do not count: they refresh a time stamp that the monitor does not read, so a link manager
  that only sends heartbeats is dropped as well.
\<close>

theorem silent_dlm_is_dropped:
  assumes "length (li_clients (mx_lmi x)) = MAX_DLM_CLIENTS" and "i < MAX_DLM_CLIENTS" and "dm_is_registered (li_clients (mx_lmi x) ! i)"
    and "\<forall>e\<in>set es. quiet_call e"
  shows "dm_is_registered (li_clients (mx_lmi (foldl (lmi_step env os) x es)) ! i) \<longleftrightarrow>
    (\<forall>t. Monitor_round t \<in> set es \<longrightarrow> t - dm_last_seen (li_clients (mx_lmi x) ! i) \<le> HEARTBEAT_TIMEOUT_SEC)"
proof -
  have "dm_is_registered (li_clients (mx_lmi (foldl (lmi_step env os) x es)) ! i) \<longleftrightarrow> dm_is_registered (li_clients (mx_lmi x) ! i) \<and>
    (\<forall>t. Monitor_round t \<in> set es \<longrightarrow> t - dm_last_seen (li_clients (mx_lmi x) ! i) \<le> HEARTBEAT_TIMEOUT_SEC)"
    using assms(1,4)
  proof (induction es arbitrary: x)
    case (Cons e es)
    note st = quiet_step [OF Cons.prems(1) assms(2), of e _ env os, OF _ refl]
    show ?case using Cons.IH [of "lmi_step env os x e"] Cons.prems st by auto
  qed simp
  then show ?thesis using assms(3) by simp
qed

text \<open>
  A slot the monitor has freed passes its past on: the next registration over a stream takes the
  first free slot and fills in the new link manager's name and descriptor, but the bearers, their
  count and the link state are still those of the link manager that was dropped.
\<close>

lemma reused_slot_keeps_bearers:
  assumes "length (li_clients (mx_lmi x)) = MAX_DLM_CLIENTS"
    and "find_idx (\<lambda>c. \<not> dm_is_registered c \<or> dlm_silent now c) (li_clients (mx_lmi x)) = Some i"
    and "c = li_clients (mx_lmi (handle_mih_register_request t fd req (heartbeat_monitor_round env now x))) ! i"
  shows "dm_is_registered c \<and> dm_client_fd c = fd \<and> dm_link_id c = tuple_link_id (rg_link_identifier req) \<and>
    dm_bearers c = dm_bearers (li_clients (mx_lmi x) ! i) \<and> dm_num_active_bearers c = dm_num_active_bearers (li_clients (mx_lmi x) ! i) \<and>
    dm_is_link_up c = dm_is_link_up (li_clients (mx_lmi x) ! i)"
proof -
  let ?y = "heartbeat_monitor_round env now x"
  have i: "i < MAX_DLM_CLIENTS" using find_idx_less [OF assms(2)] assms(1) by simp
  note y = monitor_round_clients [OF assms(1), where env = env and now = now]
  have "dm_is_registered (li_clients (mx_lmi ?y) ! j) \<longleftrightarrow> \<not> (\<not> dm_is_registered (li_clients (mx_lmi x) ! j) \<or> dlm_silent now (li_clients (mx_lmi x) ! j))"
    if "j < MAX_DLM_CLIENTS" for j
    using y(2) [OF that] by (simp add: dropped_def)
  then have "find_idx (\<lambda>c. \<not> dm_is_registered c) (li_clients (mx_lmi ?y)) = Some i"
    using find_idx_SomeD [OF assms(2)] i y(1) by (intro find_idx_SomeI) auto
  moreover have "mx_lmi (magic_lmi_update_link_status l b z) = mx_lmi z" for l b z by (simp add: magic_lmi_update_link_status_def)
  ultimately show ?thesis using y(1) y(2) [OF i] i
    by (simp add: assms(3) handle_mih_register_request_def Let_def reply_def set_dlm_client_def dropped_def)
qed

section \<open>Sessions of a dropped link manager\<close>

text \<open>A session on a link that is active, or already suspended without bandwidth.\<close>

definition halted :: "string \<Rightarrow> ClientSession \<Rightarrow> bool" where
  "halted lid s \<longleftrightarrow> cs_in_use s \<and> cs_assigned_link_id s = lid \<and> cs_state s = SESSION_STATE_SUSPENDED \<and>
     cs_granted_bw_kbps s = 0 \<and> cs_granted_ret_bw_kbps s = 0"

definition running_or_halted :: "string \<Rightarrow> ClientSession \<Rightarrow> bool" where
  "running_or_halted lid s \<longleftrightarrow> cs_in_use s \<and> cs_assigned_link_id s = lid \<and> cs_state s = SESSION_STATE_ACTIVE \<or> halted lid s"

lemma halted_core:
  assumes "core s = core t"
  shows "halted lid s = halted lid t" "running_or_halted lid s = running_or_halted lid t"
  using core_eqD [OF assms] by (simp_all add: halted_def running_or_halted_def)

lemma down_effect_halts:
  "halted lid s \<Longrightarrow> halted lid (link_effect now False lid' s)"
  "running_or_halted lid s \<Longrightarrow> running_or_halted lid (link_effect now False lid' s)"
  "running_or_halted lid s \<Longrightarrow> halted lid (link_effect now False lid s)"
  by (auto simp: halted_def running_or_halted_def link_effect_def on_link_def magic_session_suspend_def)

lemma down_event_core:
  assumes "length (mx_sessions x) = MAX_SESSIONS"
  shows "length (mx_sessions (run_callback cb env now lid LINK_EVENT_DOWN x)) = MAX_SESSIONS"
    and "j < MAX_SESSIONS \<Longrightarrow> core (mx_sessions (run_callback cb env now lid LINK_EVENT_DOWN x) ! j) = core (link_effect now False lid (mx_sessions x ! j))"
  using link_change_loop_core [of "[0..<MAX_SESSIONS]" x env now lid False] assms
  by (cases cb; simp add: on_lmi_link_event_for_mscr_def magic_cic_on_link_status_change_def magic_cic_broadcast_mscr_def Let_def
      broadcast_loop_keeps mx_sessions_def)+

definition down_bridge :: "EventCallbackEntry \<Rightarrow> bool" where
  "down_bridge e \<longleftrightarrow> ec_event_type e = LINK_EVENT_DOWN \<and> ec_callback e \<noteq> None"

lemma callback_loop_halts:
  assumes "length (mx_sessions x) = MAX_SESSIONS" and "j < MAX_SESSIONS" and "y = callback_loop env now lid' LINK_EVENT_DOWN es x"
  shows "length (mx_sessions y) = MAX_SESSIONS \<and> (halted lid (mx_sessions x ! j) \<longrightarrow> halted lid (mx_sessions y ! j)) \<and>
    (running_or_halted lid (mx_sessions x ! j) \<longrightarrow> running_or_halted lid (mx_sessions y ! j) \<and>
      (lid' = lid \<and> (\<exists>e\<in>set es. down_bridge e) \<longrightarrow> halted lid (mx_sessions y ! j)))"
  using assms(1,3)
proof (induction es arbitrary: x)
  case (Cons e es)
  show ?case
  proof (cases "down_bridge e")
    case True
    then obtain cb where cb: "ec_callback e = Some cb" "ec_event_type e = LINK_EVENT_DOWN" by (auto simp: down_bridge_def)
    let ?z = "run_callback cb env now lid' LINK_EVENT_DOWN x"
    note z = down_event_core [OF Cons.prems(1), where cb = cb and env = env and now = now and lid = lid']
    note zj = halted_core [OF z(2) [OF assms(2)], where lid = lid]
    have "y = callback_loop env now lid' LINK_EVENT_DOWN es ?z" using Cons.prems(2) cb by simp
    from Cons.IH [OF z(1) this] show ?thesis
      using zj down_effect_halts [where lid = lid and s = "mx_sessions x ! j" and now = now] by metis
  next
    case False
    then have "y = callback_loop env now lid' LINK_EVENT_DOWN es x"
      using Cons.prems(2) by (auto simp: down_bridge_def split: option.splits)
    from Cons.IH [OF Cons.prems(1) this] False show ?thesis by auto
  qed
qed simp

definition bridged :: "MagicLmiContext \<Rightarrow> bool" where
  "bridged l \<longleftrightarrow> (\<exists>e\<in>set (take (nat (li_num_callbacks l)) (li_event_callbacks l)). down_bridge e)"

lemma monitor_loop_halts:
  assumes "length (mx_sessions x) = MAX_SESSIONS" and "j < MAX_SESSIONS" and "distinct is" and "\<forall>i\<in>set is. i < length (li_clients (mx_lmi x))"
    and "bridged (mx_lmi x)" and "running_or_halted lid (mx_sessions x ! j)"
    and "halted lid (mx_sessions x ! j) \<or> (\<exists>i\<in>set is. dlm_silent now (li_clients (mx_lmi x) ! i) \<and> dm_link_id (li_clients (mx_lmi x) ! i) = lid)"
  shows "halted lid (mx_sessions (monitor_loop env now is x) ! j)"
  using assms(1,3-)
proof (induction "is" arbitrary: x)
  case (Cons i "is")
  let ?c = "li_clients (mx_lmi x) ! i" and ?y = "drop_dlm env now i x"
  show ?case
  proof (cases "dlm_silent now ?c")
    case True
    have h: "length (mx_sessions ?y) = MAX_SESSIONS \<and> (halted lid (mx_sessions x ! j) \<longrightarrow> halted lid (mx_sessions ?y ! j)) \<and>
      running_or_halted lid (mx_sessions ?y ! j) \<and> (dm_link_id ?c = lid \<longrightarrow> halted lid (mx_sessions ?y ! j))"
      using callback_loop_halts [OF Cons.prems(1) assms(2) refl, where env = env and now = now and lid' = "dm_link_id ?c" and lid = lid
          and es = "take (nat (li_num_callbacks (mx_lmi x))) (li_event_callbacks (mx_lmi x))"] Cons.prems(4,5)
      by (simp add: drop_dlm_rest trigger_lmi_event_callbacks_def bridged_def)
    have cl: "li_clients (mx_lmi ?y) = (li_clients (mx_lmi x))[i := dropped ?c]" using Cons.prems by (intro drop_dlm_clients) simp
    have "halted lid (mx_sessions ?y ! j) \<or> (\<exists>k\<in>set is. dlm_silent now (li_clients (mx_lmi ?y) ! k) \<and> dm_link_id (li_clients (mx_lmi ?y) ! k) = lid)"
    proof (cases "halted lid (mx_sessions x ! j) \<or> dm_link_id ?c = lid")
      case False
      then obtain k where "k \<in> set is" "k \<noteq> i" "dlm_silent now (li_clients (mx_lmi x) ! k)" "dm_link_id (li_clients (mx_lmi x) ! k) = lid"
        using Cons.prems(2,6) by auto
      then show ?thesis using cl by (intro disjI2 bexI [of _ k]) simp_all
    qed (use h in blast)
    then have "halted lid (mx_sessions (monitor_loop env now is ?y) ! j)"
      using Cons.prems h cl by (intro Cons.IH) (simp_all add: bridged_def drop_dlm_rest)
    then show ?thesis using True by (simp add: monitor_loop_Cons)
  next
    case False
    then show ?thesis using Cons by (auto simp: monitor_loop_Cons)
  qed
qed simp

text \<open>
  C19. Losing a link manager stops its sessions. When the event bridge is registered, a monitor round
  that drops a silent link manager leaves every active session on its link suspended with no
  bandwidth granted, whatever the Diameter library does with the reports and however many link
  managers are dropped in the same round.
\<close>

theorem dropped_dlm_suspends_sessions:
  assumes "length (mx_sessions x) = MAX_SESSIONS" and "length (li_clients (mx_lmi x)) = MAX_DLM_CLIENTS" and "bridged (mx_lmi x)"
    and "i < MAX_DLM_CLIENTS" and "dlm_silent now (li_clients (mx_lmi x) ! i)"
    and "j < MAX_SESSIONS" and "cs_in_use (mx_sessions x ! j)" and "cs_state (mx_sessions x ! j) = SESSION_STATE_ACTIVE"
    and "cs_assigned_link_id (mx_sessions x ! j) = dm_link_id (li_clients (mx_lmi x) ! i)"
    and "s = mx_sessions (heartbeat_monitor_round env now x) ! j"
  shows "cs_in_use s \<and> cs_state s = SESSION_STATE_SUSPENDED \<and> cs_granted_bw_kbps s = 0 \<and> cs_granted_ret_bw_kbps s = 0"
proof -
  have "halted (dm_link_id (li_clients (mx_lmi x) ! i)) s"
    using assms(2,4-9) unfolding assms(10) heartbeat_monitor_round_def
    by (intro monitor_loop_halts assms(1,3,6)) (auto simp: running_or_halted_def)
  then show ?thesis by (simp add: halted_def)
qed

section \<open>Witnesses\<close>

definition demo_os :: os_env where
  "demo_os = \<lparr>os_system = (\<lambda>_ _. 0), os_if_index = (\<lambda>_. 1), os_if_addr = (\<lambda>_. None)\<rparr>"

definition demo_dlm :: DlmClient where
  "demo_dlm = zero_dlm_client\<lparr>dm_is_registered := True, dm_client_fd := 9, dm_link_id := ''SAT'', dm_last_seen := 100,
     dm_bearers := (replicate MAX_BEARERS zero_bearer)[0 := zero_bearer\<lparr>be_is_active := True, be_bearer_id := 1\<rparr>],
     dm_num_active_bearers := 1\<rparr>"

definition demo_links :: MagicContext where
  "demo_links = demo_context\<lparr>mx_dp := snd (magic_dataplane_init demo_os (Some ''eth0'') (Some ''10.0.0.1'') (mx_dp demo_context)), mx_lmi := demo_lmi\<lparr>li_clients := (replicate MAX_DLM_CLIENTS zero_dlm_client)[0 := demo_dlm],
     li_event_callbacks := (replicate MAX_EVENT_CALLBACKS zero_callback)[0 := \<lparr>ec_event_type = LINK_EVENT_DOWN, ec_callback = Some On_lmi_link_event_for_mscr\<rparr>],
     li_num_callbacks := 1\<rparr>\<rparr>"

lemma demo_dlm_ok: "bearers_ok demo_dlm"
proof -
  have "count_if be_is_active (dm_bearers demo_dlm) = 1" by (simp add: demo_dlm_def zero_bearer_def numeral_nat)
  moreover have "be_is_active (dm_bearers demo_dlm ! i) \<longrightarrow> be_bearer_id (dm_bearers demo_dlm ! i) = of_nat i + 1" if "i < MAX_BEARERS" for i
    using that by (cases i) (simp_all add: demo_dlm_def zero_bearer_def)
  ultimately show ?thesis by (simp add: bearers_ok_def demo_dlm_def)
qed

lemma demo_links_facts:
  "length (li_clients (mx_lmi demo_links)) = MAX_DLM_CLIENTS" "li_clients (mx_lmi demo_links) ! 0 = demo_dlm"
  "length (mx_sessions demo_links) = MAX_SESSIONS" "mx_sessions demo_links ! 0 = demo_session" "bridged (mx_lmi demo_links)"
  using demo_context_facts by (simp_all add: demo_links_def mx_sessions_def bridged_def down_bridge_def numeral_nat)

lemma demo_links_inv: "ctx_inv demo_links"
proof -
  have "\<forall>c\<in>set ((replicate MAX_DLM_CLIENTS zero_dlm_client)[0 := demo_dlm]). bearers_ok c"
    using demo_dlm_ok by (auto simp: numeral_nat)
  then have "lmi_inv (mx_lmi demo_links)" by (simp add: demo_links_def lmi_inv_def)
  moreover have "sess_inv (mx_sm demo_links)" using demo_context_inv by (simp add: demo_links_def)
  moreover have "dp_inv (dp (mx_dp demo_links))" by (simp add: demo_links_def init_inv)
  ultimately show ?thesis by (simp add: ctx_inv_def demo_links_def demo_context_def)
qed

lemma link_events_keep_context_witness:
  "ctx_inv (foldl (lmi_step demo_dia demo_os) demo_links [Stream 9 110 Heartbeat, Udp_heartbeat 115 (Some ''CELL''), Monitor_round 140])"
  by (rule link_events_keep_context [OF demo_links_inv])

theorem resource_request_refines_witness:
  "bearers_ok (snd (handle_mih_resource_request_internal 7 \<lparr>mq_link_id = ''SAT'', mq_action = RESOURCE_ACTION_RELEASE, mq_bearer_id = Some 1, mq_qos_params = None\<rparr> demo_dlm)) \<and>
   bearer_spec \<lparr>mq_link_id = ''SAT'', mq_action = RESOURCE_ACTION_RELEASE, mq_bearer_id = Some 1, mq_qos_params = None\<rparr> (bearer_map demo_dlm) STATUS_SUCCESS None
     (bearer_map (snd (handle_mih_resource_request_internal 7 \<lparr>mq_link_id = ''SAT'', mq_action = RESOURCE_ACTION_RELEASE, mq_bearer_id = Some 1, mq_qos_params = None\<rparr> demo_dlm)))"
proof -
  let ?req = "\<lparr>mq_link_id = ''SAT'', mq_action = RESOURCE_ACTION_RELEASE, mq_bearer_id = Some 1, mq_qos_params = None\<rparr>"
  have "handle_mih_resource_request_internal 7 ?req demo_dlm
      = (resp STATUS_SUCCESS None ''Bearer released'', demo_dlm\<lparr>dm_bearers := (dm_bearers demo_dlm)[0 := zero_bearer], dm_num_active_bearers := 0\<rparr>)"
    by (simp add: handle_mih_resource_request_internal_def magic_dlm_release_bearer_def bearer_index_def demo_dlm_def)
  from resource_request_refines [OF demo_dlm_ok this] this show ?thesis by (simp add: resp_def)
qed

theorem silent_dlm_is_dropped_witness:
  "\<not> dm_is_registered (li_clients (mx_lmi (foldl (lmi_step demo_dia demo_os) demo_links
      [Stream 9 110 Heartbeat, Monitor_round 120, Stream 9 125 Heartbeat, Monitor_round 131])) ! 0)"
  using silent_dlm_is_dropped [OF demo_links_facts(1), of 0 "[Stream 9 110 Heartbeat, Monitor_round 120, Stream 9 125 Heartbeat, Monitor_round 131]" demo_dia demo_os]
    demo_links_facts(2)
  by (auto simp: demo_dlm_def)

lemma reused_slot_keeps_bearers_witness:
  "dm_bearers (li_clients (mx_lmi (handle_mih_register_request 140 11
      \<lparr>rg_link_identifier = zero_link_tuple, rg_capabilities = zero_capabilities, rg_dlm_pid = 1\<rparr>
      (heartbeat_monitor_round demo_dia 131 demo_links))) ! 0) = dm_bearers demo_dlm"
proof -
  have "find_idx (\<lambda>c. \<not> dm_is_registered c \<or> dlm_silent 131 c) (li_clients (mx_lmi demo_links)) = Some 0"
    using demo_links_facts(1,2) by (intro find_idx_SomeI) (simp_all add: dlm_silent_def demo_dlm_def)
  from reused_slot_keeps_bearers [OF demo_links_facts(1) this refl] demo_links_facts(2) show ?thesis by simp
qed

theorem dropped_dlm_suspends_sessions_witness:
  "cs_state (mx_sessions (heartbeat_monitor_round demo_dia 131 demo_links) ! 0) = SESSION_STATE_SUSPENDED"
  using dropped_dlm_suspends_sessions [OF demo_links_facts(3,1,5), of 0 131 0 _ demo_dia] demo_links_facts(2,4)
  by (simp add: dlm_silent_def demo_dlm_def demo_session_def)

end
