(* ===== verification/Traffic.thy ===== *)
theory Traffic
  imports CString
begin

text \<open>
  The traffic monitor (\<open>src/magic_traffic_monitor.c\<close>): sessions are given a connection mark, the
  firewall marks their connections, and the counters of the kernel's connection table are added up
  per mark.

  Commands run through \<open>system(3)\<close> are part of the state (\<open>tm_cmds\<close>, oldest first), their statuses
  the parameter \<open>env\<close>. libnetfilter_conntrack is the parameter \<open>ct\<close>: whether the handle opens, the
  entries the callback is called on in the IPv4 and IPv6 dumps, and whether the IPv4 dump succeeds.
  Where an operation queries once per slot, \<open>ct\<close> is indexed by the slot. Output parameters are
  results; a \<open>TrafficStats\<close> the code leaves untouched is \<open>None\<close>. The mutex is not modelled.
\<close>

abbreviation TRAFFIC_MARK_BASE :: u32 where "TRAFFIC_MARK_BASE \<equiv> 0x100"
abbreviation TRAFFIC_MARK_MAX :: u32 where "TRAFFIC_MARK_MAX \<equiv> 0x1FF"
abbreviation MAX_TRAFFIC_SESSIONS :: nat where "MAX_TRAFFIC_SESSIONS \<equiv> 256"
abbreviation STATS_CACHE_TTL_SEC :: int where "STATS_CACHE_TTL_SEC \<equiv> 2"

datatype TrafficBackendType = TRAFFIC_BACKEND_IPTABLES | TRAFFIC_BACKEND_NFTABLES | TRAFFIC_BACKEND_AUTO

record TrafficStats =
  tst_bytes_in :: u64
  tst_bytes_out :: u64
  tst_packets_in :: u64
  tst_packets_out :: u64
  tst_start_time :: int
  tst_last_update :: int

record TrafficSession =
  tse_in_use :: bool
  tse_session_id :: string
  tse_client_id :: string
  tse_client_ip :: string
  tse_conntrack_mark :: u32
  tse_stats :: TrafficStats
  tse_cached_stats :: TrafficStats
  tse_cache_time :: int

record TrafficMonitorContext =
  tmc_sessions :: "TrafficSession list"
  tmc_session_count :: u32
  tmc_next_mark :: u32
  tmc_backend :: TrafficBackendType
  tmc_is_initialized :: bool
  tmc_netlink_available :: bool

text \<open>The accounting switch of the kernel is the first byte of its file, \<open>None\<close> when it cannot be read.\<close>

record tm_world =
  tm :: TrafficMonitorContext
  tm_cmds :: "string list"
  tm_acct :: "char option"

record tm_env =
  te_system :: "string list \<Rightarrow> string \<Rightarrow> int"
  te_executable :: "string \<Rightarrow> bool"
  te_acct_writable :: bool

record ct_entry =
  ct_mark :: u32
  ct_orig_bytes :: u64
  ct_orig_packets :: u64
  ct_repl_bytes :: u64
  ct_repl_packets :: u64

record conntrack =
  ct_open :: bool
  ct_ipv4 :: "ct_entry list"
  ct_ipv4_ok :: bool
  ct_ipv6 :: "ct_entry list"

definition zero_stats :: TrafficStats where
  "zero_stats = \<lparr>tst_bytes_in = 0, tst_bytes_out = 0, tst_packets_in = 0, tst_packets_out = 0, tst_start_time = 0, tst_last_update = 0\<rparr>"

definition zero_tse :: TrafficSession where
  "zero_tse = \<lparr>tse_in_use = False, tse_session_id = [], tse_client_id = [], tse_client_ip = [], tse_conntrack_mark = 0,
     tse_stats = zero_stats, tse_cached_stats = zero_stats, tse_cache_time = 0\<rparr>"

definition zero_tm :: TrafficMonitorContext where
  "zero_tm = \<lparr>tmc_sessions = replicate MAX_TRAFFIC_SESSIONS zero_tse, tmc_session_count = 0, tmc_next_mark = 0,
     tmc_backend = TRAFFIC_BACKEND_IPTABLES, tmc_is_initialized = False, tmc_netlink_available = False\<rparr>"

section \<open>Marks\<close>

text \<open>A \<open>char\<close> of the target is signed: a byte above 127 adds a negative number.\<close>

definition char_value :: "char \<Rightarrow> u32" where
  "char_value c = scast (of_char c :: u8)"

definition djb2_hash :: "string \<Rightarrow> u32" where
  "djb2_hash s = foldl (\<lambda>hash c. (push_bit 5 hash + hash) + char_value c) 5381 s"

definition traffic_session_id_to_mark :: "string option \<Rightarrow> u32" where
  "traffic_session_id_to_mark session_id =
     (case session_id of None \<Rightarrow> 0
      | Some sid \<Rightarrow> if sid = [] then 0
                    else TRAFFIC_MARK_BASE + djb2_hash sid mod (TRAFFIC_MARK_MAX - TRAFFIC_MARK_BASE + 1))"

section \<open>Running commands\<close>

definition system_call :: "tm_env \<Rightarrow> string \<Rightarrow> tm_world \<Rightarrow> int \<times> tm_world" where
  "system_call env cmd w = (te_system env (tm_cmds w) cmd, w\<lparr>tm_cmds := tm_cmds w @ [cmd]\<rparr>)"

definition exited_ok :: "int \<Rightarrow> bool" where
  "exited_ok ret \<longleftrightarrow> ret mod 128 = 0 \<and> ret div 256 mod 256 = 0"

definition traffic_detect_backend :: "tm_env \<Rightarrow> tm_world \<Rightarrow> TrafficBackendType \<times> tm_world" where
  "traffic_detect_backend env w =
     (let (r1, w1) = system_call env (''/usr/sbin/nft --version > /dev/null 2>&1 || '' @ ''/sbin/nft --version > /dev/null 2>&1 || '' @
                       ''nft --version > /dev/null 2>&1'') w
      in if exited_ok r1 then (TRAFFIC_BACKEND_NFTABLES, w1)
         else
           let (r2, w2) = system_call env (''/usr/sbin/iptables --version > /dev/null 2>&1 || '' @
                            ''/sbin/iptables --version > /dev/null 2>&1 || '' @ ''iptables --version > /dev/null 2>&1'') w1
           in if exited_ok r2 then (TRAFFIC_BACKEND_IPTABLES, w2)
              else if te_executable env ''/usr/sbin/iptables'' \<or> te_executable env ''/sbin/iptables'' then (TRAFFIC_BACKEND_IPTABLES, w2)
              else (TRAFFIC_BACKEND_IPTABLES, w2))"

definition exec_cmd :: "tm_env \<Rightarrow> string \<Rightarrow> tm_world \<Rightarrow> int \<times> tm_world" where
  "exec_cmd env cmd w = (let (ret, w1) = system_call env cmd w in if ret = -1 then (-1, w1) else (ret div 256 mod 256, w1))"

definition exec_all :: "tm_env \<Rightarrow> string list \<Rightarrow> tm_world \<Rightarrow> tm_world" where
  "exec_all env cs w = fold (\<lambda>c w. snd (exec_cmd env c w)) cs w"

definition find_free_slot :: "TrafficMonitorContext \<Rightarrow> nat option" where
  "find_free_slot c = find_idx (\<lambda>s. \<not> tse_in_use s) (tmc_sessions c)"

section \<open>Counters\<close>

definition conntrack_callback :: "u32 \<Rightarrow> TrafficStats \<Rightarrow> ct_entry \<Rightarrow> TrafficStats" where
  "conntrack_callback target_mark stats e =
     (if ct_mark e \<noteq> target_mark then stats
      else stats\<lparr>tst_bytes_in := tst_bytes_in stats + ct_orig_bytes e, tst_packets_in := tst_packets_in stats + ct_orig_packets e,
                 tst_bytes_out := tst_bytes_out stats + ct_repl_bytes e, tst_packets_out := tst_packets_out stats + ct_repl_packets e\<rparr>)"

definition query_conntrack_stats :: "int \<Rightarrow> conntrack \<Rightarrow> u32 \<Rightarrow> int \<times> TrafficStats" where
  "query_conntrack_stats now ct mark =
     (if \<not> ct_open ct then (-1, zero_stats)
      else
        let s4 = foldl (conntrack_callback mark) zero_stats (ct_ipv4 ct) in
        if \<not> ct_ipv4_ok ct then (-1, s4)
        else (0, (foldl (conntrack_callback mark) s4 (ct_ipv6 ct))\<lparr>tst_last_update := now\<rparr>))"

section \<open>Firewall rules\<close>

definition cmd_text :: "string list \<Rightarrow> string" where
  "cmd_text parts = snprintf_buf 512 (concat parts)"

definition iptables_rule :: "string \<Rightarrow> string \<Rightarrow> string \<Rightarrow> u32 \<Rightarrow> string" where
  "iptables_rule op dir ip mark = concat [''iptables -t mangle -'', op, '' MAGIC_MARK -'', dir, '' '', ip, '' -j CONNMARK --set-mark 0x'', show_hex (uint mark)]"

definition ensure_iptables :: "string \<Rightarrow> string \<Rightarrow> u32 \<Rightarrow> string" where
  "ensure_iptables dir ip mark = cmd_text [iptables_rule ''C'' dir ip mark, '' 2>/dev/null || '', iptables_rule ''A'' dir ip mark]"

definition add_iptables_rule :: "tm_env \<Rightarrow> string \<Rightarrow> u32 \<Rightarrow> tm_world \<Rightarrow> int \<times> tm_world" where
  "add_iptables_rule env ip mark w =
     (let w1 = exec_all env [''iptables -t mangle -N MAGIC_MARK 2>/dev/null'',
                 ''iptables -t mangle -C PREROUTING -j MAGIC_MARK 2>/dev/null || '' @ ''iptables -t mangle -I PREROUTING 1 -j MAGIC_MARK''] w;
          (r, w2) = exec_cmd env (ensure_iptables ''s'' ip mark) w1
      in if r \<noteq> 0 then (-1, w2)
         else (0, exec_all env [ensure_iptables ''d'' ip mark,
                    ''iptables -t mangle -C MAGIC_MARK -j CONNMARK --restore-mark '' @ ''2>/dev/null || '' @
                    ''iptables -t mangle -A MAGIC_MARK -j CONNMARK --restore-mark''] w2))"

definition del_iptables_rule :: "tm_env \<Rightarrow> string \<Rightarrow> u32 \<Rightarrow> tm_world \<Rightarrow> tm_world" where
  "del_iptables_rule env ip mark w =
     exec_all env [cmd_text [iptables_rule ''D'' ''s'' ip mark, '' 2>/dev/null''], cmd_text [iptables_rule ''D'' ''d'' ip mark, '' 2>/dev/null'']] w"

definition nft_rule :: "string \<Rightarrow> string \<Rightarrow> u32 \<Rightarrow> string" where
  "nft_rule dir ip mark = cmd_text [''nft add rule inet magic prerouting ip '', dir, '' '', ip, '' ct mark set 0x'', show_hex (uint mark)]"

definition add_nftables_rule :: "tm_env \<Rightarrow> string \<Rightarrow> u32 \<Rightarrow> tm_world \<Rightarrow> int \<times> tm_world" where
  "add_nftables_rule env ip mark w =
     (let w1 = exec_all env [''nft add table inet magic 2>/dev/null'',
                 ''nft add chain inet magic prerouting '' @ [CHR 0x27] @ ''{ type filter hook prerouting '' @
                 ''priority -150; policy accept; }'' @ [CHR 0x27] @ '' 2>/dev/null''] w;
          (r, w2) = exec_cmd env (nft_rule ''saddr'' ip mark) w1
      in if r \<noteq> 0 then (-1, w2) else (0, exec_all env [nft_rule ''daddr'' ip mark] w2))"

definition del_nftables_rule :: "tm_env \<Rightarrow> string \<Rightarrow> u32 \<Rightarrow> tm_world \<Rightarrow> tm_world" where
  "del_nftables_rule env ip mark w =
     exec_all env [cmd_text [''nft -a list chain inet magic prerouting 2>/dev/null | '', ''grep -E '', [CHR 0x27], ''(saddr|daddr) '', ip,
       ''.*ct mark set 0x'', show_hex (uint mark), [CHR 0x27], '' | '', ''awk '', [CHR 0x27], ''{print $NF}'', [CHR 0x27],
       '' | xargs -I{} nft delete rule inet magic '', ''prerouting handle {}'']] w"

definition add_rule :: "tm_env \<Rightarrow> TrafficBackendType \<Rightarrow> string \<Rightarrow> u32 \<Rightarrow> tm_world \<Rightarrow> int \<times> tm_world" where
  "add_rule env backend = (if backend = TRAFFIC_BACKEND_NFTABLES then add_nftables_rule env else add_iptables_rule env)"

definition del_rule :: "tm_env \<Rightarrow> TrafficBackendType \<Rightarrow> string \<Rightarrow> u32 \<Rightarrow> tm_world \<Rightarrow> tm_world" where
  "del_rule env backend = (if backend = TRAFFIC_BACKEND_NFTABLES then del_nftables_rule env else del_iptables_rule env)"

section \<open>Operations\<close>

definition traffic_monitor_init :: "tm_env \<Rightarrow> bool \<Rightarrow> TrafficBackendType \<Rightarrow> tm_world \<Rightarrow> int \<times> tm_world" where
  "traffic_monitor_init env netlink backend w =
     (let (b, w1) = (if backend = TRAFFIC_BACKEND_AUTO then traffic_detect_backend env w else (backend, w));
          acct = (if netlink \<and> tm_acct w1 = Some (CHR ''0'') \<and> te_acct_writable env then Some (CHR ''1'') else tm_acct w1)
      in (0, w1\<lparr>tm := zero_tm\<lparr>tmc_backend := b, tmc_next_mark := TRAFFIC_MARK_BASE, tmc_netlink_available := netlink,
                              tmc_is_initialized := True\<rparr>, tm_acct := acct\<rparr>))"

definition traffic_find_session :: "TrafficMonitorContext \<Rightarrow> string option \<Rightarrow> nat option" where
  "traffic_find_session c session_id =
     (case session_id of None \<Rightarrow> None | Some sid \<Rightarrow> find_idx (\<lambda>s. tse_in_use s \<and> tse_session_id s = sid) (tmc_sessions c))"

definition traffic_find_by_mark :: "TrafficMonitorContext \<Rightarrow> u32 \<Rightarrow> nat option" where
  "traffic_find_by_mark c mark = find_idx (\<lambda>s. tse_in_use s \<and> tse_conntrack_mark s = mark) (tmc_sessions c)"

definition choose_mark :: "string \<Rightarrow> TrafficMonitorContext \<Rightarrow> u32 \<times> TrafficMonitorContext" where
  "choose_mark sid c =
     (let mark = traffic_session_id_to_mark (Some sid) in
      case traffic_find_by_mark c mark of
        None \<Rightarrow> (mark, c)
      | Some _ \<Rightarrow>
          let m = tmc_next_mark c; n = m + 1
          in (m, c\<lparr>tmc_next_mark := (if n > TRAFFIC_MARK_MAX then TRAFFIC_MARK_BASE else n)\<rparr>))"

definition traffic_register_session ::
  "tm_env \<Rightarrow> int \<Rightarrow> string option \<Rightarrow> string option \<Rightarrow> string option \<Rightarrow> tm_world \<Rightarrow> u32 \<times> tm_world" where
  "traffic_register_session env now session_id client_id client_ip w =
     (if \<not> tmc_is_initialized (tm w) then (0, w)
      else case (session_id, client_ip) of
        (Some sid, Some ip) \<Rightarrow>
          (case traffic_find_session (tm w) (Some sid) of
             Some i \<Rightarrow> (tse_conntrack_mark (tmc_sessions (tm w) ! i), w)
           | None \<Rightarrow>
               (case find_free_slot (tm w) of
                  None \<Rightarrow> (0, w)
                | Some i \<Rightarrow>
                    let (mark, c1) = choose_mark sid (tm w);
                        (r, w1) = add_rule env (tmc_backend c1) ip mark (w\<lparr>tm := c1\<rparr>)
                    in if r \<noteq> 0 then (0, w1)
                       else
                         let s = zero_tse\<lparr>tse_in_use := True, tse_session_id := strncpy_buf 127 sid,
                                   tse_client_id := (case client_id of None \<Rightarrow> [] | Some cid \<Rightarrow> strncpy_buf 63 cid),
                                   tse_client_ip := strncpy_buf 63 ip, tse_conntrack_mark := mark,
                                   tse_stats := zero_stats\<lparr>tst_start_time := now\<rparr>\<rparr>;
                             c2 = tm w1
                         in (mark, w1\<lparr>tm := c2\<lparr>tmc_sessions := (tmc_sessions c2)[i := s], tmc_session_count := tmc_session_count c2 + 1\<rparr>\<rparr>)))
      | _ \<Rightarrow> (0, w))"

definition traffic_unregister_session :: "tm_env \<Rightarrow> string option \<Rightarrow> tm_world \<Rightarrow> int \<times> tm_world" where
  "traffic_unregister_session env session_id w =
     (if \<not> tmc_is_initialized (tm w) then (-1, w)
      else case session_id of None \<Rightarrow> (-1, w)
      | Some sid \<Rightarrow>
          (case traffic_find_session (tm w) (Some sid) of
             None \<Rightarrow> (-1, w)
           | Some i \<Rightarrow>
               let s = tmc_sessions (tm w) ! i;
                   w1 = del_rule env (tmc_backend (tm w)) (tse_client_ip s) (tse_conntrack_mark s) w;
                   c = tm w1
               in (0, w1\<lparr>tm := c\<lparr>tmc_sessions := (tmc_sessions c)[i := s\<lparr>tse_in_use := False\<rparr>],
                                 tmc_session_count := tmc_session_count c - 1\<rparr>\<rparr>)))"

definition traffic_get_session_stats ::
  "int \<Rightarrow> conntrack \<Rightarrow> string option \<Rightarrow> TrafficMonitorContext \<Rightarrow> int \<times> TrafficStats option \<times> TrafficMonitorContext" where
  "traffic_get_session_stats now ct session_id c =
     (if \<not> tmc_is_initialized c then (-1, None, c)
      else case session_id of None \<Rightarrow> (-1, None, c)
      | Some sid \<Rightarrow>
          (case traffic_find_session c (Some sid) of
             None \<Rightarrow> (-1, Some zero_stats, c)
           | Some i \<Rightarrow>
               let s = tmc_sessions c ! i in
               if now - tse_cache_time s < STATS_CACHE_TTL_SEC then (0, Some (tse_cached_stats s), c)
               else
                 let (stats, s1) =
                       (if tmc_netlink_available c
                        then let (r, q) = query_conntrack_stats now ct (tse_conntrack_mark s)
                             in if r = 0
                                then (q, s\<lparr>tse_cached_stats := q, tse_cache_time := now,
                                           tse_stats := (tse_stats s)\<lparr>tst_bytes_in := tst_bytes_in q, tst_bytes_out := tst_bytes_out q,
                                             tst_packets_in := tst_packets_in q, tst_packets_out := tst_packets_out q, tst_last_update := now\<rparr>\<rparr>)
                                else (q, s)
                        else (tse_stats s, s))
                 in (0, Some (stats\<lparr>tst_start_time := tst_start_time (tse_stats s1)\<rparr>), c\<lparr>tmc_sessions := (tmc_sessions c)[i := s1]\<rparr>)))"

text \<open>One session's share in a total, as the loops over the slots add it.\<close>

definition slot_stats :: "int \<Rightarrow> bool \<Rightarrow> (nat \<Rightarrow> conntrack) \<Rightarrow> nat \<Rightarrow> TrafficSession \<Rightarrow> TrafficStats" where
  "slot_stats now netlink ct i s = (if netlink then snd (query_conntrack_stats now (ct i) (tse_conntrack_mark s)) else tse_stats s)"

definition add_stats :: "TrafficStats \<Rightarrow> int \<Rightarrow> TrafficStats \<Rightarrow> TrafficStats" where
  "add_stats q start acc =
     acc\<lparr>tst_bytes_in := tst_bytes_in acc + tst_bytes_in q, tst_bytes_out := tst_bytes_out acc + tst_bytes_out q,
           tst_packets_in := tst_packets_in acc + tst_packets_in q, tst_packets_out := tst_packets_out acc + tst_packets_out q,
           tst_start_time := (if tst_start_time acc = 0 \<or> start < tst_start_time acc then start else tst_start_time acc)\<rparr>"

definition sum_slots :: "int \<Rightarrow> (nat \<Rightarrow> conntrack) \<Rightarrow> (TrafficSession \<Rightarrow> bool) \<Rightarrow> TrafficMonitorContext \<Rightarrow> int \<times> TrafficStats" where
  "sum_slots now ct wanted c =
     foldl (\<lambda>(count, acc) (i, s). if wanted s
              then (count + 1, add_stats (slot_stats now (tmc_netlink_available c) ct i s) (tst_start_time (tse_stats s)) acc)
              else (count, acc))
       (0, zero_stats) (enumerate 0 (tmc_sessions c))"

definition traffic_get_client_stats ::
  "int \<Rightarrow> (nat \<Rightarrow> conntrack) \<Rightarrow> string option \<Rightarrow> TrafficMonitorContext \<Rightarrow> int \<times> TrafficStats option" where
  "traffic_get_client_stats now ct client_id c =
     (if \<not> tmc_is_initialized c then (-1, None)
      else case client_id of None \<Rightarrow> (-1, None)
      | Some cid \<Rightarrow>
          let (count, acc) = sum_slots now ct (\<lambda>s. tse_in_use s \<and> tse_client_id s = cid) c
          in (count, Some (acc\<lparr>tst_last_update := now\<rparr>)))"

definition traffic_get_all_stats :: "int \<Rightarrow> (nat \<Rightarrow> conntrack) \<Rightarrow> TrafficMonitorContext \<Rightarrow> int \<times> TrafficStats option" where
  "traffic_get_all_stats now ct c =
     (if \<not> tmc_is_initialized c then (-1, None)
      else let (count, acc) = sum_slots now ct tse_in_use c in (count, Some (acc\<lparr>tst_last_update := now\<rparr>)))"

definition refresh_slot :: "int \<Rightarrow> conntrack \<Rightarrow> TrafficSession \<Rightarrow> TrafficSession" where
  "refresh_slot now ct s =
     (if tse_in_use s
      then let (r, q) = query_conntrack_stats now ct (tse_conntrack_mark s)
           in if r = 0 then s\<lparr>tse_stats := q, tse_cached_stats := q, tse_cache_time := now\<rparr> else s
      else s)"

definition traffic_refresh_stats :: "int \<Rightarrow> (nat \<Rightarrow> conntrack) \<Rightarrow> TrafficMonitorContext \<Rightarrow> int \<times> TrafficMonitorContext" where
  "traffic_refresh_stats now ct c =
     (if \<not> tmc_is_initialized c then (-1, c)
      else if \<not> tmc_netlink_available c then (0, c)
      else (0, c\<lparr>tmc_sessions := map (\<lambda>(i, s). refresh_slot now (ct i) s) (enumerate 0 (tmc_sessions c))\<rparr>))"

fun cleanup_slots :: "tm_env \<Rightarrow> TrafficBackendType \<Rightarrow> TrafficSession list \<Rightarrow> tm_world \<Rightarrow> tm_world" where
  "cleanup_slots env backend [] w = w"
| "cleanup_slots env backend (s # ss) w =
     cleanup_slots env backend ss (if tse_in_use s then del_rule env backend (tse_client_ip s) (tse_conntrack_mark s) w else w)"

definition traffic_monitor_cleanup :: "tm_env \<Rightarrow> tm_world \<Rightarrow> tm_world" where
  "traffic_monitor_cleanup env w =
     (let c = tm w;
          w1 = cleanup_slots env (tmc_backend c) (tmc_sessions c) w;
          w2 = exec_all env (if tmc_backend c = TRAFFIC_BACKEND_NFTABLES then [''nft delete table inet magic 2>/dev/null'']
                 else [''iptables -t mangle -F MAGIC_MARK 2>/dev/null'', ''iptables -t mangle -D PREROUTING -j MAGIC_MARK 2>/dev/null'',
                       ''iptables -t mangle -X MAGIC_MARK 2>/dev/null'']) w1
      in w2\<lparr>tm := c\<lparr>tmc_sessions := map (\<lambda>s. s\<lparr>tse_in_use := False\<rparr>) (tmc_sessions c), tmc_session_count := 0,
                      tmc_is_initialized := False\<rparr>\<rparr>)"

end
