(* ===== verification/Traffic_Props.thy ===== *)
theory Traffic_Props
  imports Traffic
begin

text \<open>
  Correctness of the traffic monitor: the table as a finite map from sessions to their address and
  mark, the range of the marks, and what the statistics count of the kernel's connection table.
\<close>

interpretation tms: keyed_table tse_in_use zero_tse tse_session_id
  by unfold_locales (simp add: zero_tse_def)

interpretation tmm: keyed_table tse_in_use zero_tse tse_conntrack_mark
  by unfold_locales

section \<open>Commands\<close>

lemma exec_tm [simp]: "tm (snd (exec_cmd env c w)) = tm w" "tm (exec_all env cs w) = tm w"
proof -
  show one: "tm (snd (exec_cmd env c w)) = tm w" for c w by (simp add: exec_cmd_def system_call_def)
  show "tm (exec_all env cs w) = tm w" unfolding exec_all_def by (induction cs arbitrary: w) (simp_all add: one)
qed

lemma rule_tm [simp]: "tm (snd (add_rule env b ip mark w)) = tm w" "tm (del_rule env b ip mark w) = tm w"
  by (simp_all add: add_rule_def del_rule_def add_iptables_rule_def add_nftables_rule_def del_iptables_rule_def del_nftables_rule_def
      Let_def case_prod_beta)

lemma cleanup_slots_tm [simp]: "tm (cleanup_slots env b ss w) = tm w"
  by (induction ss arbitrary: w) simp_all

section \<open>Marks\<close>

definition mark_ok :: "u32 \<Rightarrow> bool" where
  "mark_ok m \<longleftrightarrow> TRAFFIC_MARK_BASE \<le> m \<and> m \<le> TRAFFIC_MARK_MAX"

lemma hash_mark_ok: "sid \<noteq> [] \<Longrightarrow> mark_ok (traffic_session_id_to_mark (Some sid))"
proof -
  assume "sid \<noteq> []"
  have "unat (djb2_hash sid mod 256) < 256" by (simp add: unat_mod)
  then have "unat (0x100 + djb2_hash sid mod 256) = 256 + unat (djb2_hash sid mod 256)"
    by (simp add: unat_word_ariths(1))
  then show ?thesis
    using \<open>sid \<noteq> []\<close> \<open>unat (djb2_hash sid mod 256) < 256\<close>
    by (simp add: mark_ok_def traffic_session_id_to_mark_def word_le_nat_alt)
qed

lemma next_mark_ok:
  assumes "mark_ok m"
  shows "mark_ok (if m + 1 > TRAFFIC_MARK_MAX then TRAFFIC_MARK_BASE else m + 1)"
proof -
  have "unat m \<le> 511" "256 \<le> unat m" using assms by (simp_all add: mark_ok_def word_le_nat_alt)
  then have "unat (m + 1) = Suc (unat m)" by (simp add: unat_word_ariths(1))
  then show ?thesis using \<open>256 \<le> unat m\<close> by (simp add: mark_ok_def word_le_nat_alt word_less_nat_alt)
qed

section \<open>Invariant\<close>

definition session_marked :: "TrafficSession \<Rightarrow> bool" where
  "session_marked s \<longleftrightarrow> (tse_session_id s \<noteq> [] \<longrightarrow> mark_ok (tse_conntrack_mark s)) \<and> length (tse_session_id s) \<le> 127"

definition tm_inv :: "TrafficMonitorContext \<Rightarrow> bool" where
  "tm_inv c \<longleftrightarrow> length (tmc_sessions c) = MAX_TRAFFIC_SESSIONS \<and> unat (tmc_session_count c) = count_if tse_in_use (tmc_sessions c) \<and>
     (tmc_is_initialized c \<longrightarrow> mark_ok (tmc_next_mark c)) \<and> (\<forall>s\<in>set (tmc_sessions c). tse_in_use s \<longrightarrow> session_marked s)"

lemma choose_mark_ok:
  assumes "mark_ok (tmc_next_mark c)" and "choose_mark sid c = (mark, c1)"
  shows "mark_ok (tmc_next_mark c1)" "sid \<noteq> [] \<Longrightarrow> mark_ok mark"
  using assms hash_mark_ok [of sid] next_mark_ok [OF assms(1)]
  by (auto simp: choose_mark_def Let_def split: option.splits)

lemma choose_mark_keeps:
  assumes "choose_mark sid c = (mark, c1)"
  shows "tmc_sessions c1 = tmc_sessions c" "tmc_session_count c1 = tmc_session_count c"
  using assms by (auto simp: choose_mark_def Let_def split: option.splits)

text \<open>What a registration can do.\<close>

lemma register_cases:
  assumes "traffic_register_session env now session_id client_id client_ip w = (m, w')"
  obtains (rejected) "tm w' = tm w" "m = 0"
  | (known) sid i where "session_id = Some sid" "traffic_find_session (tm w) (Some sid) = Some i"
      "m = tse_conntrack_mark (tmc_sessions (tm w) ! i)" "w' = w"
  | (refused) sid c1 mark where "choose_mark sid (tm w) = (mark, c1)" "tm w' = c1" "m = 0" "tmc_is_initialized (tm w)"
  | (added) sid ip i s c1 where "session_id = Some sid" "client_ip = Some ip" "tmc_is_initialized (tm w)" "traffic_find_session (tm w) (Some sid) = None"
      "find_free_slot (tm w) = Some i" "choose_mark sid (tm w) = (m, c1)" "tse_in_use s" "tse_session_id s = strncpy_buf 127 sid"
      "tse_client_ip s = strncpy_buf 63 ip" "tse_conntrack_mark s = m"
      "tm w' = c1\<lparr>tmc_sessions := (tmc_sessions c1)[i := s], tmc_session_count := tmc_session_count c1 + 1\<rparr>"
proof (cases "tmc_is_initialized (tm w) \<and> (\<exists>sid ip. session_id = Some sid \<and> client_ip = Some ip)")
  case False
  then show ?thesis using assms by (intro rejected) (auto simp: traffic_register_session_def split: if_splits option.splits)
next
  case True
  then obtain sid ip where v: "tmc_is_initialized (tm w)" "session_id = Some sid" "client_ip = Some ip" by blast
  show ?thesis
  proof (cases "traffic_find_session (tm w) (Some sid)")
    case (Some i)
    then show ?thesis using assms v by (intro known [of sid i]) (auto simp: traffic_register_session_def)
  next
    case nf: None
    show ?thesis
    proof (cases "find_free_slot (tm w)")
      case None
      then show ?thesis using assms v nf by (intro rejected) (auto simp: traffic_register_session_def)
    next
      case (Some i)
      obtain mark c1 where ch: "choose_mark sid (tm w) = (mark, c1)" by (cases "choose_mark sid (tm w)")
      obtain r w1 where ad: "add_rule env (tmc_backend c1) ip mark (w\<lparr>tm := c1\<rparr>) = (r, w1)"
        by (cases "add_rule env (tmc_backend c1) ip mark (w\<lparr>tm := c1\<rparr>)")
      have w1: "tm w1 = c1" using rule_tm(1) [of env "tmc_backend c1" ip mark "w\<lparr>tm := c1\<rparr>"] ad by simp
      show ?thesis
      proof (cases "r = 0")
        case False
        then show ?thesis using assms v nf Some ch ad w1
          by (intro refused [of sid mark c1]) (auto simp: traffic_register_session_def)
      next
        case True
        define s where "s = zero_tse\<lparr>tse_in_use := True, tse_session_id := strncpy_buf 127 sid,
            tse_client_id := (case client_id of None \<Rightarrow> [] | Some cid \<Rightarrow> strncpy_buf 63 cid),
            tse_client_ip := strncpy_buf 63 ip, tse_conntrack_mark := mark, tse_stats := zero_stats\<lparr>tst_start_time := now\<rparr>\<rparr>"
        show ?thesis using assms v nf Some ch ad w1 True
          by (intro added [of sid ip i c1 s]) (auto simp: traffic_register_session_def s_def Let_def)
      qed
    qed
  qed
qed

lemma register_inv:
  assumes "tm_inv (tm w)"
  shows "tm_inv (tm (snd (traffic_register_session env now session_id client_id client_ip w)))"
proof -
  obtain m w' where reg: "traffic_register_session env now session_id client_id client_ip w = (m, w')"
    by (cases "traffic_register_session env now session_id client_id client_ip w")
  from reg have "tm_inv (tm w')"
  proof (cases rule: register_cases)
    case (refused sid c1 mark)
    then have "mark_ok (tmc_next_mark (tm w))" using assms by (simp add: tm_inv_def)
    from choose_mark_ok(1) [OF this refused(1)] choose_mark_keeps [OF refused(1)] refused(2) assms show ?thesis
      by (simp add: tm_inv_def)
  next
    case (added sid ip i s c1)
    then have "mark_ok (tmc_next_mark (tm w))" using assms by (simp add: tm_inv_def)
    note ch = choose_mark_ok [OF this added(6)]
    note c1 = choose_mark_keeps [OF added(6)]
    have cnt: "count_if tse_in_use ((tmc_sessions (tm w))[i := s]) = Suc (count_if tse_in_use (tmc_sessions (tm w)))"
      using tms.take_slot [of "tmc_sessions (tm w)" i s] added(5,7) by (simp add: find_free_slot_def)
    then have "count_if tse_in_use (tmc_sessions (tm w)) < 256"
      using count_if_le_length [of tse_in_use "(tmc_sessions (tm w))[i := s]"] assms by (simp add: tm_inv_def)
    then have "unat (tmc_session_count (tm w) + 1) = Suc (unat (tmc_session_count (tm w)))"
      using assms by (simp add: tm_inv_def unat_word_ariths(1))
    moreover have "session_marked s" using added(8,10) ch(2) strncpy_buf_length [of 127 sid] by (auto simp: session_marked_def)
    ultimately show ?thesis
      using assms cnt ch(1) set_update_subset_insert [of "tmc_sessions (tm w)" i s] by (auto simp: added(11) tm_inv_def c1)
  qed (use assms in simp_all)
  with reg show ?thesis by simp
qed

lemma unregister_cases:
  assumes "traffic_unregister_session env session_id w = (r, w')"
  obtains (unknown) "w' = w" "r = -1" "\<And>sid. session_id = Some sid \<Longrightarrow> tmc_is_initialized (tm w) \<Longrightarrow> traffic_find_session (tm w) (Some sid) = None"
  | (gone) sid i where "session_id = Some sid" "tmc_is_initialized (tm w)" "traffic_find_session (tm w) (Some sid) = Some i" "r = 0"
      "tm w' = (tm w)\<lparr>tmc_sessions := (tmc_sessions (tm w))[i := (tmc_sessions (tm w) ! i)\<lparr>tse_in_use := False\<rparr>],
                      tmc_session_count := tmc_session_count (tm w) - 1\<rparr>"
proof (cases "\<exists>sid i. tmc_is_initialized (tm w) \<and> session_id = Some sid \<and> traffic_find_session (tm w) (Some sid) = Some i")
  case True
  then obtain sid i where v: "tmc_is_initialized (tm w)" "session_id = Some sid" "traffic_find_session (tm w) (Some sid) = Some i" by blast
  from assms v show ?thesis by (intro gone [of sid i]) (auto simp: traffic_unregister_session_def Let_def)
next
  case False
  then have "w' = w \<and> r = -1" using assms by (auto simp: traffic_unregister_session_def split: if_splits option.splits)
  with False show ?thesis by (intro unknown) auto
qed

lemma unregister_inv:
  assumes "tm_inv (tm w)"
  shows "tm_inv (tm (snd (traffic_unregister_session env session_id w)))"
proof -
  obtain r w' where un: "traffic_unregister_session env session_id w = (r, w')" by (cases "traffic_unregister_session env session_id w")
  from un have "tm_inv (tm w')"
  proof (cases rule: unregister_cases)
    case (gone sid i)
    let ?s = "(tmc_sessions (tm w) ! i)\<lparr>tse_in_use := False\<rparr>"
    have i: "i < length (tmc_sessions (tm w))" "tse_in_use (tmc_sessions (tm w) ! i)"
      using gone(3) find_idx_SomeD [of _ "tmc_sessions (tm w)" i] by (auto simp: traffic_find_session_def)
    have cnt: "Suc (count_if tse_in_use ((tmc_sessions (tm w))[i := ?s])) = count_if tse_in_use (tmc_sessions (tm w))"
      by (rule tms.free_slot [OF i]) simp
    then have "tmc_session_count (tm w) \<noteq> 0" using assms by (auto simp: tm_inv_def)
    then have "unat (tmc_session_count (tm w) - 1) = unat (tmc_session_count (tm w)) - 1" by (rule unat_minus_one)
    then show ?thesis
      using assms cnt set_update_subset_insert [of "tmc_sessions (tm w)" i ?s] by (auto simp: gone(5) tm_inv_def)
  qed (use assms in simp)
  with un show ?thesis by simp
qed

lemma enumerate_map_snd: "map (\<lambda>(i, s). f i s) (enumerate n xs) = map2 f [n..<n + length xs] xs"
  by (simp add: enumerate_eq_zip)

lemma count_if_map2_same:
  "length is = length xs \<Longrightarrow> (\<And>i x. P (f i x) = P x) \<Longrightarrow> count_if P (map2 f is xs) = count_if P xs"
  by (induction "is" xs rule: list_induct2) auto

lemma refresh_slot_keeps:
  "tse_in_use (refresh_slot now ct s) = tse_in_use s" "tse_session_id (refresh_slot now ct s) = tse_session_id s"
  "tse_conntrack_mark (refresh_slot now ct s) = tse_conntrack_mark s" "tse_client_ip (refresh_slot now ct s) = tse_client_ip s"
  by (simp_all add: refresh_slot_def case_prod_beta)

lemma refresh_inv: "tm_inv c \<Longrightarrow> tm_inv (snd (traffic_refresh_stats now ct c))"
  by (auto simp: traffic_refresh_stats_def tm_inv_def enumerate_map_snd count_if_map2_same refresh_slot_keeps session_marked_def
      dest!: set_zip_rightD)

lemma get_stats_inv:
  assumes "tm_inv c"
  shows "tm_inv (snd (snd (traffic_get_session_stats now ct session_id c)))"
proof (cases "\<exists>sid i. tmc_is_initialized c \<and> session_id = Some sid \<and> traffic_find_session c (Some sid) = Some i")
  case False
  then have "snd (snd (traffic_get_session_stats now ct session_id c)) = c"
    by (auto simp: traffic_get_session_stats_def split: option.splits)
  with assms show ?thesis by simp
next
  case True
  then obtain sid i where v: "tmc_is_initialized c" "session_id = Some sid" "traffic_find_session c (Some sid) = Some i" by blast
  have i: "i < length (tmc_sessions c)" using v(3) find_idx_less by (auto simp: traffic_find_session_def)
  obtain s where s: "snd (snd (traffic_get_session_stats now ct session_id c)) = c\<lparr>tmc_sessions := (tmc_sessions c)[i := s]\<rparr>"
      "tse_in_use s = tse_in_use (tmc_sessions c ! i)" "session_marked s = session_marked (tmc_sessions c ! i)"
  proof -
    define s where "s = (if now - tse_cache_time (tmc_sessions c ! i) < STATS_CACHE_TTL_SEC \<or> \<not> tmc_netlink_available c \<or>
        fst (query_conntrack_stats now ct (tse_conntrack_mark (tmc_sessions c ! i))) \<noteq> 0 then tmc_sessions c ! i
      else let q = snd (query_conntrack_stats now ct (tse_conntrack_mark (tmc_sessions c ! i))) in
        (tmc_sessions c ! i)\<lparr>tse_cached_stats := q, tse_cache_time := now,
           tse_stats := (tse_stats (tmc_sessions c ! i))\<lparr>tst_bytes_in := tst_bytes_in q, tst_bytes_out := tst_bytes_out q,
             tst_packets_in := tst_packets_in q, tst_packets_out := tst_packets_out q, tst_last_update := now\<rparr>\<rparr>)"
    show ?thesis using v by (intro that [of s]) (simp_all add: s_def traffic_get_session_stats_def Let_def case_prod_beta session_marked_def)
  qed
  have "count_if tse_in_use ((tmc_sessions c)[i := s]) = count_if tse_in_use (tmc_sessions c)" using i s(2) by (rule tms.keep_slot)
  moreover have "\<forall>t\<in>set ((tmc_sessions c)[i := s]). tse_in_use t \<longrightarrow> session_marked t"
    using assms i s(2,3) set_update_subset_insert [of "tmc_sessions c" i s] by (auto simp: tm_inv_def)
  ultimately show ?thesis using assms by (simp add: s(1) tm_inv_def)
qed

datatype traffic_call =
    Tm_init bool TrafficBackendType
  | Tm_register int "string option" "string option" "string option"
  | Tm_unregister "string option"
  | Tm_stats int conntrack "string option"
  | Tm_refresh int "nat \<Rightarrow> conntrack"
  | Tm_cleanup

fun traffic_step :: "tm_env \<Rightarrow> tm_world \<Rightarrow> traffic_call \<Rightarrow> tm_world" where
  "traffic_step env w (Tm_init netlink b) = snd (traffic_monitor_init env netlink b w)"
| "traffic_step env w (Tm_register now sid cid ip) = snd (traffic_register_session env now sid cid ip w)"
| "traffic_step env w (Tm_unregister sid) = snd (traffic_unregister_session env sid w)"
| "traffic_step env w (Tm_stats now ct sid) = w\<lparr>tm := snd (snd (traffic_get_session_stats now ct sid (tm w)))\<rparr>"
| "traffic_step env w (Tm_refresh now ct) = w\<lparr>tm := snd (traffic_refresh_stats now ct (tm w))\<rparr>"
| "traffic_step env w Tm_cleanup = traffic_monitor_cleanup env w"

lemma init_tm_inv: "tm_inv (tm (snd (traffic_monitor_init env netlink b w)))"
  using tms.blank_table [of MAX_TRAFFIC_SESSIONS]
  by (auto simp: traffic_monitor_init_def Let_def case_prod_beta tm_inv_def zero_tm_def mark_ok_def tms.blank_unused)

lemma traffic_step_inv:
  assumes "tm_inv (tm w)"
  shows "tm_inv (tm (traffic_step env w e))"
proof (cases e)
  case Tm_cleanup
  have "count_if tse_in_use (map (\<lambda>s. s\<lparr>tse_in_use := False\<rparr>) ss) = 0" for ss by (induction ss) auto
  then show ?thesis using Tm_cleanup assms
    by (simp add: traffic_monitor_cleanup_def Let_def tm_inv_def) auto
qed (use assms in \<open>simp_all add: init_tm_inv register_inv unregister_inv refresh_inv get_stats_inv\<close>)

interpretation tmw: guarded_machine "traffic_step env" "\<lambda>w. tm_inv (tm w)" "\<lambda>_. True" for env
  by unfold_locales (rule traffic_step_inv)

text \<open>
  After initialisation every sequence of registrations, removals, queries, refreshes and clean-ups
  keeps the traffic table consistent: its counter equals the occupied slots, the running mark and
  the mark of every registered session (with a non-empty identifier) lie in 0x100 to 0x1FF, which is
  outside the marks the data plane uses for routing, and stored identifiers fit their buffer.
\<close>

lemma traffic_reachable_inv:
  "tm_inv (tm (foldl (traffic_step env) (snd (traffic_monitor_init env netlink b w)) calls))"
  by (rule tmw.run_inv [OF init_tm_inv]) simp

section \<open>The table as a map\<close>

definition ids_unique :: "TrafficMonitorContext \<Rightarrow> bool" where
  "ids_unique c \<longleftrightarrow> keys_unique tse_in_use tse_session_id (tmc_sessions c)"

definition monitored :: "TrafficMonitorContext \<Rightarrow> string \<Rightarrow> (string \<times> u32) option" where
  "monitored c sid = map_option (\<lambda>s. (tse_client_ip s, tse_conntrack_mark s)) (table_map tse_in_use tse_session_id (tmc_sessions c) sid)"

lemma find_session_map:
  "traffic_find_session c (Some sid) = None \<longleftrightarrow> table_map tse_in_use tse_session_id (tmc_sessions c) sid = None"
  "traffic_find_session c (Some sid) = Some i \<Longrightarrow> monitored c sid = Some (tse_client_ip (tmc_sessions c ! i), tse_conntrack_mark (tmc_sessions c ! i))"
  by (simp_all add: traffic_find_session_def monitored_def table_map_def)


lemma traffic_unregister_map:
  assumes "ids_unique (tm w)" and "tmc_is_initialized (tm w)" and "traffic_unregister_session env (Some sid) w = (r, w')"
  shows "monitored (tm w') = (monitored (tm w))(sid := None) \<and> (r = 0 \<longleftrightarrow> sid \<in> dom (monitored (tm w))) \<and> ids_unique (tm w')"
  using assms(3)
proof (cases rule: unregister_cases)
  case unknown
  then have "monitored (tm w) sid = None" using assms(2) find_session_map(1) [of "tm w" sid] by (simp add: monitored_def)
  then show ?thesis using unknown(1,2) assms(1) by auto
next
  case (gone sid' i)
  let ?s = "(tmc_sessions (tm w) ! i)\<lparr>tse_in_use := False\<rparr>"
  have hit: "find_idx (\<lambda>x. tse_in_use x \<and> tse_session_id x = sid) (tmc_sessions (tm w)) = Some i"
    using gone(1,3) by (simp add: traffic_find_session_def)
  have "table_map tse_in_use tse_session_id ((tmc_sessions (tm w))[i := ?s]) = (table_map tse_in_use tse_session_id (tmc_sessions (tm w)))(sid := None)"
    using assms(1) hit by (intro tms.table_map_removed) (simp_all add: ids_unique_def)
  then have "monitored (tm w') = (monitored (tm w))(sid := None)" by (auto simp: monitored_def gone(5))
  moreover have "sid \<in> dom (monitored (tm w))" using find_session_map(2) [OF gone(3)] gone(1) by auto
  moreover have "ids_unique (tm w')" using assms(1) gone(5) tms.unique_removed by (simp add: ids_unique_def)
  ultimately show ?thesis using gone(4) by simp
qed

section \<open>What the statistics count\<close>

definition with_mark :: "u32 \<Rightarrow> conntrack \<Rightarrow> ct_entry list" where
  "with_mark m ct = filter (\<lambda>e. ct_mark e = m) (ct_ipv4 ct @ ct_ipv6 ct)"

definition ct_works :: "conntrack \<Rightarrow> bool" where
  "ct_works ct \<longleftrightarrow> ct_open ct \<and> ct_ipv4_ok ct"

lemma callbacks_sum:
  "tst_bytes_in (foldl (conntrack_callback m) s es) = tst_bytes_in s + (\<Sum>e\<leftarrow>filter (\<lambda>e. ct_mark e = m) es. ct_orig_bytes e)"
  "tst_bytes_out (foldl (conntrack_callback m) s es) = tst_bytes_out s + (\<Sum>e\<leftarrow>filter (\<lambda>e. ct_mark e = m) es. ct_repl_bytes e)"
  "tst_packets_in (foldl (conntrack_callback m) s es) = tst_packets_in s + (\<Sum>e\<leftarrow>filter (\<lambda>e. ct_mark e = m) es. ct_orig_packets e)"
  "tst_packets_out (foldl (conntrack_callback m) s es) = tst_packets_out s + (\<Sum>e\<leftarrow>filter (\<lambda>e. ct_mark e = m) es. ct_repl_packets e)"
  by (induction es arbitrary: s) (simp_all add: conntrack_callback_def algebra_simps)

lemma query_sums:
  assumes "ct_works ct"
  shows "tst_bytes_in (snd (query_conntrack_stats now ct m)) = (\<Sum>e\<leftarrow>with_mark m ct. ct_orig_bytes e)"
    "tst_bytes_out (snd (query_conntrack_stats now ct m)) = (\<Sum>e\<leftarrow>with_mark m ct. ct_repl_bytes e)"
  using assms by (simp_all add: query_conntrack_stats_def ct_works_def with_mark_def callbacks_sum Let_def) (simp_all add: zero_stats_def)

text \<open>The totals over all sessions as sums of the sessions' figures.\<close>

lemma sum_slots_sums:
  "tst_bytes_in (snd (foldl (\<lambda>(count, acc) (i, s). if wanted s then (count + 1, add_stats (f i s) (g s) acc) else (count, acc)) (k, t) xs))
     = tst_bytes_in t + (\<Sum>(i, s)\<leftarrow>filter (\<lambda>(i, s). wanted s) xs. tst_bytes_in (f i s))"
  "fst (foldl (\<lambda>(count, acc) (i, s). if wanted s then (count + 1, add_stats (f i s) (g s) acc) else (count, acc)) (k, t) xs)
     = k + int (length (filter (\<lambda>(i, s). wanted s) xs))"
  by (induction xs arbitrary: k t) (auto simp: add_stats_def)

lemma sum_over_marks:
  "distinct ms \<Longrightarrow> (\<Sum>m\<leftarrow>ms. \<Sum>e\<leftarrow>filter (\<lambda>e. ct_mark e = m) es. f e) = (\<Sum>e\<leftarrow>filter (\<lambda>e. ct_mark e \<in> set ms) es. f e :: u64)"
proof (induction ms)
  case (Cons a ms)
  have "(\<Sum>e\<leftarrow>filter (\<lambda>e. ct_mark e \<in> set (a # ms)) es. f e) =
      (\<Sum>e\<leftarrow>filter (\<lambda>e. ct_mark e = a) es. f e) + (\<Sum>e\<leftarrow>filter (\<lambda>e. ct_mark e \<in> set ms) es. f e)"
    using Cons.prems by (induction es) (auto simp: algebra_simps)
  with Cons show ?case by simp
qed simp

lemma filter_enumerate_snd: "map (\<lambda>(i, s). h s) (filter (\<lambda>(i, s). P s) (enumerate n xs)) = map h (filter P xs)"
  by (induction xs arbitrary: n) auto

lemma unique_marks_distinct:
  assumes "keys_unique tse_in_use tse_conntrack_mark xs"
  shows "distinct (map tse_conntrack_mark (filter tse_in_use xs))"
  using assms
proof (induction xs)
  case (Cons x xs)
  have "keys_unique tse_in_use tse_conntrack_mark xs"
    unfolding keys_unique_def
  proof (intro allI impI)
    fix i j assume "i < length xs" "j < length xs" "tse_in_use (xs ! i)" "tse_in_use (xs ! j)"
      "tse_conntrack_mark (xs ! i) = tse_conntrack_mark (xs ! j)"
    then have "Suc i = Suc j" using Cons.prems unfolding keys_unique_def by (metis Suc_less_eq length_Cons nth_Cons_Suc)
    then show "i = j" by simp
  qed
  moreover have "tse_conntrack_mark x \<noteq> tse_conntrack_mark (xs ! i)" if "tse_in_use x" "i < length xs" "tse_in_use (xs ! i)" for i
    using Cons.prems that unfolding keys_unique_def
    by (metis Suc_less_eq length_Cons nth_Cons_0 nth_Cons_Suc old.nat.distinct(2) zero_less_Suc)
  ultimately show ?case using Cons.IH by (auto simp: in_set_conv_nth)
qed simp

lemma all_stats_sum:
  assumes "tmc_is_initialized c" and "tmc_netlink_available c" and "ct_works ct"
    and "traffic_get_all_stats now (\<lambda>_. ct) c = (count, Some st)"
  shows "tst_bytes_in st = (\<Sum>m\<leftarrow>map tse_conntrack_mark (filter tse_in_use (tmc_sessions c)). \<Sum>e\<leftarrow>with_mark m ct. ct_orig_bytes e)"
    and "count = int (count_if tse_in_use (tmc_sessions c))"
proof -
  have st: "st = (snd (sum_slots now (\<lambda>_. ct) tse_in_use c))\<lparr>tst_last_update := now\<rparr>" "count = fst (sum_slots now (\<lambda>_. ct) tse_in_use c)"
    using assms(1,4) by (auto simp: traffic_get_all_stats_def case_prod_beta)
  have "tst_bytes_in st = (\<Sum>(i, s)\<leftarrow>filter (\<lambda>(i, s). tse_in_use s) (enumerate 0 (tmc_sessions c)). \<Sum>e\<leftarrow>with_mark (tse_conntrack_mark s) ct. ct_orig_bytes e)"
    using assms(2,3) by (simp add: st(1) sum_slots_def sum_slots_sums slot_stats_def query_sums) (simp add: zero_stats_def)
  then show "tst_bytes_in st = (\<Sum>m\<leftarrow>map tse_conntrack_mark (filter tse_in_use (tmc_sessions c)). \<Sum>e\<leftarrow>with_mark m ct. ct_orig_bytes e)"
    by (simp add: filter_enumerate_snd [where h = "\<lambda>s. \<Sum>e\<leftarrow>with_mark (tse_conntrack_mark s) ct. ct_orig_bytes e"] o_def)
  have "length (filter (\<lambda>(i, s). tse_in_use s) (enumerate n xs)) = count_if tse_in_use xs" for n and xs :: "TrafficSession list"
    by (induction xs arbitrary: n) auto
  then show "count = int (count_if tse_in_use (tmc_sessions c))" by (simp add: st(2) sum_slots_def sum_slots_sums)
qed

text \<open>
  The server-wide figure counts each connection once. When the marks of the registered sessions
  are pairwise distinct, the bytes reported over all sessions are exactly the bytes of the
  connections whose mark belongs to a registered session, each added once (modulo 2 to the 64), and
  the number of sessions reported is the number registered.
\<close>

lemma all_stats_count_each_connection_once:
  assumes "tmc_is_initialized c" and "tmc_netlink_available c" and "ct_works ct"
    and "keys_unique tse_in_use tse_conntrack_mark (tmc_sessions c)" and "traffic_get_all_stats now (\<lambda>_. ct) c = (count, Some st)"
  shows "tst_bytes_in st = (\<Sum>e\<leftarrow>filter (\<lambda>e. \<exists>s\<in>set (tmc_sessions c). tse_in_use s \<and> tse_conntrack_mark s = ct_mark e) (ct_ipv4 ct @ ct_ipv6 ct). ct_orig_bytes e)
    \<and> count = int (count_if tse_in_use (tmc_sessions c))"
proof -
  let ?ms = "map tse_conntrack_mark (filter tse_in_use (tmc_sessions c))"
  have sums: "(\<Sum>m\<leftarrow>?ms. \<Sum>e\<leftarrow>with_mark m ct. ct_orig_bytes e) = (\<Sum>e\<leftarrow>filter (\<lambda>e. ct_mark e \<in> set ?ms) (ct_ipv4 ct @ ct_ipv6 ct). ct_orig_bytes e)"
    unfolding with_mark_def by (rule sum_over_marks [OF unique_marks_distinct [OF assms(4)]])
  have sel: "filter (\<lambda>e. ct_mark e \<in> set ?ms) es = filter (\<lambda>e. \<exists>s\<in>set (tmc_sessions c). tse_in_use s \<and> tse_conntrack_mark s = ct_mark e) es" for es
    by (rule filter_cong) force+
  show ?thesis by (simp only: all_stats_sum [OF assms(1-3,5)] sums sel simp_thms)
qed

section \<open>Shared marks\<close>

text \<open>A registration keeps the marks distinct as long as the hash or the running mark is free.\<close>

lemma register_marks_unique:
  assumes "keys_unique tse_in_use tse_conntrack_mark (tmc_sessions (tm w))"
    and "traffic_find_by_mark (tm w) (traffic_session_id_to_mark (Some sid)) = None \<or> traffic_find_by_mark (tm w) (tmc_next_mark (tm w)) = None"
    and "traffic_register_session env now (Some sid) client_id client_ip w = (m, w')"
  shows "keys_unique tse_in_use tse_conntrack_mark (tmc_sessions (tm w'))"
  using assms(3)
proof (cases rule: register_cases)
  case (refused sid' c1 mark)
  then show ?thesis using choose_mark_keeps(1) [OF refused(1)] assms(1) by simp
next
  case (added sid' ip i s c1)
  note c1 = choose_mark_keeps(1) [OF added(6)]
  have free: "find_idx (\<lambda>x. \<not> tse_in_use x) (tmc_sessions (tm w)) = Some i" using added(5) by (simp add: find_free_slot_def)
  have "traffic_find_by_mark (tm w) m = None"
    using added(1,6) assms(2) by (auto simp: choose_mark_def Let_def split: option.splits)
  then have "find_idx (\<lambda>x. tse_in_use x \<and> tse_conntrack_mark x = tse_conntrack_mark s) (tmc_sessions (tm w)) = None"
    using added(10) by (simp add: traffic_find_by_mark_def)
  from tmm.unique_inserted [OF assms(1) free this] added(11) c1 show ?thesis by simp
qed (use assms(1) in simp_all)

text \<open>
  The fallback for colliding marks does not look whether its mark is free. When the hash of a new
  session is taken and the running mark belongs to a registered session too, the new session gets
  the mark of that session: both are charged for each other's traffic, although at most 256
  sessions share 256 marks. (The code treats the running mark as conflict-free.)
\<close>

lemma second_collision_shares_mark:
  assumes "tmc_is_initialized (tm w)" and "traffic_find_session (tm w) (Some sid) = None" and "find_free_slot (tm w) = Some i"
    and "traffic_find_by_mark (tm w) (traffic_session_id_to_mark (Some sid)) \<noteq> None"
    and "traffic_find_by_mark (tm w) (tmc_next_mark (tm w)) = Some j"
    and "traffic_register_session env now (Some sid) client_id (Some ip) w = (m, w')" and "m \<noteq> 0"
  shows "tse_in_use (tmc_sessions (tm w') ! i) \<and> tse_in_use (tmc_sessions (tm w') ! j) \<and> i \<noteq> j \<and>
    tse_conntrack_mark (tmc_sessions (tm w') ! i) = tse_conntrack_mark (tmc_sessions (tm w') ! j) \<and>
    snd (query_conntrack_stats t ct (tse_conntrack_mark (tmc_sessions (tm w') ! i))) = snd (query_conntrack_stats t ct (tse_conntrack_mark (tmc_sessions (tm w) ! j)))"
proof -
  have j: "j < length (tmc_sessions (tm w))" "tse_in_use (tmc_sessions (tm w) ! j)" "tse_conntrack_mark (tmc_sessions (tm w) ! j) = tmc_next_mark (tm w)"
    using assms(5) find_idx_SomeD by (fastforce simp: traffic_find_by_mark_def)+
  have i: "i < length (tmc_sessions (tm w))" "\<not> tse_in_use (tmc_sessions (tm w) ! i)"
    using assms(3) find_idx_SomeD by (fastforce simp: find_free_slot_def)+
  from assms(6) show ?thesis
  proof (cases rule: register_cases)
    case (added sid' ip' i' s c1)
    note c1 = choose_mark_keeps(1) [OF added(6)]
    have "m = tmc_next_mark (tm w)" using added(1,6) assms(4) by (auto simp: choose_mark_def Let_def split: option.splits)
    then show ?thesis using added(3,5,7,10,11) assms(3) i j c1 by (auto simp: nth_list_update)
  qed (use assms in auto)
qed

text \<open>
  The start time of a session does not survive its statistics: a refresh overwrites it with zero, and
  the figures answered from the cache carry zero.
\<close>

lemma refresh_loses_start_time:
  assumes "tse_in_use s" and "ct_works ct"
  shows "tst_start_time (tse_stats (refresh_slot now ct s)) = 0" "tst_start_time (tse_cached_stats (refresh_slot now ct s)) = 0"
proof -
  have "tst_start_time (foldl (conntrack_callback m) q es) = tst_start_time q" for m q es
    by (induction es arbitrary: q) (simp_all add: conntrack_callback_def)
  then show "tst_start_time (tse_stats (refresh_slot now ct s)) = 0" "tst_start_time (tse_cached_stats (refresh_slot now ct s)) = 0"
    using assms by (simp_all add: refresh_slot_def query_conntrack_stats_def ct_works_def Let_def) (simp_all add: zero_stats_def)
qed

section \<open>Witnesses\<close>

definition demo_tm_env :: tm_env where
  "demo_tm_env = \<lparr>te_system = (\<lambda>_ _. 0), te_executable = (\<lambda>_. True), te_acct_writable = False\<rparr>"

definition demo_tm :: tm_world where
  "demo_tm = snd (traffic_monitor_init demo_tm_env True TRAFFIC_BACKEND_NFTABLES \<lparr>tm = zero_tm, tm_cmds = [], tm_acct = None\<rparr>)"

definition demo_ct :: conntrack where
  "demo_ct = \<lparr>ct_open = True, ct_ipv4 = [\<lparr>ct_mark = 0x106, ct_orig_bytes = 1000, ct_orig_packets = 2, ct_repl_bytes = 70, ct_repl_packets = 1\<rparr>],
     ct_ipv4_ok = True, ct_ipv6 = []\<rparr>"

lemma demo_tm_facts:
  "tm_inv (tm demo_tm)" "ids_unique (tm demo_tm)" "tmc_is_initialized (tm demo_tm)" "tmc_netlink_available (tm demo_tm)"
  "keys_unique tse_in_use tse_conntrack_mark (tmc_sessions (tm demo_tm))" "monitored (tm demo_tm) sid = None"
  "tmc_sessions (tm demo_tm) = replicate MAX_TRAFFIC_SESSIONS zero_tse" "tmc_next_mark (tm demo_tm) = 0x100"
  using init_tm_inv [of demo_tm_env True TRAFFIC_BACKEND_NFTABLES "\<lparr>tm = zero_tm, tm_cmds = [], tm_acct = None\<rparr>"]
  by (simp_all add: demo_tm_def traffic_monitor_init_def ids_unique_def zero_tm_def tms.unique_blank tmm.unique_blank monitored_def tms.table_map_blank)

lemma demo_rule_ok: "fst (add_rule demo_tm_env b ip m w) = 0"
proof -
  have "fst (exec_cmd demo_tm_env c w) = 0" for c w by (simp add: exec_cmd_def system_call_def demo_tm_env_def)
  then show ?thesis by (simp add: add_rule_def add_nftables_rule_def add_iptables_rule_def Let_def case_prod_beta)
qed


text \<open>
  Three sessions are enough for a shared mark: the hash of the first is the first running mark, the
  other two have the same hash.
\<close>

lemma demo_register:
  assumes "tm_inv (tm w)" and "tmc_is_initialized (tm w)" and "traffic_find_session (tm w) (Some sid) = None" and "find_free_slot (tm w) = Some i"
  shows "\<exists>w' s. traffic_register_session demo_tm_env now (Some sid) None (Some ip) w = (fst (choose_mark sid (tm w)), w') \<and>
    tse_in_use s \<and> tse_session_id s = strncpy_buf 127 sid \<and> tse_conntrack_mark s = fst (choose_mark sid (tm w)) \<and>
    tmc_sessions (tm w') = (tmc_sessions (tm w))[i := s] \<and> tmc_next_mark (tm w') = tmc_next_mark (snd (choose_mark sid (tm w))) \<and> tmc_is_initialized (tm w')"
proof -
  obtain m c1 where ch: "choose_mark sid (tm w) = (m, c1)" by (cases "choose_mark sid (tm w)")
  obtain r w1 where ad: "add_rule demo_tm_env (tmc_backend c1) ip m (w\<lparr>tm := c1\<rparr>) = (r, w1)"
    by (cases "add_rule demo_tm_env (tmc_backend c1) ip m (w\<lparr>tm := c1\<rparr>)")
  have r: "r = 0" "tm w1 = c1"
    using demo_rule_ok [of "tmc_backend c1" ip m "w\<lparr>tm := c1\<rparr>"] rule_tm(1) [of demo_tm_env "tmc_backend c1" ip m "w\<lparr>tm := c1\<rparr>"] ad by simp_all
  have "tmc_is_initialized c1" using ch assms(2) by (auto simp: choose_mark_def Let_def split: option.splits)
  with assms ch ad r choose_mark_keeps [OF ch] show ?thesis
    by (simp add: traffic_register_session_def Let_def) (rule exI, rule conjI [rotated], rule conjI [rotated], rule conjI [rotated], rule refl, simp_all)
qed

definition demo_three :: tm_world where
  "demo_three = (let reg = \<lambda>sid w. snd (traffic_register_session demo_tm_env 5 (Some sid) None (Some ''10.0.0.9'') w)
     in reg ''a'' (reg ''['' demo_tm))"

lemma demo_marks:
  "traffic_session_id_to_mark (Some ''['') = 0x100" "traffic_session_id_to_mark (Some ''a'') = 0x106" "traffic_session_id_to_mark (Some ''a@'') = 0x106"
  by (simp_all add: traffic_session_id_to_mark_def djb2_hash_def char_value_def)

lemma demo_three_facts:
  "\<exists>s0 s1. tmc_sessions (tm demo_three) = (replicate MAX_TRAFFIC_SESSIONS zero_tse)[0 := s0, 1 := s1] \<and> tse_in_use s0 \<and> tse_in_use s1 \<and>
     tse_session_id s0 = ''['' \<and> tse_session_id s1 = ''a'' \<and> tse_conntrack_mark s0 = 0x100 \<and> tse_conntrack_mark s1 = 0x106 \<and>
     tmc_next_mark (tm demo_three) = 0x100 \<and> tmc_is_initialized (tm demo_three) \<and> tm_inv (tm demo_three)"
proof -
  have blank: "find_idx (\<lambda>x. tse_in_use x \<and> P x) (replicate n zero_tse) = None" for P n
    by (simp add: find_idx_None_iff tms.blank_unused)
  have "find_free_slot (tm demo_tm) = Some 0"
    unfolding find_free_slot_def demo_tm_facts(7) by (intro find_idx_SomeI) (simp_all add: tms.blank_unused)
  moreover have "choose_mark ''['' (tm demo_tm) = (0x100, tm demo_tm)"
    by (simp add: choose_mark_def Let_def demo_marks traffic_find_by_mark_def demo_tm_facts(7) blank)
  moreover have "traffic_find_session (tm demo_tm) (Some ''['') = None" by (simp add: traffic_find_session_def demo_tm_facts(7) blank)
  ultimately obtain w1 s0 where w1: "traffic_register_session demo_tm_env 5 (Some ''['') None (Some ''10.0.0.9'') demo_tm = (0x100, w1)"
      "tse_in_use s0" "tse_session_id s0 = ''[''" "tse_conntrack_mark s0 = 0x100"
      "tmc_sessions (tm w1) = (replicate MAX_TRAFFIC_SESSIONS zero_tse)[0 := s0]" "tmc_next_mark (tm w1) = 0x100" "tmc_is_initialized (tm w1)"
    using demo_register [OF demo_tm_facts(1,3), of "''[''" 0 5 "''10.0.0.9''"] demo_tm_facts(7,8) by auto
  have inv1: "tm_inv (tm w1)" using register_inv [OF demo_tm_facts(1)] w1(1) by (metis snd_conv)
  have none1: "find_idx P (tmc_sessions (tm w1)) = None" if "\<not> P s0" "\<not> P zero_tse" for P
    using that set_update_subset_insert [of "replicate MAX_TRAFFIC_SESSIONS zero_tse" 0 s0] by (auto simp: find_idx_None_iff w1(5))
  have "find_free_slot (tm w1) = Some 1"
    unfolding find_free_slot_def w1(5) by (intro find_idx_SomeI) (simp_all add: tms.blank_unused w1(2))
  moreover have "choose_mark ''a'' (tm w1) = (0x106, tm w1)"
    by (simp add: choose_mark_def Let_def demo_marks traffic_find_by_mark_def none1 w1(4) tms.blank_unused)
  moreover have "traffic_find_session (tm w1) (Some ''a'') = None" by (simp add: traffic_find_session_def none1 w1(3) tms.blank_unused)
  ultimately obtain w2 s1 where w2: "traffic_register_session demo_tm_env 5 (Some ''a'') None (Some ''10.0.0.9'') w1 = (0x106, w2)"
      "tse_in_use s1" "tse_session_id s1 = ''a''" "tse_conntrack_mark s1 = 0x106"
      "tmc_sessions (tm w2) = (tmc_sessions (tm w1))[1 := s1]" "tmc_next_mark (tm w2) = 0x100" "tmc_is_initialized (tm w2)"
    using demo_register [OF inv1 w1(7), of "''a''" 1 5 "''10.0.0.9''"] w1(6) by auto
  have "tm_inv (tm w2)" using register_inv [OF inv1] w2(1) by (metis snd_conv)
  moreover have "demo_three = w2" by (simp add: demo_three_def Let_def w1(1) w2(1))
  ultimately show ?thesis using w1 w2 by auto
qed

lemma second_collision_shares_mark_witness:
  "fst (traffic_register_session demo_tm_env 6 (Some ''a@'') None (Some ''10.0.0.7'') demo_three) = 0x100 \<and>
   tse_conntrack_mark (tmc_sessions (tm (snd (traffic_register_session demo_tm_env 6 (Some ''a@'') None (Some ''10.0.0.7'') demo_three))) ! 2) =
   tse_conntrack_mark (tmc_sessions (tm (snd (traffic_register_session demo_tm_env 6 (Some ''a@'') None (Some ''10.0.0.7'') demo_three))) ! 0)"
proof -
  obtain s0 s1 where d: "tmc_sessions (tm demo_three) = (replicate MAX_TRAFFIC_SESSIONS zero_tse)[0 := s0, 1 := s1]" "tse_in_use s0" "tse_in_use s1"
     "tse_session_id s0 = ''[''" "tse_session_id s1 = ''a''" "tse_conntrack_mark s0 = 0x100" "tse_conntrack_mark s1 = 0x106"
     "tmc_next_mark (tm demo_three) = 0x100" "tmc_is_initialized (tm demo_three)" "tm_inv (tm demo_three)"
    using demo_three_facts by blast
  let ?xs = "(replicate MAX_TRAFFIC_SESSIONS zero_tse)[0 := s0, 1 := s1]"
  have "set ?xs \<subseteq> {s0, s1, zero_tse}"
    using set_update_subset_insert [of "(replicate MAX_TRAFFIC_SESSIONS zero_tse)[0 := s0]" 1 s1]
      set_update_subset_insert [of "replicate MAX_TRAFFIC_SESSIONS zero_tse" 0 s0] by auto
  then have f1: "traffic_find_session (tm demo_three) (Some ''a@'') = None"
    using d(4,5) tms.blank_unused by (auto simp: traffic_find_session_def d(1) find_idx_None_iff)
  have nth: "?xs ! k = (if k = 0 then s0 else if k = 1 then s1 else zero_tse)" if "k < MAX_TRAFFIC_SESSIONS" for k
    using that by (simp add: nth_list_update)
  have f2: "find_free_slot (tm demo_three) = Some 2"
    unfolding find_free_slot_def d(1) by (intro find_idx_SomeI) (auto simp: nth d(2,3) tms.blank_unused less_2_cases_iff)
  have f3: "traffic_find_by_mark (tm demo_three) 0x106 = Some 1" "traffic_find_by_mark (tm demo_three) 0x100 = Some 0"
    unfolding traffic_find_by_mark_def d(1) by (intro find_idx_SomeI; simp add: nth d(2,3,6,7))+
  have "choose_mark ''a@'' (tm demo_three) = (0x100, (tm demo_three)\<lparr>tmc_next_mark := 0x101\<rparr>)"
    by (simp add: choose_mark_def Let_def demo_marks f3 d(8))
  then obtain w' where w': "traffic_register_session demo_tm_env 6 (Some ''a@'') None (Some ''10.0.0.7'') demo_three = (0x100, w')"
    using demo_register [OF d(10,9) f1 f2, of 6 "''10.0.0.7''"] by auto
  from second_collision_shares_mark [OF d(9) f1 f2 _ _ this] f3 demo_marks(3) d(8) w' show ?thesis by simp
qed

lemma all_stats_count_each_connection_once_witness:
  "tst_bytes_in (the (snd (traffic_get_all_stats 9 (\<lambda>_. demo_ct) (tm demo_tm)))) = 0"
proof -
  obtain count st where "traffic_get_all_stats 9 (\<lambda>_. demo_ct) (tm demo_tm) = (count, Some st)"
    using demo_tm_facts(3) by (auto simp: traffic_get_all_stats_def case_prod_beta)
  from all_stats_count_each_connection_once [OF demo_tm_facts(3,4) _ demo_tm_facts(5) this] this
  show ?thesis by (simp add: ct_works_def demo_ct_def demo_tm_facts(7) zero_tse_def)
qed

end
