(* ===== verification/Adif.thy ===== *)
theory Adif
  imports CString Softfloat
begin

text \<open>
  The aircraft data interface (\<open>app_magic/magic_adif.c\<close>, \<open>magic_adif.h\<close>): the client that subscribes
  to the avionics server and keeps the last published aircraft state.

  A \<open>double\<close> is the rational it denotes, an \<open>AdifValidity\<close> the unsigned number the C enumeration
  stores (the reader casts any integer to it), and \<open>time(NULL)\<close> an argument. What the operating
  system answers to the socket calls is the record \<open>adif_env\<close>; the descriptors in use are the field
  \<open>ax_open\<close> of the context, so that leaks can be stated. The receiver thread is a function over the
  sequence of things that happen at its \<open>select\<close>, \<open>accept\<close> and \<open>recv\<close> calls; the states handed to the
  callback are its second result.
\<close>

section \<open>Data\<close>

datatype AdifFlightPhase =
    FLIGHT_PHASE_UNKNOWN | FLIGHT_PHASE_GATE | FLIGHT_PHASE_TAXI | FLIGHT_PHASE_TAKEOFF
  | FLIGHT_PHASE_CLIMB | FLIGHT_PHASE_CRUISE | FLIGHT_PHASE_DESCENT | FLIGHT_PHASE_APPROACH
  | FLIGHT_PHASE_LANDING

type_synonym AdifValidity = u32

abbreviation VALIDITY_NO_DATA :: AdifValidity where "VALIDITY_NO_DATA \<equiv> 0"
abbreviation VALIDITY_NORMAL :: AdifValidity where "VALIDITY_NORMAL \<equiv> 1"
abbreviation VALIDITY_NO_COMPUTED :: AdifValidity where "VALIDITY_NO_COMPUTED \<equiv> 2"

record AdifWeightOnWheels =
  aw_on_ground :: bool
  aw_validity :: AdifValidity
  aw_timestamp_ms :: u64

record AdifPosition =
  ap_latitude :: rat
  ap_longitude :: rat
  ap_altitude_ft :: rat
  ap_lat_validity :: AdifValidity
  ap_lon_validity :: AdifValidity
  ap_alt_validity :: AdifValidity
  ap_timestamp_ms :: u64

record AdifFlightPhaseData =
  af_phase :: AdifFlightPhase
  af_validity :: AdifValidity
  af_timestamp_ms :: u64

record AdifAircraftId =
  ai_tail_number :: string
  ai_validity :: AdifValidity
  ai_timestamp_ms :: u64

record AdifSpeed =
  as_ground_speed_kts :: rat
  as_vertical_speed_fpm :: rat
  as_gs_validity :: AdifValidity
  as_vs_validity :: AdifValidity
  as_timestamp_ms :: u64

record AdifAircraftState =
  ad_wow :: AdifWeightOnWheels
  ad_position :: AdifPosition
  ad_flight_phase :: AdifFlightPhaseData
  ad_aircraft_id :: AdifAircraftId
  ad_speed :: AdifSpeed
  ad_data_valid :: bool
  ad_last_update_ms :: u64

datatype AdifClientState =
  ADIF_CLIENT_DISCONNECTED | ADIF_CLIENT_CONNECTING | ADIF_CLIENT_SUBSCRIBED | ADIF_CLIENT_ERROR

record AdifClientConfig =
  ag_server_host :: string
  ag_server_port :: u16
  ag_async_port :: u16
  ag_refresh_period_ms :: u32
  ag_auto_reconnect :: bool
  ag_reconnect_interval_ms :: u32

text \<open>
  The context. The callback is present or absent: what it does belongs to its owner. \<open>ax_open\<close> lists
  the descriptors opened and not closed again, and is not a field of the C structure.
\<close>

record AdifClientContext =
  ax_config :: AdifClientConfig
  ax_state :: AdifClientState
  ax_aircraft_state :: AdifAircraftState
  ax_sync_sock :: int
  ax_async_sock :: int
  ax_running :: bool
  ax_callback :: bool
  ax_error_msg :: string
  ax_open :: "int list"

abbreviation ADIF_MAX_TAIL_NUMBER_LEN :: nat where "ADIF_MAX_TAIL_NUMBER_LEN \<equiv> 16"
abbreviation ADIF_MAX_XML_BUFFER :: nat where "ADIF_MAX_XML_BUFFER \<equiv> 4096"

text \<open>The all-zero structures that \<open>memset\<close> leaves.\<close>

definition zero_aircraft_state :: AdifAircraftState where
  "zero_aircraft_state =
     \<lparr>ad_wow = \<lparr>aw_on_ground = False, aw_validity = 0, aw_timestamp_ms = 0\<rparr>,
      ad_position = \<lparr>ap_latitude = 0, ap_longitude = 0, ap_altitude_ft = 0, ap_lat_validity = 0,
                     ap_lon_validity = 0, ap_alt_validity = 0, ap_timestamp_ms = 0\<rparr>,
      ad_flight_phase = \<lparr>af_phase = FLIGHT_PHASE_UNKNOWN, af_validity = 0, af_timestamp_ms = 0\<rparr>,
      ad_aircraft_id = \<lparr>ai_tail_number = [], ai_validity = 0, ai_timestamp_ms = 0\<rparr>,
      ad_speed = \<lparr>as_ground_speed_kts = 0, as_vertical_speed_fpm = 0, as_gs_validity = 0,
                  as_vs_validity = 0, as_timestamp_ms = 0\<rparr>,
      ad_data_valid = False, ad_last_update_ms = 0\<rparr>"

section \<open>Flight phases\<close>

definition flight_phase_strings :: "string list" where
  "flight_phase_strings =
     [''UNKNOWN'', ''GATE'', ''TAXI'', ''TAKE OFF'', ''CLIMB'', ''CRUISE'', ''DESCENT'', ''APPROACH'', ''LANDING'']"

text \<open>The numbers of the enumeration; all of them pass the range test of the printer.\<close>

fun phase_number :: "AdifFlightPhase \<Rightarrow> nat" where
  "phase_number FLIGHT_PHASE_UNKNOWN = 0"
| "phase_number FLIGHT_PHASE_GATE = 1"
| "phase_number FLIGHT_PHASE_TAXI = 2"
| "phase_number FLIGHT_PHASE_TAKEOFF = 3"
| "phase_number FLIGHT_PHASE_CLIMB = 4"
| "phase_number FLIGHT_PHASE_CRUISE = 5"
| "phase_number FLIGHT_PHASE_DESCENT = 6"
| "phase_number FLIGHT_PHASE_APPROACH = 7"
| "phase_number FLIGHT_PHASE_LANDING = 8"

definition adif_flight_phase_to_string :: "AdifFlightPhase \<Rightarrow> string" where
  "adif_flight_phase_to_string phase =
     (if phase_number phase \<le> phase_number FLIGHT_PHASE_LANDING
      then flight_phase_strings ! phase_number phase else ''UNKNOWN'')"

definition adif_string_to_flight_phase :: "string option \<Rightarrow> AdifFlightPhase" where
  "adif_string_to_flight_phase str =
     (case str of
        None \<Rightarrow> FLIGHT_PHASE_UNKNOWN
      | Some s \<Rightarrow>
          if strcasecmp_eq s ''GATE'' then FLIGHT_PHASE_GATE
          else if strcasecmp_eq s ''TAXI'' then FLIGHT_PHASE_TAXI
          else if strcasecmp_eq s ''TAKE OFF'' then FLIGHT_PHASE_TAKEOFF
          else if strcasecmp_eq s ''TAKEOFF'' then FLIGHT_PHASE_TAKEOFF
          else if strcasecmp_eq s ''CLIMB'' then FLIGHT_PHASE_CLIMB
          else if strcasecmp_eq s ''CRUISE'' then FLIGHT_PHASE_CRUISE
          else if strcasecmp_eq s ''DESCENT'' then FLIGHT_PHASE_DESCENT
          else if strcasecmp_eq s ''APPROACH'' then FLIGHT_PHASE_APPROACH
          else if strcasecmp_eq s ''LANDING'' then FLIGHT_PHASE_LANDING
          else FLIGHT_PHASE_UNKNOWN)"

fun adif_phase_to_policy_phase :: "AdifFlightPhase \<Rightarrow> string" where
  "adif_phase_to_policy_phase FLIGHT_PHASE_GATE = ''GATE''"
| "adif_phase_to_policy_phase FLIGHT_PHASE_TAXI = ''TAXI''"
| "adif_phase_to_policy_phase FLIGHT_PHASE_TAKEOFF = ''TAKEOFF''"
| "adif_phase_to_policy_phase FLIGHT_PHASE_CLIMB = ''CLIMB''"
| "adif_phase_to_policy_phase FLIGHT_PHASE_CRUISE = ''CRUISE''"
| "adif_phase_to_policy_phase FLIGHT_PHASE_DESCENT = ''DESCENT''"
| "adif_phase_to_policy_phase FLIGHT_PHASE_APPROACH = ''APPROACH''"
| "adif_phase_to_policy_phase FLIGHT_PHASE_LANDING = ''LANDING''"
| "adif_phase_to_policy_phase FLIGHT_PHASE_UNKNOWN = ''GATE''"

fun phase_group :: "AdifFlightPhase \<Rightarrow> int" where
  "phase_group FLIGHT_PHASE_GATE = 1"
| "phase_group FLIGHT_PHASE_TAXI = 1"
| "phase_group FLIGHT_PHASE_TAKEOFF = 2"
| "phase_group FLIGHT_PHASE_CLIMB = 3"
| "phase_group FLIGHT_PHASE_CRUISE = 4"
| "phase_group FLIGHT_PHASE_DESCENT = 5"
| "phase_group FLIGHT_PHASE_APPROACH = 5"
| "phase_group FLIGHT_PHASE_LANDING = 5"
| "phase_group FLIGHT_PHASE_UNKNOWN = 0"

definition adif_should_reevaluate_routing :: "AdifFlightPhase \<Rightarrow> AdifFlightPhase \<Rightarrow> bool" where
  "adif_should_reevaluate_routing old_phase new_phase =
     (if old_phase = new_phase then False else phase_group old_phase \<noteq> phase_group new_phase)"

section \<open>Messages\<close>

abbreviation quote_char :: char where "quote_char \<equiv> CHR 0x22"
abbreviation newline_char :: char where "newline_char \<equiv> CHR 0x0A"

definition dquoted :: "string \<Rightarrow> string" where
  "dquoted s = quote_char # s @ [quote_char]"

definition subscribe_parameter :: "string \<Rightarrow> string" where
  "subscribe_parameter name = ''        <parameter name='' @ dquoted name @ ''/>'' @ [newline_char]"

definition subscribe_text :: "u16 \<Rightarrow> u32 \<Rightarrow> string" where
  "subscribe_text async_port refresh_period_ms =
     ''<?xml version='' @ dquoted ''1.0'' @ '' encoding='' @ dquoted ''UTF-8'' @ ''?>'' @ [newline_char] @
     ''<subscribeAvionicParameters method='' @ dquoted ''subscribeAvionicParameters'' @ ''>'' @ [newline_char] @
     ''    <publishport value='' @ dquoted (show_word async_port) @ ''/>'' @ [newline_char] @
     ''    <refreshperiod value='' @ dquoted (show_word refresh_period_ms) @ ''/>'' @ [newline_char] @
     ''    <parameters>'' @ [newline_char] @
     subscribe_parameter ''WeightOnWheels'' @
     subscribe_parameter ''Latitude'' @
     subscribe_parameter ''Longitude'' @
     subscribe_parameter ''BaroCorrectedAltitude'' @
     subscribe_parameter ''FlightPhase'' @
     subscribe_parameter ''AircraftTailNumber'' @
     subscribe_parameter ''GroundSpeed'' @
     subscribe_parameter ''VerticalSpeed'' @
     ''    </parameters>'' @ [newline_char] @
     ''</subscribeAvionicParameters>'' @ [newline_char]"

text \<open>The length returned and the text left in the buffer; \<open>None\<close> is the early return on a small or missing buffer.\<close>

definition adif_generate_subscribe_xml :: "nat option \<Rightarrow> u16 \<Rightarrow> u32 \<Rightarrow> int \<times> string" where
  "adif_generate_subscribe_xml buffer_size async_port refresh_period_ms =
     (case buffer_size of
        None \<Rightarrow> (-1, [])
      | Some n \<Rightarrow>
          if n < 512 then (-1, [])
          else let txt = subscribe_text async_port refresh_period_ms
               in (if length txt \<ge> n then -1 else int (length txt), snprintf_buf n txt))"

text \<open>\<open>None\<close> is the return value -1, \<open>Some\<close> the text left in \<open>value\<close>.\<close>

definition extract_xml_attr :: "string \<Rightarrow> string \<Rightarrow> string \<Rightarrow> nat \<Rightarrow> string option" where
  "extract_xml_attr xml tag attr value_size =
     (case strstr xml (snprintf_buf 128 (''name='' @ dquoted tag)) of
        None \<Rightarrow> None
      | Some pos \<Rightarrow>
          let pattern = snprintf_buf 128 (attr @ ''='' @ [quote_char])
          in (case strstr pos pattern of
                None \<Rightarrow> None
              | Some pos \<Rightarrow>
                  (case strchr_split quote_char (drop (length pattern) pos) of
                     None \<Rightarrow> None
                   | Some (v, _) \<Rightarrow>
                       Some (take (if length v \<ge> value_size then value_size - 1 else length v) v))))"

definition read_validity :: "string \<Rightarrow> AdifValidity" where
  "read_validity s = word_of_int (atoi s)"

abbreviation value_attr :: "string \<Rightarrow> string \<Rightarrow> string option" where
  "value_attr xml tag \<equiv> extract_xml_attr xml tag ''value'' 64"

abbreviation validity_attr :: "string \<Rightarrow> string \<Rightarrow> string option" where
  "validity_attr xml tag \<equiv> extract_xml_attr xml tag ''validity'' 8"

abbreviation time_attr :: "string \<Rightarrow> string \<Rightarrow> string option" where
  "time_attr xml tag \<equiv> extract_xml_attr xml tag ''time'' 32"

text \<open>One assignment guarded by an attribute: the target keeps its value when the attribute is not found.\<close>

definition on_attr :: "string option \<Rightarrow> (string \<Rightarrow> 'a \<Rightarrow> 'a) \<Rightarrow> 'a \<Rightarrow> 'a" where
  "on_attr r f x = (case r of None \<Rightarrow> x | Some s \<Rightarrow> f s x)"

definition parse_wow :: "string \<Rightarrow> AdifWeightOnWheels \<Rightarrow> AdifWeightOnWheels" where
  "parse_wow xml w =
     on_attr (value_attr xml ''WeightOnWheels'')
       (\<lambda>v w. on_attr (time_attr xml ''WeightOnWheels'') (\<lambda>t w. w\<lparr>aw_timestamp_ms := strtoul10 t\<rparr>)
              (on_attr (validity_attr xml ''WeightOnWheels'') (\<lambda>d w. w\<lparr>aw_validity := read_validity d\<rparr>)
               (w\<lparr>aw_on_ground := (atoi v = 0)\<rparr>))) w"

definition parse_latitude :: "string \<Rightarrow> AdifPosition \<Rightarrow> AdifPosition" where
  "parse_latitude xml p =
     on_attr (value_attr xml ''Latitude'')
       (\<lambda>v p. on_attr (validity_attr xml ''Latitude'') (\<lambda>d p. p\<lparr>ap_lat_validity := read_validity d\<rparr>)
              (p\<lparr>ap_latitude := atof v\<rparr>)) p"

definition parse_longitude :: "string \<Rightarrow> AdifPosition \<Rightarrow> AdifPosition" where
  "parse_longitude xml p =
     on_attr (value_attr xml ''Longitude'')
       (\<lambda>v p. on_attr (validity_attr xml ''Longitude'') (\<lambda>d p. p\<lparr>ap_lon_validity := read_validity d\<rparr>)
              (p\<lparr>ap_longitude := atof v\<rparr>)) p"

definition parse_altitude :: "string \<Rightarrow> AdifPosition \<Rightarrow> AdifPosition" where
  "parse_altitude xml p =
     on_attr (value_attr xml ''BaroCorrectedAltitude'')
       (\<lambda>v p. on_attr (time_attr xml ''BaroCorrectedAltitude'') (\<lambda>t p. p\<lparr>ap_timestamp_ms := strtoul10 t\<rparr>)
              (on_attr (validity_attr xml ''BaroCorrectedAltitude'') (\<lambda>d p. p\<lparr>ap_alt_validity := read_validity d\<rparr>)
               (p\<lparr>ap_altitude_ft := atof v\<rparr>))) p"

definition parse_flight_phase :: "string \<Rightarrow> AdifFlightPhaseData \<Rightarrow> AdifFlightPhaseData" where
  "parse_flight_phase xml f =
     on_attr (value_attr xml ''FlightPhase'')
       (\<lambda>v f. on_attr (time_attr xml ''FlightPhase'') (\<lambda>t f. f\<lparr>af_timestamp_ms := strtoul10 t\<rparr>)
              (on_attr (validity_attr xml ''FlightPhase'') (\<lambda>d f. f\<lparr>af_validity := read_validity d\<rparr>)
               (f\<lparr>af_phase := adif_string_to_flight_phase (Some v)\<rparr>))) f"

definition parse_tail_number :: "string \<Rightarrow> AdifAircraftId \<Rightarrow> AdifAircraftId" where
  "parse_tail_number xml a =
     on_attr (value_attr xml ''AircraftTailNumber'')
       (\<lambda>v a. on_attr (validity_attr xml ''AircraftTailNumber'') (\<lambda>d a. a\<lparr>ai_validity := read_validity d\<rparr>)
              (a\<lparr>ai_tail_number := strncpy_buf (ADIF_MAX_TAIL_NUMBER_LEN - 1) v\<rparr>)) a"

definition parse_ground_speed :: "string \<Rightarrow> AdifSpeed \<Rightarrow> AdifSpeed" where
  "parse_ground_speed xml s =
     on_attr (value_attr xml ''GroundSpeed'')
       (\<lambda>v s. on_attr (validity_attr xml ''GroundSpeed'') (\<lambda>d s. s\<lparr>as_gs_validity := read_validity d\<rparr>)
              (s\<lparr>as_ground_speed_kts := atof v\<rparr>)) s"

definition parse_vertical_speed :: "string \<Rightarrow> AdifSpeed \<Rightarrow> AdifSpeed" where
  "parse_vertical_speed xml s =
     on_attr (value_attr xml ''VerticalSpeed'')
       (\<lambda>v s. on_attr (time_attr xml ''VerticalSpeed'') (\<lambda>t s. s\<lparr>as_timestamp_ms := strtoul10 t\<rparr>)
              (on_attr (validity_attr xml ''VerticalSpeed'') (\<lambda>d s. s\<lparr>as_vs_validity := read_validity d\<rparr>)
               (s\<lparr>as_vertical_speed_fpm := atof v\<rparr>))) s"

text \<open>\<open>None\<close> is the return value -1.\<close>

definition adif_parse_publish_xml ::
    "int \<Rightarrow> string option \<Rightarrow> AdifAircraftState \<Rightarrow> AdifAircraftState option" where
  "adif_parse_publish_xml now xml state =
     (case xml of
        None \<Rightarrow> None
      | Some x \<Rightarrow>
          let wow = parse_wow x (ad_wow state);
              position = parse_altitude x (parse_longitude x (parse_latitude x (ad_position state)));
              phase = parse_flight_phase x (ad_flight_phase state);
              aircraft = parse_tail_number x (ad_aircraft_id state);
              speed = parse_vertical_speed x (parse_ground_speed x (ad_speed state))
          in Some \<lparr>ad_wow = wow, ad_position = position, ad_flight_phase = phase,
                   ad_aircraft_id = aircraft, ad_speed = speed,
                   ad_data_valid = (aw_validity wow = VALIDITY_NORMAL \<and> af_validity phase = VALIDITY_NORMAL),
                   ad_last_update_ms = word_of_int now * 1000\<rparr>)"

section \<open>Sockets\<close>

text \<open>
  What the system answers: the descriptors that \<open>socket\<close> returns for the listener and for the
  connection, and the results of the calls on them.
\<close>

record adif_env =
  ae_listen_fd :: int
  ae_bind :: int
  ae_listen :: int
  ae_server_fd :: int
  ae_hostbyname :: "string \<Rightarrow> u32 option"
  ae_connect :: "u32 \<Rightarrow> u16 \<Rightarrow> int"
  ae_send :: "string \<Rightarrow> int"
  ae_recv :: "string option"
  ae_mutex_init :: int
  ae_thread_create :: int

definition sock_open :: "int \<Rightarrow> AdifClientContext \<Rightarrow> AdifClientContext" where
  "sock_open fd ctx = ctx\<lparr>ax_open := fd # ax_open ctx\<rparr>"

definition sock_close :: "int \<Rightarrow> AdifClientContext \<Rightarrow> AdifClientContext" where
  "sock_close fd ctx = ctx\<lparr>ax_open := remove1 fd (ax_open ctx)\<rparr>"

definition create_tcp_socket :: "int \<Rightarrow> AdifClientContext \<Rightarrow> int \<times> AdifClientContext" where
  "create_tcp_socket fd ctx = (if fd < 0 then (-1, ctx) else (fd, sock_open fd ctx))"

definition connect_to_server ::
    "adif_env \<Rightarrow> string \<Rightarrow> u16 \<Rightarrow> AdifClientContext \<Rightarrow> int \<times> AdifClientContext" where
  "connect_to_server env host port ctx =
     (let (sock, ctx) = create_tcp_socket (ae_server_fd env) ctx
      in if sock < 0 then (-1, ctx)
         else case (case ae_hostbyname env host of Some a \<Rightarrow> Some a | None \<Rightarrow> inet_pton4 host) of
                None \<Rightarrow> (-1, sock_close sock ctx)
              | Some addr \<Rightarrow>
                  if ae_connect env addr port < 0 then (-1, sock_close sock ctx) else (sock, ctx))"

definition create_async_listener :: "adif_env \<Rightarrow> u16 \<Rightarrow> AdifClientContext \<Rightarrow> int \<times> AdifClientContext" where
  "create_async_listener env port ctx =
     (let (sock, ctx) = create_tcp_socket (ae_listen_fd env) ctx
      in if sock < 0 then (-1, ctx)
         else if ae_bind env < 0 then (-1, sock_close sock ctx)
         else if ae_listen env < 0 then (-1, sock_close sock ctx)
         else (sock, ctx))"

section \<open>The receiver thread\<close>

text \<open>One message: it is read up to its first zero byte, parsed into a blank state, compared and stored.\<close>

definition adif_receive_message ::
    "int \<Rightarrow> string \<Rightarrow> AdifClientContext \<Rightarrow> AdifClientContext \<times> AdifAircraftState list" where
  "adif_receive_message now buffer ctx =
     (case adif_parse_publish_xml now (Some (takeWhile (\<lambda>c. c \<noteq> CHR 0x00) buffer)) zero_aircraft_state of
        None \<Rightarrow> (ctx, [])
      | Some new_state \<Rightarrow>
          let old_phase = af_phase (ad_flight_phase (ax_aircraft_state ctx));
              state_changed =
                (old_phase \<noteq> af_phase (ad_flight_phase new_state) \<or>
                 aw_on_ground (ad_wow (ax_aircraft_state ctx)) \<noteq> aw_on_ground (ad_wow new_state))
          in (ctx\<lparr>ax_aircraft_state := new_state\<rparr>,
              if state_changed \<and> ax_callback ctx then [new_state] else []))"

text \<open>
  What the thread meets: the flag cleared by \<open>adif_client_disconnect\<close>, a \<open>select\<close> that times out, is
  interrupted or fails, and \<open>recv\<close> with a closed connection, an error or bytes that have arrived. A
  single \<open>recv\<close> takes at most 4095 bytes; the rest is left for the next one.
\<close>

datatype adif_rx =
    RxStop
  | RxTimeout
  | RxInterrupted
  | RxSelectError
  | RxClosed
  | RxError
  | RxBytes int string

fun rx_size :: "adif_rx \<Rightarrow> nat" where
  "rx_size (RxBytes now bs) = Suc (length bs)"
| "rx_size _ = 1"

function adif_receive_loop ::
    "AdifClientContext \<Rightarrow> adif_rx list \<Rightarrow> AdifClientContext \<times> AdifAircraftState list" where
  "adif_receive_loop ctx [] = (ctx, [])"
| "adif_receive_loop ctx (e # es) =
     (if \<not> ax_running ctx then (ctx, [])
      else case e of
        RxStop \<Rightarrow> adif_receive_loop (ctx\<lparr>ax_running := False\<rparr>) es
      | RxTimeout \<Rightarrow> adif_receive_loop ctx es
      | RxInterrupted \<Rightarrow> adif_receive_loop ctx es
      | RxSelectError \<Rightarrow> (ctx, [])
      | RxClosed \<Rightarrow> (ctx, [])
      | RxError \<Rightarrow> (ctx, [])
      | RxBytes now bs \<Rightarrow>
          if bs = [] then adif_receive_loop ctx es
          else let (ctx, calls) = adif_receive_message now (take (ADIF_MAX_XML_BUFFER - 1) bs) ctx;
                   later = drop (ADIF_MAX_XML_BUFFER - 1) bs;
                   (ctx, more) = adif_receive_loop ctx (if later = [] then es else RxBytes now later # es)
               in (ctx, calls @ more))"
  by pat_completeness auto
termination
  by (relation "measure (\<lambda>(_, es). sum_list (map rx_size es))")
     (auto split: if_splits)

declare adif_receive_loop.simps(2) [simp del]

text \<open>
  The loop that waits for the server: each element is one second of waiting, with the descriptor that
  \<open>accept\<close> returned (negative on failure), nothing, or the flag cleared meanwhile.
\<close>

datatype adif_wait = WaitTimeout | WaitStop | WaitAccept int

fun adif_accept_loop :: "AdifClientContext \<Rightarrow> adif_wait list \<Rightarrow> AdifClientContext \<times> int" where
  "adif_accept_loop ctx [] = (ctx, -1)"
| "adif_accept_loop ctx (e # es) =
     (if \<not> ax_running ctx then (ctx, -1)
      else case e of
        WaitTimeout \<Rightarrow> adif_accept_loop ctx es
      | WaitStop \<Rightarrow> adif_accept_loop (ctx\<lparr>ax_running := False\<rparr>) es
      | WaitAccept fd \<Rightarrow>
          if fd < 0 then adif_accept_loop ctx es else (sock_open fd ctx, fd))"

definition adif_receiver_thread ::
    "adif_wait list \<Rightarrow> adif_rx list \<Rightarrow> AdifClientContext \<Rightarrow> AdifClientContext \<times> AdifAircraftState list" where
  "adif_receiver_thread waits events ctx =
     (let (ctx, async_client) = adif_accept_loop ctx waits
      in if async_client < 0 then (ctx, [])
         else let (ctx, calls) = adif_receive_loop ctx events
              in (sock_close async_client ctx, calls))"

section \<open>The client\<close>

definition default_adif_config :: AdifClientConfig where
  "default_adif_config =
     \<lparr>ag_server_host = ''127.0.0.1'', ag_server_port = 4000, ag_async_port = 64001,
      ag_refresh_period_ms = 1000, ag_auto_reconnect = True, ag_reconnect_interval_ms = 5000\<rparr>"

definition adif_client_init :: "adif_env \<Rightarrow> AdifClientConfig option \<Rightarrow> int \<times> AdifClientContext" where
  "adif_client_init env config =
     (let ctx = \<lparr>ax_config = (case config of Some c \<Rightarrow> c | None \<Rightarrow> default_adif_config),
                 ax_state = ADIF_CLIENT_DISCONNECTED, ax_aircraft_state = zero_aircraft_state,
                 ax_sync_sock = -1, ax_async_sock = -1, ax_running = False, ax_callback = False,
                 ax_error_msg = [], ax_open = []\<rparr>
      in if ae_mutex_init env \<noteq> 0 then (-1, ctx)
         else (0, ctx\<lparr>ax_aircraft_state := zero_aircraft_state
                  \<lparr>ad_wow := (ad_wow zero_aircraft_state)\<lparr>aw_on_ground := True, aw_validity := VALIDITY_NORMAL\<rparr>,
                   ad_flight_phase := (ad_flight_phase zero_aircraft_state)
                      \<lparr>af_phase := FLIGHT_PHASE_GATE, af_validity := VALIDITY_NORMAL\<rparr>\<rparr>\<rparr>))"

text \<open>
  \<open>pthread_join\<close> waits until the receiver, the function of the last section, has noticed the cleared flag;
  what that thread still stores in the aircraft state belongs to its own run and not to this step.
\<close>

definition adif_client_disconnect :: "AdifClientContext \<Rightarrow> AdifClientContext" where
  "adif_client_disconnect ctx =
     (let ctx = ctx\<lparr>ax_running := False\<rparr>;
          ctx = (if ax_sync_sock ctx \<ge> 0 then (sock_close (ax_sync_sock ctx) ctx)\<lparr>ax_sync_sock := -1\<rparr> else ctx);
          ctx = (if ax_async_sock ctx \<ge> 0 then (sock_close (ax_async_sock ctx) ctx)\<lparr>ax_async_sock := -1\<rparr> else ctx)
      in ctx\<lparr>ax_state := ADIF_CLIENT_DISCONNECTED\<rparr>)"

definition adif_client_connect :: "adif_env \<Rightarrow> AdifClientContext \<Rightarrow> int \<times> AdifClientContext" where
  "adif_client_connect env ctx =
     (let cfg = ax_config ctx;
          ctx = ctx\<lparr>ax_state := ADIF_CLIENT_CONNECTING\<rparr>;
          (async, ctx) = create_async_listener env (ag_async_port cfg) ctx;
          ctx = ctx\<lparr>ax_async_sock := async\<rparr>
      in if async < 0
         then (-1, ctx\<lparr>ax_state := ADIF_CLIENT_ERROR,
                       ax_error_msg := snprintf_buf 128
                         (''Failed to create async listener on port '' @ show_word (ag_async_port cfg))\<rparr>)
         else let (sync, ctx) = connect_to_server env (ag_server_host cfg) (ag_server_port cfg) ctx;
                  ctx = ctx\<lparr>ax_sync_sock := sync\<rparr>
              in if sync < 0
                 then (-1, (sock_close (ax_async_sock ctx) ctx)
                           \<lparr>ax_async_sock := -1, ax_state := ADIF_CLIENT_ERROR,
                            ax_error_msg := snprintf_buf 128
                              (''Failed to connect to ADIF server '' @ ag_server_host cfg @ '':'' @
                               show_word (ag_server_port cfg))\<rparr>)
                 else let (xml_len, xml) = adif_generate_subscribe_xml (Some ADIF_MAX_XML_BUFFER)
                                             (ag_async_port cfg) (ag_refresh_period_ms cfg)
                      in if xml_len < 0 then (-1, adif_client_disconnect ctx)
                         else if ae_send env xml \<noteq> xml_len then (-1, adif_client_disconnect ctx)
                         else case ae_recv env of
                                None \<Rightarrow> (-1, adif_client_disconnect ctx)
                              | Some response \<Rightarrow>
                                  if response = [] then (-1, adif_client_disconnect ctx)
                                  else if strstr (takeWhile (\<lambda>c. c \<noteq> CHR 0x00)
                                                    (take (ADIF_MAX_XML_BUFFER - 1) response))
                                                 (''errorcode='' @ dquoted ''0'') = None
                                  then (-1, adif_client_disconnect ctx)
                                  else let ctx = ctx\<lparr>ax_running := True\<rparr>
                                       in if ae_thread_create env \<noteq> 0
                                          then (-1, adif_client_disconnect (ctx\<lparr>ax_running := False\<rparr>))
                                          else (0, ctx\<lparr>ax_state := ADIF_CLIENT_SUBSCRIBED\<rparr>))"

definition adif_client_get_state :: "AdifClientContext \<Rightarrow> AdifAircraftState" where
  "adif_client_get_state ctx = ax_aircraft_state ctx"

definition adif_client_set_callback :: "AdifClientContext \<Rightarrow> bool \<Rightarrow> AdifClientContext" where
  "adif_client_set_callback ctx callback = ctx\<lparr>ax_callback := callback\<rparr>"

definition adif_client_is_connected :: "AdifClientContext \<Rightarrow> bool" where
  "adif_client_is_connected ctx \<longleftrightarrow> ax_state ctx = ADIF_CLIENT_SUBSCRIBED"

definition adif_client_cleanup :: "AdifClientContext \<Rightarrow> AdifClientContext" where
  "adif_client_cleanup ctx = adif_client_disconnect ctx"

end
