(* ===== verification/Adif_Props.thy ===== *)
theory Adif_Props
  imports Adif
begin

text \<open>
  Properties of the aircraft data interface: the flight-phase names, the messages, what the receiver
  reports, and the life cycle of the client with its sockets.
\<close>

section \<open>Flight phases\<close>

lemmas phase_text_defs = adif_string_to_flight_phase_def adif_flight_phase_to_string_def
  flight_phase_strings_def strcasecmp_eq_def tolower_def

lemma flight_phase_roundtrip: "adif_string_to_flight_phase (Some (adif_flight_phase_to_string p)) = p"
  by (cases p) (simp_all add: phase_text_defs)

lemma policy_phase_roundtrip:
  "p = FLIGHT_PHASE_UNKNOWN \<or> adif_string_to_flight_phase (Some (adif_phase_to_policy_phase p)) = p"
  by (cases p) (simp_all add: phase_text_defs)

lemma reevaluate_groups: "adif_should_reevaluate_routing p q \<longleftrightarrow> phase_group p \<noteq> phase_group q"
  by (auto simp: adif_should_reevaluate_routing_def)

lemma reevaluate_equivp: "equivp (\<lambda>p q. \<not> adif_should_reevaluate_routing p q)"
  by (auto simp: reevaluate_groups intro!: equivpI reflpI sympI transpI)

section \<open>The subscription\<close>

lemma dquoted_length: "length (dquoted s) = length s + 2"
  by (simp add: dquoted_def)

lemma subscribe_text_length:
  "length (subscribe_text a r) = 564 + length (show_word a) + length (show_word r)"
  by (simp add: subscribe_text_def subscribe_parameter_def dquoted_length)

lemma subscribe_fits:
  "adif_generate_subscribe_xml (Some ADIF_MAX_XML_BUFFER) a r =
     (int (length (subscribe_text a r)), subscribe_text a r)"
  using show_word_length [of a] show_word_length [of r]
  by (simp add: adif_generate_subscribe_xml_def Let_def subscribe_text_length snprintf_buf_def)

section \<open>What the receiver reports\<close>

text \<open>The two things whose change is reported, and the state a message leaves.\<close>

definition phase_wow :: "AdifAircraftState \<Rightarrow> AdifFlightPhase \<times> bool" where
  "phase_wow s = (af_phase (ad_flight_phase s), aw_on_ground (ad_wow s))"

definition message_state :: "int \<Rightarrow> string \<Rightarrow> AdifAircraftState" where
  "message_state now m =
     the (adif_parse_publish_xml now (Some (takeWhile (\<lambda>c. c \<noteq> CHR 0x00) m)) zero_aircraft_state)"

lemma parse_total: "\<exists>s. adif_parse_publish_xml now (Some x) st = Some s"
  by (simp add: adif_parse_publish_xml_def Let_def)

lemma receive_message_eq:
  "adif_receive_message now m ctx =
     (ctx\<lparr>ax_aircraft_state := message_state now m\<rparr>,
      if phase_wow (message_state now m) \<noteq> phase_wow (ax_aircraft_state ctx) \<and> ax_callback ctx
      then [message_state now m] else [])"
proof -
  obtain s where "adif_parse_publish_xml now (Some (takeWhile (\<lambda>c. c \<noteq> CHR 0x00) m)) zero_aircraft_state = Some s"
    using parse_total by blast
  then show ?thesis
    by (auto simp: adif_receive_message_def message_state_def phase_wow_def Let_def)
qed

definition rx_messages :: "(int \<times> string) list \<Rightarrow> adif_rx list" where
  "rx_messages ms = map (\<lambda>(now, m). RxBytes now m) ms"

definition whole_message :: "int \<times> string \<Rightarrow> bool" where
  "whole_message m \<longleftrightarrow> snd m \<noteq> [] \<and> length (snd m) < ADIF_MAX_XML_BUFFER"

lemma loop_bytes:
  assumes "bs \<noteq> []" and "ax_running ctx"
  shows "fst (adif_receive_loop ctx (RxBytes now bs # es)) =
     fst (adif_receive_loop (fst (adif_receive_message now (take (ADIF_MAX_XML_BUFFER - 1) bs) ctx))
           (if drop (ADIF_MAX_XML_BUFFER - 1) bs = [] then es
            else RxBytes now (drop (ADIF_MAX_XML_BUFFER - 1) bs) # es))"
  using assms by (subst adif_receive_loop.simps(2)) (simp add: Let_def case_prod_beta)

lemma loop_message:
  assumes "whole_message (now, m)" and "ax_running ctx"
  shows "adif_receive_loop ctx (RxBytes now m # es) =
     (let (ctx', calls) = adif_receive_message now m ctx; (ctx'', more) = adif_receive_loop ctx' es
      in (ctx'', calls @ more))"
  using assms by (subst adif_receive_loop.simps(2)) (simp add: whole_message_def Let_def case_prod_beta)

lemma tl_remdups_adj:
  "tl (remdups_adj (a # b # xs)) =
     (if a = b then tl (remdups_adj (b # xs)) else b # tl (remdups_adj (b # xs)))"
  using hd_remdups_adj [of "b # xs"] by (cases "remdups_adj (b # xs)") auto

lemma receive_messages:
  assumes "\<forall>m\<in>set ms. whole_message m" and "ax_running ctx" and "ax_callback ctx"
  shows "ax_aircraft_state (fst (adif_receive_loop ctx (rx_messages ms))) =
           last (ax_aircraft_state ctx # map (\<lambda>(now, m). message_state now m) ms)
       \<and> map phase_wow (snd (adif_receive_loop ctx (rx_messages ms))) =
           tl (remdups_adj (map phase_wow (ax_aircraft_state ctx # map (\<lambda>(now, m). message_state now m) ms)))"
  using assms
proof (induction ms arbitrary: ctx)
  case Nil
  then show ?case by (simp add: rx_messages_def)
next
  case (Cons a ms)
  obtain now m where a: "a = (now, m)" by (cases a)
  let ?s = "message_state now m"
  let ?ctx = "ctx\<lparr>ax_aircraft_state := ?s\<rparr>"
  have w: "whole_message (now, m)" and ms: "\<forall>m\<in>set ms. whole_message m"
    using Cons.prems(1) a by auto
  note loop = loop_message [OF w Cons.prems(2)]
  note step = Cons.IH [OF ms, of ?ctx]
  show ?case
    using step Cons.prems(2,3)
    by (simp add: a rx_messages_def loop [unfolded rx_messages_def] receive_message_eq case_prod_beta
        Let_def tl_remdups_adj eq_commute [of "phase_wow ?s"] del: remdups_adj.simps(3))
qed

text \<open>
  C23. The receiver reports changes and only changes: over any sequence of published messages that each
  arrive whole, the flight phase and weight-on-wheels pairs handed to the callback are the sequence of
  received pairs with consecutive repetitions removed, starting from the stored one, and the stored
  state is the last message's. No change is lost, reordered or reported twice.
\<close>
theorem receiver_reports_changes:
  assumes "\<forall>m\<in>set ms. whole_message m" and "ax_running ctx" and "ax_callback ctx"
  shows "adif_client_get_state (fst (adif_receive_loop ctx (rx_messages ms))) =
           last (ax_aircraft_state ctx # map (\<lambda>(now, m). message_state now m) ms)
       \<and> map phase_wow (snd (adif_receive_loop ctx (rx_messages ms))) =
           tl (remdups_adj (map phase_wow (ax_aircraft_state ctx # map (\<lambda>(now, m). message_state now m) ms)))"
  unfolding adif_client_get_state_def by (rule receive_messages [OF assms])

text \<open>A report in the shape the server publishes.\<close>

definition publish_parameter :: "string \<Rightarrow> string \<Rightarrow> string \<Rightarrow> string \<Rightarrow> string" where
  "publish_parameter name v validity time =
     ''<parameter name='' @ dquoted name @ '' value='' @ dquoted v @ '' validity='' @ dquoted validity @
     '' time='' @ dquoted time @ ''/>''"

definition sample_report :: "string \<Rightarrow> string \<Rightarrow> string" where
  "sample_report wow phase =
     publish_parameter ''WeightOnWheels'' wow ''1'' ''5'' @ publish_parameter ''FlightPhase'' phase ''1'' ''5''"

definition sample_env :: adif_env where
  "sample_env = \<lparr>ae_listen_fd = 7, ae_bind = 0, ae_listen = 0, ae_server_fd = 8, ae_hostbyname = (\<lambda>_. Some 1),
                 ae_connect = (\<lambda>_ _. 0), ae_send = (\<lambda>s. int (length s)), ae_recv = Some (''errorcode='' @ dquoted ''0''),
                 ae_mutex_init = 0, ae_thread_create = 0\<rparr>"

definition sample_adif :: AdifClientContext where
  "sample_adif = (snd (adif_client_init sample_env None))\<lparr>ax_running := True, ax_callback := True\<rparr>"

lemma sample_messages:
  "phase_wow (message_state 9 (sample_report ''0'' ''TAXI'')) = (FLIGHT_PHASE_TAXI, True)"
  "phase_wow (message_state 10 (sample_report ''0'' ''TAXI'')) = (FLIGHT_PHASE_TAXI, True)"
  "phase_wow (message_state 11 (sample_report ''1'' ''CLIMB'')) = (FLIGHT_PHASE_CLIMB, False)"
  by code_simp+

text \<open>Two taxi reports and one in the climb, received at the gate: the taxi and the climb are reported, once each.\<close>

theorem receiver_reports_changes_witness:
  "map phase_wow (snd (adif_receive_loop sample_adif
      (rx_messages [(9, sample_report ''0'' ''TAXI''), (10, sample_report ''0'' ''TAXI''),
                    (11, sample_report ''1'' ''CLIMB'')]))) =
     [(FLIGHT_PHASE_TAXI, True), (FLIGHT_PHASE_CLIMB, False)]"
proof -
  have w: "\<forall>m\<in>set [(9, sample_report ''0'' ''TAXI''), (10, sample_report ''0'' ''TAXI''),
                     (11, sample_report ''1'' ''CLIMB'')]. whole_message m"
    by (simp add: whole_message_def sample_report_def publish_parameter_def dquoted_length)
  have c: "ax_running sample_adif" "ax_callback sample_adif"
    "phase_wow (ax_aircraft_state sample_adif) = (FLIGHT_PHASE_GATE, True)"
    by (simp_all add: sample_adif_def adif_client_init_def sample_env_def phase_wow_def)
  show ?thesis
    using receiver_reports_changes [OF w c(1,2)] by (simp add: c(3) sample_messages)
qed

section \<open>Incomplete reports\<close>

lemma on_attr_None [simp]: "on_attr None f x = x"
  by (simp add: on_attr_def)

lemma attr_None:
  "length tag < 100 \<Longrightarrow> strstr x (''name='' @ dquoted tag) = None \<Longrightarrow> extract_xml_attr x tag attr n = None"
  by (simp add: extract_xml_attr_def snprintf_buf_def dquoted_length)

text \<open>
  A report without the weight-on-wheels parameter, for instance one that arrives in two pieces, is
  stored as it is: the aircraft becomes airborne with invalid data, whatever was known before, and when
  it was known to be on the ground the callback is run with that invalid state.
\<close>
lemma report_without_wow_means_airborne:
  assumes "strstr (takeWhile (\<lambda>c. c \<noteq> CHR 0x00) m) (''name='' @ dquoted ''WeightOnWheels'') = None"
    and "aw_on_ground (ad_wow (ax_aircraft_state ctx))" and "ax_callback ctx"
  shows "\<exists>s. adif_receive_message now m ctx = (ctx\<lparr>ax_aircraft_state := s\<rparr>, [s])
             \<and> \<not> aw_on_ground (ad_wow s) \<and> \<not> ad_data_valid s"
proof -
  let ?s = "message_state now m"
  have "ad_wow ?s = ad_wow zero_aircraft_state"
    using attr_None [OF _ assms(1)]
    by (simp add: message_state_def adif_parse_publish_xml_def Let_def parse_wow_def)
  moreover have "ad_data_valid ?s \<longleftrightarrow> aw_validity (ad_wow ?s) = 1 \<and> af_validity (ad_flight_phase ?s) = 1"
    by (simp add: message_state_def adif_parse_publish_xml_def Let_def)
  ultimately have s: "\<not> aw_on_ground (ad_wow ?s)" "\<not> ad_data_valid ?s"
    by (simp_all add: zero_aircraft_state_def)
  moreover have "phase_wow ?s \<noteq> phase_wow (ax_aircraft_state ctx)"
    using s(1) assms(2) by (auto simp: phase_wow_def)
  ultimately show ?thesis using assms(3) by (auto simp: receive_message_eq)
qed

lemma report_without_wow_means_airborne_witness:
  "\<exists>s. adif_receive_message 9 (publish_parameter ''FlightPhase'' ''GATE'' ''1'' ''5'') sample_adif =
         (sample_adif\<lparr>ax_aircraft_state := s\<rparr>, [s]) \<and> \<not> aw_on_ground (ad_wow s) \<and> \<not> ad_data_valid s"
proof (rule report_without_wow_means_airborne)
  show "strstr (takeWhile (\<lambda>c. c \<noteq> CHR 0x00) (publish_parameter ''FlightPhase'' ''GATE'' ''1'' ''5''))
          (''name='' @ dquoted ''WeightOnWheels'') = None"
    by code_simp
  show "aw_on_ground (ad_wow (ax_aircraft_state sample_adif))" "ax_callback sample_adif"
    by (simp_all add: sample_adif_def adif_client_init_def sample_env_def)
qed

text \<open>
  An attribute a parameter does not carry is taken from a later parameter: the reader does not stop at
  the end of the element.
\<close>

lemma missing_attribute_read_from_next_parameter:
  "extract_xml_attr
     (''<parameter name='' @ dquoted ''WeightOnWheels'' @ '' value='' @ dquoted ''0'' @ ''/>'' @
      publish_parameter ''FlightPhase'' ''CRUISE'' ''1'' ''5'') ''WeightOnWheels'' ''validity'' 8 = Some ''1''"
  by code_simp

section \<open>Life cycle\<close>

text \<open>The descriptors the context owns are the ones that are open, and the receiver runs only while subscribed.\<close>

definition adif_owned :: "AdifClientContext \<Rightarrow> int list" where
  "adif_owned ctx = filter (\<lambda>fd. 0 \<le> fd) [ax_sync_sock ctx, ax_async_sock ctx]"

definition adif_inv :: "AdifClientContext \<Rightarrow> bool" where
  "adif_inv ctx \<longleftrightarrow> ax_open ctx = adif_owned ctx
     \<and> (ax_state ctx = ADIF_CLIENT_SUBSCRIBED \<longleftrightarrow> adif_owned ctx \<noteq> [])
     \<and> (ax_running ctx \<longrightarrow> ax_state ctx = ADIF_CLIENT_SUBSCRIBED)
     \<and> ax_state ctx \<noteq> ADIF_CLIENT_CONNECTING"

lemmas socket_defs = create_async_listener_def connect_to_server_def create_tcp_socket_def
  sock_open_def sock_close_def

lemma listener_cases:
  "create_async_listener env port ctx = (-1, ctx) \<or>
   (0 \<le> ae_listen_fd env \<and> create_async_listener env port ctx = (ae_listen_fd env, sock_open (ae_listen_fd env) ctx))"
  by (auto simp: socket_defs Let_def)

lemma server_cases:
  "connect_to_server env host port ctx = (-1, ctx) \<or>
   (0 \<le> ae_server_fd env \<and> connect_to_server env host port ctx = (ae_server_fd env, sock_open (ae_server_fd env) ctx))"
  by (auto simp: socket_defs Let_def split: option.splits)

text \<open>The outcomes of a connection attempt: no descriptor more than before unless it succeeds.\<close>

definition connect_succeeded :: "adif_env \<Rightarrow> AdifClientContext \<Rightarrow> AdifClientContext \<Rightarrow> bool" where
  "connect_succeeded env ctx ctx' \<longleftrightarrow>
     ax_open ctx' = ae_server_fd env # ae_listen_fd env # ax_open ctx
     \<and> ax_sync_sock ctx' = ae_server_fd env \<and> ax_async_sock ctx' = ae_listen_fd env
     \<and> 0 \<le> ae_server_fd env \<and> 0 \<le> ae_listen_fd env \<and> ax_running ctx'
     \<and> ax_state ctx' = ADIF_CLIENT_SUBSCRIBED"

definition connect_failed :: "AdifClientContext \<Rightarrow> AdifClientContext \<Rightarrow> bool" where
  "connect_failed ctx ctx' \<longleftrightarrow>
     ax_open ctx' = ax_open ctx \<and> ax_async_sock ctx' = -1
     \<and> (ax_sync_sock ctx' = -1 \<or> ax_sync_sock ctx' = ax_sync_sock ctx)
     \<and> (ax_running ctx' \<longrightarrow> ax_running ctx)
     \<and> (ax_state ctx' = ADIF_CLIENT_ERROR \<or> ax_state ctx' = ADIF_CLIENT_DISCONNECTED)"

lemma connect_outcome:
  "(fst (adif_client_connect env ctx) = 0 \<and> connect_succeeded env ctx (snd (adif_client_connect env ctx)))
   \<or> (fst (adif_client_connect env ctx) = -1 \<and> connect_failed ctx (snd (adif_client_connect env ctx)))"
proof -
  let ?c = "ctx\<lparr>ax_state := ADIF_CLIENT_CONNECTING\<rparr>"
  let ?cfg = "ax_config ctx"
  consider (no_listener) "create_async_listener env (ag_async_port ?cfg) ?c = (-1, ?c)"
    | (listener) "0 \<le> ae_listen_fd env" "create_async_listener env (ag_async_port ?cfg) ?c =
        (ae_listen_fd env, sock_open (ae_listen_fd env) ?c)"
    using listener_cases by blast
  then show ?thesis
  proof cases
    case no_listener
    then show ?thesis by (simp add: adif_client_connect_def Let_def connect_failed_def)
  next
    case listener
    let ?l = "(sock_open (ae_listen_fd env) ?c)\<lparr>ax_async_sock := ae_listen_fd env\<rparr>"
    consider (no_server) "connect_to_server env (ag_server_host ?cfg) (ag_server_port ?cfg) ?l = (-1, ?l)"
      | (server) "0 \<le> ae_server_fd env"
          "connect_to_server env (ag_server_host ?cfg) (ag_server_port ?cfg) ?l =
             (ae_server_fd env, sock_open (ae_server_fd env) ?l)"
      using server_cases by blast
    then show ?thesis
    proof cases
      case no_server
      with listener show ?thesis
        by (simp add: adif_client_connect_def Let_def sock_open_def sock_close_def connect_failed_def)
    next
      case server
      with listener show ?thesis
        by (simp add: adif_client_connect_def Let_def sock_open_def sock_close_def subscribe_fits
             adif_client_disconnect_def connect_failed_def connect_succeeded_def split: option.split)
    qed
  qed
qed

text \<open>
  The life of a client: it connects when it is not subscribed, its receiver thread runs while the flag
  is set, its callback is set at any time and it may be disconnected at any time.
\<close>

inductive adif_step :: "AdifClientContext \<Rightarrow> AdifClientContext \<Rightarrow> bool" where
  connects: "ax_state ctx \<noteq> ADIF_CLIENT_SUBSCRIBED \<Longrightarrow> adif_step ctx (snd (adif_client_connect env ctx))"
| receives: "ax_running ctx \<Longrightarrow> adif_step ctx (fst (adif_receiver_thread waits events ctx))"
| disconnects: "adif_step ctx (adif_client_disconnect ctx)"
| sets_callback: "adif_step ctx (adif_client_set_callback ctx f)"

definition same_sockets :: "AdifClientContext \<Rightarrow> AdifClientContext \<Rightarrow> bool" where
  "same_sockets ctx ctx' \<longleftrightarrow> ax_open ctx' = ax_open ctx \<and> ax_sync_sock ctx' = ax_sync_sock ctx
     \<and> ax_async_sock ctx' = ax_async_sock ctx \<and> ax_state ctx' = ax_state ctx
     \<and> (ax_running ctx' \<longrightarrow> ax_running ctx)"

lemma same_sockets_trans: "same_sockets a b \<Longrightarrow> same_sockets b c \<Longrightarrow> same_sockets a c"
  by (simp add: same_sockets_def)

lemma same_sockets_running: "same_sockets ctx (ctx\<lparr>ax_running := False\<rparr>)"
  by (simp add: same_sockets_def)

lemma same_sockets_message: "same_sockets ctx (fst (adif_receive_message now m ctx))"
  by (simp add: same_sockets_def receive_message_eq)

lemma receive_loop_sockets: "same_sockets ctx (fst (adif_receive_loop ctx es))"
proof (induction ctx es rule: adif_receive_loop.induct)
  case (1 ctx)
  then show ?case by (simp add: same_sockets_def)
next
  case (2 ctx e es)
  show ?case
  proof (cases "ax_running ctx")
    case False
    then show ?thesis by (simp add: adif_receive_loop.simps(2) same_sockets_def)
  next
    case True
    show ?thesis
    proof (cases e)
      case RxStop
      then show ?thesis
        using 2(1) True same_sockets_trans [OF same_sockets_running] by (simp add: adif_receive_loop.simps(2))
    next
      case (RxBytes now bs)
      let ?r = "adif_receive_message now (take (ADIF_MAX_XML_BUFFER - 1) bs) ctx"
      show ?thesis
      proof (cases "bs = []")
        case True
        with RxBytes \<open>ax_running ctx\<close> 2(4) show ?thesis by (simp add: adif_receive_loop.simps(2))
      next
        case False
        have "same_sockets (fst ?r) (fst (adif_receive_loop (fst ?r)
            (if drop (ADIF_MAX_XML_BUFFER - 1) bs = [] then es
             else RxBytes now (drop (ADIF_MAX_XML_BUFFER - 1) bs) # es)))"
          using 2(5) [OF _ RxBytes False, of ?r "fst ?r" "snd ?r"] \<open>ax_running ctx\<close>
          by (cases "length bs \<le> 4095") simp_all
        then show ?thesis
          unfolding RxBytes loop_bytes [OF False \<open>ax_running ctx\<close>]
          by (rule same_sockets_trans [OF same_sockets_message])
      qed
    qed (use 2(2,3) True in \<open>auto simp: adif_receive_loop.simps(2) same_sockets_def\<close>)
  qed
qed

lemma accept_loop_sockets:
  "(snd (adif_accept_loop ctx ws) < 0 \<and> same_sockets ctx (fst (adif_accept_loop ctx ws)))
   \<or> (0 \<le> snd (adif_accept_loop ctx ws) \<and>
      (\<exists>c. same_sockets ctx c \<and> fst (adif_accept_loop ctx ws) = sock_open (snd (adif_accept_loop ctx ws)) c))"
proof (induction ctx ws rule: adif_accept_loop.induct)
  case (2 ctx e es)
  then show ?case
    by (cases e) (auto simp: same_sockets_def intro: same_sockets_trans [OF same_sockets_running])
qed (simp add: same_sockets_def)

lemma receiver_thread_sockets: "same_sockets ctx (fst (adif_receiver_thread ws es ctx))"
proof -
  obtain c fd where a: "adif_accept_loop ctx ws = (c, fd)" by (cases "adif_accept_loop ctx ws")
  then consider "fd < 0" "same_sockets ctx c"
    | c' where "0 \<le> fd" "same_sockets ctx c'" "c = sock_open fd c'"
    using accept_loop_sockets [of ctx ws] by auto
  then show ?thesis
  proof cases
    case 1
    then show ?thesis by (simp add: adif_receiver_thread_def a)
  next
    case 2
    then show ?thesis
      using receive_loop_sockets [of c es]
      by (auto simp: adif_receiver_thread_def a case_prod_beta same_sockets_def sock_open_def sock_close_def)
  qed
qed

lemma same_sockets_inv: "same_sockets ctx ctx' \<Longrightarrow> adif_inv ctx \<Longrightarrow> adif_inv ctx'"
  by (simp add: same_sockets_def adif_inv_def adif_owned_def)

lemma adif_init_inv: "adif_inv (snd (adif_client_init env cfg))"
  by (simp add: adif_client_init_def adif_inv_def adif_owned_def Let_def)

lemma connect_inv:
  assumes "adif_inv ctx" and "ax_state ctx \<noteq> ADIF_CLIENT_SUBSCRIBED"
  shows "adif_inv (snd (adif_client_connect env ctx))"
proof -
  have "ax_open ctx = []" "ax_sync_sock ctx < 0"
    using assms by (auto simp: adif_inv_def adif_owned_def split: if_splits)
  then show ?thesis
    using connect_outcome [of env ctx] assms
    by (auto simp: connect_succeeded_def connect_failed_def adif_inv_def adif_owned_def)
qed

lemma disconnect_releases:
  assumes "adif_inv ctx"
  shows "ax_open (adif_client_disconnect ctx) = [] \<and> adif_inv (adif_client_disconnect ctx)"
  using assms
  by (auto simp: adif_client_disconnect_def adif_inv_def adif_owned_def Let_def sock_close_def split: if_splits)

lemma adif_step_inv: "adif_step ctx ctx' \<Longrightarrow> adif_inv ctx \<Longrightarrow> adif_inv ctx'"
proof (induction rule: adif_step.induct)
  case (sets_callback ctx f)
  then show ?case by (simp add: adif_client_set_callback_def adif_inv_def adif_owned_def)
qed (use connect_inv disconnect_releases same_sockets_inv [OF receiver_thread_sockets] in auto)

lemma adif_steps_inv: "adif_step\<^sup>*\<^sup>* ctx ctx' \<Longrightarrow> adif_inv ctx \<Longrightarrow> adif_inv ctx'"
  by (induction rule: rtranclp_induct) (auto intro: adif_step_inv)

text \<open>
  C24. No descriptor leaks: after any history of a client - failed and successful connections, runs of
  the receiver with whatever the network delivers, disconnections - the open descriptors are exactly the
  ones its context holds, it holds some exactly when it is subscribed, and cleaning up closes them all.
\<close>
theorem adif_no_descriptor_leak:
  assumes "adif_step\<^sup>*\<^sup>* (snd (adif_client_init env cfg)) ctx"
  shows "ax_open ctx = adif_owned ctx
       \<and> (adif_client_is_connected ctx \<longleftrightarrow> adif_owned ctx \<noteq> [])
       \<and> ax_open (adif_client_cleanup ctx) = []"
proof -
  have i: "adif_inv ctx" by (rule adif_steps_inv [OF assms adif_init_inv])
  then show ?thesis
    using disconnect_releases [OF i]
    by (auto simp: adif_inv_def adif_client_is_connected_def adif_client_cleanup_def)
qed

lemma sample_connect:
  "ax_open (snd (adif_client_connect sample_env (snd (adif_client_init sample_env None)))) = [8, 7]"
  by (simp add: adif_client_connect_def adif_client_init_def sample_env_def default_adif_config_def Let_def
      socket_defs subscribe_fits dquoted_def)

theorem adif_no_descriptor_leak_witness:
  "let ctx = snd (adif_client_connect sample_env (snd (adif_client_init sample_env None)))
   in adif_owned ctx = [8, 7] \<and> adif_client_is_connected ctx \<and> ax_open (adif_client_cleanup ctx) = []"
proof -
  let ?i = "snd (adif_client_init sample_env None)"
  have "adif_step\<^sup>*\<^sup>* ?i (snd (adif_client_connect sample_env ?i))"
    by (intro r_into_rtranclp connects) (simp add: adif_client_init_def sample_env_def)
  from adif_no_descriptor_leak [OF this] show ?thesis
    unfolding Let_def sample_connect by (metis list.distinct(1))
qed

text \<open>
  When the server closes the data connection the receiver ends and the client still counts as
  subscribed: nothing sets the state back and the \<open>auto_reconnect\<close> setting has no effect.
\<close>

lemma closed_connection_stays_subscribed:
  assumes "ax_state ctx = ADIF_CLIENT_SUBSCRIBED" and "ax_running ctx" and "0 \<le> fd"
  shows "adif_client_is_connected (fst (adif_receiver_thread [WaitAccept fd] [RxClosed] ctx))"
  using assms
  by (simp add: adif_receiver_thread_def adif_receive_loop.simps(2) sock_open_def sock_close_def
      adif_client_is_connected_def)

end
