(* ===== verification/Adif_Stop.thy ===== *)
theory Adif_Stop
  imports Adif_Props
begin

text \<open>
  Termination of the receiver of aircraft data. The thread is a total function of what it meets, so it
  returns when the events end; clearing the flag ends it earlier, and nothing after that is read.
\<close>

lemma stopped_receiver: "\<not> ax_running ctx \<Longrightarrow> adif_receive_loop ctx es = (ctx, [])"
  by (cases es) (simp_all add: adif_receive_loop.simps(2))

lemma stopped_waiting: "\<not> ax_running ctx \<Longrightarrow> adif_accept_loop ctx ws = (ctx, -1)"
  by (cases ws) simp_all

lemma accept_stops: "adif_accept_loop ctx (ws @ WaitStop # ws') = adif_accept_loop ctx (ws @ [WaitStop])"
  by (induction ws arbitrary: ctx) (simp_all add: stopped_waiting split: adif_wait.split)

lemma receive_stops: "adif_receive_loop ctx (es @ RxStop # es') = adif_receive_loop ctx (es @ [RxStop])"
proof (induction ctx es rule: adif_receive_loop.induct)
  case (1 ctx)
  then show ?case by (simp add: adif_receive_loop.simps(2) stopped_receiver)
next
  case (2 ctx e es)
  show ?case
  proof (cases "ax_running ctx")
    case True
    show ?thesis
    proof (cases e)
      case (RxBytes now bs)
      let ?r = "adif_receive_message now (take (ADIF_MAX_XML_BUFFER - 1) bs) ctx"
      have "bs \<noteq> [] \<Longrightarrow> ?thesis"
        using 2(5) [OF _ RxBytes, of ?r "fst ?r" "snd ?r"] True RxBytes
        by (cases "length bs \<le> 4095") (simp_all add: adif_receive_loop.simps(2) case_prod_beta)
      moreover have "bs = [] \<Longrightarrow> ?thesis" using 2(4) RxBytes True by (simp add: adif_receive_loop.simps(2))
      ultimately show ?thesis by blast
    qed (use 2(1-3) True in \<open>simp_all add: adif_receive_loop.simps(2)\<close>)
  qed (simp add: stopped_receiver)
qed

text \<open>
  One call of the subscriber needs a message of the server, so their number is bounded by the bytes that
  arrived.
\<close>

lemma loop_bytes_calls:
  assumes "bs \<noteq> []" and "ax_running ctx"
  shows "snd (adif_receive_loop ctx (RxBytes now bs # es)) =
    (let (ctx', calls) = adif_receive_message now (take (ADIF_MAX_XML_BUFFER - 1) bs) ctx;
         later = drop (ADIF_MAX_XML_BUFFER - 1) bs
     in calls @ snd (adif_receive_loop ctx' (if later = [] then es else RxBytes now later # es)))"
  using assms by (subst adif_receive_loop.simps(2)) (simp add: Let_def case_prod_beta)

lemma calls_bounded: "length (snd (adif_receive_loop ctx es)) \<le> sum_list (map rx_size es)"
proof (induction ctx es rule: adif_receive_loop.induct)
  case (2 ctx e es)
  show ?case
  proof (cases "ax_running ctx")
    case True
    show ?thesis
    proof (cases e)
      case (RxBytes now bs)
      let ?r = "adif_receive_message now (take (ADIF_MAX_XML_BUFFER - 1) bs) ctx"
      have one: "length (snd ?r) \<le> 1" by (simp add: adif_receive_message_def Let_def split: option.split)
      have "bs \<noteq> [] \<Longrightarrow> ?thesis"
        using 2(5) [OF _ RxBytes, of ?r "fst ?r" "snd ?r"] one True
        by (cases "length bs \<le> 4095") (simp_all add: RxBytes loop_bytes_calls case_prod_beta Let_def)
      moreover have "bs = [] \<Longrightarrow> ?thesis" using 2(4) [OF _ RxBytes] RxBytes True by (simp add: adif_receive_loop.simps(2) le_SucI)
      ultimately show ?thesis by blast
    qed (use 2(1-3) True in \<open>simp_all add: adif_receive_loop.simps(2)\<close>)
  qed (simp add: stopped_receiver)
qed simp

text \<open>
  C25. The receiver thread of the aircraft data ends: as soon as the client clears the running flag, while
  the thread waits for the server to connect or while it reads, the thread returns without looking at
  anything that comes later, and it has called the subscriber at most once for each byte or event it met.
\<close>

theorem receiver_thread_ends:
  "adif_receiver_thread (ws @ WaitStop # ws') es ctx = adif_receiver_thread (ws @ [WaitStop]) es ctx
   \<and> adif_receiver_thread ws (es @ RxStop # es') ctx = adif_receiver_thread ws (es @ [RxStop]) ctx
   \<and> length (snd (adif_receiver_thread ws es ctx)) \<le> sum_list (map rx_size es)"
  by (simp add: adif_receiver_thread_def accept_stops [of _ ws ws'] receive_stops [of _ es es'] calls_bounded case_prod_beta)

end
