(* ===== verification/Cic_Avp.thy ===== *)
theory Cic_Avp
  imports CString Softfloat Config
begin

text \<open>
  Requests as the client interface reads them (\<open>app_magic/magic_cic.c\<close>, first part): attributes,
  the parameters of a communication request with their defaults, the altitude and airport lists, and
  the rate limit of status queries.

  A parsed message is the list of its attributes. An attribute carries the name of its dictionary model
  (\<open>None\<close> when the dictionary does not know it) and its value, which has the type the dictionary gives to
  that name; the codes 20004, 20005 and 20006 with 10030, 10031 and 10032 are the lists
  \<open>TFTtoGround-List\<close>, \<open>TFTtoAircraft-List\<close> and \<open>NAPT-List\<close> with their rules
  (\<open>dict_magic_839/add_avps.c\<close>). All names searched for are in that dictionary. Reading octets into a
  buffer keeps what fits, up to the first zero byte.
\<close>

section \<open>Attributes\<close>

datatype avp_data = AvOctets string | AvU32 u32 | AvU64 u64 | AvF32 rat | AvGroup "davp list" | AvNone
     and davp = DAvp "string option" avp_data

fun avp_model :: "davp \<Rightarrow> string option" where
  "avp_model (DAvp m d) = m"

fun avp_value :: "davp \<Rightarrow> avp_data" where
  "avp_value (DAvp m d) = d"

fun avp_octets :: "avp_data \<Rightarrow> string option" where
  "avp_octets (AvOctets s) = Some s"
| "avp_octets _ = None"

fun u32_of :: "avp_data \<Rightarrow> u32 option" where
  "u32_of (AvU32 v) = Some v"
| "u32_of _ = None"

fun u64_of :: "avp_data \<Rightarrow> u64 option" where
  "u64_of (AvU64 v) = Some v"
| "u64_of _ = None"

fun f32_of :: "avp_data \<Rightarrow> rat option" where
  "f32_of (AvF32 v) = Some v"
| "f32_of _ = None"

fun children :: "avp_data \<Rightarrow> davp list" where
  "children (AvGroup cs) = cs"
| "children _ = []"

text \<open>\<open>fd_msg_search_avp\<close>: the first attribute of a message with a given model.\<close>

definition search_avp :: "davp list \<Rightarrow> string \<Rightarrow> avp_data option" where
  "search_avp msg name = map_option avp_value (find (\<lambda>a. avp_model a = Some name) msg)"

definition copy_octets :: "nat \<Rightarrow> string \<Rightarrow> string" where
  "copy_octets n s = takeWhile (\<lambda>c. c \<noteq> CHR 0x00) (take (n - 1) s)"

text \<open>A child with the right model and no value is passed over.\<close>

fun first_child :: "(avp_data \<Rightarrow> 'a option) \<Rightarrow> string \<Rightarrow> davp list \<Rightarrow> 'a option" where
  "first_child get name [] = None"
| "first_child get name (a # as) =
     (if avp_model a = Some name
      then (case get (avp_value a) of Some v \<Rightarrow> Some v | None \<Rightarrow> first_child get name as)
      else first_child get name as)"

definition extract_string_from_grouped_avp :: "avp_data \<Rightarrow> string \<Rightarrow> nat \<Rightarrow> string option" where
  "extract_string_from_grouped_avp grouped name n =
     map_option (copy_octets n) (first_child avp_octets name (children grouped))"

definition extract_uint32_from_grouped_avp :: "avp_data \<Rightarrow> string \<Rightarrow> u32 option" where
  "extract_uint32_from_grouped_avp grouped name = first_child u32_of name (children grouped)"

definition extract_float32_from_grouped_avp :: "avp_data \<Rightarrow> string \<Rightarrow> rat option" where
  "extract_float32_from_grouped_avp grouped name = first_child f32_of name (children grouped)"

definition handle_unknown_avps :: "davp list \<Rightarrow> bool \<Rightarrow> int" where
  "handle_unknown_avps msg is_proxy_mode = int (length (filter (\<lambda>a. avp_model a = None) msg))"

section \<open>Rate limit of status queries\<close>

abbreviation MSXR_RATE_LIMIT_ENTRIES :: nat where "MSXR_RATE_LIMIT_ENTRIES \<equiv> 64"

record MsxrRateLimitEntry =
  re_client_id :: string
  re_last_request_time :: int

definition zero_rate_entry :: MsxrRateLimitEntry where
  "zero_rate_entry = \<lparr>re_client_id = [], re_last_request_time = 0\<rparr>"

text \<open>
  The scan stops at the first entry of the client; a free slot is one seen before that. The result is
  the return value and the table.
\<close>

definition msxr_check_rate_limit ::
    "int \<Rightarrow> string option \<Rightarrow> u32 \<Rightarrow> MsxrRateLimitEntry list \<Rightarrow> int \<times> MsxrRateLimitEntry list" where
  "msxr_check_rate_limit now client_id limit_sec tab =
     (case client_id of
        None \<Rightarrow> (0, tab)
      | Some cid \<Rightarrow>
          if cid = [] \<or> limit_sec = 0 then (0, tab)
          else case find_idx (\<lambda>e. re_client_id e \<noteq> [] \<and> re_client_id e = cid) tab of
                 Some i \<Rightarrow>
                   if now - re_last_request_time (tab ! i) < uint limit_sec then (-1, tab)
                   else (0, tab[i := (tab ! i)\<lparr>re_last_request_time := now\<rparr>])
               | None \<Rightarrow>
                   (case find_idx (\<lambda>e. re_client_id e = []) tab of
                      Some i \<Rightarrow> (0, tab[i := \<lparr>re_client_id = strncpy_buf 63 cid, re_last_request_time = now\<rparr>])
                    | None \<Rightarrow> (0, tab)))"

section \<open>Communication request parameters\<close>

abbreviation MAX_ALTITUDE_RANGES :: nat where "MAX_ALTITUDE_RANGES \<equiv> 10"
abbreviation MAX_AIRPORT_CODES :: nat where "MAX_AIRPORT_CODES \<equiv> 20"
abbreviation MAX_REQUEST_TFTS :: nat where "MAX_REQUEST_TFTS \<equiv> 32"
abbreviation MAX_REQUEST_NAPTS :: nat where "MAX_REQUEST_NAPTS \<equiv> 10"

record CommReqParams =
  cq_profile_name :: string
  cq_requested_bw :: rat
  cq_requested_ret_bw :: rat
  cq_required_bw :: rat
  cq_required_ret_bw :: rat
  cq_priority_type :: u32
  cq_priority_class :: string
  cq_qos_level :: u32
  cq_dlm_name :: string
  cq_flight_phase :: string
  cq_altitude :: string
  cq_airport :: string
  cq_accounting_enabled :: u32
  cq_keep_request :: u32
  cq_auto_detect :: u32
  cq_timeout :: u32
  cq_altitude_is_blacklist :: bool
  cq_altitude_ranges :: "(int \<times> int) list"
  cq_altitude_range_count :: nat
  cq_airport_is_blacklist :: bool
  cq_airport_codes :: "string list"
  cq_airport_code_count :: nat
  cq_tft_to_ground :: "string list"
  cq_tft_to_ground_count :: nat
  cq_tft_to_aircraft :: "string list"
  cq_tft_to_aircraft_count :: nat
  cq_napt_rules :: "string list"
  cq_napt_count :: nat
  cq_has_profile_name :: bool
  cq_has_requested_bw :: bool
  cq_has_requested_ret_bw :: bool
  cq_has_required_bw :: bool
  cq_has_required_ret_bw :: bool
  cq_has_priority_type :: bool
  cq_has_priority_class :: bool
  cq_has_qos_level :: bool
  cq_has_dlm_name :: bool
  cq_has_flight_phase :: bool
  cq_has_altitude :: bool
  cq_has_airport :: bool
  cq_has_accounting_enabled :: bool
  cq_has_keep_request :: bool
  cq_has_auto_detect :: bool
  cq_has_timeout :: bool

definition zero_comm_params :: CommReqParams where
  "zero_comm_params =
     \<lparr>cq_profile_name = [], cq_requested_bw = 0, cq_requested_ret_bw = 0, cq_required_bw = 0, cq_required_ret_bw = 0,
      cq_priority_type = 0, cq_priority_class = [], cq_qos_level = 0, cq_dlm_name = [], cq_flight_phase = [],
      cq_altitude = [], cq_airport = [], cq_accounting_enabled = 0, cq_keep_request = 0, cq_auto_detect = 0,
      cq_timeout = 0, cq_altitude_is_blacklist = False,
      cq_altitude_ranges = replicate MAX_ALTITUDE_RANGES (0, 0), cq_altitude_range_count = 0,
      cq_airport_is_blacklist = False, cq_airport_codes = replicate MAX_AIRPORT_CODES [], cq_airport_code_count = 0,
      cq_tft_to_ground = replicate MAX_REQUEST_TFTS [], cq_tft_to_ground_count = 0,
      cq_tft_to_aircraft = replicate MAX_REQUEST_TFTS [], cq_tft_to_aircraft_count = 0,
      cq_napt_rules = replicate MAX_REQUEST_NAPTS [], cq_napt_count = 0,
      cq_has_profile_name = False, cq_has_requested_bw = False, cq_has_requested_ret_bw = False,
      cq_has_required_bw = False, cq_has_required_ret_bw = False, cq_has_priority_type = False,
      cq_has_priority_class = False, cq_has_qos_level = False, cq_has_dlm_name = False, cq_has_flight_phase = False,
      cq_has_altitude = False, cq_has_airport = False, cq_has_accounting_enabled = False, cq_has_keep_request = False,
      cq_has_auto_detect = False, cq_has_timeout = False\<rparr>"

definition comm_req_params_init :: CommReqParams where
  "comm_req_params_init =
     zero_comm_params\<lparr>cq_profile_name := ''default'', cq_priority_type := 2, cq_priority_class := ''5'',
       cq_flight_phase := ''CRUISE'', cq_accounting_enabled := 1, cq_timeout := 300\<rparr>"

text \<open>The four arrays with their counters: what the loops append to, and the part in use.\<close>

definition altitude_list :: "CommReqParams \<Rightarrow> (int \<times> int) list" where
  "altitude_list p = take (cq_altitude_range_count p) (cq_altitude_ranges p)"

definition airport_list :: "CommReqParams \<Rightarrow> string list" where
  "airport_list p = take (cq_airport_code_count p) (cq_airport_codes p)"

definition ground_tfts :: "CommReqParams \<Rightarrow> string list" where
  "ground_tfts p = take (cq_tft_to_ground_count p) (cq_tft_to_ground p)"

definition aircraft_tfts :: "CommReqParams \<Rightarrow> string list" where
  "aircraft_tfts p = take (cq_tft_to_aircraft_count p) (cq_tft_to_aircraft p)"

definition napt_list :: "CommReqParams \<Rightarrow> string list" where
  "napt_list p = take (cq_napt_count p) (cq_napt_rules p)"

subsection \<open>Altitude and airport lists\<close>

definition skip_blanks :: "string \<Rightarrow> string" where
  "skip_blanks s = dropWhile (\<lambda>c. c = CHR '' '') s"

definition altitude_range :: "string \<Rightarrow> int \<times> int" where
  "altitude_range token =
     (case strchr_split CHR ''-'' token of
        Some (from, till) \<Rightarrow>
          if from = [] then (-1, atoi till)
          else if till = [] then (atoi from, -1)
          else (atoi from, atoi till)
      | None \<Rightarrow> (atoi token, atoi token))"

fun altitude_loop :: "string list \<Rightarrow> CommReqParams \<Rightarrow> CommReqParams" where
  "altitude_loop [] p = p"
| "altitude_loop (t # ts) p =
     (if cq_altitude_range_count p < MAX_ALTITUDE_RANGES
      then altitude_loop ts
             (p\<lparr>cq_altitude_ranges := (cq_altitude_ranges p)[cq_altitude_range_count p := altitude_range (skip_blanks t)],
                cq_altitude_range_count := cq_altitude_range_count p + 1\<rparr>)
      else p)"

text \<open>The text after \<open>not \<close>, and whether it was there.\<close>

definition strip_not :: "string \<Rightarrow> bool \<times> string" where
  "strip_not s = (if has_prefix ''not '' s then (True, drop 4 s) else (False, s))"

definition parse_altitude_avp :: "string option \<Rightarrow> CommReqParams \<Rightarrow> CommReqParams" where
  "parse_altitude_avp altitude p =
     (case altitude of
        None \<Rightarrow> p
      | Some s \<Rightarrow>
          if s = [] then p
          else let (neg, r) = strip_not s
               in altitude_loop (strtok_tokens CHR '','' (strncpy_buf 255 r)) (p\<lparr>cq_altitude_is_blacklist := neg\<rparr>))"

fun airport_loop :: "string list \<Rightarrow> CommReqParams \<Rightarrow> CommReqParams" where
  "airport_loop [] p = p"
| "airport_loop (t # ts) p =
     (if cq_airport_code_count p < MAX_AIRPORT_CODES
      then airport_loop ts
             (p\<lparr>cq_airport_codes := (cq_airport_codes p)[cq_airport_code_count p := strncpy_buf 7 (skip_blanks t)],
                cq_airport_code_count := cq_airport_code_count p + 1\<rparr>)
      else p)"

definition parse_airport_avp :: "string option \<Rightarrow> CommReqParams \<Rightarrow> CommReqParams" where
  "parse_airport_avp airport p =
     (case airport of
        None \<Rightarrow> p
      | Some s \<Rightarrow>
          if s = [] then p
          else let (neg, r) = strip_not s
               in airport_loop (strtok_tokens CHR '','' (strncpy_buf 255 r)) (p\<lparr>cq_airport_is_blacklist := neg\<rparr>))"

subsection \<open>Defaults from the profile\<close>

definition comm_req_params_fill_from_profile :: "ClientProfile option \<Rightarrow> CommReqParams \<Rightarrow> CommReqParams" where
  "comm_req_params_fill_from_profile profile p =
     (case profile of
        None \<Rightarrow> p
      | Some c \<Rightarrow>
          let bw = cl_bandwidth c;
              p = (if \<not> cq_has_requested_bw p \<and> bw_default_request_kbps bw > 0
                   then p\<lparr>cq_requested_bw := to_float (of_int (uint (bw_default_request_kbps bw)))\<rparr>
                   else if \<not> cq_has_requested_bw p \<and> bw_max_forward_kbps bw > 0
                   then p\<lparr>cq_requested_bw := to_float (of_int (uint (bw_max_forward_kbps bw)))\<rparr>
                   else p);
              p = (if \<not> cq_has_requested_ret_bw p \<and> bw_max_return_kbps bw > 0
                   then p\<lparr>cq_requested_ret_bw := to_float (of_int (uint (bw_max_return_kbps bw)))\<rparr> else p);
              p = (if \<not> cq_has_priority_class p \<and> qc_priority_class (cl_qos c) > 0
                   then p\<lparr>cq_priority_class := snprintf_buf 16 (show_word (qc_priority_class (cl_qos c)))\<rparr> else p)
          in if \<not> cq_has_qos_level p then p\<lparr>cq_qos_level := ucast (qc_default_level (cl_qos c))\<rparr> else p)"

subsection \<open>Reading the group\<close>

text \<open>The loops over the rules inside one list attribute, with their bounds.\<close>

fun ground_rule_loop :: "davp list \<Rightarrow> CommReqParams \<Rightarrow> CommReqParams" where
  "ground_rule_loop [] p = p"
| "ground_rule_loop (a # as) p =
     (if cq_tft_to_ground_count p < MAX_REQUEST_TFTS
      then ground_rule_loop as
             (if avp_model a = Some ''TFTtoGround-Rule''
              then (case avp_octets (avp_value a) of None \<Rightarrow> p
                    | Some s \<Rightarrow> p\<lparr>cq_tft_to_ground := (cq_tft_to_ground p)[cq_tft_to_ground_count p := copy_octets 256 s],
                                  cq_tft_to_ground_count := cq_tft_to_ground_count p + 1\<rparr>)
              else p)
      else p)"

fun aircraft_rule_loop :: "davp list \<Rightarrow> CommReqParams \<Rightarrow> CommReqParams" where
  "aircraft_rule_loop [] p = p"
| "aircraft_rule_loop (a # as) p =
     (if cq_tft_to_aircraft_count p < MAX_REQUEST_TFTS
      then aircraft_rule_loop as
             (if avp_model a = Some ''TFTtoAircraft-Rule''
              then (case avp_octets (avp_value a) of None \<Rightarrow> p
                    | Some s \<Rightarrow> p\<lparr>cq_tft_to_aircraft := (cq_tft_to_aircraft p)[cq_tft_to_aircraft_count p := copy_octets 256 s],
                                  cq_tft_to_aircraft_count := cq_tft_to_aircraft_count p + 1\<rparr>)
              else p)
      else p)"

fun napt_rule_loop :: "davp list \<Rightarrow> CommReqParams \<Rightarrow> CommReqParams" where
  "napt_rule_loop [] p = p"
| "napt_rule_loop (a # as) p =
     (if cq_napt_count p < MAX_REQUEST_NAPTS
      then napt_rule_loop as
             (if avp_model a = Some ''NAPT-Rule''
              then (case avp_octets (avp_value a) of None \<Rightarrow> p
                    | Some s \<Rightarrow> p\<lparr>cq_napt_rules := (cq_napt_rules p)[cq_napt_count p := copy_octets 256 s],
                                  cq_napt_count := cq_napt_count p + 1\<rparr>)
              else p)
      else p)"

fun rule_lists_loop :: "davp list \<Rightarrow> CommReqParams \<Rightarrow> CommReqParams" where
  "rule_lists_loop [] p = p"
| "rule_lists_loop (a # as) p =
     rule_lists_loop as
       (if avp_model a = Some ''TFTtoGround-List'' then ground_rule_loop (children (avp_value a)) p
        else if avp_model a = Some ''TFTtoAircraft-List'' then aircraft_rule_loop (children (avp_value a)) p
        else if avp_model a = Some ''NAPT-List'' then napt_rule_loop (children (avp_value a)) p
        else p)"

text \<open>A field is assigned and marked when its attribute is present.\<close>

definition when_found :: "'a option \<Rightarrow> ('a \<Rightarrow> 'b \<Rightarrow> 'b) \<Rightarrow> 'b \<Rightarrow> 'b" where
  "when_found r f p = (case r of None \<Rightarrow> p | Some v \<Rightarrow> f v p)"

definition parse_bandwidth_avps :: "avp_data \<Rightarrow> CommReqParams \<Rightarrow> CommReqParams" where
  "parse_bandwidth_avps g p =
     (let p = when_found (extract_string_from_grouped_avp g ''Profile-Name'' 64)
                (\<lambda>v p. p\<lparr>cq_profile_name := v, cq_has_profile_name := True\<rparr>) p;
          p = when_found (extract_float32_from_grouped_avp g ''Requested-Bandwidth'')
                (\<lambda>v p. p\<lparr>cq_requested_bw := v, cq_has_requested_bw := True\<rparr>) p;
          p = when_found (extract_float32_from_grouped_avp g ''Requested-Return-Bandwidth'')
                (\<lambda>v p. p\<lparr>cq_requested_ret_bw := v, cq_has_requested_ret_bw := True\<rparr>) p;
          p = when_found (extract_float32_from_grouped_avp g ''Required-Bandwidth'')
                (\<lambda>v p. p\<lparr>cq_required_bw := v, cq_has_required_bw := True\<rparr>) p
      in when_found (extract_float32_from_grouped_avp g ''Required-Return-Bandwidth'')
                (\<lambda>v p. p\<lparr>cq_required_ret_bw := v, cq_has_required_ret_bw := True\<rparr>) p)"

definition parse_priority_avps :: "avp_data \<Rightarrow> CommReqParams \<Rightarrow> CommReqParams" where
  "parse_priority_avps g p =
     (let p = when_found (extract_string_from_grouped_avp g ''Priority-Class'' 16)
                (\<lambda>v p. p\<lparr>cq_priority_class := v, cq_has_priority_class := True\<rparr>) p;
          p = when_found (extract_uint32_from_grouped_avp g ''Priority-Type'')
                (\<lambda>v p. p\<lparr>cq_priority_type := v, cq_has_priority_type := True\<rparr>) p
      in when_found (extract_uint32_from_grouped_avp g ''QoS-Level'')
                (\<lambda>v p. p\<lparr>cq_qos_level := v, cq_has_qos_level := True\<rparr>) p)"

definition parse_location_avps :: "avp_data \<Rightarrow> CommReqParams \<Rightarrow> CommReqParams" where
  "parse_location_avps g p =
     (let p = when_found (extract_string_from_grouped_avp g ''DLM-Name'' 64)
                (\<lambda>v p. p\<lparr>cq_dlm_name := v, cq_has_dlm_name := True\<rparr>) p;
          p = when_found (extract_string_from_grouped_avp g ''Flight-Phase'' 64)
                (\<lambda>v p. p\<lparr>cq_flight_phase := v, cq_has_flight_phase := True\<rparr>) p;
          p = when_found (extract_string_from_grouped_avp g ''Altitude'' 64)
                (\<lambda>v p. parse_altitude_avp (Some v) (p\<lparr>cq_altitude := v, cq_has_altitude := True\<rparr>)) p
      in when_found (extract_string_from_grouped_avp g ''Airport'' 64)
                (\<lambda>v p. parse_airport_avp (Some v) (p\<lparr>cq_airport := v, cq_has_airport := True\<rparr>)) p)"

definition parse_other_avps :: "avp_data \<Rightarrow> CommReqParams \<Rightarrow> CommReqParams" where
  "parse_other_avps g p =
     (let p = when_found (extract_uint32_from_grouped_avp g ''Accounting-Enabled'')
                (\<lambda>v p. p\<lparr>cq_accounting_enabled := v, cq_has_accounting_enabled := True\<rparr>) p;
          p = when_found (extract_uint32_from_grouped_avp g ''Keep-Request'')
                (\<lambda>v p. p\<lparr>cq_keep_request := v, cq_has_keep_request := True\<rparr>) p;
          p = when_found (extract_uint32_from_grouped_avp g ''Auto-Detect'')
                (\<lambda>v p. p\<lparr>cq_auto_detect := v, cq_has_auto_detect := True\<rparr>) p
      in when_found (extract_uint32_from_grouped_avp g ''Timeout'')
                (\<lambda>v p. p\<lparr>cq_timeout := v, cq_has_timeout := True\<rparr>) p)"

definition parse_comm_req_params :: "avp_data \<Rightarrow> CommReqParams" where
  "parse_comm_req_params g =
     rule_lists_loop (children g)
       ((parse_other_avps g (parse_location_avps g (parse_priority_avps g (parse_bandwidth_avps g comm_req_params_init))))
          \<lparr>cq_tft_to_ground_count := 0, cq_tft_to_aircraft_count := 0\<rparr>)"

end
