(* ===== verification/Group_Avp.thy ===== *)
theory Group_Avp
  imports Cic_Avp
begin

text \<open>
  The builders of grouped attributes (\<open>app_magic/magic_group_avp_simple.c\<close>).

  A builder appends to the attributes of its parent, a message or a group. The library calls inside it
  can only fail for lack of memory: \<open>ok\<close> says whether all of them succeed. When one fails the group is
  dropped, the parent is unchanged and the result is -1. The functions that add several attributes to
  the parent one after the other stop at the first failure and keep what was added: there \<open>ok\<close> says it
  for each of them. Names are those of the dictionary (\<open>dict_magic_839/add_avps.c\<close>) behind the handles.
\<close>

definition av_str :: "string \<Rightarrow> string \<Rightarrow> davp" where "av_str name v = DAvp (Some name) (AvOctets v)"
definition av_u32 :: "string \<Rightarrow> u32 \<Rightarrow> davp" where "av_u32 name v = DAvp (Some name) (AvU32 v)"
definition av_u64 :: "string \<Rightarrow> u64 \<Rightarrow> davp" where "av_u64 name v = DAvp (Some name) (AvU64 v)"
definition av_float :: "string \<Rightarrow> rat \<Rightarrow> davp" where "av_float name v = DAvp (Some name) (AvF32 v)"
definition av_group :: "string \<Rightarrow> davp list \<Rightarrow> davp" where "av_group name cs = DAvp (Some name) (AvGroup cs)"

definition add_group :: "bool \<Rightarrow> davp \<Rightarrow> davp list \<Rightarrow> int \<times> davp list" where
  "add_group ok a parent = (if ok then (0, parent @ [a]) else (-1, parent))"

text \<open>One attribute after the other, each with its own outcome; \<open>ADD_AVP_STR\<close> and its kin in a function body.\<close>

fun add_each :: "(nat \<Rightarrow> bool) \<Rightarrow> nat \<Rightarrow> davp list \<Rightarrow> davp list \<Rightarrow> int \<times> davp list" where
  "add_each ok k [] parent = (0, parent)"
| "add_each ok k (a # as) parent = (if ok k then add_each ok (Suc k) as (parent @ [a]) else (-1, parent))"

text \<open>A text that is missing or empty.\<close>

definition absent :: "string option \<Rightarrow> bool" where
  "absent s \<longleftrightarrow> s = None \<or> s = Some []"

definition text_avp :: "string \<Rightarrow> string option \<Rightarrow> davp list" where
  "text_avp name s = (if absent s then [] else [av_str name (the s)])"

definition text_or :: "string option \<Rightarrow> string \<Rightarrow> string" where
  "text_or s dflt = (if absent s then dflt else the s)"

section \<open>Credentials and requests\<close>

definition add_client_credentials_simple ::
    "bool \<Rightarrow> string option \<Rightarrow> string option \<Rightarrow> string option \<Rightarrow> davp list \<Rightarrow> int \<times> davp list" where
  "add_client_credentials_simple ok username client_password server_password msg =
     (if absent username \<or> absent client_password then (-1, msg)
      else add_group ok (av_group ''Client-Credentials''
             ([av_str ''User-Name'' (the username), av_str ''Client-Password'' (the client_password)]
              @ text_avp ''Server-Password'' server_password)) msg)"

record comm_req_params_t =
  cu_profile_name :: "string option"
  cu_requested_bw :: u64
  cu_requested_return_bw :: u64
  cu_priority_class :: u32
  cu_qos_level :: u32
  cu_dlm_name :: "string option"
  cu_flight_phase :: u32
  cu_altitude :: u32

definition add_comm_req_params_simple :: "bool \<Rightarrow> comm_req_params_t \<Rightarrow> davp list \<Rightarrow> int \<times> davp list" where
  "add_comm_req_params_simple ok ps msg =
     (if absent (cu_profile_name ps) then (-1, msg)
      else add_group ok (av_group ''Communication-Request-Parameters''
             ([av_str ''Profile-Name'' (the (cu_profile_name ps))]
              @ (if cu_requested_bw ps > 0 then [av_u64 ''Requested-Bandwidth'' (cu_requested_bw ps)] else [])
              @ (if cu_requested_return_bw ps > 0
                 then [av_u64 ''Requested-Return-Bandwidth'' (cu_requested_return_bw ps)] else [])
              @ (if cu_priority_class ps > 0 then [av_u32 ''Priority-Class'' (cu_priority_class ps)] else [])
              @ (if cu_qos_level ps > 0 then [av_u32 ''QoS-Level'' (cu_qos_level ps)] else [])
              @ text_avp ''DLM-Name'' (cu_dlm_name ps)
              @ (if cu_flight_phase ps > 0 then [av_u32 ''Flight-Phase'' (cu_flight_phase ps)] else [])
              @ (if cu_altitude ps > 0 then [av_u32 ''Altitude'' (cu_altitude ps)] else []))) msg)"

section \<open>Answers and reports\<close>

record comm_ans_params_t =
  cw_profile_name :: "string option"
  cw_selected_link_id :: "string option"
  cw_bearer_id :: u32
  cw_granted_bw :: u64
  cw_granted_return_bw :: u64
  cw_priority_type :: u32
  cw_priority_class :: "string option"
  cw_qos_level :: u32
  cw_accounting_enabled :: u32
  cw_dlm_availability_list :: "string option"
  cw_keep_request :: u32
  cw_auto_detect :: u32
  cw_session_timeout :: u32
  cw_flight_phase :: "string option"
  cw_altitude :: "string option"
  cw_airport :: "string option"
  cw_assigned_ip :: "string option"

definition zero_comm_ans :: comm_ans_params_t where
  "zero_comm_ans =
     \<lparr>cw_profile_name = None, cw_selected_link_id = None, cw_bearer_id = 0, cw_granted_bw = 0, cw_granted_return_bw = 0,
      cw_priority_type = 0, cw_priority_class = None, cw_qos_level = 0, cw_accounting_enabled = 0,
      cw_dlm_availability_list = None, cw_keep_request = 0, cw_auto_detect = 0, cw_session_timeout = 0,
      cw_flight_phase = None, cw_altitude = None, cw_airport = None, cw_assigned_ip = None\<rparr>"

text \<open>\<open>(float)(bits / 1000.0)\<close>: the division is made in double precision.\<close>

definition bits_to_kbps :: "u64 \<Rightarrow> rat" where
  "bits_to_kbps bits = to_float (to_double (to_double (of_int (uint bits)) / 1000))"

definition comm_ans_group :: "comm_ans_params_t \<Rightarrow> davp" where
  "comm_ans_group ps =
     (let link = the (cw_selected_link_id ps) in
      av_group ''Communication-Answer-Parameters''
        ([av_str ''Profile-Name'' (text_or (cw_profile_name ps) ''default''),
          av_float ''Granted-Bandwidth'' (bits_to_kbps (cw_granted_bw ps)),
          av_float ''Granted-Return-Bandwidth'' (bits_to_kbps (cw_granted_return_bw ps)),
          av_u32 ''Priority-Type'' (if cw_priority_type ps > 0 then cw_priority_type ps else 2),
          av_str ''Priority-Class'' (text_or (cw_priority_class ps) ''5''),
          av_u32 ''QoS-Level'' (cw_qos_level ps),
          av_u32 ''Accounting-Enabled'' (cw_accounting_enabled ps),
          av_str ''DLM-Availability-List'' (text_or (cw_dlm_availability_list ps) link),
          av_u32 ''Keep-Request'' (cw_keep_request ps),
          av_u32 ''Auto-Detect'' (cw_auto_detect ps),
          av_u32 ''Timeout'' (if cw_session_timeout ps > 0 then cw_session_timeout ps else 300)]
         @ text_avp ''Flight-Phase'' (cw_flight_phase ps)
         @ text_avp ''Altitude'' (cw_altitude ps)
         @ text_avp ''Airport'' (cw_airport ps)
         @ text_avp ''Gateway-IPAddress'' (cw_assigned_ip ps)
         @ [av_str ''DLM-Name'' link]
         @ (if cw_bearer_id ps > 0 then [av_u32 ''Link-Number'' (cw_bearer_id ps)] else [])))"

definition add_comm_ans_params_simple :: "bool \<Rightarrow> comm_ans_params_t \<Rightarrow> davp list \<Rightarrow> int \<times> davp list" where
  "add_comm_ans_params_simple ok ps msg =
     (if absent (cw_selected_link_id ps) then (-1, msg) else add_group ok (comm_ans_group ps) msg)"

record comm_report_params_t =
  cz_profile_name :: "string option"
  cz_granted_bw :: "u64 option"
  cz_granted_return_bw :: "u64 option"
  cz_priority_type :: "u32 option"
  cz_priority_class :: "string option"
  cz_qos_level :: "u32 option"
  cz_dlm_availability_list :: "string option"
  cz_gateway_ip :: "string option"

text \<open>The flags \<open>has_..\<close> of the C structure are the presence of the options.\<close>

definition add_comm_report_params_simple :: "bool \<Rightarrow> comm_report_params_t \<Rightarrow> davp list \<Rightarrow> int \<times> davp list" where
  "add_comm_report_params_simple ok ps msg =
     (if absent (cz_profile_name ps) then (-1, msg)
      else add_group ok (av_group ''Communication-Report-Parameters''
             ([av_str ''Profile-Name'' (the (cz_profile_name ps))]
              @ (case cz_granted_bw ps of None \<Rightarrow> [] | Some b \<Rightarrow> [av_float ''Granted-Bandwidth'' (bits_to_kbps b)])
              @ (case cz_granted_return_bw ps of None \<Rightarrow> [] | Some b \<Rightarrow> [av_float ''Granted-Return-Bandwidth'' (bits_to_kbps b)])
              @ (case cz_priority_type ps of None \<Rightarrow> [] | Some t \<Rightarrow> [av_u32 ''Priority-Type'' t])
              @ text_avp ''Priority-Class'' (cz_priority_class ps)
              @ (case cz_qos_level ps of None \<Rightarrow> [] | Some q \<Rightarrow> [av_u32 ''QoS-Level'' q])
              @ text_avp ''DLM-Availability-List'' (cz_dlm_availability_list ps)
              @ text_avp ''Gateway-IPAddress'' (cz_gateway_ip ps))) msg)"

section \<open>Link managers and links\<close>

record dlm_info_t =
  dt_dlm_name :: "string option"
  dt_dlm_available :: u32
  dt_dlm_max_links :: u32
  dt_dlm_max_bw :: rat
  dt_dlm_max_return_bw :: rat
  dt_dlm_alloc_links :: u32
  dt_dlm_alloc_bw :: rat
  dt_dlm_alloc_return_bw :: rat
  dt_qos_levels :: "u32 list"
  dt_qos_level_count :: u32

definition positive_avp :: "string \<Rightarrow> rat \<Rightarrow> davp list" where
  "positive_avp name v = (if v > 0 then [av_float name v] else [])"

definition add_dlm_info_simple :: "bool \<Rightarrow> dlm_info_t \<Rightarrow> davp list \<Rightarrow> int \<times> davp list" where
  "add_dlm_info_simple ok d dlm_list =
     (if absent (dt_dlm_name d) then (-1, dlm_list)
      else add_group ok (av_group ''DLM-Info''
             ([av_str ''DLM-Name'' (the (dt_dlm_name d)),
               av_u32 ''DLM-Available'' (dt_dlm_available d),
               av_u32 ''DLM-Max-Links'' (dt_dlm_max_links d),
               av_float ''DLM-Max-Bandwidth'' (dt_dlm_max_bw d)]
              @ positive_avp ''DLM-Max-Return-Bandwidth'' (dt_dlm_max_return_bw d)
              @ [av_u32 ''DLM-Allocated-Links'' (dt_dlm_alloc_links d),
                 av_float ''DLM-Allocated-Bandwidth'' (dt_dlm_alloc_bw d)]
              @ positive_avp ''DLM-Allocated-Return-Bandwidth'' (dt_dlm_alloc_return_bw d)
              @ (if dt_qos_level_count d > 0
                 then [av_group ''DLM-QoS-Level-List''
                         (map (av_u32 ''QoS-Level'') (take (min (unat (dt_qos_level_count d)) 3) (dt_qos_levels d)))]
                 else []))) dlm_list)"

record link_status_t =
  ly_link_name :: "string option"
  ly_link_number :: u32
  ly_link_available :: u32
  ly_qos_level :: u32
  ly_link_conn_status :: u32
  ly_link_login_status :: u32
  ly_link_max_bw :: rat
  ly_link_max_return_bw :: rat
  ly_link_alloc_bw :: rat
  ly_link_alloc_return_bw :: rat
  ly_link_error_string :: "string option"

definition add_link_status_simple :: "bool \<Rightarrow> link_status_t \<Rightarrow> davp list \<Rightarrow> int \<times> davp list" where
  "add_link_status_simple ok l status_list =
     (if absent (ly_link_name l) then (-1, status_list)
      else add_group ok (av_group ''Link-Status-Group''
             ([av_str ''Link-Name'' (the (ly_link_name l)),
               av_u32 ''Link-Number'' (ly_link_number l),
               av_u32 ''Link-Available'' (ly_link_available l),
               av_u32 ''QoS-Level'' (ly_qos_level l),
               av_u32 ''Link-Connection-Status'' (ly_link_conn_status l),
               av_u32 ''Link-Login-Status'' (ly_link_login_status l),
               av_float ''Link-Max-Bandwidth'' (ly_link_max_bw l)]
              @ positive_avp ''Link-Max-Return-Bandwidth'' (ly_link_max_return_bw l)
              @ [av_float ''Link-Alloc-Bandwidth'' (ly_link_alloc_bw l)]
              @ positive_avp ''Link-Alloc-Return-Bandwidth'' (ly_link_alloc_return_bw l)
              @ text_avp ''Link-Error-String'' (ly_link_error_string l))) status_list)"

section \<open>Rule lists\<close>

text \<open>The rules of the array that are neither missing nor empty.\<close>

definition rule_avps :: "string \<Rightarrow> string option list \<Rightarrow> davp list" where
  "rule_avps name rules = map (\<lambda>r. av_str name (the r)) (filter (\<lambda>r. \<not> absent r) rules)"

definition add_tft_to_ground_list_simple :: "bool \<Rightarrow> string option list \<Rightarrow> davp list \<Rightarrow> int \<times> davp list" where
  "add_tft_to_ground_list_simple ok rules msg =
     (if rules = [] then (-1, msg)
      else add_group ok (av_group ''TFTtoGround-List'' (rule_avps ''TFTtoGround-Rule'' rules)) msg)"

definition add_tft_to_aircraft_list_simple :: "bool \<Rightarrow> string option list \<Rightarrow> davp list \<Rightarrow> int \<times> davp list" where
  "add_tft_to_aircraft_list_simple ok rules msg =
     (if rules = [] then (-1, msg)
      else add_group ok (av_group ''TFTtoAircraft-List'' (rule_avps ''TFTtoAircraft-Rule'' rules)) msg)"

definition add_napt_list_simple :: "bool \<Rightarrow> string option list \<Rightarrow> davp list \<Rightarrow> int \<times> davp list" where
  "add_napt_list_simple ok rules msg =
     (if rules = [] then (-1, msg)
      else add_group ok (av_group ''NAPT-List'' (rule_avps ''NAPT-Rule'' rules)) msg)"

definition add_dlm_qos_level_list_simple :: "bool \<Rightarrow> u32 list \<Rightarrow> davp list \<Rightarrow> int \<times> davp list" where
  "add_dlm_qos_level_list_simple ok levels dlm_info =
     (if levels = [] \<or> length levels > 3 then (-1, dlm_info)
      else add_group ok (av_group ''DLM-QoS-Level-List'' (map (av_u32 ''QoS-Level'') levels)) dlm_info)"

section \<open>Containers filled by the caller\<close>

text \<open>The empty container, or nothing when it could not be allocated; then the container with its contents.\<close>

definition create_dlm_list_simple :: "bool \<Rightarrow> davp list option" where
  "create_dlm_list_simple ok = (if ok then Some [] else None)"

definition finalize_dlm_list_simple :: "bool \<Rightarrow> davp list \<Rightarrow> davp list \<Rightarrow> int \<times> davp list" where
  "finalize_dlm_list_simple ok dlm_list msg = add_group ok (av_group ''DLM-List'' dlm_list) msg"

definition create_dlm_link_status_list_simple :: "bool \<Rightarrow> davp list option" where
  "create_dlm_link_status_list_simple ok = (if ok then Some [] else None)"

definition finalize_dlm_link_status_list_simple :: "bool \<Rightarrow> davp list \<Rightarrow> davp list \<Rightarrow> int \<times> davp list" where
  "finalize_dlm_link_status_list_simple ok status_list dlm_info =
     add_group ok (av_group ''DLM-Link-Status-List'' status_list) dlm_info"

section \<open>Attributes added to the message itself\<close>

definition add_qos_params_inline :: "(nat \<Rightarrow> bool) \<Rightarrow> u32 \<Rightarrow> string option \<Rightarrow> u32 \<Rightarrow> davp list \<Rightarrow> int \<times> davp list" where
  "add_qos_params_inline ok priority_type priority_class qos_level msg =
     (case priority_class of None \<Rightarrow> (-1, msg)
      | Some pc \<Rightarrow> add_each ok 0 [av_u32 ''Priority-Type'' priority_type, av_str ''Priority-Class'' pc,
                                 av_u32 ''QoS-Level'' qos_level] msg)"

definition add_link_characteristics_inline ::
    "(nat \<Rightarrow> bool) \<Rightarrow> string option \<Rightarrow> u32 \<Rightarrow> rat \<Rightarrow> u32 \<Rightarrow> davp list \<Rightarrow> int \<times> davp list" where
  "add_link_characteristics_inline ok link_name link_number max_bw qos_level msg =
     (case link_name of None \<Rightarrow> (-1, msg)
      | Some n \<Rightarrow> add_each ok 0 [av_str ''Link-Name'' n, av_u32 ''Link-Number'' link_number,
                                av_float ''Link-Max-Bandwidth'' max_bw, av_u32 ''QoS-Level'' qos_level] msg)"

definition add_bearer_info_inline :: "(nat \<Rightarrow> bool) \<Rightarrow> u32 \<Rightarrow> u32 \<Rightarrow> u32 \<Rightarrow> davp list \<Rightarrow> int \<times> davp list" where
  "add_bearer_info_inline ok bearer_id conn_status login_status msg =
     add_each ok 0 [av_u32 ''Link-Number'' bearer_id, av_u32 ''Link-Connection-Status'' conn_status,
                    av_u32 ''Link-Login-Status'' login_status] msg"

section \<open>Round trips\<close>

lemma add_each_ok: "(\<And>k. ok k) \<Longrightarrow> add_each ok k as parent = (0, parent @ as)"
  by (induction as arbitrary: k parent) auto

lemma add_each_prefix: "\<exists>bs. snd (add_each ok k as parent) = parent @ bs \<and> set bs \<subseteq> set as"
proof (induction as arbitrary: k parent)
  case (Cons a as)
  then show ?case
  proof (cases "ok k")
    case True
    obtain bs where "snd (add_each ok (Suc k) as (parent @ [a])) = (parent @ [a]) @ bs" "set bs \<subseteq> set as"
      using Cons by blast
    with True show ?thesis by (intro exI [of _ "a # bs"]) auto
  qed auto
qed auto

end
