(* ===== verification/Mccr_Queue.thy ===== *)
theory Mccr_Queue
  imports Cic_Avp
begin

text \<open>
  The queue of communication requests that wait for a link (\<open>app_magic/magic_cic.c\<close>): 64 entries, one per
  session, dropped after 30 seconds. It is shown to implement a map from sessions to waiting requests.
\<close>

section \<open>State\<close>

datatype MccxQueueState = QUEUE_STATE_PENDING | QUEUE_STATE_PROCESSING | QUEUE_STATE_COMPLETED | QUEUE_STATE_EXPIRED | QUEUE_STATE_CANCELLED

record MccxQueueEntry =
  qe_in_use :: bool
  qe_state :: MccxQueueState
  qe_session_id :: string
  qe_client_id :: string
  qe_params :: CommReqParams
  qe_enqueue_time :: int
  qe_expire_time :: int
  qe_retry_count :: u32
  qe_priority :: u32

record MccxQueueManager =
  qm_entries :: "MccxQueueEntry list"
  qm_count :: u32
  qm_initialized :: bool

abbreviation MCCR_QUEUE_MAX_SIZE :: nat where "MCCR_QUEUE_MAX_SIZE \<equiv> 64"
abbreviation MCCR_QUEUE_TIMEOUT_SEC :: int where "MCCR_QUEUE_TIMEOUT_SEC \<equiv> 30"

definition zero_entry :: MccxQueueEntry where
  "zero_entry = \<lparr>qe_in_use = False, qe_state = QUEUE_STATE_PENDING, qe_session_id = [], qe_client_id = [],
     qe_params = zero_comm_params, qe_enqueue_time = 0, qe_expire_time = 0, qe_retry_count = 0, qe_priority = 0\<rparr>"

definition zero_queue :: MccxQueueManager where
  "zero_queue = \<lparr>qm_entries = replicate MCCR_QUEUE_MAX_SIZE zero_entry, qm_count = 0, qm_initialized = False\<rparr>"

section \<open>Operations\<close>

definition mccr_queue_init :: "MccxQueueManager \<Rightarrow> MccxQueueManager" where
  "mccr_queue_init q = (if qm_initialized q then q else zero_queue\<lparr>qm_initialized := True\<rparr>)"

definition expired_at :: "int \<Rightarrow> MccxQueueEntry \<Rightarrow> bool" where
  "expired_at now e \<longleftrightarrow> qe_in_use e \<and> qe_state e = QUEUE_STATE_PENDING \<and> now \<ge> qe_expire_time e"

fun cleanup_loop :: "int \<Rightarrow> MccxQueueEntry list \<Rightarrow> u32 \<Rightarrow> int \<Rightarrow> int \<times> u32 \<times> MccxQueueEntry list" where
  "cleanup_loop now [] count cleaned = (cleaned, count, [])"
| "cleanup_loop now (e # es) count cleaned =
     (if expired_at now e
      then let (r, c, es) = cleanup_loop now es (count - 1) (cleaned + 1)
           in (r, c, e\<lparr>qe_state := QUEUE_STATE_EXPIRED, qe_in_use := False\<rparr> # es)
      else let (r, c, es) = cleanup_loop now es count cleaned in (r, c, e # es))"

definition mccr_queue_cleanup_expired :: "int \<Rightarrow> MccxQueueManager \<Rightarrow> int \<times> MccxQueueManager" where
  "mccr_queue_cleanup_expired now q =
     (if \<not> qm_initialized q then (0, q)
      else let (r, c, es) = cleanup_loop now (qm_entries q) (qm_count q) 0 in (r, q\<lparr>qm_entries := es, qm_count := c\<rparr>))"

definition entry_of :: "MccxQueueManager \<Rightarrow> string \<Rightarrow> nat option" where
  "entry_of q sid = find_idx (\<lambda>e. qe_in_use e \<and> qe_session_id e = sid) (qm_entries q)"

definition mccr_queue_enqueue ::
    "int \<Rightarrow> string \<Rightarrow> string \<Rightarrow> CommReqParams \<Rightarrow> u32 \<Rightarrow> MccxQueueManager \<Rightarrow> int \<times> MccxQueueManager" where
  "mccr_queue_enqueue now session_id client_id params priority q =
     (let q = (if \<not> qm_initialized q then mccr_queue_init q else q);
          q = snd (mccr_queue_cleanup_expired now q)
      in case entry_of q session_id of
           Some i \<Rightarrow>
             let e = qm_entries q ! i
             in (0, q\<lparr>qm_entries := (qm_entries q)[i := e\<lparr>qe_params := params, qe_priority := priority,
                                                         qe_retry_count := qe_retry_count e + 1\<rparr>]\<rparr>)
         | None \<Rightarrow>
             if qm_count q \<ge> of_nat MCCR_QUEUE_MAX_SIZE then (-1, q)
             else case find_idx (\<lambda>e. \<not> qe_in_use e) (qm_entries q) of
                    None \<Rightarrow> (-1, q)
                  | Some i \<Rightarrow>
                      (0, q\<lparr>qm_entries := (qm_entries q)
                              [i := (qm_entries q ! i)\<lparr>qe_in_use := True, qe_state := QUEUE_STATE_PENDING,
                                 qe_session_id := strncpy_buf 127 session_id, qe_client_id := strncpy_buf 63 client_id,
                                 qe_params := params, qe_enqueue_time := now, qe_expire_time := now + MCCR_QUEUE_TIMEOUT_SEC,
                                 qe_retry_count := 0, qe_priority := priority\<rparr>],
                           qm_count := qm_count q + 1\<rparr>))"

definition mccr_queue_dequeue :: "string \<Rightarrow> MccxQueueManager \<Rightarrow> int \<times> MccxQueueManager" where
  "mccr_queue_dequeue session_id q =
     (if \<not> qm_initialized q then (-1, q)
      else case entry_of q session_id of
             None \<Rightarrow> (-1, q)
           | Some i \<Rightarrow> (0, q\<lparr>qm_entries := (qm_entries q)[i := (qm_entries q ! i)\<lparr>qe_state := QUEUE_STATE_COMPLETED, qe_in_use := False\<rparr>],
                             qm_count := qm_count q - 1\<rparr>))"

text \<open>The best entry so far and its priority; the function that serves the queue is not called by the program.\<close>

fun peek_loop :: "MccxQueueEntry list \<Rightarrow> nat \<Rightarrow> nat option \<Rightarrow> u32 \<Rightarrow> nat option" where
  "peek_loop [] i best p = best"
| "peek_loop (e # es) i best p =
     (if qe_in_use e \<and> qe_state e = QUEUE_STATE_PENDING \<and> qe_priority e < p
      then peek_loop es (i + 1) (Some i) (qe_priority e) else peek_loop es (i + 1) best p)"

definition mccr_queue_peek_highest_priority :: "int \<Rightarrow> MccxQueueManager \<Rightarrow> nat option \<times> MccxQueueManager" where
  "mccr_queue_peek_highest_priority now q =
     (if \<not> qm_initialized q then (None, q)
      else
        let q = snd (mccr_queue_cleanup_expired now q);
            best = peek_loop (qm_entries q) 0 None (- 1)
        in case best of
             None \<Rightarrow> (None, q)
           | Some i \<Rightarrow> (Some i, q\<lparr>qm_entries := (qm_entries q)[i := (qm_entries q ! i)\<lparr>qe_state := QUEUE_STATE_PROCESSING\<rparr>]\<rparr>))"

definition mccr_queue_get_status :: "MccxQueueManager \<Rightarrow> u32 \<times> u32" where
  "mccr_queue_get_status q =
     (if \<not> qm_initialized q then (0, 0)
      else (of_nat (count_if (\<lambda>e. qe_in_use e \<and> qe_state e = QUEUE_STATE_PENDING) (qm_entries q)), qm_count q))"

section \<open>The table as a map\<close>

interpretation queue: keyed_table qe_in_use zero_entry qe_session_id
  by unfold_locales (simp add: zero_entry_def)

definition queue_inv :: "MccxQueueManager \<Rightarrow> bool" where
  "queue_inv q \<longleftrightarrow> length (qm_entries q) = MCCR_QUEUE_MAX_SIZE \<and> unat (qm_count q) = count_if qe_in_use (qm_entries q)
     \<and> keys_unique qe_in_use qe_session_id (qm_entries q) \<and> (\<not> qm_initialized q \<longrightarrow> q = zero_queue)"

definition waiting :: "MccxQueueManager \<Rightarrow> string \<rightharpoonup> MccxQueueEntry" where
  "waiting q = table_map qe_in_use qe_session_id (qm_entries q)"

definition purge :: "int \<Rightarrow> (string \<rightharpoonup> MccxQueueEntry) \<Rightarrow> (string \<rightharpoonup> MccxQueueEntry)" where
  "purge now m = (\<lambda>k. case m k of None \<Rightarrow> None | Some e \<Rightarrow> if expired_at now e then None else Some e)"

definition drop_expired :: "int \<Rightarrow> MccxQueueEntry \<Rightarrow> MccxQueueEntry" where
  "drop_expired now e = (if expired_at now e then e\<lparr>qe_state := QUEUE_STATE_EXPIRED, qe_in_use := False\<rparr> else e)"

lemma cleanup_loop_eq:
  "cleanup_loop now es c r = (r + int (count_if (expired_at now) es), c - of_nat (count_if (expired_at now) es), map (drop_expired now) es)"
  by (induction es arbitrary: c r) (simp_all add: drop_expired_def)

lemma drop_expired_in_use: "qe_in_use (drop_expired now e) \<longleftrightarrow> qe_in_use e \<and> \<not> expired_at now e"
  by (auto simp: drop_expired_def expired_at_def)

lemma count_drop: "count_if qe_in_use (map (drop_expired now) es) + count_if (expired_at now) es = count_if qe_in_use es"
  by (induction es) (auto simp: drop_expired_in_use expired_at_def)

lemma zero_queue_inv: "queue_inv zero_queue"
  using queue.blank_table [of 64] queue.unique_blank [of 64] by (simp add: queue_inv_def zero_queue_def)

lemma init_queue_inv: "queue_inv q \<Longrightarrow> queue_inv (mccr_queue_init q)"
  using zero_queue_inv by (auto simp: mccr_queue_init_def queue_inv_def)

lemma waiting_zero [simp]: "waiting zero_queue = Map.empty"
  by (simp add: waiting_def zero_queue_def queue.table_map_blank)

lemma waiting_init: "queue_inv q \<Longrightarrow> waiting (mccr_queue_init q) = waiting q"
  by (auto simp: mccr_queue_init_def queue_inv_def waiting_def zero_queue_def)

lemma cleanup_queue:
  assumes inv: "queue_inv q"
  shows "queue_inv (snd (mccr_queue_cleanup_expired now q))"
    "waiting (snd (mccr_queue_cleanup_expired now q)) = purge now (waiting q)"
    "qm_initialized (snd (mccr_queue_cleanup_expired now q)) = qm_initialized q"
proof -
  let ?es = "map (drop_expired now) (qm_entries q)"
  let ?n = "count_if (expired_at now) (qm_entries q)"
  have cnt: "count_if qe_in_use ?es + ?n = count_if qe_in_use (qm_entries q)" by (rule count_drop)
  have uniq: "keys_unique qe_in_use qe_session_id ?es"
    using inv by (auto simp: queue_inv_def keys_unique_def drop_expired_in_use) (auto simp: drop_expired_def)
  have "unat (qm_count q - of_nat ?n) = count_if qe_in_use ?es"
    using inv cnt count_if_le_length [of qe_in_use "qm_entries q"]
    by (simp add: queue_inv_def unat_sub_if_size word_size unat_of_nat take_bit_eq_mod)
  then show "queue_inv (snd (mccr_queue_cleanup_expired now q))"
    using inv uniq by (simp add: queue_inv_def mccr_queue_cleanup_expired_def cleanup_loop_eq)
  have "find_idx (\<lambda>e. qe_in_use e \<and> qe_session_id e = k) ?es
      = (case find_idx (\<lambda>e. qe_in_use e \<and> qe_session_id e = k) (qm_entries q) of
           None \<Rightarrow> None | Some i \<Rightarrow> if expired_at now (qm_entries q ! i) then None else Some i)" for k
  proof (cases "find_idx (\<lambda>e. qe_in_use e \<and> qe_session_id e = k) (qm_entries q)")
    case None
    then have "find_idx (\<lambda>e. qe_in_use e \<and> qe_session_id e = k) ?es = None"
      by (auto simp: find_idx_None_iff drop_expired_def)
    then show ?thesis using None by simp
  next
    case (Some i)
    have i: "i < length (qm_entries q)" "qe_in_use (qm_entries q ! i)" "qe_session_id (qm_entries q ! i) = k"
      using find_idx_SomeD [OF Some] by auto
    show ?thesis
    proof (cases "expired_at now (qm_entries q ! i)")
      case True
      have "\<not> (qe_in_use e \<and> qe_session_id e = k)" if "e \<in> set ?es" for e
      proof -
        obtain j where j: "j < length (qm_entries q)" "e = drop_expired now (qm_entries q ! j)" using \<open>e \<in> set ?es\<close> by (auto simp: in_set_conv_nth)
        then show ?thesis using inv i True
          by (cases "j = i") (auto simp: queue_inv_def keys_unique_def drop_expired_in_use, auto simp: drop_expired_def)
      qed
      then show ?thesis using Some True by (simp add: find_idx_None_iff)
    next
      case False
      have "qe_in_use (?es ! i) \<and> qe_session_id (?es ! i) = k" using i False by (simp add: drop_expired_def)
      then have "find_idx (\<lambda>e. qe_in_use e \<and> qe_session_id e = k) ?es = Some i"
        using queue.unique_lookup [OF uniq, of i] i by simp
      then show ?thesis using Some False by simp
    qed
  qed
  note find_eq = this
  show "waiting (snd (mccr_queue_cleanup_expired now q)) = purge now (waiting q)"
  proof (cases "qm_initialized q")
    case True
    then show ?thesis
      by (auto simp: waiting_def purge_def table_map_def mccr_queue_cleanup_expired_def cleanup_loop_eq fun_eq_iff drop_expired_def
          find_eq dest: find_idx_less split: option.splits)
  next
    case False
    then have "waiting q = Map.empty" using inv by (auto simp: queue_inv_def)
    then show ?thesis using False by (simp add: mccr_queue_cleanup_expired_def purge_def)
  qed
  show "qm_initialized (snd (mccr_queue_cleanup_expired now q)) = qm_initialized q"
    by (simp add: mccr_queue_cleanup_expired_def case_prod_beta)
qed


lemma entry_of_waiting: "waiting q sid = map_option ((!) (qm_entries q)) (entry_of q sid)"
  by (simp add: waiting_def table_map_def entry_of_def)

lemma full_iff: "queue_inv q \<Longrightarrow> qm_count q \<ge> of_nat MCCR_QUEUE_MAX_SIZE \<longleftrightarrow> find_idx (\<lambda>e. \<not> qe_in_use e) (qm_entries q) = None"
  using count_if_le_length [of qe_in_use "qm_entries q"]
  by (simp add: queue.no_free_slot_iff queue_inv_def word_le_nat_alt)

definition new_entry :: "int \<Rightarrow> string \<Rightarrow> string \<Rightarrow> CommReqParams \<Rightarrow> u32 \<Rightarrow> MccxQueueEntry" where
  "new_entry now sid cid ps prio = \<lparr>qe_in_use = True, qe_state = QUEUE_STATE_PENDING, qe_session_id = strncpy_buf 127 sid,
     qe_client_id = strncpy_buf 63 cid, qe_params = ps, qe_enqueue_time = now, qe_expire_time = now + MCCR_QUEUE_TIMEOUT_SEC,
     qe_retry_count = 0, qe_priority = prio\<rparr>"

lemma new_entry_eq:
  "e\<lparr>qe_in_use := True, qe_state := QUEUE_STATE_PENDING, qe_session_id := strncpy_buf 127 sid, qe_client_id := strncpy_buf 63 cid,
     qe_params := ps, qe_enqueue_time := now, qe_expire_time := now + MCCR_QUEUE_TIMEOUT_SEC, qe_retry_count := 0,
     qe_priority := prio\<rparr> = new_entry now sid cid ps prio"
  by (cases e) (simp add: new_entry_def)

lemma enqueue_cases:
  assumes inv: "queue_inv q" and sid: "length sid \<le> 127"
    and eq: "mccr_queue_enqueue now sid cid ps prio q = (r, q')"
  obtains (updated) e where "r = 0" "purge now (waiting q) sid = Some e" "queue_inv q'" "qm_initialized q'"
      "waiting q' = (purge now (waiting q))(sid \<mapsto> e\<lparr>qe_params := ps, qe_priority := prio, qe_retry_count := qe_retry_count e + 1\<rparr>)"
  | (full) "r = -1" "purge now (waiting q) sid = None" "queue_inv q'" "qm_initialized q'" "waiting q' = purge now (waiting q)"
      "count_if qe_in_use (qm_entries q') = MCCR_QUEUE_MAX_SIZE"
  | (added) "r = 0" "purge now (waiting q) sid = None" "queue_inv q'" "qm_initialized q'"
      "waiting q' = (purge now (waiting q))(sid \<mapsto> new_entry now sid cid ps prio)"
proof -
  define p where "p = snd (mccr_queue_cleanup_expired now (if \<not> qm_initialized q then mccr_queue_init q else q))"
  have p: "queue_inv p" "waiting p = purge now (waiting q)" "qm_initialized p"
    using cleanup_queue [of "if \<not> qm_initialized q then mccr_queue_init q else q" now] inv init_queue_inv [OF inv] waiting_init [OF inv]
    by (auto simp: p_def mccr_queue_init_def split: if_splits)
  have len: "length (qm_entries p) = MCCR_QUEUE_MAX_SIZE" and cnt: "unat (qm_count p) = count_if qe_in_use (qm_entries p)"
    and uniq: "keys_unique qe_in_use qe_session_id (qm_entries p)" using p(1) by (auto simp: queue_inv_def)
  show ?thesis
  proof (cases "entry_of p sid")
    case (Some i)
    let ?e = "qm_entries p ! i"
    let ?v = "?e\<lparr>qe_params := ps, qe_priority := prio, qe_retry_count := qe_retry_count ?e + 1\<rparr>"
    have i: "i < length (qm_entries p)" "qe_in_use ?e" "qe_session_id ?e = sid"
      using find_idx_SomeD [OF Some [unfolded entry_of_def]] by auto
    have q': "r = 0" "q' = p\<lparr>qm_entries := (qm_entries p)[i := ?v]\<rparr>"
      using eq Some by (auto simp: mccr_queue_enqueue_def Let_def p_def [symmetric])
    have "queue_inv q'" using p(1,3) i queue.unique_kept [OF uniq, of ?v i] queue.keep_slot [OF i(1), of ?v] q'
      by (simp add: queue_inv_def)
    moreover have "waiting q' = (waiting p)(sid \<mapsto> ?v)"
      using queue.table_map_updated [OF Some [unfolded entry_of_def], of ?v] i q'(2) by (simp add: waiting_def)
    moreover have "purge now (waiting q) sid = Some ?e" using Some p(2) entry_of_waiting [of p sid] by simp
    ultimately show ?thesis using q' p by (intro updated [of ?e]) simp_all
  next
    case None
    then have none: "purge now (waiting q) sid = None" "waiting p sid = None" using p(2) entry_of_waiting [of p sid] by simp_all
    show ?thesis
    proof (cases "find_idx (\<lambda>e. \<not> qe_in_use e) (qm_entries p)")
      case no: None
      then have "q' = p" "r = -1" using eq None full_iff [OF p(1)] by (auto simp: mccr_queue_enqueue_def Let_def p_def [symmetric])
      then show ?thesis using none p no len by (intro full) (simp_all add: queue.no_free_slot_iff)
    next
      case (Some i)
      let ?v = "new_entry now sid cid ps prio"
      have q': "r = 0" "q' = p\<lparr>qm_entries := (qm_entries p)[i := ?v], qm_count := qm_count p + 1\<rparr>"
        using eq None Some full_iff [OF p(1)] by (auto simp: mccr_queue_enqueue_def Let_def p_def [symmetric] new_entry_eq)
      have key: "qe_session_id ?v = sid" "qe_in_use ?v" using sid by (simp_all add: new_entry_def)
      have c: "count_if qe_in_use ((qm_entries p)[i := ?v]) = Suc (count_if qe_in_use (qm_entries p))"
        by (rule queue.take_slot [OF Some key(2)])
      then have "count_if qe_in_use (qm_entries p) < 64" using count_if_le_length [of qe_in_use "(qm_entries p)[i := ?v]"] len by simp
      then have "unat (qm_count p + 1) = Suc (count_if qe_in_use (qm_entries p))" using cnt by (simp add: unat_word_ariths)
      then have "queue_inv q'"
        using q' p len c key queue.unique_inserted [OF uniq Some, of ?v] None by (simp add: queue_inv_def entry_of_def)
      moreover have "waiting q' = (waiting p)(sid \<mapsto> ?v)"
        using queue.table_map_inserted [OF Some key(2)] key none(2) q'(2) by (simp add: waiting_def)
      ultimately show ?thesis using q' p none by (intro added) simp_all
    qed
  qed
qed

lemma dequeue_queue:
  assumes inv: "queue_inv q"
  shows "queue_inv (snd (mccr_queue_dequeue sid q))" "waiting (snd (mccr_queue_dequeue sid q)) = (waiting q)(sid := None)"
    "fst (mccr_queue_dequeue sid q) = (if waiting q sid = None then -1 else 0)"
proof -
  have "queue_inv (snd (mccr_queue_dequeue sid q)) \<and> waiting (snd (mccr_queue_dequeue sid q)) = (waiting q)(sid := None)
      \<and> fst (mccr_queue_dequeue sid q) = (if waiting q sid = None then -1 else 0)"
  proof (cases "qm_initialized q \<and> entry_of q sid \<noteq> None")
    case False
    have "waiting q sid = None" if "\<not> qm_initialized q" using inv that by (auto simp: queue_inv_def)
    then have "waiting q sid = None" using False entry_of_waiting [of q sid] by auto
    then show ?thesis using inv False by (auto simp: mccr_queue_dequeue_def fun_upd_idem)
  next
    case True
    then obtain i where i: "entry_of q sid = Some i" by auto
    let ?v = "(qm_entries q ! i)\<lparr>qe_state := QUEUE_STATE_COMPLETED, qe_in_use := False\<rparr>"
    have il: "i < length (qm_entries q)" "qe_in_use (qm_entries q ! i)" using find_idx_SomeD [OF i [unfolded entry_of_def]] by auto
    have "Suc (count_if qe_in_use ((qm_entries q)[i := ?v])) = count_if qe_in_use (qm_entries q)"
      by (rule queue.free_slot [OF il]) simp
    then have "unat (qm_count q - 1) = count_if qe_in_use ((qm_entries q)[i := ?v])"
      using inv by (simp add: queue_inv_def unat_sub_if_size word_size)
    then show ?thesis
      using inv True i il queue.unique_removed [of "qm_entries q" ?v i] entry_of_waiting [of q sid]
        queue.table_map_removed [of "qm_entries q" sid i ?v]
      by (simp add: mccr_queue_dequeue_def queue_inv_def waiting_def entry_of_def)
  qed
  then show "queue_inv (snd (mccr_queue_dequeue sid q))" "waiting (snd (mccr_queue_dequeue sid q)) = (waiting q)(sid := None)"
    "fst (mccr_queue_dequeue sid q) = (if waiting q sid = None then -1 else 0)" by auto
qed

end
