(* ===== verification/Cic_Mcar.thy ===== *)
theory Cic_Mcar
  imports Group_Avp Mccr_Queue Adif Push Policy Lmi Cdr Traffic Tft Napt
begin

text \<open>
  The client authentication request (\<open>cic_handle_mcar\<close> of \<open>app_magic/magic_cic.c\<close>) in its steps:
  validation, authentication, subscription, activation conditions, allocation and answer.

  The handlers work on \<open>cic_world\<close>: the global context, the charging records, the traffic monitor, the
  aircraft-data client, the rate-limit table, the queue of waiting requests, and the answers sent. \<open>g_ctx\<close> is set before the handlers are
  registered, so the tests for NULL never fire. What the operating system and libfdcore answer is the
  record \<open>cic_env\<close>: \<open>ce_add\<close> says for each attribute of an answer whether it can be added, \<open>ce_group\<close>
  whether a group can, \<open>ce_ok\<close> the same for a named step of a handler and a table slot, \<open>ce_ct\<close> is the
  connection table, \<open>ce_uuid\<close> is the identifier drawn for a new charging record, \<open>ce_junk\<close> the content of an uninitialised
  address. One reading of the clock per message.
\<close>

section \<open>State and environment\<close>

record cic_world =
  wd_mx :: MagicContext
  wd_cdr :: cdr_world
  wd_tm :: tm_world
  wd_adif :: AdifClientContext
  wd_rate :: "MsxrRateLimitEntry list"
  wd_queue :: MccxQueueManager
  wd_answers :: "davp list list"

record cic_env =
  ce_os :: os_env
  ce_dia :: dia_env
  ce_tm :: tm_env
  ce_ct :: conntrack
  ce_fs :: fs_env
  ce_uuid :: string
  ce_diamid :: string
  ce_diamrlm :: string
  ce_new_answer :: bool
  ce_add :: "nat \<Rightarrow> bool"
  ce_group :: bool
  ce_ok :: "string \<Rightarrow> nat \<Rightarrow> bool"
  ce_send :: bool
  ce_junk :: u32

definition upd_sm :: "(SessionManager \<Rightarrow> SessionManager) \<Rightarrow> cic_world \<Rightarrow> cic_world" where
  "upd_sm f w = w\<lparr>wd_mx := (wd_mx w)\<lparr>mx_sm := f (mx_sm (wd_mx w))\<rparr>\<rparr>"

definition upd_dp :: "(dp_world \<Rightarrow> dp_world) \<Rightarrow> cic_world \<Rightarrow> cic_world" where
  "upd_dp f w = w\<lparr>wd_mx := (wd_mx w)\<lparr>mx_dp := f (mx_dp (wd_mx w))\<rparr>\<rparr>"

definition upd_session :: "nat \<Rightarrow> (ClientSession \<Rightarrow> ClientSession) \<Rightarrow> cic_world \<Rightarrow> cic_world" where
  "upd_session i f w = w\<lparr>wd_mx := set_session i (f (mx_sessions (wd_mx w) ! i)) (wd_mx w)\<rparr>"

definition wd_session :: "cic_world \<Rightarrow> nat \<Rightarrow> ClientSession" where
  "wd_session w i = mx_sessions (wd_mx w) ! i"

text \<open>The policy engine reads the global configuration and the table of link managers.\<close>

definition policy_ctx :: "cic_world \<Rightarrow> PolicyContext" where
  "policy_ctx w = \<lparr>pc_config = mx_config (wd_mx w), pc_initialized = True,
                   pc_lmi_ctx = Some (li_clients (mx_lmi (wd_mx w)))\<rparr>"

text \<open>\<open>inet_ntoa\<close> on an address kept in network order in a 32-bit word of a little-endian machine.\<close>

definition inet_ntoa :: "u32 \<Rightarrow> string" where
  "inet_ntoa a = show_dec (uint a mod 256) @ ''.'' @ show_dec (uint a div 256 mod 256) @ ''.'' @
                 show_dec (uint a div 65536 mod 256) @ ''.'' @ show_dec (uint a div 16777216)"

text \<open>The conversion of a \<open>double\<close> to \<open>int\<close>; outside the range the machine delivers the smallest number.\<close>

definition fp_to_int :: "rat \<Rightarrow> int" where
  "fp_to_int x = (let i = (if x < 0 then \<lceil>x\<rceil> else \<lfloor>x\<rfloor>) in if i < - (2 ^ 31) \<or> i \<ge> 2 ^ 31 then - (2 ^ 31) else i)"

text \<open>The working structure of the handler. The field \<open>client_ip\<close>, which nothing assigns, is left out.\<close>

record McarProcessContext =
  mk_session_id :: string
  mk_client_id :: string
  mk_client_realm :: string
  mk_username :: string
  mk_password :: string
  mk_has_client_credentials :: bool
  mk_has_req_status_info :: bool
  mk_has_comm_req_params :: bool
  mk_req_status_info :: u32
  mk_comm_params :: CommReqParams
  mk_profile :: "ClientProfile option"
  mk_auth_success :: bool
  mk_session :: "nat option"
  mk_security_passed :: bool
  mk_extracted_dest_ip :: string
  mk_policy_resp :: PolicyResponse
  mk_mih_confirm :: MIH_Link_Resource_Confirm
  mk_resource_allocated :: bool
  mk_route_added :: bool
  mk_retry_count :: nat
  mk_tried_links :: "string list"
  mk_tried_link_count :: nat
  mk_result_code :: u32
  mk_magic_status_code :: u32
  mk_granted_lifetime :: u32
  mk_auth_grace_period :: u32
  mk_granted_status_info :: u32
  mk_error_message :: "string option"

abbreviation MCAR_RETRY_MAX_COUNT :: nat where "MCAR_RETRY_MAX_COUNT \<equiv> 3"
abbreviation MCAR_FALLBACK_MAX_LINKS :: nat where "MCAR_FALLBACK_MAX_LINKS \<equiv> 4"

definition initial_mcar :: McarProcessContext where
  "initial_mcar =
     \<lparr>mk_session_id = [], mk_client_id = [], mk_client_realm = [], mk_username = [], mk_password = [],
      mk_has_client_credentials = False, mk_has_req_status_info = False, mk_has_comm_req_params = False,
      mk_req_status_info = 0, mk_comm_params = zero_comm_params, mk_profile = None, mk_auth_success = False,
      mk_session = None, mk_security_passed = False, mk_extracted_dest_ip = [], mk_policy_resp = zero_response,
      mk_mih_confirm = blank_confirm STATUS_SUCCESS, mk_resource_allocated = False, mk_route_added = False,
      mk_retry_count = 0, mk_tried_links = replicate MCAR_FALLBACK_MAX_LINKS [], mk_tried_link_count = 0,
      mk_result_code = 2001, mk_magic_status_code = 0, mk_granted_lifetime = 3600, mk_auth_grace_period = 300,
      mk_granted_status_info = 0, mk_error_message = None\<rparr>"

definition mcar_error :: "u32 \<Rightarrow> u32 \<Rightarrow> string \<Rightarrow> McarProcessContext \<Rightarrow> McarProcessContext" where
  "mcar_error result status msg ctx =
     ctx\<lparr>mk_result_code := result, mk_magic_status_code := status, mk_error_message := Some msg\<rparr>"

section \<open>Step 1: validation\<close>

text \<open>The octets of an attribute, kept when the attribute or its value is missing.\<close>

definition read_octets :: "davp list \<Rightarrow> string \<Rightarrow> nat \<Rightarrow> string \<Rightarrow> string" where
  "read_octets msg name n old =
     (case search_avp msg name of None \<Rightarrow> old
      | Some d \<Rightarrow> (case avp_octets d of None \<Rightarrow> old | Some s \<Rightarrow> copy_octets n s))"

definition reset_old_session :: "cic_env \<Rightarrow> int \<Rightarrow> string \<Rightarrow> cic_world \<Rightarrow> cic_world" where
  "reset_old_session env now sid w =
     (case magic_session_find_by_id (mx_sm (wd_mx w)) (Some sid) of
        None \<Rightarrow> w
      | Some i \<Rightarrow>
          let w = upd_session i (\<lambda>s. snd (magic_session_set_state now SESSION_STATE_CLOSED s)) w
          in if cs_assigned_link_id (wd_session w i) \<noteq> []
             then upd_dp (\<lambda>d. snd (magic_dataplane_remove_client_route (ce_os env) (Some (cs_session_id (wd_session w i))) d)) w
             else w)"

definition read_credentials :: "avp_data \<Rightarrow> McarProcessContext \<Rightarrow> McarProcessContext" where
  "read_credentials cred ctx =
     (let ctx = (case find (\<lambda>a. avp_model a = Some ''User-Name'') (children cred) of
                   None \<Rightarrow> ctx
                 | Some a \<Rightarrow> (case avp_octets (avp_value a) of None \<Rightarrow> ctx
                              | Some s \<Rightarrow> ctx\<lparr>mk_username := copy_octets 64 s\<rparr>))
      in case extract_string_from_grouped_avp cred ''Client-Password'' 64 of
           None \<Rightarrow> ctx | Some pw \<Rightarrow> ctx\<lparr>mk_password := pw\<rparr>)"

definition mcar_step1_validation ::
    "cic_env \<Rightarrow> int \<Rightarrow> davp list \<Rightarrow> McarProcessContext \<Rightarrow> cic_world \<Rightarrow> bool \<times> McarProcessContext \<times> cic_world" where
  "mcar_step1_validation env now qry ctx w =
     (if search_avp qry ''Session-Id'' = None
      then (False, mcar_error 5005 3001 ''Missing required AVP: Session-Id'' ctx, w)
      else
        let ctx = ctx\<lparr>mk_session_id := read_octets qry ''Session-Id'' 128 (mk_session_id ctx),
                      mk_client_id := read_octets qry ''Origin-Host'' 64 (mk_client_id ctx),
                      mk_client_realm := read_octets qry ''Origin-Realm'' 64 (mk_client_realm ctx)\<rparr>;
            w = reset_old_session env now (mk_session_id ctx) w;
            ctx = (case search_avp qry ''Client-Credentials'' of
                     None \<Rightarrow> ctx
                   | Some cred \<Rightarrow> read_credentials cred (ctx\<lparr>mk_has_client_credentials := True\<rparr>));
            ctx = (case search_avp qry ''REQ-Status-Info'' of
                     None \<Rightarrow> ctx
                   | Some d \<Rightarrow> (case u32_of d of None \<Rightarrow> ctx
                                | Some v \<Rightarrow> ctx\<lparr>mk_has_req_status_info := True, mk_req_status_info := v\<rparr>));
            ctx = (case search_avp qry ''Communication-Request-Parameters'' of
                     None \<Rightarrow> ctx
                   | Some g \<Rightarrow> ctx\<lparr>mk_has_comm_req_params := True, mk_comm_params := parse_comm_req_params g\<rparr>)
        in (True, ctx, w))"

section \<open>Step 2: authentication\<close>

definition find_profile :: "MagicConfig \<Rightarrow> string \<Rightarrow> ClientProfile option" where
  "find_profile cfg cid = map_option (\<lambda>i. mc_clients cfg ! i) (magic_config_find_client cfg (Some cid))"

definition mcar_profile :: "MagicConfig \<Rightarrow> McarProcessContext \<Rightarrow> ClientProfile option" where
  "mcar_profile cfg ctx =
     (if mk_username ctx \<noteq> []
      then (case find_profile cfg (mk_username ctx) of
              Some p \<Rightarrow> Some p
            | None \<Rightarrow> find_profile cfg (mk_client_id ctx))
      else find_profile cfg (mk_client_id ctx))"

definition open_session ::
    "cic_env \<Rightarrow> int \<Rightarrow> ClientProfile \<Rightarrow> McarProcessContext \<Rightarrow> nat \<Rightarrow> cic_world \<Rightarrow> cic_world" where
  "open_session env now p ctx i w =
     (let w = upd_session i (\<lambda>s. snd (magic_session_set_state now SESSION_STATE_AUTHENTICATED s)) w;
          w = (if ca_source_ip (cl_auth p) \<noteq> []
               then upd_session i (\<lambda>s. s\<lparr>cs_client_ip := strncpy_buf 63 (ca_source_ip (cl_auth p))\<rparr>) w else w);
          w = (if cs_client_ip (wd_session w i) \<noteq> []
               then upd_dp (\<lambda>d. snd (magic_dataplane_ipset_add_control (ce_os env) (Some (cs_client_ip (wd_session w i))) d)) w
               else w)
      in upd_session i (\<lambda>s. s\<lparr>cs_profile_name := strncpy_buf 63 (cl_client_id p),
                              cs_auth_expire_time := now + uint (mk_granted_lifetime ctx),
                              cs_auth_grace_period := mk_auth_grace_period ctx\<rparr>) w)"

definition mcar_step2_auth ::
    "cic_env \<Rightarrow> int \<Rightarrow> McarProcessContext \<Rightarrow> cic_world \<Rightarrow> bool \<times> McarProcessContext \<times> cic_world" where
  "mcar_step2_auth env now ctx w =
     (case mcar_profile (mx_config (wd_mx w)) ctx of
        None \<Rightarrow> (False, (mcar_error 2001 1001 ''Client profile not found'' ctx)\<lparr>mk_profile := None, mk_auth_success := False\<rparr>, w)
      | Some p \<Rightarrow>
          let ctx = ctx\<lparr>mk_profile := Some p\<rparr>
          in if ca_username (cl_auth p) \<noteq> mk_username ctx \<or> ca_client_password (cl_auth p) \<noteq> mk_password ctx
             then (False, (mcar_error 2001 1001 ''Invalid username or password'' ctx)\<lparr>mk_auth_success := False\<rparr>, w)
             else
               let ctx = ctx\<lparr>mk_auth_success := True\<rparr>;
                   (slot, sm) = magic_session_create now (Some (mk_session_id ctx)) (Some (mk_client_id ctx))
                                  (Some (mk_client_realm ctx)) (mx_sm (wd_mx w));
                   ctx = ctx\<lparr>mk_session := slot\<rparr>;
                   w = upd_sm (\<lambda>_. sm) w
               in case slot of
                    None \<Rightarrow> (False, mcar_error 5012 1000 ''Failed to create session'' ctx, w)
                  | Some i \<Rightarrow> (True, ctx, open_session env now p ctx i w))"

section \<open>Step 3: subscription and activation conditions\<close>

definition mcar_step3_subscription ::
    "cic_env \<Rightarrow> McarProcessContext \<Rightarrow> cic_world \<Rightarrow> McarProcessContext \<times> cic_world" where
  "mcar_step3_subscription env ctx w =
     (if \<not> mk_has_req_status_info ctx \<or> mk_req_status_info ctx = 0 then (ctx, w)
      else
        let req_type = mk_req_status_info ctx in
        case mk_session ctx of
          None \<Rightarrow> (ctx\<lparr>mk_granted_status_info := req_type\<rparr>, w)
        | Some i \<Rightarrow>
            let w = upd_session i (\<lambda>s. snd (magic_session_set_subscription req_type s)) w;
                (r, x) = magic_cic_send_initial_mscr (ce_dia env) i (wd_mx w)
            in (ctx\<lparr>mk_granted_status_info := req_type\<rparr>, w\<lparr>wd_mx := x\<rparr>))"

fun adif_to_cfg_phase :: "AdifFlightPhase \<Rightarrow> CfgFlightPhase" where
  "adif_to_cfg_phase FLIGHT_PHASE_GATE = CFG_FLIGHT_PHASE_GATE"
| "adif_to_cfg_phase FLIGHT_PHASE_TAXI = CFG_FLIGHT_PHASE_TAXI"
| "adif_to_cfg_phase FLIGHT_PHASE_TAKEOFF = CFG_FLIGHT_PHASE_TAKE_OFF"
| "adif_to_cfg_phase FLIGHT_PHASE_CLIMB = CFG_FLIGHT_PHASE_CLIMB"
| "adif_to_cfg_phase FLIGHT_PHASE_CRUISE = CFG_FLIGHT_PHASE_CRUISE"
| "adif_to_cfg_phase FLIGHT_PHASE_DESCENT = CFG_FLIGHT_PHASE_DESCENT"
| "adif_to_cfg_phase FLIGHT_PHASE_APPROACH = CFG_FLIGHT_PHASE_APPROACH"
| "adif_to_cfg_phase FLIGHT_PHASE_LANDING = CFG_FLIGHT_PHASE_LANDING"
| "adif_to_cfg_phase FLIGHT_PHASE_UNKNOWN = CFG_FLIGHT_PHASE_UNKNOWN"

text \<open>The state, when its data are valid.\<close>

definition valid_adif :: "cic_world \<Rightarrow> AdifAircraftState option" where
  "valid_adif w = (let s = adif_client_get_state (wd_adif w) in if ad_data_valid s then Some s else None)"

definition altitude_in_range :: "int \<Rightarrow> int \<times> int \<Rightarrow> bool" where
  "altitude_in_range alt r \<longleftrightarrow> alt \<ge> fst r \<and> (snd r < 0 \<or> alt \<le> snd r)"

text \<open>
  The airport test is skipped whatever the request says: the current airport is a constant NULL
  (the code to find it is not written).
\<close>

definition mcar_step3b_session_conditions :: "McarProcessContext \<Rightarrow> cic_world \<Rightarrow> bool \<times> McarProcessContext" where
  "mcar_step3b_session_conditions ctx w =
     (if \<not> mk_has_comm_req_params ctx then (True, ctx)
      else
        let ps = mk_comm_params ctx;
            adif = valid_adif w;
            current_phase = (case adif of None \<Rightarrow> CFG_FLIGHT_PHASE_UNKNOWN | Some s \<Rightarrow> adif_to_cfg_phase (af_phase (ad_flight_phase s)));
            current_alt = (case adif of None \<Rightarrow> 0 | Some s \<Rightarrow> fp_to_int (ap_altitude_ft (ad_position s)));
            in_range = list_ex (altitude_in_range current_alt) (altitude_list ps)
        in if cq_has_flight_phase ps \<and>
              (case mk_profile ctx of None \<Rightarrow> False | Some p \<Rightarrow> \<not> magic_config_is_flight_phase_allowed p current_phase)
           then (False, mcar_error 5001 1020 ''Session denied: flight phase restriction'' ctx)
           else if cq_has_altitude ps \<and> cq_altitude_range_count ps > 0 \<and>
                   \<not> (if cq_altitude_is_blacklist ps then \<not> in_range else in_range)
           then (False, mcar_error 5001 1021 ''Session denied: altitude restriction'' ctx)
           else (True, ctx))"

section \<open>Step 4: allocation\<close>

definition mcar_link_already_tried :: "McarProcessContext \<Rightarrow> string \<Rightarrow> bool" where
  "mcar_link_already_tried ctx link_id =
     list_ex (\<lambda>l. l = link_id) (take (mk_tried_link_count ctx) (mk_tried_links ctx))"

definition mcar_mark_link_tried :: "string \<Rightarrow> McarProcessContext \<Rightarrow> McarProcessContext" where
  "mcar_mark_link_tried link_id ctx =
     (if mk_tried_link_count ctx < MCAR_FALLBACK_MAX_LINKS
      then ctx\<lparr>mk_tried_links := (mk_tried_links ctx)[mk_tried_link_count ctx := strncpy_buf 63 link_id],
               mk_tried_link_count := mk_tried_link_count ctx + 1\<rparr>
      else ctx)"

definition mcar_mih_request :: "string \<Rightarrow> PolicyResponse \<Rightarrow> MIH_Link_Resource_Request" where
  "mcar_mih_request link_id prs =
     \<lparr>lq_destination_id = snprintf_buf 64 (''MIHF_'' @ link_id),
      lq_link_identifier = zero_link_tuple\<lparr>lt_link_type := 1, lt_link_addr := strncpy_buf 31 link_id\<rparr>,
      lq_resource_action = RESOURCE_ACTION_REQUEST, lq_bearer_identifier = None,
      lq_qos_parameters = Some (zero_qos\<lparr>qp_cos_id := 0, qp_forward_link_rate := rs_granted_bw_kbps prs,
        qp_return_link_rate := rs_granted_ret_bw_kbps prs, qp_avg_pk_tx_delay := 100, qp_max_pk_tx_delay := 500,
        qp_pk_delay_jitter := 50, qp_pk_loss_rate := to_float (1 / 100)\<rparr>)\<rparr>"

text \<open>The remaining attempts, the number of the next one, and the confirm of the last; the result is 0 or -1.\<close>

fun mcar_retry_loop ::
    "int \<Rightarrow> nat \<Rightarrow> nat \<Rightarrow> string \<Rightarrow> PolicyResponse \<Rightarrow> McarProcessContext \<Rightarrow> MIH_Link_Resource_Confirm \<Rightarrow> cic_world
       \<Rightarrow> int \<times> McarProcessContext \<times> MIH_Link_Resource_Confirm \<times> cic_world" where
  "mcar_retry_loop now 0 attempt link_id prs ctx confirm w = (-1, ctx, confirm, w)"
| "mcar_retry_loop now (Suc n) attempt link_id prs ctx confirm w =
     (let (r, confirm, x) = magic_dlm_mih_link_resource_request now (mcar_mih_request link_id prs) (wd_mx w);
          w = w\<lparr>wd_mx := x\<rparr>
      in if r = 0 \<and> lf_status confirm = STATUS_SUCCESS
         then (0, ctx\<lparr>mk_retry_count := attempt\<rparr>, confirm, w)
         else mcar_retry_loop now n (attempt + 1) link_id prs ctx confirm w)"

definition mcar_try_link_with_retry ::
    "int \<Rightarrow> string \<Rightarrow> PolicyResponse \<Rightarrow> McarProcessContext \<Rightarrow> MIH_Link_Resource_Confirm \<Rightarrow> cic_world
       \<Rightarrow> int \<times> McarProcessContext \<times> MIH_Link_Resource_Confirm \<times> cic_world" where
  "mcar_try_link_with_retry now link_id prs ctx confirm w =
     mcar_retry_loop now MCAR_RETRY_MAX_COUNT 0 link_id prs ctx confirm w"

text \<open>The request to the policy engine, which the first choice and the fallback build alike.\<close>

definition mcar_policy_request :: "McarProcessContext \<Rightarrow> cic_world \<Rightarrow> PolicyRequest" where
  "mcar_policy_request ctx w =
     (let ps = mk_comm_params ctx;
          req = \<lparr>rq_client_id = strncpy_buf 63 (mk_client_id ctx), rq_profile_name = strncpy_buf 63 (cq_profile_name ps),
                 rq_requested_bw_kbps = fp_to_u32 (cq_requested_bw ps), rq_requested_ret_bw_kbps = fp_to_u32 (cq_requested_ret_bw ps),
                 rq_required_bw_kbps = fp_to_u32 (cq_required_bw ps), rq_required_ret_bw_kbps = fp_to_u32 (cq_required_ret_bw ps),
                 rq_priority_class = word_of_int (atoi (cq_priority_class ps)), rq_qos_level = ucast (cq_qos_level ps),
                 rq_traffic_class = 0, rq_flight_phase = strncpy_buf 63 (cq_flight_phase ps), rq_exclude_link_count = 0,
                 rq_exclude_links = [], rq_current_link_id = [], rq_current_bw_percent = 0, rq_new_link_bw_percent = 0,
                 rq_aircraft_lat = 0, rq_aircraft_lon = 0, rq_aircraft_alt = 0, rq_on_ground = False, rq_has_adif_data = False\<rparr>
      in case valid_adif w of
           None \<Rightarrow> req
         | Some s \<Rightarrow> req\<lparr>rq_aircraft_lat := ap_latitude (ad_position s), rq_aircraft_lon := ap_longitude (ad_position s),
                         rq_aircraft_alt := to_double (ap_altitude_ft (ad_position s) * to_double (3048 / 10000)),
                         rq_on_ground := aw_on_ground (ad_wow s), rq_has_adif_data := True\<rparr>)"

fun mcar_fallback_loop ::
    "int \<Rightarrow> nat \<Rightarrow> PolicyRequest \<Rightarrow> McarProcessContext \<Rightarrow> cic_world \<Rightarrow> int \<times> McarProcessContext \<times> cic_world" where
  "mcar_fallback_loop now 0 req ctx w = (-1, ctx, w)"
| "mcar_fallback_loop now (Suc n) req ctx w =
     (let req = req\<lparr>rq_exclude_link_count := int (mk_tried_link_count ctx),
                    rq_exclude_links := take (min (mk_tried_link_count ctx) 4) (mk_tried_links ctx)\<rparr>;
          (r, prs) = magic_policy_select_path (policy_ctx w) req
      in if r \<noteq> 0 \<or> \<not> rs_success prs then (-1, ctx, w)
         else if mcar_link_already_tried ctx (rs_selected_link_id prs) then mcar_fallback_loop now n req ctx w
         else
           let ctx = mcar_mark_link_tried (rs_selected_link_id prs) ctx;
               (r, ctx, confirm, w) = mcar_try_link_with_retry now (rs_selected_link_id prs) prs ctx (blank_confirm STATUS_SUCCESS) w
           in if r = 0 then (0, ctx\<lparr>mk_policy_resp := prs, mk_mih_confirm := confirm\<rparr>, w)
              else mcar_fallback_loop now n req ctx w)"

definition mcar_try_fallback_links ::
    "int \<Rightarrow> McarProcessContext \<Rightarrow> cic_world \<Rightarrow> int \<times> McarProcessContext \<times> cic_world" where
  "mcar_try_fallback_links now ctx w = mcar_fallback_loop now MCAR_FALLBACK_MAX_LINKS (mcar_policy_request ctx w) ctx w"

text \<open>The destination of the first filter that names one: by the parser, or by the word after \<open>to\<close>.\<close>

fun dest_ip_loop :: "string list \<Rightarrow> string" where
  "dest_ip_loop [] = []"
| "dest_ip_loop (rule # rules) =
     (if rule = [] then dest_ip_loop rules
      else
        let (r, p) = tft_parse_rule (Some rule)
        in if r = 0 \<and> tr_is_valid p \<and> ir_is_valid (tr_dst_ip p)
           then strncpy_buf 63 (dotted_quad (ir_start_ip (tr_dst_ip p)))
           else case strstr rule '' to '' of
                  None \<Rightarrow> dest_ip_loop rules
                | Some pos \<Rightarrow>
                    let word = takeWhile (\<lambda>c. c \<noteq> CHR '' '') (drop 4 pos)
                    in if 0 < length word \<and> length word < 64
                       then (if word = ''any'' then [] else word)
                       else dest_ip_loop rules)"

definition mcar_extract_dest_ip_from_tft :: "McarProcessContext \<Rightarrow> McarProcessContext" where
  "mcar_extract_dest_ip_from_tft ctx = ctx\<lparr>mk_extracted_dest_ip := dest_ip_loop (ground_tfts (mk_comm_params ctx))\<rparr>"

text \<open>The first message of a validator that refuses; \<open>None\<close> when every rule passes.\<close>

fun first_refusal :: "(string \<Rightarrow> int \<times> string) \<Rightarrow> string list \<Rightarrow> string option" where
  "first_refusal check [] = None"
| "first_refusal check (r # rs) = (let (c, msg) = check r in if c \<noteq> 0 then Some msg else first_refusal check rs)"

definition mcar_refusal :: "ClientProfile \<Rightarrow> CommReqParams \<Rightarrow> string option" where
  "mcar_refusal p ps =
     (let tft = (\<lambda>r. tft_validate_against_whitelist (Some r) (cl_traffic p) 512)
      in case first_refusal tft (ground_tfts ps) of
           Some m \<Rightarrow> Some m
         | None \<Rightarrow>
             (case first_refusal tft (aircraft_tfts ps) of
                Some m \<Rightarrow> Some m
              | None \<Rightarrow> first_refusal (\<lambda>r. napt_validate_against_whitelist (Some r) (cl_traffic p) None [] 512) (napt_list ps)))"

definition mcar_validate_tft_napt_whitelist :: "McarProcessContext \<Rightarrow> int \<times> McarProcessContext" where
  "mcar_validate_tft_napt_whitelist ctx =
     (let ctx = ctx\<lparr>mk_security_passed := True\<rparr>
      in case mk_profile ctx of
           None \<Rightarrow> (0, ctx)
         | Some p \<Rightarrow>
             (case mcar_refusal p (mk_comm_params ctx) of
                None \<Rightarrow> (0, ctx)
              | Some m \<Rightarrow> (-1, ctx\<lparr>mk_security_passed := False, mk_magic_status_code := 1036,
                                   mk_error_message := Some (strncpy_buf 255 m)\<rparr>)))"

definition cap_request :: "ClientProfile option \<Rightarrow> CommReqParams \<Rightarrow> CommReqParams" where
  "cap_request profile ps =
     (case profile of None \<Rightarrow> ps
      | Some p \<Rightarrow>
          if bw_max_forward_kbps (cl_bandwidth p) = 0 then ps
          else
            let max_fwd = to_float (of_int (uint (bw_max_forward_kbps (cl_bandwidth p))));
                max_ret = to_float (of_int (uint (bw_max_return_kbps (cl_bandwidth p))));
                max_ret = (if max_ret = 0 then max_fwd else max_ret);
                ps = (if cq_requested_bw ps > max_fwd then ps\<lparr>cq_requested_bw := max_fwd\<rparr> else ps)
            in if cq_requested_ret_bw ps > max_ret then ps\<lparr>cq_requested_ret_bw := max_ret\<rparr> else ps)"

definition client_ip_of :: "ClientProfile option \<Rightarrow> ClientSession \<Rightarrow> string" where
  "client_ip_of profile s =
     (case profile of
        Some p \<Rightarrow> (if ca_source_ip (cl_auth p) \<noteq> [] then ca_source_ip (cl_auth p)
                   else if cs_client_ip s \<noteq> [] then cs_client_ip s else ''192.168.10.10'')
      | None \<Rightarrow> (if cs_client_ip s \<noteq> [] then cs_client_ip s else ''192.168.10.10''))"

text \<open>The link is registered with the data plane on first use, when its manager is known.\<close>

definition ensure_link_registered :: "cic_env \<Rightarrow> string \<Rightarrow> cic_world \<Rightarrow> cic_world" where
  "ensure_link_registered env link_id w =
     (if magic_dataplane_get_table_id (dp (mx_dp (wd_mx w))) (Some link_id) \<noteq> 0 then w
      else case magic_lmi_find_by_link (mx_lmi (wd_mx w)) (Some link_id) of
             None \<Rightarrow> w
           | Some i \<Rightarrow>
               let c = li_clients (mx_lmi (wd_mx w)) ! i; l = dm_link_identifier c
               in if lt_link_addr l = [] then w
                  else
                    let interface_name = (if lt_poa_addr l \<noteq> [] then lt_poa_addr l else lt_link_addr l);
                        gw = pa_gateway (dm_current_parameters c);
                        gateway_ip = (if gw \<noteq> 0 then Some (strncpy_buf 63 (inet_ntoa gw)) else None)
                    in upd_dp (\<lambda>d. snd (magic_dataplane_register_link (ce_os env) (Some link_id) (Some interface_name) gateway_ip d)) w)"

definition tft_tuple_of :: "string \<Rightarrow> string \<Rightarrow> TFTRule \<Rightarrow> TftTuple" where
  "tft_tuple_of client_ip dest_ip p =
     \<lparr>tt_src_ip = strncpy_buf 63 client_ip,
      tt_dst_ip = (if ir_is_valid (tr_dst_ip p) then strncpy_buf 63 (dotted_quad (ir_start_ip (tr_dst_ip p)))
                   else strncpy_buf 63 dest_ip),
      tt_src_port = (if pr_is_valid (tr_src_port p) then pr_start_port (tr_src_port p) else 0),
      tt_dst_port = (if pr_is_valid (tr_dst_port p) then pr_start_port (tr_dst_port p) else 0),
      tt_protocol = (if tr_has_protocol p then tr_protocol p else 0)\<rparr>"

fun add_tft_loop :: "cic_env \<Rightarrow> int \<Rightarrow> string \<Rightarrow> string \<Rightarrow> string \<Rightarrow> string \<Rightarrow> string list \<Rightarrow> cic_world \<Rightarrow> cic_world" where
  "add_tft_loop env now client_ip dest_ip sid link_id [] w = w"
| "add_tft_loop env now client_ip dest_ip sid link_id (rule # rules) w =
     (let (r, p) = tft_parse_rule (Some rule);
          w = (if r = 0 \<and> tr_is_valid p
               then upd_dp (\<lambda>d. snd (magic_dataplane_add_tft_rule (ce_os env) now (tft_tuple_of client_ip dest_ip p) (Some sid) (Some link_id) d)) w
               else w)
      in add_tft_loop env now client_ip dest_ip sid link_id rules w)"

text \<open>Route, data white list, packet filters, traffic monitor and charging record of an allocated session.\<close>

definition mcar_setup_session ::
    "cic_env \<Rightarrow> int \<Rightarrow> nat \<Rightarrow> McarProcessContext \<Rightarrow> cic_world \<Rightarrow> McarProcessContext \<times> cic_world" where
  "mcar_setup_session env now i ctx w =
     (let link = rs_selected_link_id (mk_policy_resp ctx);
          client_ip = client_ip_of (mk_profile ctx) (wd_session w i);
          w = ensure_link_registered env link w;
          dest = (if mk_extracted_dest_ip ctx \<noteq> [] then Some (mk_extracted_dest_ip ctx) else None);
          (r, d) = magic_dataplane_add_client_route (ce_os env) now (Some client_ip) (Some (mk_session_id ctx)) (Some link) dest (mx_dp (wd_mx w));
          w = upd_dp (\<lambda>_. d) w;
          ctx = ctx\<lparr>mk_route_added := (r = 0)\<rparr>;
          w = (if r = 0 then upd_dp (\<lambda>d. snd (magic_dataplane_ipset_add_data (ce_os env) (Some client_ip) d)) w else w);
          w = add_tft_loop env now client_ip (mk_extracted_dest_ip ctx) (mk_session_id ctx) link (ground_tfts (mk_comm_params ctx)) w;
          (mark, t) = traffic_register_session (ce_tm env) now (Some (mk_session_id ctx)) (Some (mk_client_id ctx)) (Some client_ip) (wd_tm w);
          w = w\<lparr>wd_tm := t\<rparr>;
          w = (if mark \<noteq> 0 then upd_session i (\<lambda>s. s\<lparr>cs_conntrack_mark := mark, cs_traffic_start_time := now\<rparr>) w else w);
          (c, cw) = cdr_create (ce_fs env) now (ce_uuid env) (Some (mk_session_id ctx)) (Some (mk_client_id ctx)) (Some link) (wd_cdr w)
      in (ctx, w\<lparr>wd_cdr := cw\<rparr>))"

definition mcar_activate ::
    "cic_env \<Rightarrow> int \<Rightarrow> McarProcessContext \<Rightarrow> cic_world \<Rightarrow> McarProcessContext \<times> cic_world" where
  "mcar_activate env now ctx w =
     (let (ctx, w) =
        (case mk_session ctx of
           None \<Rightarrow> (ctx, w)
         | Some i \<Rightarrow>
             let prs = mk_policy_resp ctx;
                 bearer = (case lf_bearer_identifier (mk_mih_confirm ctx) of None \<Rightarrow> 0 | Some b \<Rightarrow> b);
                 w = upd_session i (\<lambda>s. snd (magic_session_assign_link now (Some (rs_selected_link_id prs)) bearer
                                             (rs_granted_bw_kbps prs) (rs_granted_ret_bw_kbps prs) s)) w;
                 w = (if mk_has_req_status_info ctx
                      then upd_session i (\<lambda>s. snd (magic_session_set_subscription (mk_granted_status_info ctx) s)) w else w)
             in mcar_setup_session env now i ctx w)
      in (ctx\<lparr>mk_resource_allocated := True\<rparr>, w))"

definition mcar_step4_allocation ::
    "cic_env \<Rightarrow> int \<Rightarrow> McarProcessContext \<Rightarrow> cic_world \<Rightarrow> McarProcessContext \<times> cic_world" where
  "mcar_step4_allocation env now ctx w =
     (if \<not> mk_has_comm_req_params ctx then (ctx, w)
      else
        let ctx = ctx\<lparr>mk_resource_allocated := False, mk_route_added := False, mk_retry_count := 0, mk_tried_link_count := 0,
                      mk_extracted_dest_ip := [],
                      mk_comm_params := comm_req_params_fill_from_profile (mk_profile ctx) (mk_comm_params ctx)\<rparr>;
            (r, ctx) = mcar_validate_tft_napt_whitelist ctx
        in if r \<noteq> 0 then (ctx, w)
           else
             let ctx = mcar_extract_dest_ip_from_tft ctx;
                 ctx = ctx\<lparr>mk_comm_params := cap_request (mk_profile ctx) (mk_comm_params ctx)\<rparr>;
                 (r, prs) = magic_policy_select_path (policy_ctx w) (mcar_policy_request ctx w);
                 ctx = ctx\<lparr>mk_policy_resp := prs\<rparr>
             in if r \<noteq> 0 \<or> \<not> rs_success prs
                then (ctx\<lparr>mk_magic_status_code := 1010,
                          mk_error_message := Some ''Auth OK, but bandwidth allocation failed (policy)'',
                          mk_resource_allocated := False\<rparr>, w)
                else
                  let ctx = mcar_mark_link_tried (rs_selected_link_id prs) (ctx\<lparr>mk_mih_confirm := blank_confirm STATUS_SUCCESS\<rparr>);
                      (r, ctx, confirm, w) = mcar_try_link_with_retry now (rs_selected_link_id prs) prs ctx (mk_mih_confirm ctx) w;
                      ctx = ctx\<lparr>mk_mih_confirm := confirm\<rparr>
                  in if r = 0 then mcar_activate env now ctx w
                     else
                       let (r, ctx, w) = mcar_try_fallback_links now ctx w
                       in if r \<noteq> 0
                          then (ctx\<lparr>mk_magic_status_code := 1010,
                                    mk_error_message := Some ''Auth OK, but bandwidth allocation failed (MIH)''\<rparr>, w)
                          else mcar_activate env now ctx w)"

section \<open>Step 5: the answer\<close>

abbreviation MAGIC_APP_ID :: u32 where "MAGIC_APP_ID \<equiv> 1094202169"

definition mcar_answer_params :: "McarProcessContext \<Rightarrow> cic_world \<Rightarrow> comm_ans_params_t" where
  "mcar_answer_params ctx w =
     (if mk_resource_allocated ctx
      then
        let ps = mk_comm_params ctx; prs = mk_policy_resp ctx
        in zero_comm_ans\<lparr>cw_profile_name := Some (cq_profile_name ps), cw_selected_link_id := Some (rs_selected_link_id prs),
             cw_bearer_id := (case lf_bearer_identifier (mk_mih_confirm ctx) of None \<Rightarrow> 0 | Some b \<Rightarrow> ucast b),
             cw_granted_bw := ucast (rs_granted_bw_kbps prs * 1000),
             cw_granted_return_bw := ucast (rs_granted_ret_bw_kbps prs * 1000),
             cw_session_timeout := mk_granted_lifetime ctx, cw_priority_type := cq_priority_type ps,
             cw_priority_class := Some (cq_priority_class ps), cw_qos_level := cq_qos_level ps,
             cw_accounting_enabled := cq_accounting_enabled ps,
             cw_assigned_ip := magic_dataplane_get_link_gateway (dp (mx_dp (wd_mx w))) (Some (rs_selected_link_id prs)) 64\<rparr>
      else zero_comm_ans\<lparr>cw_selected_link_id := Some ''NONE''\<rparr>)"

text \<open>The attributes in the order they are added; the group of answer parameters comes after them.\<close>

definition mcaa_avps :: "cic_env \<Rightarrow> McarProcessContext \<Rightarrow> davp list" where
  "mcaa_avps env ctx =
     [av_str ''Origin-Host'' (ce_diamid env), av_str ''Origin-Realm'' (ce_diamrlm env),
      av_u32 ''Result-Code'' (mk_result_code ctx)]
     @ (if mk_auth_success ctx
        then [av_u32 ''Auth-Application-Id'' MAGIC_APP_ID, av_u32 ''Auth-Session-State'' 0,
              av_u32 ''Authorization-Lifetime'' (mk_granted_lifetime ctx),
              av_u32 ''Session-Timeout'' (mk_granted_lifetime ctx),
              av_u32 ''Auth-Grace-Period'' (mk_auth_grace_period ctx),
              av_str ''Server-Password''
                (case mk_profile ctx of
                   Some p \<Rightarrow> (if ca_server_password (cl_auth p) \<noteq> [] then ca_server_password (cl_auth p) else ''MAGIC_SERVER_DEFAULT'')
                 | None \<Rightarrow> ''MAGIC_SERVER_DEFAULT'')]
        else [])
     @ (if mk_magic_status_code ctx > 0 then [av_u32 ''MAGIC-Status-Code'' (mk_magic_status_code ctx)] else [])
     @ (case mk_error_message ctx of None \<Rightarrow> [] | Some m \<Rightarrow> [av_str ''Error-Message'' m])
     @ (if mk_has_req_status_info ctx \<and> mk_auth_success ctx then [av_u32 ''REQ-Status-Info'' (mk_granted_status_info ctx)] else [])"

text \<open>
  The answer starts with the Session-Id that \<open>fd_msg_new_answer_from_req\<close> copies from the request. It is
  appended to the answers when \<open>fd_msg_send\<close> accepts it.
\<close>

definition answer_head :: "davp list \<Rightarrow> davp list" where
  "answer_head qry =
     (case search_avp qry ''Session-Id'' of None \<Rightarrow> [] | Some d \<Rightarrow> [DAvp (Some ''Session-Id'') d])"

definition mcar_step5_finalize ::
    "cic_env \<Rightarrow> davp list \<Rightarrow> McarProcessContext \<Rightarrow> cic_world \<Rightarrow> int \<times> cic_world" where
  "mcar_step5_finalize env qry ctx w =
     (let ctx = (if mk_result_code ctx = 0 then ctx\<lparr>mk_result_code := 2001\<rparr> else ctx)
      in if \<not> ce_new_answer env then (-1, w)
         else
           let (r, ans) = add_each (ce_add env) 0 (mcaa_avps env ctx) (answer_head qry)
           in if r \<noteq> 0 then (-1, w)
              else
                let ans = (if mk_has_comm_req_params ctx \<and> mk_auth_success ctx
                           then snd (add_comm_ans_params_simple (ce_group env) (mcar_answer_params ctx w) ans) else ans)
                in if ce_send env then (0, w\<lparr>wd_answers := wd_answers w @ [ans]\<rparr>) else (-1, w))"

section \<open>The handler\<close>

definition mcar_process ::
    "cic_env \<Rightarrow> int \<Rightarrow> davp list \<Rightarrow> cic_world \<Rightarrow> McarProcessContext \<times> cic_world" where
  "mcar_process env now qry w =
     (let (go, ctx, w) = mcar_step1_validation env now qry initial_mcar w
      in if \<not> go then (ctx, w)
         else
           let (go, ctx, w) = mcar_step2_auth env now ctx w
           in if \<not> go then (ctx, w)
              else
                let (ctx, w) = mcar_step3_subscription env ctx w;
                    (go, ctx) = mcar_step3b_session_conditions ctx w
                in if \<not> go then (ctx, w) else mcar_step4_allocation env now ctx w)"

definition cic_handle_mcar :: "cic_env \<Rightarrow> int \<Rightarrow> davp list \<Rightarrow> cic_world \<Rightarrow> int \<times> cic_world" where
  "cic_handle_mcar env now qry w =
     (let (ctx, w) = mcar_process env now qry w in mcar_step5_finalize env qry ctx w)"

end
