(* ===== verification/Cic_Mccr.thy ===== *)
theory Cic_Mccr
  imports Cic_Mcar
begin

text \<open>
  The communication change request (\<open>cic_handle_mccr\<close> of \<open>app_magic/magic_cic.c\<close>): session validation,
  parameters and security, intent (start, modify, stop, queue), execution and answer.

  Where the source repeats the code of the authentication request line by line (the requests to the link
  manager with retries, the route, filters, monitoring and charging record of an allocated session) the
  model uses the definitions of that request through \<open>mcar_view\<close>. The fields \<open>security_error_code\<close> and
  \<open>security_error_msg\<close>, only copied to the answer fields, are left out.
\<close>

section \<open>State\<close>

datatype MccxIntentType = MCCR_INTENT_UNKNOWN | MCCR_INTENT_START | MCCR_INTENT_MODIFY | MCCR_INTENT_STOP | MCCR_INTENT_QUEUE

record MccxProcessContext =
  mv_session_id :: string
  mv_client_id :: string
  mv_client_realm :: string
  mv_existing_session :: "nat option"
  mv_comm_params :: CommReqParams
  mv_has_comm_req_params :: bool
  mv_profile :: "ClientProfile option"
  mv_security_passed :: bool
  mv_extracted_dest_ip :: string
  mv_intent :: MccxIntentType
  mv_policy_resp :: PolicyResponse
  mv_mih_confirm :: MIH_Link_Resource_Confirm
  mv_session :: "nat option"
  mv_resource_allocated :: bool
  mv_route_added :: bool
  mv_queued :: bool
  mv_retry_count :: nat
  mv_tried_links :: "string list"
  mv_tried_link_count :: nat
  mv_result_code :: u32
  mv_magic_status_code :: u32
  mv_error_message :: "string option"

abbreviation MCCR_RETRY_MAX_COUNT :: nat where "MCCR_RETRY_MAX_COUNT \<equiv> 3"
abbreviation MCCR_FALLBACK_MAX_LINKS :: nat where "MCCR_FALLBACK_MAX_LINKS \<equiv> 4"

definition initial_mccr :: MccxProcessContext where
  "initial_mccr =
     \<lparr>mv_session_id = [], mv_client_id = [], mv_client_realm = [], mv_existing_session = None, mv_comm_params = zero_comm_params,
      mv_has_comm_req_params = False, mv_profile = None, mv_security_passed = True, mv_extracted_dest_ip = [],
      mv_intent = MCCR_INTENT_UNKNOWN, mv_policy_resp = zero_response, mv_mih_confirm = blank_confirm STATUS_SUCCESS,
      mv_session = None, mv_resource_allocated = False, mv_route_added = False, mv_queued = False, mv_retry_count = 0,
      mv_tried_links = replicate MCCR_FALLBACK_MAX_LINKS [], mv_tried_link_count = 0, mv_result_code = 2001,
      mv_magic_status_code = 0, mv_error_message = None\<rparr>"

definition mccr_error :: "u32 \<Rightarrow> u32 \<Rightarrow> string \<Rightarrow> MccxProcessContext \<Rightarrow> MccxProcessContext" where
  "mccr_error result status msg ctx =
     ctx\<lparr>mv_result_code := result, mv_magic_status_code := status, mv_error_message := Some msg\<rparr>"

definition mcar_view :: "MccxProcessContext \<Rightarrow> McarProcessContext" where
  "mcar_view ctx = initial_mcar\<lparr>mk_session_id := mv_session_id ctx, mk_client_id := mv_client_id ctx, mk_profile := mv_profile ctx,
     mk_comm_params := mv_comm_params ctx, mk_extracted_dest_ip := mv_extracted_dest_ip ctx, mk_policy_resp := mv_policy_resp ctx,
     mk_mih_confirm := mv_mih_confirm ctx, mk_retry_count := mv_retry_count ctx\<rparr>"

section \<open>Link resources\<close>

definition mccr_link_already_tried :: "MccxProcessContext \<Rightarrow> string \<Rightarrow> bool" where
  "mccr_link_already_tried ctx link_id =
     list_ex (\<lambda>l. l = link_id) (take (mv_tried_link_count ctx) (mv_tried_links ctx))"

definition mccr_mark_link_tried :: "string \<Rightarrow> MccxProcessContext \<Rightarrow> MccxProcessContext" where
  "mccr_mark_link_tried link_id ctx =
     (if mv_tried_link_count ctx < MCCR_FALLBACK_MAX_LINKS
      then ctx\<lparr>mv_tried_links := (mv_tried_links ctx)[mv_tried_link_count ctx := strncpy_buf 63 link_id],
               mv_tried_link_count := mv_tried_link_count ctx + 1\<rparr>
      else ctx)"

definition mccr_try_link_with_retry ::
    "int \<Rightarrow> string \<Rightarrow> PolicyResponse \<Rightarrow> MccxProcessContext \<Rightarrow> MIH_Link_Resource_Confirm \<Rightarrow> cic_world
       \<Rightarrow> int \<times> MccxProcessContext \<times> MIH_Link_Resource_Confirm \<times> cic_world" where
  "mccr_try_link_with_retry now link_id prs ctx confirm w =
     (let (r, c, confirm, w) = mcar_retry_loop now MCCR_RETRY_MAX_COUNT 0 link_id prs (mcar_view ctx) confirm w
      in (r, ctx\<lparr>mv_retry_count := mk_retry_count c\<rparr>, confirm, w))"

text \<open>The request to the policy engine without the aircraft data, and the aircraft data.\<close>

definition mccr_policy_request :: "MccxProcessContext \<Rightarrow> PolicyRequest" where
  "mccr_policy_request ctx =
     (let ps = mv_comm_params ctx
      in \<lparr>rq_client_id = strncpy_buf 63 (mv_client_id ctx), rq_profile_name = strncpy_buf 63 (cq_profile_name ps),
          rq_requested_bw_kbps = fp_to_u32 (cq_requested_bw ps), rq_requested_ret_bw_kbps = fp_to_u32 (cq_requested_ret_bw ps),
          rq_required_bw_kbps = fp_to_u32 (cq_required_bw ps), rq_required_ret_bw_kbps = fp_to_u32 (cq_required_ret_bw ps),
          rq_priority_class = word_of_int (atoi (cq_priority_class ps)), rq_qos_level = ucast (cq_qos_level ps),
          rq_traffic_class = 0, rq_flight_phase = strncpy_buf 63 (cq_flight_phase ps), rq_exclude_link_count = 0,
          rq_exclude_links = [], rq_current_link_id = [], rq_current_bw_percent = 0, rq_new_link_bw_percent = 0,
          rq_aircraft_lat = 0, rq_aircraft_lon = 0, rq_aircraft_alt = 0, rq_on_ground = False, rq_has_adif_data = False\<rparr>)"

definition with_aircraft :: "cic_world \<Rightarrow> PolicyRequest \<Rightarrow> PolicyRequest" where
  "with_aircraft w req =
     (case valid_adif w of
        None \<Rightarrow> req
      | Some s \<Rightarrow> req\<lparr>rq_aircraft_lat := ap_latitude (ad_position s), rq_aircraft_lon := ap_longitude (ad_position s),
                      rq_aircraft_alt := to_double (ap_altitude_ft (ad_position s) * to_double (3048 / 10000)),
                      rq_on_ground := aw_on_ground (ad_wow s), rq_has_adif_data := True\<rparr>)"

fun mccr_fallback_loop ::
    "int \<Rightarrow> nat \<Rightarrow> PolicyRequest \<Rightarrow> MccxProcessContext \<Rightarrow> cic_world \<Rightarrow> int \<times> MccxProcessContext \<times> cic_world" where
  "mccr_fallback_loop now 0 req ctx w = (-1, ctx, w)"
| "mccr_fallback_loop now (Suc n) req ctx w =
     (let req = req\<lparr>rq_exclude_link_count := int (mv_tried_link_count ctx),
                    rq_exclude_links := take (min (mv_tried_link_count ctx) 4) (mv_tried_links ctx)\<rparr>;
          (r, prs) = magic_policy_select_path (policy_ctx w) req
      in if r \<noteq> 0 \<or> \<not> rs_success prs then (-1, ctx, w)
         else if mccr_link_already_tried ctx (rs_selected_link_id prs) then mccr_fallback_loop now n req ctx w
         else
           let ctx = mccr_mark_link_tried (rs_selected_link_id prs) ctx;
               (r, ctx, confirm, w) = mccr_try_link_with_retry now (rs_selected_link_id prs) prs ctx (blank_confirm STATUS_SUCCESS) w
           in if r = 0 then (0, ctx\<lparr>mv_policy_resp := prs, mv_mih_confirm := confirm\<rparr>, w)
              else mccr_fallback_loop now n req ctx w)"

text \<open>The fallback asks without the aircraft data.\<close>

definition mccr_try_fallback_links ::
    "int \<Rightarrow> MccxProcessContext \<Rightarrow> cic_world \<Rightarrow> int \<times> MccxProcessContext \<times> cic_world" where
  "mccr_try_fallback_links now ctx w = mccr_fallback_loop now MCCR_FALLBACK_MAX_LINKS (mccr_policy_request ctx) ctx w"

section \<open>Phase 1: the session\<close>

definition mccr_phase1_session_validation ::
    "davp list \<Rightarrow> MccxProcessContext \<Rightarrow> cic_world \<Rightarrow> bool \<times> MccxProcessContext" where
  "mccr_phase1_session_validation qry ctx w =
     (if search_avp qry ''Session-Id'' = None
      then (False, mccr_error 5005 3001 ''Missing required AVP: Session-Id'' ctx)
      else
        let ctx = ctx\<lparr>mv_session_id := read_octets qry ''Session-Id'' 128 (mv_session_id ctx),
                      mv_client_id := read_octets qry ''Origin-Host'' 64 (mv_client_id ctx),
                      mv_client_realm := read_octets qry ''Origin-Realm'' 64 (mv_client_realm ctx)\<rparr>;
            ctx = ctx\<lparr>mv_existing_session := magic_session_find_by_id (mx_sm (wd_mx w)) (Some (mv_session_id ctx))\<rparr>
        in case mv_existing_session ctx of
             None \<Rightarrow> (True, ctx)
           | Some i \<Rightarrow>
               if cs_state (wd_session w i) \<noteq> SESSION_STATE_AUTHENTICATED \<and> cs_state (wd_session w i) \<noteq> SESSION_STATE_ACTIVE
               then (False, mccr_error 5002 2001 ''Session state does not allow communication change'' ctx)
               else (True, ctx))"

section \<open>Phase 2: parameters and security\<close>

text \<open>The altitude test of this handler: only -1 stands for an open end.\<close>

definition altitude_allowed :: "rat \<Rightarrow> int \<times> int \<Rightarrow> bool" where
  "altitude_allowed alt r \<longleftrightarrow> \<not> (fst r \<noteq> -1 \<and> alt < of_int (fst r)) \<and> \<not> (snd r \<noteq> -1 \<and> alt > of_int (snd r))"

text \<open>
  \<open>inet_aton\<close>, in host byte order: one to four numbers in C notation between dots, the last one filling the
  remaining bytes, then the end or white space.
\<close>

definition digit_value :: "char \<Rightarrow> nat option" where
  "digit_value c =
     (let n = of_char c :: nat
      in if 48 \<le> n \<and> n \<le> 57 then Some (n - 48) else if 97 \<le> n \<and> n \<le> 102 then Some (n - 87)
         else if 65 \<le> n \<and> n \<le> 70 then Some (n - 55) else None)"

fun scan_base :: "nat \<Rightarrow> nat \<Rightarrow> string \<Rightarrow> nat \<times> string" where
  "scan_base b acc [] = (acc, [])"
| "scan_base b acc (c # cs) =
     (case digit_value c of Some d \<Rightarrow> (if d < b then scan_base b (acc * b + d) cs else (acc, c # cs)) | None \<Rightarrow> (acc, c # cs))"

definition scan_number :: "string \<Rightarrow> nat \<times> string" where
  "scan_number s =
     (case s of
        z # x # h # hs \<Rightarrow>
          if z = CHR ''0'' \<and> (x = CHR ''x'' \<or> x = CHR ''X'') \<and> digit_value h \<noteq> None then scan_base 16 0 (h # hs)
          else if z = CHR ''0'' then scan_base 8 0 s else scan_base 10 0 s
      | z # zs \<Rightarrow> if z = CHR ''0'' then scan_base 8 0 s else scan_base 10 0 s
      | [] \<Rightarrow> (0, []))"

fun aton_parts :: "nat \<Rightarrow> string \<Rightarrow> nat list \<Rightarrow> nat list option" where
  "aton_parts k s acc =
     (case s of
        [] \<Rightarrow> None
      | c # cs \<Rightarrow>
          if \<not> isdigit c then None
          else
            let (v, r) = scan_number s
            in case r of
                 [] \<Rightarrow> Some (acc @ [v])
               | d # ds \<Rightarrow>
                   if d = CHR ''.'' then (case k of 0 \<Rightarrow> None | Suc k' \<Rightarrow> if v > 255 then None else aton_parts k' ds (acc @ [v]))
                   else if isspace d then Some (acc @ [v]) else None)"

definition inet_aton :: "string \<Rightarrow> u32 option" where
  "inet_aton s =
     (case aton_parts 3 s [] of
        None \<Rightarrow> None
      | Some ps \<Rightarrow>
          let v = last ps; n = length ps - 1
          in if v \<ge> 256 ^ (4 - n) then None
             else Some (of_nat (foldl (\<lambda>a p. a * 256 + p) 0 (butlast ps) * 256 ^ (4 - n) + v)))"

definition source_address_ok :: "cic_env \<Rightarrow> MccxProcessContext \<Rightarrow> cic_world \<Rightarrow> bool" where
  "source_address_ok env ctx w =
     (case mv_existing_session ctx of
        None \<Rightarrow> True
      | Some i \<Rightarrow>
          let ip = cs_client_ip (wd_session w i); ps = mv_comm_params ctx
          in if ip = [] \<or> cq_tft_to_ground_count ps = 0 then True
             else
               let (r, p) = tft_parse_rule (Some (cq_tft_to_ground ps ! 0));
                   host_ip = (case inet_aton ip of Some a \<Rightarrow> a | None \<Rightarrow> ce_junk env)
               in \<not> (r = 0 \<and> ir_is_valid (tr_src_ip p) \<and> (host_ip < ir_start_ip (tr_src_ip p) \<or> host_ip > ir_end_ip (tr_src_ip p))))"

text \<open>The word after \<open>to\<close> in the first filter.\<close>

definition mccr_dest_ip :: "CommReqParams \<Rightarrow> string" where
  "mccr_dest_ip ps =
     (if cq_tft_to_ground_count ps > 0 \<and> cq_tft_to_ground ps ! 0 \<noteq> []
      then case strstr (cq_tft_to_ground ps ! 0) '' to '' of
             None \<Rightarrow> []
           | Some pos \<Rightarrow>
               let word = takeWhile (\<lambda>c. c \<noteq> CHR '' '') (drop 4 pos)
               in if 0 < length word \<and> length word < 64 then (if word = ''any'' then [] else word) else []
      else [])"

definition default_flight_phase :: "cic_world \<Rightarrow> CommReqParams \<Rightarrow> CommReqParams" where
  "default_flight_phase w ps =
     (if cq_has_flight_phase ps then ps
      else case valid_adif w of
             None \<Rightarrow> ps
           | Some s \<Rightarrow>
               let phase = adif_phase_to_policy_phase (af_phase (ad_flight_phase s))
               in if phase \<noteq> ''UNKNOWN'' then ps\<lparr>cq_flight_phase := strncpy_buf 63 phase\<rparr> else ps)"

text \<open>The airport test is skipped here too: the current airport is a constant NULL.\<close>

definition mccr_phase2_param_security ::
    "cic_env \<Rightarrow> davp list \<Rightarrow> MccxProcessContext \<Rightarrow> cic_world \<Rightarrow> bool \<times> MccxProcessContext" where
  "mccr_phase2_param_security env qry ctx w =
     (case search_avp qry ''Communication-Request-Parameters'' of
        None \<Rightarrow> (False, mccr_error 5005 3001 ''Missing required AVP: Communication-Request-Parameters'' ctx)
      | Some g \<Rightarrow>
          let profile = find_profile (mx_config (wd_mx w)) (mv_client_id ctx);
              ps = default_flight_phase w (comm_req_params_fill_from_profile profile (parse_comm_req_params g));
              ctx = ctx\<lparr>mv_has_comm_req_params := True, mv_comm_params := ps, mv_profile := profile\<rparr>;
              adif = valid_adif w
          in if (case (profile, adif) of
                   (Some p, Some s) \<Rightarrow> \<not> magic_config_is_flight_phase_allowed p
                      (magic_config_parse_flight_phase (Some (adif_phase_to_policy_phase (af_phase (ad_flight_phase s)))))
                 | _ \<Rightarrow> False)
             then (False, mccr_error 4001 1007 ''Communication not allowed in current flight phase per Client Profile'' ctx)
             else if cq_has_altitude ps \<and> cq_altitude_range_count ps > 0 \<and>
                     (case adif of None \<Rightarrow> False
                      | Some s \<Rightarrow>
                          let alt_in_range = list_ex (altitude_allowed (ap_altitude_ft (ad_position s))) (altitude_list ps)
                          in \<not> (if cq_altitude_is_blacklist ps then \<not> alt_in_range else alt_in_range))
             then (False, mccr_error 4001 1008 ''Session not active at current altitude per Altitude AVP'' ctx)
             else
               let ctx = ctx\<lparr>mv_security_passed := True\<rparr>
               in if \<not> source_address_ok env ctx w
                  then (False, mccr_error 3007 1017 ''TFT Source IP does not match authenticated client IP''
                                 (ctx\<lparr>mv_security_passed := False\<rparr>))
                  else case (case profile of None \<Rightarrow> None | Some p \<Rightarrow> mcar_refusal p ps) of
                         Some m \<Rightarrow> (False, mccr_error 5003 1036 m (ctx\<lparr>mv_security_passed := False\<rparr>))
                       | None \<Rightarrow> (True, ctx\<lparr>mv_extracted_dest_ip := mccr_dest_ip ps\<rparr>))"

section \<open>Phase 3: the intent\<close>

definition mccr_intent :: "MccxProcessContext \<Rightarrow> cic_world \<Rightarrow> MccxIntentType" where
  "mccr_intent ctx w =
     (let ps = mv_comm_params ctx;
          has_zero_bw = (cq_requested_bw ps = 0 \<and> cq_requested_ret_bw ps = 0 \<and> cq_required_bw ps = 0 \<and> cq_required_ret_bw ps = 0)
      in case mv_existing_session ctx of
           None \<Rightarrow> MCCR_INTENT_START
         | Some i \<Rightarrow>
             let s = wd_session w i
             in if has_zero_bw then MCCR_INTENT_STOP
                else if cq_keep_request ps \<noteq> 0 \<and> cs_state s = SESSION_STATE_AUTHENTICATED then MCCR_INTENT_QUEUE
                else if cs_state s = SESSION_STATE_ACTIVE
                then (if cs_assigned_link_id s = [] then MCCR_INTENT_START else MCCR_INTENT_MODIFY)
                else MCCR_INTENT_START)"

definition mccr_phase3_intent_routing :: "MccxProcessContext \<Rightarrow> cic_world \<Rightarrow> MccxProcessContext \<times> cic_world" where
  "mccr_phase3_intent_routing ctx w =
     (let intent = mccr_intent ctx w
      in (ctx\<lparr>mv_intent := intent\<rparr>,
          if intent = MCCR_INTENT_QUEUE \<and> \<not> qm_initialized (wd_queue w) then w\<lparr>wd_queue := mccr_queue_init (wd_queue w)\<rparr> else w))"

section \<open>Phase 4: execution\<close>

definition mccr_dequeue :: "string \<Rightarrow> cic_world \<Rightarrow> cic_world" where
  "mccr_dequeue sid w = w\<lparr>wd_queue := snd (mccr_queue_dequeue sid (wd_queue w))\<rparr>"

text \<open>The release request names the link only as the destination; its link identifier stays empty.\<close>

definition release_request :: "ClientSession \<Rightarrow> MIH_Link_Resource_Request" where
  "release_request s =
     \<lparr>lq_destination_id = snprintf_buf 64 (''MIHF_'' @ cs_assigned_link_id s), lq_link_identifier = zero_link_tuple,
      lq_resource_action = RESOURCE_ACTION_RELEASE, lq_bearer_identifier = Some (cs_bearer_id s), lq_qos_parameters = None\<rparr>"

definition release_old_link :: "cic_env \<Rightarrow> int \<Rightarrow> string \<Rightarrow> nat \<Rightarrow> cic_world \<Rightarrow> cic_world" where
  "release_old_link env now sid i w =
     (let (r, confirm, x) = magic_dlm_mih_link_resource_request now (release_request (wd_session w i)) (wd_mx w);
          w = w\<lparr>wd_mx := x\<rparr>
      in upd_dp (\<lambda>d. snd (magic_dataplane_remove_client_route (ce_os env) (Some sid) d)) w)"

definition mccr_execute_stop ::
    "cic_env \<Rightarrow> int \<Rightarrow> MccxProcessContext \<Rightarrow> cic_world \<Rightarrow> MccxProcessContext \<times> cic_world" where
  "mccr_execute_stop env now ctx w =
     (let w = (case mv_existing_session ctx of
                 None \<Rightarrow> w
               | Some i \<Rightarrow>
                   if cs_assigned_link_id (wd_session w i) = [] then w
                   else upd_session i (\<lambda>s. snd (magic_session_set_state now SESSION_STATE_AUTHENTICATED
                          (s\<lparr>cs_assigned_link_id := [], cs_bearer_id := 0, cs_granted_bw_kbps := 0, cs_granted_ret_bw_kbps := 0\<rparr>)))
                          (release_old_link env now (mv_session_id ctx) i w));
          w = mccr_dequeue (mv_session_id ctx) w
      in (ctx\<lparr>mv_result_code := 2001, mv_resource_allocated := False\<rparr>, w))"

text \<open>The session: the existing one, or a new one; \<open>None\<close> when the table is full.\<close>

definition mccr_session :: "int \<Rightarrow> MccxProcessContext \<Rightarrow> cic_world \<Rightarrow> nat option \<times> cic_world" where
  "mccr_session now ctx w =
     (case mv_existing_session ctx of
        Some i \<Rightarrow> (Some i, w)
      | None \<Rightarrow>
          let (slot, sm) = magic_session_create now (Some (mv_session_id ctx)) (Some (mv_client_id ctx))
                             (Some (mv_client_realm ctx)) (mx_sm (wd_mx w))
          in (slot, upd_sm (\<lambda>_. sm) w))"

definition mccr_assign :: "int \<Rightarrow> nat \<Rightarrow> PolicyResponse \<Rightarrow> MIH_Link_Resource_Confirm \<Rightarrow> cic_world \<Rightarrow> cic_world" where
  "mccr_assign now i prs confirm w =
     upd_session i (\<lambda>s. snd (magic_session_set_state now SESSION_STATE_ACTIVE s))
       (upd_session i (\<lambda>s. snd (magic_session_assign_link now (Some (rs_selected_link_id prs))
          (case lf_bearer_identifier confirm of None \<Rightarrow> 0 | Some b \<Rightarrow> b)
          (rs_granted_bw_kbps prs) (rs_granted_ret_bw_kbps prs) s)) w)"

definition mccr_finish_start ::
    "cic_env \<Rightarrow> int \<Rightarrow> MccxProcessContext \<Rightarrow> cic_world \<Rightarrow> MccxProcessContext \<times> cic_world" where
  "mccr_finish_start env now ctx w =
     (let (slot, w) = mccr_session now ctx w
      in case slot of
           None \<Rightarrow> ((mccr_error 5012 1000 ''Failed to create session'' ctx)\<lparr>mv_session := None, mv_resource_allocated := False\<rparr>, w)
         | Some i \<Rightarrow>
             let ctx = ctx\<lparr>mv_session := Some i\<rparr>;
                 w = mccr_assign now i (mv_policy_resp ctx) (mv_mih_confirm ctx) w;
                 (c, w) = mcar_setup_session env now i (mcar_view ctx) w;
                 ctx = ctx\<lparr>mv_route_added := mk_route_added c\<rparr>;
                 w = mccr_dequeue (mv_session_id ctx) w
             in (ctx\<lparr>mv_result_code := 2001, mv_resource_allocated := True\<rparr>, w))"

definition mccr_execute_start_modify ::
    "cic_env \<Rightarrow> int \<Rightarrow> MccxProcessContext \<Rightarrow> cic_world \<Rightarrow> MccxProcessContext \<times> cic_world" where
  "mccr_execute_start_modify env now ctx w =
     (let (r, prs) = magic_policy_select_path (policy_ctx w) (with_aircraft w (mccr_policy_request ctx));
          ctx = ctx\<lparr>mv_policy_resp := prs\<rparr>
      in if r \<noteq> 0 \<or> \<not> rs_success prs
         then ((mccr_error 5012 1010 (rs_reason prs) ctx)\<lparr>mv_resource_allocated := False\<rparr>, w)
         else
           let ctx = mccr_mark_link_tried (rs_selected_link_id prs) ctx;
               w = (case mv_existing_session ctx of
                      None \<Rightarrow> w
                    | Some i \<Rightarrow>
                        if mv_intent ctx = MCCR_INTENT_MODIFY \<and> cs_assigned_link_id (wd_session w i) \<noteq> []
                           \<and> cs_assigned_link_id (wd_session w i) \<noteq> rs_selected_link_id prs
                        then release_old_link env now (mv_session_id ctx) i w else w);
               (r, ctx, confirm, w) = mccr_try_link_with_retry now (rs_selected_link_id prs) prs ctx (mv_mih_confirm ctx) w;
               ctx = ctx\<lparr>mv_mih_confirm := confirm\<rparr>;
               (r, ctx, w) = (if r \<noteq> 0 then mccr_try_fallback_links now ctx w else (0, ctx, w))
           in if r \<noteq> 0
              then ((mccr_error 5012 1010 ''No available link resources'' ctx)\<lparr>mv_resource_allocated := False\<rparr>, w)
              else mccr_finish_start env now ctx w)"

definition mccr_queue_request :: "MccxProcessContext \<Rightarrow> PolicyRequest" where
  "mccr_queue_request ctx = (mccr_policy_request ctx)\<lparr>rq_priority_class := 0, rq_qos_level := 0, rq_flight_phase := []\<rparr>"

definition mccr_enqueue :: "int \<Rightarrow> MccxProcessContext \<Rightarrow> cic_world \<Rightarrow> MccxProcessContext \<times> cic_world" where
  "mccr_enqueue now ctx w =
     (let priority = word_of_int (100 - atoi (cq_priority_class (mv_comm_params ctx)) * 10);
          (r, q) = mccr_queue_enqueue now (mv_session_id ctx) (mv_client_id ctx) (mv_comm_params ctx) priority (wd_queue w);
          w = w\<lparr>wd_queue := q\<rparr>
      in if r = 0 then (ctx\<lparr>mv_result_code := 2001, mv_resource_allocated := False, mv_queued := True\<rparr>, w)
         else ((mccr_error 5012 1011 ''Request queue is full'' ctx)\<lparr>mv_resource_allocated := False, mv_queued := False\<rparr>, w))"

definition mccr_execute_queue :: "int \<Rightarrow> MccxProcessContext \<Rightarrow> cic_world \<Rightarrow> MccxProcessContext \<times> cic_world" where
  "mccr_execute_queue now ctx w =
     (let (r, prs) = magic_policy_select_path (policy_ctx w) (with_aircraft w (mccr_queue_request ctx))
      in if r = 0 \<and> rs_success prs
         then
           let ctx = mccr_mark_link_tried (rs_selected_link_id prs) ctx;
               (r, ctx, confirm, w) = mccr_try_link_with_retry now (rs_selected_link_id prs) prs ctx (blank_confirm STATUS_SUCCESS) w
           in if r = 0
              then
                let ctx = ctx\<lparr>mv_policy_resp := prs, mv_mih_confirm := confirm\<rparr>;
                    (slot, w) = mccr_session now ctx w;
                    ctx = ctx\<lparr>mv_session := slot\<rparr>;
                    w = (case slot of None \<Rightarrow> w | Some i \<Rightarrow> mccr_assign now i prs confirm w)
                in (ctx\<lparr>mv_result_code := 2001, mv_resource_allocated := True, mv_queued := False\<rparr>, w)
              else mccr_enqueue now ctx w
         else mccr_enqueue now ctx w)"

definition mccr_execute ::
    "cic_env \<Rightarrow> int \<Rightarrow> MccxProcessContext \<Rightarrow> cic_world \<Rightarrow> MccxProcessContext \<times> cic_world" where
  "mccr_execute env now ctx w =
     (case mv_intent ctx of
        MCCR_INTENT_STOP \<Rightarrow> mccr_execute_stop env now ctx w
      | MCCR_INTENT_START \<Rightarrow> mccr_execute_start_modify env now ctx w
      | MCCR_INTENT_MODIFY \<Rightarrow> mccr_execute_start_modify env now ctx w
      | MCCR_INTENT_QUEUE \<Rightarrow> mccr_execute_queue now ctx w
      | MCCR_INTENT_UNKNOWN \<Rightarrow> (mccr_error 5012 1000 ''Unknown operation intent'' ctx, w))"

definition mccr_answer_params :: "MccxProcessContext \<Rightarrow> cic_world \<Rightarrow> comm_ans_params_t" where
  "mccr_answer_params ctx w =
     (let ps = mv_comm_params ctx; prs = mv_policy_resp ctx
      in if mv_resource_allocated ctx
         then
           zero_comm_ans\<lparr>cw_profile_name := Some (cq_profile_name ps), cw_selected_link_id := Some (rs_selected_link_id prs),
             cw_bearer_id := (case lf_bearer_identifier (mv_mih_confirm ctx) of None \<Rightarrow> 0 | Some b \<Rightarrow> ucast b),
             cw_granted_bw := ucast (rs_granted_bw_kbps prs * 1000),
             cw_granted_return_bw := ucast (rs_granted_ret_bw_kbps prs * 1000),
             cw_priority_type := cq_priority_type ps, cw_priority_class := Some (cq_priority_class ps),
             cw_qos_level := cq_qos_level ps, cw_accounting_enabled := cq_accounting_enabled ps,
             cw_dlm_availability_list := Some (rs_selected_link_id prs), cw_keep_request := cq_keep_request ps,
             cw_auto_detect := cq_auto_detect ps,
             cw_session_timeout := (if cq_timeout ps > 0 then cq_timeout ps else 3600),
             cw_flight_phase := (if cq_has_flight_phase ps then Some (cq_flight_phase ps) else None),
             cw_altitude := (if cq_has_altitude ps then Some (cq_altitude ps) else None),
             cw_airport := (if cq_has_airport ps then Some (cq_airport ps) else None),
             cw_assigned_ip := magic_dataplane_get_link_gateway (dp (mx_dp (wd_mx w))) (Some (rs_selected_link_id prs)) 64\<rparr>
         else zero_comm_ans\<lparr>cw_profile_name := Some (cq_profile_name ps),
                cw_selected_link_id := Some (if mv_queued ctx then ''QUEUED'' else ''NONE'')\<rparr>)"

definition mcca_avps :: "cic_env \<Rightarrow> MccxProcessContext \<Rightarrow> davp list" where
  "mcca_avps env ctx =
     [av_str ''Origin-Host'' (ce_diamid env), av_str ''Origin-Realm'' (ce_diamrlm env),
      av_u32 ''Result-Code'' (mv_result_code ctx)]
     @ (if mv_magic_status_code ctx > 0 then [av_u32 ''MAGIC-Status-Code'' (mv_magic_status_code ctx)] else [])
     @ (case mv_error_message ctx of None \<Rightarrow> [] | Some m \<Rightarrow> [av_str ''Error-Message'' m])"

definition mccr_phase4_execution ::
    "cic_env \<Rightarrow> int \<Rightarrow> davp list \<Rightarrow> MccxProcessContext \<Rightarrow> cic_world \<Rightarrow> int \<times> cic_world" where
  "mccr_phase4_execution env now qry ctx w =
     (let (ctx, w) = mccr_execute env now ctx w
      in if \<not> ce_new_answer env then (-1, w)
         else
           let (r, ans) = add_each (ce_add env) 0 (mcca_avps env ctx) (answer_head qry)
           in if r \<noteq> 0 then (-1, w)
              else
                let ans = snd (add_comm_ans_params_simple (ce_group env) (mccr_answer_params ctx w) ans)
                in if ce_send env then (0, w\<lparr>wd_answers := wd_answers w @ [ans]\<rparr>) else (-1, w))"

section \<open>The handler\<close>

text \<open>A failed phase jumps to phase 4 with the intent still unknown.\<close>

definition mccr_phases :: "cic_env \<Rightarrow> davp list \<Rightarrow> cic_world \<Rightarrow> MccxProcessContext \<times> cic_world" where
  "mccr_phases env qry w =
     (let (go, ctx) = mccr_phase1_session_validation qry initial_mccr w
      in if \<not> go then (ctx, w)
         else
           let (go, ctx) = mccr_phase2_param_security env qry ctx w
           in if \<not> go then (ctx, w) else mccr_phase3_intent_routing ctx w)"

definition cic_handle_mccr :: "cic_env \<Rightarrow> int \<Rightarrow> davp list \<Rightarrow> cic_world \<Rightarrow> int \<times> cic_world" where
  "cic_handle_mccr env now qry w =
     (let (ctx, w) = mccr_phases env qry w in mccr_phase4_execution env now qry ctx w)"

end
