(* ===== verification/Cic_Commands.thy ===== *)
theory Cic_Commands
  imports Cic_Mccr
begin

text \<open>
  The other requests of a client (\<open>app_magic/magic_cic.c\<close>): termination, notification and status reports,
  status queries, queries of charging data and their control.

  \<open>ce_add\<close> numbers the attributes added to the answer itself, \<open>ce_ok\<close> names every other library call
  that can fail, with the table slot it is made for. The result of the status query is \<open>None\<close> when the
  handler writes beyond the end of its buffer.
\<close>

section \<open>Answers\<close>

definition result_avps :: "cic_env \<Rightarrow> u32 \<Rightarrow> davp list" where
  "result_avps env code =
     [av_str ''Origin-Host'' (ce_diamid env), av_str ''Origin-Realm'' (ce_diamrlm env), av_u32 ''Result-Code'' code]"

definition send_answer :: "cic_env \<Rightarrow> davp list \<Rightarrow> cic_world \<Rightarrow> int \<times> cic_world" where
  "send_answer env ans w = (if ce_send env then (0, w\<lparr>wd_answers := wd_answers w @ [ans]\<rparr>) else (-1, w))"

definition plain_answer :: "cic_env \<Rightarrow> u32 \<Rightarrow> davp list \<Rightarrow> cic_world \<Rightarrow> int \<times> cic_world" where
  "plain_answer env code qry w =
     (if \<not> ce_new_answer env then (-1, w)
      else let (r, ans) = add_each (ce_add env) 0 (result_avps env code) (answer_head qry)
           in if r \<noteq> 0 then (-1, w) else send_answer env ans w)"

text \<open>The byte counts of a session: those of the traffic monitor, or the ones kept in the session.\<close>

definition current_traffic :: "cic_env \<Rightarrow> int \<Rightarrow> string \<Rightarrow> nat \<Rightarrow> cic_world \<Rightarrow> bool \<times> u64 \<times> u64 \<times> cic_world" where
  "current_traffic env now sid i w =
     (let s = wd_session w i;
          (r, st, c) = traffic_get_session_stats now (ce_ct env) (Some sid) (tm (wd_tm w));
          w = w\<lparr>wd_tm := (wd_tm w)\<lparr>tm := c\<rparr>\<rparr>
      in case st of
           None \<Rightarrow> (False, cs_bytes_in s, cs_bytes_out s, w)
         | Some st \<Rightarrow> if r = 0 then (True, tst_bytes_in st, tst_bytes_out st, w) else (False, cs_bytes_in s, cs_bytes_out s, w))"

section \<open>Termination\<close>

definition str_session :: "cic_env \<Rightarrow> int \<Rightarrow> string \<Rightarrow> cic_world \<Rightarrow> u64 \<times> u64 \<times> cic_world" where
  "str_session env now sid w =
     (case magic_session_find_by_id (mx_sm (wd_mx w)) (Some sid) of
        None \<Rightarrow> (0, 0, w)
      | Some i \<Rightarrow>
          let (live, bin, bout, w) = current_traffic env now sid i w;
              w = (if live then upd_session i (\<lambda>s. s\<lparr>cs_bytes_in := bin, cs_bytes_out := bout\<rparr>) w else w)
          in (bin, bout, upd_session i (\<lambda>s. snd (magic_session_set_state now SESSION_STATE_CLOSED s)) w))"

definition close_record :: "cic_env \<Rightarrow> int \<Rightarrow> string \<Rightarrow> u64 \<Rightarrow> u64 \<Rightarrow> cic_world \<Rightarrow> cic_world" where
  "close_record env now sid bin bout w =
     (case cdr_find_by_session (cdrs (wd_cdr w)) (Some sid) of
        None \<Rightarrow> w
      | Some k \<Rightarrow> w\<lparr>wd_cdr := snd (cdr_close (ce_fs env) now k bin bout (wd_cdr w))\<rparr>)"

definition str_release :: "cic_env \<Rightarrow> int \<Rightarrow> string \<Rightarrow> cic_world \<Rightarrow> cic_world" where
  "str_release env now sid w =
     (let (bin, bout, w) = str_session env now sid w;
          w = close_record env now sid bin bout w;
          w = w\<lparr>wd_tm := snd (traffic_unregister_session (ce_tm env) (Some sid) (wd_tm w))\<rparr>
      in upd_dp (\<lambda>d. snd (magic_dataplane_remove_client_route (ce_os env) (Some sid) d)) w)"

text \<open>
  \<open>sess\<close> is the identifier of the library's session object, when there is one. Only a failed attribute
  gives -1: when the answer cannot be created or sent the result is 0.
\<close>

definition cic_handle_str :: "cic_env \<Rightarrow> int \<Rightarrow> string option \<Rightarrow> davp list \<Rightarrow> cic_world \<Rightarrow> int \<times> cic_world" where
  "cic_handle_str env now sess qry w =
     (let session_id = (case sess of None \<Rightarrow> [] | Some sid \<Rightarrow> copy_octets 128 sid);
          w = (if session_id = [] then w else str_release env now session_id w)
      in if \<not> ce_new_answer env then (0, w)
         else let (r, ans) = add_each (ce_add env) 0 (result_avps env 2001) (answer_head qry)
              in if r \<noteq> 0 then (-1, w) else (0, snd (send_answer env ans w)))"

section \<open>Notification and status reports\<close>

definition mntr_update :: "avp_data \<Rightarrow> ClientSession \<Rightarrow> ClientSession" where
  "mntr_update g s =
     (let s = (case extract_float32_from_grouped_avp g ''Granted-Bandwidth'' of
                 None \<Rightarrow> s | Some b \<Rightarrow> s\<lparr>cs_granted_bw_kbps := fp_to_u32 b\<rparr>)
      in case extract_float32_from_grouped_avp g ''Granted-Return-Bandwidth'' of
           None \<Rightarrow> s | Some b \<Rightarrow> s\<lparr>cs_granted_ret_bw_kbps := fp_to_u32 b\<rparr>)"

definition cic_handle_mntr :: "cic_env \<Rightarrow> davp list \<Rightarrow> cic_world \<Rightarrow> int \<times> cic_world" where
  "cic_handle_mntr env qry w =
     (let session_id = read_octets qry ''Session-Id'' 128 [];
          w = (case search_avp qry ''Communication-Report-Parameters'' of
                 None \<Rightarrow> w
               | Some g \<Rightarrow>
                   if session_id = [] then w
                   else case magic_session_find_by_id (mx_sm (wd_mx w)) (Some session_id) of
                          None \<Rightarrow> w
                        | Some i \<Rightarrow> upd_session i (mntr_update g) w)
      in plain_answer env 2001 qry w)"

text \<open>A status report is logged and acknowledged.\<close>

definition cic_handle_mscr :: "cic_env \<Rightarrow> davp list \<Rightarrow> cic_world \<Rightarrow> int \<times> cic_world" where
  "cic_handle_mscr env qry w = plain_answer env 2001 qry w"

section \<open>Status queries\<close>

record ClientSessionCount =
  kc_client_id :: string
  kc_session_count :: int
  kc_first_session_id :: string

fun count_clients :: "ClientSession list \<Rightarrow> ClientSessionCount list \<Rightarrow> ClientSessionCount list" where
  "count_clients [] acc = acc"
| "count_clients (s # ss) acc =
     (if \<not> cs_in_use s \<or> (cs_state s \<noteq> SESSION_STATE_AUTHENTICATED \<and> cs_state s \<noteq> SESSION_STATE_ACTIVE)
      then count_clients ss acc
      else case find_idx (\<lambda>c. kc_client_id c = cs_client_id s) acc of
             Some j \<Rightarrow> count_clients ss (acc[j := (acc ! j)\<lparr>kc_session_count := kc_session_count (acc ! j) + 1\<rparr>])
           | None \<Rightarrow>
               if length acc < MAX_SESSIONS
               then count_clients ss (acc @ [\<lparr>kc_client_id = strncpy_buf 127 (cs_client_id s), kc_session_count = 1,
                                              kc_first_session_id = strncpy_buf 255 (cs_session_id s)\<rparr>])
               else count_clients ss acc)"

abbreviation CLIENTS_STR_LEN :: nat where "CLIENTS_STR_LEN \<equiv> 1024"

definition client_piece :: "nat \<Rightarrow> ClientSessionCount \<Rightarrow> string" where
  "client_piece offset c =
     (if offset > 0 then '','' else []) @ kc_client_id c @
     (if kc_session_count c > 1 then ''('' @ show_int (kc_session_count c) @ '' sessions)'' else [])"

text \<open>
  The offset grows by what \<open>snprintf\<close> would have written. Beyond the size of the buffer the remaining size
  wraps around and the write is out of bounds: \<open>None\<close>.
\<close>

fun clients_text :: "ClientSessionCount list \<Rightarrow> string \<Rightarrow> nat \<Rightarrow> (string \<times> nat) option" where
  "clients_text [] buf offset = Some (buf, offset)"
| "clients_text (c # cs) buf offset =
     (if offset > CLIENTS_STR_LEN then None
      else
        let piece = client_piece offset c;
            buf = (if offset < CLIENTS_STR_LEN then take offset buf @ snprintf_buf (CLIENTS_STR_LEN - offset) piece else buf)
        in clients_text cs buf (offset + length piece))"

definition status_dlm_info :: "DlmClient \<Rightarrow> dlm_info_t" where
  "status_dlm_info d =
     (let bw = to_float (of_int (uint (mp_current_bandwidth_kbps (dm_link_params d))))
      in \<lparr>dt_dlm_name = Some (dm_link_id d), dt_dlm_available = (if dm_is_link_up d then 0 else 1), dt_dlm_max_links = 10,
          dt_dlm_max_bw = bw, dt_dlm_max_return_bw = bw, dt_dlm_alloc_links = ucast (dm_num_active_bearers d),
          dt_dlm_alloc_bw = bw, dt_dlm_alloc_return_bw = bw, dt_qos_levels = [0, 1, 2], dt_qos_level_count = 3\<rparr>)"

definition link_status_of :: "nat \<Rightarrow> DlmClient \<Rightarrow> link_status_t" where
  "link_status_of i d =
     (let bw = to_float (of_int (uint (mp_current_bandwidth_kbps (dm_link_params d))))
      in \<lparr>ly_link_name = Some (dm_link_id d), ly_link_number = of_nat (i + 1),
          ly_link_available = (if dm_client_fd d > 0 then 1 else 2), ly_qos_level = 0,
          ly_link_conn_status = (if dm_client_fd d > 0 then 1 else 0),
          ly_link_login_status = (if dm_is_registered d then 2 else 1), ly_link_max_bw = bw, ly_link_max_return_bw = bw,
          ly_link_alloc_bw = bw, ly_link_alloc_return_bw = bw, ly_link_error_string = None\<rparr>)"

text \<open>The detailed status goes into the group that was added last.\<close>

definition add_link_detail :: "cic_env \<Rightarrow> nat \<Rightarrow> DlmClient \<Rightarrow> davp list \<Rightarrow> davp list" where
  "add_link_detail env i d lst =
     (if lst = [] then lst
      else case create_dlm_link_status_list_simple (ce_ok env ''DLM-Link-Status-List'' i) of
             None \<Rightarrow> lst
           | Some ls \<Rightarrow>
               let ls = snd (add_link_status_simple (ce_ok env ''Link-Status-Group'' i) (link_status_of i d) ls);
                   l = last lst
               in butlast lst @ [DAvp (avp_model l) (AvGroup (snd (finalize_dlm_link_status_list_simple
                                   (ce_ok env ''Add-Link-Status-List'' i) ls (children (avp_value l)))))])"

fun status_dlm_loop :: "cic_env \<Rightarrow> ClientProfile option \<Rightarrow> bool \<Rightarrow> nat \<Rightarrow> DlmClient list \<Rightarrow> davp list \<Rightarrow> nat \<Rightarrow> davp list \<times> nat" where
  "status_dlm_loop env profile detail i [] lst n = (lst, n)"
| "status_dlm_loop env profile detail i (d # ds) lst n =
     (if \<not> dm_is_registered d then status_dlm_loop env profile detail (i + 1) ds lst n
      else if (case profile of None \<Rightarrow> False | Some p \<Rightarrow> \<not> magic_config_is_dlm_allowed p (Some (dm_link_id d)))
      then status_dlm_loop env profile detail (i + 1) ds lst n
      else
        let (r, lst) = add_dlm_info_simple (ce_ok env ''DLM-Info'' i) (status_dlm_info d) lst
        in if r = 0
           then status_dlm_loop env profile detail (i + 1) ds (if detail then add_link_detail env i d lst else lst) (n + 1)
           else status_dlm_loop env profile detail (i + 1) ds lst n)"

definition requested_status :: "davp list \<Rightarrow> u32" where
  "requested_status qry =
     (case search_avp qry ''Status-Type'' of None \<Rightarrow> 0 | Some d \<Rightarrow> (case u32_of d of None \<Rightarrow> 0 | Some v \<Rightarrow> v))"

definition granted_status :: "ClientProfile option \<Rightarrow> u32 \<Rightarrow> u32" where
  "granted_status profile st =
     (case profile of
        None \<Rightarrow> st
      | Some p \<Rightarrow> if (st = 6 \<or> st = 7) \<and> \<not> sc_allow_detailed_status (cl_session p) then (if st = 6 then 2 else 3) else st)"

text \<open>The text of the registered clients, empty when it is not asked for or not allowed.\<close>

definition registered_clients_text :: "ClientProfile option \<Rightarrow> u32 \<Rightarrow> cic_world \<Rightarrow> (string \<times> nat) option" where
  "registered_clients_text profile granted w =
     (if (granted = 1 \<or> granted = 3 \<or> granted = 7) \<and>
         \<not> (case profile of None \<Rightarrow> False | Some p \<Rightarrow> \<not> sc_allow_registered_clients (cl_session p))
      then clients_text (count_clients (mx_sessions (wd_mx w)) []) [] 0
      else Some ([], 0))"

definition status_dlm_list :: "cic_env \<Rightarrow> ClientProfile option \<Rightarrow> u32 \<Rightarrow> cic_world \<Rightarrow> davp list \<times> nat" where
  "status_dlm_list env profile granted w =
     status_dlm_loop env profile (granted = 6 \<or> granted = 7) 0 (li_clients (mx_lmi (wd_mx w))) [] 0"

definition msxr_answer ::
    "cic_env \<Rightarrow> davp list \<Rightarrow> ClientProfile option \<Rightarrow> u32 \<Rightarrow> cic_world \<Rightarrow> (int \<times> cic_world) option" where
  "msxr_answer env qry profile granted w =
     (if \<not> ce_new_answer env then Some (-1, w)
      else
        let (r, ans) = add_each (ce_add env) 0 (result_avps env 2001 @ [av_u32 ''Status-Type'' granted]) (answer_head qry)
        in if r \<noteq> 0 then Some (-1, w)
           else case registered_clients_text profile granted w of
                  None \<Rightarrow> None
                | Some (txt, offset) \<Rightarrow>
                    let (r, ans) = (if offset > 0 then add_each (ce_add env) 4 [av_str ''Registered-Clients'' txt] ans else (0, ans))
                    in if r \<noteq> 0 then Some (-1, w)
                       else if granted < 2 then Some (send_answer env ans w)
                       else if \<not> ce_ok env ''DLM-List'' 0 then Some (-1, w)
                       else
                         let (lst, n) = status_dlm_list env profile granted w;
                             ans = (if n > 0 then snd (finalize_dlm_list_simple (ce_ok env ''Add-DLM-List'' 0) lst ans) else ans)
                         in Some (send_answer env ans w))"

definition cic_handle_msxr :: "cic_env \<Rightarrow> int \<Rightarrow> davp list \<Rightarrow> cic_world \<Rightarrow> (int \<times> cic_world) option" where
  "cic_handle_msxr env now qry w =
     (let client_id = read_octets qry ''Origin-Host'' 64 [];
          profile = find_profile (mx_config (wd_mx w)) client_id;
          rate_limit = (case profile of None \<Rightarrow> 5 | Some p \<Rightarrow> sc_msxr_rate_limit_sec (cl_session p));
          (r, tab) = msxr_check_rate_limit now (Some client_id) rate_limit (wd_rate w);
          w = w\<lparr>wd_rate := tab\<rparr>
      in if r \<noteq> 0 then Some (plain_answer env 3004 qry w)
         else msxr_answer env qry profile (granted_status profile (requested_status qry)) w)"

end
