(* ===== verification/Cic_Charging.thy ===== *)
theory Cic_Charging
  imports Cic_Commands
begin

text \<open>
  Queries of charging data and the roll-over of a charging record on request
  (\<open>cic_handle_madr\<close> and \<open>cic_handle_macr\<close> of \<open>app_magic/magic_cic.c\<close>).
\<close>

section \<open>Queries\<close>

definition u32_or :: "davp list \<Rightarrow> string \<Rightarrow> u32 \<Rightarrow> u32" where
  "u32_or qry name dflt = (case search_avp qry name of None \<Rightarrow> dflt | Some d \<Rightarrow> (case u32_of d of None \<Rightarrow> dflt | Some v \<Rightarrow> v))"

definition cdr_mark :: "ClientSession \<Rightarrow> u32" where
  "cdr_mark s = traffic_session_id_to_mark (Some (cs_session_id s))"

definition cdr_named :: "string \<Rightarrow> ClientSession \<Rightarrow> bool" where
  "cdr_named req_id s \<longleftrightarrow> cs_session_id s = req_id \<or> snprintf_buf 32 (show_word (cdr_mark s)) = req_id"

text \<open>The isolation of the data: level 2 by client, level 3 by session; an empty name filters nothing.\<close>

definition cdr_visible :: "u32 \<Rightarrow> string \<Rightarrow> string \<Rightarrow> ClientSession \<Rightarrow> bool" where
  "cdr_visible level requester req_id s \<longleftrightarrow>
     \<not> (level = 2 \<and> requester \<noteq> [] \<and> cs_client_id s \<noteq> requester) \<and>
     \<not> (level = 3 \<and> req_id \<noteq> [] \<and> \<not> cdr_named req_id s)"

definition active_content :: "ClientSession \<Rightarrow> u64 \<Rightarrow> u64 \<Rightarrow> string" where
  "active_content s bin bout =
     snprintf_buf 512 (''CDR_ID='' @ show_word (cdr_mark s) @ '';SESSION_ID='' @ cs_session_id s @ '';CLIENT_ID='' @ cs_client_id s
       @ '';STATUS=ACTIVE;DLM_NAME='' @ (if cs_assigned_link_id s \<noteq> [] then cs_assigned_link_id s else ''NONE'')
       @ '';START_TIME='' @ show_int (cs_traffic_start_time s) @ '';BYTES_IN='' @ show_word bin @ '';BYTES_OUT='' @ show_word bout)"

definition finished_content :: "ClientSession \<Rightarrow> string" where
  "finished_content s =
     snprintf_buf 512 (''CDR_ID='' @ show_word (cdr_mark s) @ '';SESSION_ID='' @ cs_session_id s @ '';CLIENT_ID='' @ cs_client_id s
       @ '';STATUS=FINISHED;END_TIME='' @ show_int (cs_last_activity s) @ '';BYTES_IN='' @ show_word (cs_bytes_in s)
       @ '';BYTES_OUT='' @ show_word (cs_bytes_out s))"

text \<open>
  One entry of the list, for the table slot \<open>i\<close>; \<open>None\<close> when an attribute cannot be added, which ends the
  handler with -1, and \<open>Some []\<close> when the entry as a whole is skipped.
\<close>

definition cdr_entry :: "cic_env \<Rightarrow> string \<Rightarrow> nat \<Rightarrow> u32 \<Rightarrow> string option \<Rightarrow> davp list option" where
  "cdr_entry env tag i mark content =
     (if \<not> ce_ok env (tag @ ''CDR-Info'') i then Some []
      else if \<not> ce_ok env (tag @ ''CDR-ID'') i then None
      else if content \<noteq> None \<and> \<not> ce_ok env (tag @ ''CDR-Content'') i then None
      else if \<not> ce_ok env (tag @ ''Add-CDR-Info'') i then Some []
      else Some [av_group ''CDR-Info''
                   (av_u32 ''CDR-ID'' mark # (case content of None \<Rightarrow> [] | Some t \<Rightarrow> [av_str ''CDR-Content'' t]))])"

fun active_loop ::
    "cic_env \<Rightarrow> int \<Rightarrow> u32 \<Rightarrow> (ClientSession \<Rightarrow> bool) \<Rightarrow> nat list \<Rightarrow> davp list \<Rightarrow> cic_world \<Rightarrow> davp list option \<times> cic_world" where
  "active_loop env now ty visible [] acc w = (Some acc, w)"
| "active_loop env now ty visible (i # is) acc w =
     (let s = wd_session w i
      in if cs_in_use s \<and> cs_state s = SESSION_STATE_ACTIVE \<and> visible s
         then
           let (content, w) = (if ty = 2 \<and> ce_ok env ''active CDR-Info'' i \<and> ce_ok env ''active CDR-ID'' i
                               then let (live, bin, bout, w) = current_traffic env now (cs_session_id s) i w
                                    in (Some (active_content s bin bout), w)
                               else (if ty = 2 then Some [] else None, w))
           in case cdr_entry env ''active '' i (cdr_mark s) content of
                None \<Rightarrow> (None, w)
              | Some e \<Rightarrow> active_loop env now ty visible is (acc @ e) w
         else active_loop env now ty visible is acc w)"

fun finished_loop ::
    "cic_env \<Rightarrow> u32 \<Rightarrow> (ClientSession \<Rightarrow> bool) \<Rightarrow> nat list \<Rightarrow> davp list \<Rightarrow> cic_world \<Rightarrow> davp list option" where
  "finished_loop env ty visible [] acc w = Some acc"
| "finished_loop env ty visible (i # is) acc w =
     (let s = wd_session w i
      in if cs_in_use s \<and> cs_state s = SESSION_STATE_CLOSED \<and> visible s
         then (case cdr_entry env ''finished '' i (cdr_mark s) (if ty = 2 then Some (finished_content s) else None) of
                 None \<Rightarrow> None
               | Some e \<Rightarrow> finished_loop env ty visible is (acc @ e) w)
         else finished_loop env ty visible is acc w)"

text \<open>A list goes into the answer when it has an entry.\<close>

definition add_cdr_list :: "cic_env \<Rightarrow> string \<Rightarrow> davp list \<Rightarrow> davp list \<Rightarrow> davp list" where
  "add_cdr_list env name entries ans =
     (if entries = [] then ans else snd (add_group (ce_ok env (''Add-'' @ name) 0) (av_group name entries) ans))"

definition add_unknown :: "cic_env \<Rightarrow> string \<Rightarrow> davp list \<Rightarrow> cic_world \<Rightarrow> davp list option" where
  "add_unknown env req_id ans w =
     (if req_id = [] \<or> list_ex (\<lambda>s. cs_in_use s \<and> cdr_named req_id s) (mx_sessions (wd_mx w)) then Some ans
      else if \<not> ce_ok env ''CDRs-Unknown'' 0 then Some ans
      else if \<not> ce_ok env ''unknown CDR-ID'' 0 then None
      else Some (snd (add_group (ce_ok env ''Add-CDRs-Unknown'' 0) (av_group ''CDRs-Unknown'' [av_u32 ''CDR-ID'' 0]) ans)))"

definition madr_lists ::
    "cic_env \<Rightarrow> int \<Rightarrow> u32 \<Rightarrow> (ClientSession \<Rightarrow> bool) \<Rightarrow> string \<Rightarrow> davp list \<Rightarrow> cic_world \<Rightarrow> davp list option \<times> cic_world" where
  "madr_lists env now ty visible req_id ans w =
     (if \<not> (ty = 1 \<or> ty = 2) then (Some ans, w)
      else if \<not> ce_ok env ''CDRs-Active'' 0 then (Some ans, w)
      else
        let (act, w) = active_loop env now ty visible [0..<MAX_SESSIONS] [] w
        in case act of
             None \<Rightarrow> (None, w)
           | Some entries \<Rightarrow>
               let ans = add_cdr_list env ''CDRs-Active'' entries ans;
                   fin = (if ce_ok env ''CDRs-Finished'' 0 then finished_loop env ty visible [0..<MAX_SESSIONS] [] w else Some [])
               in case fin of
                    None \<Rightarrow> (None, w)
                  | Some entries \<Rightarrow> (add_unknown env req_id (add_cdr_list env ''CDRs-Finished'' entries ans) w, w))"

definition cic_handle_madr :: "cic_env \<Rightarrow> int \<Rightarrow> davp list \<Rightarrow> cic_world \<Rightarrow> int \<times> cic_world" where
  "cic_handle_madr env now qry w =
     (let requester = read_octets qry ''Origin-Host'' 128 [];
          cdr_type = u32_or qry ''CDR-Type'' 1;
          cdr_level = u32_or qry ''CDR-Level'' 1;
          req_id = read_octets qry ''CDR-Request-Identifier'' 64 []
      in if \<not> ce_new_answer env then (-1, w)
         else
           let (r, ans) = add_each (ce_add env) 0
                            (result_avps env 2001 @ [av_u32 ''CDR-Type'' cdr_type, av_u32 ''CDR-Level'' cdr_level]
                             @ (if req_id \<noteq> [] then [av_str ''CDR-Request-Identifier'' req_id] else [])) (answer_head qry)
           in if r \<noteq> 0 then (-1, w)
              else
                let (ans, w) = madr_lists env now cdr_type (cdr_visible cdr_level requester req_id) req_id ans w
                in case ans of None \<Rightarrow> (-1, w) | Some ans \<Rightarrow> send_answer env ans w)"

section \<open>Control\<close>

text \<open>What is wrong with a request: result code, status code and message. No profile means no restriction.\<close>

definition macr_refusal :: "string \<Rightarrow> string \<Rightarrow> cic_world \<Rightarrow> (u32 \<times> u32 \<times> string) option" where
  "macr_refusal requester target w =
     (let sm = mx_sm (wd_mx w);
          req = (if requester = [] then None else magic_session_find_by_id sm (Some requester));
          profile = (case req of None \<Rightarrow> None | Some i \<Rightarrow> find_profile (mx_config (wd_mx w)) (cs_client_id (wd_session w i)))
      in if target = [] then Some (5005, 5001, ''CDR-Restart-Session-Id not provided'')
         else if (case profile of None \<Rightarrow> False | Some p \<Rightarrow> requester \<noteq> target \<and> \<not> sc_allow_cdr_control (cl_session p))
         then Some (5003, 5003, snprintf_buf 128 (''Permission denied: client '' @ cs_client_id (wd_session w (the req))
                                                  @ '' cannot control CDR of session '' @ target))
         else case magic_session_find_by_id sm (Some target) of
                None \<Rightarrow> Some (5002, 5001, snprintf_buf 128 (''Target session not found: '' @ target))
              | Some i \<Rightarrow>
                  if cs_state (wd_session w i) \<noteq> SESSION_STATE_ACTIVE \<and> cs_state (wd_session w i) \<noteq> SESSION_STATE_AUTHENTICATED
                  then Some (5012, 5001, snprintf_buf 128 (''Target session not in valid state: '' @ target @ '' (state=''
                                                           @ magic_session_state_name (cs_state (wd_session w i)) @ '')''))
                  else None)"

definition macr_rollover :: "cic_env \<Rightarrow> int \<Rightarrow> string \<Rightarrow> nat \<Rightarrow> cic_world \<Rightarrow> (u32 \<times> u32 \<times> string) \<times> CDRRolloverResult \<times> cic_world" where
  "macr_rollover env now target i w =
     (let (live, bin, bout, w) = current_traffic env now target i w;
          (r, res, c) = cdr_rollover (ce_fs env) now (ce_uuid env) (Some target) bin bout (wd_cdr w);
          w = w\<lparr>wd_cdr := c\<rparr>
      in if r \<noteq> 0 \<or> \<not> ro_success res
         then ((5012, 5002, if ro_error_message res \<noteq> [] then snprintf_buf 128 (''CDR rollover failed: '' @ ro_error_message res)
                            else ''CDR rollover failed: internal error''), res, w)
         else
           let w = upd_session i (\<lambda>s. s\<lparr>cs_traffic_start_time := now, cs_bytes_in := 0, cs_bytes_out := 0, cs_last_activity := now\<rparr>) w
           in ((2001, 0, []), res, w\<lparr>wd_cdr := cdr_periodic_maintenance (ce_fs env) now (wd_cdr w)\<rparr>))"

definition macr_process :: "cic_env \<Rightarrow> int \<Rightarrow> string \<Rightarrow> string \<Rightarrow> cic_world \<Rightarrow> (u32 \<times> u32 \<times> string) \<times> CDRRolloverResult \<times> cic_world" where
  "macr_process env now requester target w =
     (case macr_refusal requester target w of
        Some e \<Rightarrow> (e, zero_result, w)
      | None \<Rightarrow> (case magic_session_find_by_id (mx_sm (wd_mx w)) (Some target) of
                   None \<Rightarrow> ((2001, 0, []), zero_result, w)
                 | Some i \<Rightarrow> macr_rollover env now target i w))"

text \<open>The pair of record numbers, or the error.\<close>

definition macr_updated :: "cic_env \<Rightarrow> CDRRolloverResult \<Rightarrow> davp list \<Rightarrow> davp list option" where
  "macr_updated env res ans =
     (if \<not> ce_ok env ''CDRs-Updated'' 0 \<or> \<not> ce_ok env ''CDR-Start-Stop-Pair'' 0 then Some ans
      else if \<not> ce_ok env ''CDR-Stopped'' 0 \<or> \<not> ce_ok env ''CDR-Started'' 0 then None
      else if \<not> ce_ok env ''Add-CDR-Start-Stop-Pair'' 0 then Some ans
      else Some (snd (add_group (ce_ok env ''Add-CDRs-Updated'' 0)
                   (av_group ''CDRs-Updated''
                      [av_group ''CDR-Start-Stop-Pair''
                         [av_u32 ''CDR-Stopped'' (ro_old_cdr_id res), av_u32 ''CDR-Started'' (ro_new_cdr_id res)]]) ans)))"

definition macr_answer :: "cic_env \<Rightarrow> davp list \<Rightarrow> string \<Rightarrow> u32 \<times> u32 \<times> string \<Rightarrow> CDRRolloverResult \<Rightarrow> cic_world \<Rightarrow> int \<times> cic_world" where
  "macr_answer env qry target codes res w =
     (let (result, status, msg) = codes
      in if \<not> ce_new_answer env then (-1, w)
         else
           let (r, ans) = add_each (ce_add env) 0 (result_avps env result @ [av_str ''CDR-Restart-Session-Id'' target]) (answer_head qry)
           in if r \<noteq> 0 then (-1, w)
              else if ro_success res
              then (case macr_updated env res ans of None \<Rightarrow> (-1, w) | Some ans \<Rightarrow> send_answer env ans w)
              else
                let (r, ans) = add_each (ce_add env) 4
                                 ((if status \<noteq> 0 then [av_u32 ''MAGIC-Status-Code'' status] else [])
                                  @ (if msg \<noteq> [] then [av_str ''Error-Message'' msg] else [])) ans
                in if r \<noteq> 0 then (-1, w) else send_answer env ans w)"

definition cic_handle_macr :: "cic_env \<Rightarrow> int \<Rightarrow> davp list \<Rightarrow> cic_world \<Rightarrow> int \<times> cic_world" where
  "cic_handle_macr env now qry w =
     (let requester = read_octets qry ''Session-Id'' 128 [];
          target = read_octets qry ''CDR-Restart-Session-Id'' 128 [];
          (codes, res, w) = macr_process env now requester target w
      in macr_answer env qry target codes res w)"

end
