(* ===== verification/Cic_Laws.thy ===== *)
theory Cic_Laws
  imports Cic_Mcar Adif_Props Lmi_Props Cdr_Props Traffic_Props Policy_Props Config_Props
begin

text \<open>
  The invariant of the server as the client interface sees it, and the facts that every handler uses:
  each update of the world keeps the invariant when the component operation behind it does.
\<close>

section \<open>The invariant\<close>

definition cic_inv :: "cic_world \<Rightarrow> bool" where
  "cic_inv w \<longleftrightarrow> ctx_inv (wd_mx w) \<and> cdr_inv (cdrs (wd_cdr w)) \<and> tm_inv (tm (wd_tm w))
     \<and> length (wd_rate w) = MSXR_RATE_LIMIT_ENTRIES \<and> queue_inv (wd_queue w)"

named_theorems cic_intro \<open>updates of the world that keep its invariant\<close>

definition gentle :: "(ClientSession \<Rightarrow> ClientSession) \<Rightarrow> bool" where
  "gentle f \<longleftrightarrow> (\<forall>s. cs_in_use (f s) = cs_in_use s \<and> cs_client_id (f s) = cs_client_id s
     \<and> (session_ok s \<longrightarrow> session_ok (f s)))"

lemma upd_session_inv [cic_intro]:
  assumes "cic_inv w" and "gentle f"
  shows "cic_inv (upd_session i f w)"
proof -
  let ?x = "wd_mx w"
  have "sess_inv (mx_sm (set_session i (f (mx_sessions ?x ! i)) ?x))"
    using assms session_ok_at [of ?x i] by (intro set_session_inv) (auto simp: cic_inv_def ctx_inv_def gentle_def)
  then show ?thesis
    using assms(1) by (simp add: cic_inv_def ctx_inv_def upd_session_def set_session_def)
qed

lemma upd_dp_inv [cic_intro]:
  "cic_inv w \<Longrightarrow> (\<And>d. dp_inv (dp d) \<Longrightarrow> dp_inv (dp (f d))) \<Longrightarrow> cic_inv (upd_dp f w)"
  by (simp add: cic_inv_def ctx_inv_def upd_dp_def)

lemma set_dp_inv: "cic_inv w \<Longrightarrow> dp_inv (dp d) \<Longrightarrow> cic_inv (upd_dp (\<lambda>_. d) w)"
  by (simp add: cic_inv_def ctx_inv_def upd_dp_def)

lemma upd_sm_inv: "cic_inv w \<Longrightarrow> sess_inv m \<Longrightarrow> cic_inv (upd_sm (\<lambda>_. m) w)"
  by (simp add: cic_inv_def ctx_inv_def upd_sm_def)

lemma set_mx_inv: "cic_inv w \<Longrightarrow> ctx_inv x \<Longrightarrow> cic_inv (w\<lparr>wd_mx := x\<rparr>)"
  by (simp add: cic_inv_def)

lemma set_tm_inv: "cic_inv w \<Longrightarrow> tm_inv (tm t) \<Longrightarrow> cic_inv (w\<lparr>wd_tm := t\<rparr>)"
  by (simp add: cic_inv_def)

lemma set_cdr_inv: "cic_inv w \<Longrightarrow> cdr_inv (cdrs c) \<Longrightarrow> cic_inv (w\<lparr>wd_cdr := c\<rparr>)"
  by (simp add: cic_inv_def)

lemma set_queue_inv: "cic_inv w \<Longrightarrow> queue_inv q \<Longrightarrow> cic_inv (w\<lparr>wd_queue := q\<rparr>)"
  by (simp add: cic_inv_def)

lemma set_answers_inv [cic_intro]: "cic_inv w \<Longrightarrow> cic_inv (w\<lparr>wd_answers := as\<rparr>)"
  by (simp add: cic_inv_def)

lemma cic_invD:
  assumes "cic_inv w"
  shows "ctx_inv (wd_mx w)" "cdr_inv (cdrs (wd_cdr w))" "tm_inv (tm (wd_tm w))"
    "sess_inv (mx_sm (wd_mx w))" "dp_inv (dp (mx_dp (wd_mx w)))" "config_wf (mx_config (wd_mx w))"
    "lmi_inv (mx_lmi (wd_mx w))" "queue_inv (wd_queue w)" "length (wd_rate w) = MSXR_RATE_LIMIT_ENTRIES"
  using assms by (simp_all add: cic_inv_def ctx_inv_def)

section \<open>Gentle changes of a session\<close>

lemma gentleI:
  "(\<And>s. cs_in_use (f s) = cs_in_use s \<and> cs_client_id (f s) = cs_client_id s
      \<and> cs_tft_rules (f s) = cs_tft_rules s \<and> cs_num_tft_rules (f s) = cs_num_tft_rules s) \<Longrightarrow> gentle f"
  by (simp add: gentle_def session_ok_def)

lemma gentle_set_state [cic_intro]: "gentle (\<lambda>s. snd (magic_session_set_state now st s))"
  by (rule gentleI) (simp add: magic_session_set_state_def)

lemma gentle_set_subscription [cic_intro]: "gentle (\<lambda>s. snd (magic_session_set_subscription level s))"
  by (rule gentleI) (simp add: magic_session_set_subscription_def)

lemma gentle_assign_link [cic_intro]: "gentle (\<lambda>s. snd (magic_session_assign_link now lid bearer bw ret s))"
  by (rule gentleI) (simp add: magic_session_assign_link_def Let_def split: option.split)

lemma gentle_fields [cic_intro]:
  "gentle (\<lambda>s. s\<lparr>cs_client_ip := ip\<rparr>)"
  "gentle (\<lambda>s. s\<lparr>cs_conntrack_mark := mark, cs_traffic_start_time := t\<rparr>)"
  "gentle (\<lambda>s. s\<lparr>cs_profile_name := p, cs_auth_expire_time := e, cs_auth_grace_period := g\<rparr>)"
  by (rule gentleI; simp)+

section \<open>Lengths of what is read\<close>

lemma copy_octets_length: "length (copy_octets n s) \<le> n - 1"
  unfolding copy_octets_def by (rule order_trans [OF length_takeWhile_le]) simp

lemma read_octets_length: "length old \<le> n - 1 \<Longrightarrow> length (read_octets msg name n old) \<le> n - 1"
  using copy_octets_length [of n] by (auto simp: read_octets_def simp del: One_nat_def split: option.splits)

lemma selected_link_length: "length (rs_selected_link_id (snd (magic_policy_select_path ctx req))) \<le> 63"
  by (auto simp: magic_policy_select_path_def refuse_def zero_response_def Let_def strncpy_buf_length
      split: option.splits prod.splits)

section \<open>Pieces the handlers share\<close>

lemma ipset_dp [simp]:
  "dp (snd (magic_dataplane_ipset_add_control os ip d)) = dp d"
  "dp (snd (magic_dataplane_ipset_add_data os ip d)) = dp d"
  by (auto simp: magic_dataplane_ipset_add_control_def magic_dataplane_ipset_add_data_def Let_def
      magic_dataplane_exec_cmd_def raw_system_def split: option.splits)

lemma ensure_link_inv:
  assumes "cic_inv w" and "length lid \<le> 63"
  shows "cic_inv (ensure_link_registered env lid w)"
  using assms
  by (auto simp: ensure_link_registered_def Let_def split: option.splits intro!: upd_dp_inv register_link_inv)

lemma add_tft_loop_inv: "cic_inv w \<Longrightarrow> cic_inv (add_tft_loop env now ip dest sid lid rules w)"
proof (induction rules arbitrary: w)
  case (Cons r rules)
  then show ?case by (simp add: Let_def case_prod_beta upd_dp_inv add_tft_inv)
qed simp

lemma reset_old_session_inv: "cic_inv w \<Longrightarrow> cic_inv (reset_old_session env now sid w)"
  by (auto simp: reset_old_session_def Let_def split: option.splits intro!: cic_intro remove_route_inv)

section \<open>Bearers taken by a resource request\<close>

definition active_bearers :: "DlmClient \<Rightarrow> nat" where
  "active_bearers c = count_if be_is_active (dm_bearers c)"

definition total_bearers :: "MagicContext \<Rightarrow> nat" where
  "total_bearers x = sum_list (map active_bearers (li_clients (mx_lmi x)))"

lemma sum_list_update_at:
  "i < length xs \<Longrightarrow> sum_list (map f (xs[i := v])) + f (xs ! i) = sum_list (map f xs) + (f v :: nat)"
  by (induction xs arbitrary: i) (auto split: nat.split)

lemma internal_request_effect:
  assumes ok: "bearers_ok c" and req: "mq_action req = RESOURCE_ACTION_REQUEST" "mq_bearer_id req = None"
    and h: "handle_mih_resource_request_internal now req c = (rs, c')"
  shows "if ma_status rs = STATUS_SUCCESS
         then active_bearers c' = active_bearers c + 1 \<and> (\<exists>b. ma_bearer_id rs = Some b \<and> b \<noteq> 0)
              \<and> dm_link_id c' = dm_link_id c \<and> dm_is_registered c' = dm_is_registered c
         else c' = c"
  using ok
proof (cases rule: allocate_cases [of c now])
  case full
  with h req show ?thesis
    by (auto simp: handle_mih_resource_request_internal_def resp_def split: option.splits if_splits)
next
  case (slot i b)
  let ?c1 = "c\<lparr>dm_bearers := (dm_bearers c)[i := b], dm_num_active_bearers := dm_num_active_bearers c + 1\<rparr>"
  have len: "i < length (dm_bearers c)" using ok slot(1) by (simp add: bearers_ok_def)
  have nz: "(of_nat i + 1 :: u8) \<noteq> 0" using bearer_index_of(1) [OF slot(1)] by (auto simp: bearer_index_def)
  have found: "magic_dlm_find_bearer ?c1 (of_nat i + 1) = Some i"
    using bearer_index_of(1) [OF slot(1)] slot(3) len by (simp add: magic_dlm_find_bearer_def)
  have "count_if be_is_active (dm_bearers (set_bearer_qos i q ?c1)) = count_if be_is_active (dm_bearers c) + 1" for q
    using count_if_update [OF len, of be_is_active "b\<lparr>be_qos_params := q\<rparr>"] slot(2,3) len by (simp add: set_bearer_qos_def)
  then show ?thesis
    using h req slot(5) nz found
    by (auto simp: handle_mih_resource_request_internal_def resp_def active_bearers_def set_bearer_qos_def
        split: option.splits if_splits)
qed

lemma mih_request_cases:
  assumes h: "magic_dlm_mih_link_resource_request now req x = (r, confirm, y)"
  obtains (none) "r \<noteq> 0" "y = x"
  | (found) i req' rs c where "i < length (li_clients (mx_lmi x))" "mq_action req' = lq_resource_action req"
      "mq_bearer_id req' = lq_bearer_identifier req"
      "handle_mih_resource_request_internal now req' (li_clients (mx_lmi x) ! i) = (rs, c)"
      "r = (if ma_status rs = STATUS_SUCCESS then 0 else -1)" "y = set_dlm_client i c x"
      "lf_status confirm = ma_status rs" "lf_bearer_identifier confirm = ma_bearer_id rs"
proof -
  let ?k = "if li_has_config (mx_lmi x) then magic_config_find_datalink (mx_config x) (Some (lt_link_addr (lq_link_identifier req))) else None"
  let ?name = "dc_dlm_name (mc_dlm_configs (mx_config x) ! the ?k)"
  show ?thesis
  proof (cases "?k = None \<or> \<not> dc_is_active (mc_dlm_configs (mx_config x) ! the ?k) \<or> magic_lmi_find_by_link (mx_lmi x) (Some ?name) = None")
    case True
    then have "r \<noteq> 0 \<and> y = x"
      using h by (auto simp: magic_dlm_mih_link_resource_request_def Let_def split: option.splits if_splits)
    then show ?thesis using none by blast
  next
    case False
    then obtain k i where k: "?k = Some k" "dc_is_active (mc_dlm_configs (mx_config x) ! k)"
      and i: "magic_lmi_find_by_link (mx_lmi x) (Some (dc_dlm_name (mc_dlm_configs (mx_config x) ! k))) = Some i" by auto
    let ?q = "\<lparr>mq_link_id = strncpy_buf 63 ?name, mq_action = lq_resource_action req, mq_bearer_id = lq_bearer_identifier req,
               mq_qos_params = lq_qos_parameters req\<rparr>"
    let ?h = "handle_mih_resource_request_internal now ?q (li_clients (mx_lmi x) ! i)"
    have il: "i < length (li_clients (mx_lmi x))"
      using i by (auto simp: magic_lmi_find_by_link_def dest: find_idx_less)
    show ?thesis
      by (rule found [OF il, of ?q "fst ?h" "snd ?h"])
        (use h k i in \<open>auto simp: magic_dlm_mih_link_resource_request_def Let_def case_prod_beta\<close>)
  qed
qed

lemma total_bearers_set:
  assumes "i < length (li_clients (mx_lmi x))"
  shows "total_bearers (set_dlm_client i c x) + active_bearers (li_clients (mx_lmi x) ! i) = total_bearers x + active_bearers c"
  using sum_list_update_at [OF assms, of active_bearers c] by (simp add: total_bearers_def set_dlm_client_def)

lemma set_same_client: "set_dlm_client i (li_clients (mx_lmi x) ! i) x = x"
  by (simp add: set_dlm_client_def)

lemma mih_request_effect:
  assumes inv: "ctx_inv x" and req: "lq_resource_action req = RESOURCE_ACTION_REQUEST" "lq_bearer_identifier req = None"
    and h: "magic_dlm_mih_link_resource_request now req x = (r, confirm, y)"
  shows "(r = 0 \<and> lf_status confirm = STATUS_SUCCESS \<and> total_bearers y = total_bearers x + 1
            \<and> (\<exists>b. lf_bearer_identifier confirm = Some b \<and> b \<noteq> 0)
            \<and> y = x\<lparr>mx_lmi := mx_lmi y\<rparr>)
         \<or> (r \<noteq> 0 \<and> y = x)"
  using h
proof (cases rule: mih_request_cases)
  case (found i req' rs c)
  have "i < MAX_DLM_CLIENTS" using inv found(1) by (simp add: ctx_inv_def lmi_inv_def)
  note eff = internal_request_effect [OF ctx_client [OF inv this] _ _ found(4)]
  show ?thesis
    using eff found req total_bearers_set [OF found(1), of c] set_same_client [of i x] by (auto simp: set_dlm_client_def split: if_splits)
qed simp

lemma internal_release_effect:
  assumes ok: "bearers_ok c" and req: "mq_action req = RESOURCE_ACTION_RELEASE"
    and h: "handle_mih_resource_request_internal now req c = (rs, c')"
  shows "if ma_status rs = STATUS_SUCCESS then active_bearers c' + 1 = active_bearers c else c' = c"
proof (cases "\<exists>b i. mq_bearer_id req = Some b \<and> bearer_index b = Some i \<and> be_is_active (dm_bearers c ! i)")
  case True
  then obtain b i where i: "mq_bearer_id req = Some b" "bearer_index b = Some i" "be_is_active (dm_bearers c ! i)" by blast
  have less: "i < length (dm_bearers c)" using ok bearer_index_SomeD [OF i(2)] by (simp add: bearers_ok_def)
  have "Suc (count_if be_is_active ((dm_bearers c)[i := zero_bearer])) = count_if be_is_active (dm_bearers c)"
    using less i(3) be.blank_unused by (rule be.free_slot)
  then show ?thesis
    using h req i by (auto simp: handle_mih_resource_request_internal_def magic_dlm_release_bearer_def resp_def active_bearers_def)
next
  case False
  then show ?thesis
    using h req by (auto simp: handle_mih_resource_request_internal_def magic_dlm_release_bearer_def resp_def
        split: option.splits if_splits)
qed

lemma mih_release_effect:
  assumes inv: "ctx_inv x" and req: "lq_resource_action req = RESOURCE_ACTION_RELEASE"
    and h: "magic_dlm_mih_link_resource_request now req x = (r, confirm, y)"
  shows "(if r = 0 then total_bearers y + 1 = total_bearers x else y = x) \<and> y = x\<lparr>mx_lmi := mx_lmi y\<rparr>"
  using h
proof (cases rule: mih_request_cases)
  case (found i req' rs c)
  have "i < MAX_DLM_CLIENTS" using inv found(1) by (simp add: ctx_inv_def lmi_inv_def)
  note eff = internal_release_effect [OF ctx_client [OF inv this] _ found(4)]
  show ?thesis
    using eff found req total_bearers_set [OF found(1), of c] set_same_client [of i x] by (auto simp: set_dlm_client_def split: if_splits)
qed simp

end
