(* ===== verification/Cic_Frames.thy ===== *)
theory Cic_Frames
  imports Cic_Laws
begin

text \<open>
  What the pieces of the client handlers leave alone: the configuration, the link managers, the
  occupation of the session table. The collection \<open>cic_frame\<close> rewrites these readings through each update.
\<close>

named_theorems cic_frame \<open>readings of the world through its updates\<close>

abbreviation wd_lmi :: "cic_world \<Rightarrow> MagicLmiContext" where "wd_lmi w \<equiv> mx_lmi (wd_mx w)"
abbreviation wd_config :: "cic_world \<Rightarrow> MagicConfig" where "wd_config w \<equiv> mx_config (wd_mx w)"
abbreviation wd_sessions :: "cic_world \<Rightarrow> ClientSession list" where "wd_sessions w \<equiv> mx_sessions (wd_mx w)"

definition slots :: "cic_world \<Rightarrow> bool list" where
  "slots w = map cs_in_use (wd_sessions w)"

lemma upd_dp_frame [cic_frame]:
  "wd_lmi (upd_dp f w) = wd_lmi w" "wd_config (upd_dp f w) = wd_config w" "wd_sessions (upd_dp f w) = wd_sessions w"
  "slots (upd_dp f w) = slots w" "wd_session (upd_dp f w) i = wd_session w i" "wd_answers (upd_dp f w) = wd_answers w"
  "wd_adif (upd_dp f w) = wd_adif w" "wd_rate (upd_dp f w) = wd_rate w" "wd_tm (upd_dp f w) = wd_tm w"
  "wd_cdr (upd_dp f w) = wd_cdr w" "mx_sm (wd_mx (upd_dp f w)) = mx_sm (wd_mx w)"
  by (simp_all add: upd_dp_def slots_def wd_session_def)

lemma upd_session_frame [cic_frame]:
  "wd_lmi (upd_session i f w) = wd_lmi w" "wd_config (upd_session i f w) = wd_config w"
  "wd_sessions (upd_session i f w) = (wd_sessions w)[i := f (wd_session w i)]"
  "wd_answers (upd_session i f w) = wd_answers w" "wd_adif (upd_session i f w) = wd_adif w"
  "wd_rate (upd_session i f w) = wd_rate w" "wd_tm (upd_session i f w) = wd_tm w" "wd_cdr (upd_session i f w) = wd_cdr w"
  "mx_dp (wd_mx (upd_session i f w)) = mx_dp (wd_mx w)"
  by (simp_all add: upd_session_def set_session_def wd_session_def mx_sessions_def)

lemma upd_session_at [cic_frame]:
  "wd_session (upd_session i f w) j = (if j = i \<and> i < length (wd_sessions w) then f (wd_session w i) else wd_session w j)"
  by (auto simp: wd_session_def upd_session_frame(3) nth_list_update list_update_beyond)

lemma slots_gentle [cic_frame]: "gentle f \<Longrightarrow> slots (upd_session i f w) = slots w"
  by (cases "i < length (wd_sessions w)")
    (auto simp: slots_def cic_frame map_update wd_session_def gentle_def list_update_same_conv list_update_beyond)

lemma wd_updates_frame [cic_frame]:
  "slots (w\<lparr>wd_tm := t\<rparr>) = slots w" "slots (w\<lparr>wd_cdr := c\<rparr>) = slots w" "slots (w\<lparr>wd_answers := a\<rparr>) = slots w"
  "wd_session (w\<lparr>wd_tm := t\<rparr>) i = wd_session w i" "wd_session (w\<lparr>wd_cdr := c\<rparr>) i = wd_session w i"
  "wd_session (w\<lparr>wd_answers := a\<rparr>) i = wd_session w i"
  by (simp_all add: slots_def wd_session_def)

lemma ensure_link_frame [cic_frame]:
  "wd_lmi (ensure_link_registered env lid w) = wd_lmi w" "wd_config (ensure_link_registered env lid w) = wd_config w"
  "slots (ensure_link_registered env lid w) = slots w" "wd_session (ensure_link_registered env lid w) i = wd_session w i"
  "wd_sessions (ensure_link_registered env lid w) = wd_sessions w" "wd_answers (ensure_link_registered env lid w) = wd_answers w"
  by (simp_all add: ensure_link_registered_def Let_def cic_frame split: option.split)

lemma add_tft_loop_frame [cic_frame]:
  "wd_lmi (add_tft_loop env now ip dest sid lid rules w) = wd_lmi w"
  "wd_config (add_tft_loop env now ip dest sid lid rules w) = wd_config w"
  "slots (add_tft_loop env now ip dest sid lid rules w) = slots w"
  "wd_session (add_tft_loop env now ip dest sid lid rules w) i = wd_session w i"
  "wd_sessions (add_tft_loop env now ip dest sid lid rules w) = wd_sessions w"
  "wd_answers (add_tft_loop env now ip dest sid lid rules w) = wd_answers w"
  by (induction rules arbitrary: w; simp add: Let_def case_prod_beta cic_frame)+

lemmas gentle_rules = gentle_set_state gentle_set_subscription gentle_assign_link gentle_fields

lemma reset_old_session_frame [cic_frame]:
  "wd_lmi (reset_old_session env now sid w) = wd_lmi w" "wd_config (reset_old_session env now sid w) = wd_config w"
  "slots (reset_old_session env now sid w) = slots w" "wd_answers (reset_old_session env now sid w) = wd_answers w"
  by (simp_all add: reset_old_session_def Let_def cic_frame gentle_rules split: option.split)

lemma open_session_frame [cic_frame]:
  "wd_lmi (open_session env now p ctx i w) = wd_lmi w" "wd_config (open_session env now p ctx i w) = wd_config w"
  "slots (open_session env now p ctx i w) = slots w" "wd_answers (open_session env now p ctx i w) = wd_answers w"
  by (simp_all add: open_session_def Let_def cic_frame gentle_rules)

lemma initial_mscr_frame [cic_frame]:
  "mx_lmi (snd (magic_cic_send_initial_mscr env i x)) = mx_lmi x" "mx_config (snd (magic_cic_send_initial_mscr env i x)) = mx_config x"
  "mx_sessions (snd (magic_cic_send_initial_mscr env i x)) = mx_sessions x"
  by (simp_all add: magic_cic_send_initial_mscr_def Let_def)

lemma set_mx_frame [cic_frame]:
  "slots (w\<lparr>wd_mx := x\<rparr>) = map cs_in_use (mx_sessions x)" "wd_session (w\<lparr>wd_mx := x\<rparr>) i = mx_sessions x ! i"
  by (simp_all add: slots_def wd_session_def)

lemma total_bearers_cong: "mx_lmi x = mx_lmi y \<Longrightarrow> total_bearers x = total_bearers y"
  by (simp add: total_bearers_def)

end
