(* ===== verification/Cic_Mcar_Props.thy ===== *)
theory Cic_Mcar_Props
  imports Cic_Frames
begin

text \<open>
  Properties of the authentication request: the server invariant, who gets a session, what an
  allocation takes, and three defects of the handler.
\<close>

section \<open>The invariant\<close>

lemma open_session_inv: "cic_inv w \<Longrightarrow> cic_inv (open_session env now p ctx i w)"
  unfolding open_session_def Let_def by (auto intro!: cic_intro)

lemma step1_inv: "cic_inv w \<Longrightarrow> cic_inv (snd (snd (mcar_step1_validation env now qry ctx w)))"
  by (simp add: mcar_step1_validation_def Let_def reset_old_session_inv)

lemma step2_inv:
  assumes "cic_inv w" and "length (mk_client_id ctx) \<le> 63"
  shows "cic_inv (snd (snd (mcar_step2_auth env now ctx w)))"
proof -
  obtain slot sm where c: "magic_session_create now (Some (mk_session_id ctx)) (Some (mk_client_id ctx))
      (Some (mk_client_realm ctx)) (mx_sm (wd_mx w)) = (slot, sm)" by force
  have "cic_inv (upd_sm (\<lambda>_. sm) w)"
    using create_inv(1) [OF cic_invD(4) [OF assms(1)] assms(2) c] assms(1) by (rule upd_sm_inv [rotated])
  then show ?thesis
    using assms(1) c by (simp add: mcar_step2_auth_def Let_def open_session_inv split: option.split)
qed

lemma initial_mscr_inv:
  assumes "ctx_inv x" shows "ctx_inv (snd (magic_cic_send_initial_mscr env i x))"
  using assms by (auto simp: magic_cic_send_initial_mscr_def Let_def ctx_inv_def)

lemma step3_inv: "cic_inv w \<Longrightarrow> cic_inv (snd (mcar_step3_subscription env ctx w))"
  unfolding mcar_step3_subscription_def Let_def
  by (auto split: option.split simp: case_prod_beta intro!: set_mx_inv initial_mscr_inv cic_invD(1) cic_intro)

section \<open>Requests for link resources\<close>

lemma retry_loop_effect:
  assumes "ctx_inv (wd_mx w)" and "mcar_retry_loop now n k lid prs ctx confirm w = (r, ctx', confirm', w')"
  shows "(r = 0 \<and> total_bearers (wd_mx w') = total_bearers (wd_mx w) + 1
            \<and> (\<exists>b. lf_bearer_identifier confirm' = Some b \<and> b \<noteq> 0)
            \<and> (\<exists>m. ctx' = ctx\<lparr>mk_retry_count := m\<rparr>) \<and> ctx_inv (wd_mx w')
            \<and> w' = w\<lparr>wd_mx := (wd_mx w)\<lparr>mx_lmi := mx_lmi (wd_mx w')\<rparr>\<rparr>)
         \<or> (r = -1 \<and> w' = w \<and> ctx' = ctx)"
  using assms(2)
proof (induction n arbitrary: k confirm)
  case (Suc n)
  obtain q c x where h: "magic_dlm_mih_link_resource_request now (mcar_mih_request lid prs) (wd_mx w) = (q, c, x)"
    by (cases "magic_dlm_mih_link_resource_request now (mcar_mih_request lid prs) (wd_mx w)")
  have "(q = 0 \<and> lf_status c = STATUS_SUCCESS \<and> total_bearers x = total_bearers (wd_mx w) + 1
            \<and> (\<exists>b. lf_bearer_identifier c = Some b \<and> b \<noteq> 0) \<and> x = (wd_mx w)\<lparr>mx_lmi := mx_lmi x\<rparr>)
      \<or> (q \<noteq> 0 \<and> x = wd_mx w)"
    by (rule mih_request_effect [OF assms(1) _ _ h]) (simp_all add: mcar_mih_request_def)
  then show ?case
  proof
    assume a: "q = 0 \<and> lf_status c = STATUS_SUCCESS \<and> total_bearers x = total_bearers (wd_mx w) + 1
            \<and> (\<exists>b. lf_bearer_identifier c = Some b \<and> b \<noteq> 0) \<and> x = (wd_mx w)\<lparr>mx_lmi := mx_lmi x\<rparr>"
    then have "r = 0" "ctx' = ctx\<lparr>mk_retry_count := k\<rparr>" "confirm' = c" "w' = w\<lparr>wd_mx := x\<rparr>"
      using Suc.prems h by simp_all
    moreover have "ctx_inv x" using resource_request_inv [OF assms(1), of now "mcar_mih_request lid prs"] h by simp
    ultimately show ?thesis using a by auto
  next
    assume b: "q \<noteq> 0 \<and> x = wd_mx w"
    then have "mcar_retry_loop now n (k + 1) lid prs ctx c w = (r, ctx', confirm', w')"
      using Suc.prems h by simp
    then show ?thesis by (rule Suc.IH)
  qed
qed simp

lemma policy_request_cong:
  "mk_client_id ctx' = mk_client_id ctx \<Longrightarrow> mk_comm_params ctx' = mk_comm_params ctx \<Longrightarrow>
   mcar_policy_request ctx' w = mcar_policy_request ctx w"
  by (simp add: mcar_policy_request_def)

text \<open>Asked again about the same state the engine names the same link, excluded or not; so the loop skips it to the end.\<close>

lemma fallback_loop_stuck:
  assumes "magic_policy_select_path (policy_ctx w) req = (0, prs)" and "mcar_link_already_tried ctx (rs_selected_link_id prs)"
  shows "mcar_fallback_loop now n req ctx w = (-1, ctx, w)"
  using assms(1)
proof (induction n arbitrary: req)
  case (Suc n)
  let ?req = "req\<lparr>rq_exclude_link_count := int (mk_tried_link_count ctx),
                  rq_exclude_links := take (min (mk_tried_link_count ctx) 4) (mk_tried_links ctx)\<rparr>"
  have same: "magic_policy_select_path (policy_ctx w) ?req = (0, prs)"
    using Suc.prems by (simp add: exclusions_are_ignored)
  show ?case using Suc.IH [OF same] same assms(2) by (simp add: Let_def)
qed simp

lemma marked_link_is_tried:
  "mk_tried_link_count ctx < MCAR_FALLBACK_MAX_LINKS \<Longrightarrow> length (mk_tried_links ctx) = MCAR_FALLBACK_MAX_LINKS \<Longrightarrow>
   length lid \<le> 63 \<Longrightarrow> mcar_link_already_tried (mcar_mark_link_tried lid ctx) lid"
  by (simp add: mcar_link_already_tried_def mcar_mark_link_tried_def take_Suc_conv_app_nth list_ex_append)

section \<open>Allocation\<close>

definition mcar_frame :: "McarProcessContext \<Rightarrow> (string \<times> string \<times> nat option \<times> ClientProfile option) \<times> bool \<times> u32 \<times> bool \<times> bool" where
  "mcar_frame ctx = ((mk_session_id ctx, mk_client_id ctx, mk_session ctx, mk_profile ctx),
     mk_has_req_status_info ctx, mk_granted_status_info ctx, mk_auth_success ctx, mk_has_comm_req_params ctx)"

lemma mcar_frame_updates [simp]:
  "mcar_frame (ctx\<lparr>mk_comm_params := a\<rparr>) = mcar_frame ctx"
  "mcar_frame (ctx\<lparr>mk_policy_resp := b\<rparr>) = mcar_frame ctx"
  "mcar_frame (ctx\<lparr>mk_mih_confirm := c\<rparr>) = mcar_frame ctx"
  "mcar_frame (ctx\<lparr>mk_retry_count := d\<rparr>) = mcar_frame ctx"
  "mcar_frame (ctx\<lparr>mk_resource_allocated := e\<rparr>) = mcar_frame ctx"
  "mcar_frame (ctx\<lparr>mk_route_added := e\<rparr>) = mcar_frame ctx"
  "mcar_frame (ctx\<lparr>mk_tried_link_count := d\<rparr>) = mcar_frame ctx"
  "mcar_frame (ctx\<lparr>mk_tried_links := f\<rparr>) = mcar_frame ctx"
  "mcar_frame (ctx\<lparr>mk_extracted_dest_ip := g\<rparr>) = mcar_frame ctx"
  "mcar_frame (ctx\<lparr>mk_security_passed := e\<rparr>) = mcar_frame ctx"
  "mcar_frame (ctx\<lparr>mk_magic_status_code := h\<rparr>) = mcar_frame ctx"
  "mcar_frame (ctx\<lparr>mk_result_code := h\<rparr>) = mcar_frame ctx"
  "mcar_frame (ctx\<lparr>mk_error_message := i\<rparr>) = mcar_frame ctx"
  by (simp_all add: mcar_frame_def)

lemma mcar_frame_helpers [simp]:
  "mcar_frame (mcar_mark_link_tried lid ctx) = mcar_frame ctx"
  "mcar_frame (mcar_extract_dest_ip_from_tft ctx) = mcar_frame ctx"
  "mcar_frame (mcar_error a b m ctx) = mcar_frame ctx"
  "mcar_frame (snd (mcar_validate_tft_napt_whitelist ctx)) = mcar_frame ctx"
  by (simp_all add: mcar_mark_link_tried_def mcar_extract_dest_ip_from_tft_def mcar_error_def
      mcar_validate_tft_napt_whitelist_def Let_def split: option.split)

text \<open>The context when the policy engine is asked, and its answer.\<close>

definition mcar_prepared :: "McarProcessContext \<Rightarrow> McarProcessContext" where
  "mcar_prepared ctx =
     (let ctx = ctx\<lparr>mk_resource_allocated := False, mk_route_added := False, mk_retry_count := 0, mk_tried_link_count := 0,
                     mk_extracted_dest_ip := [],
                     mk_comm_params := comm_req_params_fill_from_profile (mk_profile ctx) (mk_comm_params ctx)\<rparr>;
          ctx = mcar_extract_dest_ip_from_tft (snd (mcar_validate_tft_napt_whitelist ctx))
      in ctx\<lparr>mk_comm_params := cap_request (mk_profile ctx) (mk_comm_params ctx)\<rparr>)"

definition mcar_choice :: "McarProcessContext \<Rightarrow> cic_world \<Rightarrow> int \<times> PolicyResponse" where
  "mcar_choice ctx w = magic_policy_select_path (policy_ctx w) (mcar_policy_request (mcar_prepared ctx) w)"

definition mcar_chosen :: "McarProcessContext \<Rightarrow> cic_world \<Rightarrow> McarProcessContext" where
  "mcar_chosen ctx w =
     mcar_mark_link_tried (rs_selected_link_id (snd (mcar_choice ctx w)))
       ((mcar_prepared ctx)\<lparr>mk_policy_resp := snd (mcar_choice ctx w), mk_mih_confirm := blank_confirm STATUS_SUCCESS\<rparr>)"

lemma prepared_facts [simp]:
  "mcar_frame (mcar_prepared ctx) = mcar_frame ctx" "mk_tried_link_count (mcar_prepared ctx) = 0"
  "mk_tried_links (mcar_prepared ctx) = mk_tried_links ctx" "\<not> mk_resource_allocated (mcar_prepared ctx)"
  by (simp_all add: mcar_prepared_def Let_def mcar_extract_dest_ip_from_tft_def mcar_validate_tft_napt_whitelist_def
      split: option.split)

lemma chosen_facts [simp]:
  "mcar_frame (mcar_chosen ctx w) = mcar_frame ctx" "mk_policy_resp (mcar_chosen ctx w) = snd (mcar_choice ctx w)"
  "\<not> mk_resource_allocated (mcar_chosen ctx w)"
  by (simp_all add: mcar_chosen_def mcar_mark_link_tried_def)

text \<open>A first link that refuses ends the allocation: no other link is asked.\<close>

lemma fallback_is_dead:
  assumes "length (mk_tried_links ctx) = MCAR_FALLBACK_MAX_LINKS" and "fst (mcar_choice ctx w) = 0"
  shows "mcar_try_fallback_links now ((mcar_chosen ctx w)\<lparr>mk_mih_confirm := confirm\<rparr>) w
       = (-1, (mcar_chosen ctx w)\<lparr>mk_mih_confirm := confirm\<rparr>, w)"
proof -
  let ?prs = "snd (mcar_choice ctx w)"
  have "length (rs_selected_link_id ?prs) \<le> 63" unfolding mcar_choice_def by (rule selected_link_length)
  then have "mcar_link_already_tried ((mcar_chosen ctx w)\<lparr>mk_mih_confirm := confirm\<rparr>) (rs_selected_link_id ?prs)"
    using marked_link_is_tried [of "(mcar_prepared ctx)\<lparr>mk_policy_resp := ?prs, mk_mih_confirm := blank_confirm STATUS_SUCCESS\<rparr>"]
      assms(1) by (simp add: mcar_chosen_def mcar_link_already_tried_def)
  moreover have "magic_policy_select_path (policy_ctx w) (mcar_policy_request ((mcar_chosen ctx w)\<lparr>mk_mih_confirm := confirm\<rparr>) w) = (0, ?prs)"
    using assms(2) policy_request_cong [of "(mcar_chosen ctx w)\<lparr>mk_mih_confirm := confirm\<rparr>" "mcar_prepared ctx" w]
    by (simp add: mcar_choice_def mcar_chosen_def mcar_mark_link_tried_def prod_eq_iff)
  ultimately show ?thesis unfolding mcar_try_fallback_links_def by (intro fallback_loop_stuck)
qed

lemma step4_unfold:
  assumes "mk_has_comm_req_params ctx" and "fst (mcar_validate_tft_napt_whitelist (ctx\<lparr>mk_resource_allocated := False, mk_route_added := False, mk_retry_count := 0, mk_tried_link_count := 0,
       mk_extracted_dest_ip := [], mk_comm_params := comm_req_params_fill_from_profile (mk_profile ctx) (mk_comm_params ctx)\<rparr>)) = 0"
  shows "mcar_step4_allocation env now ctx w =
        (if fst (mcar_choice ctx w) \<noteq> 0 \<or> \<not> rs_success (snd (mcar_choice ctx w))
         then ((mcar_prepared ctx)\<lparr>mk_policy_resp := snd (mcar_choice ctx w), mk_magic_status_code := 1010,
                  mk_error_message := Some ''Auth OK, but bandwidth allocation failed (policy)'', mk_resource_allocated := False\<rparr>, w)
         else
           let (r, ctx1, confirm, w1) = mcar_try_link_with_retry now (rs_selected_link_id (snd (mcar_choice ctx w)))
                 (snd (mcar_choice ctx w)) (mcar_chosen ctx w) (mk_mih_confirm (mcar_chosen ctx w)) w;
               ctx1 = ctx1\<lparr>mk_mih_confirm := confirm\<rparr>
           in if r = 0 then mcar_activate env now ctx1 w1
              else let (r, ctx1, w1) = mcar_try_fallback_links now ctx1 w1
                   in if r \<noteq> 0
                      then (ctx1\<lparr>mk_magic_status_code := 1010,
                              mk_error_message := Some ''Auth OK, but bandwidth allocation failed (MIH)''\<rparr>, w1)
                      else mcar_activate env now ctx1 w1)"
  using assms
  by (simp add: mcar_step4_allocation_def mcar_choice_def mcar_prepared_def mcar_chosen_def Let_def case_prod_beta)

lemma step4_cases:
  assumes inv: "ctx_inv (wd_mx w)" and ctx: "length (mk_tried_links ctx) = MCAR_FALLBACK_MAX_LINKS" "\<not> mk_resource_allocated ctx"
    and st: "mcar_step4_allocation env now ctx w = (ctx', w')"
  obtains (refused) "w' = w" "\<not> mk_resource_allocated ctx'" "mcar_frame ctx' = mcar_frame ctx"
      "mk_has_comm_req_params ctx \<Longrightarrow> mk_magic_status_code ctx' \<noteq> 0"
  | (allocated) ctx2 w2 where "mk_has_comm_req_params ctx" "fst (mcar_choice ctx w) = 0"
      "(ctx', w') = mcar_activate env now ctx2 w2"
      "mcar_frame ctx2 = mcar_frame ctx" "mk_policy_resp ctx2 = snd (mcar_choice ctx w)"
      "total_bearers (wd_mx w2) = total_bearers (wd_mx w) + 1" "ctx_inv (wd_mx w2)"
      "w2 = w\<lparr>wd_mx := (wd_mx w)\<lparr>mx_lmi := mx_lmi (wd_mx w2)\<rparr>\<rparr>"
      "\<exists>b. lf_bearer_identifier (mk_mih_confirm ctx2) = Some b \<and> b \<noteq> 0"
proof -
  let ?v = "mcar_validate_tft_napt_whitelist (ctx\<lparr>mk_resource_allocated := False, mk_route_added := False, mk_retry_count := 0, mk_tried_link_count := 0,
                     mk_extracted_dest_ip := [],
                     mk_comm_params := comm_req_params_fill_from_profile (mk_profile ctx) (mk_comm_params ctx)\<rparr>)"
  have vf: "mcar_frame (snd ?v) = mcar_frame ctx" "\<not> mk_resource_allocated (snd ?v)"
    by simp (simp add: mcar_validate_tft_napt_whitelist_def Let_def split: option.split)
  have vs: "fst ?v \<noteq> 0 \<Longrightarrow> mk_magic_status_code (snd ?v) \<noteq> 0"
    by (simp add: mcar_validate_tft_napt_whitelist_def Let_def split: option.splits)
  show ?thesis
  proof (cases "mk_has_comm_req_params ctx")
    case False
    then show ?thesis using st ctx(2) by (intro refused) (auto simp: mcar_step4_allocation_def)
  next
    case comm: True
    show ?thesis
    proof (cases "fst ?v = 0")
      case False
      then have "ctx' = snd ?v" "w' = w" using st comm by (simp_all add: mcar_step4_allocation_def Let_def case_prod_beta)
      then show ?thesis using vf vs False by (intro refused) simp_all
    next
      case valid: True
      note rest_eq = step4_unfold [OF comm valid]
      show ?thesis
      proof (cases "fst (mcar_choice ctx w) \<noteq> 0 \<or> \<not> rs_success (snd (mcar_choice ctx w))")
        case True
        then show ?thesis using st rest_eq by (intro refused) auto
      next
        case chosen: False
        obtain r ctx1 confirm w1 where t: "mcar_try_link_with_retry now (rs_selected_link_id (snd (mcar_choice ctx w)))
            (snd (mcar_choice ctx w)) (mcar_chosen ctx w) (mk_mih_confirm (mcar_chosen ctx w)) w = (r, ctx1, confirm, w1)"
          by (cases "mcar_try_link_with_retry now (rs_selected_link_id (snd (mcar_choice ctx w)))
            (snd (mcar_choice ctx w)) (mcar_chosen ctx w) (mk_mih_confirm (mcar_chosen ctx w)) w")
        note eff = retry_loop_effect [OF inv t [unfolded mcar_try_link_with_retry_def]]
        show ?thesis
        proof (cases "r = 0")
          case True
          with st rest_eq chosen t have a: "(ctx', w') = mcar_activate env now (ctx1\<lparr>mk_mih_confirm := confirm\<rparr>) w1" by simp
          from eff True obtain m where e: "total_bearers (wd_mx w1) = total_bearers (wd_mx w) + 1" "ctx_inv (wd_mx w1)"
            "w1 = w\<lparr>wd_mx := (wd_mx w)\<lparr>mx_lmi := mx_lmi (wd_mx w1)\<rparr>\<rparr>" "\<exists>b. lf_bearer_identifier confirm = Some b \<and> b \<noteq> 0"
            "ctx1 = (mcar_chosen ctx w)\<lparr>mk_retry_count := m\<rparr>" by auto
          show ?thesis by (rule allocated [OF comm _ a _ _ e(1-3)]) (use chosen e(4,5) in simp_all)
        next
          case False
          with eff have e: "w1 = w" "ctx1 = mcar_chosen ctx w" by auto
          with st rest_eq chosen t False fallback_is_dead [OF ctx(1), of w now confirm] show ?thesis
            by (intro refused) auto
        qed
      qed
    qed
  qed
qed

section \<open>Activation\<close>

lemma setup_inv:
  assumes "cic_inv w" and "length (mk_session_id ctx) \<le> 63" and "length (rs_selected_link_id (mk_policy_resp ctx)) \<le> 63"
  shows "cic_inv (snd (mcar_setup_session env now i ctx w))"
proof -
  let ?link = "rs_selected_link_id (mk_policy_resp ctx)"
  let ?ip = "client_ip_of (mk_profile ctx) (wd_session w i)"
  let ?dest = "if mk_extracted_dest_ip ctx \<noteq> [] then Some (mk_extracted_dest_ip ctx) else None"
  define w1 where "w1 = ensure_link_registered env ?link w"
  define a where "a = magic_dataplane_add_client_route (ce_os env) now (Some ?ip) (Some (mk_session_id ctx)) (Some ?link) ?dest (mx_dp (wd_mx w1))"
  define w2 where "w2 = upd_dp (\<lambda>_. snd a) w1"
  define w3 where "w3 = (if fst a = 0 then upd_dp (\<lambda>d. snd (magic_dataplane_ipset_add_data (ce_os env) (Some ?ip) d)) w2 else w2)"
  define w4 where "w4 = add_tft_loop env now ?ip (mk_extracted_dest_ip ctx) (mk_session_id ctx) ?link (ground_tfts (mk_comm_params ctx)) w3"
  define t where "t = traffic_register_session (ce_tm env) now (Some (mk_session_id ctx)) (Some (mk_client_id ctx)) (Some ?ip) (wd_tm w4)"
  define w5 where "w5 = (if fst t \<noteq> 0 then upd_session i (\<lambda>s. s\<lparr>cs_conntrack_mark := fst t, cs_traffic_start_time := now\<rparr>) (w4\<lparr>wd_tm := snd t\<rparr>)
    else w4\<lparr>wd_tm := snd t\<rparr>)"
  note defs = w1_def a_def w2_def w3_def w4_def t_def w5_def
  have "cic_inv w1" unfolding w1_def by (rule ensure_link_inv [OF assms(1,3)])
  then have "cic_inv w2" unfolding w2_def a_def
    using assms(2) by (intro set_dp_inv add_route_inv cic_invD(5)) simp_all
  then have "cic_inv w3" unfolding w3_def by (simp add: upd_dp_inv)
  then have "cic_inv w4" unfolding w4_def by (rule add_tft_loop_inv)
  then have "cic_inv (w4\<lparr>wd_tm := snd t\<rparr>)" unfolding t_def by (intro set_tm_inv register_inv cic_invD(3))
  then have "cic_inv w5" unfolding w5_def by (auto intro: cic_intro)
  then have "cic_inv (w5\<lparr>wd_cdr := snd (cdr_create (ce_fs env) now (ce_uuid env) (Some (mk_session_id ctx)) (Some (mk_client_id ctx)) (Some ?link) (wd_cdr w5))\<rparr>)"
    by (intro set_cdr_inv create_cdr_inv cic_invD(2))
  moreover have "snd (mcar_setup_session env now i ctx w) =
      w5\<lparr>wd_cdr := snd (cdr_create (ce_fs env) now (ce_uuid env) (Some (mk_session_id ctx)) (Some (mk_client_id ctx)) (Some ?link) (wd_cdr w5))\<rparr>"
    unfolding defs mcar_setup_session_def Let_def case_prod_beta fst_conv snd_conv by simp
  ultimately show ?thesis by simp
qed

lemma activate_inv:
  assumes "cic_inv w" and "length (mk_session_id ctx) \<le> 63" and "length (rs_selected_link_id (mk_policy_resp ctx)) \<le> 63"
  shows "cic_inv (snd (mcar_activate env now ctx w))"
proof (cases "mk_session ctx")
  case None
  then show ?thesis using assms(1) by (simp add: mcar_activate_def)
next
  case (Some i)
  define w1 where "w1 = upd_session i (\<lambda>s. snd (magic_session_assign_link now (Some (rs_selected_link_id (mk_policy_resp ctx)))
      (case lf_bearer_identifier (mk_mih_confirm ctx) of None \<Rightarrow> 0 | Some b \<Rightarrow> b)
      (rs_granted_bw_kbps (mk_policy_resp ctx)) (rs_granted_ret_bw_kbps (mk_policy_resp ctx)) s)) w"
  define w2 where "w2 = (if mk_has_req_status_info ctx
      then upd_session i (\<lambda>s. snd (magic_session_set_subscription (mk_granted_status_info ctx) s)) w1 else w1)"
  have "cic_inv w2" unfolding w2_def w1_def using assms(1) by (auto intro!: cic_intro)
  from setup_inv [OF this assms(2,3)] Some show ?thesis
    unfolding mcar_activate_def Let_def w2_def w1_def by (simp add: case_prod_beta)
qed

lemma step4_inv:
  assumes inv: "cic_inv w" and sid: "length (mk_session_id ctx) \<le> 63"
    and ctx: "length (mk_tried_links ctx) = MCAR_FALLBACK_MAX_LINKS" "\<not> mk_resource_allocated ctx"
  shows "cic_inv (snd (mcar_step4_allocation env now ctx w))"
proof -
  obtain ctx' w' where st: "mcar_step4_allocation env now ctx w = (ctx', w')" by force
  show ?thesis
  proof (rule step4_cases [OF cic_invD(1) [OF inv] ctx st])
    assume "w' = w"
    then show ?thesis using st inv by simp
  next
    fix ctx2 w2
    assume a: "(ctx', w') = mcar_activate env now ctx2 w2" "mcar_frame ctx2 = mcar_frame ctx"
      "mk_policy_resp ctx2 = snd (mcar_choice ctx w)" "ctx_inv (wd_mx w2)" "w2 = w\<lparr>wd_mx := (wd_mx w)\<lparr>mx_lmi := mx_lmi (wd_mx w2)\<rparr>\<rparr>"
    have "cic_inv (w\<lparr>wd_mx := wd_mx w2\<rparr>)" by (rule set_mx_inv [OF inv a(4)])
    moreover have "w\<lparr>wd_mx := wd_mx w2\<rparr> = w2" by (subst (2) a(5)) (metis a(5) cic_world.select_convs(1) cic_world.surjective cic_world.update_convs(1))
    ultimately have "cic_inv w2" by simp
    moreover have "length (mk_session_id ctx2) \<le> 63" using a(2) sid by (simp add: mcar_frame_def)
    moreover have "length (rs_selected_link_id (mk_policy_resp ctx2)) \<le> 63" unfolding a(3) mcar_choice_def by (rule selected_link_length)
    ultimately have "cic_inv (snd (mcar_activate env now ctx2 w2))" by (rule activate_inv)
    then show ?thesis by (simp only: st a(1) [symmetric])
  qed
qed


section \<open>The steps together\<close>

lemmas ctx_case_distribs =
  option.case_distrib [of mk_client_id] option.case_distrib [of mk_session_id] option.case_distrib [of mk_tried_links]
  option.case_distrib [of mk_resource_allocated] option.case_distrib [of mk_session] option.case_distrib [of mk_auth_success]
  option.case_distrib [of mk_username] option.case_distrib [of mk_password]

lemma option_case_const: "(case x of None \<Rightarrow> a | Some _ \<Rightarrow> a) = a"
  by (simp split: option.split)

lemma read_credentials_keeps:
  "mk_client_id (read_credentials cred ctx) = mk_client_id ctx" "mk_session_id (read_credentials cred ctx) = mk_session_id ctx"
  "mk_tried_links (read_credentials cred ctx) = mk_tried_links ctx"
  "mk_resource_allocated (read_credentials cred ctx) = mk_resource_allocated ctx"
  "mk_session (read_credentials cred ctx) = mk_session ctx" "mk_auth_success (read_credentials cred ctx) = mk_auth_success ctx"
  by (simp_all add: read_credentials_def Let_def ctx_case_distribs option_case_const cong: option.case_cong)

lemma step1_ctx:
  "mk_client_id (fst (snd (mcar_step1_validation env now qry initial_mcar w))) =
     (if search_avp qry ''Session-Id'' = None then [] else read_octets qry ''Origin-Host'' 64 [])"
  "mk_session_id (fst (snd (mcar_step1_validation env now qry initial_mcar w))) = read_octets qry ''Session-Id'' 128 []"
  "mk_tried_links (fst (snd (mcar_step1_validation env now qry initial_mcar w))) = replicate MCAR_FALLBACK_MAX_LINKS []"
  "mk_resource_allocated (fst (snd (mcar_step1_validation env now qry initial_mcar w))) = False"
  "mk_session (fst (snd (mcar_step1_validation env now qry initial_mcar w))) = None"
  "mk_auth_success (fst (snd (mcar_step1_validation env now qry initial_mcar w))) = False"
  by (simp_all add: mcar_step1_validation_def initial_mcar_def mcar_error_def Let_def ctx_case_distribs read_credentials_keeps
      option_case_const cong: option.case_cong)
    (simp_all add: read_octets_def)

lemma step1_facts:
  assumes "mcar_step1_validation env now qry initial_mcar w = (go, ctx, w1)"
  shows "length (mk_client_id ctx) \<le> 63" "length (mk_tried_links ctx) = MCAR_FALLBACK_MAX_LINKS" "\<not> mk_resource_allocated ctx"
    "mk_session ctx = None" "\<not> mk_auth_success ctx" "mk_session_id ctx = read_octets qry ''Session-Id'' 128 []"
  using step1_ctx [of env now qry w] read_octets_length [of "[]" 64 qry "''Origin-Host''"] by (simp_all add: assms)

lemma step1_world:
  assumes "mcar_step1_validation env now qry ctx w = (go, ctx', w1)"
  shows "slots w1 = slots w" "wd_lmi w1 = wd_lmi w" "wd_config w1 = wd_config w" "wd_answers w1 = wd_answers w"
    "go = (search_avp qry ''Session-Id'' \<noteq> None)"
  using assms by (auto simp: mcar_step1_validation_def Let_def cic_frame split: if_splits)

lemma step3_facts [simp]:
  "slots (snd (mcar_step3_subscription env ctx w)) = slots w"
  "wd_lmi (snd (mcar_step3_subscription env ctx w)) = wd_lmi w"
  "wd_config (snd (mcar_step3_subscription env ctx w)) = wd_config w"
  "wd_answers (snd (mcar_step3_subscription env ctx w)) = wd_answers w"
  unfolding mcar_step3_subscription_def Let_def case_prod_beta
  by (auto split: option.split simp: cic_frame gentle_rules)
    (metis slots_gentle gentle_set_subscription slots_def upd_session_frame(3))

lemma step3_ctx [simp]:
  "mk_session (fst (mcar_step3_subscription env ctx w)) = mk_session ctx"
  "mk_session_id (fst (mcar_step3_subscription env ctx w)) = mk_session_id ctx"
  "mk_tried_links (fst (mcar_step3_subscription env ctx w)) = mk_tried_links ctx"
  "mk_resource_allocated (fst (mcar_step3_subscription env ctx w)) = mk_resource_allocated ctx"
  "mk_auth_success (fst (mcar_step3_subscription env ctx w)) = mk_auth_success ctx"
  by (auto simp: mcar_step3_subscription_def Let_def case_prod_beta split: option.split)

lemma step3b_ctx [simp]:
  "mk_session (snd (mcar_step3b_session_conditions ctx w)) = mk_session ctx"
  "mk_session_id (snd (mcar_step3b_session_conditions ctx w)) = mk_session_id ctx"
  "mk_tried_links (snd (mcar_step3b_session_conditions ctx w)) = mk_tried_links ctx"
  "mk_resource_allocated (snd (mcar_step3b_session_conditions ctx w)) = mk_resource_allocated ctx"
  "mk_auth_success (snd (mcar_step3b_session_conditions ctx w)) = mk_auth_success ctx"
  by (auto simp: mcar_step3b_session_conditions_def mcar_error_def Let_def)

lemma step2_ctx:
  assumes "mcar_step2_auth env now ctx w = (go, ctx', w')"
  shows "mk_session_id ctx' = mk_session_id ctx" "mk_tried_links ctx' = mk_tried_links ctx"
    "mk_resource_allocated ctx' = mk_resource_allocated ctx" "wd_answers w' = wd_answers w"
    "wd_lmi w' = wd_lmi w" "wd_config w' = wd_config w" "go \<Longrightarrow> mk_auth_success ctx'"
  using assms by (auto simp: mcar_step2_auth_def mcar_error_def Let_def case_prod_beta cic_frame upd_sm_def
      split: option.splits if_splits)

lemma process_inv:
  assumes inv: "cic_inv w" and sid: "length (read_octets qry ''Session-Id'' 128 []) \<le> 63"
  shows "cic_inv (snd (mcar_process env now qry w))"
proof -
  obtain go1 ctx1 w1 where s1: "mcar_step1_validation env now qry initial_mcar w = (go1, ctx1, w1)"
    by (cases "mcar_step1_validation env now qry initial_mcar w")
  obtain go2 ctx2 w2 where s2: "mcar_step2_auth env now ctx1 w1 = (go2, ctx2, w2)"
    by (cases "mcar_step2_auth env now ctx1 w1")
  note f1 = step1_facts [OF s1] step1_world [OF s1] and f2 = step2_ctx [OF s2]
  have i1: "cic_inv w1" using step1_inv [OF inv, of env now qry initial_mcar] s1 by simp
  have i2: "cic_inv w2" using step2_inv [OF i1 f1(1), of env now] s2 by simp
  note i3 = step3_inv [OF i2, of env ctx2]
  let ?c3 = "snd (mcar_step3b_session_conditions (fst (mcar_step3_subscription env ctx2 w2)) (snd (mcar_step3_subscription env ctx2 w2)))"
  have "cic_inv (snd (mcar_step4_allocation env now ?c3 (snd (mcar_step3_subscription env ctx2 w2))))"
    by (rule step4_inv [OF i3]) (simp_all add: f1 f2 sid)
  then show ?thesis using s1 s2 i1 i2 i3 by (simp add: mcar_process_def Let_def case_prod_beta)
qed

lemma finalize_inv: "cic_inv w \<Longrightarrow> cic_inv (snd (mcar_step5_finalize env qry ctx w))"
  by (auto simp: mcar_step5_finalize_def Let_def case_prod_beta intro: cic_intro)


section \<open>Who gets a session\<close>

lemma setup_frame [cic_frame]:
  "slots (snd (mcar_setup_session env now i ctx w)) = slots w"
  "wd_lmi (snd (mcar_setup_session env now i ctx w)) = wd_lmi w"
  "wd_answers (snd (mcar_setup_session env now i ctx w)) = wd_answers w"
  by (simp_all add: mcar_setup_session_def Let_def case_prod_beta cic_frame gentle_rules)

lemma setup_session_at [cic_frame]:
  "cs_state (wd_session (snd (mcar_setup_session env now i ctx w)) j) = cs_state (wd_session w j)"
  "cs_assigned_link_id (wd_session (snd (mcar_setup_session env now i ctx w)) j) = cs_assigned_link_id (wd_session w j)"
  "cs_bearer_id (wd_session (snd (mcar_setup_session env now i ctx w)) j) = cs_bearer_id (wd_session w j)"
  "cs_granted_bw_kbps (wd_session (snd (mcar_setup_session env now i ctx w)) j) = cs_granted_bw_kbps (wd_session w j)"
  by (simp_all add: mcar_setup_session_def Let_def case_prod_beta cic_frame)

lemma activate_frame [cic_frame]:
  "slots (snd (mcar_activate env now ctx w)) = slots w"
  "wd_lmi (snd (mcar_activate env now ctx w)) = wd_lmi w"
  "wd_answers (snd (mcar_activate env now ctx w)) = wd_answers w"
  by (simp_all add: mcar_activate_def Let_def case_prod_beta cic_frame gentle_rules split: option.split)

lemma step4_slots:
  assumes inv: "ctx_inv (wd_mx w)" and ctx: "length (mk_tried_links ctx) = MCAR_FALLBACK_MAX_LINKS" "\<not> mk_resource_allocated ctx"
  shows "slots (snd (mcar_step4_allocation env now ctx w)) = slots w"
proof -
  obtain ctx' w' where st: "mcar_step4_allocation env now ctx w = (ctx', w')" by force
  show ?thesis
  proof (rule step4_cases [OF inv ctx st])
    fix ctx2 w2
    assume "(ctx', w') = mcar_activate env now ctx2 w2" and eq: "w2 = w\<lparr>wd_mx := (wd_mx w)\<lparr>mx_lmi := mx_lmi (wd_mx w2)\<rparr>\<rparr>"
    then have "slots w' = slots w2" using activate_frame(1) [of env now ctx2 w2] by (metis snd_conv)
    also have "\<dots> = slots w" by (subst eq) (simp add: slots_def mx_sessions_def)
    finally show ?thesis using st by simp
  qed (use st in simp)
qed

definition take_first_free :: "bool list \<Rightarrow> bool list" where
  "take_first_free bs = (case find_idx Not bs of None \<Rightarrow> bs | Some i \<Rightarrow> bs[i := True])"

lemma find_idx_map: "find_idx P (map f xs) = find_idx (\<lambda>x. P (f x)) xs"
  by (induction xs) (simp_all split: option.split)

lemma step2_slots:
  assumes inv: "cic_inv w" and cid: "length (mk_client_id ctx) \<le> 63"
  shows "slots (snd (snd (mcar_step2_auth env now ctx w))) =
     (case mcar_profile (wd_config w) ctx of
        Some p \<Rightarrow> (if ca_username (cl_auth p) = mk_username ctx \<and> ca_client_password (cl_auth p) = mk_password ctx
                   then take_first_free (slots w) else slots w)
      | None \<Rightarrow> slots w)"
proof -
  obtain slot sm where c: "magic_session_create now (Some (mk_session_id ctx)) (Some (mk_client_id ctx))
      (Some (mk_client_realm ctx)) (mx_sm (wd_mx w)) = (slot, sm)" by force
  have "slots (upd_sm (\<lambda>_. sm) w) = take_first_free (slots w)"
    using cic_invD(4) [OF inv] cid c
    by (cases rule: create_cases)
      (simp_all add: slots_def upd_sm_def take_first_free_def find_idx_map mx_sessions_def map_update new_session_def)
  then show ?thesis using c by (simp add: mcar_step2_auth_def Let_def cic_frame split: option.split)
qed


text \<open>The credentials as the request carries them, and the account they are checked against.\<close>

definition given_user :: "davp list \<Rightarrow> string" where
  "given_user qry = (case search_avp qry ''Client-Credentials'' of None \<Rightarrow> [] | Some cred \<Rightarrow> mk_username (read_credentials cred initial_mcar))"

definition given_password :: "davp list \<Rightarrow> string" where
  "given_password qry = (case search_avp qry ''Client-Credentials'' of None \<Rightarrow> [] | Some cred \<Rightarrow> mk_password (read_credentials cred initial_mcar))"

definition account :: "MagicConfig \<Rightarrow> davp list \<Rightarrow> ClientProfile option" where
  "account cfg qry =
     (let by_host = find_profile cfg (read_octets qry ''Origin-Host'' 64 [])
      in if given_user qry = [] then by_host
         else case find_profile cfg (given_user qry) of Some p \<Rightarrow> Some p | None \<Rightarrow> by_host)"

definition accepted :: "MagicConfig \<Rightarrow> davp list \<Rightarrow> bool" where
  "accepted cfg qry \<longleftrightarrow> search_avp qry ''Session-Id'' \<noteq> None \<and>
     (case account cfg qry of None \<Rightarrow> False
      | Some p \<Rightarrow> ca_username (cl_auth p) = given_user qry \<and> ca_client_password (cl_auth p) = given_password qry)"

lemma read_credentials_gives:
  "mk_username ctx = [] \<Longrightarrow> mk_username (read_credentials cred ctx) = mk_username (read_credentials cred initial_mcar)"
  "mk_password ctx = [] \<Longrightarrow> mk_password (read_credentials cred ctx) = mk_password (read_credentials cred initial_mcar)"
  by (simp_all add: read_credentials_def Let_def initial_mcar_def split: option.split)

lemma step1_credentials:
  assumes "search_avp qry ''Session-Id'' \<noteq> None"
  shows "mk_username (fst (snd (mcar_step1_validation env now qry initial_mcar w))) = given_user qry"
    "mk_password (fst (snd (mcar_step1_validation env now qry initial_mcar w))) = given_password qry"
proof -
  define ctx0 where "ctx0 = initial_mcar\<lparr>mk_session_id := read_octets qry ''Session-Id'' 128 (mk_session_id initial_mcar),
                      mk_client_id := read_octets qry ''Origin-Host'' 64 (mk_client_id initial_mcar),
                      mk_client_realm := read_octets qry ''Origin-Realm'' 64 (mk_client_realm initial_mcar)\<rparr>"
  obtain d where sid: "search_avp qry ''Session-Id'' = Some d" using assms by blast
  have "mk_username ctx0 = []" "mk_password ctx0 = []" by (simp_all add: ctx0_def initial_mcar_def)
  then show "mk_username (fst (snd (mcar_step1_validation env now qry initial_mcar w))) = given_user qry"
    "mk_password (fst (snd (mcar_step1_validation env now qry initial_mcar w))) = given_password qry"
    using sid read_credentials_gives [of "ctx0\<lparr>mk_has_client_credentials := True\<rparr>"]
    unfolding mcar_step1_validation_def Let_def
    by (simp_all add: ctx0_def [symmetric] given_user_def given_password_def ctx_case_distribs option_case_const cong: option.case_cong)
qed

lemma process_slots:
  assumes inv: "cic_inv w"
  shows "slots (snd (mcar_process env now qry w)) = (if accepted (wd_config w) qry then take_first_free (slots w) else slots w)"
proof (cases "search_avp qry ''Session-Id'' = None")
  case True
  then show ?thesis by (simp add: mcar_process_def mcar_step1_validation_def accepted_def)
next
  case False
  obtain go1 ctx1 w1 where s1: "mcar_step1_validation env now qry initial_mcar w = (go1, ctx1, w1)"
    by (cases "mcar_step1_validation env now qry initial_mcar w")
  obtain go2 ctx2 w2 where s2: "mcar_step2_auth env now ctx1 w1 = (go2, ctx2, w2)"
    by (cases "mcar_step2_auth env now ctx1 w1")
  note f1 = step1_facts [OF s1] step1_world [OF s1] and f2 = step2_ctx [OF s2]
  have i1: "cic_inv w1" using step1_inv [OF inv, of env now qry initial_mcar] s1 by simp
  have i2: "cic_inv w2" using step2_inv [OF i1 f1(1), of env now] s2 by simp
  let ?w3 = "snd (mcar_step3_subscription env ctx2 w2)"
  let ?c3 = "snd (mcar_step3b_session_conditions (fst (mcar_step3_subscription env ctx2 w2)) ?w3)"
  have id: "mk_client_id ctx1 = read_octets qry ''Origin-Host'' 64 []"
    using step1_ctx(1) [of env now qry w] s1 False by simp
  have "mcar_profile (wd_config w1) ctx1 = account (wd_config w) qry"
    using step1_credentials [OF False, of env now w] s1
    by (simp add: mcar_profile_def account_def Let_def f1 id cong: option.case_cong)
  then have "slots w2 = (if accepted (wd_config w) qry then take_first_free (slots w) else slots w)"
    using step2_slots [OF i1 f1(1), of env now] step1_credentials [OF False, of env now w] s1 s2 False f1
    by (simp add: accepted_def split: option.splits)
  moreover have "slots (snd (mcar_step4_allocation env now ?c3 ?w3)) = slots w2"
    using step4_slots [OF cic_invD(1) [OF step3_inv [OF i2, of env ctx2]], of ?c3 env now] by (simp add: f1 f2)
  ultimately show ?thesis using s1 s2 False f1 by (simp add: mcar_process_def Let_def case_prod_beta)
qed

section \<open>What an allocation takes\<close>

lemma finalize_frame:
  "wd_mx (snd (mcar_step5_finalize env qry ctx w)) = wd_mx w"
  by (simp add: mcar_step5_finalize_def Let_def case_prod_beta)

lemma activate_session:
  assumes "mk_session ctx = Some i" and "i < length (wd_sessions w)"
  shows "let s = wd_session (snd (mcar_activate env now ctx w)) i in
      cs_state s = SESSION_STATE_ACTIVE
      \<and> cs_assigned_link_id s = strncpy_buf 63 (rs_selected_link_id (mk_policy_resp ctx))
      \<and> cs_bearer_id s = (case lf_bearer_identifier (mk_mih_confirm ctx) of None \<Rightarrow> 0 | Some b \<Rightarrow> b)
      \<and> cs_granted_bw_kbps s = rs_granted_bw_kbps (mk_policy_resp ctx)"
  using assms
  by (simp add: mcar_activate_def Let_def case_prod_beta cic_frame magic_session_assign_link_def magic_session_set_subscription_def)


lemma step2_session:
  assumes inv: "cic_inv w" and cid: "length (mk_client_id ctx) \<le> 63"
    and st: "mcar_step2_auth env now ctx w = (True, ctx', w')"
  shows "\<exists>i < length (wd_sessions w'). mk_session ctx' = Some i"
proof -
  obtain slot sm where c: "magic_session_create now (Some (mk_session_id ctx)) (Some (mk_client_id ctx))
      (Some (mk_client_realm ctx)) (mx_sm (wd_mx w)) = (slot, sm)" by force
  have len: "length (wd_sessions (open_session env now p c i x)) = length (wd_sessions x)" for p c i x
    using open_session_frame(3) [of env now p c i x] by (simp add: slots_def) (metis length_map)
  have "\<forall>i. slot = Some i \<longrightarrow> i < length (sm_sessions sm)"
    using cic_invD(4) [OF inv] cid c by (cases rule: create_cases) (auto dest: find_idx_less)
  then show ?thesis
    using st c len by (auto simp: mcar_step2_auth_def Let_def upd_sm_def mx_sessions_def split: option.splits if_splits)
qed

lemma step4_allocation:
  assumes inv: "ctx_inv (wd_mx w)" and ctx: "length (mk_tried_links ctx) = MCAR_FALLBACK_MAX_LINKS" "\<not> mk_resource_allocated ctx"
    and sess: "mk_session ctx = Some i" "i < length (wd_sessions w)"
    and st: "mcar_step4_allocation env now ctx w = (ctx', w')"
  shows "if mk_resource_allocated ctx'
         then total_bearers (wd_mx w') = total_bearers (wd_mx w) + 1 \<and> mk_session ctx' = Some i
              \<and> cs_state (wd_session w' i) = SESSION_STATE_ACTIVE \<and> cs_bearer_id (wd_session w' i) \<noteq> 0
              \<and> cs_assigned_link_id (wd_session w' i) = rs_selected_link_id (snd (mcar_choice ctx w))
         else w' = w"
proof (rule step4_cases [OF inv ctx st])
  fix ctx2 w2
  assume a: "(ctx', w') = mcar_activate env now ctx2 w2" and f: "mcar_frame ctx2 = mcar_frame ctx"
    and p: "mk_policy_resp ctx2 = snd (mcar_choice ctx w)" and b: "total_bearers (wd_mx w2) = total_bearers (wd_mx w) + 1"
    and eq: "w2 = w\<lparr>wd_mx := (wd_mx w)\<lparr>mx_lmi := mx_lmi (wd_mx w2)\<rparr>\<rparr>"
    and c: "\<exists>b. lf_bearer_identifier (mk_mih_confirm ctx2) = Some b \<and> b \<noteq> 0"
  have w': "w' = snd (mcar_activate env now ctx2 w2)" and c': "ctx' = fst (mcar_activate env now ctx2 w2)" using a by (metis snd_conv, metis fst_conv)
  have s2: "mk_session ctx2 = Some i" using f sess(1) by (simp add: mcar_frame_def)
  have len: "i < length (wd_sessions w2)" using sess(2) by (subst eq) (simp add: mx_sessions_def)
  have "total_bearers (wd_mx w') = total_bearers (wd_mx w2)" unfolding w' by (rule total_bearers_cong) (simp add: cic_frame)
  moreover have "mk_resource_allocated ctx'" "mk_session ctx' = mk_session ctx2"
    unfolding c' by (simp_all add: mcar_activate_def mcar_setup_session_def Let_def case_prod_beta split: option.split)
  moreover have "strncpy_buf 63 (rs_selected_link_id (mk_policy_resp ctx2)) = rs_selected_link_id (mk_policy_resp ctx2)"
    unfolding p mcar_choice_def by (rule strncpy_buf_id) (rule selected_link_length)
  ultimately show ?thesis
    using activate_session [OF s2 len, of env now, folded w'] b c s2 by (auto simp: Let_def p)
qed simp

text \<open>A request that is not accepted ends after the old session of its Session-Id was closed.\<close>

lemma rejected_process:
  assumes "\<not> accepted (wd_config w) qry" and sid: "search_avp qry ''Session-Id'' \<noteq> None"
  shows "snd (mcar_process env now qry w) = reset_old_session env now (read_octets qry ''Session-Id'' 128 []) w"
    and "\<not> mk_auth_success (fst (mcar_process env now qry w))"
proof -
  obtain go1 ctx1 w1 where s1: "mcar_step1_validation env now qry initial_mcar w = (go1, ctx1, w1)"
    by (cases "mcar_step1_validation env now qry initial_mcar w")
  note f1 = step1_facts [OF s1] step1_world [OF s1]
  have id: "mk_client_id ctx1 = read_octets qry ''Origin-Host'' 64 []"
    using step1_ctx(1) [of env now qry w] s1 sid by simp
  have w1: "w1 = reset_old_session env now (read_octets qry ''Session-Id'' 128 []) w"
    using s1 sid by (auto simp: mcar_step1_validation_def Let_def initial_mcar_def)
  have "mcar_profile (wd_config w1) ctx1 = account (wd_config w) qry"
    using step1_credentials [OF sid, of env now w] s1
    by (simp add: mcar_profile_def account_def Let_def f1 id cong: option.case_cong)
  then have "snd (snd (mcar_step2_auth env now ctx1 w1)) = w1 \<and> \<not> fst (mcar_step2_auth env now ctx1 w1)
      \<and> \<not> mk_auth_success (fst (snd (mcar_step2_auth env now ctx1 w1)))"
    using assms(1) sid step1_credentials [OF sid, of env now w] s1
    by (auto simp: mcar_step2_auth_def accepted_def Let_def split: option.splits)
  then show "snd (mcar_process env now qry w) = reset_old_session env now (read_octets qry ''Session-Id'' 128 []) w"
    "\<not> mk_auth_success (fst (mcar_process env now qry w))"
    using s1 w1 f1 sid by (auto simp: mcar_process_def Let_def case_prod_beta)
qed

lemma process_allocation:
  assumes inv: "cic_inv w" and pr: "mcar_process env now qry w = (ctx, w')"
  shows "if mk_resource_allocated ctx
         then total_bearers (wd_mx w') = total_bearers (wd_mx w) + 1 \<and>
              (\<exists>i. mk_session ctx = Some i \<and> cs_state (wd_session w' i) = SESSION_STATE_ACTIVE \<and> cs_bearer_id (wd_session w' i) \<noteq> 0)
         else wd_lmi w' = wd_lmi w"
proof -
  obtain go1 ctx1 w1 where s1: "mcar_step1_validation env now qry initial_mcar w = (go1, ctx1, w1)"
    by (cases "mcar_step1_validation env now qry initial_mcar w")
  obtain go2 ctx2 w2 where s2: "mcar_step2_auth env now ctx1 w1 = (go2, ctx2, w2)"
    by (cases "mcar_step2_auth env now ctx1 w1")
  note f1 = step1_facts [OF s1] step1_world [OF s1] and f2 = step2_ctx [OF s2]
  have i1: "cic_inv w1" using step1_inv [OF inv, of env now qry initial_mcar] s1 by simp
  have i2: "cic_inv w2" using step2_inv [OF i1 f1(1), of env now] s2 by simp
  define w3 where "w3 = snd (mcar_step3_subscription env ctx2 w2)"
  define r3 where "r3 = mcar_step3b_session_conditions (fst (mcar_step3_subscription env ctx2 w2)) w3"
  have w3: "slots w3 = slots w2" "wd_lmi w3 = wd_lmi w" by (simp_all add: w3_def f1 f2)
  have r3: "length (mk_tried_links (snd r3)) = MCAR_FALLBACK_MAX_LINKS" "\<not> mk_resource_allocated (snd r3)"
    "mk_session (snd r3) = mk_session ctx2" by (simp_all add: r3_def f1 f2)
  have "(ctx, w') = (if \<not> go1 then (ctx1, w1) else if \<not> go2 then (ctx2, w2) else if \<not> fst r3 then (snd r3, w3)
      else mcar_step4_allocation env now (snd r3) w3)"
    unfolding pr [symmetric] by (simp add: mcar_process_def Let_def case_prod_beta r3_def w3_def s1 s2)
  then consider "ctx = ctx1" "w' = w1" | "ctx = ctx2" "w' = w2" | "ctx = snd r3" "w' = w3"
    | (four) "go2" "mcar_step4_allocation env now (snd r3) w3 = (ctx, w')"
    by (metis prod.inject)
  then show ?thesis
  proof cases
    case four
    obtain i where i: "mk_session ctx2 = Some i" "i < length (wd_sessions w2)"
      using step2_session [OF i1 f1(1), of env now ctx2 w2] s2 four(1) by auto
    have "length (wd_sessions w3) = length (wd_sessions w2)" using w3(1) by (metis slots_def length_map)
    then show ?thesis
      using step4_allocation [OF cic_invD(1) [OF step3_inv [OF i2, of env ctx2]], of "snd r3" i env now ctx w', folded w3_def]
        r3 i four(2) total_bearers_cong [of "wd_mx w3" "wd_mx w"] w3(2) by (auto split: if_splits)
  qed (use f1 f2 r3 w3 in auto)
qed

section \<open>Properties\<close>

text \<open>
  The authentication handler keeps the invariant of the server (session table, data plane, link
  managers, charging records, traffic monitor), whatever the message says and whatever the system calls
  return, provided the Session-Id fits the 64-byte keys of the data plane.
\<close>

lemma mcar_keeps_server_inv:
  assumes "cic_inv w" and "length (read_octets qry ''Session-Id'' 128 []) \<le> 63"
  shows "cic_inv (snd (cic_handle_mcar env now qry w))"
  using process_inv [OF assms] by (simp add: cic_handle_mcar_def case_prod_beta finalize_inv)

text \<open>
  C26. Exactly the requests that carry a Session-Id and the user name and password of the account they
  are checked against occupy a session slot: the first free one, if there is one. No other slot is
  taken or given back.
\<close>

theorem session_iff_credentials:
  assumes "cic_inv w"
  shows "slots (snd (cic_handle_mcar env now qry w)) =
    (if accepted (wd_config w) qry then take_first_free (slots w) else slots w)"
proof -
  have "slots (snd (mcar_step5_finalize env qry ctx v)) = slots v" for ctx v
    by (simp add: slots_def finalize_frame)
  then show ?thesis using process_slots [OF assms] by (simp add: cic_handle_mcar_def case_prod_beta)
qed



text \<open>
  The fallback to other links never finds one: when step 4 allocates, it is on the link the policy
  engine named first, since the engine does not look at the links the request excludes.
\<close>

lemma fallback_never_allocates:
  assumes "cic_inv w" and "mk_session ctx = Some i" and "i < length (wd_sessions w)"
    and "length (mk_tried_links ctx) = MCAR_FALLBACK_MAX_LINKS" and "\<not> mk_resource_allocated ctx"
  shows "let (ctx', w') = mcar_step4_allocation env now ctx w in
    if mk_resource_allocated ctx' then cs_assigned_link_id (wd_session w' i) = rs_selected_link_id (snd (mcar_choice ctx w))
    else w' = w"
  using step4_allocation [OF cic_invD(1) [OF assms(1)] assms(4,5,2,3), of env now] by (auto simp: Let_def split: if_splits)

text \<open>
  The old session of a Session-Id is closed before the credentials are looked at: a request that
  is rejected, from whatever peer, closes the session whose identifier it repeats.
\<close>

lemma rejected_request_closes_session:
  assumes "search_avp qry ''Session-Id'' \<noteq> None" and "\<not> accepted (wd_config w) qry"
    and "magic_session_find_by_id (mx_sm (wd_mx w)) (Some (read_octets qry ''Session-Id'' 128 [])) = Some i"
  shows "cs_state (wd_session (snd (cic_handle_mcar env now qry w)) i) = SESSION_STATE_CLOSED"
proof -
  have i: "i < length (wd_sessions w)"
    using assms(3) by (auto simp: magic_session_find_by_id_def mx_sessions_def dest: find_idx_less)
  have "wd_session (snd (mcar_step5_finalize env qry c v)) i = wd_session v i" for c v
    by (simp add: wd_session_def finalize_frame)
  then have "wd_session (snd (cic_handle_mcar env now qry w)) i
      = wd_session (reset_old_session env now (read_octets qry ''Session-Id'' 128 []) w) i"
    using rejected_process(1) [OF assms(2,1), of env now] by (simp add: cic_handle_mcar_def case_prod_beta)
  then show ?thesis using assms(3) i by (simp add: reset_old_session_def Let_def cic_frame magic_session_set_state_def)
qed

text \<open>
  The policy engine is asked about the Origin-Host even when the account was found by the user name:
  a client whose host is not itself a configured client is authenticated and never gets a link.
\<close>

lemma unlisted_host_gets_no_link:
  assumes "find_profile (wd_config w) (mk_client_id ctx) = None" and "length (mk_client_id ctx) \<le> 63" and "\<not> mk_resource_allocated ctx"
  shows "snd (mcar_step4_allocation env now ctx w) = w \<and> \<not> mk_resource_allocated (fst (mcar_step4_allocation env now ctx w))"
proof -
  let ?ctx = "ctx\<lparr>mk_resource_allocated := False, mk_route_added := False, mk_retry_count := 0, mk_tried_link_count := 0,
       mk_extracted_dest_ip := [], mk_comm_params := comm_req_params_fill_from_profile (mk_profile ctx) (mk_comm_params ctx)\<rparr>"
  have "rq_client_id (mcar_policy_request (mcar_prepared ctx) w) = mk_client_id ctx"
    using assms(2) prepared_facts(1) [of ctx] by (simp add: mcar_policy_request_def Let_def mcar_frame_def split: option.split)
  then have "fst (mcar_choice ctx w) \<noteq> 0"
    using assms(1) by (simp add: mcar_choice_def magic_policy_select_path_def policy_ctx_def refuse_def find_profile_def)
  then show ?thesis
  proof (cases "mk_has_comm_req_params ctx \<and> fst (mcar_validate_tft_napt_whitelist ?ctx) = 0")
    case True
    then show ?thesis using step4_unfold [of ctx env now w] \<open>fst (mcar_choice ctx w) \<noteq> 0\<close> by simp
  next
    case False
    have "\<not> mk_resource_allocated (snd (mcar_validate_tft_napt_whitelist ?ctx))"
      by (simp add: mcar_validate_tft_napt_whitelist_def Let_def split: option.split)
    then show ?thesis using False assms(3) by (auto simp: mcar_step4_allocation_def Let_def case_prod_beta)
  qed
qed

section \<open>Witnesses\<close>

definition demo_account :: ClientProfile where
  "demo_account = zero_profile\<lparr>cl_client_id := ''efb'', cl_enabled := True,
     cl_auth := \<lparr>ca_username = ''efb'', ca_client_password = ''pw'', ca_server_password = [], ca_source_ip = []\<rparr>\<rparr>"

definition demo_world :: cic_world where
  "demo_world = \<lparr>wd_mx = demo_links\<lparr>mx_config := magic_config_init\<lparr>mc_clients := demo_account # replicate 49 zero_profile,
        mc_num_clients := 1\<rparr>\<rparr>,
     wd_cdr = demo_cdrs, wd_tm = demo_tm,
     wd_adif = snd (adif_client_init \<lparr>ae_listen_fd = 5, ae_bind = 0, ae_listen = 0, ae_server_fd = 6, ae_hostbyname = (\<lambda>_. None),
        ae_connect = (\<lambda>_ _. -1), ae_send = (\<lambda>_. -1), ae_recv = None, ae_mutex_init = 0, ae_thread_create = 0\<rparr> None),
     wd_rate = replicate MSXR_RATE_LIMIT_ENTRIES zero_rate_entry, wd_queue = zero_queue, wd_answers = []\<rparr>"

definition demo_cic_env :: cic_env where
  "demo_cic_env = \<lparr>ce_os = demo_os, ce_dia = demo_dia, ce_tm = demo_tm_env, ce_ct = demo_ct, ce_fs = demo_fs, ce_uuid = ''u-9'',
     ce_diamid = ''magic.air'', ce_diamrlm = ''air'', ce_new_answer = True, ce_add = (\<lambda>_. True), ce_group = True, ce_ok = (\<lambda>_ _. True), ce_send = True, ce_junk = 0\<rparr>"

definition demo_mcar :: "string \<Rightarrow> davp list" where
  "demo_mcar pw = [DAvp (Some ''Session-Id'') (AvOctets ''s1''), DAvp (Some ''Origin-Host'') (AvOctets ''efb.air''),
     DAvp (Some ''Client-Credentials'') (AvGroup [DAvp (Some ''User-Name'') (AvOctets ''efb''), DAvp (Some ''Client-Password'') (AvOctets pw)])]"


lemma demo_world_inv: "cic_inv demo_world"
proof -
  have z: "client_wf zero_profile" using init_wf by (simp add: config_wf_def magic_config_init_def table_wf_def list_all_iff)
  then have "client_wf demo_account" by (simp add: demo_account_def client_wf_def auth_wf_def text_wf_def)
  then have "config_wf (mx_config (wd_mx demo_world))"
    using init_wf z by (simp add: demo_world_def config_wf_def magic_config_init_def table_wf_def list_all_iff)
  moreover have "ctx_inv (demo_links\<lparr>mx_config := c\<rparr>) = config_wf c" for c using demo_links_inv by (simp add: ctx_inv_def)
  ultimately show ?thesis using demo_cdrs_facts(1) demo_tm_facts(1) zero_queue_inv by (simp add: cic_inv_def demo_world_def)
qed

lemma demo_octets: "read_octets (demo_mcar pw) ''Session-Id'' 128 [] = ''s1''" "read_octets (demo_mcar pw) ''Origin-Host'' 64 [] = ''efb.air''"
  by (simp_all add: read_octets_def search_avp_def demo_mcar_def copy_octets_def)

lemma demo_credentials: "given_user (demo_mcar pw) = ''efb''" "given_password (demo_mcar pw) = copy_octets 64 pw"
  by (simp_all add: given_user_def given_password_def demo_mcar_def search_avp_def read_credentials_def Let_def copy_octets_def
      extract_string_from_grouped_avp_def)

lemma demo_account_found: "account (wd_config demo_world) (demo_mcar pw) = Some demo_account"
  by (simp add: account_def demo_credentials find_profile_def magic_config_find_client_def demo_world_def used_part_def demo_account_def)

lemma demo_accepted: "accepted (wd_config demo_world) (demo_mcar ''pw'')" "\<not> accepted (wd_config demo_world) (demo_mcar ''no'')"
  by (simp_all add: accepted_def demo_account_found demo_credentials copy_octets_def)
    (simp_all add: demo_account_def demo_mcar_def search_avp_def)

lemma mcar_keeps_server_inv_witness:
  "cic_inv (snd (cic_handle_mcar demo_cic_env 50 (demo_mcar ''pw'') demo_world))"
  by (rule mcar_keeps_server_inv [OF demo_world_inv]) (simp add: demo_octets)


theorem session_iff_credentials_witness:
  "slots (snd (cic_handle_mcar demo_cic_env 50 (demo_mcar ''pw'') demo_world)) = take_first_free (slots demo_world) \<and>
   slots (snd (cic_handle_mcar demo_cic_env 50 (demo_mcar ''no'') demo_world)) = slots demo_world"
  using session_iff_credentials [OF demo_world_inv, of demo_cic_env 50 "demo_mcar ''pw''"]
    session_iff_credentials [OF demo_world_inv, of demo_cic_env 50 "demo_mcar ''no''"] demo_accepted by simp


lemma demo_sessions: "length (wd_sessions demo_world) = MAX_SESSIONS" "wd_session demo_world 0 = demo_session"
  using demo_context_facts by (simp_all add: demo_world_def demo_links_def mx_sessions_def wd_session_def)

definition demo_stage :: McarProcessContext where
  "demo_stage = initial_mcar\<lparr>mk_session_id := ''s1'', mk_client_id := ''efb.air'', mk_session := Some 0,
     mk_profile := Some demo_account, mk_auth_success := True, mk_has_comm_req_params := True\<rparr>"

lemma fallback_never_allocates_witness:
  "let (ctx', w') = mcar_step4_allocation demo_cic_env 50 demo_stage demo_world in
    if mk_resource_allocated ctx' then cs_assigned_link_id (wd_session w' 0) = rs_selected_link_id (snd (mcar_choice demo_stage demo_world))
    else w' = demo_world"
  by (rule fallback_never_allocates [OF demo_world_inv]) (simp_all add: demo_sessions, simp_all add: demo_stage_def initial_mcar_def)

lemma rejected_request_closes_session_witness:
  "cs_state (wd_session (snd (cic_handle_mcar demo_cic_env 50 (demo_mcar ''no'') demo_world)) 0) = SESSION_STATE_CLOSED"
proof (rule rejected_request_closes_session)
  show "search_avp (demo_mcar ''no'') ''Session-Id'' \<noteq> None" by (simp add: demo_mcar_def search_avp_def)
  show "\<not> accepted (wd_config demo_world) (demo_mcar ''no'')" by (rule demo_accepted(2))
  have "cs_in_use (wd_session demo_world 0) \<and> cs_session_id (wd_session demo_world 0) = ''s1''"
    by (simp add: demo_sessions demo_session_def)
  then show "magic_session_find_by_id (mx_sm (wd_mx demo_world)) (Some (read_octets (demo_mcar ''no'') ''Session-Id'' 128 [])) = Some 0"
    using demo_sessions(1) by (simp add: magic_session_find_by_id_def demo_octets find_idx_Some_iff wd_session_def mx_sessions_def)
qed

lemma unlisted_host_gets_no_link_witness:
  "snd (mcar_step4_allocation demo_cic_env 50 demo_stage demo_world) = demo_world \<and>
   \<not> mk_resource_allocated (fst (mcar_step4_allocation demo_cic_env 50 demo_stage demo_world))"
  by (rule unlisted_host_gets_no_link)
    (simp_all add: demo_stage_def initial_mcar_def find_profile_def magic_config_find_client_def demo_world_def used_part_def demo_account_def)

end
