(* ===== verification/Cic_Mccr_Props.thy ===== *)
theory Cic_Mccr_Props
  imports Cic_Mccr Cic_Mcar_Props
begin

text \<open>
  Properties of the communication change request: the server invariant, the bearers it takes and never
  returns, the answer to a refused request, and the authentication it does not ask for.
\<close>

section \<open>Link resources\<close>

lemma view_simps [simp]:
  "mk_session_id (mcar_view ctx) = mv_session_id ctx" "mk_client_id (mcar_view ctx) = mv_client_id ctx"
  "mk_policy_resp (mcar_view ctx) = mv_policy_resp ctx" "mk_retry_count (mcar_view ctx) = mv_retry_count ctx"
  by (simp_all add: mcar_view_def)

lemma mccr_try_effect:
  assumes "ctx_inv (wd_mx w)" and "mccr_try_link_with_retry now lid prs ctx confirm w = (r, ctx', confirm', w')"
  shows "(r = 0 \<and> total_bearers (wd_mx w') = total_bearers (wd_mx w) + 1
            \<and> (\<exists>b. lf_bearer_identifier confirm' = Some b \<and> b \<noteq> 0)
            \<and> (\<exists>m. ctx' = ctx\<lparr>mv_retry_count := m\<rparr>) \<and> ctx_inv (wd_mx w')
            \<and> w' = w\<lparr>wd_mx := (wd_mx w)\<lparr>mx_lmi := mx_lmi (wd_mx w')\<rparr>\<rparr>)
         \<or> (r = -1 \<and> w' = w \<and> ctx' = ctx)"
proof -
  obtain q c f v where l: "mcar_retry_loop now MCCR_RETRY_MAX_COUNT 0 lid prs (mcar_view ctx) confirm w = (q, c, f, v)"
    by (cases "mcar_retry_loop now MCCR_RETRY_MAX_COUNT 0 lid prs (mcar_view ctx) confirm w")
  have "r = q" "ctx' = ctx\<lparr>mv_retry_count := mk_retry_count c\<rparr>" "confirm' = f" "w' = v"
    using assms(2) l by (simp_all add: mccr_try_link_with_retry_def)
  then show ?thesis using retry_loop_effect [OF assms(1) l] by auto
qed

definition mccr_frame :: "MccxProcessContext \<Rightarrow> (string \<times> string \<times> string \<times> nat option) \<times> MccxIntentType \<times> bool \<times> CommReqParams" where
  "mccr_frame ctx = ((mv_session_id ctx, mv_client_id ctx, mv_client_realm ctx, mv_existing_session ctx),
     mv_intent ctx, mv_resource_allocated ctx, mv_comm_params ctx)"

lemma mccr_frame_updates [simp]:
  "mccr_frame (ctx\<lparr>mv_policy_resp := b\<rparr>) = mccr_frame ctx" "mccr_frame (ctx\<lparr>mv_mih_confirm := c\<rparr>) = mccr_frame ctx"
  "mccr_frame (ctx\<lparr>mv_retry_count := d\<rparr>) = mccr_frame ctx" "mccr_frame (mccr_mark_link_tried lid ctx) = mccr_frame ctx"
  by (simp_all add: mccr_frame_def mccr_mark_link_tried_def)

lemma mccr_fallback_effect:
  assumes "ctx_inv (wd_mx w)" and "mccr_fallback_loop now n req ctx w = (r, ctx', w')"
  shows "(r = 0 \<and> total_bearers (wd_mx w') = total_bearers (wd_mx w) + 1
            \<and> (\<exists>b. lf_bearer_identifier (mv_mih_confirm ctx') = Some b \<and> b \<noteq> 0)
            \<and> length (rs_selected_link_id (mv_policy_resp ctx')) \<le> 63
            \<and> mccr_frame ctx' = mccr_frame ctx \<and> ctx_inv (wd_mx w')
            \<and> w' = w\<lparr>wd_mx := (wd_mx w)\<lparr>mx_lmi := mx_lmi (wd_mx w')\<rparr>\<rparr>)
         \<or> (r = -1 \<and> w' = w \<and> mccr_frame ctx' = mccr_frame ctx)"
  using assms(2)
proof (induction n arbitrary: req ctx)
  case (Suc n)
  let ?req = "req\<lparr>rq_exclude_link_count := int (mv_tried_link_count ctx),
                  rq_exclude_links := take (min (mv_tried_link_count ctx) 4) (mv_tried_links ctx)\<rparr>"
  define prs where "prs = snd (magic_policy_select_path (policy_ctx w) ?req)"
  define lid where "lid = rs_selected_link_id prs"
  obtain q c1 f1 w1 where t: "mccr_try_link_with_retry now lid prs (mccr_mark_link_tried lid ctx) (blank_confirm STATUS_SUCCESS) w = (q, c1, f1, w1)"
    by (cases "mccr_try_link_with_retry now lid prs (mccr_mark_link_tried lid ctx) (blank_confirm STATUS_SUCCESS) w")
  have len: "length lid \<le> 63" unfolding lid_def prs_def by (rule selected_link_length)
  have "(r, ctx', w') = (if fst (magic_policy_select_path (policy_ctx w) ?req) \<noteq> 0 \<or> \<not> rs_success prs then (-1, ctx, w)
      else if mccr_link_already_tried ctx lid then mccr_fallback_loop now n ?req ctx w
      else if q = 0 then (0, c1\<lparr>mv_policy_resp := prs, mv_mih_confirm := f1\<rparr>, w1) else mccr_fallback_loop now n ?req c1 w1)"
    unfolding Suc.prems [symmetric] using t by (simp add: Let_def case_prod_beta prs_def [symmetric] lid_def [symmetric])
  then consider (ended) "r = -1" "ctx' = ctx" "w' = w" | (again) "mccr_fallback_loop now n ?req ctx w = (r, ctx', w')"
    | (found) "q = 0" "r = 0" "ctx' = c1\<lparr>mv_policy_resp := prs, mv_mih_confirm := f1\<rparr>" "w' = w1"
    | (next_link) "q \<noteq> 0" "mccr_fallback_loop now n ?req c1 w1 = (r, ctx', w')"
    by (auto split: if_splits)
  then show ?case
  proof cases
    case again
    then show ?thesis by (rule Suc.IH)
  next
    case found
    then show ?thesis using mccr_try_effect [OF assms(1) t] len by (auto simp: lid_def)
  next
    case next_link
    then have "w1 = w" "c1 = mccr_mark_link_tried lid ctx" using mccr_try_effect [OF assms(1) t] by auto
    with next_link(2) have "mccr_fallback_loop now n ?req (mccr_mark_link_tried lid ctx) w = (r, ctx', w')" by simp
    from Suc.IH [OF this] show ?thesis by simp
  qed simp
qed simp


section \<open>Releasing\<close>

definition no_unnamed_link :: "cic_world \<Rightarrow> bool" where
  "no_unnamed_link w \<longleftrightarrow> magic_config_find_datalink (wd_config w) (Some []) = None"

text \<open>The link identifier of the release request is empty, so no link is found and nothing is released.\<close>

lemma release_is_void:
  "no_unnamed_link w \<Longrightarrow> magic_dlm_mih_link_resource_request now (release_request s) (wd_mx w) = (-1, blank_confirm STATUS_LINK_NOT_AVAILABLE, wd_mx w)"
  by (simp add: magic_dlm_mih_link_resource_request_def release_request_def no_unnamed_link_def zero_link_tuple_def)

lemma release_old_link_eq:
  "no_unnamed_link w \<Longrightarrow> release_old_link env now sid i w = upd_dp (\<lambda>d. snd (magic_dataplane_remove_client_route (ce_os env) (Some sid) d)) w"
  by (simp add: release_old_link_def release_is_void)

lemma release_old_link_inv: "cic_inv w \<Longrightarrow> cic_inv (release_old_link env now sid i w)"
  unfolding release_old_link_def Let_def case_prod_beta
  by (intro upd_dp_inv set_mx_inv resource_request_inv cic_invD(1) remove_route_inv)

lemma request_config: "mx_config (snd (snd (magic_dlm_mih_link_resource_request now req x))) = mx_config x"
  "mx_sm (snd (snd (magic_dlm_mih_link_resource_request now req x))) = mx_sm x"
  by (auto simp: magic_dlm_mih_link_resource_request_def Let_def case_prod_beta set_dlm_client_def split: option.split)

lemma release_old_link_frame [cic_frame]:
  "wd_config (release_old_link env now sid i w) = wd_config w" "wd_sessions (release_old_link env now sid i w) = wd_sessions w"
  by (simp_all add: release_old_link_def case_prod_beta request_config mx_sessions_def upd_dp_def)

lemma gentle_clear [cic_intro]:
  "gentle (\<lambda>s. snd (magic_session_set_state now st (s\<lparr>cs_assigned_link_id := l, cs_bearer_id := b, cs_granted_bw_kbps := g, cs_granted_ret_bw_kbps := h\<rparr>)))"
  by (rule gentleI) (simp add: magic_session_set_state_def)

lemma mccr_dequeue_inv: "cic_inv w \<Longrightarrow> cic_inv (mccr_dequeue sid w)"
  unfolding mccr_dequeue_def by (intro set_queue_inv dequeue_queue cic_invD(8))

lemma mccr_dequeue_frame [cic_frame]:
  "wd_mx (mccr_dequeue sid w) = wd_mx w" "wd_tm (mccr_dequeue sid w) = wd_tm w" "wd_cdr (mccr_dequeue sid w) = wd_cdr w"
  "slots (mccr_dequeue sid w) = slots w" "wd_session (mccr_dequeue sid w) i = wd_session w i" "wd_answers (mccr_dequeue sid w) = wd_answers w"
  by (simp_all add: mccr_dequeue_def slots_def wd_session_def)

lemma stop_inv: "cic_inv w \<Longrightarrow> cic_inv (snd (mccr_execute_stop env now ctx w))"
  unfolding mccr_execute_stop_def Let_def snd_conv
  by (rule mccr_dequeue_inv) (auto split: option.split intro!: upd_session_inv gentle_clear release_old_link_inv)

lemma stop_frame:
  assumes "no_unnamed_link w"
  shows "wd_lmi (snd (mccr_execute_stop env now ctx w)) = wd_lmi w" "wd_tm (snd (mccr_execute_stop env now ctx w)) = wd_tm w"
    "wd_cdr (snd (mccr_execute_stop env now ctx w)) = wd_cdr w" "slots (snd (mccr_execute_stop env now ctx w)) = slots w"
  using assms by (simp_all add: mccr_execute_stop_def Let_def release_old_link_eq cic_frame gentle_clear split: option.split)

section \<open>Starting and modifying\<close>

lemma mccr_session_effect:
  assumes inv: "cic_inv w" and cid: "length (mv_client_id ctx) \<le> 63"
    and ex: "\<forall>i. mv_existing_session ctx = Some i \<longrightarrow> i < length (wd_sessions w)"
    and st: "mccr_session now ctx w = (slot, w')"
  shows "cic_inv w'" "wd_lmi w' = wd_lmi w" "\<And>i. slot = Some i \<Longrightarrow> i < length (wd_sessions w')"
    "slots w' = (if mv_existing_session ctx = None then take_first_free (slots w) else slots w)"
proof -
  have "cic_inv w' \<and> wd_lmi w' = wd_lmi w \<and> (\<forall>i. slot = Some i \<longrightarrow> i < length (wd_sessions w'))
      \<and> slots w' = (if mv_existing_session ctx = None then take_first_free (slots w) else slots w)"
  proof (cases "mv_existing_session ctx")
    case (Some i)
    then show ?thesis using st inv ex by (auto simp: mccr_session_def)
  next
    case None
    obtain sl sm where c: "magic_session_create now (Some (mv_session_id ctx)) (Some (mv_client_id ctx))
      (Some (mv_client_realm ctx)) (mx_sm (wd_mx w)) = (sl, sm)" by force
    have w': "w' = upd_sm (\<lambda>_. sm) w" "slot = sl" using st None c by (auto simp: mccr_session_def)
    have "sess_inv sm" by (rule create_inv(1) [OF cic_invD(4) [OF inv] cid c])
    moreover have "slots (upd_sm (\<lambda>_. sm) w) = take_first_free (slots w)"
      using cic_invD(4) [OF inv] cid c
      by (cases rule: create_cases)
        (simp_all add: slots_def upd_sm_def take_first_free_def find_idx_map mx_sessions_def map_update new_session_def)
    moreover have "\<forall>i. sl = Some i \<longrightarrow> i < length (sm_sessions sm)"
      using cic_invD(4) [OF inv] cid c by (cases rule: create_cases) (auto dest: find_idx_less)
    ultimately show ?thesis using upd_sm_inv [OF inv, of sm] w' None by (auto simp: upd_sm_def mx_sessions_def)
  qed
  then show "cic_inv w'" "wd_lmi w' = wd_lmi w" "\<And>i. slot = Some i \<Longrightarrow> i < length (wd_sessions w')"
    "slots w' = (if mv_existing_session ctx = None then take_first_free (slots w) else slots w)" by auto
qed

lemma mccr_assign_inv: "cic_inv w \<Longrightarrow> cic_inv (mccr_assign now i prs confirm w)"
  unfolding mccr_assign_def by (intro upd_session_inv gentle_set_state gentle_assign_link)

lemma mccr_assign_frame [cic_frame]:
  "wd_lmi (mccr_assign now i prs confirm w) = wd_lmi w" "slots (mccr_assign now i prs confirm w) = slots w"
  "length (wd_sessions (mccr_assign now i prs confirm w)) = length (wd_sessions w)"
  by (simp_all add: mccr_assign_def cic_frame gentle_rules)

lemma mccr_assign_session:
  assumes "i < length (wd_sessions w)"
  shows "cs_state (wd_session (mccr_assign now i prs confirm w) i) = SESSION_STATE_ACTIVE"
    "cs_bearer_id (wd_session (mccr_assign now i prs confirm w) i) = (case lf_bearer_identifier confirm of None \<Rightarrow> 0 | Some b \<Rightarrow> b)"
  using assms by (simp_all add: mccr_assign_def cic_frame magic_session_set_state_def magic_session_assign_link_def Let_def)

lemma finish_start_effect:
  assumes inv: "cic_inv w" and len: "length (mv_client_id ctx) \<le> 63" "length (mv_session_id ctx) \<le> 63"
      "length (rs_selected_link_id (mv_policy_resp ctx)) \<le> 63"
    and ex: "\<forall>i. mv_existing_session ctx = Some i \<longrightarrow> i < length (wd_sessions w)"
    and bearer: "\<exists>b. lf_bearer_identifier (mv_mih_confirm ctx) = Some b \<and> b \<noteq> 0"
    and st: "mccr_finish_start env now ctx w = (ctx', w')"
  shows "cic_inv w'" "wd_lmi w' = wd_lmi w"
    "slots w' = (if mv_existing_session ctx = None then take_first_free (slots w) else slots w)"
    "mv_resource_allocated ctx' \<Longrightarrow> \<exists>i. mv_session ctx' = Some i \<and> cs_state (wd_session w' i) = SESSION_STATE_ACTIVE \<and> cs_bearer_id (wd_session w' i) \<noteq> 0"
proof -
  obtain slot w1 where s: "mccr_session now ctx w = (slot, w1)" by force
  note e = mccr_session_effect [OF inv len(1) ex s]
  have "cic_inv w' \<and> wd_lmi w' = wd_lmi w1 \<and> slots w' = slots w1
      \<and> (mv_resource_allocated ctx' \<longrightarrow> (\<exists>i. mv_session ctx' = Some i \<and> cs_state (wd_session w' i) = SESSION_STATE_ACTIVE \<and> cs_bearer_id (wd_session w' i) \<noteq> 0))"
  proof (cases slot)
    case None
    then show ?thesis using st s e by (auto simp: mccr_finish_start_def)
  next
    case (Some i)
    let ?w2 = "mccr_assign now i (mv_policy_resp ctx) (mv_mih_confirm ctx) w1"
    let ?s = "mcar_setup_session env now i (mcar_view (ctx\<lparr>mv_session := Some i\<rparr>)) ?w2"
    have w': "w' = mccr_dequeue (mv_session_id ctx) (snd ?s)" and c': "mv_session ctx' = Some i"
      using st s Some by (auto simp: mccr_finish_start_def Let_def case_prod_beta)
    have "cic_inv (snd ?s)" by (rule setup_inv) (simp_all add: mccr_assign_inv e len)
    then show ?thesis
      using c' bearer mccr_assign_session [OF e(3) [OF Some]] by (auto simp: w' cic_frame mccr_dequeue_inv)
  qed
  then show "cic_inv w'" "wd_lmi w' = wd_lmi w"
    "slots w' = (if mv_existing_session ctx = None then take_first_free (slots w) else slots w)"
    "mv_resource_allocated ctx' \<Longrightarrow> \<exists>i. mv_session ctx' = Some i \<and> cs_state (wd_session w' i) = SESSION_STATE_ACTIVE \<and> cs_bearer_id (wd_session w' i) \<noteq> 0"
    using e by auto
qed


lemma lmi_only_inv:
  assumes "cic_inv v" and "ctx_inv (wd_mx w)" and "w = v\<lparr>wd_mx := (wd_mx v)\<lparr>mx_lmi := mx_lmi (wd_mx w)\<rparr>\<rparr>"
  shows "cic_inv w" "slots w = slots v" "wd_sessions w = wd_sessions v" "wd_config w = wd_config v" "wd_queue w = wd_queue v"
proof -
  have "cic_inv (v\<lparr>wd_mx := wd_mx w\<rparr>)" by (rule set_mx_inv [OF assms(1,2)])
  moreover have "v\<lparr>wd_mx := wd_mx w\<rparr> = w" by (subst (2) assms(3)) (metis assms(3) cic_world.select_convs(1) cic_world.surjective cic_world.update_convs(1))
  ultimately show "cic_inv w" by simp
  show "slots w = slots v" "wd_sessions w = wd_sessions v" "wd_config w = wd_config v" "wd_queue w = wd_queue v"
    by (subst assms(3), simp add: slots_def mx_sessions_def)+
qed

text \<open>What an execution of a start, a modification or a queued request may do.\<close>

definition mccr_outcome :: "MccxProcessContext \<Rightarrow> cic_world \<Rightarrow> MccxProcessContext \<Rightarrow> cic_world \<Rightarrow> bool" where
  "mccr_outcome ctx w ctx' w' \<longleftrightarrow> cic_inv w' \<and>
     (if mv_resource_allocated ctx'
      then total_bearers (wd_mx w') = total_bearers (wd_mx w) + 1
      else total_bearers (wd_mx w) \<le> total_bearers (wd_mx w') \<and> total_bearers (wd_mx w') \<le> total_bearers (wd_mx w) + 1) \<and>
     (\<forall>i. mv_resource_allocated ctx' \<and> mv_session ctx' = Some i \<longrightarrow>
        cs_state (wd_session w' i) = SESSION_STATE_ACTIVE \<and> cs_bearer_id (wd_session w' i) \<noteq> 0) \<and>
     (slots w' = slots w \<or> mv_existing_session ctx = None \<and> slots w' = take_first_free (slots w))"

lemma outcome_refused:
  assumes "cic_inv w'" "wd_lmi w' = wd_lmi w" "slots w' = slots w" "\<not> mv_resource_allocated ctx'"
  shows "mccr_outcome ctx w ctx' w'"
  using assms total_bearers_cong [of "wd_mx w'" "wd_mx w"] by (simp add: mccr_outcome_def)

lemma outcome_finish:
  assumes inv: "cic_inv v" and v: "slots v = slots w" "wd_lmi v = wd_lmi w" "wd_sessions v = wd_sessions w"
    and len: "length (mv_client_id ctx) \<le> 63" "length (mv_session_id ctx) \<le> 63" "length (rs_selected_link_id (mv_policy_resp ctx2)) \<le> 63"
    and ex: "\<forall>i. mv_existing_session ctx = Some i \<longrightarrow> i < length (wd_sessions w)"
    and f: "mccr_frame ctx2 = mccr_frame ctx"
    and w2: "total_bearers (wd_mx w2) = total_bearers (wd_mx v) + 1" "ctx_inv (wd_mx w2)"
      "w2 = v\<lparr>wd_mx := (wd_mx v)\<lparr>mx_lmi := mx_lmi (wd_mx w2)\<rparr>\<rparr>"
      "\<exists>b. lf_bearer_identifier (mv_mih_confirm ctx2) = Some b \<and> b \<noteq> 0"
    and st: "mccr_finish_start env now ctx2 w2 = (ctx', w')"
  shows "mccr_outcome ctx w ctx' w'"
proof -
  note l = lmi_only_inv [OF inv w2(2,3)]
  have ids: "mv_client_id ctx2 = mv_client_id ctx" "mv_session_id ctx2 = mv_session_id ctx" "mv_existing_session ctx2 = mv_existing_session ctx"
    using f by (simp_all add: mccr_frame_def)
  have "\<forall>i. mv_existing_session ctx2 = Some i \<longrightarrow> i < length (wd_sessions w2)" using ex ids l v by simp
  note e = finish_start_effect [OF l(1) _ _ len(3) this w2(4) st]
  have "total_bearers (wd_mx w') = total_bearers (wd_mx w) + 1"
    using e(2) len ids w2(1) v(2) total_bearers_cong [of "wd_mx w'" "wd_mx w2"] total_bearers_cong [of "wd_mx v" "wd_mx w"] by simp
  then show ?thesis using e len ids l v by (auto simp: mccr_outcome_def)
qed

lemma start_effect:
  assumes inv: "cic_inv w" and len: "length (mv_client_id ctx) \<le> 63" "length (mv_session_id ctx) \<le> 63"
    and ex: "\<forall>i. mv_existing_session ctx = Some i \<longrightarrow> i < length (wd_sessions w)"
    and nul: "no_unnamed_link w"
    and st: "mccr_execute_start_modify env now ctx w = (ctx', w')"
  shows "mccr_outcome ctx w ctx' w'"
proof -
  define req where "req = with_aircraft w (mccr_policy_request ctx)"
  define prs where "prs = snd (magic_policy_select_path (policy_ctx w) req)"
  define c1 where "c1 = mccr_mark_link_tried (rs_selected_link_id prs) (ctx\<lparr>mv_policy_resp := prs\<rparr>)"
  define v where "v = (case mv_existing_session c1 of None \<Rightarrow> w
     | Some i \<Rightarrow> if mv_intent c1 = MCCR_INTENT_MODIFY \<and> cs_assigned_link_id (wd_session w i) \<noteq> []
                  \<and> cs_assigned_link_id (wd_session w i) \<noteq> rs_selected_link_id prs
                then release_old_link env now (mv_session_id c1) i w else w)"
  obtain r c2 f2 w2 where t: "mccr_try_link_with_retry now (rs_selected_link_id prs) prs c1 (mv_mih_confirm c1) v = (r, c2, f2, w2)"
    by (cases "mccr_try_link_with_retry now (rs_selected_link_id prs) prs c1 (mv_mih_confirm c1) v")
  obtain q c3 w3 where fb: "mccr_try_fallback_links now (c2\<lparr>mv_mih_confirm := f2\<rparr>) w2 = (q, c3, w3)"
    by (cases "mccr_try_fallback_links now (c2\<lparr>mv_mih_confirm := f2\<rparr>) w2")
  have v: "cic_inv v" "slots v = slots w" "wd_lmi v = wd_lmi w" "wd_sessions v = wd_sessions w"
    using inv nul by (auto simp: v_def release_old_link_eq cic_frame intro!: upd_dp_inv remove_route_inv split: option.split)
  have c1: "mccr_frame c1 = mccr_frame ctx" "mv_policy_resp c1 = prs"
    by (simp_all add: c1_def) (simp add: mccr_mark_link_tried_def)
  have plen: "length (rs_selected_link_id prs) \<le> 63" unfolding prs_def by (rule selected_link_length)
  note tried = mccr_try_effect [OF cic_invD(1) [OF v(1)] t]
  have fall: "(q = 0 \<and> total_bearers (wd_mx w3) = total_bearers (wd_mx v) + 1
            \<and> (\<exists>b. lf_bearer_identifier (mv_mih_confirm c3) = Some b \<and> b \<noteq> 0)
            \<and> length (rs_selected_link_id (mv_policy_resp c3)) \<le> 63
            \<and> mccr_frame c3 = mccr_frame c1 \<and> ctx_inv (wd_mx w3)
            \<and> w3 = v\<lparr>wd_mx := (wd_mx v)\<lparr>mx_lmi := mx_lmi (wd_mx w3)\<rparr>\<rparr>)
         \<or> (q = -1 \<and> w3 = v \<and> mccr_frame c3 = mccr_frame c1)" if "r \<noteq> 0"
  proof -
    have "w2 = v" "c2 = c1" using tried \<open>r \<noteq> 0\<close> by auto
    with fb have "mccr_fallback_loop now MCCR_FALLBACK_MAX_LINKS (mccr_policy_request (c1\<lparr>mv_mih_confirm := f2\<rparr>)) (c1\<lparr>mv_mih_confirm := f2\<rparr>) v = (q, c3, w3)"
      by (simp add: mccr_try_fallback_links_def)
    from mccr_fallback_effect [OF cic_invD(1) [OF v(1)] this] show ?thesis by simp
  qed
  have eq: "(ctx', w') =
     (if fst (magic_policy_select_path (policy_ctx w) req) \<noteq> 0 \<or> \<not> rs_success prs
      then ((mccr_error 5012 1010 (rs_reason prs) (ctx\<lparr>mv_policy_resp := prs\<rparr>))\<lparr>mv_resource_allocated := False\<rparr>, w)
      else if r = 0 then mccr_finish_start env now (c2\<lparr>mv_mih_confirm := f2\<rparr>) w2
      else if q \<noteq> 0 then ((mccr_error 5012 1010 ''No available link resources'' c3)\<lparr>mv_resource_allocated := False\<rparr>, w3)
      else mccr_finish_start env now c3 w3)"
    unfolding st [symmetric] mccr_execute_start_modify_def
    using t fb by (simp add: Let_def case_prod_beta req_def [symmetric] prs_def [symmetric] c1_def [symmetric] v_def [symmetric])
  consider (refused) "w' = w" "\<not> mv_resource_allocated ctx'"
    | (direct) "r = 0" "mccr_finish_start env now (c2\<lparr>mv_mih_confirm := f2\<rparr>) w2 = (ctx', w')"
    | (none) "r \<noteq> 0" "q \<noteq> 0" "w' = w3" "\<not> mv_resource_allocated ctx'"
    | (other) "r \<noteq> 0" "q = 0" "mccr_finish_start env now c3 w3 = (ctx', w')"
    using eq by (auto split: if_splits)
  then show ?thesis
  proof cases
    case refused
    then show ?thesis using inv by (intro outcome_refused) simp_all
  next
    case direct
    with tried obtain m where e: "total_bearers (wd_mx w2) = total_bearers (wd_mx v) + 1" "ctx_inv (wd_mx w2)"
      "w2 = v\<lparr>wd_mx := (wd_mx v)\<lparr>mx_lmi := mx_lmi (wd_mx w2)\<rparr>\<rparr>" "\<exists>b. lf_bearer_identifier f2 = Some b \<and> b \<noteq> 0"
      "c2 = c1\<lparr>mv_retry_count := m\<rparr>" by auto
    show ?thesis
      by (rule outcome_finish [OF v len _ ex _ e(1-3) _ direct(2)]) (use e(4) plen c1 in \<open>simp_all add: e(5)\<close>)
  next
    case none
    have "w3 = v" using fall [OF none(1)] none(2) by auto
    then show ?thesis using none v by (intro outcome_refused) simp_all
  next
    case other
    show ?thesis
      by (rule outcome_finish [OF v len _ ex _ _ _ _ _ other(3)]) (use fall [OF other(1)] other(2) c1 in auto)
  qed
qed


section \<open>Queueing\<close>

lemma enqueue_effect:
  assumes inv: "cic_inv w" and len: "length (mv_session_id ctx) \<le> 63"
  shows "cic_inv (snd (mccr_enqueue now ctx w))" "wd_mx (snd (mccr_enqueue now ctx w)) = wd_mx w"
    "\<not> mv_resource_allocated (fst (mccr_enqueue now ctx w))"
proof -
  have "queue_inv (snd (mccr_queue_enqueue now (mv_session_id ctx) cid ps prio (wd_queue w)))" for cid ps prio
  proof -
    obtain r q where e: "mccr_queue_enqueue now (mv_session_id ctx) cid ps prio (wd_queue w) = (r, q)" by force
    show ?thesis by (rule enqueue_cases [OF cic_invD(8) [OF inv] _ e]) (use len e in simp_all)
  qed
  then show "cic_inv (snd (mccr_enqueue now ctx w))" "wd_mx (snd (mccr_enqueue now ctx w)) = wd_mx w"
    "\<not> mv_resource_allocated (fst (mccr_enqueue now ctx w))"
    using inv by (simp_all add: mccr_enqueue_def Let_def case_prod_beta set_queue_inv)
qed

lemma queue_effect:
  assumes inv: "cic_inv w" and len: "length (mv_client_id ctx) \<le> 63" "length (mv_session_id ctx) \<le> 63"
    and ex: "\<forall>i. mv_existing_session ctx = Some i \<longrightarrow> i < length (wd_sessions w)"
    and st: "mccr_execute_queue now ctx w = (ctx', w')"
  shows "mccr_outcome ctx w ctx' w'"
proof -
  define req where "req = with_aircraft w (mccr_queue_request ctx)"
  define prs where "prs = snd (magic_policy_select_path (policy_ctx w) req)"
  define c1 where "c1 = mccr_mark_link_tried (rs_selected_link_id prs) ctx"
  obtain r c2 f2 w2 where t: "mccr_try_link_with_retry now (rs_selected_link_id prs) prs c1 (blank_confirm STATUS_SUCCESS) w = (r, c2, f2, w2)"
    by (cases "mccr_try_link_with_retry now (rs_selected_link_id prs) prs c1 (blank_confirm STATUS_SUCCESS) w")
  define c3 where "c3 = c2\<lparr>mv_policy_resp := prs, mv_mih_confirm := f2\<rparr>"
  obtain slot w3 where s: "mccr_session now c3 w2 = (slot, w3)" by force
  note tried = mccr_try_effect [OF cic_invD(1) [OF inv] t]
  have eq: "(ctx', w') =
     (if fst (magic_policy_select_path (policy_ctx w) req) = 0 \<and> rs_success prs
      then if r = 0 then ((c3\<lparr>mv_session := slot\<rparr>)\<lparr>mv_result_code := 2001, mv_resource_allocated := True, mv_queued := False\<rparr>,
                         case slot of None \<Rightarrow> w3 | Some i \<Rightarrow> mccr_assign now i prs f2 w3)
           else mccr_enqueue now c2 w2
      else mccr_enqueue now ctx w)"
    unfolding st [symmetric] mccr_execute_queue_def
    using t s by (simp add: Let_def case_prod_beta req_def [symmetric] prs_def [symmetric] c1_def [symmetric] c3_def [symmetric] split: option.split)
  have queued: "mccr_outcome ctx w (fst (mccr_enqueue now c w)) (snd (mccr_enqueue now c w))" if "mv_session_id c = mv_session_id ctx" for c
    using enqueue_effect [OF inv, of c now] that len by (intro outcome_refused) (simp_all add: slots_def)
  consider (refused) c where "mv_session_id c = mv_session_id ctx" "(ctx', w') = mccr_enqueue now c w"
    | (allocated) "r = 0" "mv_resource_allocated ctx'" "mv_session ctx' = slot" "w' = (case slot of None \<Rightarrow> w3 | Some i \<Rightarrow> mccr_assign now i prs f2 w3)"
  proof (cases "r = 0 \<and> fst (magic_policy_select_path (policy_ctx w) req) = 0 \<and> rs_success prs")
    case True
    then show ?thesis using eq by (intro allocated) simp_all
  next
    case False
    then have "r \<noteq> 0 \<Longrightarrow> w2 = w \<and> c2 = c1" using tried by auto
    then show ?thesis using eq False
      by (cases "r = 0") (auto intro: refused [of ctx] refused [of c1] simp: c1_def mccr_mark_link_tried_def split: if_splits)
  qed
  then show ?thesis
  proof cases
    case refused
    then show ?thesis using queued [of c] by (metis fst_conv snd_conv)
  next
    case allocated
    with tried obtain m where e: "total_bearers (wd_mx w2) = total_bearers (wd_mx w) + 1" "ctx_inv (wd_mx w2)"
      "w2 = w\<lparr>wd_mx := (wd_mx w)\<lparr>mx_lmi := mx_lmi (wd_mx w2)\<rparr>\<rparr>" "\<exists>b. lf_bearer_identifier f2 = Some b \<and> b \<noteq> 0"
      "c2 = c1\<lparr>mv_retry_count := m\<rparr>" by auto
    note l = lmi_only_inv [OF inv e(2,3)]
    have c3: "mv_client_id c3 = mv_client_id ctx" "mv_existing_session c3 = mv_existing_session ctx"
      by (simp_all add: c3_def e(5) c1_def mccr_mark_link_tried_def)
    note m = mccr_session_effect [OF l(1) _ _ s, unfolded c3, OF len(1)]
    have ex2: "\<forall>i. mv_existing_session ctx = Some i \<longrightarrow> i < length (wd_sessions w2)" using ex l by simp
    have tot: "total_bearers (wd_mx w') = total_bearers (wd_mx w2)"
      using m(2) [OF ex2] allocated(4) by (intro total_bearers_cong) (auto simp: cic_frame split: option.split)
    have "cic_inv w'" using m(1) [OF ex2] allocated(4) by (auto intro: mccr_assign_inv split: option.split)
    moreover have "slots w' = slots w3" using allocated(4) by (auto simp: cic_frame split: option.split)
    moreover have "cs_state (wd_session w' i) = SESSION_STATE_ACTIVE \<and> cs_bearer_id (wd_session w' i) \<noteq> 0" if "mv_session ctx' = Some i" for i
      using that allocated(3,4) m(3) [OF ex2] mccr_assign_session [of i w3 now prs f2] e(4) by auto
    ultimately show ?thesis using allocated(2) tot e(1) m(4) [OF ex2] l(2) by (auto simp: mccr_outcome_def)
  qed
qed

section \<open>The handler\<close>

lemma phase2_frame:
  assumes "mccr_phase2_param_security env qry ctx w = (go, ctx')"
  shows "mv_session_id ctx' = mv_session_id ctx" "mv_client_id ctx' = mv_client_id ctx" "mv_existing_session ctx' = mv_existing_session ctx"
    "mv_intent ctx' = mv_intent ctx" "mv_resource_allocated ctx' = mv_resource_allocated ctx" "mv_queued ctx' = mv_queued ctx"
  using assms by (auto simp: mccr_phase2_param_security_def mccr_error_def Let_def split: option.splits if_splits)

lemma phase1_facts:
  assumes "mccr_phase1_session_validation qry initial_mccr w = (go, ctx)"
  shows "length (mv_client_id ctx) \<le> 63" "mv_session_id ctx = read_octets qry ''Session-Id'' 128 []"
    "\<forall>i. mv_existing_session ctx = Some i \<longrightarrow> i < length (wd_sessions w)" "mv_intent ctx = MCCR_INTENT_UNKNOWN"
    "\<not> mv_resource_allocated ctx" "\<not> mv_queued ctx"
  using assms read_octets_length [of "[]" 64 qry "''Origin-Host''"]
  by (auto simp: mccr_phase1_session_validation_def initial_mccr_def mccr_error_def Let_def magic_session_find_by_id_def mx_sessions_def
      dest: find_idx_less split: if_splits option.splits) (simp_all add: read_octets_def)

lemma phases_facts:
  assumes "mccr_phases env qry w = (ctx, w1)"
  shows "length (mv_client_id ctx) \<le> 63" "mv_session_id ctx = read_octets qry ''Session-Id'' 128 []"
    "\<forall>i. mv_existing_session ctx = Some i \<longrightarrow> i < length (wd_sessions w)"
    "\<not> mv_resource_allocated ctx" "w1 = w \<or> w1 = w\<lparr>wd_queue := mccr_queue_init (wd_queue w)\<rparr>"
    "mv_intent ctx = MCCR_INTENT_UNKNOWN \<Longrightarrow> w1 = w"
proof -
  obtain g1 c1 where p1: "mccr_phase1_session_validation qry initial_mccr w = (g1, c1)" by force
  obtain g2 c2 where p2: "mccr_phase2_param_security env qry c1 w = (g2, c2)" by force
  note f = phase1_facts [OF p1] phase2_frame [OF p2]
  have "(ctx, w1) = (if \<not> g1 then (c1, w) else if \<not> g2 then (c2, w) else mccr_phase3_intent_routing c2 w)"
    unfolding assms [symmetric] by (simp add: mccr_phases_def p1 p2)
  then show "length (mv_client_id ctx) \<le> 63" "mv_session_id ctx = read_octets qry ''Session-Id'' 128 []"
    "\<forall>i. mv_existing_session ctx = Some i \<longrightarrow> i < length (wd_sessions w)"
    "\<not> mv_resource_allocated ctx" "w1 = w \<or> w1 = w\<lparr>wd_queue := mccr_queue_init (wd_queue w)\<rparr>"
    "mv_intent ctx = MCCR_INTENT_UNKNOWN \<Longrightarrow> w1 = w"
    using f by (auto simp: mccr_phase3_intent_routing_def Let_def split: if_splits)
qed


lemma execute_effect:
  assumes inv: "cic_inv w" and len: "length (mv_client_id ctx) \<le> 63" "length (mv_session_id ctx) \<le> 63"
    and ex: "\<forall>i. mv_existing_session ctx = Some i \<longrightarrow> i < length (wd_sessions w)"
    and nul: "no_unnamed_link w" and na: "\<not> mv_resource_allocated ctx"
    and st: "mccr_execute env now ctx w = (ctx', w')"
  shows "mccr_outcome ctx w ctx' w'"
proof (cases "mv_intent ctx")
  case MCCR_INTENT_UNKNOWN
  then show ?thesis using st inv na by (intro outcome_refused) (auto simp: mccr_execute_def mccr_error_def)
next
  case MCCR_INTENT_STOP
  then have e: "mccr_execute_stop env now ctx w = (ctx', w')" using st by (simp add: mccr_execute_def)
  then have "\<not> mv_resource_allocated ctx'" by (auto simp: mccr_execute_stop_def)
  then show ?thesis using stop_inv [OF inv, of env now ctx] stop_frame [OF nul, of env now ctx] e by (intro outcome_refused) simp_all
next
  case MCCR_INTENT_QUEUE
  then show ?thesis using st by (intro queue_effect [OF inv len ex]) (simp add: mccr_execute_def)
qed (use st in \<open>auto simp: mccr_execute_def intro!: start_effect [OF inv len ex nul]\<close>)

lemma queue_init_outcome:
  assumes "mccr_outcome ctx (w\<lparr>wd_queue := q\<rparr>) ctx' w'"
  shows "mccr_outcome ctx w ctx' w'"
  using assms by (auto simp: mccr_outcome_def slots_def split: if_splits)

lemma mccr_effect:
  assumes inv: "cic_inv w" and sid: "length (read_octets qry ''Session-Id'' 128 []) \<le> 63" and nul: "no_unnamed_link w"
    and ph: "mccr_phases env qry w = (ctx, w1)" and st: "mccr_execute env now ctx w1 = (ctx', w')"
  shows "mccr_outcome ctx w ctx' w'"
proof -
  note f = phases_facts [OF ph]
  have "cic_inv w1" using f(5) inv by (auto intro!: set_queue_inv init_queue_inv cic_invD(8))
  moreover have "no_unnamed_link w1" "wd_sessions w1 = wd_sessions w" using nul f(5) by (auto simp: no_unnamed_link_def)
  ultimately have "mccr_outcome ctx w1 ctx' w'" using f sid by (intro execute_effect [OF _ _ _ _ _ _ st]) simp_all
  then show ?thesis using f(5) by (auto intro: queue_init_outcome)
qed

lemma mccr_handler_world:
  assumes "mccr_phases env qry w = (ctx, w1)" and "mccr_execute env now ctx w1 = (ctx', w')"
  shows "\<exists>as. snd (cic_handle_mccr env now qry w) = w'\<lparr>wd_answers := as\<rparr>"
proof -
  have "v = v\<lparr>wd_answers := wd_answers v\<rparr>" for v :: cic_world by simp
  then show ?thesis
    using assms by (auto simp: cic_handle_mccr_def mccr_phase4_execution_def Let_def case_prod_beta intro: exI [of _ "wd_answers w'"])
qed

definition mccr_refused :: "cic_env \<Rightarrow> davp list \<Rightarrow> cic_world \<Rightarrow> bool" where
  "mccr_refused env qry w =
     (let (go, ctx) = mccr_phase1_session_validation qry initial_mccr w
      in \<not> go \<or> \<not> fst (mccr_phase2_param_security env qry ctx w))"

lemma refused_unknown:
  assumes "mccr_refused env qry w" and "mccr_phases env qry w = (ctx, w1)"
  shows "mv_intent ctx = MCCR_INTENT_UNKNOWN"
proof -
  obtain g1 c1 where p1: "mccr_phase1_session_validation qry initial_mccr w = (g1, c1)" by force
  obtain g2 c2 where p2: "mccr_phase2_param_security env qry c1 w = (g2, c2)" by force
  show ?thesis using assms phase1_facts [OF p1] phase2_frame [OF p2]
    by (auto simp: mccr_refused_def mccr_phases_def p1 p2 split: if_splits)
qed

lemma search_avp_head: "n \<noteq> ''Session-Id'' \<Longrightarrow> search_avp (answer_head qry @ as) n = search_avp as n"
  by (simp add: answer_head_def search_avp_def split: option.split)

lemma search_without:
  "n \<noteq> m \<Longrightarrow> search_avp (filter (\<lambda>a. avp_model a \<noteq> Some m) qry) n = search_avp qry n"
  by (induction qry) (auto simp: search_avp_def)

section \<open>Properties\<close>

text \<open>
  The communication change handler keeps the invariant of the server, the queue included, whatever
  the message says, provided the Session-Id fits the 64-byte keys of the data plane and no data link is
  configured under the empty name.
\<close>

lemma mccr_keeps_server_inv:
  assumes "cic_inv w" and "length (read_octets qry ''Session-Id'' 128 []) \<le> 63" and "no_unnamed_link w"
  shows "cic_inv (snd (cic_handle_mccr env now qry w))"
proof -
  obtain ctx w1 where ph: "mccr_phases env qry w = (ctx, w1)" by force
  obtain ctx' w' where st: "mccr_execute env now ctx w1 = (ctx', w')" by force
  have "cic_inv w'" using mccr_effect [OF assms ph st] by (simp add: mccr_outcome_def)
  then show ?thesis using mccr_handler_world [OF ph st] by (auto intro: set_answers_inv)
qed


text \<open>
  Closing a link clears the link, the bearer and the bandwidth of the session, which is authenticated
  again, while the link managers keep its bearer, the traffic monitor its registration and the charging
  manager its open record.
\<close>

lemma closing_leaves_bearer_and_record:
  assumes "no_unnamed_link w" and "mv_existing_session ctx = Some i" and "i < length (wd_sessions w)"
    and "cs_assigned_link_id (wd_session w i) \<noteq> []"
  shows "let w' = snd (mccr_execute_stop env now ctx w); s = wd_session w' i in
    cs_state s = SESSION_STATE_AUTHENTICATED \<and> cs_assigned_link_id s = [] \<and> cs_bearer_id s = 0 \<and> cs_granted_bw_kbps s = 0
    \<and> wd_lmi w' = wd_lmi w \<and> wd_tm w' = wd_tm w \<and> wd_cdr w' = wd_cdr w"
  using assms stop_frame [OF assms(1), of env now ctx]
  by (simp add: Let_def) (simp add: mccr_execute_stop_def release_old_link_eq cic_frame magic_session_set_state_def)

text \<open>
  C29. The reason of a refusal never reaches the client: whatever check of the first two phases refuses a
  request, the answer carries result 5012 and status 1000, and nothing else changes.
\<close>

theorem refusal_reasons_are_lost:
  assumes "mccr_refused env qry w" and "ce_new_answer env" and "\<And>k. ce_add env k" and "ce_send env"
  shows "\<exists>ans. cic_handle_mccr env now qry w = (0, w\<lparr>wd_answers := wd_answers w @ [ans]\<rparr>)
    \<and> search_avp ans ''Result-Code'' = Some (AvU32 5012) \<and> search_avp ans ''MAGIC-Status-Code'' = Some (AvU32 1000)
    \<and> search_avp ans ''Error-Message'' = Some (AvOctets ''Unknown operation intent'')"
proof -
  obtain ctx w1 where ph: "mccr_phases env qry w = (ctx, w1)" by force
  have u: "mv_intent ctx = MCCR_INTENT_UNKNOWN" by (rule refused_unknown [OF assms(1) ph])
  have "w1 = w" by (rule phases_facts(6) [OF ph u])
  define e where "e = mccr_error 5012 1000 ''Unknown operation intent'' ctx"
  define ans where "ans = snd (add_comm_ans_params_simple (ce_group env) (mccr_answer_params e w) (answer_head qry @ mcca_avps env e))"
  have "cic_handle_mccr env now qry w = (0, w\<lparr>wd_answers := wd_answers w @ [ans]\<rparr>)"
    using assms(2-4) u \<open>w1 = w\<close>
    by (simp add: cic_handle_mccr_def ph mccr_phase4_execution_def mccr_execute_def e_def [symmetric] Let_def add_each_ok ans_def)
  moreover have "\<exists>gs. ans = answer_head qry @ mcca_avps env e @ gs"
    by (simp add: ans_def add_comm_ans_params_simple_def add_group_def)
  then obtain gs where "ans = answer_head qry @ mcca_avps env e @ gs" ..
  then have "search_avp ans ''Result-Code'' = Some (AvU32 5012)" "search_avp ans ''MAGIC-Status-Code'' = Some (AvU32 1000)"
    "search_avp ans ''Error-Message'' = Some (AvOctets ''Unknown operation intent'')"
    by (simp_all add: search_avp_head) (simp_all add: mcca_avps_def e_def mccr_error_def av_u32_def av_str_def search_avp_def)
  ultimately show ?thesis by blast
qed

text \<open>
  C30. Opening a link needs no login: the handler does not look at credentials, the outcome is the same
  with and without them, also for a Session-Id under which nobody has logged in.
\<close>

theorem change_ignores_credentials:
  "cic_handle_mccr env now (filter (\<lambda>a. avp_model a \<noteq> Some ''Client-Credentials'') qry) w = cic_handle_mccr env now qry w"
proof -
  let ?qry = "filter (\<lambda>a. avp_model a \<noteq> Some ''Client-Credentials'') qry"
  have e1: "mccr_phase1_session_validation ?qry c w = mccr_phase1_session_validation qry c w" for c
    by (simp add: mccr_phase1_session_validation_def read_octets_def search_without)
  have e2: "mccr_phase2_param_security env ?qry c w = mccr_phase2_param_security env qry c w" for c
    by (simp add: mccr_phase2_param_security_def search_without)
  have e3: "answer_head ?qry = answer_head qry" by (simp add: answer_head_def search_without)
  show ?thesis unfolding cic_handle_mccr_def mccr_phases_def mccr_phase4_execution_def e1 e2 e3 ..
qed


section \<open>Witnesses\<close>

definition demo_mccr :: "davp list" where
  "demo_mccr = [DAvp (Some ''Session-Id'') (AvOctets ''s1''), DAvp (Some ''Origin-Host'') (AvOctets ''efb'')]"

lemma demo_named: "no_unnamed_link demo_world"
  by (simp add: no_unnamed_link_def magic_config_find_datalink_def magic_config_find_dlm_def demo_world_def used_part_def magic_config_init_def)

lemma demo_mccr_sid: "length (read_octets demo_mccr ''Session-Id'' 128 []) \<le> 63"
  by (simp add: read_octets_def search_avp_def demo_mccr_def copy_octets_def)

lemma mccr_keeps_server_inv_witness: "cic_inv (snd (cic_handle_mccr demo_cic_env 50 demo_mccr demo_world))"
  by (rule mccr_keeps_server_inv [OF demo_world_inv demo_mccr_sid demo_named])


lemma closing_leaves_bearer_and_record_witness:
  "wd_lmi (snd (mccr_execute_stop demo_cic_env 50 (initial_mccr\<lparr>mv_session_id := ''s1'', mv_existing_session := Some 0\<rparr>) demo_world)) = wd_lmi demo_world
   \<and> cs_bearer_id (wd_session (snd (mccr_execute_stop demo_cic_env 50 (initial_mccr\<lparr>mv_session_id := ''s1'', mv_existing_session := Some 0\<rparr>) demo_world)) 0) = 0"
  using closing_leaves_bearer_and_record [OF demo_named, of "initial_mccr\<lparr>mv_session_id := ''s1'', mv_existing_session := Some 0\<rparr>" 0 demo_cic_env 50] demo_sessions
  by (simp add: demo_session_def Let_def)

theorem refusal_reasons_are_lost_witness:
  "\<exists>ans. cic_handle_mccr demo_cic_env 50 demo_mccr demo_world = (0, demo_world\<lparr>wd_answers := wd_answers demo_world @ [ans]\<rparr>)
    \<and> search_avp ans ''Result-Code'' = Some (AvU32 5012) \<and> search_avp ans ''MAGIC-Status-Code'' = Some (AvU32 1000)
    \<and> search_avp ans ''Error-Message'' = Some (AvOctets ''Unknown operation intent'')"
proof (rule refusal_reasons_are_lost)
  show "mccr_refused demo_cic_env demo_mccr demo_world"
    by (simp add: mccr_refused_def case_prod_beta mccr_phase2_param_security_def search_avp_def demo_mccr_def)
qed (simp_all add: demo_cic_env_def)

end
