(* ===== verification/Cic_Commands_Props.thy ===== *)
theory Cic_Commands_Props
  imports Cic_Charging Cic_Mccr_Props
begin

text \<open>
  Properties of the smaller requests: what a termination frees and what it leaves, what a status query
  discloses and when its buffer is too small, who sees and who controls charging data.
\<close>

section \<open>The invariant\<close>

lemma send_answer_inv: "cic_inv w \<Longrightarrow> cic_inv (snd (send_answer env ans w))"
  by (simp add: send_answer_def set_answers_inv)

lemma plain_answer_inv: "cic_inv w \<Longrightarrow> cic_inv (snd (plain_answer env code qry w))"
  by (simp add: plain_answer_def case_prod_beta send_answer_inv)

lemma current_traffic_world:
  "snd (snd (snd (current_traffic env now sid i w))) =
     w\<lparr>wd_tm := (wd_tm w)\<lparr>tm := snd (snd (traffic_get_session_stats now (ce_ct env) (Some sid) (tm (wd_tm w))))\<rparr>\<rparr>"
  by (auto simp: current_traffic_def Let_def case_prod_beta split: option.split)

lemma current_traffic_inv: "cic_inv w \<Longrightarrow> cic_inv (snd (snd (snd (current_traffic env now sid i w))))"
  unfolding current_traffic_world by (intro set_tm_inv) (simp_all add: get_stats_inv cic_invD(3))

lemma gentle_bytes [cic_intro]: "gentle (\<lambda>s. s\<lparr>cs_bytes_in := a, cs_bytes_out := b\<rparr>)"
  by (rule gentleI) simp

lemma str_session_inv: "cic_inv w \<Longrightarrow> cic_inv (snd (snd (str_session env now sid w)))"
  by (auto simp: str_session_def Let_def case_prod_beta split: option.split
      intro!: upd_session_inv gentle_set_state gentle_bytes current_traffic_inv)

lemma close_record_inv:
  assumes "cic_inv w"
  shows "cic_inv (close_record env now sid bin bout w)"
proof (cases "cdr_find_by_session (cdrs (wd_cdr w)) (Some sid)")
  case (Some k)
  then have "k < MAX_CDR_RECORDS"
    using cic_invD(2) [OF assms] by (auto simp: cdr_find_by_session_def cdr_inv_def dest: find_idx_less)
  then show ?thesis using Some close_cdr_inv [OF cic_invD(2) [OF assms]] by (simp add: close_record_def set_cdr_inv assms)
qed (simp add: close_record_def assms)

lemma str_release_inv: "cic_inv w \<Longrightarrow> cic_inv (str_release env now sid w)"
  unfolding str_release_def Let_def case_prod_beta
  by (intro upd_dp_inv set_tm_inv unregister_inv cic_invD(3) close_record_inv str_session_inv remove_route_inv)

lemma str_inv: "cic_inv w \<Longrightarrow> cic_inv (snd (cic_handle_str env now sess qry w))"
  by (auto simp: cic_handle_str_def Let_def case_prod_beta intro: send_answer_inv str_release_inv)

lemma gentle_mntr [cic_intro]: "gentle (mntr_update g)"
  by (rule gentleI) (simp add: mntr_update_def Let_def split: option.split)

lemma mntr_inv: "cic_inv w \<Longrightarrow> cic_inv (snd (cic_handle_mntr env qry w))"
  by (auto simp: cic_handle_mntr_def Let_def split: option.split intro!: plain_answer_inv upd_session_inv gentle_mntr)

lemma mscr_inv: "cic_inv w \<Longrightarrow> cic_inv (snd (cic_handle_mscr env qry w))"
  by (simp add: cic_handle_mscr_def plain_answer_inv)

lemma rate_length: "length (snd (msxr_check_rate_limit now cid sec tab)) = length tab"
  by (simp add: msxr_check_rate_limit_def split: option.split)

lemma set_rate_inv: "cic_inv w \<Longrightarrow> length tab = length (wd_rate w) \<Longrightarrow> cic_inv (w\<lparr>wd_rate := tab\<rparr>)"
  by (simp add: cic_inv_def)

text \<open>The answer to a status query changes nothing but the answers.\<close>

lemma msxr_answer_world:
  assumes "msxr_answer env qry profile granted w = Some (r, w')"
  obtains "w' = w" | ans where "w' = w\<lparr>wd_answers := wd_answers w @ [ans]\<rparr>"
  using assms by (auto simp: msxr_answer_def Let_def case_prod_beta send_answer_def split: if_splits option.splits)

lemma msxr_inv:
  assumes "cic_inv w" and "cic_handle_msxr env now qry w = Some (r, w')"
  shows "cic_inv w'"
proof -
  let ?cid = "read_octets qry ''Origin-Host'' 64 []"
  let ?p = "find_profile (wd_config w) ?cid"
  define v where "v = w\<lparr>wd_rate := snd (msxr_check_rate_limit now (Some ?cid) (case ?p of None \<Rightarrow> 5 | Some p \<Rightarrow> sc_msxr_rate_limit_sec (cl_session p)) (wd_rate w))\<rparr>"
  have "cic_inv v" unfolding v_def by (intro set_rate_inv assms rate_length)
  moreover have "(r, w') = plain_answer env 3004 qry v \<or> msxr_answer env qry ?p (granted_status ?p (requested_status qry)) v = Some (r, w')"
    using assms(2) by (auto simp: cic_handle_msxr_def Let_def case_prod_beta v_def split: if_splits)
  ultimately show ?thesis using plain_answer_inv [of v env 3004 qry]
    by (auto elim!: msxr_answer_world intro: set_answers_inv dest: arg_cong [of _ _ snd])
qed

lemma active_loop_inv: "cic_inv w \<Longrightarrow> cic_inv (snd (active_loop env now ty vis is acc w))"
proof (induction "is" arbitrary: acc w)
  case (Cons i "is")
  then show ?case
    by (auto simp: Let_def case_prod_beta current_traffic_inv split: option.split)
qed simp

lemma madr_lists_inv: "cic_inv w \<Longrightarrow> cic_inv (snd (madr_lists env now ty vis req_id ans w))"
  unfolding madr_lists_def Let_def case_prod_beta by (simp add: active_loop_inv split: option.split)

lemma madr_inv: "cic_inv w \<Longrightarrow> cic_inv (snd (cic_handle_madr env now qry w))"
  unfolding cic_handle_madr_def Let_def case_prod_beta
  by (simp add: madr_lists_inv send_answer_inv split: option.split)

lemma gentle_restart [cic_intro]:
  "gentle (\<lambda>s. s\<lparr>cs_traffic_start_time := a, cs_bytes_in := b, cs_bytes_out := c, cs_last_activity := d\<rparr>)"
  by (rule gentleI) simp

lemma macr_rollover_inv:
  assumes "cic_inv w"
  shows "cic_inv (snd (snd (macr_rollover env now target i w)))"
  using assms unfolding macr_rollover_def Let_def case_prod_beta
  by (auto intro!: set_cdr_inv maintenance_inv rollover_inv cic_invD(2) upd_session_inv gentle_restart current_traffic_inv)

lemma macr_inv: "cic_inv w \<Longrightarrow> cic_inv (snd (cic_handle_macr env now qry w))"
proof -
  assume inv: "cic_inv w"
  have a: "cic_inv v \<Longrightarrow> cic_inv (snd (macr_answer env qry target codes res v))" for target codes res v
    by (auto simp: macr_answer_def Let_def case_prod_beta send_answer_inv split: option.split)
  have "cic_inv (snd (snd (macr_process env now requester target w)))" for requester target
    using inv by (auto simp: macr_process_def macr_rollover_inv split: option.split)
  then show ?thesis by (simp add: cic_handle_macr_def Let_def case_prod_beta a)
qed

section \<open>What a termination touches\<close>

definition tm_keys :: "TrafficMonitorContext \<Rightarrow> (bool \<times> string) list" where
  "tm_keys c = map (\<lambda>s. (tse_in_use s, tse_session_id s)) (tmc_sessions c)"

lemma find_by_keys: "traffic_find_session c (Some sid) = find_idx (\<lambda>k. fst k \<and> snd k = sid) (tm_keys c)"
  by (simp add: traffic_find_session_def tm_keys_def find_idx_map)

lemma get_stats_keys:
  "tm_keys (snd (snd (traffic_get_session_stats now ct session_id c))) = tm_keys c"
  "tmc_is_initialized (snd (snd (traffic_get_session_stats now ct session_id c))) = tmc_is_initialized c"
proof -
  have same: "map f (xs[i := t]) = map f xs" if "f t = f (xs ! i)" for f :: "TrafficSession \<Rightarrow> bool \<times> string" and xs i t
    using that by (cases "i < length xs") (simp_all add: map_update list_update_same_conv list_update_beyond)
  show "tm_keys (snd (snd (traffic_get_session_stats now ct session_id c))) = tm_keys c"
    by (auto simp: traffic_get_session_stats_def tm_keys_def Let_def case_prod_beta same split: option.split)
  show "tmc_is_initialized (snd (snd (traffic_get_session_stats now ct session_id c))) = tmc_is_initialized c"
    by (auto simp: traffic_get_session_stats_def Let_def case_prod_beta split: option.split)
qed

lemma unregister_frees:
  assumes "tmc_is_initialized (tm w)" and "traffic_find_session (tm w) (Some sid) = Some k"
  shows "\<not> tse_in_use (tmc_sessions (tm (snd (traffic_unregister_session env (Some sid) w))) ! k)"
proof -
  have k: "k < length (tmc_sessions (tm w))" using assms(2) by (auto simp: traffic_find_session_def dest: find_idx_less)
  obtain r w' where un: "traffic_unregister_session env (Some sid) w = (r, w')" by force
  then show ?thesis by (cases rule: unregister_cases) (use assms k un in auto)
qed

lemma close_frees:
  assumes "cdr_inv (cdrs c)" and "cdr_find_by_session (cdrs c) (Some sid) = Some k"
  shows "cm_records (cdrs (snd (cdr_close fenv now k a b c))) ! k = zero_cdr"
proof -
  have "k < length (cm_records (cdrs c))" "cr_in_use (cm_records (cdrs c) ! k)"
    using find_idx_SomeD [of "\<lambda>c. cr_in_use c \<and> cr_status c = CDR_STATUS_ACTIVE \<and> cr_session_id c = sid"] assms(2)
    by (auto simp: cdr_find_by_session_def)
  then show ?thesis by (simp add: cdr_close_def Let_def set_cdr_def archive_cdrs)
qed

lemma str_session_world:
  assumes "str_session env now sid w = (bin, bout, v)"
  shows "wd_lmi v = wd_lmi w" "mx_dp (wd_mx v) = mx_dp (wd_mx w)" "wd_cdr v = wd_cdr w" "slots v = slots w"
    "tm_keys (tm (wd_tm v)) = tm_keys (tm (wd_tm w))" "tmc_is_initialized (tm (wd_tm v)) = tmc_is_initialized (tm (wd_tm w))"
proof -
  have v: "v = snd (snd (str_session env now sid w))" using assms by simp
  show "wd_lmi v = wd_lmi w" "mx_dp (wd_mx v) = mx_dp (wd_mx w)" "wd_cdr v = wd_cdr w" "slots v = slots w"
    "tm_keys (tm (wd_tm v)) = tm_keys (tm (wd_tm w))" "tmc_is_initialized (tm (wd_tm v)) = tmc_is_initialized (tm (wd_tm w))"
    unfolding v str_session_def Let_def case_prod_beta current_traffic_world
    by (simp_all add: cic_frame gentle_set_state gentle_bytes get_stats_keys split: option.split)
qed

lemma str_session_closes:
  assumes "magic_session_find_by_id (mx_sm (wd_mx w)) (Some sid) = Some i"
  shows "cs_state (wd_session (snd (snd (str_session env now sid w))) i) = SESSION_STATE_CLOSED"
    "cs_bearer_id (wd_session (snd (snd (str_session env now sid w))) i) = cs_bearer_id (wd_session w i)"
proof -
  have "i < length (wd_sessions w)" using assms by (auto simp: magic_session_find_by_id_def mx_sessions_def dest: find_idx_less)
  then show "cs_state (wd_session (snd (snd (str_session env now sid w))) i) = SESSION_STATE_CLOSED"
    "cs_bearer_id (wd_session (snd (snd (str_session env now sid w))) i) = cs_bearer_id (wd_session w i)"
    using assms unfolding str_session_def Let_def case_prod_beta current_traffic_world
    by (simp_all add: cic_frame magic_session_set_state_def)
qed

section \<open>Properties\<close>


text \<open>The listing of the clients as it is meant, without a limit.\<close>

fun listing :: "ClientSessionCount list \<Rightarrow> string \<Rightarrow> string" where
  "listing [] t = t"
| "listing (c # cs) t = listing cs (t @ client_piece (length t) c)"

lemma clients_text_eq:
  "clients_text cs (take 1023 t) (length t) =
     (if \<exists>n < length cs. length (listing (take n cs) t) > CLIENTS_STR_LEN then None
      else Some (take 1023 (listing cs t), length (listing cs t)))"
proof (induction cs arbitrary: t)
  case (Cons c cs)
  let ?t = "t @ client_piece (length t) c"
  show ?case
  proof (cases "length t > CLIENTS_STR_LEN")
    case True
    then show ?thesis by (auto intro!: exI [of _ 0])
  next
    case False
    have buf: "(if length t < CLIENTS_STR_LEN then take (length t) (take 1023 t) @ snprintf_buf (CLIENTS_STR_LEN - length t) (client_piece (length t) c)
                else take 1023 t) = take 1023 ?t"
      using False by (auto simp: snprintf_buf_def min_def)
    have "(\<exists>n < length (c # cs). length (listing (take n (c # cs)) t) > CLIENTS_STR_LEN)
        \<longleftrightarrow> (\<exists>n < length cs. length (listing (take n cs) ?t) > CLIENTS_STR_LEN)"
      using False by (simp add: Ex_less_Suc2)
    moreover have "clients_text (c # cs) (take 1023 t) (length t) = clients_text cs (take 1023 ?t) (length ?t)"
      unfolding clients_text.simps Let_def buf using False by simp
    ultimately show ?thesis using Cons.IH [of ?t] by simp
  qed
qed simp

text \<open>
  C34. The text of the registered clients is the listing cut to the 1023 bytes the buffer holds, unless the
  listing of all clients but the last is already longer than the buffer: then, and only then, the handler
  writes beyond its end.
\<close>

theorem client_list_overflow_iff:
  "clients_text cs [] 0 =
     (if \<exists>n < length cs. length (listing (take n cs) []) > CLIENTS_STR_LEN then None
      else Some (take 1023 (listing cs []), length (listing cs [])))"
  using clients_text_eq [of cs "[]"] by simp

section \<open>The rate of status queries\<close>

text \<open>The times at which queries of a client pass, in a sequence of queries of all clients.\<close>

fun served :: "string \<Rightarrow> (string \<times> u32 \<times> int) list \<Rightarrow> MsxrRateLimitEntry list \<Rightarrow> int list" where
  "served cid [] tab = []"
| "served cid ((c, sec, t) # qs) tab =
     (let (r, tab') = msxr_check_rate_limit t (Some c) sec tab
      in if c = cid \<and> r = 0 then t # served cid qs tab' else served cid qs tab')"

definition rate_entry :: "string \<Rightarrow> MsxrRateLimitEntry list \<Rightarrow> nat option" where
  "rate_entry cid tab = find_idx (\<lambda>e. re_client_id e \<noteq> [] \<and> re_client_id e = cid) tab"

lemma find_idx_update_other:
  assumes "find_idx P xs = Some i" and "\<not> P v" and "i \<noteq> j"
  shows "find_idx P (xs[j := v]) = Some i"
  using find_idx_SomeD [OF assms(1)] assms(2,3)
  by (cases "j < length xs"; intro find_idx_SomeI) (auto simp: nth_list_update list_update_beyond)

lemma rate_other:
  assumes "rate_entry cid tab = Some i" and "c \<noteq> cid" and "length c \<le> 63"
  shows "rate_entry cid (snd (msxr_check_rate_limit t (Some c) sec tab)) = Some i
       \<and> snd (msxr_check_rate_limit t (Some c) sec tab) ! i = tab ! i"
proof -
  have i: "re_client_id (tab ! i) = cid" "cid \<noteq> []" using find_idx_SomeD [OF assms(1) [unfolded rate_entry_def]] by auto
  have upd: "rate_entry cid (tab[j := v]) = Some i \<and> tab[j := v] ! i = tab ! i" if "re_client_id v = c" "i \<noteq> j" for j v
    using find_idx_update_other [OF assms(1) [unfolded rate_entry_def], of v j] that assms(2) by (auto simp: rate_entry_def)
  have hit: "re_client_id (tab ! j) = c \<and> i \<noteq> j" if "find_idx (\<lambda>e. re_client_id e \<noteq> [] \<and> re_client_id e = c) tab = Some j" for j
    using find_idx_SomeD [OF that] i assms(2) by auto
  have free: "i \<noteq> j" if "find_idx (\<lambda>e. re_client_id e = []) tab = Some j" for j
    using find_idx_SomeD [OF that] i by auto
  show ?thesis
    using assms upd hit free by (auto simp: msxr_check_rate_limit_def split: option.split)
qed

lemma rate_own:
  assumes "rate_entry cid tab = Some i" and "sec \<noteq> 0"
  shows "msxr_check_rate_limit t (Some cid) sec tab =
    (if t - re_last_request_time (tab ! i) < uint sec then (-1, tab) else (0, tab[i := (tab ! i)\<lparr>re_last_request_time := t\<rparr>]))"
    "rate_entry cid (tab[i := (tab ! i)\<lparr>re_last_request_time := t\<rparr>]) = Some i" "i < length tab"
proof -
  note i = find_idx_SomeD [OF assms(1) [unfolded rate_entry_def]]
  show "i < length tab" using i by simp
  show "msxr_check_rate_limit t (Some cid) sec tab =
    (if t - re_last_request_time (tab ! i) < uint sec then (-1, tab) else (0, tab[i := (tab ! i)\<lparr>re_last_request_time := t\<rparr>]))"
    using i assms by (auto simp: msxr_check_rate_limit_def rate_entry_def)
  show "rate_entry cid (tab[i := (tab ! i)\<lparr>re_last_request_time := t\<rparr>]) = Some i"
    unfolding rate_entry_def using i by (intro find_idx_SomeI) (auto simp: nth_list_update)
qed


section \<open>What a status query discloses\<close>

lemma search_append: "search_avp (xs @ ys) n = (case search_avp xs n of None \<Rightarrow> search_avp ys n | Some v \<Rightarrow> Some v)"
  by (induction xs) (auto simp: search_avp_def split: option.splits)

lemma search_Cons: "search_avp (a # as) n = (if avp_model a = Some n then Some (avp_value a) else search_avp as n)"
  by (simp add: search_avp_def)

lemma search_Nil: "search_avp [] n = None"
  by (simp add: search_avp_def)

lemmas search_simps = search_append search_Cons search_Nil av_str_def av_u32_def av_group_def av_float_def

definition disclosed :: "ClientProfile \<Rightarrow> bool \<Rightarrow> DlmClient list \<Rightarrow> davp \<Rightarrow> bool" where
  "disclosed p detail ds a \<longleftrightarrow> (\<exists>c\<in>set ds. dm_is_registered c \<and> magic_config_is_dlm_allowed p (Some (dm_link_id c))
     \<and> search_avp (children (avp_value a)) ''DLM-Name'' = Some (AvOctets (dm_link_id c)))
     \<and> (search_avp (children (avp_value a)) ''DLM-Link-Status-List'' \<noteq> None \<longrightarrow> detail)"

lemma info_disclosed:
  assumes "add_dlm_info_simple ok (status_dlm_info c) lst = (0, lst')" and "c \<in> set ds" "dm_is_registered c"
    "magic_config_is_dlm_allowed p (Some (dm_link_id c))"
  obtains a where "lst' = lst @ [a]" "disclosed p detail ds a"
proof -
  obtain cs where cs: "lst' = lst @ [av_group ''DLM-Info'' cs]"
    "search_avp cs ''DLM-Name'' = Some (AvOctets (dm_link_id c))" "search_avp cs ''DLM-Link-Status-List'' = None"
    using assms(1) by (auto simp: add_dlm_info_simple_def add_group_def status_dlm_info_def Let_def search_simps positive_avp_def split: if_splits)
  show ?thesis by (rule that [OF cs(1)]) (use cs assms in \<open>auto simp: disclosed_def av_group_def\<close>)
qed

lemma detail_disclosed:
  assumes "\<forall>a\<in>set lst. disclosed p True ds a"
  shows "\<forall>a\<in>set (add_link_detail env i c lst). disclosed p True ds a"
proof (cases lst rule: rev_cases)
  case (snoc xs l)
  have l: "disclosed p True ds l" "\<forall>a\<in>set xs. disclosed p True ds a" using assms snoc by auto
  then have "disclosed p True ds (DAvp m (AvGroup (children (avp_value l) @ ys)))" for m ys
    by (auto simp: disclosed_def search_append)
  from this [of _ "[]"] this show ?thesis
    using l by (auto simp: add_link_detail_def snoc Let_def finalize_dlm_link_status_list_simple_def add_group_def split: option.split)
qed (simp add: add_link_detail_def)

lemma loop_disclosed:
  assumes "\<forall>a\<in>set lst. disclosed p detail all a" and "set ds \<subseteq> set all"
  shows "\<forall>a\<in>set (fst (status_dlm_loop env (Some p) detail i ds lst n)). disclosed p detail all a"
  using assms
proof (induction ds arbitrary: i lst n)
  case (Cons c ds)
  obtain r lst' where add: "add_dlm_info_simple (ce_ok env ''DLM-Info'' i) (status_dlm_info c) lst = (r, lst')" by force
  have keep: "r \<noteq> 0 \<Longrightarrow> lst' = lst" using add by (auto simp: add_dlm_info_simple_def add_group_def split: if_splits)
  have new: "\<forall>a\<in>set (if detail then add_link_detail env i c lst' else lst'). disclosed p detail all a"
    if "r = 0" "dm_is_registered c" "magic_config_is_dlm_allowed p (Some (dm_link_id c))"
  proof -
    note c = that
    have "c \<in> set all" using Cons.prems(2) by simp
    then obtain a where "lst' = lst @ [a]" "disclosed p detail all a" using info_disclosed [OF _ _ c(2,3)] add c(1) by metis
    then have "\<forall>a\<in>set lst'. disclosed p detail all a" using Cons.prems(1) by simp
    then show ?thesis using detail_disclosed by (cases detail) auto
  qed
  show ?case using Cons.IH Cons.prems keep new by (auto simp: add)
qed simp

lemma add_each_done: "add_each ok k as parent = (0, ans) \<Longrightarrow> ans = parent @ as"
proof (induction as arbitrary: k parent)
  case (Cons a as)
  then show ?case using Cons.IH [of "Suc k" "parent @ [a]"] by (auto split: if_splits)
qed simp

lemma search_result:
  assumes "n \<notin> {''Session-Id'', ''Origin-Host'', ''Origin-Realm'', ''Result-Code''}"
  shows "search_avp (answer_head qry @ result_avps env code @ as) n = search_avp as n"
proof -
  have "search_avp (answer_head qry @ result_avps env code @ as) n = search_avp (result_avps env code @ as) n"
    using assms by (intro search_avp_head) simp
  also have "\<dots> = search_avp as n" using assms by (auto simp: result_avps_def search_Cons av_str_def av_u32_def)
  finally show ?thesis .
qed

lemma plain_answer_shape:
  "plain_answer env code qry w = (0, w') \<Longrightarrow> w' = w\<lparr>wd_answers := wd_answers w @ [answer_head qry @ result_avps env code]\<rparr>"
  by (auto simp: plain_answer_def send_answer_def split: prod.splits if_splits dest: add_each_done)

lemma msxr_answer_shape:
  assumes "msxr_answer env qry profile granted w = Some (0, w')"
  obtains rc dl where "w' = w\<lparr>wd_answers := wd_answers w @ [answer_head qry @ result_avps env 2001 @ [av_u32 ''Status-Type'' granted] @ rc @ dl]\<rparr>"
    "rc = [] \<or> (\<exists>t. rc = [av_str ''Registered-Clients'' t] \<and> registered_clients_text profile granted w \<noteq> Some ([], 0))"
    "dl = [] \<or> dl = [av_group ''DLM-List'' (fst (status_dlm_list env profile granted w))]"
proof -
  obtain r1 a1 where add1: "add_each (ce_add env) 0 (result_avps env 2001 @ [av_u32 ''Status-Type'' granted]) (answer_head qry) = (r1, a1)" by force
  obtain tx ofs where rc: "registered_clients_text profile granted w = Some (tx, ofs)" and r1: "r1 = 0"
    using assms add1 by (auto simp: msxr_answer_def split: if_splits option.splits)
  have a1: "a1 = answer_head qry @ result_avps env 2001 @ [av_u32 ''Status-Type'' granted]" using add_each_done add1 r1 by metis
  let ?rc = "if ofs > 0 then [av_str ''Registered-Clients'' tx] else []"
  let ?dl = "if \<not> granted < 2 \<and> snd (status_dlm_list env profile granted w) > 0 \<and> ce_ok env ''Add-DLM-List'' 0
             then [av_group ''DLM-List'' (fst (status_dlm_list env profile granted w))] else []"
  have w': "w' = w\<lparr>wd_answers := wd_answers w @ [a1 @ ?rc @ ?dl]\<rparr>"
    using assms add1 r1 rc
    by (auto simp: msxr_answer_def send_answer_def Let_def case_prod_beta finalize_dlm_list_simple_def add_group_def split: if_splits)
  show ?thesis
  proof (rule that [of ?rc ?dl])
    show "w' = w\<lparr>wd_answers := wd_answers w @ [answer_head qry @ result_avps env 2001 @ [av_u32 ''Status-Type'' granted] @ ?rc @ ?dl]\<rparr>"
      unfolding w' a1 by simp
  qed (use rc in auto)
qed

lemma status_answer_cases:
  assumes "cic_handle_msxr env now qry w = Some (0, w')" and "find_profile (wd_config w) (read_octets qry ''Origin-Host'' 64 []) = profile"
  obtains (busy) tab where "w' = w\<lparr>wd_rate := tab, wd_answers := wd_answers w @ [answer_head qry @ result_avps env 3004]\<rparr>"
  | (answered) tab where "msxr_answer env qry profile (granted_status profile (requested_status qry)) (w\<lparr>wd_rate := tab\<rparr>) = Some (0, w')"
proof -
  let ?sec = "case profile of None \<Rightarrow> 5 | Some p \<Rightarrow> sc_msxr_rate_limit_sec (cl_session p)"
  obtain r tab where c: "msxr_check_rate_limit now (Some (read_octets qry ''Origin-Host'' 64 [])) ?sec (wd_rate w) = (r, tab)" by force
  have "if r \<noteq> 0 then plain_answer env 3004 qry (w\<lparr>wd_rate := tab\<rparr>) = (0, w')
     else msxr_answer env qry profile (granted_status profile (requested_status qry)) (w\<lparr>wd_rate := tab\<rparr>) = Some (0, w')"
    using assms c by (simp add: cic_handle_msxr_def Let_def split: if_splits)
  then show ?thesis using busy [of tab] answered [of tab] plain_answer_shape [of env 3004 qry "w\<lparr>wd_rate := tab\<rparr>" w'] by (auto split: if_splits)
qed

lemma detail_needs_permission:
  "granted_status (Some p) st = 6 \<or> granted_status (Some p) st = 7 \<Longrightarrow> sc_allow_detailed_status (cl_session p)"
  by (auto simp: granted_status_def split: if_splits)

lemma disclosed_mono: "disclosed p d ds a \<Longrightarrow> (d \<Longrightarrow> d') \<Longrightarrow> disclosed p d' ds a"
  by (auto simp: disclosed_def)


section \<open>Charging data\<close>

definition cdr_list_group :: "string \<Rightarrow> ClientSession list \<Rightarrow> davp list" where
  "cdr_list_group name ss =
     (if ss = [] then [] else [av_group name (map (\<lambda>s. av_group ''CDR-Info'' [av_u32 ''CDR-ID'' (cdr_mark s)]) ss)])"

lemma entry_listed: "(\<And>n i. ce_ok env n i) \<Longrightarrow> cdr_entry env tag i m None = Some [av_group ''CDR-Info'' [av_u32 ''CDR-ID'' m]]"
  by (simp add: cdr_entry_def)

lemma active_loop_list:
  assumes "\<And>n i. ce_ok env n i"
  shows "active_loop env now 1 vis is acc w = (Some (acc @ map (\<lambda>s. av_group ''CDR-Info'' [av_u32 ''CDR-ID'' (cdr_mark s)])
     (filter (\<lambda>s. cs_in_use s \<and> cs_state s = SESSION_STATE_ACTIVE \<and> vis s) (map (wd_session w) is))), w)"
  by (induction "is" arbitrary: acc) (simp_all add: Let_def entry_listed assms)

lemma finished_loop_list:
  assumes "\<And>n i. ce_ok env n i"
  shows "finished_loop env 1 vis is acc w = Some (acc @ map (\<lambda>s. av_group ''CDR-Info'' [av_u32 ''CDR-ID'' (cdr_mark s)])
     (filter (\<lambda>s. cs_in_use s \<and> cs_state s = SESSION_STATE_CLOSED \<and> vis s) (map (wd_session w) is)))"
  by (induction "is" arbitrary: acc) (simp_all add: Let_def entry_listed assms)

lemma all_sessions: "cic_inv w \<Longrightarrow> map (wd_session w) [0..<MAX_SESSIONS] = wd_sessions w"
  using cic_invD(4) [of w] map_nth [of "wd_sessions w"] by (simp add: sess_inv_def mx_sessions_def wd_session_def cong: map_cong)

lemma add_cdr_list_ok:
  assumes "\<And>n i. ce_ok env n i"
  shows "add_cdr_list env name (map (\<lambda>s. av_group ''CDR-Info'' [av_u32 ''CDR-ID'' (cdr_mark s)]) ss) ans = ans @ cdr_list_group name ss"
  by (simp add: add_cdr_list_def cdr_list_group_def add_group_def assms)


lemma macr_rollover_outcome:
  assumes inv: "cic_inv w" and h: "macr_rollover env now target i w = (codes, res, w')"
  shows "fst codes = 2001 \<longleftrightarrow> cdr_find_by_session (cdrs (wd_cdr w)) (Some target) \<noteq> None \<and> find_free_cdr (cdrs (wd_cdr w)) \<noteq> None"
    "fst codes \<noteq> 2001 \<Longrightarrow> wd_mx w' = wd_mx w" "fst codes = 2001 \<Longrightarrow> ro_success res"
proof -
  obtain live bin bout v where t: "current_traffic env now target i w = (live, bin, bout, v)" by (metis prod_cases4)
  obtain r q c where ro: "cdr_rollover (ce_fs env) now (ce_uuid env) (Some target) bin bout (wd_cdr v) = (r, q, c)" by (metis prod_cases3)
  have v: "wd_cdr v = wd_cdr w" "wd_mx v = wd_mx w" using current_traffic_world [of env now target i w] t by simp_all
  have cv: "cdr_inv (cdrs (wd_cdr v))" using cic_invD(2) [OF inv] v by simp
  have ok: "fst codes = 2001 \<longleftrightarrow> r = 0 \<and> ro_success q" "res = q" "fst codes \<noteq> 2001 \<Longrightarrow> w' = v\<lparr>wd_cdr := c\<rparr>"
    using h t ro by (auto simp: macr_rollover_def Let_def split: if_splits)
  have "r = 0 \<and> ro_success q \<longleftrightarrow> cdr_find_by_session (cdrs (wd_cdr v)) (Some target) \<noteq> None \<and> find_free_cdr (cdrs (wd_cdr v)) \<noteq> None"
    using cv ro
  proof (cases rule: rollover_cases)
    case (full k)
    then show ?thesis using cv by (simp add: find_free_cdr_def cdrtab.no_free_slot_iff cdr_inv_def)
  qed auto
  then show "fst codes = 2001 \<longleftrightarrow> cdr_find_by_session (cdrs (wd_cdr w)) (Some target) \<noteq> None \<and> find_free_cdr (cdrs (wd_cdr w)) \<noteq> None"
    using ok(1) v by simp
  show "fst codes \<noteq> 2001 \<Longrightarrow> wd_mx w' = wd_mx w" "fst codes = 2001 \<Longrightarrow> ro_success res" using ok v by auto
qed

text \<open>The profile behind the session of the requester, if it has both.\<close>

definition requester_profile :: "string \<Rightarrow> cic_world \<Rightarrow> ClientProfile option" where
  "requester_profile requester w =
     (if requester = [] then None
      else case magic_session_find_by_id (mx_sm (wd_mx w)) (Some requester) of None \<Rightarrow> None
           | Some i \<Rightarrow> find_profile (wd_config w) (cs_client_id (wd_session w i)))"

text \<open>
  C36. A request to split a charging record succeeds exactly when the target is an active or authenticated
  session with an open record, there is a free record, and the requester is the target itself or has no
  profile that forbids it: a requester whose session or profile is unknown may control every record. A
  refused request leaves sessions, links and routes alone.
\<close>

theorem control_request_succeeds_iff:
  assumes inv: "cic_inv w"
  shows "let (codes, res, w') = macr_process env now requester target w in
    (fst codes = 2001 \<longleftrightarrow>
       target \<noteq> [] \<and> (\<exists>i. magic_session_find_by_id (mx_sm (wd_mx w)) (Some target) = Some i
         \<and> cs_state (wd_session w i) \<in> {SESSION_STATE_ACTIVE, SESSION_STATE_AUTHENTICATED})
       \<and> (requester = target \<or> (\<forall>p. requester_profile requester w = Some p \<longrightarrow> sc_allow_cdr_control (cl_session p)))
       \<and> cdr_find_by_session (cdrs (wd_cdr w)) (Some target) \<noteq> None \<and> find_free_cdr (cdrs (wd_cdr w)) \<noteq> None)
    \<and> (fst codes = 2001 \<longrightarrow> ro_success res) \<and> (fst codes \<noteq> 2001 \<longrightarrow> wd_mx w' = wd_mx w)"
proof (cases "macr_refusal requester target w")
  case (Some e)
  then show ?thesis
    by (auto simp: macr_process_def macr_refusal_def requester_profile_def Let_def split: if_splits option.splits)
next
  case None
  then obtain i where i: "magic_session_find_by_id (mx_sm (wd_mx w)) (Some target) = Some i"
    and st: "target \<noteq> []" "cs_state (wd_session w i) \<in> {SESSION_STATE_ACTIVE, SESSION_STATE_AUTHENTICATED}"
    by (auto simp: macr_refusal_def Let_def split: if_splits option.splits)
  have auth: "requester = target \<or> (\<forall>p. requester_profile requester w = Some p \<longrightarrow> sc_allow_cdr_control (cl_session p))"
    using None by (auto simp: macr_refusal_def requester_profile_def Let_def split: if_splits option.splits)
  obtain codes res w' where h: "macr_rollover env now target i w = (codes, res, w')" by (metis prod_cases3)
  show ?thesis using macr_rollover_outcome [OF inv h] i st auth by (simp add: macr_process_def None h)
qed

section \<open>Witnesses\<close>

lemma demo_found: "magic_session_find_by_id (mx_sm (wd_mx demo_world)) (Some ''s1'') = Some 0"
proof -
  have "cs_in_use (wd_session demo_world 0)" "cs_session_id (wd_session demo_world 0) = ''s1''"
    by (simp_all add: demo_sessions demo_session_def)
  then show ?thesis
    using demo_sessions(1) by (simp add: magic_session_find_by_id_def find_idx_Some_iff wd_session_def mx_sessions_def)
qed

lemma demo_ready: "tmc_is_initialized (tm (wd_tm demo_world))" "dp_is_initialized (dp (mx_dp (wd_mx demo_world)))"
proof -
  have "dp_is_initialized (dp (snd (magic_dataplane_init os a b d)))" for os a b d
    using init_dp [of os a b d] by (auto simp: zero_dp_def)
  then show "dp_is_initialized (dp (mx_dp (wd_mx demo_world)))" by (simp add: demo_world_def demo_links_def)
  show "tmc_is_initialized (tm (wd_tm demo_world))" using demo_tm_facts(3) by (simp add: demo_world_def)
qed


lemma listing_length: "length t + sum_list (map (\<lambda>c. length (kc_client_id c)) cs) \<le> length (listing cs t)"
proof (induction cs arbitrary: t)
  case (Cons c cs)
  from Cons.IH [of "t @ client_piece (length t) c"] show ?case by (simp add: client_piece_def)
qed simp

lemma clients_overflow:
  "n < length cs \<Longrightarrow> CLIENTS_STR_LEN < length (listing (take n cs) []) \<Longrightarrow> clients_text cs [] 0 = None"
  using clients_text_eq [of cs "[]"] by auto

text \<open>Twenty clients with names of sixty bytes are enough.\<close>

lemma client_list_overflow_example:
  assumes "length name = 60"
  shows "clients_text (replicate 20 \<lparr>kc_client_id = name, kc_session_count = 1, kc_first_session_id = []\<rparr>) [] 0 = None"
proof -
  let ?c = "\<lparr>kc_client_id = name, kc_session_count = 1, kc_first_session_id = []\<rparr>"
  have "length (listing (replicate 19 ?c) []) > CLIENTS_STR_LEN"
    using listing_length [of "[]" "replicate 19 ?c"] assms by (simp add: sum_list_replicate del: replicate.simps)
  then have "length (listing (take 19 (replicate 20 ?c)) []) > CLIENTS_STR_LEN \<and> (19 :: nat) < length (replicate 20 ?c)"
    by simp
  then show ?thesis using clients_overflow by blast
qed


definition demo_query :: "davp list" where
  "demo_query = [DAvp (Some ''Origin-Host'') (AvOctets ''efb''), DAvp (Some ''Status-Type'') (AvU32 6)]"

lemma demo_query_facts:
  "read_octets demo_query ''Origin-Host'' 64 [] = ''efb''" "requested_status demo_query = 6" "answer_head demo_query = []"
  "find_profile (wd_config demo_world) ''efb'' = Some demo_account" "granted_status (Some demo_account) 6 = 2"
  by (simp_all add: demo_query_def read_octets_def search_avp_def copy_octets_def requested_status_def answer_head_def
      find_profile_def magic_config_find_client_def demo_world_def used_part_def demo_account_def granted_status_def zero_profile_def)



theorem control_request_succeeds_iff_witness:
  "fst (fst (macr_process demo_cic_env 50 [] ''s1'' demo_world)) = 2001"
proof -
  have "cs_state (wd_session demo_world 0) = SESSION_STATE_ACTIVE" "wd_cdr demo_world = demo_cdrs"
    by (simp_all add: demo_sessions demo_session_def) (simp add: demo_world_def)
  then show ?thesis
    using control_request_succeeds_iff [OF demo_world_inv, of demo_cic_env 50 "[]" "''s1''"] demo_found demo_cdrs_facts
    by (simp add: case_prod_beta requester_profile_def sole_active_def)
qed

end
