(* ===== verification/Cic_Aircraft.thy ===== *)
theory Cic_Aircraft
  imports Cic_Mccr
begin

text \<open>
  What a change of the aircraft state does to the sessions (\<open>on_adif_state_changed\<close> of
  \<open>app_magic/magic_cic.c\<close>): sessions that are no longer allowed are closed, the others are moved when the
  policy engine now prefers another link.
\<close>

section \<open>Conditions\<close>

definition check_session_activation_conditions :: "AdifAircraftState \<Rightarrow> ClientProfile \<Rightarrow> bool" where
  "check_session_activation_conditions state p =
     magic_config_is_flight_phase_allowed p (adif_to_cfg_phase (af_phase (ad_flight_phase state)))"

fun policy_phase_name :: "AdifFlightPhase \<Rightarrow> string" where
  "policy_phase_name FLIGHT_PHASE_GATE = ''GATE''"
| "policy_phase_name FLIGHT_PHASE_TAXI = ''TAXI''"
| "policy_phase_name FLIGHT_PHASE_TAKEOFF = ''TAKE-OFF''"
| "policy_phase_name FLIGHT_PHASE_CLIMB = ''CLIMB''"
| "policy_phase_name FLIGHT_PHASE_CRUISE = ''CRUISE''"
| "policy_phase_name FLIGHT_PHASE_DESCENT = ''DESCENT''"
| "policy_phase_name FLIGHT_PHASE_APPROACH = ''APPROACH''"
| "policy_phase_name FLIGHT_PHASE_LANDING = ''LANDING''"
| "policy_phase_name FLIGHT_PHASE_UNKNOWN = ''GATE''"

definition reevaluation_request :: "ClientSession \<Rightarrow> AdifAircraftState \<Rightarrow> PolicyRequest" where
  "reevaluation_request s state =
     \<lparr>rq_client_id = strncpy_buf 63 (cs_client_id s), rq_profile_name = [],
      rq_requested_bw_kbps = cs_granted_bw_kbps s, rq_requested_ret_bw_kbps = cs_granted_ret_bw_kbps s,
      rq_required_bw_kbps = cs_granted_bw_kbps s div 2, rq_required_ret_bw_kbps = cs_granted_ret_bw_kbps s div 2,
      rq_priority_class = 0, rq_qos_level = 0, rq_traffic_class = 0,
      rq_flight_phase = policy_phase_name (af_phase (ad_flight_phase state)), rq_exclude_link_count = 0,
      rq_exclude_links = [], rq_current_link_id = [], rq_current_bw_percent = 0, rq_new_link_bw_percent = 0,
      rq_aircraft_lat = ap_latitude (ad_position state), rq_aircraft_lon = ap_longitude (ad_position state),
      rq_aircraft_alt = to_double (ap_altitude_ft (ad_position state) * to_double (3048 / 10000)),
      rq_on_ground = aw_on_ground (ad_wow state), rq_has_adif_data = True\<rparr>"

definition reevaluate_session_link :: "nat \<Rightarrow> AdifAircraftState \<Rightarrow> cic_world \<Rightarrow> string option" where
  "reevaluate_session_link i state w =
     (let s = wd_session w i;
          (r, prs) = magic_policy_select_path (policy_ctx w) (reevaluation_request s state)
      in if r \<noteq> 0 \<or> \<not> rs_success prs then None
         else if cs_assigned_link_id s = rs_selected_link_id prs then None
         else Some (strncpy_buf 63 (rs_selected_link_id prs)))"

section \<open>Handover\<close>

definition handover_release :: "string \<Rightarrow> ClientSession \<Rightarrow> MIH_Link_Resource_Request" where
  "handover_release old s =
     \<lparr>lq_destination_id = snprintf_buf 64 (''MIHF_'' @ old), lq_link_identifier = zero_link_tuple\<lparr>lt_link_addr := strncpy_buf 31 old\<rparr>,
      lq_resource_action = RESOURCE_ACTION_RELEASE,
      lq_bearer_identifier = (if cs_bearer_id s > 0 then Some (cs_bearer_id s) else None), lq_qos_parameters = None\<rparr>"

definition handover_request :: "string \<Rightarrow> ClientSession \<Rightarrow> MIH_Link_Resource_Request" where
  "handover_request new s =
     \<lparr>lq_destination_id = snprintf_buf 64 (''MIHF_'' @ new), lq_link_identifier = zero_link_tuple\<lparr>lt_link_addr := strncpy_buf 31 new\<rparr>,
      lq_resource_action = RESOURCE_ACTION_REQUEST, lq_bearer_identifier = None,
      lq_qos_parameters = Some (zero_qos\<lparr>qp_cos_id := 0, qp_forward_link_rate := cs_granted_bw_kbps s,
        qp_return_link_rate := cs_granted_ret_bw_kbps s\<rparr>)\<rparr>"

text \<open>From the new bearer on: register the link, move the filters, note the link in the session, tell the client.\<close>

definition handover_finish :: "cic_env \<Rightarrow> int \<Rightarrow> nat \<Rightarrow> string \<Rightarrow> u8 \<Rightarrow> cic_world \<Rightarrow> cic_world" where
  "handover_finish env now i new bearer w =
     (let w = ensure_link_registered env new w;
          w = upd_dp (\<lambda>d. snd (magic_dataplane_switch_client_link (ce_os env) (Some (cs_session_id (wd_session w i))) (Some new) d)) w;
          w = upd_session i (\<lambda>s. s\<lparr>cs_assigned_link_id := strncpy_buf 63 new, cs_bearer_id := bearer\<rparr>) w;
          gw = magic_dataplane_get_link_gateway (dp (mx_dp (wd_mx w))) (Some new) 64;
          w = (case gw of None \<Rightarrow> w | Some g \<Rightarrow> upd_session i (\<lambda>s. s\<lparr>cs_gateway_ip := strncpy_buf 63 g\<rparr>) w)
      in w\<lparr>wd_mx := snd (magic_cic_on_handover (ce_dia env) now i (Some new) (Some (case gw of None \<Rightarrow> [] | Some g \<Rightarrow> g)) (wd_mx w))\<rparr>)"

definition perform_link_handover :: "cic_env \<Rightarrow> int \<Rightarrow> nat \<Rightarrow> string \<Rightarrow> string \<Rightarrow> cic_world \<Rightarrow> int \<times> cic_world" where
  "perform_link_handover env now i old new w =
     (let x = (if old = [] then wd_mx w
               else snd (snd (magic_dlm_mih_link_resource_request now (handover_release old (wd_session w i)) (wd_mx w))));
          w = w\<lparr>wd_mx := x\<rparr>;
          (r, confirm, x) = magic_dlm_mih_link_resource_request now (handover_request new (wd_session w i)) (wd_mx w);
          w = w\<lparr>wd_mx := x\<rparr>
      in if r \<noteq> 0 \<or> lf_status confirm \<noteq> STATUS_SUCCESS then (-1, w)
         else (0, handover_finish env now i new (case lf_bearer_identifier confirm of None \<Rightarrow> 0 | Some b \<Rightarrow> b) w))"

section \<open>The callback\<close>

definition termination_request :: "ClientSession \<Rightarrow> MIH_Link_Resource_Request" where
  "termination_request s =
     \<lparr>lq_destination_id = snprintf_buf 64 (''MIHF_'' @ cs_assigned_link_id s), lq_link_identifier = zero_link_tuple,
      lq_resource_action = RESOURCE_ACTION_RELEASE, lq_bearer_identifier = None, lq_qos_parameters = None\<rparr>"

definition terminate_session :: "cic_env \<Rightarrow> int \<Rightarrow> nat \<Rightarrow> cic_world \<Rightarrow> cic_world" where
  "terminate_session env now i w =
     (let w = upd_session i (\<lambda>s. snd (magic_session_set_state now SESSION_STATE_CLOSED s)) w;
          s = wd_session w i
      in if cs_assigned_link_id s = [] then w
         else
           let (r, confirm, x) = magic_dlm_mih_link_resource_request now (termination_request s) (wd_mx w)
           in upd_dp (\<lambda>d. snd (magic_dataplane_remove_client_route (ce_os env) (Some (cs_session_id s)) d)) (w\<lparr>wd_mx := x\<rparr>))"

definition reevaluate_session :: "cic_env \<Rightarrow> int \<Rightarrow> AdifAircraftState \<Rightarrow> nat \<Rightarrow> cic_world \<Rightarrow> cic_world" where
  "reevaluate_session env now state i w =
     (let s = wd_session w i
      in case find_profile (mx_config (wd_mx w)) (cs_client_id s) of
           None \<Rightarrow> w
         | Some p \<Rightarrow>
             if \<not> check_session_activation_conditions state p then terminate_session env now i w
             else if cs_state s = SESSION_STATE_ACTIVE \<and> cs_assigned_link_id s \<noteq> []
             then (case reevaluate_session_link i state w of
                     None \<Rightarrow> w
                   | Some new \<Rightarrow> snd (perform_link_handover env now i (strncpy_buf 63 (cs_assigned_link_id s)) new w))
             else w)"

definition on_adif_state_changed :: "cic_env \<Rightarrow> int \<Rightarrow> AdifAircraftState \<Rightarrow> cic_world \<Rightarrow> cic_world" where
  "on_adif_state_changed env now state w =
     fold (reevaluate_session env now state) (magic_session_get_active_sessions (mx_sm (wd_mx w)) (int MAX_SESSIONS)) w"

end
