(* ===== verification/Cic_Aircraft_Props.thy ===== *)
theory Cic_Aircraft_Props
  imports Cic_Aircraft Cic_Mccr_Props
begin

text \<open>
  Properties of the reaction to the aircraft state: the server invariant, which sessions it closes, and
  what a handover does to the session and to the bearers.
\<close>

section \<open>The invariant\<close>

lemma handover_notice_inv: "ctx_inv x \<Longrightarrow> ctx_inv (snd (magic_cic_on_handover env now i lid gw x))"
  using lmi_step_inv [of x env undefined "Notify (Handover now i lid gw)"] by simp

lemma gentle_handover [cic_intro]:
  "gentle (\<lambda>s. s\<lparr>cs_assigned_link_id := l, cs_bearer_id := b\<rparr>)" "gentle (\<lambda>s. s\<lparr>cs_gateway_ip := g\<rparr>)"
  by (rule gentleI; simp)+

lemma handover_finish_inv:
  assumes "cic_inv w" and "length new \<le> 63"
  shows "cic_inv (handover_finish env now i new bearer w)"
  unfolding handover_finish_def Let_def
  by (intro set_mx_inv handover_notice_inv cic_invD(1))
    (auto split: option.split intro!: upd_session_inv gentle_handover upd_dp_inv switch_client_inv ensure_link_inv assms)

lemma request_inv: "cic_inv w \<Longrightarrow> cic_inv (w\<lparr>wd_mx := snd (snd (magic_dlm_mih_link_resource_request now req (wd_mx w)))\<rparr>)"
  by (intro set_mx_inv resource_request_inv cic_invD(1))

text \<open>The world between the release of the old bearer and the request for a new one.\<close>

definition released_world :: "int \<Rightarrow> nat \<Rightarrow> string \<Rightarrow> cic_world \<Rightarrow> cic_world" where
  "released_world now i old w =
     (if old = [] then w
      else w\<lparr>wd_mx := snd (snd (magic_dlm_mih_link_resource_request now (handover_release old (wd_session w i)) (wd_mx w)))\<rparr>)"

lemma handover_split:
  assumes "magic_dlm_mih_link_resource_request now (handover_request new (wd_session (released_world now i old w) i))
             (wd_mx (released_world now i old w)) = (r, confirm, x)"
  shows "perform_link_handover env now i old new w =
     (if r \<noteq> 0 \<or> lf_status confirm \<noteq> STATUS_SUCCESS then (-1, (released_world now i old w)\<lparr>wd_mx := x\<rparr>)
      else (0, handover_finish env now i new (case lf_bearer_identifier confirm of None \<Rightarrow> 0 | Some b \<Rightarrow> b)
                 ((released_world now i old w)\<lparr>wd_mx := x\<rparr>)))"
  using assms by (cases "old = []") (simp_all add: perform_link_handover_def released_world_def Let_def case_prod_beta)

lemma released_inv: "cic_inv w \<Longrightarrow> cic_inv (released_world now i old w)"
  using request_inv by (simp add: released_world_def)

lemma handover_inv:
  assumes "cic_inv w" and "length new \<le> 63"
  shows "cic_inv (snd (perform_link_handover env now i old new w))"
proof -
  let ?v = "released_world now i old w"
  obtain r confirm x where h: "magic_dlm_mih_link_resource_request now (handover_request new (wd_session ?v i)) (wd_mx ?v) = (r, confirm, x)"
    by (metis prod_cases3)
  have "cic_inv (?v\<lparr>wd_mx := x\<rparr>)" using request_inv [OF released_inv [OF assms(1)]] h by (metis snd_conv)
  then show ?thesis using handover_finish_inv assms(2) by (simp add: handover_split [OF h])
qed

lemma terminate_inv: "cic_inv w \<Longrightarrow> cic_inv (terminate_session env now i w)"
  by (auto simp: terminate_session_def Let_def case_prod_beta
      intro!: upd_dp_inv remove_route_inv request_inv upd_session_inv gentle_set_state)

lemma reevaluated_length: "reevaluate_session_link i state w = Some new \<Longrightarrow> length new \<le> 63"
  by (auto simp: reevaluate_session_link_def Let_def strncpy_buf_length split: prod.splits if_splits)

lemma reevaluate_inv: "cic_inv w \<Longrightarrow> cic_inv (reevaluate_session env now state i w)"
  by (auto simp: reevaluate_session_def Let_def split: option.split intro: terminate_inv handover_inv reevaluated_length)

lemma adif_inv: "cic_inv w \<Longrightarrow> cic_inv (on_adif_state_changed env now state w)"
proof -
  have "cic_inv w \<Longrightarrow> cic_inv (fold (reevaluate_session env now state) is w)" for "is"
    by (induction "is" arbitrary: w) (auto intro: reevaluate_inv)
  then show "cic_inv w \<Longrightarrow> cic_inv (on_adif_state_changed env now state w)" by (simp add: on_adif_state_changed_def)
qed

section \<open>Frames\<close>

lemma core_eqD2:
  assumes "core s = core t"
  shows "cs_bearer_id s = cs_bearer_id t" "cs_previous_link_id s = cs_previous_link_id t"
  using assms by (cases s; cases t; simp add: core_def)+

lemma on_handover_effect:
  assumes x'_def: "x' = snd (magic_cic_on_handover env now i (Some lid) gw x)" and len: "i < length (mx_sessions x)"
  obtains s where "mx_sessions x' = (mx_sessions x)[i := s]" "rest x' = rest x"
    "cs_in_use s = cs_in_use (mx_sessions x ! i)" "cs_client_id s = cs_client_id (mx_sessions x ! i)"
    "cs_state s = cs_state (mx_sessions x ! i)" "cs_bearer_id s = cs_bearer_id (mx_sessions x ! i)"
    "cs_assigned_link_id s = strncpy_buf 63 lid" "cs_previous_link_id s = strncpy_buf 63 (cs_assigned_link_id (mx_sessions x ! i))"
proof -
  define s1 where "s1 = (case non_empty gw of None \<Rightarrow> mx_sessions x ! i | Some g \<Rightarrow> (mx_sessions x ! i)\<lparr>cs_gateway_ip := strncpy_buf 63 g\<rparr>)"
  define s2 where "s2 = s1\<lparr>cs_previous_link_id := strncpy_buf 63 (cs_assigned_link_id s1), cs_assigned_link_id := strncpy_buf 63 lid,
                      cs_last_link_switch_time := now, cs_last_activity := now\<rparr>"
  obtain ps where x': "x' = snd (magic_cic_send_mntr env now i ps (set_session i s2 x))"
    unfolding x'_def magic_cic_on_handover_def s2_def s1_def by (simp add: Let_def)
  obtain s n q where r: "core s = core (mx_sessions (set_session i s2 x) ! i)"
    "x' = (set_session i s (set_session i s2 x))\<lparr>mx_attempts := n, mx_pushes := q\<rparr>"
    using send_mntr_reported [of i "set_session i s2 x" env now ps] unfolding x' [symmetric] reported_def by blast
  have c: "core s = core s2" using r(1) len by (simp add: mx_sessions_def set_session_def)
  have s1: "cs_in_use s1 = cs_in_use (mx_sessions x ! i)" "cs_client_id s1 = cs_client_id (mx_sessions x ! i)"
    "cs_state s1 = cs_state (mx_sessions x ! i)" "cs_bearer_id s1 = cs_bearer_id (mx_sessions x ! i)"
    "cs_assigned_link_id s1 = cs_assigned_link_id (mx_sessions x ! i)"
    by (simp_all add: s1_def split: option.split)
  show ?thesis
    by (rule that [of s]) (use r(2) core_eqD [OF c] core_eqD2 [OF c] s1 in \<open>simp_all add: s2_def set_session_def mx_sessions_def rest_def\<close>)
qed

lemma request_frame:
  "wd_config (w\<lparr>wd_mx := snd (snd (magic_dlm_mih_link_resource_request now req (wd_mx w)))\<rparr>) = wd_config w"
  "wd_sessions (w\<lparr>wd_mx := snd (snd (magic_dlm_mih_link_resource_request now req (wd_mx w)))\<rparr>) = wd_sessions w"
  by (simp_all add: request_config mx_sessions_def)

lemma released_frame:
  "wd_config (released_world now i old w) = wd_config w" "wd_sessions (released_world now i old w) = wd_sessions w"
  using request_frame by (simp_all add: released_world_def)

lemma finish_effect:
  assumes "i < length (wd_sessions w)" and w': "w' = handover_finish env now i new bearer w"
  shows "wd_config w' = wd_config w" "wd_lmi w' = wd_lmi w"
    "\<exists>s. wd_sessions w' = (wd_sessions w)[i := s] \<and> cs_in_use s = cs_in_use (wd_session w i) \<and> cs_client_id s = cs_client_id (wd_session w i)
       \<and> cs_state s = cs_state (wd_session w i) \<and> cs_bearer_id s = bearer \<and> cs_assigned_link_id s = strncpy_buf 63 new
       \<and> cs_previous_link_id s = strncpy_buf 63 new"
proof -
  define v where "v = upd_session i (\<lambda>s. s\<lparr>cs_assigned_link_id := strncpy_buf 63 new, cs_bearer_id := bearer\<rparr>)
    (upd_dp (\<lambda>d. snd (magic_dataplane_switch_client_link (ce_os env) (Some (cs_session_id (wd_session (ensure_link_registered env new w) i))) (Some new) d))
       (ensure_link_registered env new w))"
  define gw where "gw = magic_dataplane_get_link_gateway (dp (mx_dp (wd_mx v))) (Some new) 64"
  define u where "u = (case gw of None \<Rightarrow> v | Some g \<Rightarrow> upd_session i (\<lambda>s. s\<lparr>cs_gateway_ip := strncpy_buf 63 g\<rparr>) v)"
  have v: "wd_config v = wd_config w" "wd_lmi v = wd_lmi w"
    "wd_sessions v = (wd_sessions w)[i := (wd_session w i)\<lparr>cs_assigned_link_id := strncpy_buf 63 new, cs_bearer_id := bearer\<rparr>]"
    by (simp_all add: v_def cic_frame)
  have vs: "wd_session v i = (wd_session w i)\<lparr>cs_assigned_link_id := strncpy_buf 63 new, cs_bearer_id := bearer\<rparr>"
    using v(3) assms(1) by (simp add: wd_session_def)
  have "\<exists>s. wd_sessions u = (wd_sessions w)[i := s] \<and> cs_in_use s = cs_in_use (wd_session w i) \<and> cs_client_id s = cs_client_id (wd_session w i)
      \<and> cs_state s = cs_state (wd_session w i) \<and> cs_bearer_id s = bearer \<and> cs_assigned_link_id s = strncpy_buf 63 new"
    by (cases gw) (auto simp: u_def cic_frame v vs)
  then obtain t where t: "wd_sessions u = (wd_sessions w)[i := t]" "cs_in_use t = cs_in_use (wd_session w i)" "cs_client_id t = cs_client_id (wd_session w i)"
      "cs_state t = cs_state (wd_session w i)" "cs_bearer_id t = bearer" "cs_assigned_link_id t = strncpy_buf 63 new" by blast
  have u: "wd_config u = wd_config w" "wd_lmi u = wd_lmi w" by (simp_all add: u_def cic_frame v split: option.split)
  have e: "w' = u\<lparr>wd_mx := snd (magic_cic_on_handover (ce_dia env) now i (Some new) (Some (case gw of None \<Rightarrow> [] | Some g \<Rightarrow> g)) (wd_mx u))\<rparr>"
    unfolding w' handover_finish_def Let_def v_def [symmetric] gw_def [symmetric] u_def [symmetric] ..
  have tu: "mx_sessions (wd_mx u) ! i = t" "i < length (mx_sessions (wd_mx u))" using t(1) assms(1) by simp_all
  obtain s where s: "wd_sessions w' = (wd_sessions u)[i := s]" "rest (wd_mx w') = rest (wd_mx u)"
    "cs_in_use s = cs_in_use t" "cs_client_id s = cs_client_id t" "cs_state s = cs_state t" "cs_bearer_id s = cs_bearer_id t"
    "cs_assigned_link_id s = strncpy_buf 63 new" "cs_previous_link_id s = strncpy_buf 63 (cs_assigned_link_id t)"
    using on_handover_effect [OF refl tu(2), of "ce_dia env" now new "Some (case gw of None \<Rightarrow> [] | Some g \<Rightarrow> g)"] unfolding e tu(1) by auto
  show "wd_config w' = wd_config w" "wd_lmi w' = wd_lmi w" using rest_eqD [OF s(2)] u by simp_all
  show "\<exists>s. wd_sessions w' = (wd_sessions w)[i := s] \<and> cs_in_use s = cs_in_use (wd_session w i) \<and> cs_client_id s = cs_client_id (wd_session w i)
       \<and> cs_state s = cs_state (wd_session w i) \<and> cs_bearer_id s = bearer \<and> cs_assigned_link_id s = strncpy_buf 63 new
       \<and> cs_previous_link_id s = strncpy_buf 63 new"
    using s t by (intro exI [of _ s]) (simp add: strncpy_buf_def)
qed

lemma handover_effect:
  assumes inv: "cic_inv w" and i: "i < length (wd_sessions w)" and h: "perform_link_handover env now i old new w = (r, w')"
  shows "wd_config w' = wd_config w"
    "r \<noteq> 0 \<Longrightarrow> wd_sessions w' = wd_sessions w \<and> wd_mx w' = wd_mx (released_world now i old w)"
    "r = 0 \<Longrightarrow> total_bearers (wd_mx w') = total_bearers (wd_mx (released_world now i old w)) + 1
       \<and> (\<exists>s. wd_sessions w' = (wd_sessions w)[i := s] \<and> cs_in_use s = cs_in_use (wd_session w i)
            \<and> cs_client_id s = cs_client_id (wd_session w i) \<and> cs_state s = cs_state (wd_session w i) \<and> cs_bearer_id s \<noteq> 0
            \<and> cs_assigned_link_id s = strncpy_buf 63 new \<and> cs_previous_link_id s = strncpy_buf 63 new)"
proof -
  let ?v = "released_world now i old w"
  obtain q confirm x where a: "magic_dlm_mih_link_resource_request now (handover_request new (wd_session ?v i)) (wd_mx ?v) = (q, confirm, x)"
    by (metis prod_cases3)
  let ?u = "?v\<lparr>wd_mx := x\<rparr>"
  have u: "wd_config ?u = wd_config w" "wd_sessions ?u = wd_sessions w"
    using request_frame [where w = ?v and now = now and req = "handover_request new (wd_session ?v i)"] a by (simp_all add: released_frame)
  then have us: "wd_session ?u i = wd_session w i" by (simp add: wd_session_def)
  have eff: "q = 0 \<and> lf_status confirm = STATUS_SUCCESS \<and> total_bearers x = total_bearers (wd_mx ?v) + 1
      \<and> (\<exists>b. lf_bearer_identifier confirm = Some b \<and> b \<noteq> 0) \<or> q \<noteq> 0 \<and> x = wd_mx ?v"
    using mih_request_effect [OF cic_invD(1) [OF released_inv [OF inv]] _ _ a] by (auto simp: handover_request_def)
  have iu: "i < length (wd_sessions ?u)" using i u by simp
  note fin = finish_effect [OF iu refl, unfolded us u, of env now new]
  have tot: "total_bearers (wd_mx (handover_finish env now i new b ?u)) = total_bearers x" for b
    using total_bearers_cong [OF fin(2)] by simp
  have "wd_config w' = wd_config w \<and> (r \<noteq> 0 \<longrightarrow> wd_sessions w' = wd_sessions w \<and> wd_mx w' = wd_mx ?v) \<and>
    (r = 0 \<longrightarrow> total_bearers (wd_mx w') = total_bearers (wd_mx ?v) + 1
       \<and> (\<exists>s. wd_sessions w' = (wd_sessions w)[i := s] \<and> cs_in_use s = cs_in_use (wd_session w i)
            \<and> cs_client_id s = cs_client_id (wd_session w i) \<and> cs_state s = cs_state (wd_session w i) \<and> cs_bearer_id s \<noteq> 0
            \<and> cs_assigned_link_id s = strncpy_buf 63 new \<and> cs_previous_link_id s = strncpy_buf 63 new))"
  proof (cases "q = 0")
    case True
    then obtain b where b: "lf_status confirm = STATUS_SUCCESS" "lf_bearer_identifier confirm = Some b" "b \<noteq> 0"
      "total_bearers x = total_bearers (wd_mx ?v) + 1" using eff by auto
    then have "r = 0" "w' = handover_finish env now i new b ?u" using h True unfolding handover_split [OF a] by auto
    then show ?thesis using fin(1) fin(3) [of b] tot b(3,4) by metis
  next
    case False
    then have "r = -1" "w' = ?u" "x = wd_mx ?v" using h eff unfolding handover_split [OF a] by auto
    then show ?thesis using u by simp
  qed
  then show "wd_config w' = wd_config w"
    "r \<noteq> 0 \<Longrightarrow> wd_sessions w' = wd_sessions w \<and> wd_mx w' = wd_mx ?v"
    "r = 0 \<Longrightarrow> total_bearers (wd_mx w') = total_bearers (wd_mx ?v) + 1
       \<and> (\<exists>s. wd_sessions w' = (wd_sessions w)[i := s] \<and> cs_in_use s = cs_in_use (wd_session w i)
            \<and> cs_client_id s = cs_client_id (wd_session w i) \<and> cs_state s = cs_state (wd_session w i) \<and> cs_bearer_id s \<noteq> 0
            \<and> cs_assigned_link_id s = strncpy_buf 63 new \<and> cs_previous_link_id s = strncpy_buf 63 new)" by blast+
qed

section \<open>The callback over the session table\<close>

text \<open>The client has a profile that does not allow the phase.\<close>

definition barred :: "MagicConfig \<Rightarrow> AdifAircraftState \<Rightarrow> ClientSession \<Rightarrow> bool" where
  "barred cfg state s \<longleftrightarrow> (case find_profile cfg (cs_client_id s) of None \<Rightarrow> False
     | Some p \<Rightarrow> \<not> check_session_activation_conditions state p)"

lemma terminate_effect:
  "wd_config (terminate_session env now i w) = wd_config w"
  "wd_sessions (terminate_session env now i w) = (wd_sessions w)[i := snd (magic_session_set_state now SESSION_STATE_CLOSED (wd_session w i))]"
  by (simp_all add: terminate_session_def Let_def case_prod_beta cic_frame request_config mx_sessions_def)
    (simp_all add: upd_session_def set_session_def wd_session_def mx_sessions_def)

lemma reevaluate_outcome:
  "reevaluate_session env now state i w =
     (if barred (wd_config w) state (wd_session w i) then terminate_session env now i w else w)
   \<or> \<not> barred (wd_config w) state (wd_session w i) \<and>
     (\<exists>old new. reevaluate_session env now state i w = snd (perform_link_handover env now i old new w))"
  by (auto simp: reevaluate_session_def barred_def Let_def split: option.split)

lemma reevaluate_effect:
  assumes "cic_inv w" and "i < length (wd_sessions w)"
  shows "wd_config (reevaluate_session env now state i w) = wd_config w \<and>
    (\<exists>s. wd_sessions (reevaluate_session env now state i w) = (wd_sessions w)[i := s] \<and> cs_in_use s = cs_in_use (wd_session w i)
       \<and> cs_client_id s = cs_client_id (wd_session w i)
       \<and> cs_state s = (if barred (wd_config w) state (wd_session w i) then SESSION_STATE_CLOSED else cs_state (wd_session w i)))"
proof -
  have same: "wd_sessions w = (wd_sessions w)[i := wd_session w i]" by (simp add: wd_session_def)
  consider (closed) "barred (wd_config w) state (wd_session w i)" "reevaluate_session env now state i w = terminate_session env now i w"
    | (kept) "\<not> barred (wd_config w) state (wd_session w i)" "reevaluate_session env now state i w = w"
    | (moved) old new where "\<not> barred (wd_config w) state (wd_session w i)"
        "reevaluate_session env now state i w = snd (perform_link_handover env now i old new w)"
    using reevaluate_outcome [of env now state i w] by (auto split: if_splits)
  then show ?thesis
  proof cases
    case closed
    then show ?thesis by (auto simp: terminate_effect magic_session_set_state_def)
  next
    case kept
    then show ?thesis using same by metis
  next
    case (moved old new)
    obtain r w' where h: "perform_link_handover env now i old new w = (r, w')" by force
    note e = handover_effect [OF assms h]
    have w': "reevaluate_session env now state i w = w'" using moved h by simp
    show ?thesis
    proof (cases "r = 0")
      case True
      then show ?thesis using e(1) e(3) moved(1) unfolding w' by auto
    next
      case False
      then have "wd_sessions w' = (wd_sessions w)[i := wd_session w i]" using e(2) same by metis
      then show ?thesis using e(1) moved(1) unfolding w' by auto
    qed
  qed
qed

lemma reevaluate_all:
  assumes "cic_inv w" and "distinct is" and "\<forall>i\<in>set is. i < length (wd_sessions w)"
  shows "wd_config (fold (reevaluate_session env now state) is w) = wd_config w
    \<and> length (wd_sessions (fold (reevaluate_session env now state) is w)) = length (wd_sessions w)
    \<and> (\<forall>j < length (wd_sessions w).
         (let s = wd_session w j; s' = wd_session (fold (reevaluate_session env now state) is w) j in
          cs_in_use s' = cs_in_use s \<and> cs_client_id s' = cs_client_id s
          \<and> cs_state s' = (if j \<in> set is \<and> barred (wd_config w) state s then SESSION_STATE_CLOSED else cs_state s)))"
  using assms
proof (induction "is" arbitrary: w)
  case (Cons i "is")
  let ?v = "reevaluate_session env now state i w"
  have i: "i < length (wd_sessions w)" using Cons.prems by simp
  obtain s where s: "wd_sessions ?v = (wd_sessions w)[i := s]" "cs_in_use s = cs_in_use (wd_session w i)" "cs_client_id s = cs_client_id (wd_session w i)"
    "cs_state s = (if barred (wd_config w) state (wd_session w i) then SESSION_STATE_CLOSED else cs_state (wd_session w i))"
    and cfg: "wd_config ?v = wd_config w" using reevaluate_effect [OF Cons.prems(1) i] by blast
  have at: "wd_session ?v j = (if j = i then s else wd_session w j)" if "j < length (wd_sessions w)" for j
    using s(1) that by (auto simp: wd_session_def nth_list_update)
  have len: "length (wd_sessions ?v) = length (wd_sessions w)" using s(1) by simp
  have b: "barred (wd_config w) state s = barred (wd_config w) state (wd_session w i)" by (simp add: barred_def s(3))
  note ih = Cons.IH [OF reevaluate_inv [OF Cons.prems(1)], of env now state i, unfolded cfg len]
  have prem: "distinct is" "\<forall>j\<in>set is. j < length (wd_sessions w)" "i \<notin> set is" using Cons.prems by auto
  show ?case using ih [OF prem(1,2)] at b s(2-4) prem(3) i by (auto simp: Let_def)
qed simp

lemma live_slots:
  assumes "cic_inv w"
  shows "distinct (magic_session_get_active_sessions (mx_sm (wd_mx w)) (int MAX_SESSIONS))"
    "i \<in> set (magic_session_get_active_sessions (mx_sm (wd_mx w)) (int MAX_SESSIONS)) \<longleftrightarrow>
       i < length (wd_sessions w) \<and> cs_in_use (wd_session w i) \<and> cs_state (wd_session w i) \<in> {SESSION_STATE_ACTIVE, SESSION_STATE_AUTHENTICATED}"
proof -
  let ?P = "\<lambda>s. cs_in_use s \<and> (cs_state s = SESSION_STATE_ACTIVE \<or> cs_state s = SESSION_STATE_AUTHENTICATED)"
  have "length (sm_sessions (mx_sm (wd_mx w))) = MAX_SESSIONS" using cic_invD(4) [OF assms] by (simp add: sess_inv_def)
  moreover have "length (filter (\<lambda>i. ?P (sm_sessions (mx_sm (wd_mx w)) ! i)) [0..<length (sm_sessions (mx_sm (wd_mx w)))]) \<le> length (sm_sessions (mx_sm (wd_mx w)))"
    by (rule order_trans [OF length_filter_le]) simp
  ultimately have "magic_session_get_active_sessions (mx_sm (wd_mx w)) (int MAX_SESSIONS)
      = filter (\<lambda>i. ?P (sm_sessions (mx_sm (wd_mx w)) ! i)) [0..<length (sm_sessions (mx_sm (wd_mx w)))]"
    unfolding magic_session_get_active_sessions_def slots_where_def by (simp del: upt_Suc)
  then show "distinct (magic_session_get_active_sessions (mx_sm (wd_mx w)) (int MAX_SESSIONS))"
    "i \<in> set (magic_session_get_active_sessions (mx_sm (wd_mx w)) (int MAX_SESSIONS)) \<longleftrightarrow>
       i < length (wd_sessions w) \<and> cs_in_use (wd_session w i) \<and> cs_state (wd_session w i) \<in> {SESSION_STATE_ACTIVE, SESSION_STATE_AUTHENTICATED}"
    by (auto simp: wd_session_def mx_sessions_def)
qed

section \<open>Properties\<close>

text \<open>
  C37. When the state of the aircraft changes, exactly those live sessions are closed whose client has a
  profile that forbids the flight phase; every other session keeps its state, whatever the link managers,
  the data plane and the Diameter library answer, and no slot is freed.
\<close>

theorem state_change_closes_barred_sessions:
  assumes "cic_inv w" and "i < length (wd_sessions w)"
  shows "let s = wd_session w i; s' = wd_session (on_adif_state_changed env now state w) i in
    cs_in_use s' = cs_in_use s \<and>
    cs_state s' = (if cs_in_use s \<and> cs_state s \<in> {SESSION_STATE_ACTIVE, SESSION_STATE_AUTHENTICATED}
                      \<and> (\<exists>p. find_profile (wd_config w) (cs_client_id s) = Some p \<and> \<not> check_session_activation_conditions state p)
                   then SESSION_STATE_CLOSED else cs_state s)"
proof -
  have "(\<exists>p. find_profile (wd_config w) (cs_client_id s) = Some p \<and> \<not> check_session_activation_conditions state p)
      \<longleftrightarrow> barred (wd_config w) state s" for s by (simp add: barred_def split: option.split)
  then show ?thesis
    using reevaluate_all [OF assms(1) live_slots(1) [OF assms(1)], of env now state] assms live_slots(2) [OF assms(1)]
    by (simp add: on_adif_state_changed_def Let_def)
qed


section \<open>Witnesses\<close>

definition demo_gate_profile :: ClientProfile where
  "demo_gate_profile = zero_profile\<lparr>cl_client_id := ''efb.air'', cl_session := (cl_session zero_profile)
     \<lparr>sc_allowed_phases := replicate 10 CFG_FLIGHT_PHASE_GATE, sc_num_allowed_phases := 1\<rparr>\<rparr>"

definition demo_gate_world :: cic_world where
  "demo_gate_world = demo_world\<lparr>wd_mx := (wd_mx demo_world)\<lparr>mx_config := magic_config_init
     \<lparr>mc_clients := demo_gate_profile # replicate 49 zero_profile, mc_num_clients := 1\<rparr>\<rparr>\<rparr>"

lemma demo_gate_inv: "cic_inv demo_gate_world"
proof -
  have z: "client_wf zero_profile" using init_wf by (simp add: config_wf_def magic_config_init_def table_wf_def list_all_iff)
  then have "client_wf demo_gate_profile"
    by (simp add: demo_gate_profile_def client_wf_def text_wf_def session_policy_wf_def table_wf_def list_all_iff)
  then have "config_wf (mx_config (wd_mx demo_gate_world))"
    using init_wf z by (simp add: demo_gate_world_def config_wf_def magic_config_init_def table_wf_def list_all_iff)
  then show ?thesis using demo_world_inv by (simp add: cic_inv_def ctx_inv_def demo_gate_world_def)
qed

lemma demo_gate_session: "wd_session demo_gate_world 0 = demo_session" "length (wd_sessions demo_gate_world) = MAX_SESSIONS"
  using demo_sessions by (simp_all add: demo_gate_world_def wd_session_def mx_sessions_def)

lemma demo_gate_barred:
  "find_profile (wd_config demo_gate_world) ''efb.air'' = Some demo_gate_profile"
  "\<not> check_session_activation_conditions zero_aircraft_state demo_gate_profile"
  by (simp_all add: find_profile_def magic_config_find_client_def demo_gate_world_def used_part_def demo_gate_profile_def
      check_session_activation_conditions_def magic_config_is_flight_phase_allowed_def zero_aircraft_state_def zero_profile_def)

theorem state_change_closes_barred_sessions_witness:
  "cs_state (wd_session (on_adif_state_changed demo_cic_env 50 zero_aircraft_state demo_gate_world) 0) = SESSION_STATE_CLOSED"
  using state_change_closes_barred_sessions [OF demo_gate_inv, of 0 demo_cic_env 50 zero_aircraft_state] demo_gate_session demo_gate_barred
  by (simp add: Let_def demo_session_def)


end
