(* ===== verification/Cic_Static.thy ===== *)
theory Cic_Static
  imports Cic_Commands_Props Cic_Aircraft_Props
begin

text \<open>
  Which parts of the configuration change while the server runs: only the flags that say which links
  are active, and only through the events of the link managers. No request of a client writes the
  configuration.
\<close>

section \<open>The fixed part of the configuration\<close>

definition fixed_part :: "MagicConfig \<Rightarrow> MagicConfig" where
  "fixed_part cfg = cfg\<lparr>mc_dlm_configs := map (\<lambda>d. d\<lparr>dc_is_active := False\<rparr>) (mc_dlm_configs cfg)\<rparr>"

lemma fixed_set_active: "fixed_part (set_active lid b cfg) = fixed_part cfg"
proof -
  have "map (\<lambda>d. d\<lparr>dc_is_active := False\<rparr>) (ds[i := (ds ! i)\<lparr>dc_is_active := b\<rparr>]) = map (\<lambda>d. d\<lparr>dc_is_active := False\<rparr>) ds" for ds :: "DLMConfig list" and i
    by (cases "i < length ds") (auto simp: map_update list_update_same_conv list_update_beyond)
  then show ?thesis by (simp add: fixed_part_def set_active_def split: option.split)
qed

lemma fixed_names:
  assumes "fixed_part c = fixed_part d"
  shows "magic_config_find_datalink c n = magic_config_find_datalink d n"
proof -
  have eq: "find_idx (\<lambda>d. dc_dlm_name d = k) (used_part (mc_dlm_configs e) m) =
      find_idx (\<lambda>d. dc_dlm_name d = k) (used_part (mc_dlm_configs (fixed_part e)) m)" for e k m
    by (simp add: fixed_part_def used_part_def take_map find_idx_map)
  have "mc_num_dlm_configs (fixed_part e) = mc_num_dlm_configs e" for e by (simp add: fixed_part_def)
  then show ?thesis using eq assms
    by (simp add: magic_config_find_datalink_def magic_config_find_dlm_def split: option.split) metis
qed

section \<open>Events of the link managers\<close>

lemma trigger_config: "mx_config (trigger_lmi_event_callbacks env now lid ev x) = mx_config x"
  using rest_eqD [OF trigger_rest] by blast

lemma lost_config: "mx_config (link_lost_loop env now lid is x) = mx_config x"
  using link_lost_loop_keeps [of env now lid "is" x] rest_eqD by blast

lemma status_config: "fixed_part (mx_config (magic_lmi_update_link_status lid b x)) = fixed_part (mx_config x)"
  by (simp add: magic_lmi_update_link_status_def fixed_set_active)

lemma ctx_outputs_config:
  "mx_config (reply fd r x) = mx_config x" "mx_config (close_fd fd x) = mx_config x" "mx_config (set_dlm_client i c x) = mx_config x"
  "mx_config (edit_dlm_client i f x) = mx_config x" "mx_config (edit_lmi g x) = mx_config x"
  by (simp_all add: reply_def close_fd_def set_dlm_client_def edit_dlm_client_def edit_lmi_def)

lemmas lmi_static = ctx_outputs_config trigger_config lost_config status_config

lemma stream_static: "fixed_part (mx_config (dispatch_stream env now fd m x)) = fixed_part (mx_config x)"
  by (cases m) (simp_all add: handle_mih_register_request_def handle_mih_link_down_indication_def handle_mih_link_up_indication_def
      handle_mih_heartbeat_def handle_mih_parameters_report_def Let_def lmi_static split: option.split)

lemma make_config: "find_or_create_dgram_client now path x = (r, y) \<Longrightarrow> mx_config y = mx_config x"
  by (auto simp: find_or_create_dgram_client_def lmi_static split: option.splits)

lemma datagram_static: "fixed_part (mx_config (process_dgram_message env os now path t d x)) = fixed_part (mx_config x)"
proof -
  obtain r y where make: "find_or_create_dgram_client now path x = (r, y)" by (cases "find_or_create_dgram_client now path x")
  show ?thesis
    by (simp add: process_dgram_message_def make make_config [OF make] handle_dgram_link_up_indication_def
        handle_dgram_link_down_indication_def handle_dgram_parameters_report_def handle_dgram_capability_confirm_def
        handle_dgram_get_parameters_confirm_def handle_dgram_event_subscribe_confirm_def Let_def lmi_static split: option.split)
qed

lemma monitor_static: "fixed_part (mx_config (monitor_loop env now is x)) = fixed_part (mx_config x)"
  by (induction "is" arbitrary: x) (simp_all add: Let_def lmi_static)

lemma heartbeat_static: "fixed_part (mx_config (handle_udp_heartbeat env now hb x)) = fixed_part (mx_config x)"
  by (simp add: handle_udp_heartbeat_def Let_def lmi_static split: option.split)

lemma lmi_step_static: "fixed_part (mx_config (lmi_step env os x c)) = fixed_part (mx_config x)"
  by (cases c) (simp_all add: magic_lmi_init_def magic_lmi_start_server_def magic_lmi_start_dgram_server_def
      magic_lmi_start_udp_listener_def magic_lmi_cleanup_def magic_lmi_register_event_callback_def disconnect_client_def
      heartbeat_static heartbeat_monitor_round_def Let_def lmi_static stream_static datagram_static monitor_static
      request_config push_step_context split: option.split)

section \<open>Requests of the clients\<close>

lemma answer_config: "wd_config (snd (send_answer env ans w)) = wd_config w" "wd_config (snd (plain_answer env code qry w)) = wd_config w"
  by (simp_all add: send_answer_def plain_answer_def Let_def case_prod_beta)

lemma traffic_config: "wd_config (snd (snd (snd (current_traffic env now sid i w)))) = wd_config w"
  by (simp add: current_traffic_def Let_def case_prod_beta split: option.split)

lemma mntr_config: "wd_config (snd (cic_handle_mntr env qry w)) = wd_config w"
  by (simp add: cic_handle_mntr_def Let_def case_prod_beta cic_frame answer_config split: option.split)

lemma mscr_config: "wd_config (snd (cic_handle_mscr env qry w)) = wd_config w"
  by (simp add: cic_handle_mscr_def Let_def case_prod_beta cic_frame answer_config split: option.split)

lemma str_config: "wd_config (snd (cic_handle_str env now sess qry w)) = wd_config w"
  by (simp add: cic_handle_str_def str_release_def str_session_def close_record_def current_traffic_def Let_def case_prod_beta
      cic_frame answer_config split: option.split)

lemma active_loop_config: "wd_config (snd (active_loop env now ty vis is acc w)) = wd_config w"
proof (induction "is" arbitrary: acc w)
  case (Cons i "is")
  then show ?case by (auto simp: Let_def case_prod_beta traffic_config split: option.split)
qed simp

lemma madr_config: "wd_config (snd (cic_handle_madr env now qry w)) = wd_config w"
proof -
  have "wd_config (snd (madr_lists env now ty vis req_id ans w)) = wd_config w" for ty vis req_id ans
    unfolding madr_lists_def Let_def case_prod_beta by (simp add: active_loop_config split: option.split)
  then show ?thesis
    unfolding cic_handle_madr_def Let_def case_prod_beta by (simp add: answer_config split: option.split)
qed

lemma macr_config: "wd_config (snd (cic_handle_macr env now qry w)) = wd_config w"
proof -
  have a: "wd_config (snd (macr_answer env qry target codes res v)) = wd_config v" for target codes res v
    by (simp add: macr_answer_def Let_def case_prod_beta answer_config split: option.split)
  have "wd_config (snd (snd (macr_rollover env now target i w))) = wd_config w" for target i
    by (simp add: macr_rollover_def Let_def case_prod_beta cic_frame traffic_config)
  then have "wd_config (snd (snd (macr_process env now requester target w))) = wd_config w" for requester target
    by (simp add: macr_process_def split: option.split)
  then show ?thesis by (simp add: cic_handle_macr_def Let_def case_prod_beta a)
qed

lemma msxr_config: "cic_handle_msxr env now qry w = Some (r, w') \<Longrightarrow> wd_config w' = wd_config w"
  using answer_config by (auto simp: cic_handle_msxr_def msxr_answer_def Let_def case_prod_beta split: option.splits if_splits
      dest!: arg_cong [where f = "\<lambda>p. wd_config (snd p)"])

lemma adif_config:
  assumes "cic_inv w"
  shows "wd_config (on_adif_state_changed env now state w) = wd_config w"
  using reevaluate_all [OF assms live_slots(1) [OF assms]] live_slots(2) [OF assms] by (simp add: on_adif_state_changed_def)

lemma setup_config: "wd_config (snd (mcar_setup_session env now i ctx w)) = wd_config w"
  by (simp add: mcar_setup_session_def Let_def case_prod_beta cic_frame)

lemma finalize_config: "wd_config (snd (mcar_step5_finalize env qry ctx w)) = wd_config w"
  by (simp add: mcar_step5_finalize_def Let_def case_prod_beta)

lemma retry_config: "wd_config (snd (snd (snd (mcar_retry_loop now n k lid prs ctx f w)))) = wd_config w"
  by (induction n arbitrary: k ctx f w) (simp_all add: Let_def case_prod_beta request_config)

lemma mcar_fallback_config: "wd_config (snd (snd (mcar_fallback_loop now n req ctx w))) = wd_config w"
  by (induction n arbitrary: req ctx w) (simp_all add: Let_def case_prod_beta mcar_try_link_with_retry_def retry_config)

lemma activate_config: "wd_config (snd (mcar_activate env now ctx w)) = wd_config w"
  by (simp add: mcar_activate_def Let_def case_prod_beta setup_config cic_frame split: option.split)

lemma step4_config: "wd_config (snd (mcar_step4_allocation env now ctx w)) = wd_config w"
  by (simp add: mcar_step4_allocation_def Let_def case_prod_beta activate_config mcar_try_link_with_retry_def retry_config
      mcar_try_fallback_links_def mcar_fallback_config)

lemma mcar_config: "wd_config (snd (cic_handle_mcar env now qry w)) = wd_config w"
proof -
  obtain go1 ctx1 w1 where s1: "mcar_step1_validation env now qry initial_mcar w = (go1, ctx1, w1)"
    by (cases "mcar_step1_validation env now qry initial_mcar w")
  obtain go2 ctx2 w2 where s2: "mcar_step2_auth env now ctx1 w1 = (go2, ctx2, w2)"
    by (cases "mcar_step2_auth env now ctx1 w1")
  have "wd_config (snd (mcar_process env now qry w)) = wd_config w"
    using step1_world(3) [OF s1] step2_ctx(6) [OF s2]
    by (simp add: mcar_process_def s1 s2 Let_def case_prod_beta step4_config)
  then show ?thesis by (simp add: cic_handle_mcar_def case_prod_beta finalize_config)
qed

lemma mccr_try_config: "wd_config (snd (snd (snd (mccr_try_link_with_retry now lid prs ctx f w)))) = wd_config w"
  by (simp add: mccr_try_link_with_retry_def case_prod_beta retry_config)

lemma mccr_fallback_config: "wd_config (snd (snd (mccr_fallback_loop now n req ctx w))) = wd_config w"
  by (induction n arbitrary: req ctx w) (simp_all add: Let_def case_prod_beta mccr_try_config)

lemma mccr_session_config: "wd_config (snd (mccr_session now ctx w)) = wd_config w"
  by (simp add: mccr_session_def case_prod_beta upd_sm_def split: option.split)

lemma mccr_assign_config: "wd_config (mccr_assign now i prs f w) = wd_config w" "wd_config (mccr_dequeue sid w) = wd_config w"
  by (simp_all add: mccr_assign_def mccr_dequeue_def cic_frame)

lemma finish_start_config: "wd_config (snd (mccr_finish_start env now ctx w)) = wd_config w"
  unfolding mccr_finish_start_def Let_def case_prod_beta
  by (simp add: mccr_session_config setup_config mccr_assign_config split: option.split)

lemma release_config: "wd_config (release_old_link env now sid i w) = wd_config w"
  by (simp add: release_old_link_def Let_def case_prod_beta cic_frame request_config)

lemma start_modify_config: "wd_config (snd (mccr_execute_start_modify env now ctx w)) = wd_config w"
proof -
  have "wd_config (case s of None \<Rightarrow> w | Some i \<Rightarrow> if b i then release_old_link env now sid i w else w) = wd_config w" for s b sid
    by (simp add: release_config split: option.split)
  then show ?thesis
    unfolding mccr_execute_start_modify_def Let_def case_prod_beta
    by (simp add: finish_start_config mccr_try_fallback_links_def mccr_fallback_config mccr_try_config)
qed

lemma execute_config: "wd_config (snd (mccr_execute env now ctx w)) = wd_config w"
proof -
  have e: "wd_config (snd (mccr_enqueue now c v)) = wd_config v" for c v by (simp add: mccr_enqueue_def Let_def case_prod_beta)
  have "wd_config (snd (mccr_execute_queue now ctx w)) = wd_config w"
    unfolding mccr_execute_queue_def Let_def case_prod_beta
    by (simp add: e mccr_try_config mccr_session_config mccr_assign_config split: option.split)
  moreover have "wd_config (snd (mccr_execute_stop env now ctx w)) = wd_config w"
    by (simp add: mccr_execute_stop_def Let_def mccr_assign_config cic_frame release_config split: option.split)
  ultimately show ?thesis by (simp add: mccr_execute_def start_modify_config split: MccxIntentType.split)
qed

lemma mccr_config: "wd_config (snd (cic_handle_mccr env now qry w)) = wd_config w"
proof -
  have "wd_config (snd (mccr_phases env qry w)) = wd_config w"
    by (simp add: mccr_phases_def mccr_phase3_intent_routing_def Let_def case_prod_beta)
  then show ?thesis
    by (simp add: cic_handle_mccr_def mccr_phase4_execution_def Let_def case_prod_beta execute_config)
qed

end
