(* ===== verification/Magic_Entry.thy ===== *)
theory Magic_Entry
  imports Cic_Charging Cic_Aircraft Config_Load
begin

text \<open>
  Start-up and shutdown of the extension (\<open>app_magic/app_magic.c\<close>): the dictionary handles
  (\<open>app_magic/magic_dict_handles.c\<close>), the registration of the command handlers (\<open>magic_cic_init\<close> of
  \<open>app_magic/magic_cic.c\<close>), the order in which the components are started, and what \<open>fd_ext_fini\<close> does.
  The results of libfdproto, of libfdcore and of the operating system are parameters. Threads are not
  started here: what they do later are the steps of theory \<open>Cic_Server\<close>.
\<close>

section \<open>Dictionary handles\<close>

text \<open>What is looked up: the vendor and the application by name, attributes and commands by their numbers.\<close>

datatype dict_key =
    Vendor_named string
  | Application_named string
  | Std_avp nat
  | Command_code nat
  | Magic_avp nat

definition std_avps :: "nat list" where
  "std_avps =
     [263, 264, 296, 293, 283, 258, 268, 298, 1, 483, 485, 480, 44, 287, 259, 85, 50, 276, 291, 274, 277, 25, 273,
      281, 294, 55, 297, 279, 267, 257, 299, 272, 278, 269, 280, 284, 33, 285, 292, 261, 262, 282, 270, 271, 27,
      265, 295, 266, 260]"

definition magic_commands :: "nat list" where
  "magic_commands = [100000, 100001, 100002, 100003, 100004, 100005, 100006]"

definition magic_avps :: "nat list" where
  "magic_avps =
     [10001, 10002, 10003, 10004, 10005, 10006, 10007, 10008, 10009, 10010, 10011, 10054, 10012, 10013, 10014,
      10015, 10016, 10017, 10018, 10019, 10020, 10021, 10022, 10023, 10024, 10025, 10026, 10027, 10028, 10029,
      10030, 10031, 10032, 10033, 10034, 10035, 10036, 10037, 10038, 10039, 10040, 10041, 10042, 10043, 10044,
      10045, 10046, 10047, 10048, 10049, 10050, 10051, 10052, 10053]"

definition magic_grouped_avps :: "nat list" where
  "magic_grouped_avps =
     [20001, 20002, 20003, 20004, 20005, 20006, 20007, 20008, 20009, 20010, 20011, 20012, 20013, 20014, 20015,
      20016, 20017, 20018, 20019]"

definition dict_keys :: "dict_key list" where
  "dict_keys = [Vendor_named ''AEEC (ARINC)'', Application_named ''MAGIC-ARINC839'']
     @ map Std_avp std_avps @ map Command_code magic_commands @ map Magic_avp magic_avps @ map Magic_avp magic_grouped_avps"

text \<open>\<open>CHECK_FCT\<close> returns the first result that is not zero; the handles found before it stay set.\<close>

fun check_all :: "('k \<Rightarrow> int) \<Rightarrow> 'k list \<Rightarrow> 'k list \<Rightarrow> int \<times> 'k list" where
  "check_all f [] found = (0, found)"
| "check_all f (k # ks) found = (if f k \<noteq> 0 then (f k, found) else check_all f ks (found @ [k]))"

definition magic_dict_init :: "(dict_key \<Rightarrow> int) \<Rightarrow> int \<times> dict_key list" where
  "magic_dict_init search = check_all search dict_keys []"

section \<open>Registration of the handlers\<close>

datatype magic_command = MCAR | MCCR | STR_cmd | MNTR_cmd | MSCR_cmd | MSXR | MADR | MACR

record boot_env =
  bt_os :: os_env
  bt_tm :: tm_env
  bt_netlink :: bool
  bt_fs :: fs_env
  bt_now :: int
  bt_xml :: "string \<Rightarrow> xml_node option"
  bt_server :: os_answers
  bt_dgram :: os_answers
  bt_adif :: adif_env
  bt_dict :: "dict_key \<Rightarrow> int"
  bt_support :: int
  bt_str :: int
  bt_register :: "magic_command \<Rightarrow> int"

text \<open>The process: the world of the handlers, the policy context, the signal flag, the pointer \<open>g_ctx\<close> and what is registered.\<close>

record server =
  sv_world :: cic_world
  sv_policy :: PolicyContext
  sv_running :: bool
  sv_g_ctx :: bool
  sv_handles :: "dict_key list"
  sv_handlers :: "magic_command list"

definition register_from :: "boot_env \<Rightarrow> magic_command list \<Rightarrow> server \<Rightarrow> int \<times> server" where
  "register_from env cs sv = (let (r, done_cs) = check_all (bt_register env) cs (sv_handlers sv) in (r, sv\<lparr>sv_handlers := done_cs\<rparr>))"

definition magic_cic_init :: "boot_env \<Rightarrow> server \<Rightarrow> int \<times> server" where
  "magic_cic_init env sv =
     (let sv = sv\<lparr>sv_g_ctx := True\<rparr>;
          (r, found) = magic_dict_init (bt_dict env);
          sv = sv\<lparr>sv_handles := found\<rparr>
      in if r \<noteq> 0 then (-1, sv)
         else if bt_support env \<noteq> 0 then (bt_support env, sv)
         else
           let (r, sv) = register_from env [MCAR, MCCR] sv
           in if r \<noteq> 0 then (r, sv)
              else if bt_str env \<noteq> 0 then (-1, sv)
              else register_from env [STR_cmd, MNTR_cmd, MSCR_cmd, MSXR, MADR, MACR] sv)"

definition magic_cic_cleanup :: "server \<Rightarrow> server" where
  "magic_cic_cleanup sv = sv\<lparr>sv_g_ctx := False\<rparr>"

section \<open>Start-up\<close>

abbreviation EINVAL :: int where "EINVAL \<equiv> 22"

definition zero_adif :: AdifClientContext where
  "zero_adif = \<lparr>ax_config = \<lparr>ag_server_host = [], ag_server_port = 0, ag_async_port = 0, ag_refresh_period_ms = 0,
       ag_auto_reconnect = False, ag_reconnect_interval_ms = 0\<rparr>,
     ax_state = ADIF_CLIENT_DISCONNECTED, ax_aircraft_state = zero_aircraft_state, ax_sync_sock = 0, ax_async_sock = 0,
     ax_running = False, ax_callback = False, ax_error_msg = [], ax_open = []\<rparr>"

definition zero_manager :: SessionManager where
  "zero_manager = \<lparr>sm_sessions = replicate MAX_SESSIONS zero_session, sm_session_count = 0,
     sm_clients = replicate MAX_CLIENTS zero_client, sm_client_count = 0\<rparr>"

text \<open>
  \<open>memset\<close> of the global context. The commands issued, the files, the messages sent and the static
  tables of \<open>magic_cic.c\<close> are outside it.
\<close>

definition cleared :: "server \<Rightarrow> server" where
  "cleared sv =
     (let w = sv_world sv; x = wd_mx w
      in sv\<lparr>sv_world := w\<lparr>wd_mx := x\<lparr>mx_config := magic_config_init, mx_lmi := zero_lmi, mx_sm := zero_manager,
                                       mx_dp := (mx_dp x)\<lparr>dp := zero_dp\<rparr>\<rparr>,
                          wd_cdr := (wd_cdr w)\<lparr>cdrs := zero_cdr_manager\<rparr>, wd_tm := (wd_tm w)\<lparr>tm := zero_tm\<rparr>,
                          wd_adif := zero_adif\<rparr>,
            sv_policy := \<lparr>pc_config = magic_config_init, pc_initialized = False, pc_lmi_ctx = None\<rparr>,
            sv_running := True\<rparr>)"

definition DEFAULT_CONFIG_BASE :: string where
  "DEFAULT_CONFIG_BASE = ''/home/zhuwuhui/freeDiameter/extensions/app_magic/config''"

definition load_configuration :: "(string \<Rightarrow> xml_node option) \<Rightarrow> string \<Rightarrow> MagicConfig \<Rightarrow> int \<times> MagicConfig" where
  "load_configuration read_xml base cfg =
     (let (r, cfg) = magic_config_load_datalinks read_xml base cfg
      in if r < 0 then (EINVAL, cfg)
         else
           let (r, cfg) = magic_config_load_policy read_xml base cfg
           in if r < 0 then (EINVAL, cfg)
              else let (r, cfg) = magic_config_load_clients read_xml base cfg in (if r < 0 then EINVAL else 0, cfg))"

definition upd_mx :: "(MagicContext \<Rightarrow> MagicContext) \<Rightarrow> server \<Rightarrow> server" where
  "upd_mx f sv = sv\<lparr>sv_world := (sv_world sv)\<lparr>wd_mx := f (wd_mx (sv_world sv))\<rparr>\<rparr>"

text \<open>
  Steps 2 to 5. Each start returns a negative number on failure, and what was started before is then
  cleaned up.
\<close>

definition start_core :: "boot_env \<Rightarrow> server \<Rightarrow> int \<times> server" where
  "start_core env sv =
     (let (r, p) = magic_policy_init (Some (sv_policy sv)) (Some (mx_config (wd_mx (sv_world sv))));
          sv = sv\<lparr>sv_policy := (case p of Some p \<Rightarrow> p | None \<Rightarrow> sv_policy sv)\<rparr>
      in if r < 0 then (EINVAL, sv)
         else
           let (r, x) = magic_lmi_init (wd_mx (sv_world sv));
               sv = upd_mx (\<lambda>_. x) sv
           in if r < 0 then (EINVAL, sv\<lparr>sv_policy := magic_policy_cleanup (sv_policy sv)\<rparr>)
              else
                let sv = sv\<lparr>sv_policy := (sv_policy sv)\<lparr>pc_lmi_ctx := Some (li_clients (mx_lmi (wd_mx (sv_world sv))))\<rparr>\<rparr>;
                    (r, m) = magic_session_init (mx_sm (wd_mx (sv_world sv)));
                    sv = upd_mx (\<lambda>x. x\<lparr>mx_sm := m\<rparr>) sv
                in if r < 0 then (EINVAL, (upd_mx magic_lmi_cleanup sv)\<lparr>sv_policy := magic_policy_cleanup (sv_policy sv)\<rparr>)
                   else
                     let (r, d) = magic_dataplane_init (bt_os env) (Some ''ens39'') (Some ''192.168.126.1'') (mx_dp (wd_mx (sv_world sv)));
                         sv = upd_mx (\<lambda>x. x\<lparr>mx_dp := d\<rparr>) sv
                     in if r < 0
                        then let (m, d) = magic_session_cleanup (bt_os env) (mx_sm (wd_mx (sv_world sv))) (mx_dp (wd_mx (sv_world sv)))
                             in (EINVAL, (upd_mx (\<lambda>x. magic_lmi_cleanup (x\<lparr>mx_sm := m, mx_dp := d\<rparr>)) sv)
                                            \<lparr>sv_policy := magic_policy_cleanup (sv_policy sv)\<rparr>)
                        else (0, sv))"

text \<open>Steps 5b to 6b2. The failures of these parts are only logged.\<close>

definition start_optional :: "boot_env \<Rightarrow> server \<Rightarrow> server" where
  "start_optional env sv =
     (let w = sv_world sv;
          w = w\<lparr>wd_tm := snd (traffic_monitor_init (bt_tm env) (bt_netlink env) TRAFFIC_BACKEND_AUTO (wd_tm w))\<rparr>;
          w = w\<lparr>wd_cdr := snd (cdr_manager_init (bt_fs env) (bt_now env) None 0 (wd_cdr w))\<rparr>;
          x = snd (magic_lmi_start_server (bt_server env) (wd_mx w));
          x = snd (magic_lmi_start_dgram_server (bt_dgram env) x);
          x = snd (magic_lmi_register_event_callback LINK_EVENT_UP (Some On_lmi_link_event_for_mscr) x);
          x = snd (magic_lmi_register_event_callback LINK_EVENT_DOWN (Some On_lmi_link_event_for_mscr) x)
      in sv\<lparr>sv_world := w\<lparr>wd_mx := x\<rparr>\<rparr>)"

definition start_adif :: "boot_env \<Rightarrow> server \<Rightarrow> server" where
  "start_adif env sv =
     (let cfg = \<lparr>ag_server_host = strncpy_buf 63 ''127.0.0.1'', ag_server_port = 4000, ag_async_port = 64001,
                 ag_refresh_period_ms = 1000, ag_auto_reconnect = True, ag_reconnect_interval_ms = 5000\<rparr>;
          (r, a) = adif_client_init (bt_adif env) (Some cfg);
          a = (if r = 0 then snd (adif_client_connect (bt_adif env) (adif_client_set_callback a True)) else a)
      in sv\<lparr>sv_world := (sv_world sv)\<lparr>wd_adif := a\<rparr>\<rparr>)"

definition magic_entry :: "boot_env \<Rightarrow> string option \<Rightarrow> server \<Rightarrow> int \<times> server" where
  "magic_entry env conffile sv =
     (let sv = cleared sv;
          base = (case conffile of Some c \<Rightarrow> c | None \<Rightarrow> DEFAULT_CONFIG_BASE);
          (r, cfg) = load_configuration (bt_xml env) base (mx_config (wd_mx (sv_world sv)));
          sv = upd_mx (\<lambda>x. x\<lparr>mx_config := cfg\<rparr>) sv
      in if r \<noteq> 0 then (r, sv)
         else
           let (r, sv) = start_core env sv
           in if r \<noteq> 0 then (r, sv)
              else
                let (r, sv) = magic_cic_init env (start_adif env (start_optional env sv))
                in if r < 0
                   then (EINVAL, (upd_mx (\<lambda>x. magic_lmi_cleanup (x\<lparr>mx_dp := magic_dataplane_cleanup (bt_os env) (mx_dp x)\<rparr>)) sv)
                                   \<lparr>sv_policy := magic_policy_cleanup (sv_policy sv)\<rparr>)
                   else (0, sv))"

definition magic_signal_handler :: "server \<Rightarrow> server" where
  "magic_signal_handler sv = sv\<lparr>sv_running := False\<rparr>"

definition fd_ext_fini :: "boot_env \<Rightarrow> server \<Rightarrow> server" where
  "fd_ext_fini env sv =
     (let sv = magic_cic_cleanup sv;
          w = sv_world sv;
          w = w\<lparr>wd_tm := traffic_monitor_cleanup (bt_tm env) (wd_tm w)\<rparr>;
          w = w\<lparr>wd_cdr := cdr_manager_cleanup (bt_fs env) (bt_now env) (wd_cdr w)\<rparr>;
          x = wd_mx w;
          d = magic_dataplane_cleanup (bt_os env) (mx_dp x);
          (m, d) = magic_session_cleanup (bt_os env) (mx_sm x) d;
          x = magic_lmi_cleanup (x\<lparr>mx_sm := m, mx_dp := d\<rparr>);
          w = w\<lparr>wd_mx := x\<lparr>mx_config := magic_config_cleanup\<rparr>, wd_adif := adif_client_cleanup (wd_adif w)\<rparr>
      in sv\<lparr>sv_world := w, sv_policy := magic_policy_cleanup (sv_policy sv)\<rparr>)"

end
