(* ===== verification/Cic_Server.thy ===== *)
theory Cic_Server
  imports Cic_Static Magic_Entry
begin

text \<open>
  The server as a whole: start-up as in theory \<open>Magic_Entry\<close>, then any interleaving of requests of
  clients, events of link managers, notifications and their answers, and deliveries of aircraft data.
  A handler is one step; the program protects the tables it shares by mutexes, which are not modelled.
\<close>

section \<open>Steps\<close>

text \<open>
  The guards are what the proofs of the handlers need: a Session-Id that fits the 64-byte field of the
  record it is copied to, and a status query whose list of clients fits its buffer (a query for which
  it does not has no result).
\<close>

inductive server_step :: "cic_world \<Rightarrow> cic_world \<Rightarrow> bool" where
  mcar: "length (read_octets qry ''Session-Id'' 128 []) \<le> 63 \<Longrightarrow> server_step w (snd (cic_handle_mcar env now qry w))"
| mccr: "length (read_octets qry ''Session-Id'' 128 []) \<le> 63 \<Longrightarrow> server_step w (snd (cic_handle_mccr env now qry w))"
| str: "server_step w (snd (cic_handle_str env now sess qry w))"
| mntr: "server_step w (snd (cic_handle_mntr env qry w))"
| mscr: "server_step w (snd (cic_handle_mscr env qry w))"
| msxr: "cic_handle_msxr env now qry w = Some (r, w') \<Longrightarrow> server_step w w'"
| madr: "server_step w (snd (cic_handle_madr env now qry w))"
| macr: "server_step w (snd (cic_handle_macr env now qry w))"
| link_event: "server_step w (w\<lparr>wd_mx := lmi_step dia os (wd_mx w) c\<rparr>)"
| aircraft: "ax_running (wd_adif w) \<Longrightarrow> adif_receiver_thread waits events (wd_adif w) = (a, calls) \<Longrightarrow>
    server_step w (fold (on_adif_state_changed env now) calls (w\<lparr>wd_adif := a\<rparr>))"

inductive_cases server_stepE: "server_step w w'"

text \<open>What holds of the server at any time, given the configuration it was started with.\<close>

definition server_inv :: "MagicConfig \<Rightarrow> cic_world \<Rightarrow> bool" where
  "server_inv cfg w \<longleftrightarrow> cic_inv w \<and> fixed_part (wd_config w) = fixed_part cfg"

lemma server_invI: "cic_inv w' \<Longrightarrow> wd_config w' = wd_config w \<Longrightarrow> server_inv cfg w \<Longrightarrow> server_inv cfg w'"
  by (simp add: server_inv_def)

lemma unnamed_fixed:
  assumes "server_inv cfg w" and "magic_config_find_datalink cfg (Some []) = None"
  shows "no_unnamed_link w"
  using assms fixed_names [of "wd_config w" cfg "Some []"] by (simp add: server_inv_def no_unnamed_link_def)

lemma aircraft_inv:
  "server_inv cfg w \<Longrightarrow> server_inv cfg (fold (on_adif_state_changed env now) calls (w\<lparr>wd_adif := a\<rparr>))"
proof -
  have "server_inv cfg (w\<lparr>wd_adif := a\<rparr>) = server_inv cfg w" by (simp add: server_inv_def cic_inv_def)
  moreover have "server_inv cfg v \<Longrightarrow> server_inv cfg (fold (on_adif_state_changed env now) calls v)" for v
  proof (induction calls arbitrary: v)
    case (Cons s calls)
    have "server_inv cfg (on_adif_state_changed env now s v)"
      using Cons.prems by (auto intro!: adif_inv simp: server_inv_def adif_config)
    then show ?case using Cons.IH by simp
  qed simp
  ultimately show "server_inv cfg w \<Longrightarrow> server_inv cfg (fold (on_adif_state_changed env now) calls (w\<lparr>wd_adif := a\<rparr>))" by simp
qed

lemma server_step_inv:
  assumes "server_step w w'" and inv: "server_inv cfg w" and nul: "magic_config_find_datalink cfg (Some []) = None"
  shows "server_inv cfg w'"
  using assms(1)
proof cases
  case (link_event dia os c)
  then show ?thesis using inv by (simp add: server_inv_def set_mx_inv lmi_step_inv lmi_step_static cic_invD(1))
next
  case (aircraft waits events a calls env now)
  then show ?thesis using aircraft_inv [OF inv] by simp
next
  case (msxr env now qry r)
  then show ?thesis using inv by (intro server_invI [OF _ msxr_config inv]) (auto simp: server_inv_def intro: msxr_inv)
next
  case (mccr qry env now)
  then show ?thesis
    using inv unnamed_fixed [OF inv nul] by (auto simp: server_inv_def mccr_config intro: mccr_keeps_server_inv)
qed (use inv in \<open>auto simp: server_inv_def mcar_config str_config mntr_config mscr_config madr_config macr_config
      intro: mcar_keeps_server_inv str_inv mntr_inv mscr_inv madr_inv macr_inv\<close>)

lemma server_steps_inv:
  assumes "server_step\<^sup>*\<^sup>* w w'" and "server_inv cfg w" and "magic_config_find_datalink cfg (Some []) = None"
  shows "server_inv cfg w'"
  using assms by (induction rule: rtranclp_induct) (auto intro: server_step_inv)

section \<open>Start-up\<close>

text \<open>The process image before the extension is loaded: the static tables of \<open>magic_cic.c\<close> are zero.\<close>

definition fresh_image :: "server \<Rightarrow> bool" where
  "fresh_image sv \<longleftrightarrow> length (wd_rate (sv_world sv)) = MSXR_RATE_LIMIT_ENTRIES \<and> wd_queue (sv_world sv) = zero_queue"

lemma load_configuration_wf: "config_wf c \<Longrightarrow> config_wf (snd (load_configuration rd base c))"
  by (simp add: load_configuration_def case_prod_beta load_datalinks_wf load_policy_wf load_clients_wf)

text \<open>Steps 2 to 5 never fail: none of the four starts has a failing branch that can be reached.\<close>

lemma start_core_world:
  "\<exists>d. start_core env sv = (0, (upd_mx (\<lambda>x. (snd (magic_lmi_init x))\<lparr>mx_sm := snd (magic_session_init (mx_sm x)), mx_dp := d\<rparr>) sv)
     \<lparr>sv_policy := \<lparr>pc_config = wd_config (sv_world sv), pc_initialized = True, pc_lmi_ctx = Some (replicate MAX_DLM_CLIENTS zero_dlm_client)\<rparr>\<rparr>)
     \<and> dp_inv (dp d) \<and> dp_is_initialized (dp d)"
proof -
  let ?d = "magic_dataplane_init (bt_os env) (Some ''ens39'') (Some ''192.168.126.1'') (mx_dp (wd_mx (sv_world sv)))"
  have r: "fst ?d = 0" by (simp add: magic_dataplane_init_def Let_def)
  have "dp_is_initialized (dp (snd ?d))" using init_dp [of "bt_os env" "Some ''ens39''" "Some ''192.168.126.1''" "mx_dp (wd_mx (sv_world sv))"] by (auto simp: zero_dp_def)
  then have "dp_inv (dp (snd ?d)) \<and> dp_is_initialized (dp (snd ?d))" using init_inv by blast
  moreover have "start_core env sv = (0, (upd_mx (\<lambda>x. (snd (magic_lmi_init x))\<lparr>mx_sm := snd (magic_session_init (mx_sm x)), mx_dp := snd ?d\<rparr>) sv)
     \<lparr>sv_policy := \<lparr>pc_config = wd_config (sv_world sv), pc_initialized = True, pc_lmi_ctx = Some (replicate MAX_DLM_CLIENTS zero_dlm_client)\<rparr>\<rparr>)"
    using r by (simp add: start_core_def magic_policy_init_def magic_lmi_init_def magic_session_init_def upd_mx_def Let_def
        case_prod_beta zero_lmi_def)
  ultimately show ?thesis by blast
qed

definition booted :: "boot_env \<Rightarrow> MagicConfig \<Rightarrow> server \<Rightarrow> server" where
  "booted env cfg sv = start_adif env (start_optional env (snd (start_core env (upd_mx (\<lambda>x. x\<lparr>mx_config := cfg\<rparr>) (cleared sv)))))"

lemma magic_entry_eq:
  "magic_entry env conf sv =
     (let (r, cfg) = load_configuration (bt_xml env) (case conf of Some c \<Rightarrow> c | None \<Rightarrow> DEFAULT_CONFIG_BASE) magic_config_init
      in if r \<noteq> 0 then (r, upd_mx (\<lambda>x. x\<lparr>mx_config := cfg\<rparr>) (cleared sv))
         else let (r, sv) = magic_cic_init env (booted env cfg sv)
              in if r < 0
                 then (EINVAL, (upd_mx (\<lambda>x. magic_lmi_cleanup (x\<lparr>mx_dp := magic_dataplane_cleanup (bt_os env) (mx_dp x)\<rparr>)) sv)
                                 \<lparr>sv_policy := magic_policy_cleanup (sv_policy sv)\<rparr>)
                 else (0, sv))"
proof -
  have "fst (start_core env v) = 0" for v using start_core_world [of env v] by auto
  moreover have "wd_config (sv_world (cleared sv)) = magic_config_init" by (simp add: cleared_def Let_def)
  ultimately show ?thesis by (simp add: magic_entry_def booted_def Let_def case_prod_beta)
qed

lemma cic_init_world: "sv_world (snd (magic_cic_init env sv)) = sv_world sv"
  by (simp add: magic_cic_init_def register_from_def Let_def case_prod_beta)

lemma optional_inv: "cic_inv (sv_world sv) \<Longrightarrow> cic_inv (sv_world (start_optional env sv))"
  by (simp add: start_optional_def Let_def) (intro set_mx_inv set_cdr_inv set_tm_inv init_cdr_inv init_tm_inv register_callback_inv start_inv cic_invD(1); simp)

lemma adif_start_inv: "cic_inv (sv_world (start_adif env sv)) = cic_inv (sv_world sv)"
  by (simp add: start_adif_def Let_def case_prod_beta cic_inv_def)

lemma blank_parts: "cdr_inv zero_cdr_manager" "tm_inv zero_tm"
proof -
  show "cdr_inv zero_cdr_manager" by (simp add: cdr_inv_def zero_cdr_manager_def cdrtab.blank_table cdrtab.blank_unused)
  show "tm_inv zero_tm" using tms.blank_table [of MAX_TRAFFIC_SESSIONS] by (simp add: tm_inv_def zero_tm_def tms.blank_unused)
qed

lemma booted_inv:
  assumes "fresh_image sv" and "config_wf cfg"
  shows "cic_inv (sv_world (booted env cfg sv))" "wd_config (sv_world (booted env cfg sv)) = cfg"
proof -
  let ?v = "upd_mx (\<lambda>x. x\<lparr>mx_config := cfg\<rparr>) (cleared sv)"
  obtain d where d: "sv_world (snd (start_core env ?v)) = sv_world (upd_mx (\<lambda>x. (snd (magic_lmi_init x))\<lparr>mx_sm := snd (magic_session_init (mx_sm x)), mx_dp := d\<rparr>) ?v)"
    "dp_inv (dp d)" using start_core_world [of env ?v] by auto
  have "lmi_inv (mx_lmi (snd (magic_lmi_init x)))" for x
    by (simp add: magic_lmi_init_def lmi_inv_def zero_lmi_def)
  then have "cic_inv (sv_world (snd (start_core env ?v)))"
    using assms d blank_parts by (simp add: upd_mx_def cleared_def Let_def cic_inv_def ctx_inv_def fresh_image_def init_sess_inv zero_queue_inv)
      (simp add: magic_lmi_init_def)
  then show "cic_inv (sv_world (booted env cfg sv))" by (simp add: booted_def adif_start_inv optional_inv)
  have "wd_config (sv_world (start_optional env v)) = wd_config (sv_world v)" for v
    by (simp add: start_optional_def Let_def magic_lmi_register_event_callback_def magic_lmi_start_server_def
        magic_lmi_start_dgram_server_def lmi_static)
  then show "wd_config (sv_world (booted env cfg sv)) = cfg"
    using d(1) by (simp add: booted_def start_adif_def Let_def case_prod_beta upd_mx_def magic_lmi_init_def cleared_def)
qed


section \<open>When a start succeeds\<close>

lemma check_all_ok: "fst (check_all f ks acc) = 0 \<longleftrightarrow> (\<forall>k\<in>set ks. f k = 0)"
  by (induction ks arbitrary: acc) auto

lemma check_all_pos: "(\<And>k. 0 \<le> f k) \<Longrightarrow> 0 \<le> fst (check_all f ks acc)"
  by (induction ks arbitrary: acc) auto

lemma cic_init_negative:
  assumes "0 \<le> bt_support env" and "\<And>c. 0 \<le> bt_register env c"
  shows "fst (magic_cic_init env sv) < 0 \<longleftrightarrow> (\<exists>k\<in>set dict_keys. bt_dict env k \<noteq> 0)
     \<or> bt_support env = 0 \<and> bt_register env MCAR = 0 \<and> bt_register env MCCR = 0 \<and> bt_str env \<noteq> 0"
proof -
  have "fst (magic_dict_init (bt_dict env)) = 0 \<longleftrightarrow> (\<forall>k\<in>set dict_keys. bt_dict env k = 0)"
    by (simp add: magic_dict_init_def check_all_ok)
  moreover have "\<not> fst (register_from env cs v) < 0" for cs v
    using check_all_pos [of "bt_register env"] assms(2) by (simp add: register_from_def case_prod_beta not_less)
  moreover have "fst (register_from env [MCAR, MCCR] v) = 0 \<longleftrightarrow> bt_register env MCAR = 0 \<and> bt_register env MCCR = 0" for v
    using check_all_ok [of "bt_register env" "[MCAR, MCCR]"] by (simp add: register_from_def case_prod_beta del: check_all.simps)
  ultimately show ?thesis
    using assms(1) by (auto simp: magic_cic_init_def Let_def case_prod_beta)
qed

text \<open>
  C39. The extension reports a successful start exactly when the three documents load, every handle is in
  the dictionary, and the registration does not stop at the missing termination command. An application
  that cannot be announced, or a handler that cannot be registered, returns a positive error number,
  which the entry point takes for success: the server then runs without its handlers.
\<close>

theorem start_succeeds_iff:
  assumes "0 \<le> bt_support env" and "\<And>c. 0 \<le> bt_register env c"
  shows "(fst (magic_entry env (Some base) sv) = 0 \<longleftrightarrow>
      fst (load_configuration (bt_xml env) base magic_config_init) = 0 \<and> (\<forall>k\<in>set dict_keys. bt_dict env k = 0)
      \<and> (bt_support env \<noteq> 0 \<or> bt_register env MCAR \<noteq> 0 \<or> bt_register env MCCR \<noteq> 0 \<or> bt_str env = 0))
    \<and> (bt_support env \<noteq> 0 \<longrightarrow> sv_handlers (snd (magic_entry env (Some base) sv)) = sv_handlers sv)"
proof -
  let ?l = "load_configuration (bt_xml env) base magic_config_init"
  have "sv_handlers (booted env (snd ?l) sv) = sv_handlers sv"
    using start_core_world [of env "upd_mx (\<lambda>x. x\<lparr>mx_config := snd ?l\<rparr>) (cleared sv)"]
    by (auto simp: booted_def start_adif_def start_optional_def Let_def case_prod_beta upd_mx_def cleared_def)
  then have "bt_support env \<noteq> 0 \<longrightarrow> sv_handlers (snd (magic_cic_init env (booted env (snd ?l) sv))) = sv_handlers sv"
    by (simp add: magic_cic_init_def Let_def case_prod_beta)
  then show ?thesis
    using cic_init_negative [OF assms, of "booted env (snd ?l) sv"]
    by (auto simp: magic_entry_eq Let_def case_prod_beta upd_mx_def cleared_def)
qed

section \<open>Shutdown\<close>

lemma release_all_idle: "\<not> dp_is_initialized (dp d) \<Longrightarrow> release_all os ss d = d"
  by (induction ss) (simp_all add: magic_session_release_link_def magic_dataplane_remove_client_route_def case_prod_beta Let_def)

text \<open>
  C40. After the extension is unloaded no session slot, no route, no packet filter and no traffic
  registration is in use, the data plane and the charging manager are closed, the aircraft-data client
  holds no descriptor and the listening descriptors of the link-manager interface have been closed.
  The sessions are released after the data plane was closed, so their routes go with the data plane and
  not one by one; the handlers stay registered with the Diameter library.
\<close>

theorem shutdown_leaves_nothing:
  assumes "cic_inv (sv_world sv)" and "adif_inv (wd_adif (sv_world sv))"
  shows "let w = sv_world (fd_ext_fini env sv); d = dp (mx_dp (wd_mx w)); l = wd_lmi (sv_world sv) in
    slots w = replicate MAX_SESSIONS False \<and> \<not> dp_is_initialized d \<and> count_if rr_in_use (dp_rules d) = 0
    \<and> count_if tf_in_use (dp_tft_rules d) = 0 \<and> count_if tse_in_use (tmc_sessions (tm (wd_tm w))) = 0
    \<and> \<not> cm_is_initialized (cdrs (wd_cdr w)) \<and> ax_open (wd_adif w) = []
    \<and> {fd. fd \<in> {li_server_fd l, li_dgram_fd l, li_udp_fd l} \<and> 0 \<le> fd} \<subseteq> set (mx_closed (wd_mx w))
    \<and> sv_handlers (fd_ext_fini env sv) = sv_handlers sv"
proof -
  define w where "w = sv_world (fd_ext_fini env sv)"
  let ?w0 = "sv_world sv"
  let ?d = "magic_dataplane_cleanup (bt_os env) (mx_dp (wd_mx ?w0))"
  have idle: "\<not> dp_is_initialized (dp ?d)" by (simp add: cleanup_dp)
  have lmi: "mx_sm (magic_lmi_cleanup x) = mx_sm x" "mx_dp (magic_lmi_cleanup x) = mx_dp x"
    "{fd. fd \<in> {li_server_fd (mx_lmi x), li_dgram_fd (mx_lmi x), li_udp_fd (mx_lmi x)} \<and> 0 \<le> fd} \<subseteq> set (mx_closed (magic_lmi_cleanup x))" for x
    by (auto simp: magic_lmi_cleanup_def Let_def close_fd_def edit_lmi_def)
  have mx: "mx_dp (wd_mx w) = ?d" "mx_sm (wd_mx w) = (mx_sm (wd_mx ?w0))\<lparr>sm_sessions := replicate MAX_SESSIONS zero_session\<rparr>"
    using idle by (simp_all add: w_def fd_ext_fini_def magic_cic_cleanup_def magic_session_cleanup_def Let_def lmi release_all_idle)
  have closed: "mx_closed (wd_mx w) = mx_closed (magic_lmi_cleanup ((wd_mx ?w0)\<lparr>mx_sm := mx_sm (wd_mx w), mx_dp := ?d\<rparr>))"
    using idle by (simp add: w_def fd_ext_fini_def magic_cic_cleanup_def magic_session_cleanup_def Let_def lmi release_all_idle)
  have tm: "wd_tm w = traffic_monitor_cleanup (bt_tm env) (wd_tm ?w0)"
    and cdr: "wd_cdr w = cdr_manager_cleanup (bt_fs env) (bt_now env) (wd_cdr ?w0)"
    and ad: "wd_adif w = adif_client_disconnect (wd_adif ?w0)" and h: "sv_handlers (fd_ext_fini env sv) = sv_handlers sv"
    by (simp_all add: w_def fd_ext_fini_def magic_cic_cleanup_def Let_def case_prod_beta adif_client_cleanup_def)
  have "slots w = replicate MAX_SESSIONS False" by (simp add: slots_def mx_sessions_def mx zero_session_def)
  moreover have "count_if tse_in_use (tmc_sessions (tm (wd_tm w))) = 0"
    by (simp add: tm traffic_monitor_cleanup_def Let_def count_if_eq_0_iff)
  moreover have "\<not> cm_is_initialized (cdrs (wd_cdr w))" by (simp add: cdr cdr_manager_cleanup_def Let_def)
  moreover have "ax_open (wd_adif w) = []" using disconnect_releases [OF assms(2)] by (simp add: ad)
  moreover have "{fd. fd \<in> {li_server_fd (wd_lmi ?w0), li_dgram_fd (wd_lmi ?w0), li_udp_fd (wd_lmi ?w0)} \<and> 0 \<le> fd} \<subseteq> set (mx_closed (wd_mx w))"
    using lmi(3) [of "(wd_mx ?w0)\<lparr>mx_sm := mx_sm (wd_mx w), mx_dp := ?d\<rparr>"] by (simp add: closed)
  ultimately show ?thesis
    unfolding w_def [symmetric] using h by (simp add: Let_def mx cleanup_dp count_if_eq_0_iff)
qed

section \<open>An example\<close>

definition demo_boot :: boot_env where
  "demo_boot = \<lparr>bt_os = demo_os, bt_tm = demo_tm_env, bt_netlink = True, bt_fs = demo_fs, bt_now = 50, bt_xml = demo_rd,
     bt_server = \<lparr>oa_socket = 3, oa_options = True, oa_bind = True, oa_listen = True, oa_thread = True, oa_monitor = True\<rparr>,
     bt_dgram = \<lparr>oa_socket = 4, oa_options = True, oa_bind = True, oa_listen = True, oa_thread = True, oa_monitor = True\<rparr>,
     bt_adif = sample_env, bt_dict = (\<lambda>_. 0), bt_support = 0, bt_str = 0, bt_register = (\<lambda>_. 0)\<rparr>"

definition demo_server :: server where
  "demo_server = \<lparr>sv_world = demo_world, sv_policy = \<lparr>pc_config = magic_config_init, pc_initialized = False, pc_lmi_ctx = None\<rparr>,
     sv_running = False, sv_g_ctx = False, sv_handles = [], sv_handlers = []\<rparr>"

lemma demo_fresh: "fresh_image demo_server"
  by (simp add: fresh_image_def demo_server_def demo_world_def)

lemma demo_loads:
  "\<exists>cfg. load_configuration demo_rd ''/etc'' magic_config_init = (0, cfg) \<and> magic_config_find_datalink cfg (Some []) = None"
proof -
  have n: "map dc_dlm_name (take 10 (values_of parse_dlm demo_dlms)) = [''LINK_SATCOM'']" by code_simp
  obtain c1 c2 c3 where l: "magic_config_load_datalinks demo_rd ''/etc'' magic_config_init = (0, c1)"
    "magic_config_load_policy demo_rd ''/etc'' c1 = (0, c2)" "magic_config_load_clients demo_rd ''/etc'' c2 = (0, c3)"
    "used_part (mc_dlm_configs c3) (mc_num_dlm_configs c3) = take 10 (values_of parse_dlm demo_dlms)"
    using loaders_store_the_documents [of magic_config_init demo_rd "''/etc''" "[]" demo_dlms "[]" demo_sets "[]" demo_profiles]
    by (auto simp: demo_rd_def snprintf_buf_def)
  have "dc_dlm_name d = ''LINK_SATCOM''" if "d \<in> set (take 10 (values_of parse_dlm demo_dlms))" for d
    using arg_cong [OF n, of set] \<open>d \<in> _\<close> by (auto simp del: set_take_subset)
  then have "magic_config_find_datalink c3 (Some []) = None"
    by (auto simp: magic_config_find_datalink_def magic_config_find_dlm_def l(4) find_idx_None_iff)
  then show ?thesis using l(1-3) by (simp add: load_configuration_def)
qed

lemma demo_starts:
  "\<exists>sv'. magic_entry demo_boot (Some ''/etc'') demo_server = (0, sv') \<and> no_unnamed_link (sv_world sv')"
proof -
  obtain cfg where l: "load_configuration demo_rd ''/etc'' magic_config_init = (0, cfg)" "magic_config_find_datalink cfg (Some []) = None"
    using demo_loads by blast
  have "config_wf cfg" using load_configuration_wf [OF init_wf] l(1) by (metis snd_conv)
  then have "wd_config (sv_world (booted demo_boot cfg demo_server)) = cfg" by (rule booted_inv(2) [OF demo_fresh])
  moreover have "\<not> fst (magic_cic_init demo_boot sv) < 0" for sv
    using cic_init_negative [of demo_boot sv] by (simp add: demo_boot_def)
  moreover have "bt_xml demo_boot = demo_rd" by (simp add: demo_boot_def)
  ultimately show ?thesis
    using l by (simp add: magic_entry_eq case_prod_beta Let_def no_unnamed_link_def cic_init_world)
qed


theorem start_succeeds_iff_witness:
  "fst (magic_entry (demo_boot\<lparr>bt_support := 5\<rparr>) (Some ''/etc'') demo_server) = 0 \<and>
   sv_handlers (snd (magic_entry (demo_boot\<lparr>bt_support := 5\<rparr>) (Some ''/etc'') demo_server)) = []"
proof -
  have "bt_xml demo_boot = demo_rd" "bt_dict demo_boot = (\<lambda>_. 0)" "bt_register demo_boot = (\<lambda>_. 0)" by (simp_all add: demo_boot_def)
  then show ?thesis
    using start_succeeds_iff [of "demo_boot\<lparr>bt_support := 5\<rparr>" "''/etc''" demo_server] demo_loads by (auto simp: demo_server_def)
qed

theorem shutdown_leaves_nothing_witness:
  "slots (sv_world (fd_ext_fini demo_boot demo_server)) = replicate MAX_SESSIONS False \<and> slots (sv_world demo_server) ! 0"
proof -
  have "adif_inv (wd_adif (sv_world demo_server))" by (simp add: demo_server_def demo_world_def adif_init_inv)
  moreover have "cic_inv (sv_world demo_server)" by (simp add: demo_server_def demo_world_inv)
  ultimately have "slots (sv_world (fd_ext_fini demo_boot demo_server)) = replicate MAX_SESSIONS False"
    using shutdown_leaves_nothing [of demo_server demo_boot] by (simp add: Let_def)
  moreover have "slots demo_world ! 0" using demo_sessions by (simp add: slots_def wd_session_def demo_session_def)
  ultimately show ?thesis by (simp add: demo_server_def)
qed

end
